(* ===== verification/Prelude.thy ===== *)
theory Prelude
  imports Main "HOL-Library.Word" "HOL-Library.Sublist"
    "HOL-Library.List_Lexorder" "HOL-Library.Char_ord"
begin

text \<open>
  Shared vocabulary of the development: the result type of fallible Go functions, byte
  strings and the operations of the packages \<open>strings\<close>, \<open>unicode/utf8\<close> and \<open>strconv\<close>
  that the code uses, and the generic lemmas about them.

  A Go \<open>string\<close> is a sequence of bytes and so is a HOL \<^typ>\<open>string\<close> here: one
  \<^typ>\<open>char\<close> per byte. An \<open>error\<close> return is the left side of a sum; the messages of
  \<open>errors.New\<close> and \<open>fmt.Errorf\<close> are kept as strings.
\<close>

section \<open>Hint collections\<close>

named_theorems go_text \<open>rewriting of the string operations\<close>
named_theorems go_result \<open>rewriting of the result type\<close>

section \<open>Fallible functions\<close>

type_synonym 'a result = "string + 'a"

definition and_then :: "'e + 'a \<Rightarrow> ('a \<Rightarrow> 'e + 'b) \<Rightarrow> 'e + 'b" where
  "and_then r f = (case r of Inl e \<Rightarrow> Inl e | Inr x \<Rightarrow> f x)"

definition wrap_err :: "string \<Rightarrow> 'a result \<Rightarrow> 'a result" where
  "wrap_err pre r = (case r of Inl e \<Rightarrow> Inl (pre @ e) | Inr x \<Rightarrow> Inr x)"

definition require :: "bool \<Rightarrow> 'e \<Rightarrow> 'e + unit" where
  "require b e = (if b then Inr () else Inl e)"

lemma and_then_simps [simp, go_result]:
  "and_then (Inl e) f = Inl e"
  "and_then (Inr x) f = f x"
  by (simp_all add: and_then_def)

lemma and_then_Inr [go_result]: "and_then r f = Inr y \<longleftrightarrow> (\<exists>x. r = Inr x \<and> f x = Inr y)"
  by (cases r) simp_all

lemma and_then_Inl [go_result]:
  "and_then r f = Inl e \<longleftrightarrow> r = Inl e \<or> (\<exists>x. r = Inr x \<and> f x = Inl e)"
  by (cases r) simp_all

lemma wrap_err_Inr [simp, go_result]: "wrap_err p r = Inr y \<longleftrightarrow> r = Inr y"
  by (cases r) (simp_all add: wrap_err_def)

lemma wrap_err_simps [simp, go_result]:
  "wrap_err p (Inr x) = Inr x"
  "wrap_err p (Inl e) = Inl (p @ e)"
  by (simp_all add: wrap_err_def)

lemma require_Inr [simp, go_result]: "require b e = Inr u \<longleftrightarrow> b"
  by (simp add: require_def)

lemma require_Inl [simp, go_result]: "require b e = Inl e' \<longleftrightarrow> \<not> b \<and> e' = e"
  by (auto simp: require_def)

lemma require_simps [simp]: "require True e = Inr ()" "require False e = Inl e"
  by (simp_all add: require_def)

text \<open>A loop over a slice that stops at the first error and collects the results.\<close>

fun traverse :: "('a \<Rightarrow> 'e + 'b) \<Rightarrow> 'a list \<Rightarrow> 'e + 'b list" where
  "traverse f [] = Inr []"
| "traverse f (x # xs) =
     (case f x of Inl e \<Rightarrow> Inl e
      | Inr y \<Rightarrow> (case traverse f xs of Inl e \<Rightarrow> Inl e | Inr ys \<Rightarrow> Inr (y # ys)))"

lemma traverse_Inr: "traverse f xs = Inr ys \<longleftrightarrow> list_all2 (\<lambda>x y. f x = Inr y) xs ys"
proof (induction xs arbitrary: ys)
  case Nil
  then show ?case by auto
next
  case (Cons x xs)
  show ?case
    by (cases ys) (auto simp: Cons.IH [symmetric] split: sum.splits)
qed

lemma traverse_length: "traverse f xs = Inr ys \<Longrightarrow> length ys = length xs"
  by (auto simp: traverse_Inr dest: list_all2_lengthD)

lemma traverse_fixed: "(\<And>x. x \<in> set xs \<Longrightarrow> f x = Inr x) \<Longrightarrow> traverse f xs = Inr xs"
  by (induction xs) auto

section \<open>Bytes\<close>

abbreviation byte :: "char \<Rightarrow> nat" where
  "byte c \<equiv> of_char c"

lemma byte_less [simp]: "byte c < 256"
  using of_char_mod_256 [of c, where ?'a = nat] by (metis mod_less_divisor zero_less_numeral)

definition is_digit :: "char \<Rightarrow> bool" where
  "is_digit c \<longleftrightarrow> 48 \<le> byte c \<and> byte c \<le> 57"

definition is_lower :: "char \<Rightarrow> bool" where
  "is_lower c \<longleftrightarrow> 97 \<le> byte c \<and> byte c \<le> 122"

definition is_upper :: "char \<Rightarrow> bool" where
  "is_upper c \<longleftrightarrow> 65 \<le> byte c \<and> byte c \<le> 90"

definition is_ascii :: "char \<Rightarrow> bool" where
  "is_ascii c \<longleftrightarrow> byte c < 128"

definition lower_char :: "char \<Rightarrow> char" where
  "lower_char c = (if is_upper c then char_of (byte c + 32) else c)"

definition upper_char :: "char \<Rightarrow> char" where
  "upper_char c = (if is_lower c then char_of (byte c - 32) else c)"

lemma byte_char_of [simp]: "n < 256 \<Longrightarrow> byte (char_of n) = n"
  by simp

lemma lower_char_not_upper [simp]: "\<not> is_upper (lower_char c)"
  by (auto simp: lower_char_def is_upper_def)

lemma lower_char_idem [simp]: "lower_char (lower_char c) = lower_char c"
  by (simp add: lower_char_def [of "lower_char c"])

lemma lower_char_ascii [simp]: "is_ascii (lower_char c) = is_ascii c"
  by (auto simp: lower_char_def is_ascii_def is_upper_def)


section \<open>The package strings\<close>

text \<open>
  White space of \<open>unicode.IsSpace\<close>, one byte sequence per rune: the six ASCII characters,
  U+0085, U+00A0, U+1680, U+2000 to U+200A, U+2028, U+2029, U+202F, U+205F and U+3000.
\<close>

definition space_runes :: "string list" where
  "space_runes =
     [[CHR 0x09], [CHR 0x0A], [CHR 0x0B], [CHR 0x0C], [CHR 0x0D], [CHR 0x20],
      [CHR 0xC2, CHR 0x85], [CHR 0xC2, CHR 0xA0], [CHR 0xE1, CHR 0x9A, CHR 0x80],
      [CHR 0xE2, CHR 0x80, CHR 0x80], [CHR 0xE2, CHR 0x80, CHR 0x81],
      [CHR 0xE2, CHR 0x80, CHR 0x82], [CHR 0xE2, CHR 0x80, CHR 0x83],
      [CHR 0xE2, CHR 0x80, CHR 0x84], [CHR 0xE2, CHR 0x80, CHR 0x85],
      [CHR 0xE2, CHR 0x80, CHR 0x86], [CHR 0xE2, CHR 0x80, CHR 0x87],
      [CHR 0xE2, CHR 0x80, CHR 0x88], [CHR 0xE2, CHR 0x80, CHR 0x89],
      [CHR 0xE2, CHR 0x80, CHR 0x8A], [CHR 0xE2, CHR 0x80, CHR 0xA8],
      [CHR 0xE2, CHR 0x80, CHR 0xA9], [CHR 0xE2, CHR 0x80, CHR 0xAF],
      [CHR 0xE2, CHR 0x81, CHR 0x9F], [CHR 0xE3, CHR 0x80, CHR 0x80]]"

function trim_runes :: "string list \<Rightarrow> string \<Rightarrow> string" where
  "trim_runes rs s =
     (case find (\<lambda>r. r \<noteq> [] \<and> prefix r s) rs of
        None \<Rightarrow> s
      | Some r \<Rightarrow> trim_runes rs (drop (length r) s))"
  by pat_completeness auto
termination
proof (relation "measure (\<lambda>(rs, s). length s)", goal_cases)
  case 1
  show ?case by simp
next
  case (2 rs s r)
  then have "r \<noteq> [] \<and> prefix r s"
    by (auto simp: find_Some_iff)
  then show ?case
    by (auto dest: prefix_length_le simp: length_greater_0_conv [symmetric] simp del: length_greater_0_conv)
qed

declare trim_runes.simps [simp del]

text \<open>\<open>strings.TrimSpace\<close>, byte for byte.\<close>

definition trim_space :: "string \<Rightarrow> string" where
  "trim_space s =
     rev (trim_runes (map rev space_runes) (rev (trim_runes space_runes s)))"

definition starts_with_any :: "string list \<Rightarrow> string \<Rightarrow> bool" where
  "starts_with_any rs s \<longleftrightarrow> (\<exists>r \<in> set rs. r \<noteq> [] \<and> prefix r s)"

lemma trim_runes_fixed: "\<not> starts_with_any rs s \<Longrightarrow> trim_runes rs s = s"
  by (subst trim_runes.simps)
    (auto simp: starts_with_any_def find_Some_iff find_None_iff split: option.splits)

lemma trim_runes_done: "\<not> starts_with_any rs (trim_runes rs s)"
proof (induction rs s rule: trim_runes.induct)
  case (1 rs s)
  show ?case
  proof (cases "find (\<lambda>r. r \<noteq> [] \<and> prefix r s) rs")
    case None
    then have "trim_runes rs s = s" by (subst trim_runes.simps) simp
    with None show ?thesis
      by (auto simp: starts_with_any_def find_None_iff)
  next
    case (Some r)
    from "1.IH" [OF Some] Some show ?thesis
      by (subst trim_runes.simps) simp
  qed
qed

lemma trim_runes_suffix: "suffix (trim_runes rs s) s"
proof (induction rs s rule: trim_runes.induct)
  case (1 rs s)
  show ?case
  proof (cases "find (\<lambda>r. r \<noteq> [] \<and> prefix r s) rs")
    case None
    then show ?thesis by (subst trim_runes.simps) simp
  next
    case (Some r)
    from "1.IH" [OF Some] have "suffix (trim_runes rs (drop (length r) s)) s"
      using suffix_drop suffix_order.trans by blast
    with Some show ?thesis by (subst trim_runes.simps) simp
  qed
qed

lemma starts_with_any_prefix:
  "prefix t s \<Longrightarrow> starts_with_any rs t \<Longrightarrow> starts_with_any rs s"
  by (auto simp: starts_with_any_def intro: prefix_order.trans)

definition untrimmed :: "string \<Rightarrow> bool" where
  "untrimmed s \<longleftrightarrow>
     starts_with_any space_runes s \<or> starts_with_any (map rev space_runes) (rev s)"

lemma trim_space_fixed [go_text]: "\<not> untrimmed s \<Longrightarrow> trim_space s = s"
  by (simp add: untrimmed_def trim_space_def trim_runes_fixed)

lemma trim_space_trimmed: "\<not> untrimmed (trim_space s)"
proof -
  let ?t = "trim_runes space_runes s"
  have "prefix (trim_space s) ?t"
    using trim_runes_suffix [of "map rev space_runes" "rev ?t"]
    by (simp add: trim_space_def suffix_to_prefix)
  then have "\<not> starts_with_any space_runes (trim_space s)"
    using trim_runes_done starts_with_any_prefix by blast
  moreover have "\<not> starts_with_any (map rev space_runes) (rev (trim_space s))"
    by (simp add: trim_space_def trim_runes_done)
  ultimately show ?thesis by (simp add: untrimmed_def)
qed

lemma trim_space_idem [simp]: "trim_space (trim_space s) = trim_space s"
  by (simp add: trim_space_fixed trim_space_trimmed)

lemma trim_space_Nil [simp]: "trim_space [] = []"
  by (rule trim_space_fixed) (auto simp: untrimmed_def starts_with_any_def)

text \<open>A byte that no white-space rune begins or ends with.\<close>

definition solid :: "char \<Rightarrow> bool" where
  "solid c \<longleftrightarrow> 33 \<le> byte c \<and> byte c < 128"

lemma solid_not_space_edge:
  "solid c \<Longrightarrow> r \<in> set space_runes \<Longrightarrow> r \<noteq> [] \<Longrightarrow> hd r \<noteq> c \<and> last r \<noteq> c"
  by (auto simp: space_runes_def solid_def)

lemma trim_space_solid:
  assumes "s \<noteq> []" and "solid (hd s)" and "solid (last s)"
  shows "trim_space s = s"
proof (rule trim_space_fixed)
  have "\<not> starts_with_any space_runes s"
  proof
    assume "starts_with_any space_runes s"
    then obtain r where r: "r \<in> set space_runes" "r \<noteq> []" "prefix r s"
      by (auto simp: starts_with_any_def)
    then have "hd r = hd s" by (auto simp: prefix_def)
    with solid_not_space_edge [OF assms(2) r(1,2)] show False by simp
  qed
  moreover have "\<not> starts_with_any (map rev space_runes) (rev s)"
  proof
    assume "starts_with_any (map rev space_runes) (rev s)"
    then obtain r where r: "r \<in> set space_runes" "r \<noteq> []" "suffix r s"
      by (auto simp: starts_with_any_def suffix_to_prefix)
    then have "last r = last s" by (auto simp: suffix_def)
    with solid_not_space_edge [OF assms(3) r(1,2)] show False by simp
  qed
  ultimately show "\<not> untrimmed s" by (simp add: untrimmed_def)
qed

text \<open>
  \<open>strings.ToLower\<close> and \<open>strings.ToUpper\<close>: an ASCII string takes the fast path, any other
  string goes through the Unicode case tables, which are the parameter \<open>u\<close>.
\<close>

definition to_lower :: "(string \<Rightarrow> string) \<Rightarrow> string \<Rightarrow> string" where
  "to_lower u s = (if list_all is_ascii s then map lower_char s else u s)"

definition to_upper :: "(string \<Rightarrow> string) \<Rightarrow> string \<Rightarrow> string" where
  "to_upper u s = (if list_all is_ascii s then map upper_char s else u s)"

lemma to_lower_ascii: "list_all is_ascii s \<Longrightarrow> to_lower u s = map lower_char s"
  by (simp add: to_lower_def)

lemma to_lower_lower [simp]:
  "list_all is_ascii s \<Longrightarrow> to_lower u (map lower_char s) = map lower_char s"
  by (simp add: to_lower_def list_all_iff comp_def)

text \<open>\<open>strings.Split\<close> and \<open>strings.Join\<close> for a one-byte separator.\<close>

fun split_on :: "char \<Rightarrow> string \<Rightarrow> string list" where
  "split_on d [] = [[]]"
| "split_on d (c # s) =
     (if c = d then [] # split_on d s
      else (case split_on d s of [] \<Rightarrow> [[c]] | l # ls \<Rightarrow> (c # l) # ls))"

fun join_with :: "char \<Rightarrow> string list \<Rightarrow> string" where
  "join_with d [] = []"
| "join_with d [l] = l"
| "join_with d (l # ls) = l @ d # join_with d ls"

lemma split_on_nonempty [simp]: "split_on d s \<noteq> []"
  by (induction s) (auto split: list.splits)

lemma join_with_Cons: "ls \<noteq> [] \<Longrightarrow> join_with d (l # ls) = l @ d # join_with d ls"
  by (cases ls) auto

lemma join_split [simp]: "join_with d (split_on d s) = s"
proof (induction s)
  case Nil
  then show ?case by simp
next
  case (Cons c s)
  obtain l ls where ls: "split_on d s = l # ls"
    by (cases "split_on d s") auto
  with Cons show ?case
    by (cases ls) (auto simp: join_with_Cons)
qed

lemma split_on_clean: "d \<notin> set l \<Longrightarrow> split_on d l = [l]"
  by (induction l) auto

lemma split_on_append: "d \<notin> set l \<Longrightarrow> split_on d (l @ d # s) = l # split_on d s"
  by (induction l) auto

lemma split_join:
  "ls \<noteq> [] \<Longrightarrow> (\<forall>l \<in> set ls. d \<notin> set l) \<Longrightarrow> split_on d (join_with d ls) = ls"
proof (induction d ls rule: join_with.induct)
  case (1 d)
  then show ?case by simp
next
  case (2 d l)
  then show ?case by (simp add: split_on_clean)
next
  case (3 d l m ls)
  then show ?case by (simp add: split_on_append)
qed

lemma split_on_no_sep: "l \<in> set (split_on d s) \<Longrightarrow> d \<notin> set l"
  by (induction s arbitrary: l) (auto split: list.splits if_splits)

lemma split_on_set: "l \<in> set (split_on d s) \<Longrightarrow> set l \<subseteq> set s"
proof (induction s arbitrary: l)
  case Nil
  then show ?case by simp
next
  case (Cons c s)
  then show ?case
    by (cases "split_on d s") (fastforce split: if_splits)+
qed

lemma join_chars: "c \<in> set (join_with d ls) \<Longrightarrow> c = d \<or> (\<exists>l \<in> set ls. c \<in> set l)"
  by (induction d ls rule: join_with.induct) auto

lemma join_ends:
  assumes "cs \<noteq> []" and "\<forall>l \<in> set cs. l \<noteq> []"
  shows "join_with d cs \<noteq> [] \<and> hd (join_with d cs) = hd (hd cs) \<and> last (join_with d cs) = last (last cs)"
  using assms
proof (induction d cs rule: join_with.induct)
  case (3 d l m ls)
  then show ?case by (auto simp: hd_append)
qed auto

lemma join_chars_all:
  "(\<forall>l \<in> set cs. \<forall>x \<in> set l. P x) \<Longrightarrow> P d \<Longrightarrow> \<forall>x \<in> set (join_with d cs). P x"
  by (induction d cs rule: join_with.induct) auto

lemma join_append:
  "xs \<noteq> [] \<Longrightarrow> ys \<noteq> [] \<Longrightarrow> join_with d (xs @ ys) = join_with d xs @ d # join_with d ys"
  by (induction d xs rule: join_with.induct) (auto simp: join_with_Cons)

lemma find_append: "find P (xs @ ys) = (case find P xs of None \<Rightarrow> find P ys | Some x \<Rightarrow> Some x)"
  by (induction xs) auto

text \<open>\<open>strings.TrimSuffix\<close> and \<open>strings.TrimPrefix\<close>.\<close>

definition trim_suffix :: "string \<Rightarrow> string \<Rightarrow> string" where
  "trim_suffix s suf = (if suffix suf s then take (length s - length suf) s else s)"

definition trim_prefix :: "string \<Rightarrow> string \<Rightarrow> string" where
  "trim_prefix s p = (if prefix p s then drop (length p) s else s)"

lemma trim_prefix_append [simp]: "trim_prefix (p @ s) p = s"
  by (simp add: trim_prefix_def)

lemma trim_suffix_append [simp]: "trim_suffix (s @ suf) suf = s"
  by (simp add: trim_suffix_def suffix_def)

lemma trim_suffix_no: "\<not> suffix suf s \<Longrightarrow> trim_suffix s suf = s"
  by (simp add: trim_suffix_def)


section \<open>The package unicode/utf8\<close>

definition in_bytes :: "nat \<Rightarrow> nat \<Rightarrow> char \<Rightarrow> bool" where
  "in_bytes lo hi c \<longleftrightarrow> lo \<le> byte c \<and> byte c \<le> hi"

abbreviation continuation :: "char \<Rightarrow> bool" where
  "continuation \<equiv> in_bytes 0x80 0xBF"

definition utf8_two :: "char \<Rightarrow> char \<Rightarrow> bool" where
  "utf8_two a b \<longleftrightarrow> in_bytes 0xC2 0xDF a \<and> continuation b"

definition utf8_three :: "char \<Rightarrow> char \<Rightarrow> char \<Rightarrow> bool" where
  "utf8_three a b c \<longleftrightarrow> continuation c \<and>
     (byte a = 0xE0 \<and> in_bytes 0xA0 0xBF b
      \<or> (in_bytes 0xE1 0xEC a \<or> in_bytes 0xEE 0xEF a) \<and> continuation b
      \<or> byte a = 0xED \<and> in_bytes 0x80 0x9F b)"

definition utf8_four :: "char \<Rightarrow> char \<Rightarrow> char \<Rightarrow> char \<Rightarrow> bool" where
  "utf8_four a b c d \<longleftrightarrow> continuation c \<and> continuation d \<and>
     (byte a = 0xF0 \<and> in_bytes 0x90 0xBF b
      \<or> in_bytes 0xF1 0xF3 a \<and> continuation b
      \<or> byte a = 0xF4 \<and> in_bytes 0x80 0x8F b)"

text \<open>
  \<open>rune_rest\<close> drops the first rune of a string when it is well formed: no overlong forms, no
  surrogates, nothing above U+10FFFF. \<open>utf8.ValidString\<close> repeats that to the end.
\<close>

fun rune_rest :: "string \<Rightarrow> string option" where
  "rune_rest [] = None"
| "rune_rest (a # s) =
     (if is_ascii a then Some s
      else (case s of [] \<Rightarrow> None
        | b # s1 \<Rightarrow> if utf8_two a b then Some s1
        else (case s1 of [] \<Rightarrow> None
        | c # s2 \<Rightarrow> if utf8_three a b c then Some s2
        else (case s2 of [] \<Rightarrow> None
        | d # s3 \<Rightarrow> if utf8_four a b c d then Some s3 else None))))"

lemma rune_rest_suffix: "rune_rest s = Some r \<Longrightarrow> \<exists>x. x \<noteq> [] \<and> length x \<le> 4 \<and> s = x @ r"
  by (cases s)
    (auto split: if_splits list.splits
      intro: exI [of _ "[_]"] exI [of _ "[_, _]"] exI [of _ "[_, _, _]"] exI [of _ "[_, _, _, _]"])

lemma rune_rest_less: "rune_rest s = Some r \<Longrightarrow> length r < length s"
  using rune_rest_suffix by fastforce

lemma rune_rest_append: "rune_rest s = Some r \<Longrightarrow> rune_rest (s @ t) = Some (r @ t)"
  by (cases s) (auto split: if_splits list.splits)

declare rune_rest.simps [simp del]

function valid_utf8 :: "string \<Rightarrow> bool" where
  "valid_utf8 s \<longleftrightarrow>
     (case s of [] \<Rightarrow> True
      | _ # _ \<Rightarrow> (case rune_rest s of None \<Rightarrow> False | Some r \<Rightarrow> valid_utf8 r))"
  by pat_completeness auto
termination by (relation "measure length") (auto dest: rune_rest_less)

declare valid_utf8.simps [simp del]

lemma valid_utf8_Nil [simp]: "valid_utf8 []"
  by (simp add: valid_utf8.simps)

lemma valid_utf8_rest:
  "s \<noteq> [] \<Longrightarrow> valid_utf8 s \<longleftrightarrow> (\<exists>r. rune_rest s = Some r \<and> valid_utf8 r)"
  by (subst valid_utf8.simps) (auto split: list.splits option.splits)

lemma valid_utf8_ascii_Cons [simp]: "is_ascii c \<Longrightarrow> valid_utf8 (c # s) = valid_utf8 s"
  by (simp add: valid_utf8_rest rune_rest.simps)

lemma valid_utf8_ascii: "list_all is_ascii s \<Longrightarrow> valid_utf8 s"
  by (induction s) auto

lemma valid_utf8_append: "valid_utf8 a \<Longrightarrow> valid_utf8 (a @ b) = valid_utf8 b"
proof (induction a rule: valid_utf8.induct)
  case (1 s)
  show ?case
  proof (cases s)
    case (Cons c t)
    with "1.prems" obtain r where r: "rune_rest s = Some r" "valid_utf8 r"
      by (auto simp: valid_utf8_rest)
    with "1.IH" Cons have "valid_utf8 (r @ b) = valid_utf8 b" by blast
    moreover have "valid_utf8 (s @ b) = valid_utf8 (r @ b)"
      using Cons rune_rest_append [OF r(1)] by (simp add: valid_utf8_rest)
    ultimately show ?thesis by simp
  qed simp
qed

section \<open>The package strconv: decimal numbers\<close>

definition digit_char :: "nat \<Rightarrow> char" where
  "digit_char d = char_of (48 + d)"

definition digit_val :: "char \<Rightarrow> nat" where
  "digit_val c = byte c - 48"

lemma digit_char_digit [simp]: "d < 10 \<Longrightarrow> is_digit (digit_char d)"
  by (simp add: digit_char_def is_digit_def)

lemma digit_val_char [simp]: "d < 10 \<Longrightarrow> digit_val (digit_char d) = d"
  by (simp add: digit_char_def digit_val_def)

fun nat_to_dec :: "nat \<Rightarrow> string" where
  "nat_to_dec n =
     (if n < 10 then [digit_char n] else nat_to_dec (n div 10) @ [digit_char (n mod 10)])"

declare nat_to_dec.simps [simp del]

lemmas nat_to_dec_small [simp] = nat_to_dec.simps [of "numeral k" for k]

definition dec_to_nat :: "string \<Rightarrow> nat" where
  "dec_to_nat s = foldl (\<lambda>n c. 10 * n + digit_val c) 0 s"

lemma nat_to_dec_digits: "list_all is_digit (nat_to_dec n)"
proof (induction n rule: nat_to_dec.induct)
  case (1 n)
  then show ?case by (subst nat_to_dec.simps) auto
qed

lemma nat_to_dec_nonempty [simp]: "nat_to_dec n \<noteq> []"
  by (subst nat_to_dec.simps) simp

lemma dec_to_nat_to_dec [simp]: "dec_to_nat (nat_to_dec n) = n"
proof (induction n rule: nat_to_dec.induct)
  case (1 n)
  show ?case
  proof (cases "n < 10")
    case True
    then show ?thesis by (subst nat_to_dec.simps) (simp add: dec_to_nat_def)
  next
    case False
    with "1.IH" have "dec_to_nat (nat_to_dec (n div 10)) = n div 10" by simp
    with False show ?thesis
      by (subst nat_to_dec.simps) (simp add: dec_to_nat_def)
  qed
qed

lemma nat_to_dec_inject [simp]: "nat_to_dec m = nat_to_dec n \<longleftrightarrow> m = n"
  by (metis dec_to_nat_to_dec)

text \<open>\<open>strconv.Itoa\<close> on a 64-bit \<open>int\<close>.\<close>

definition itoa :: "int \<Rightarrow> string" where
  "itoa i = (if i < 0 then ''-'' @ nat_to_dec (nat (- i)) else nat_to_dec (nat i))"

definition max_int64 :: int where
  "max_int64 = 9223372036854775807"

definition min_int64 :: int where
  "min_int64 = - 9223372036854775808"

text \<open>
  \<open>strconv.Atoi\<close> and \<open>strconv.ParseInt\<close> in base 10 with 64 bits: an optional sign, then
  digits only, and a value in range. The result is \<^const>\<open>None\<close> where Go returns an error.
\<close>

definition parse_int64 :: "string \<Rightarrow> int option" where
  "parse_int64 s =
     (let (neg, ds) =
        (case s of [] \<Rightarrow> (False, [])
         | c # t \<Rightarrow> if c = CHR ''-'' then (True, t) else if c = CHR ''+'' then (False, t) else (False, s));
        v = (if neg then - int (dec_to_nat ds) else int (dec_to_nat ds))
      in if ds \<noteq> [] \<and> list_all is_digit ds \<and> min_int64 \<le> v \<and> v \<le> max_int64
         then Some v else None)"

lemma digit_not_sign: "is_digit c \<Longrightarrow> c \<noteq> CHR ''-'' \<and> c \<noteq> CHR ''+''"
  by (auto simp: is_digit_def)

lemma parse_int64_digits:
  assumes "ds \<noteq> []" and "list_all is_digit ds"
  shows "parse_int64 ds = (if int (dec_to_nat ds) \<le> max_int64 then Some (int (dec_to_nat ds)) else None)"
proof -
  obtain c t where ds: "ds = c # t" using assms(1) by (cases ds) auto
  with assms(2) digit_not_sign [of c] show ?thesis
    by (auto simp: parse_int64_def min_int64_def)
qed

lemma parse_int64_itoa: "min_int64 \<le> i \<Longrightarrow> i \<le> max_int64 \<Longrightarrow> parse_int64 (itoa i) = Some i"
proof (cases "i < 0")
  case True
  assume "min_int64 \<le> i" and "i \<le> max_int64"
  with True show ?thesis
    by (simp add: itoa_def parse_int64_def nat_to_dec_digits)
next
  case False
  assume "i \<le> max_int64"
  with False show ?thesis
    by (simp add: itoa_def parse_int64_digits nat_to_dec_digits)
qed

section \<open>Sets kept as the loop's seen map\<close>

text \<open>
  The code detects duplicates with a map filled while it walks a slice. \<open>first_duplicate\<close> is
  that walk over the keys; it finds one exactly when the keys are not distinct.
\<close>

fun has_duplicate :: "'a list \<Rightarrow> 'a list \<Rightarrow> bool" where
  "has_duplicate seen [] = False"
| "has_duplicate seen (k # ks) = (k \<in> set seen \<or> has_duplicate (k # seen) ks)"

lemma has_duplicate_iff:
  "has_duplicate seen ks \<longleftrightarrow> \<not> distinct ks \<or> set seen \<inter> set ks \<noteq> {}"
  by (induction ks arbitrary: seen) auto

end
