(* ===== verification/Provider_Types.thy ===== *)
theory Provider_Types
  imports Prelude
begin

text \<open>
  The data model of \<open>internal/provider/types.go\<close>: zones, record sets, their entries and
  provider extensions, pages, account configuration and preconditions. A pointer field is
  an \<open>option\<close>, an unsigned integer keeps its width, \<open>json.RawMessage\<close> is its bytes.
  \<open>RecordType\<close> is a string type whose nine constants are the constructors; any other
  string is \<open>RecordTypeOther\<close>.
\<close>

type_synonym ProviderType = string

text \<open>Instants are nanoseconds since Go's zero time; durations are nanoseconds.\<close>

type_synonym time = int

type_synonym duration = int

type_synonym uuid = string

section \<open>Record types\<close>

datatype RecordType =
    RecordTypeA | RecordTypeAAAA | RecordTypeCNAME | RecordTypeTXT | RecordTypeMX
  | RecordTypeNS | RecordTypeSRV | RecordTypeCAA | RecordTypeSOA
  | RecordTypeOther string

definition CoreRecordTypes :: "RecordType list" where
  "CoreRecordTypes =
     [RecordTypeA, RecordTypeAAAA, RecordTypeCNAME, RecordTypeTXT, RecordTypeMX,
      RecordTypeNS, RecordTypeSRV, RecordTypeCAA, RecordTypeSOA]"

fun record_type_valid :: "RecordType \<Rightarrow> bool" where
  "record_type_valid (RecordTypeOther _) = False"
| "record_type_valid _ = True"

fun record_type_string :: "RecordType \<Rightarrow> string" where
  "record_type_string RecordTypeA = ''A''"
| "record_type_string RecordTypeAAAA = ''AAAA''"
| "record_type_string RecordTypeCNAME = ''CNAME''"
| "record_type_string RecordTypeTXT = ''TXT''"
| "record_type_string RecordTypeMX = ''MX''"
| "record_type_string RecordTypeNS = ''NS''"
| "record_type_string RecordTypeSRV = ''SRV''"
| "record_type_string RecordTypeCAA = ''CAA''"
| "record_type_string RecordTypeSOA = ''SOA''"
| "record_type_string (RecordTypeOther s) = s"

definition record_type_of_string :: "string \<Rightarrow> RecordType" where
  "record_type_of_string s =
     (case find (\<lambda>t. record_type_string t = s) CoreRecordTypes of
        Some t \<Rightarrow> t | None \<Rightarrow> RecordTypeOther s)"

lemma record_type_valid_iff: "record_type_valid t \<longleftrightarrow> t \<in> set CoreRecordTypes"
  by (cases t) (simp_all add: CoreRecordTypes_def)

lemma record_type_of_string_valid [simp]:
  "record_type_valid t \<Longrightarrow> record_type_of_string (record_type_string t) = t"
  by (cases t) (simp_all add: record_type_of_string_def CoreRecordTypes_def)

lemma record_type_string_inj:
  "record_type_valid t \<Longrightarrow> record_type_valid u \<Longrightarrow>
     record_type_string t = record_type_string u \<Longrightarrow> t = u"
  by (metis record_type_of_string_valid)

section \<open>Extensions\<close>

record cloudflare_zone_ext = cfz_Paused :: "bool option"

record huawei_zone_ext = hwz_ZoneType :: string

record aliyun_zone_ext = alz_GroupID :: string

record tencent_zone_ext = tcz_Grade :: string

record zone_extensions =
  zx_Cloudflare :: "cloudflare_zone_ext option"
  zx_Huawei :: "huawei_zone_ext option"
  zx_Aliyun :: "aliyun_zone_ext option"
  zx_Tencent :: "tencent_zone_ext option"

record cloudflare_set_ext =
  cfs_Proxied :: "bool option"
  cfs_Proxiable :: "bool option"
  cfs_AutomaticTTL :: "bool option"
  cfs_Comment :: string
  cfs_Tags :: "string list"

record huawei_set_ext =
  hws_Status :: string
  hws_ProviderStatus :: string
  hws_Default :: "bool option"

record aliyun_set_ext = als_Status :: string

record tencent_set_ext =
  tcs_Status :: string
  tcs_Default :: "bool option"

record record_set_extensions =
  sx_Cloudflare :: "cloudflare_set_ext option"
  sx_Huawei :: "huawei_set_ext option"
  sx_Aliyun :: "aliyun_set_ext option"
  sx_Tencent :: "tencent_set_ext option"

record huawei_entry_ext =
  hwe_Line :: string
  hwe_Weight :: "16 word option"

record aliyun_entry_ext =
  ale_Line :: string
  ale_Status :: string
  ale_Weight :: "16 word option"
  ale_Remark :: string

record tencent_entry_ext =
  tce_Line :: string
  tce_LineID :: string
  tce_Weight :: "16 word option"
  tce_Status :: string
  tce_Remark :: string

text \<open>\<open>CloudflareRecordEntryExtensions\<close> has no field, so only its presence is data.\<close>

record record_entry_extensions =
  ex_Cloudflare :: "unit option"
  ex_Huawei :: "huawei_entry_ext option"
  ex_Aliyun :: "aliyun_entry_ext option"
  ex_Tencent :: "tencent_entry_ext option"

section \<open>Zones, record sets, entries\<close>

record zone =
  zone_ID :: string
  zone_Name :: string
  zone_Status :: string
  zone_Nameservers :: "string list"
  zone_Extensions :: zone_extensions

record record_entry =
  re_ID :: string
  re_Value :: string
  re_Priority :: "16 word option"
  re_Weight :: "16 word option"
  re_Port :: "16 word option"
  re_Target :: "string option"
  re_Flags :: "8 word option"
  re_Tag :: "string option"
  re_Extensions :: record_entry_extensions

record record_set =
  rs_ID :: string
  rs_Name :: string
  rs_Type :: RecordType
  rs_TTL :: "32 word"
  rs_Entries :: "record_entry list"
  rs_Extensions :: record_set_extensions
  rs_ProviderVersion :: string
  rs_Fingerprint :: string

record create_input =
  ci_Name :: string
  ci_Type :: RecordType
  ci_TTL :: "32 word"
  ci_Entries :: "record_entry list"
  ci_Extensions :: record_set_extensions

record precondition =
  pc_ExpectedFingerprint :: string
  pc_ProviderVersion :: string

record update_input =
  ui_Desired :: create_input
  ui_Precondition :: precondition

definition no_zone_extensions :: zone_extensions where
  "no_zone_extensions =
     \<lparr>zx_Cloudflare = None, zx_Huawei = None, zx_Aliyun = None, zx_Tencent = None\<rparr>"

definition no_set_extensions :: record_set_extensions where
  "no_set_extensions =
     \<lparr>sx_Cloudflare = None, sx_Huawei = None, sx_Aliyun = None, sx_Tencent = None\<rparr>"

definition no_entry_extensions :: record_entry_extensions where
  "no_entry_extensions =
     \<lparr>ex_Cloudflare = None, ex_Huawei = None, ex_Aliyun = None, ex_Tencent = None\<rparr>"

text \<open>The zero values of \<open>RecordEntry\<close> and \<open>RecordSet\<close>.\<close>

definition empty_entry :: record_entry where
  "empty_entry =
     \<lparr>re_ID = [], re_Value = [], re_Priority = None, re_Weight = None, re_Port = None,
      re_Target = None, re_Flags = None, re_Tag = None, re_Extensions = no_entry_extensions\<rparr>"

section \<open>Pages and accounts\<close>

record page_request =
  pr_Cursor :: string
  pr_Limit :: int

record 'a page =
  pg_Items :: "'a list"
  pg_NextCursor :: string

record account_config =
  ac_ID :: string
  ac_Type :: ProviderType
  ac_Name :: string
  ac_Options :: string
  ac_CredentialRevision :: "64 word"

end
