(* ===== verification/Provider_Errors.thy ===== *)
theory Provider_Errors
  imports Provider_Types
begin

text \<open>
  Normalised provider errors, \<open>internal/provider/errors.go\<close>. A Go \<open>error\<close> value is a
  \<open>go_error\<close>: what \<open>errors.As\<close> and \<open>errors.Is\<close> can find in its chain is part of the value.
  \<open>NewError\<close> replaces an unknown code by \<open>upstream\<close>, negative delays by 0 and request IDs
  outside the safe pattern by the empty string; \<open>MapError\<close> does the same to any error.
\<close>

section \<open>Codes\<close>

datatype ErrorCode =
    ErrAuthentication | ErrForbidden | ErrNotFound | ErrConflict | ErrRateLimited
  | ErrUnsupported | ErrValidation | ErrTimeout | ErrUpstream
  | ErrOther string

fun error_code_valid :: "ErrorCode \<Rightarrow> bool" where
  "error_code_valid (ErrOther _) = False"
| "error_code_valid _ = True"

fun error_code_string :: "ErrorCode \<Rightarrow> string" where
  "error_code_string ErrAuthentication = ''authentication''"
| "error_code_string ErrForbidden = ''forbidden''"
| "error_code_string ErrNotFound = ''not_found''"
| "error_code_string ErrConflict = ''conflict''"
| "error_code_string ErrRateLimited = ''rate_limited''"
| "error_code_string ErrUnsupported = ''unsupported''"
| "error_code_string ErrValidation = ''validation''"
| "error_code_string ErrTimeout = ''timeout''"
| "error_code_string ErrUpstream = ''upstream''"
| "error_code_string (ErrOther s) = s"

fun defaultSafeMessage :: "ErrorCode \<Rightarrow> string" where
  "defaultSafeMessage ErrAuthentication = ''DNS provider credentials were rejected.''"
| "defaultSafeMessage ErrForbidden = ''DNS provider credentials do not permit this operation.''"
| "defaultSafeMessage ErrNotFound = ''The DNS provider resource was not found.''"
| "defaultSafeMessage ErrConflict = ''The DNS provider state changed. Refresh and try again.''"
| "defaultSafeMessage ErrRateLimited = ''The DNS provider temporarily rate limited this account.''"
| "defaultSafeMessage ErrUnsupported = ''The DNS provider does not support this operation.''"
| "defaultSafeMessage ErrValidation = ''The DNS provider rejected the requested DNS data.''"
| "defaultSafeMessage ErrTimeout = ''The DNS provider request timed out.''"
| "defaultSafeMessage _ = ''The DNS provider request failed.''"

section \<open>Error values\<close>

text \<open>
  The cause of a \<open>ProviderError\<close> is another error. \<open>ContextDone\<close> stands for a chain with
  \<open>context.DeadlineExceeded\<close> or \<open>context.Canceled\<close> in it, \<open>NetError b\<close> for a
  \<open>net.Error\<close> whose \<open>Timeout()\<close> is \<open>b\<close>, \<open>PlainError\<close> for every other error.
\<close>

datatype 'c provider_error_core =
  ProviderError
    (pe_Code: ErrorCode)
    (pe_SafeMessage: string)
    (pe_ProviderRequestID: string)
    (pe_RetryAfter: duration)
    (pe_Operation: string)
    (pe_cause: 'c)

datatype go_error =
    ProviderErr "go_error option provider_error_core"
  | ContextDone string
  | NetError bool string
  | PlainError string

type_synonym provider_error = "go_error option provider_error_core"

section \<open>Request identifiers\<close>

definition request_id_first :: "char \<Rightarrow> bool" where
  "request_id_first c \<longleftrightarrow> is_upper c \<or> is_lower c \<or> is_digit c"

definition request_id_rest :: "char \<Rightarrow> bool" where
  "request_id_rest c \<longleftrightarrow> request_id_first c \<or> c \<in> set ''._:-''"

text \<open>The pattern \<open>^[A-Za-z0-9][A-Za-z0-9._:-]{0,255}$\<close>.\<close>

definition provider_request_id_ok :: "string \<Rightarrow> bool" where
  "provider_request_id_ok s \<longleftrightarrow>
     (case s of [] \<Rightarrow> False
      | c # t \<Rightarrow> request_id_first c \<and> list_all request_id_rest t \<and> length t \<le> 255)"

definition safeProviderRequestID :: "string \<Rightarrow> string" where
  "safeProviderRequestID r = (if provider_request_id_ok r then r else [])"

section \<open>Operations\<close>

definition NewError ::
  "ErrorCode \<Rightarrow> string \<Rightarrow> string \<Rightarrow> duration \<Rightarrow> go_error option \<Rightarrow> provider_error" where
  "NewError code operation requestID retryAfter cause =
     (let code' = (if error_code_valid code then code else ErrUpstream) in
      ProviderError code' (defaultSafeMessage code') (safeProviderRequestID requestID)
        (if retryAfter < 0 then 0 else retryAfter) operation cause)"

definition provider_error_message :: "provider_error option \<Rightarrow> string" where
  "provider_error_message p =
     (case p of None \<Rightarrow> defaultSafeMessage ErrUpstream
      | Some e \<Rightarrow> if pe_SafeMessage e \<noteq> [] then pe_SafeMessage e else defaultSafeMessage (pe_Code e))"

fun MapError :: "go_error option \<Rightarrow> string \<Rightarrow> provider_error option" where
  "MapError None operation = None"
| "MapError (Some (ProviderErr e)) operation =
     (let code = (if error_code_valid (pe_Code e) then pe_Code e else ErrUpstream) in
      Some (ProviderError code (defaultSafeMessage code)
             (safeProviderRequestID (pe_ProviderRequestID e))
             (if pe_RetryAfter e < 0 then 0 else pe_RetryAfter e)
             (if pe_Operation e = [] then operation else pe_Operation e)
             (pe_cause e)))"
| "MapError (Some (ContextDone m)) operation =
     Some (NewError ErrTimeout operation [] 0 (Some (ContextDone m)))"
| "MapError (Some (NetError timeout m)) operation =
     Some (NewError (if timeout then ErrTimeout else ErrUpstream) operation [] 0
             (Some (NetError timeout m)))"
| "MapError (Some (PlainError m)) operation =
     Some (NewError ErrUpstream operation [] 0 (Some (PlainError m)))"

record public_error =
  pub_Code :: "ErrorCode option"
  pub_Message :: string
  pub_ProviderRequestID :: string
  pub_RetryAfter :: duration

definition SafeError :: "go_error option \<Rightarrow> public_error" where
  "SafeError err =
     (case MapError err [] of
        None \<Rightarrow> \<lparr>pub_Code = None, pub_Message = [], pub_ProviderRequestID = [], pub_RetryAfter = 0\<rparr>
      | Some m \<Rightarrow> \<lparr>pub_Code = Some (pe_Code m), pub_Message = provider_error_message (Some m),
                   pub_ProviderRequestID = pe_ProviderRequestID m, pub_RetryAfter = pe_RetryAfter m\<rparr>)"

definition IsErrorCode :: "go_error option \<Rightarrow> ErrorCode \<Rightarrow> bool" where
  "IsErrorCode err code =
     (case MapError err [] of None \<Rightarrow> False | Some m \<Rightarrow> pe_Code m = code)"

text \<open>
  \<open>ReadRetryDelay\<close>; \<open>rnd span\<close> is the random \<open>rand.Uint64N(span + 1)\<close>, a number from 0
  to \<open>span\<close>. Go divides positive durations, so \<open>div\<close> truncates as the code does.
\<close>

definition ReadRetryDelay ::
  "(nat \<Rightarrow> nat) \<Rightarrow> duration \<Rightarrow> duration \<Rightarrow> duration \<Rightarrow> duration \<times> bool" where
  "ReadRetryDelay rnd base retryAfter maximum =
     (if base \<le> 0 \<or> maximum \<le> 0 \<or> retryAfter < 0 \<or> retryAfter > maximum then (0, False)
      else
        (let base' = (if base > maximum then maximum else base);
             half = base' div 2;
             span = base' - half;
             jittered = (if span > 0 then half + int (rnd (nat span)) else half)
         in (if retryAfter > jittered then retryAfter else jittered, True)))"

section \<open>Properties\<close>

lemma safeProviderRequestID_idem [simp]:
  "safeProviderRequestID (safeProviderRequestID r) = safeProviderRequestID r"
  by (simp add: safeProviderRequestID_def)

lemma safeProviderRequestID_Nil [simp]: "safeProviderRequestID [] = []"
  by (simp add: safeProviderRequestID_def)

text \<open>What every error that leaves \<open>NewError\<close> or \<open>MapError\<close> satisfies.\<close>

definition normalised_error :: "provider_error \<Rightarrow> bool" where
  "normalised_error e \<longleftrightarrow> error_code_valid (pe_Code e) \<and>
     pe_SafeMessage e = defaultSafeMessage (pe_Code e) \<and>
     (pe_ProviderRequestID e = [] \<or> provider_request_id_ok (pe_ProviderRequestID e)) \<and>
     0 \<le> pe_RetryAfter e"

lemma NewError_normalised: "normalised_error (NewError c op r d cause)"
  by (simp add: NewError_def normalised_error_def Let_def safeProviderRequestID_def)

lemma MapError_normalised: "MapError err op = Some e \<Longrightarrow> normalised_error e"
  by (cases "(err, op)" rule: MapError.cases)
    (auto simp: normalised_error_def Let_def safeProviderRequestID_def NewError_def)

lemma MapError_fixed:
  "normalised_error e \<Longrightarrow> pe_Operation e \<noteq> [] \<Longrightarrow> MapError (Some (ProviderErr e)) op = Some e"
  by (cases e) (auto simp: normalised_error_def safeProviderRequestID_def)

lemma MapError_NewError:
  "op \<noteq> [] \<Longrightarrow> MapError (Some (ProviderErr (NewError c op r d cause))) op' = Some (NewError c op r d cause)"
  by (rule MapError_fixed) (simp_all add: NewError_normalised, simp add: NewError_def Let_def)

lemma NewError_code [simp]: "error_code_valid c \<Longrightarrow> pe_Code (NewError c op r d cause) = c"
  by (simp add: NewError_def)

lemma NewError_operation [simp]: "pe_Operation (NewError c op r d cause) = op"
  by (simp add: NewError_def Let_def)

lemma defaultSafeMessage_nonempty [simp]: "defaultSafeMessage c \<noteq> []"
  by (cases c) simp_all

end
