(* ===== verification/Base64.thy ===== *)
theory Base64
  imports Prelude
begin

text \<open>
  \<open>base64.RawURLEncoding\<close> of the Go library, which the code uses for page cursors, session
  tokens and fingerprints: the URL alphabet, no padding. As in Go, the decoder skips carriage
  returns and line feeds and ignores the unused low bits of the last character.
\<close>

section \<open>Alphabet\<close>

definition b64_char :: "nat \<Rightarrow> char" where
  "b64_char v =
     (if v < 26 then char_of (65 + v)
      else if v < 52 then char_of (71 + v)
      else if v < 62 then char_of (v - 4)
      else if v = 62 then CHR ''-'' else CHR ''_'')"

definition b64_val :: "char \<Rightarrow> nat option" where
  "b64_val c =
     (if is_upper c then Some (byte c - 65)
      else if is_lower c then Some (byte c - 71)
      else if is_digit c then Some (byte c + 4)
      else if c = CHR ''-'' then Some 62
      else if c = CHR ''_'' then Some 63 else None)"

lemma b64_val_char [simp]:
  assumes "v < 64"
  shows "b64_val (b64_char v) = Some v"
proof -
  consider "v < 26" | "26 \<le> v \<and> v < 52" | "52 \<le> v \<and> v < 62" | "v = 62" | "v = 63"
    using assms by linarith
  then show ?thesis
    by cases (auto simp: b64_char_def b64_val_def is_upper_def is_lower_def is_digit_def)
qed

lemma b64_val_bound: "b64_val c = Some v \<Longrightarrow> v < 64"
  by (auto simp: b64_val_def is_upper_def is_lower_def is_digit_def split: if_splits)

lemma b64_val_crlf [simp]: "b64_val (CHR 0x0D) = None" "b64_val (CHR 0x0A) = None"
  by (simp_all add: b64_val_def is_upper_def is_lower_def is_digit_def)

section \<open>Encoding and decoding\<close>

fun b64_encode :: "string \<Rightarrow> string" where
  "b64_encode [] = []"
| "b64_encode [a] = [b64_char (byte a div 4), b64_char (byte a mod 4 * 16)]"
| "b64_encode [a, b] =
     [b64_char (byte a div 4), b64_char (byte a mod 4 * 16 + byte b div 16),
      b64_char (byte b mod 16 * 4)]"
| "b64_encode (a # b # c # s) =
     b64_char (byte a div 4) # b64_char (byte a mod 4 * 16 + byte b div 16)
     # b64_char (byte b mod 16 * 4 + byte c div 64) # b64_char (byte c mod 64)
     # b64_encode s"

fun b64_quads :: "nat list \<Rightarrow> string option" where
  "b64_quads [] = Some []"
| "b64_quads [w] = None"
| "b64_quads [w, x] = Some [char_of (w * 4 + x div 16)]"
| "b64_quads [w, x, y] = Some [char_of (w * 4 + x div 16), char_of (x mod 16 * 16 + y div 4)]"
| "b64_quads (w # x # y # z # vs) =
     map_option (\<lambda>s. char_of (w * 4 + x div 16) # char_of (x mod 16 * 16 + y div 4)
                    # char_of (y mod 4 * 64 + z) # s) (b64_quads vs)"

definition b64_decode :: "string \<Rightarrow> string option" where
  "b64_decode s =
     (let cs = filter (\<lambda>c. c \<noteq> CHR 0x0D \<and> c \<noteq> CHR 0x0A) s
      in if list_all (\<lambda>c. b64_val c \<noteq> None) cs then b64_quads (map (the \<circ> b64_val) cs) else None)"

section \<open>Round trip\<close>

lemma b64_encode_alphabet: "c \<in> set (b64_encode s) \<Longrightarrow> \<exists>v. v < 64 \<and> c = b64_char v"
proof (induction s rule: b64_encode.induct)
  case (2 a)
  have "byte a div 4 < 64" "byte a mod 4 * 16 < 64" using byte_less [of a] by linarith+
  with 2 show ?case by (auto intro: exI [of _ "byte a mod 4 * 16"])
next
  case (3 a b)
  have "byte a div 4 < 64" "byte a mod 4 * 16 + byte b div 16 < 64" "byte b mod 16 * 4 < 64"
    using byte_less [of a] byte_less [of b] by linarith+
  with 3 show ?case
    by (auto intro: exI [of _ "byte a mod 4 * 16 + byte b div 16"] exI [of _ "byte b mod 16 * 4"])
next
  case (4 a b c s)
  have "byte a div 4 < 64" "byte a mod 4 * 16 + byte b div 16 < 64"
    "byte b mod 16 * 4 + byte c div 64 < 64" "byte c mod 64 < 64"
    using byte_less [of a] byte_less [of b] byte_less [of c] by linarith+
  with 4 show ?case
    by (auto intro: exI [of _ "byte a mod 4 * 16 + byte b div 16"]
        exI [of _ "byte b mod 16 * 4 + byte c div 64"] exI [of _ "byte c mod 64"])
qed simp

lemma b64_encode_val: "c \<in> set (b64_encode s) \<Longrightarrow> b64_val c \<noteq> None"
  using b64_encode_alphabet by force

lemma byte_recombine:
  "char_of (byte a div 4 * 4 + (byte a mod 4 * 16 + byte b div 16) div 16) = a"
  "char_of (byte a div 4 * 4 + (byte a mod 4 * 16) div 16) = a"
  "char_of ((byte a mod 4 * 16 + byte b div 16) mod 16 * 16 + (byte b mod 16 * 4 + byte c div 64) div 4) = b"
  "char_of ((byte a mod 4 * 16 + byte b div 16) mod 16 * 16 + (byte b mod 16 * 4) div 4) = b"
  "char_of ((byte b mod 16 * 4 + byte c div 64) mod 4 * 64 + byte c mod 64) = c"
proof -
  have ab: "byte a < 256" "byte b < 256" "byte c < 256" by simp_all
  have "(byte a mod 4 * 16 + byte b div 16) div 16 = byte a mod 4"
    using ab by (simp add: div_mult2_eq [symmetric])
  then show "char_of (byte a div 4 * 4 + (byte a mod 4 * 16 + byte b div 16) div 16) = a"
    by simp
  have "byte a div 4 * 4 + (byte a mod 4 * 16) div 16 = byte a" by simp
  then show "char_of (byte a div 4 * 4 + (byte a mod 4 * 16) div 16) = a" by simp
  have b16: "byte b div 16 < 16" and c64: "byte c div 64 < 4" using ab by linarith+
  have "(byte a mod 4 * 16 + byte b div 16) mod 16 = byte b div 16" using b16 by simp
  moreover have "(byte b mod 16 * 4 + byte c div 64) div 4 = byte b mod 16" using ab by linarith
  ultimately show "char_of ((byte a mod 4 * 16 + byte b div 16) mod 16 * 16
      + (byte b mod 16 * 4 + byte c div 64) div 4) = b" by simp
  show "char_of ((byte a mod 4 * 16 + byte b div 16) mod 16 * 16 + (byte b mod 16 * 4) div 4) = b"
    using b16 by simp
  have "(byte b mod 16 * 4 + byte c div 64) mod 4 = byte c div 64" using c64 by simp
  then show "char_of ((byte b mod 16 * 4 + byte c div 64) mod 4 * 64 + byte c mod 64) = c" by simp
qed

lemma b64_quads_encode: "b64_quads (map (the \<circ> b64_val) (b64_encode s)) = Some s"
proof (induction s rule: b64_encode.induct)
  case 1
  then show ?case by simp
next
  case (2 a)
  have "byte a div 4 < 64" "byte a mod 4 * 16 < 64" using byte_less [of a] by linarith+
  then show ?case using byte_recombine(2) [of a] by simp
next
  case (3 a b)
  have "byte a div 4 < 64" "byte a mod 4 * 16 + byte b div 16 < 64" "byte b mod 16 * 4 < 64"
    using byte_less [of a] byte_less [of b] by linarith+
  then show ?case using byte_recombine(1) [of a b] byte_recombine(4) [of a b] by simp
next
  case (4 a b c s)
  have "byte a div 4 < 64" "byte a mod 4 * 16 + byte b div 16 < 64"
    "byte b mod 16 * 4 + byte c div 64 < 64" "byte c mod 64 < 64"
    using byte_less [of a] byte_less [of b] byte_less [of c] by linarith+
  then show ?case
    using 4 byte_recombine(1) [of a b] byte_recombine(3) [of a b c] byte_recombine(5) [of b c] by simp
qed

lemma b64_round_trip: "b64_decode (b64_encode s) = Some s"
proof -
  have "filter (\<lambda>c. c \<noteq> CHR 0x0D \<and> c \<noteq> CHR 0x0A) (b64_encode s) = b64_encode s"
    using b64_encode_val by (fastforce simp: filter_id_conv)
  moreover have "list_all (\<lambda>c. b64_val c \<noteq> None) (b64_encode s)"
    using b64_encode_val by (simp add: list_all_iff)
  ultimately show ?thesis by (simp add: b64_decode_def b64_quads_encode)
qed

lemma b64_encode_inject [simp]: "b64_encode s = b64_encode t \<longleftrightarrow> s = t"
  by (metis b64_round_trip option.inject)

lemma b64_encode_Nil_iff [simp]: "b64_encode s = [] \<longleftrightarrow> s = []"
  by (cases s rule: b64_encode.cases) simp_all

lemma b64_encode_length: "length (b64_encode s) = (4 * length s + 2) div 3"
  by (induction s rule: b64_encode.induct) simp_all

end
