(* ===== verification/Sha256.thy ===== *)
theory Sha256
  imports Prelude
begin

text \<open>
  \<open>crypto/sha256\<close>: \<open>Sum256\<close> (FIPS 180-4) on byte strings, with 32-bit words. The code takes
  digests of record sets, tokens and keys; what it relies on is that a digest has 32 bytes.
\<close>

unbundle bit_operations_syntax

section \<open>Words and bytes\<close>

definition word32_of_bytes :: "string \<Rightarrow> 32 word" where
  "word32_of_bytes bs = word_of_nat (foldl (\<lambda>n c. 256 * n + byte c) 0 bs)"

definition bytes_of_word32 :: "32 word \<Rightarrow> string" where
  "bytes_of_word32 w =
     map (\<lambda>k. char_of (unat (drop_bit k w) mod 256)) [24, 16, 8, 0]"

fun blocks_of :: "nat \<Rightarrow> string \<Rightarrow> string list" where
  "blocks_of n s = (if n = 0 \<or> s = [] then [] else take n s # blocks_of n (drop n s))"

declare blocks_of.simps [simp del]

text \<open>The message, one \<open>0x80\<close> byte, zeros, and the length in bits as eight bytes.\<close>

definition sha_pad :: "string \<Rightarrow> string" where
  "sha_pad m =
     (let l = length m;
          z = (119 - l mod 64) mod 64;
          bits = 8 * l
      in m @ [CHR 0x80] @ replicate z (CHR 0x00)
           @ map (\<lambda>k. char_of (bits div 2 ^ k mod 256)) [56, 48, 40, 32, 24, 16, 8, 0])"

section \<open>The compression function\<close>

text \<open>
  The constants are the first 32 bits of the fractional parts of roots of primes: cube roots of
  the first 64 primes for the rounds, square roots of the first 8 for the initial state.
  \<open>root_digits\<close> computes the integer part of a root bit by bit.
\<close>

fun root_digits :: "nat \<Rightarrow> nat \<Rightarrow> nat \<Rightarrow> nat \<Rightarrow> nat" where
  "root_digits k n 0 acc = acc"
| "root_digits k n (Suc b) acc =
     root_digits k n b (if (acc + 2 ^ b) ^ k \<le> n then acc + 2 ^ b else acc)"

definition root_fraction :: "nat \<Rightarrow> nat \<Rightarrow> 32 word" where
  "root_fraction k p = word_of_nat (root_digits k (p * 2 ^ (32 * k)) 35 0)"

definition small_primes :: "nat list" where
  "small_primes = filter (\<lambda>p. list_all (\<lambda>d. p mod d \<noteq> 0) [2..<p]) [2..<312]"

definition sha_k :: "32 word list" where
  "sha_k = map (root_fraction 3) small_primes"

definition sha_init :: "32 word list" where
  "sha_init = map (root_fraction 2) [2, 3, 5, 7, 11, 13, 17, 19]"

definition rotr32 :: "nat \<Rightarrow> 32 word \<Rightarrow> 32 word" where
  "rotr32 k w = drop_bit k w OR push_bit (32 - k) w"

definition small_sigma :: "nat \<Rightarrow> nat \<Rightarrow> nat \<Rightarrow> 32 word \<Rightarrow> 32 word" where
  "small_sigma a b c w = rotr32 a w XOR rotr32 b w XOR drop_bit c w"

definition big_sigma :: "nat \<Rightarrow> nat \<Rightarrow> nat \<Rightarrow> 32 word \<Rightarrow> 32 word" where
  "big_sigma a b c w = rotr32 a w XOR rotr32 b w XOR rotr32 c w"

text \<open>The schedule grows at the end; \<open>n\<close> words are still to be added.\<close>

fun sha_schedule :: "nat \<Rightarrow> 32 word list \<Rightarrow> 32 word list" where
  "sha_schedule 0 ws = ws"
| "sha_schedule (Suc n) ws =
     (let t = length ws in
      sha_schedule n
        (ws @ [small_sigma 17 19 10 (ws ! (t - 2)) + ws ! (t - 7)
               + small_sigma 7 18 3 (ws ! (t - 15)) + ws ! (t - 16)]))"

fun sha_round :: "32 word list \<Rightarrow> 32 word \<times> 32 word \<Rightarrow> 32 word list" where
  "sha_round [a, b, c, d, e, f, g, h] (k, w) =
     (let t1 = h + big_sigma 6 11 25 e + ((e AND f) XOR (NOT e AND g)) + k + w;
          t2 = big_sigma 2 13 22 a + ((a AND b) XOR (a AND c) XOR (b AND c))
      in [t1 + t2, a, b, c, d + t1, e, f, g])"
| "sha_round st _ = st"

definition sha_block :: "32 word list \<Rightarrow> string \<Rightarrow> 32 word list" where
  "sha_block st block =
     (let ws = sha_schedule 48 (map word32_of_bytes (blocks_of 4 block))
      in map2 (+) st (foldl sha_round st (zip sha_k ws)))"

definition sha256 :: "string \<Rightarrow> string" where
  "sha256 m = concat (map bytes_of_word32 (foldl sha_block sha_init (blocks_of 64 (sha_pad m))))"

section \<open>The size of a digest\<close>

lemma sha_round_length [simp]: "length (sha_round st p) = length st"
  by (induction st p rule: sha_round.induct) (simp_all add: Let_def)

lemma sha_rounds_length [simp]: "length (foldl sha_round st ps) = length st"
  by (induction ps arbitrary: st) simp_all

lemma sha_block_length [simp]: "length (sha_block st b) = length st"
  by (simp add: sha_block_def Let_def)

lemma sha_blocks_length [simp]: "length (foldl sha_block st bs) = length st"
  by (induction bs arbitrary: st) simp_all

lemma bytes_of_words_length: "length (concat (map bytes_of_word32 ws)) = 4 * length ws"
  by (induction ws) (simp_all add: bytes_of_word32_def)

lemma sha256_length [simp]: "length (sha256 m) = 32"
  by (simp add: sha256_def bytes_of_words_length sha_init_def)

end
