(* ===== verification/Pagination.thy ===== *)
theory Pagination
  imports Provider_Types Base64
begin

text \<open>
  Pages. \<open>NormalizePageRequest\<close> and \<open>ValidatePage\<close> of \<open>internal/provider/pagination.go\<close> bound
  what a provider is asked for and what it may answer; \<open>normalizePage\<close> and \<open>nextCursor\<close> of
  \<open>internal/service/dns.go\<close> give the API its own cursors, the offset of the next item behind a
  scope. Go's \<open>int\<close> offsets are \<^typ>\<open>int\<close> here: the code adds a count of at most 200 to an
  offset that \<open>strconv.Atoi\<close> read, so the sums can leave the 64-bit range only for an offset
  within 200 of its end; \<open>add_int64\<close> keeps that wrap-around.
\<close>

section \<open>Provider pages\<close>

definition DefaultPageLimit :: int where "DefaultPageLimit = 100"

definition MaximumPageLimit :: int where "MaximumPageLimit = 1000"

definition MaximumCursorSize :: nat where "MaximumCursorSize = 4096"

definition cursor_ok :: "string \<Rightarrow> bool" where
  "cursor_ok c \<longleftrightarrow> length c \<le> MaximumCursorSize \<and> valid_utf8 c"

definition NormalizePageRequest :: "page_request \<Rightarrow> page_request result" where
  "NormalizePageRequest request =
     (if pr_Limit request < 0 \<or> pr_Limit request > MaximumPageLimit
      then Inl ''page limit is invalid''
      else
        (let request' =
           (if pr_Limit request = 0 then request\<lparr>pr_Limit := DefaultPageLimit\<rparr> else request)
         in if length (pr_Cursor request') > MaximumCursorSize \<or> \<not> valid_utf8 (pr_Cursor request')
            then Inl ''page cursor is invalid''
            else Inr request'))"

definition ValidatePage :: "page_request \<Rightarrow> 'a page \<Rightarrow> unit result" where
  "ValidatePage request page =
     and_then (NormalizePageRequest request) (\<lambda>normalized.
       if int (length (pg_Items page)) > pr_Limit normalized
       then Inl ''provider page exceeds the requested limit''
       else if pg_NextCursor page \<noteq> []
       then (if length (pg_NextCursor page) > MaximumCursorSize \<or> \<not> valid_utf8 (pg_NextCursor page)
             then Inl ''provider returned an invalid cursor''
             else if pg_NextCursor page = pr_Cursor normalized
             then Inl ''provider returned a non-advancing cursor''
             else Inr ())
       else Inr ())"

lemma NormalizePageRequest_Inr:
  "NormalizePageRequest r = Inr r' \<Longrightarrow>
     0 < pr_Limit r' \<and> pr_Limit r' \<le> MaximumPageLimit \<and> pr_Cursor r' = pr_Cursor r
     \<and> cursor_ok (pr_Cursor r') \<and> (pr_Limit r \<noteq> 0 \<longrightarrow> r' = r)"
  by (auto simp: NormalizePageRequest_def Let_def DefaultPageLimit_def MaximumPageLimit_def
      cursor_ok_def split: if_splits)

lemma NormalizePageRequest_idem:
  "NormalizePageRequest r = Inr r' \<Longrightarrow> NormalizePageRequest r' = Inr r'"
  by (auto simp: NormalizePageRequest_def Let_def DefaultPageLimit_def MaximumPageLimit_def
      split: if_splits)

lemma ValidatePage_Inr:
  assumes "ValidatePage r p = Inr ()"
  obtains r' where "NormalizePageRequest r = Inr r'"
    and "int (length (pg_Items p)) \<le> pr_Limit r'"
    and "pg_NextCursor p \<noteq> [] \<Longrightarrow> cursor_ok (pg_NextCursor p) \<and> pg_NextCursor p \<noteq> pr_Cursor r"
proof -
  from assms obtain r' where r': "NormalizePageRequest r = Inr r'"
    by (auto simp: ValidatePage_def go_result)
  with assms NormalizePageRequest_Inr [OF r'] that [OF r'] show thesis
    by (auto simp: ValidatePage_def cursor_ok_def split: if_splits)
qed

section \<open>API cursors\<close>

datatype page_error = ErrInvalidLimit | ErrInvalidCursor

definition defaultPageLimit :: int where "defaultPageLimit = 50"

definition maximumPageLimit :: int where "maximumPageLimit = 200"

text \<open>A Go \<open>int\<close> after a wrapping 64-bit addition.\<close>

definition add_int64 :: "int \<Rightarrow> int \<Rightarrow> int" where
  "add_int64 a b = sint (word_of_int (a + b) :: 64 word)"

text \<open>\<open>ErrInvalidLimit\<close> is the code's \<open>ErrInvalidProviderInput\<close>.\<close>

definition normalizePage :: "string \<Rightarrow> string \<Rightarrow> int \<Rightarrow> page_error + int \<times> int" where
  "normalizePage scope cursor requestedLimit =
     (let limit = (if requestedLimit = 0 then defaultPageLimit else requestedLimit) in
      if limit < 1 \<or> limit > maximumPageLimit then Inl ErrInvalidLimit
      else if cursor = [] then Inr (limit, 0)
      else (case b64_decode cursor of
              None \<Rightarrow> Inl ErrInvalidCursor
            | Some decoded \<Rightarrow>
                if length decoded > 128 then Inl ErrInvalidCursor
                else if \<not> prefix (scope @ '':'') decoded then Inl ErrInvalidCursor
                else (case parse_int64 (trim_prefix decoded (scope @ '':'')) of
                        None \<Rightarrow> Inl ErrInvalidCursor
                      | Some offset \<Rightarrow>
                          if offset < 0 then Inl ErrInvalidCursor else Inr (limit, offset))))"

definition nextCursor :: "string \<Rightarrow> int \<Rightarrow> int \<Rightarrow> int \<Rightarrow> string" where
  "nextCursor scope offset count totalCount =
     (let next = add_int64 offset count in
      if next \<ge> totalCount then [] else b64_encode (scope @ '':'' @ itoa next))"

lemma add_int64_exact:
  "min_int64 \<le> a + b \<Longrightarrow> a + b \<le> max_int64 \<Longrightarrow> add_int64 a b = a + b"
  unfolding add_int64_def sint_sbintrunc'
  by (simp add: min_int64_def max_int64_def signed_take_bit_int_eq_self)

lemma normalizePage_bounds:
  "normalizePage scope c l = Inr (limit, offset) \<Longrightarrow>
     1 \<le> limit \<and> limit \<le> maximumPageLimit \<and> 0 \<le> offset \<and> offset \<le> max_int64"
  by (auto simp: normalizePage_def Let_def defaultPageLimit_def maximumPageLimit_def max_int64_def
      parse_int64_def split: if_splits option.splits prod.splits list.splits)

lemma nat_to_dec_length: "0 < k \<Longrightarrow> n < 10 ^ k \<Longrightarrow> length (nat_to_dec n) \<le> k"
proof (induction n arbitrary: k rule: nat_to_dec.induct)
  case (1 n)
  show ?case
  proof (cases "n < 10")
    case True
    with "1.prems" show ?thesis by (subst nat_to_dec.simps) simp
  next
    case False
    with "1.prems" obtain j where j: "k = Suc j" "0 < j"
      by (cases k; cases "k - 1") auto
    with "1.prems" have "n div 10 < 10 ^ j" by auto
    with "1.IH" [OF False] j have "length (nat_to_dec (n div 10)) \<le> j" by blast
    with False j show ?thesis by (subst nat_to_dec.simps) simp
  qed
qed

lemma itoa_length: "0 \<le> i \<Longrightarrow> i \<le> max_int64 \<Longrightarrow> length (itoa i) \<le> 19"
  using nat_to_dec_length [of 19 "nat i"] by (simp add: itoa_def max_int64_def)

text \<open>
  The cursor the service hands out is read back as the offset of the next item; every scope
  the code uses (\<open>zones\<close>, \<open>audit\<close>, \<open>recordsets:\<close> and a UUID) is far shorter than the bound.
\<close>

lemma cursor_round_trip:
  assumes "length scope \<le> 108" and "0 \<le> offset" and "0 \<le> count"
    and "offset + count < totalCount" and "totalCount \<le> max_int64"
    and "normalizePage scope [] l = Inr (limit, 0)"
  shows "normalizePage scope (nextCursor scope offset count totalCount) l
         = Inr (limit, offset + count)"
proof -
  let ?n = "offset + count" and ?p = "scope @ '':''"
  have n: "0 \<le> ?n" "?n \<le> max_int64" using assms by linarith+
  have nxt: "add_int64 offset count = ?n"
    using n by (intro add_int64_exact) (simp_all add: min_int64_def)
  have len: "length (?p @ itoa ?n) \<le> 128"
    using itoa_length [OF n] assms(1) by simp
  have num: "parse_int64 (trim_prefix (?p @ itoa ?n) ?p) = Some ?n"
    using n parse_int64_itoa [of ?n] unfolding trim_prefix_append
    by (simp add: min_int64_def)
  have pre: "prefix ?p (?p @ itoa ?n)" by (rule prefixI) simp
  have cur: "nextCursor scope offset count totalCount = b64_encode (?p @ itoa ?n)"
    using assms(4) by (simp add: nextCursor_def nxt)
  show ?thesis
    using assms(6) n len num pre
    by (simp add: cur normalizePage_def Let_def b64_round_trip split: if_splits)
qed

lemma nextCursor_empty_iff:
  "nextCursor scope offset count totalCount = [] \<longleftrightarrow> totalCount \<le> add_int64 offset count"
  by (simp add: nextCursor_def Let_def)

section \<open>Slices of a page\<close>

text \<open>
  The slice arithmetic of \<open>paginateRecordSets\<close>: \<open>start = min(offset, total)\<close> and
  \<open>end = min(start + limit, total)\<close>, both within the slice.
\<close>

definition page_slice :: "'a list \<Rightarrow> nat \<Rightarrow> nat \<Rightarrow> 'a list" where
  "page_slice xs offset limit =
     (let start = min offset (length xs); end' = min (start + limit) (length xs)
      in take (end' - start) (drop start xs))"

lemma page_slice_eq: "page_slice xs offset limit = take limit (drop offset xs)"
  by (cases "offset \<le> length xs") (auto simp: page_slice_def Let_def min_def)

lemma page_slice_length: "length (page_slice xs offset limit) = min limit (length xs - offset)"
  by (simp add: page_slice_eq)

end
