(* ===== verification/Addresses.thy ===== *)
theory Addresses
  imports Prelude
begin

text \<open>
  IP addresses as \<open>net/netip\<close> reads and prints them: what the record normaliser needs of
  \<open>ParseAddr\<close>, \<open>Is4\<close>, \<open>Is6\<close> and \<open>String\<close>. An IPv4 address is its four octets, an IPv6
  address its eight 16-bit groups and its zone (empty for none). The theory proves that
  \<open>ParseAddr\<close> reads back what \<open>String\<close> prints, zero compression, IPv4-mapped form and
  zone included.
\<close>

datatype ip_addr = IPv4 "nat list" | IPv6 "nat list" string

fun wf_addr :: "ip_addr \<Rightarrow> bool" where
  "wf_addr (IPv4 os) = (length os = 4 \<and> (\<forall>x \<in> set os. x < 256))"
| "wf_addr (IPv6 gs z) = (length gs = 8 \<and> (\<forall>x \<in> set gs. x < 65536))"

fun is4 :: "ip_addr \<Rightarrow> bool" where
  "is4 (IPv4 _) = True"
| "is4 (IPv6 _ _) = False"

fun is6 :: "ip_addr \<Rightarrow> bool" where
  "is6 (IPv4 _) = False"
| "is6 (IPv6 _ _) = True"

fun addr_zone :: "ip_addr \<Rightarrow> string" where
  "addr_zone (IPv4 _) = []"
| "addr_zone (IPv6 _ z) = z"

section \<open>Reading\<close>

text \<open>\<open>parseIPv4Fields\<close>: the octet so far, its digit count, the octets before it.\<close>

fun parse_v4 :: "string \<Rightarrow> nat \<Rightarrow> nat \<Rightarrow> nat list \<Rightarrow> nat list option" where
  "parse_v4 [] val digLen fields = (if length fields < 3 then None else Some (fields @ [val]))"
| "parse_v4 (c # s) val digLen fields =
     (if is_digit c then
        (if digLen = 1 \<and> val = 0 then None
         else if val * 10 + digit_val c > 255 then None
         else parse_v4 s (val * 10 + digit_val c) (Suc digLen) fields)
      else if c = CHR ''.'' then
        (if digLen = 0 \<or> s = [] then None
         else if length fields = 3 then None
         else parse_v4 s 0 0 (fields @ [val]))
      else None)"

definition hex_val :: "char \<Rightarrow> nat option" where
  "hex_val c =
     (if is_digit c then Some (byte c - 48)
      else if 97 \<le> byte c \<and> byte c \<le> 102 then Some (byte c - 87)
      else if 65 \<le> byte c \<and> byte c \<le> 70 then Some (byte c - 55) else None)"

fun take_hex :: "string \<Rightarrow> nat \<Rightarrow> nat \<Rightarrow> (nat \<times> nat \<times> string) option" where
  "take_hex [] off acc = Some (off, acc, [])"
| "take_hex (c # s) off acc =
     (case hex_val c of
        None \<Rightarrow> Some (off, acc, c # s)
      | Some v \<Rightarrow>
          if off > 3 then None
          else if acc * 16 + v > 65535 then None
          else take_hex s (Suc off) (acc * 16 + v))"

fun v4_groups :: "nat list \<Rightarrow> nat list" where
  "v4_groups (a # b # os) = (a * 256 + b) # v4_groups os"
| "v4_groups _ = []"

text \<open>
  The group loop of \<open>parseIPv6\<close>; the first argument counts the groups still to come, which
  is the code's \<open>i < 16\<close>. The result is the unread rest, the groups and the ellipsis.
\<close>

fun v6_loop :: "nat \<Rightarrow> string \<Rightarrow> nat list \<Rightarrow> nat option \<Rightarrow> (string \<times> nat list \<times> nat option) option" where
  "v6_loop 0 s gs ell = Some (s, gs, ell)"
| "v6_loop (Suc k) s gs ell =
     (case take_hex s 0 0 of
        None \<Rightarrow> None
      | Some (off, acc, rest) \<Rightarrow>
          if off = 0 then None
          else (case rest of
              [] \<Rightarrow> Some ([], gs @ [acc], ell)
            | c # s1 \<Rightarrow>
                if c = CHR ''.'' then
                  (if ell = None \<and> length gs \<noteq> 6 then None
                   else if length gs + 2 > 8 then None
                   else (case parse_v4 s 0 0 [] of
                           None \<Rightarrow> None
                         | Some os \<Rightarrow> Some ([], gs @ v4_groups os, ell)))
                else if c \<noteq> CHR '':'' then None
                else (case s1 of
                    [] \<Rightarrow> None
                  | d # s2 \<Rightarrow>
                      if d = CHR '':'' then
                        (if ell \<noteq> None then None
                         else if s2 = [] then Some ([], gs @ [acc], Some (Suc (length gs)))
                         else v6_loop k s2 (gs @ [acc]) (Some (Suc (length gs))))
                      else v6_loop k s1 (gs @ [acc]) ell)))"

definition v6_expand :: "string \<times> nat list \<times> nat option \<Rightarrow> nat list option" where
  "v6_expand r =
     (case r of (s, gs, ell) \<Rightarrow>
        if s \<noteq> [] then None
        else if length gs < 8 then
          (case ell of None \<Rightarrow> None
           | Some e \<Rightarrow> Some (take e gs @ replicate (8 - length gs) 0 @ drop e gs))
        else if ell \<noteq> None then None else Some gs)"

definition parse_v6_groups :: "string \<Rightarrow> nat list option" where
  "parse_v6_groups s =
     (if prefix ''::'' s
      then (if drop 2 s = [] then Some (replicate 8 0)
            else Option.bind (v6_loop 8 (drop 2 s) [] (Some 0)) v6_expand)
      else Option.bind (v6_loop 8 s [] None) v6_expand)"

definition parse_v6 :: "string \<Rightarrow> ip_addr option" where
  "parse_v6 input =
     (if CHR ''%'' \<in> set input
      then (let s = takeWhile (\<lambda>c. c \<noteq> CHR ''%'') input;
                zone = tl (dropWhile (\<lambda>c. c \<noteq> CHR ''%'') input)
            in if zone = [] then None else map_option (\<lambda>gs. IPv6 gs zone) (parse_v6_groups s))
      else map_option (\<lambda>gs. IPv6 gs []) (parse_v6_groups input))"

definition ParseAddr :: "string \<Rightarrow> ip_addr option" where
  "ParseAddr s =
     (case find (\<lambda>c. c \<in> set ''.:%'') s of
        None \<Rightarrow> None
      | Some c \<Rightarrow>
          if c = CHR ''.'' then map_option IPv4 (parse_v4 s 0 0 [])
          else if c = CHR '':'' then parse_v6 s else None)"

section \<open>Printing\<close>

definition hex_char :: "nat \<Rightarrow> char" where
  "hex_char d = (if d < 10 then char_of (48 + d) else char_of (87 + d))"

fun nat_to_hex :: "nat \<Rightarrow> string" where
  "nat_to_hex n = (if n < 16 then [hex_char n] else nat_to_hex (n div 16) @ [hex_char (n mod 16)])"

declare nat_to_hex.simps [simp del]

text \<open>The longest run of at least two zero groups, the first of several of that length.\<close>

definition zero_run :: "nat list \<Rightarrow> nat \<Rightarrow> nat" where
  "zero_run gs i = length (takeWhile (\<lambda>x. x = 0) (drop i gs))"

definition best_run :: "nat list \<Rightarrow> nat \<times> nat" where
  "best_run gs =
     foldl (\<lambda>(st, len) i. let l = zero_run gs i in if l \<ge> 2 \<and> l > len then (i, l) else (st, len))
       (255, 0) [0..<8]"

definition string6 :: "nat list \<Rightarrow> string" where
  "string6 gs =
     (case best_run gs of (st, len) \<Rightarrow>
        if len = 0 then join_with (CHR '':'') (map nat_to_hex gs)
        else join_with (CHR '':'') (map nat_to_hex (take st gs)) @ ''::''
             @ join_with (CHR '':'') (map nat_to_hex (drop (st + len) gs)))"

definition string4 :: "nat list \<Rightarrow> string" where
  "string4 os = join_with (CHR ''.'') (map nat_to_dec os)"

definition is4in6 :: "nat list \<Rightarrow> bool" where
  "is4in6 gs \<longleftrightarrow> take 6 gs = [0, 0, 0, 0, 0, 65535]"

fun split_groups :: "nat list \<Rightarrow> nat list" where
  "split_groups [] = []"
| "split_groups (g # gs) = g div 256 # g mod 256 # split_groups gs"

fun addr_string :: "ip_addr \<Rightarrow> string" where
  "addr_string (IPv4 os) = string4 os"
| "addr_string (IPv6 gs z) =
     (if is4in6 gs then ''::ffff:'' @ string4 (split_groups (drop 6 gs)) else string6 gs)
     @ (if z = [] then [] else CHR ''%'' # z)"

section \<open>IPv4 round trip\<close>

lemma split_digit: "n div (a * b) * b + n div a mod b = n div a" for n :: nat
  by (simp add: div_mult2_eq)

lemma nat_to_dec_octet:
  assumes "n < 256"
  shows "nat_to_dec n =
    (if n < 10 then [digit_char n]
     else if n < 100 then [digit_char (n div 10), digit_char (n mod 10)]
     else [digit_char (n div 100), digit_char (n div 10 mod 10), digit_char (n mod 10)])"
proof -
  have "n div 100 < 10" using assms by linarith
  then show ?thesis
    by (auto simp: nat_to_dec.simps [of n] nat_to_dec.simps [of "n div 10"]
        nat_to_dec.simps [of "n div 100"] div_mult2_eq [symmetric])
qed

lemma dot_not_digit [simp]: "\<not> is_digit (CHR ''.'')" "\<not> is_digit (CHR '':'')" "\<not> is_digit (CHR ''%'')"
  by (simp_all add: is_digit_def)

lemma parse_v4_octet:
  assumes "n < 256"
  shows "parse_v4 (nat_to_dec n @ s) 0 0 fs = parse_v4 s n (length (nat_to_dec n)) fs"
proof -
  have d: "n mod 10 < 10" "n div 10 mod 10 < 10" by simp_all
  have v: "n div 10 * 10 + n mod 10 = n" "n div 100 * 10 + n div 10 mod 10 = n div 10"
    using split_digit [of n 1 10] split_digit [of n 10 10] by simp_all
  consider "n < 10" | "10 \<le> n" "n < 100" | "100 \<le> n" by linarith
  then show ?thesis
  proof cases
    case 1
    then show ?thesis by (simp add: nat_to_dec_octet)
  next
    case 2
    then have e: "nat_to_dec n = [digit_char (n div 10), digit_char (n mod 10)]"
      using assms by (simp add: nat_to_dec_octet)
    from 2 have "n div 10 < 10" and z: "n div 10 \<noteq> 0" "n div 10 \<le> 255" by linarith+
    then have "is_digit (digit_char (n div 10))" "digit_val (digit_char (n div 10)) = n div 10"
      by simp_all
    with assms d v z show ?thesis by (simp add: e del: div_eq_0_iff)
  next
    case 3
    with assms have e: "nat_to_dec n =
        [digit_char (n div 100), digit_char (n div 10 mod 10), digit_char (n mod 10)]"
      by (simp add: nat_to_dec_octet)
    from 3 assms have "n div 100 < 10" and z: "n div 100 \<noteq> 0" "n div 10 \<le> 255" "n div 100 \<le> 255"
      by linarith+
    then have "is_digit (digit_char (n div 100))" "digit_val (digit_char (n div 100)) = n div 100"
      by simp_all
    with assms d v z show ?thesis by (simp add: e del: div_eq_0_iff)
  qed
qed

lemma string4_cons: "string4 (a # b # os) = nat_to_dec a @ CHR ''.'' # string4 (b # os)"
  by (simp add: string4_def)

lemma string4_single: "string4 [a] = nat_to_dec a"
  by (simp add: string4_def)

lemma string4_nonempty [simp]: "string4 (a # os) \<noteq> []"
  by (cases os) (simp_all add: string4_def)

lemma parse_v4_string4:
  assumes "os \<noteq> []" and "\<forall>x \<in> set os. x < 256" and "length fs + length os = 4"
  shows "parse_v4 (string4 os) 0 0 fs = Some (fs @ os)"
  using assms
proof (induction os arbitrary: fs)
  case Nil
  then show ?case by simp
next
  case (Cons a os)
  show ?case
  proof (cases os)
    case Nil
    with Cons.prems parse_v4_octet [of a "[]" fs] show ?thesis
      by (simp add: string4_single)
  next
    case (Cons b os')
    with Cons.prems Cons.IH [of "fs @ [a]"] show ?thesis
      by (simp add: string4_cons parse_v4_octet)
  qed
qed

lemma digits_no_mark:
  "list_all is_digit ds \<Longrightarrow> find (\<lambda>c. c \<in> set ''.:%'') ds = None"
  by (auto simp: find_None_iff list_all_iff dest!: bspec)

lemma ParseAddr_string4:
  assumes "wf_addr (IPv4 os)"
  shows "ParseAddr (string4 os) = Some (IPv4 os)"
proof -
  obtain a b os' where os: "os = a # b # os'"
    using assms by (cases os; cases "tl os") auto
  have "find (\<lambda>c. c \<in> set ''.:%'') (string4 os) = Some (CHR ''.'')"
    using digits_no_mark [OF nat_to_dec_digits, of a] by (simp add: os string4_cons find_append)
  moreover have "parse_v4 (string4 os) 0 0 [] = Some os"
    using parse_v4_string4 [of os "[]"] assms os by auto
  ultimately show ?thesis by (simp add: ParseAddr_def)
qed

section \<open>IPv6 round trip\<close>

definition is_hex :: "char \<Rightarrow> bool" where
  "is_hex c \<longleftrightarrow> hex_val c \<noteq> None"

lemma hex_val_char [simp]: "d < 16 \<Longrightarrow> hex_val (hex_char d) = Some d"
  by (auto simp: hex_val_def hex_char_def is_digit_def)

lemma hex_val_marks [simp]:
  "hex_val (CHR ''.'') = None" "hex_val (CHR '':'') = None" "hex_val (CHR ''%'') = None"
  by (simp_all add: hex_val_def)

lemma nat_to_hex_group:
  assumes "n < 65536"
  shows "nat_to_hex n =
    (if n < 16 then [hex_char n]
     else if n < 256 then [hex_char (n div 16), hex_char (n mod 16)]
     else if n < 4096 then [hex_char (n div 256), hex_char (n div 16 mod 16), hex_char (n mod 16)]
     else [hex_char (n div 4096), hex_char (n div 256 mod 16), hex_char (n div 16 mod 16),
           hex_char (n mod 16)])"
proof -
  have "n div 4096 < 16" using assms by linarith
  then show ?thesis
    by (auto simp: nat_to_hex.simps [of n] nat_to_hex.simps [of "n div 16"]
        nat_to_hex.simps [of "n div 256"] nat_to_hex.simps [of "n div 4096"]
        div_mult2_eq [symmetric])
qed

lemma nat_to_hex_hex: "c \<in> set (nat_to_hex n) \<Longrightarrow> is_hex c"
proof (induction n rule: nat_to_hex.induct)
  case (1 n)
  then show ?case
    by (subst (asm) nat_to_hex.simps) (auto simp: is_hex_def split: if_splits)
qed

lemma nat_to_hex_nonempty [simp]: "nat_to_hex n \<noteq> []"
  by (subst nat_to_hex.simps) simp

definition hex_stop :: "string \<Rightarrow> bool" where
  "hex_stop s \<longleftrightarrow> s = [] \<or> hex_val (hd s) = None"

lemma take_hex_stop: "hex_stop s \<Longrightarrow> take_hex s off acc = Some (off, acc, s)"
  by (cases s) (simp_all add: hex_stop_def)

lemma take_hex_group:
  assumes "n < 65536" and "hex_stop s"
  shows "take_hex (nat_to_hex n @ s) 0 0 = Some (length (nat_to_hex n), n, s)"
proof -
  have d: "n mod 16 < 16" "n div 16 mod 16 < 16" "n div 256 mod 16 < 16" by simp_all
  have v: "n div 16 * 16 + n mod 16 = n" "n div 256 * 16 + n div 16 mod 16 = n div 16"
    "n div 4096 * 16 + n div 256 mod 16 = n div 256"
    using split_digit [of n 1 16] split_digit [of n 16 16] split_digit [of n 256 16] by simp_all
  have le: "n div 16 \<le> 65535" "n div 256 \<le> 65535" "n div 4096 \<le> 65535"
    using assms(1) by linarith+
  consider "n < 16" | "16 \<le> n" "n < 256" | "256 \<le> n" "n < 4096" | "4096 \<le> n" by linarith
  then show ?thesis
  proof cases
    case 1
    then show ?thesis using take_hex_stop [OF assms(2)] by (simp add: nat_to_hex_group)
  next
    case 2
    then have e: "nat_to_hex n = [hex_char (n div 16), hex_char (n mod 16)]"
      by (simp add: nat_to_hex_group)
    from 2 have "hex_val (hex_char (n div 16)) = Some (n div 16)" by simp
    with assms(1) d v le take_hex_stop [OF assms(2)] show ?thesis by (simp add: e)
  next
    case 3
    then have "n div 256 < 16" by linarith
    with 3 assms(1) d v le take_hex_stop [OF assms(2)] show ?thesis by (simp add: nat_to_hex_group)
  next
    case 4
    with assms(1) have e: "nat_to_hex n = [hex_char (n div 4096), hex_char (n div 256 mod 16),
        hex_char (n div 16 mod 16), hex_char (n mod 16)]"
      by (simp add: nat_to_hex_group)
    from assms(1) have "n div 4096 < 16" by linarith
    then have "hex_val (hex_char (n div 4096)) = Some (n div 4096)" by (rule hex_val_char)
    with assms(1) d v le take_hex_stop [OF assms(2)] show ?thesis by (simp add: e)
  qed
qed

abbreviation hex_join :: "nat list \<Rightarrow> string" where
  "hex_join gs \<equiv> join_with (CHR '':'') (map nat_to_hex gs)"

lemma hex_join_cons: "gs \<noteq> [] \<Longrightarrow> hex_join (g # gs) = nat_to_hex g @ CHR '':'' # hex_join gs"
  by (cases gs) simp_all

lemma hex_join_hd: "gs \<noteq> [] \<Longrightarrow> \<exists>c t. hex_join gs = c # t \<and> hex_val c \<noteq> None"
proof -
  assume "gs \<noteq> []"
  then obtain g gs' where gs: "gs = g # gs'" by (cases gs) auto
  obtain c t where ct: "nat_to_hex g = c # t" by (cases "nat_to_hex g") auto
  then have "is_hex c" using nat_to_hex_hex [of c g] by simp
  with gs ct show ?thesis
    by (cases gs') (auto simp: is_hex_def)
qed

lemma v6_loop_groups:
  assumes "xs \<noteq> []" and "\<forall>x \<in> set xs. x < 65536" and "length xs \<le> k"
  shows "v6_loop k (hex_join xs) gs ell = Some ([], gs @ xs, ell)"
  using assms
proof (induction xs arbitrary: k gs)
  case Nil
  then show ?case by simp
next
  case (Cons x xs)
  then obtain j where k: "k = Suc j" by (cases k) auto
  show ?case
  proof (cases "xs = []")
    case True
    with Cons.prems k take_hex_group [of x "[]"] show ?thesis
      by (simp add: hex_stop_def)
  next
    case False
    then obtain c t where ct: "hex_join xs = c # t" "hex_val c \<noteq> None"
      using hex_join_hd by blast
    then have "c \<noteq> CHR '':''" by auto
    with False ct Cons.prems Cons.IH [of j "gs @ [x]"] k take_hex_group [of x "CHR '':'' # hex_join xs"]
    show ?thesis by (simp add: hex_join_cons hex_stop_def del: list.map)
  qed
qed

lemma v6_loop_ellipsis:
  assumes "xs \<noteq> []" and "\<forall>x \<in> set (xs @ ys). x < 65536" and "length xs + length ys \<le> k"
  shows "v6_loop k (hex_join xs @ ''::'' @ hex_join ys) gs None
         = Some ([], gs @ xs @ ys, Some (length gs + length xs))"
  using assms
proof (induction xs arbitrary: k gs)
  case Nil
  then show ?case by simp
next
  case (Cons x xs)
  then obtain j where k: "k = Suc j" by (cases k) auto
  show ?case
  proof (cases "xs = []")
    case True
    have "ys \<noteq> [] \<Longrightarrow> v6_loop j (hex_join ys) (gs @ [x]) (Some (Suc (length gs)))
        = Some ([], (gs @ [x]) @ ys, Some (Suc (length gs)))"
      using Cons.prems k by (intro v6_loop_groups) auto
    moreover have "ys \<noteq> [] \<Longrightarrow> hex_join ys \<noteq> []"
      using hex_join_hd [of ys] by auto
    ultimately show ?thesis
      using True Cons.prems k take_hex_group [of x "''::'' @ hex_join ys"]
      by (cases "ys = []") (simp_all add: hex_stop_def)
  next
    case False
    then obtain c t where ct: "hex_join xs = c # t" "hex_val c \<noteq> None"
      using hex_join_hd by blast
    then have "c \<noteq> CHR '':''" by auto
    with False ct Cons.prems Cons.IH [of j "gs @ [x]"] k
      take_hex_group [of x "CHR '':'' # hex_join xs @ ''::'' @ hex_join ys"]
    show ?thesis by (simp add: hex_join_cons hex_stop_def del: list.map)
  qed
qed

lemma best_run_bounds:
  assumes "best_run gs = (st, len)" and "length gs = 8" and "0 < len"
  shows "2 \<le> len \<and> st + len \<le> 8 \<and> take len (drop st gs) = replicate len 0"
proof -
  have run: "take (zero_run gs i) (drop i gs) = replicate (zero_run gs i) 0" for i
    unfolding zero_run_def
    by (metis (mono_tags, lifting) replicate_length_same set_takeWhileD takeWhile_eq_take)
  have bound: "i \<le> 8 \<Longrightarrow> i + zero_run gs i \<le> 8" for i
    using length_takeWhile_le [of "\<lambda>x. x = 0" "drop i gs"] assms(2) by (simp add: zero_run_def)
  have step: "foldl (\<lambda>(st, len) i. let l = zero_run gs i in if l \<ge> 2 \<and> l > len then (i, l) else (st, len))
       (a, b) is = (st, len) \<Longrightarrow> set is \<subseteq> {..8} \<Longrightarrow>
     b = 0 \<or> 2 \<le> b \<and> a + b \<le> 8 \<and> take b (drop a gs) = replicate b 0 \<Longrightarrow>
     len = 0 \<or> 2 \<le> len \<and> st + len \<le> 8 \<and> take len (drop st gs) = replicate len 0" for a b "is"
    by (induction "is" arbitrary: a b) (auto simp: Let_def run bound split: if_splits)
  have "set [0..<8] \<subseteq> {..8::nat}" by auto
  with step [of 255 0 "[0..<8]"] assms(1,3) show ?thesis
    by (simp add: best_run_def)
qed

lemma groups_around_run:
  assumes "best_run gs = (st, len)" and "length gs = 8" and "0 < len"
  shows "take st gs @ replicate len 0 @ drop (st + len) gs = gs"
  using best_run_bounds [OF assms]
  by (metis add.commute append_take_drop_id drop_drop)

lemma parse_string6:
  assumes "wf_addr (IPv6 gs z)"
  shows "parse_v6_groups (string6 gs) = Some gs"
proof -
  obtain st len where run: "best_run gs = (st, len)" by fastforce
  have gs: "length gs = 8" "\<forall>x \<in> set gs. x < 65536" using assms by simp_all
  show ?thesis
  proof (cases "len = 0")
    case True
    from gs have ne: "gs \<noteq> []" by auto
    then obtain g rest where g: "gs = g # rest" by (cases gs) auto
    have "\<not> prefix ''::'' (hex_join gs)"
      using hex_join_hd [OF ne] by auto
    moreover have "v6_loop 8 (hex_join gs) [] None = Some ([], [] @ gs, None)"
      by (rule v6_loop_groups) (use gs ne in auto)
    ultimately show ?thesis
      using True gs by (simp add: run string6_def parse_v6_groups_def v6_expand_def)
  next
    case False
    let ?xs = "take st gs" and ?ys = "drop (st + len) gs"
    from False have b: "2 \<le> len" "st + len \<le> 8" using best_run_bounds [OF run gs(1)] by auto
    have len: "length ?xs = st" "length ?ys = 8 - (st + len)" using gs b by auto
    have bd: "\<forall>x \<in> set (?xs @ ?ys). x < 65536"
      using gs(2) set_take_subset [of st gs] set_drop_subset [of "st + len" gs] by auto
    have whole: "?xs @ replicate len 0 @ ?ys = gs"
      using False groups_around_run [OF run gs(1)] by simp
    have str: "string6 gs = hex_join ?xs @ ''::'' @ hex_join ?ys"
      using False by (simp add: run string6_def)
    show ?thesis
    proof (cases "st = 0")
      case True
      show ?thesis
      proof (cases "?ys = []")
        case True
        with \<open>st = 0\<close> len b have "string6 gs = ''::''" and "gs = replicate 8 0"
          using whole str by simp_all
        then show ?thesis by (simp add: parse_v6_groups_def)
      next
        case ys: False
        then obtain c t where "hex_join ?ys = c # t" using hex_join_hd by blast
        then have "hex_join ?ys \<noteq> []" by simp
        moreover have "v6_loop 8 (hex_join ?ys) [] (Some 0) = Some ([], [] @ ?ys, Some 0)"
          by (rule v6_loop_groups) (use ys bd len in auto)
        ultimately show ?thesis
          using \<open>st = 0\<close> b len whole by (simp add: str parse_v6_groups_def v6_expand_def)
      qed
    next
      case st: False
      then have ne: "?xs \<noteq> []" using gs b by auto
      have "\<not> prefix ''::'' (string6 gs)"
        using hex_join_hd [OF ne] by (auto simp: str)
      moreover have "v6_loop 8 (string6 gs) [] None
          = Some ([], [] @ ?xs @ ?ys, Some (length ([] :: nat list) + length ?xs))"
        unfolding str by (rule v6_loop_ellipsis) (use ne bd len b in auto)
      ultimately show ?thesis
        using len b whole by (simp add: parse_v6_groups_def v6_expand_def)
    qed
  qed
qed

lemma parse_string4in6:
  assumes "wf_addr (IPv6 gs z)" and "is4in6 gs"
  shows "parse_v6_groups (''::ffff:'' @ string4 (split_groups (drop 6 gs))) = Some gs"
proof -
  obtain g h where gh: "drop 6 gs = [g, h]"
    using assms(1) by (cases "drop 6 gs"; cases "tl (drop 6 gs)") (auto dest: arg_cong [of _ _ length])
  have gs: "gs = [0, 0, 0, 0, 0, 65535, g, h]"
    using append_take_drop_id [of 6 gs] assms(2) by (simp add: gh is4in6_def)
  have bd: "g < 65536" "h < 65536" using assms(1) by (simp_all add: gs)
  let ?os = "[g div 256, g mod 256, h div 256, h mod 256]" and ?a = "g div 256"
  have os: "\<forall>x \<in> set ?os. x < 256" using bd by auto
  obtain t where t: "string4 ?os = nat_to_dec ?a @ CHR ''.'' # t"
    by (simp add: string4_cons)
  have a: "?a < 256" using os by simp
  have dec: "take_hex (string4 ?os) 0 0 \<noteq> None \<and>
      (case take_hex (string4 ?os) 0 0 of None \<Rightarrow> False
       | Some (off, acc, rest) \<Rightarrow> off \<noteq> 0 \<and> rest = CHR ''.'' # t)"
  proof -
    have hv: "d < 10 \<Longrightarrow> hex_val (digit_char d) = Some d" for d
      by (auto simp: hex_val_def digit_char_def is_digit_def)
    have "take_hex (CHR ''.'' # t) off acc = Some (off, acc, CHR ''.'' # t)" for off acc by simp
    moreover have "?a div 100 < 10" "?a div 10 mod 10 < 10" "?a mod 10 < 10" "?a < 100 \<Longrightarrow> ?a div 10 < 10"
      using a by linarith+
    ultimately show ?thesis
      unfolding t nat_to_dec_octet [OF a] by (auto simp: hv)
  qed
  have "parse_v4 (string4 ?os) 0 0 [] = Some ([] @ ?os)"
    by (rule parse_v4_string4 [OF _ os]) simp_all
  then have v4: "parse_v4 (string4 ?os) 0 0 [] = Some ?os" by (simp only: append_Nil)
  have nn: "string4 ?os \<noteq> []" by simp
  then obtain c s where c: "string4 ?os = c # s" by (cases "string4 ?os") auto
  have "c \<noteq> CHR '':''"
  proof -
    have "c \<in> set (nat_to_dec ?a)" using t c by (cases "nat_to_dec ?a") auto
    then have "is_digit c" using nat_to_dec_digits [of ?a] by (auto simp: list_all_iff)
    then show ?thesis by auto
  qed
  have groups: "v4_groups ?os = [g, h]" by simp
  have e8: "(8::nat) = Suc 7" and e7: "(7::nat) = Suc 6" by simp_all
  have inner: "v6_loop (Suc 6) (string4 ?os) [65535] (Some 0) = Some ([], [65535, g, h], Some 0)"
    unfolding v6_loop.simps(2) using dec v4 groups
    by (cases "take_hex (string4 ?os) 0 0") (auto simp del: v4_groups.simps)
  have inner7: "v6_loop 7 (string4 ?os) [65535] (Some 0) = Some ([], [65535, g, h], Some 0)"
    unfolding e7 by (rule inner)
  have th: "take_hex (''ffff:'' @ string4 ?os) 0 0 = Some (4, 65535, CHR '':'' # string4 ?os)"
    by (simp add: hex_val_def is_digit_def)
  have "v6_loop (Suc 7) (''ffff:'' @ string4 ?os) [] (Some 0) = Some ([], [65535, g, h], Some 0)"
    unfolding v6_loop.simps(2) [of 7] th using inner7 \<open>c \<noteq> CHR '':''\<close> by (simp add: c)
  then have eight: "v6_loop 8 (''ffff:'' @ string4 ?os) [] (Some 0) = Some ([], [65535, g, h], Some 0)"
    unfolding e8 .
  have r5: "replicate 5 (0::nat) = [0, 0, 0, 0, 0]" by (simp add: numeral_eq_Suc)
  have sg: "split_groups (drop 6 gs) = ?os" by (simp add: gh)
  show ?thesis
    unfolding parse_v6_groups_def sg using eight by (simp add: v6_expand_def gs r5)
qed

lemma colon_first:
  assumes "wf_addr (IPv6 gs z)"
  shows "\<exists>pre rest. addr_string (IPv6 gs z) = pre @ CHR '':'' # rest \<and> (\<forall>c \<in> set pre. is_hex c)"
proof (cases "is4in6 gs")
  case True
  show ?thesis by (rule exI [of _ "[]"]) (simp add: True)
next
  case False
  obtain st len where run: "best_run gs = (st, len)" by fastforce
  obtain g h gs' where gs: "gs = g # h # gs'"
    using assms by (cases gs; cases "tl gs") auto
  show ?thesis
  proof (cases "len = 0")
    case True
    show ?thesis
      by (rule exI [of _ "nat_to_hex g"])
        (use True False run gs nat_to_hex_hex [of _ g] in \<open>auto simp: string6_def\<close>)
  next
    case nz: False
    show ?thesis
    proof (cases "take st gs")
      case Nil
      show ?thesis
        by (rule exI [of _ "[]"]) (use False nz run in \<open>simp add: string6_def Nil del: take_eq_Nil\<close>)
    next
      case (Cons a xs)
      then obtain t where t: "hex_join (take st gs) @ ''::'' = nat_to_hex a @ CHR '':'' # t"
        by (cases xs) simp_all
      have eq: "hex_join (take st gs) @ CHR '':'' # CHR '':'' # u
          = nat_to_hex a @ CHR '':'' # t @ u" for u
        using arg_cong [OF t, of "\<lambda>v. v @ u"] by simp
      show ?thesis
        by (rule exI [of _ "nat_to_hex a"])
          (use False nz run nat_to_hex_hex [of _ a] in \<open>auto simp: string6_def eq\<close>)
    qed
  qed
qed

definition addr_char :: "char \<Rightarrow> bool" where
  "addr_char c \<longleftrightarrow> is_hex c \<or> c = CHR '':'' \<or> c = CHR ''.''"

lemma addr_char_not_percent: "addr_char c \<Longrightarrow> c \<noteq> CHR ''%''"
  by (auto simp: addr_char_def is_hex_def)

lemma addr_char_solid: "addr_char c \<Longrightarrow> solid c"
  by (auto simp: addr_char_def is_hex_def hex_val_def is_digit_def solid_def split: if_splits)

lemma digit_addr_char: "is_digit c \<Longrightarrow> addr_char c"
  by (simp add: addr_char_def is_hex_def hex_val_def)

lemma string4_chars: "c \<in> set (string4 os) \<Longrightarrow> addr_char c"
  using nat_to_dec_digits digit_addr_char
  by (fastforce simp: string4_def list_all_iff addr_char_def [of "CHR ''.''"] dest!: join_chars)

lemma hex_join_chars: "c \<in> set (hex_join gs) \<Longrightarrow> addr_char c"
  using nat_to_hex_hex by (auto simp: addr_char_def dest!: join_chars)

abbreviation v6_text :: "nat list \<Rightarrow> string" where
  "v6_text gs \<equiv> addr_string (IPv6 gs [])"

lemma v6_text_chars: "c \<in> set (v6_text gs) \<Longrightarrow> addr_char c"
proof -
  have "is_hex (CHR ''f'')" by (simp add: is_hex_def hex_val_def)
  then show "c \<in> set (v6_text gs) \<Longrightarrow> addr_char c"
    using string4_chars hex_join_chars
    by (auto simp: string6_def addr_char_def split: if_splits prod.splits)
qed

lemma addr_string_zone:
  "addr_string (IPv6 gs z) = v6_text gs @ (if z = [] then [] else CHR ''%'' # z)"
  by simp

lemma parse_v6_text: "wf_addr (IPv6 gs z) \<Longrightarrow> parse_v6_groups (v6_text gs) = Some gs"
  using parse_string6 [of gs z] parse_string4in6 [of gs z] by simp

lemma parse_v6_string:
  assumes "wf_addr (IPv6 gs z)"
  shows "parse_v6 (addr_string (IPv6 gs z)) = Some (IPv6 gs z)"
proof -
  have np: "\<forall>c \<in> set (v6_text gs). c \<noteq> CHR ''%''"
    using v6_text_chars addr_char_not_percent by blast
  have tw: "takeWhile (\<lambda>c. c \<noteq> CHR ''%'') (v6_text gs @ CHR ''%'' # z) = v6_text gs"
    and dw: "dropWhile (\<lambda>c. c \<noteq> CHR ''%'') (v6_text gs @ CHR ''%'' # z) = CHR ''%'' # z"
    using np by (simp_all add: takeWhile_append2 dropWhile_append2 del: addr_string.simps)
  show ?thesis
  proof (cases "z = []")
    case True
    with np parse_v6_text [OF assms] show ?thesis
      by (auto simp: parse_v6_def simp del: addr_string.simps)
  next
    case False
    have str: "addr_string (IPv6 gs z) = v6_text gs @ CHR ''%'' # z"
      using False by simp
    show ?thesis
      unfolding str parse_v6_def
      using False by (simp add: tw dw parse_v6_text [OF assms] Let_def del: addr_string.simps)
  qed
qed

theorem ParseAddr_addr_string:
  assumes "wf_addr a"
  shows "ParseAddr (addr_string a) = Some a"
proof (cases a)
  case (IPv4 os)
  with assms ParseAddr_string4 [of os] show ?thesis by simp
next
  case (IPv6 gs z)
  obtain pre rest where pr: "addr_string (IPv6 gs z) = pre @ CHR '':'' # rest"
    and hex: "\<forall>c \<in> set pre. is_hex c"
    using colon_first assms IPv6 by blast
  have "find (\<lambda>c. c \<in> set ''.:%'') pre = None"
    using hex by (auto simp: find_None_iff is_hex_def)
  then have "find (\<lambda>c. c \<in> set ''.:%'') (addr_string (IPv6 gs z)) = Some (CHR '':'')"
    by (simp add: pr find_append del: addr_string.simps)
  with parse_v6_string [of gs z] assms IPv6 show ?thesis
    by (simp add: ParseAddr_def del: addr_string.simps)
qed

section \<open>What is read is well formed\<close>

lemma parse_v4_wf:
  "parse_v4 s val dl fs = Some os \<Longrightarrow> val < 256 \<Longrightarrow> length fs \<le> 3 \<Longrightarrow>
     \<forall>x \<in> set fs. x < 256 \<Longrightarrow> length os = 4 \<and> (\<forall>x \<in> set os. x < 256)"
proof (induction s val dl fs rule: parse_v4.induct)
  case (1 val dl fs)
  then have "length fs = 3" and "os = fs @ [val]" by (auto split: if_splits)
  with 1 show ?case by simp
next
  case (2 c s val dl fs)
  show ?case
  proof (cases "is_digit c")
    case True
    let ?v = "val * 10 + digit_val c"
    from True "2.prems"(1) have g: "\<not> (dl = 1 \<and> val = 0)" "\<not> 255 < ?v"
      and rec: "parse_v4 s ?v (Suc dl) fs = Some os"
      unfolding parse_v4.simps by (metis option.distinct(1))+
    from g have "?v < 256" by linarith
    from "2.IH"(1) [OF True g rec this "2.prems"(3,4)] show ?thesis .
  next
    case False
    with "2.prems"(1) have dot: "c = CHR ''.''" and g: "\<not> (dl = 0 \<or> s = [])" "length fs \<noteq> 3"
      and rec: "parse_v4 s 0 0 (fs @ [val]) = Some os"
      unfolding parse_v4.simps by (metis option.distinct(1))+
    have "length (fs @ [val]) \<le> 3" and "\<forall>x \<in> set (fs @ [val]). x < 256"
      using "2.prems" g by simp_all
    from "2.IH"(2) [OF False dot g rec _ this] show ?thesis by simp
  qed
qed

lemma take_hex_bound:
  "take_hex s off acc = Some (off', acc', rest) \<Longrightarrow> acc < 65536 \<Longrightarrow> acc' < 65536"
  by (induction s off acc rule: take_hex.induct) (auto split: option.splits if_splits)

lemma v4_groups_wf:
  assumes "length os = 4" and "\<forall>x \<in> set os. x < 256"
  shows "length (v4_groups os) = 2 \<and> (\<forall>x \<in> set (v4_groups os). x < 65536)"
proof -
  obtain a b c d where "os = [a, b, c, d]"
    using assms(1) by (auto simp: numeral_eq_Suc length_Suc_conv)
  with assms(2) show ?thesis by auto
qed

lemma v6_loop_wf:
  assumes "v6_loop k s gs ell = Some (s', gs', ell')" and "length gs + k = 8"
    and "\<forall>x \<in> set gs. x < 65536" and "\<forall>e. ell = Some e \<longrightarrow> e \<le> length gs"
  shows "length gs' \<le> 8 \<and> (\<forall>x \<in> set gs'. x < 65536)"
  using assms
proof (induction k s gs ell rule: v6_loop.induct)
  case (1 s gs ell)
  then show ?case by simp
next
  case (2 k s gs ell)
  from "2.prems"(1) obtain off acc rest where th: "take_hex s 0 0 = Some (off, acc, rest)"
    and off: "off \<noteq> 0"
    by (auto split: option.splits if_splits)
  have acc: "acc < 65536" using take_hex_bound [OF th] by simp
  have len: "length (gs @ [acc]) \<le> 8" "length (gs @ [acc]) + k = 8"
    using "2.prems"(2) by simp_all
  have bd: "\<forall>x \<in> set (gs @ [acc]). x < 65536" using "2.prems"(3) acc by simp
  show ?case
  proof (cases rest)
    case Nil
    with "2.prems"(1) th off have "gs' = gs @ [acc]" by simp
    with len bd show ?thesis by simp
  next
    case (Cons c s1)
    consider (dot) "c = CHR ''.''" | (colon) "c = CHR '':''"
      using "2.prems"(1) th off Cons by (auto split: if_splits)
    then show ?thesis
    proof cases
      case dot
      with "2.prems"(1) th off Cons obtain os where os: "parse_v4 s 0 0 [] = Some os"
        and gs': "gs' = gs @ v4_groups os" and room: "length gs + 2 \<le> 8"
        by (auto split: if_splits option.splits)
      have "length os = 4 \<and> (\<forall>x \<in> set os. x < 256)" using parse_v4_wf [OF os] by simp
      with v4_groups_wf [of os] room gs' "2.prems"(3) show ?thesis by auto
    next
      case colon
      with "2.prems"(1) th off Cons obtain d s2 where s1: "s1 = d # s2"
        by (auto split: list.splits)
      show ?thesis
      proof (cases "d = CHR '':''")
        case True
        with "2.prems"(1) th off Cons colon s1 have ell: "ell = None" by (auto split: if_splits)
        show ?thesis
        proof (cases "s2 = []")
          case True
          with \<open>d = CHR '':''\<close> "2.prems"(1) th off Cons colon s1 ell have "gs' = gs @ [acc]" by simp
          with len bd show ?thesis by simp
        next
          case False
          with \<open>d = CHR '':''\<close> "2.prems"(1) th off Cons colon s1 ell
          have "v6_loop k s2 (gs @ [acc]) (Some (Suc (length gs))) = Some (s', gs', ell')" by simp
          then show ?thesis
            using "2.IH"(1) [OF th refl refl off Cons] colon s1 True ell False len bd by simp
        qed
      next
        case False
        with "2.prems"(1) th off Cons colon s1
        have "v6_loop k s1 (gs @ [acc]) ell = Some (s', gs', ell')" by simp
        moreover have "\<forall>e. ell = Some e \<longrightarrow> e \<le> length (gs @ [acc])"
          using "2.prems"(4) by auto
        ultimately show ?thesis
          using "2.IH"(2) [OF th refl refl off Cons] colon s1 False len bd by simp
      qed
    qed
  qed
qed

lemma v6_expand_wf:
  assumes "v6_expand (s, gs, ell) = Some out" and "length gs \<le> 8"
    and "\<forall>x \<in> set gs. x < 65536"
  shows "length out = 8 \<and> (\<forall>x \<in> set out. x < 65536)"
proof (cases "length gs < 8")
  case True
  with assms(1) obtain e where out: "out = take e gs @ replicate (8 - length gs) 0 @ drop e gs"
    by (auto simp: v6_expand_def split: if_splits option.splits)
  have "set out \<subseteq> set gs \<union> {0}"
    using set_take_subset [of e gs] set_drop_subset [of e gs] by (auto simp: out)
  with assms(2,3) show ?thesis by (auto simp: out)
next
  case False
  with assms show ?thesis by (auto simp: v6_expand_def split: if_splits)
qed

lemma parse_v6_groups_wf:
  assumes "parse_v6_groups s = Some gs"
  shows "length gs = 8 \<and> (\<forall>x \<in> set gs. x < 65536)"
proof -
  have loop: "length gs = 8 \<and> (\<forall>x \<in> set gs. x < 65536)"
    if r: "v6_loop 8 t [] ell = Some r" "v6_expand r = Some gs" and ell: "ell = None \<or> ell = Some 0"
    for t ell r
  proof -
    obtain s' gs' ell' where r': "r = (s', gs', ell')" by (cases r) auto
    have "length gs' \<le> 8 \<and> (\<forall>x \<in> set gs'. x < 65536)"
      using v6_loop_wf [of 8 t "[]" ell s' gs' ell'] r(1) ell by (auto simp: r')
    with r(2) v6_expand_wf [of s' gs' ell' gs] show ?thesis by (simp add: r')
  qed
  show ?thesis
    using assms loop [of _ "Some 0"] loop [of _ None]
    by (auto simp: parse_v6_groups_def Option.bind_eq_Some_conv split: if_splits)
qed

theorem ParseAddr_wf: "ParseAddr s = Some a \<Longrightarrow> wf_addr a"
  using parse_v4_wf [of s 0 0 "[]"] parse_v6_groups_wf
  by (auto simp: ParseAddr_def parse_v6_def Let_def split: option.splits if_splits)

text \<open>Hence printing an address that was read and reading it again is the identity.\<close>

theorem ParseAddr_canonical: "ParseAddr s = Some a \<Longrightarrow> ParseAddr (addr_string a) = Some a"
  by (rule ParseAddr_addr_string) (rule ParseAddr_wf)

end
