(* ===== verification/Domain_Names.thy ===== *)
theory Domain_Names
  imports Provider_Types
begin

text \<open>
  Canonical DNS names: \<open>canonicalizeName\<close> and its callers in \<open>internal/provider/domain.go\<close>.
  A name is trimmed, loses one trailing dot, and is canonicalised label by label; owner names
  also admit a leading \<open>*\<close> label and labels with underscores. The IDNA conversion
  \<open>idna.Lookup.ToASCII\<close> of golang.org/x/net and the Unicode case tables are parameters,
  collected in a \<open>text_env\<close>; \<open>idna_laws\<close> states what is documented of the former.
\<close>

record text_env =
  idna_ToASCII :: "string \<Rightarrow> string option"
  unicode_lower :: "string \<Rightarrow> string"
  unicode_upper :: "string \<Rightarrow> string"

section \<open>Labels\<close>

definition owner_char :: "char \<Rightarrow> bool" where
  "owner_char c \<longleftrightarrow>
     is_lower c \<or> is_upper c \<or> is_digit c \<or> c = CHR ''-'' \<or> c = CHR ''_''"

definition validOwnerLabel :: "string \<Rightarrow> bool" where
  "validOwnerLabel label \<longleftrightarrow>
     \<not> (label = [] \<or> length label > 63 \<or> hd label = CHR ''-'' \<or> last label = CHR ''-'')
     \<and> list_all owner_char label"

definition asciiLettersDigits :: "string \<Rightarrow> bool" where
  "asciiLettersDigits v \<longleftrightarrow> list_all (\<lambda>c. is_lower c \<or> is_digit c) v"

text \<open>The body of the label loop of \<open>canonicalizeName\<close>; \<open>first\<close> is \<open>index == 0\<close>.\<close>

definition canonical_label :: "text_env \<Rightarrow> bool \<Rightarrow> bool \<Rightarrow> string \<Rightarrow> string result" where
  "canonical_label E allowOwnerLabels first label =
     (if label = [] then Inl ''DNS name contains an empty label''
      else if allowOwnerLabels \<and> label = ''*'' \<and> first then Inr label
      else if allowOwnerLabels \<and> CHR ''_'' \<in> set label then
        (if \<not> validOwnerLabel label then Inl ''DNS owner label is invalid''
         else Inr (to_lower (unicode_lower E) label))
      else (case idna_ToASCII E label of
              None \<Rightarrow> Inl ''DNS label is invalid''
            | Some ascii \<Rightarrow>
                if length ascii = 0 \<or> length ascii > 63 then Inl ''DNS label is invalid''
                else Inr (to_lower (unicode_lower E) ascii)))"

fun canonical_labels :: "text_env \<Rightarrow> bool \<Rightarrow> bool \<Rightarrow> string list \<Rightarrow> string list result" where
  "canonical_labels E allow first [] = Inr []"
| "canonical_labels E allow first (l # ls) =
     and_then (canonical_label E allow first l) (\<lambda>c.
     and_then (canonical_labels E allow False ls) (\<lambda>cs. Inr (c # cs)))"

section \<open>Names\<close>

definition canonicalizeName :: "text_env \<Rightarrow> string \<Rightarrow> bool \<Rightarrow> bool \<Rightarrow> string result" where
  "canonicalizeName E name allowOwnerLabels allowRoot =
     (let trimmed = trim_space name in
      if allowRoot \<and> trimmed = ''.'' then Inr ''.''
      else if trimmed = [] \<or> trimmed = ''.'' \<or> suffix ''..'' trimmed
      then Inl ''DNS name is empty or invalid''
      else
        and_then (canonical_labels E allowOwnerLabels True
                   (split_on (CHR ''.'') (trim_suffix trimmed ''.''))) (\<lambda>canonicalLabels.
          let canonical = join_with (CHR ''.'') canonicalLabels in
          if length canonical > 253 then Inl ''DNS name exceeds 253 bytes'' else Inr canonical))"

definition CanonicalizeZoneName :: "text_env \<Rightarrow> string \<Rightarrow> string result" where
  "CanonicalizeZoneName E name = canonicalizeName E name False False"

definition CanonicalizeDNSName :: "text_env \<Rightarrow> string \<Rightarrow> string result" where
  "CanonicalizeDNSName E name = canonicalizeName E name False False"

definition in_zone :: "string \<Rightarrow> string \<Rightarrow> bool" where
  "in_zone zone name \<longleftrightarrow> name = zone \<or> suffix (CHR ''.'' # zone) name"

definition CanonicalizeRecordName :: "text_env \<Rightarrow> string \<Rightarrow> string \<Rightarrow> string result" where
  "CanonicalizeRecordName E name zoneName =
     and_then (CanonicalizeZoneName E zoneName) (\<lambda>zone.
       let trimmed = trim_space name in
       if trimmed = [] \<or> trimmed = ''@'' then Inr zone
       else
         (let absolute = suffix ''.'' trimmed in
          and_then (canonicalizeName E trimmed True False) (\<lambda>canonical.
            if in_zone zone canonical then Inr canonical
            else if absolute then Inl ''record name must belong to the target zone''
            else canonicalizeName E (canonical @ ''.'' @ zone) True False)))"

section \<open>Documented behaviour of the IDNA conversion\<close>

definition ldh_char :: "char \<Rightarrow> bool" where
  "ldh_char c \<longleftrightarrow> is_lower c \<or> is_upper c \<or> is_digit c \<or> c = CHR ''-''"

text \<open>
  The three full stops beside \<open>.\<close> that IDNA maps to a dot: U+3002, U+FF0E and U+FF61.
\<close>

definition wide_dots :: "string list" where
  "wide_dots = [[CHR 0xE3, CHR 0x80, CHR 0x82], [CHR 0xEF, CHR 0xBC, CHR 0x8E],
                [CHR 0xEF, CHR 0xBD, CHR 0xA1]]"

definition no_wide_dot :: "string \<Rightarrow> bool" where
  "no_wide_dot s \<longleftrightarrow> (\<forall>d \<in> set wide_dots. \<not> sublist d s)"

text \<open>
  The \<open>Lookup\<close> profile uses the STD3 rules, so a converted label has letters, digits and
  hyphens only, and a converted label converts to itself.
\<close>

definition idna_laws :: "(string \<Rightarrow> string option) \<Rightarrow> bool" where
  "idna_laws f \<longleftrightarrow>
     (\<forall>l a. CHR ''.'' \<notin> set l \<and> no_wide_dot l \<and> f l = Some a \<longrightarrow>
        list_all ldh_char a \<and> (a \<noteq> [] \<longrightarrow> f (map lower_char a) = Some (map lower_char a)))"

text \<open>The conversion restricted to ASCII labels, where it is case folding and a check.\<close>

definition ldh_ToASCII :: "string \<Rightarrow> string option" where
  "ldh_ToASCII l =
     (if l \<noteq> [] \<and> list_all ldh_char l \<and> hd l \<noteq> CHR ''-'' \<and> last l \<noteq> CHR ''-''
      then Some (map lower_char l) else None)"

definition ascii_env :: text_env where
  "ascii_env = \<lparr>idna_ToASCII = ldh_ToASCII, unicode_lower = id, unicode_upper = id\<rparr>"

lemma ldh_char_lower [simp]: "ldh_char (lower_char c) = ldh_char c"
  by (auto simp: ldh_char_def lower_char_def is_upper_def is_lower_def is_digit_def
      dest: arg_cong [of _ _ byte])

lemma lower_char_hyphen [simp]: "lower_char c = CHR ''-'' \<longleftrightarrow> c = CHR ''-''"
  by (auto simp: lower_char_def is_upper_def dest: arg_cong [of _ _ byte])

lemma ldh_ToASCII_laws: "idna_laws ldh_ToASCII"
  by (auto simp: idna_laws_def ldh_ToASCII_def list_all_iff hd_map last_map comp_def split: if_splits)

section \<open>Canonical labels\<close>

lemma ldh_char_props:
  "ldh_char c \<Longrightarrow> is_ascii c \<and> solid c \<and> c \<noteq> CHR ''.'' \<and> c \<noteq> CHR ''_'' \<and> c \<noteq> CHR ''*''"
  by (auto simp: ldh_char_def is_lower_def is_upper_def is_digit_def is_ascii_def solid_def)

lemma owner_char_props: "owner_char c \<Longrightarrow> is_ascii c \<and> solid c \<and> c \<noteq> CHR ''.'' \<and> c \<noteq> CHR ''*''"
  by (auto simp: owner_char_def is_lower_def is_upper_def is_digit_def is_ascii_def solid_def)

lemma owner_char_lower [simp]: "owner_char (lower_char c) = owner_char c"
proof -
  have "lower_char c = CHR ''_'' \<longleftrightarrow> c = CHR ''_''"
    by (auto simp: lower_char_def is_upper_def dest: arg_cong [of _ _ byte])
  then show ?thesis
    using ldh_char_lower [of c] by (auto simp: owner_char_def ldh_char_def)
qed

lemma validOwnerLabel_lower [simp]: "validOwnerLabel (map lower_char l) = validOwnerLabel l"
  by (cases "l = []")
    (auto simp: validOwnerLabel_def hd_map last_map list_all_iff)

definition label_char :: "char \<Rightarrow> bool" where
  "label_char c \<longleftrightarrow> owner_char c \<or> c = CHR ''*''"

lemma label_char_props:
  "label_char c \<Longrightarrow> is_ascii c \<and> solid c \<and> c \<noteq> CHR ''.'' \<and> c \<noteq> CHR ''@'' \<and> c \<noteq> CHR 0x22"
  by (auto simp: label_char_def owner_char_def is_lower_def is_upper_def is_digit_def
      is_ascii_def solid_def)

lemma ldh_label_char: "ldh_char c \<Longrightarrow> label_char c"
  by (auto simp: ldh_char_def label_char_def owner_char_def)

text \<open>
  A canonical label: what \<open>canonical_label\<close> returns. \<open>own\<close> is \<open>allowOwnerLabels\<close>.
\<close>

definition label_form :: "text_env \<Rightarrow> bool \<Rightarrow> bool \<Rightarrow> string \<Rightarrow> bool" where
  "label_form E own first c \<longleftrightarrow>
     c \<noteq> [] \<and> length c \<le> 63 \<and> list_all label_char c \<and> canonical_label E own first c = Inr c"

lemma lower_underscore: "lower_char x = CHR ''_'' \<longleftrightarrow> x = CHR ''_''"
  by (auto simp: lower_char_def is_upper_def dest: arg_cong [of _ _ byte])

lemma underscore_lower [simp]: "CHR ''_'' \<in> set (map lower_char l) \<longleftrightarrow> CHR ''_'' \<in> set l"
proof -
  have "CHR ''_'' = lower_char x \<longleftrightarrow> x = CHR ''_''" for x
    using lower_underscore [of x] by metis
  then show ?thesis by (auto simp: image_iff)
qed

lemma star_lower: "map lower_char l = ''*'' \<longleftrightarrow> l = ''*''"
proof -
  have "lower_char x = CHR ''*'' \<longleftrightarrow> x = CHR ''*''" for x
    by (auto simp: lower_char_def is_upper_def dest: arg_cong [of _ _ byte])
  then show ?thesis by (auto simp: map_eq_Cons_conv)
qed

lemma canonical_label_form:
  assumes laws: "idna_laws (idna_ToASCII E)"
    and res: "canonical_label E own first l = Inr c"
    and dots: "CHR ''.'' \<notin> set l" "no_wide_dot l"
  shows "label_form E own first c"
proof -
  have l: "l \<noteq> []" using res by (auto simp: canonical_label_def)
  consider (star) "own" "l = ''*''" "first"
    | (owner) "own" "CHR ''_'' \<in> set l" "\<not> (l = ''*'' \<and> first)"
    | (idna) "\<not> (own \<and> l = ''*'' \<and> first)" "\<not> (own \<and> CHR ''_'' \<in> set l)" by blast
  then show ?thesis
  proof cases
    case star
    with res show ?thesis
      by (auto simp: canonical_label_def label_form_def label_char_def)
  next
    case owner
    with res l have v: "validOwnerLabel l" and c: "c = to_lower (unicode_lower E) l"
      by (auto simp: canonical_label_def split: if_splits)
    from v have oc: "\<forall>x \<in> set l. owner_char x" and len: "length l \<le> 63"
      by (auto simp: validOwnerLabel_def list_all_iff)
    then have asc: "list_all is_ascii l" using owner_char_props by (auto simp: list_all_iff)
    then have c': "c = map lower_char l" by (simp add: c to_lower_ascii)
    have props: "\<forall>x \<in> set c. label_char x"
      using oc by (auto simp: c' label_char_def)
    have us: "CHR ''_'' \<in> set c" using owner(2) underscore_lower [of l] by (simp add: c' del: set_map)
    have "canonical_label E own first c = Inr c"
      using owner v l asc us star_lower [of l] by (auto simp: canonical_label_def c')
    then show ?thesis
      using props l len by (auto simp: label_form_def list_all_iff c')
  next
    case idna
    with res l obtain a where a: "idna_ToASCII E l = Some a" "a \<noteq> []" "length a \<le> 63"
      and c: "c = to_lower (unicode_lower E) a"
      by (auto simp: canonical_label_def split: if_splits option.splits)
    from laws dots a have ldh: "list_all ldh_char a"
      and fixed: "idna_ToASCII E (map lower_char a) = Some (map lower_char a)"
      by (auto simp: idna_laws_def)
    have asc: "list_all is_ascii a" using ldh ldh_char_props by (auto simp: list_all_iff)
    then have c': "c = map lower_char a" by (simp add: c to_lower_ascii)
    have props: "\<forall>x \<in> set c. ldh_char x"
      using ldh by (auto simp: c' list_all_iff)
    then have us: "CHR ''_'' \<notin> set c" and st: "CHR ''*'' \<notin> set c"
      using ldh_char_props by blast+
    then have star: "c \<noteq> ''*''" by (metis list.set_intros(1))
    moreover have "to_lower (unicode_lower E) c = c" using asc by (simp add: c')
    ultimately have "canonical_label E own first c = Inr c"
      using a fixed us star by (simp add: canonical_label_def c' del: set_map)
    then show ?thesis
      using props a ldh_label_char by (auto simp: label_form_def list_all_iff c')
  qed
qed

fun labels_form :: "text_env \<Rightarrow> bool \<Rightarrow> bool \<Rightarrow> string list \<Rightarrow> bool" where
  "labels_form E own first [] = True"
| "labels_form E own first (l # ls) = (label_form E own first l \<and> labels_form E own False ls)"

lemma canonical_labels_form:
  assumes "idna_laws (idna_ToASCII E)" and "canonical_labels E own first ls = Inr cs"
    and "\<forall>l \<in> set ls. CHR ''.'' \<notin> set l \<and> no_wide_dot l"
  shows "labels_form E own first cs \<and> length cs = length ls"
  using assms
proof (induction ls arbitrary: first cs)
  case Nil
  then show ?case by simp
next
  case (Cons l ls)
  from Cons.prems(2) obtain c cs' where c: "canonical_label E own first l = Inr c"
    and cs': "canonical_labels E own False ls = Inr cs'" and cs: "cs = c # cs'"
    by (auto simp: and_then_Inr)
  from Cons.prems(1,3) Cons.IH [OF _ cs'] canonical_label_form [OF _ c] show ?case
    by (simp add: cs)
qed

lemma labels_form_fixed: "labels_form E own first cs \<Longrightarrow> canonical_labels E own first cs = Inr cs"
  by (induction cs arbitrary: first) (auto simp: label_form_def)

lemma labels_form_all:
  "labels_form E own first cs \<Longrightarrow> l \<in> set cs \<Longrightarrow>
     l \<noteq> [] \<and> length l \<le> 63 \<and> CHR ''.'' \<notin> set l \<and> (\<forall>x \<in> set l. label_char x)"
  using label_char_props
  by (induction cs arbitrary: first) (fastforce simp: label_form_def list_all_iff)+

section \<open>Canonical names\<close>

text \<open>
  The shape of every name \<open>canonicalizeName\<close> returns: canonical labels joined by dots,
  at most 253 bytes.
\<close>

definition name_form :: "text_env \<Rightarrow> bool \<Rightarrow> string \<Rightarrow> bool" where
  "name_form E own n \<longleftrightarrow> (\<exists>cs. cs \<noteq> [] \<and> labels_form E own True cs \<and> n = join_with (CHR ''.'') cs)"

definition canonical_name :: "text_env \<Rightarrow> bool \<Rightarrow> string \<Rightarrow> bool" where
  "canonical_name E own n \<longleftrightarrow> name_form E own n \<and> length n \<le> 253"

lemma sublist_no_high_byte:
  assumes "list_all is_ascii s" and "\<not> is_ascii (hd d)" and "d \<noteq> []"
  shows "\<not> sublist d s"
proof
  assume "sublist d s"
  then have "hd d \<in> set s" using assms(3) set_mono_sublist by fastforce
  with assms show False by (auto simp: list_all_iff)
qed

lemma ascii_no_wide_dot: "list_all is_ascii s \<Longrightarrow> no_wide_dot s"
proof -
  assume asc: "list_all is_ascii s"
  have "\<not> is_ascii (CHR 0xE3)" "\<not> is_ascii (CHR 0xEF)" by (simp_all add: is_ascii_def)
  with sublist_no_high_byte [OF asc] show ?thesis
    by (simp add: no_wide_dot_def wide_dots_def)
qed

definition name_char :: "char \<Rightarrow> bool" where
  "name_char c \<longleftrightarrow> label_char c \<or> c = CHR ''.''"

lemma name_char_props:
  "name_char c \<Longrightarrow> is_ascii c \<and> solid c \<and> c \<noteq> CHR ''@'' \<and> c \<noteq> CHR 0x22"
  using label_char_props [of c] by (auto simp: name_char_def is_ascii_def solid_def)

lemma name_form_chars:
  assumes "name_form E own n"
  shows "\<forall>x \<in> set n. name_char x"
proof -
  from assms obtain cs where cs: "labels_form E own True cs" and n: "n = join_with (CHR ''.'') cs"
    by (auto simp: name_form_def)
  from labels_form_all [OF cs] show ?thesis
    unfolding n by (intro join_chars_all) (auto simp: name_char_def)
qed

lemma name_form_props:
  assumes "name_form E own n"
  shows "n \<noteq> [] \<and> trim_space n = n \<and> n \<noteq> ''.'' \<and> \<not> suffix ''.'' n \<and> list_all is_ascii n
    \<and> no_wide_dot n \<and> n \<noteq> ''@''"
proof -
  from assms obtain cs where cs: "cs \<noteq> []" "labels_form E own True cs" and n: "n = join_with (CHR ''.'') cs"
    by (auto simp: name_form_def)
  have all: "\<forall>l \<in> set cs. l \<noteq> [] \<and> CHR ''.'' \<notin> set l"
    using labels_form_all [OF cs(2)] by blast
  have hl: "n \<noteq> []" "hd n = hd (hd cs)" "last n = last (last cs)"
    using join_ends [of cs "CHR ''.''"] cs(1) all by (auto simp: n)
  have "last (last cs) \<in> set (last cs)" "last cs \<in> set cs" using cs(1) all by auto
  then have "last n \<noteq> CHR ''.''" using hl(3) all by metis
  then have nodot: "\<not> suffix ''.'' n" by (auto simp: suffix_def)
  have chars: "\<forall>x \<in> set n. is_ascii x \<and> solid x \<and> x \<noteq> CHR ''@''"
    using name_form_chars [OF assms] name_char_props by blast
  moreover have "hd n \<in> set n" "last n \<in> set n" using hl(1) by simp_all
  ultimately have "trim_space n = n" using hl(1) by (intro trim_space_solid) blast+
  moreover have "list_all is_ascii n" using chars by (simp add: list_all_iff)
  moreover have "n \<noteq> ''.''" using nodot by auto
  moreover have "n \<noteq> ''@''" using chars by (metis list.set_intros(1))
  ultimately show ?thesis
    using hl(1) nodot ascii_no_wide_dot [of n] by blast
qed

lemma name_form_split:
  assumes "name_form E own n"
  shows "labels_form E own True (split_on (CHR ''.'') n)"
proof -
  from assms obtain cs where cs: "cs \<noteq> []" "labels_form E own True cs" and n: "n = join_with (CHR ''.'') cs"
    by (auto simp: name_form_def)
  have "split_on (CHR ''.'') n = cs"
    unfolding n using cs labels_form_all by (intro split_join) blast+
  with cs show ?thesis by simp
qed

lemma canonicalizeName_on_form:
  assumes "name_form E own n"
  shows "canonicalizeName E n own False
    = (if length n > 253 then Inl ''DNS name exceeds 253 bytes'' else Inr n)"
proof -
  have p: "n \<noteq> []" "trim_space n = n" "n \<noteq> ''.''" "\<not> suffix ''.'' n"
    using name_form_props [OF assms] by auto
  then have "\<not> suffix ''..'' n" using suffix_order.trans [of "''.''" "''..''" n] by (auto simp: suffix_def)
  with p labels_form_fixed [OF name_form_split [OF assms]] show ?thesis
    by (simp add: canonicalizeName_def Let_def trim_suffix_no)
qed

lemma no_wide_dot_part: "no_wide_dot s \<Longrightarrow> sublist t s \<Longrightarrow> no_wide_dot t"
  by (auto simp: no_wide_dot_def intro: sublist_order.order_trans)

lemma split_on_sublist: "l \<in> set (split_on d s) \<Longrightarrow> sublist l s"
proof (induction s arbitrary: l)
  case Nil
  then show ?case by simp
next
  case (Cons c s)
  obtain m ms where ms: "split_on d s = m # ms" by (cases "split_on d s") auto
  then have m: "prefix m s"
    using join_split [of d s] by (cases ms) (auto simp: join_with_Cons)
  from Cons ms m show ?case
    by (auto simp: sublist_Cons_right split: if_splits)
qed

lemma trim_space_sublist: "sublist (trim_space s) s"
proof -
  let ?t = "trim_runes space_runes s"
  have "suffix ?t s" by (rule trim_runes_suffix)
  moreover have "prefix (trim_space s) ?t"
    using trim_runes_suffix [of "map rev space_runes" "rev ?t"]
    by (simp add: trim_space_def suffix_to_prefix)
  ultimately show ?thesis
    by (meson prefix_imp_sublist suffix_imp_sublist sublist_order.order_trans)
qed

lemma trim_suffix_sublist: "sublist (trim_suffix s t) s"
  by (simp add: trim_suffix_def)

lemma canonicalizeName_canonical:
  assumes laws: "idna_laws (idna_ToASCII E)" and dots: "no_wide_dot name"
    and res: "canonicalizeName E name own False = Inr c"
  shows "canonical_name E own c"
proof -
  let ?ls = "split_on (CHR ''.'') (trim_suffix (trim_space name) ''.'')"
  from res obtain cs where cs: "canonical_labels E own True ?ls = Inr cs"
    and c: "c = join_with (CHR ''.'') cs" and len: "length c \<le> 253"
    by (auto simp: canonicalizeName_def Let_def and_then_Inr split: if_splits)
  have d: "no_wide_dot (trim_suffix (trim_space name) ''.'')"
    by (rule no_wide_dot_part [OF no_wide_dot_part [OF dots trim_space_sublist] trim_suffix_sublist])
  have "\<forall>l \<in> set ?ls. CHR ''.'' \<notin> set l \<and> no_wide_dot l"
    using split_on_no_sep no_wide_dot_part [OF d split_on_sublist] by simp
  with canonical_labels_form [OF laws cs] have form: "labels_form E own True cs"
    and "length cs = length ?ls" by blast+
  then have "cs \<noteq> []" using split_on_nonempty [of "CHR ''.''"] by (metis length_0_conv)
  with form c len show ?thesis by (auto simp: canonical_name_def name_form_def)
qed

lemma canonicalizeName_fixed: "canonical_name E own c \<Longrightarrow> canonicalizeName E c own False = Inr c"
  by (simp add: canonical_name_def canonicalizeName_on_form)

lemma canonicalizeName_idem:
  "idna_laws (idna_ToASCII E) \<Longrightarrow> no_wide_dot name \<Longrightarrow>
     canonicalizeName E name own False = Inr c \<Longrightarrow> canonicalizeName E c own False = Inr c"
  by (rule canonicalizeName_fixed) (rule canonicalizeName_canonical)

section \<open>Owner names inside a zone\<close>

lemma labels_form_append:
  "labels_form E own first (xs @ ys) \<longleftrightarrow>
     labels_form E own first xs \<and> labels_form E own (first \<and> xs = []) ys"
  by (induction xs arbitrary: first) auto

lemma label_form_owner:
  assumes "idna_laws (idna_ToASCII E)" and "label_form E False first c"
  shows "label_form E True first' c"
proof -
  from assms(2) have c: "c \<noteq> []" "list_all label_char c" and "canonical_label E False first c = Inr c"
    by (auto simp: label_form_def)
  then obtain a where a: "idna_ToASCII E c = Some a" "a \<noteq> []" "length a \<le> 63"
    and low: "c = to_lower (unicode_lower E) a"
    by (auto simp: canonical_label_def split: option.splits if_splits)
  have "CHR ''.'' \<notin> set c" "list_all is_ascii c"
    using c(2) label_char_props by (auto simp: list_all_iff)
  then have ldh: "list_all ldh_char a"
    using assms(1) a(1) ascii_no_wide_dot [of c] by (auto simp: idna_laws_def)
  then have "list_all is_ascii a" using ldh_char_props by (auto simp: list_all_iff)
  then have "c = map lower_char a" using low by (simp add: to_lower_ascii)
  then have "\<forall>x \<in> set c. ldh_char x" using ldh by (auto simp: list_all_iff)
  then have "CHR ''_'' \<notin> set c" "CHR ''*'' \<notin> set c" using ldh_char_props by blast+
  then have "CHR ''_'' \<notin> set c" "c \<noteq> ''*''" by (blast, metis list.set_intros(1))
  then have "canonical_label E True first' c = Inr c"
    using c(1) a low by (simp add: canonical_label_def)
  with assms(2) show ?thesis by (simp add: label_form_def)
qed

lemma labels_form_owner:
  "idna_laws (idna_ToASCII E) \<Longrightarrow> labels_form E False first cs \<Longrightarrow> labels_form E True first' cs"
  by (induction cs arbitrary: first first') (auto intro: label_form_owner)

lemma canonical_name_owner:
  "idna_laws (idna_ToASCII E) \<Longrightarrow> canonical_name E False n \<Longrightarrow> canonical_name E True n"
  by (auto simp: canonical_name_def name_form_def intro: labels_form_owner)

lemma name_form_qualify:
  assumes "idna_laws (idna_ToASCII E)" and "name_form E True n" and "name_form E False zone"
  shows "name_form E True (n @ ''.'' @ zone)"
proof -
  from assms obtain cs zs where cs: "cs \<noteq> []" "labels_form E True True cs" "n = join_with (CHR ''.'') cs"
    and zs: "zs \<noteq> []" "labels_form E False True zs" "zone = join_with (CHR ''.'') zs"
    by (auto simp: name_form_def)
  have "labels_form E True True (cs @ zs)"
    using cs labels_form_owner [OF assms(1) zs(2)] by (simp add: labels_form_append)
  moreover have "n @ ''.'' @ zone = join_with (CHR ''.'') (cs @ zs)"
    using cs zs by (simp add: join_append)
  ultimately show ?thesis
    using cs(1) unfolding name_form_def by (intro exI [of _ "cs @ zs"]) simp
qed

text \<open>
  A record name that is accepted is canonical and lies in the canonical zone, and stays as
  it is when it is canonicalised again.
\<close>

lemma CanonicalizeRecordName_canonical:
  assumes laws: "idna_laws (idna_ToASCII E)" and dots: "no_wide_dot name" "no_wide_dot zoneName"
    and res: "CanonicalizeRecordName E name zoneName = Inr c"
  obtains zone where "CanonicalizeZoneName E zoneName = Inr zone" and "canonical_name E False zone"
    and "in_zone zone c" and "canonical_name E True c"
proof -
  from res obtain zone where zone: "CanonicalizeZoneName E zoneName = Inr zone"
    by (auto simp: CanonicalizeRecordName_def and_then_Inr)
  then have zc: "canonical_name E False zone"
    using canonicalizeName_canonical [OF laws dots(2)] by (simp add: CanonicalizeZoneName_def)
  have "in_zone zone c \<and> canonical_name E True c"
  proof (cases "trim_space name = [] \<or> trim_space name = ''@''")
    case True
    with res zone have "c = zone" by (auto simp: CanonicalizeRecordName_def Let_def)
    with canonical_name_owner [OF laws zc] show ?thesis by (simp add: in_zone_def)
  next
    case False
    with res zone obtain d where d: "canonicalizeName E (trim_space name) True False = Inr d"
      and c: "c = d \<and> in_zone zone d \<or> \<not> in_zone zone d
        \<and> canonicalizeName E (d @ ''.'' @ zone) True False = Inr c"
      by (auto simp: CanonicalizeRecordName_def Let_def and_then_Inr split: if_splits)
    have dc: "canonical_name E True d"
      using canonicalizeName_canonical [OF laws _ d] dots(1) no_wide_dot_part trim_space_sublist
      by blast
    have form: "name_form E True (d @ ''.'' @ zone)"
      using name_form_qualify [OF laws] dc zc by (simp add: canonical_name_def)
    from c dc show ?thesis
      using canonicalizeName_on_form [OF form] form
      by (auto simp: in_zone_def canonical_name_def suffix_def split: if_splits)
  qed
  with zone zc that show thesis by blast
qed

lemma CanonicalizeRecordName_fixed:
  assumes "CanonicalizeZoneName E zoneName = Inr zone" and "in_zone zone c"
    and "canonical_name E True c"
  shows "CanonicalizeRecordName E c zoneName = Inr c"
proof -
  have "trim_space c = c" "c \<noteq> []" "c \<noteq> ''@''"
    using name_form_props assms(3) by (auto simp: canonical_name_def)
  with assms canonicalizeName_fixed [OF assms(3)] show ?thesis
    by (simp add: CanonicalizeRecordName_def Let_def)
qed

lemma CanonicalizeRecordName_idem:
  assumes "idna_laws (idna_ToASCII E)" and "no_wide_dot name" "no_wide_dot zoneName"
    and "CanonicalizeRecordName E name zoneName = Inr c"
  shows "CanonicalizeRecordName E c zoneName = Inr c"
  using CanonicalizeRecordName_canonical [OF assms] CanonicalizeRecordName_fixed by metis

end
