(* ===== verification/Txt_Values.thy ===== *)
theory Txt_Values
  imports Prelude
begin

text \<open>
  TXT data: \<open>canonicalizeTXT\<close> of \<open>internal/provider/domain.go\<close>, which takes either the plain
  text or RFC 1035 quoted segments and returns the text. The nested loops over byte positions
  are recursion over the unread rest of the string.
\<close>

definition maximumTXTBytes :: nat where "maximumTXTBytes = 65535"

abbreviation dquote :: char where "dquote \<equiv> CHR 0x22"

abbreviation backslash :: char where "backslash \<equiv> CHR 0x5C"

definition push_byte :: "char \<Rightarrow> (string \<times> bool \<times> string) result \<Rightarrow> (string \<times> bool \<times> string) result" where
  "push_byte c r = (case r of Inl e \<Rightarrow> Inl e | Inr (seg, closed, rest) \<Rightarrow> Inr (c # seg, closed, rest))"

text \<open>The value of three decimal digits, if the string starts with them.\<close>

definition decimal_escape :: "string \<Rightarrow> nat option" where
  "decimal_escape s =
     (case s of a # b # c # _ \<Rightarrow>
        if is_digit a \<and> is_digit b \<and> is_digit c
        then Some (digit_val a * 100 + digit_val b * 10 + digit_val c) else None
      | _ \<Rightarrow> None)"

text \<open>
  The inner loop: one segment after its opening quote. The result is the segment's bytes,
  whether the closing quote was seen, and the rest.
\<close>

function txt_segment :: "string \<Rightarrow> (string \<times> bool \<times> string) result" where
  "txt_segment [] = Inr ([], False, [])"
| "txt_segment (c # s) =
     (if c = dquote then Inr ([], True, s)
      else if c \<noteq> backslash then push_byte c (txt_segment s)
      else if s = [] then Inl ''TXT escape is incomplete''
      else (case decimal_escape s of
              Some decimal \<Rightarrow>
                if decimal > 255 then Inl ''TXT decimal escape is invalid''
                else push_byte (char_of decimal) (txt_segment (drop 3 s))
            | None \<Rightarrow> push_byte (hd s) (txt_segment (tl s))))"
  by pat_completeness auto
termination by (relation "measure length") auto

lemma push_byte_Inr:
  "push_byte c r = Inr (seg, closed, rest) \<longleftrightarrow> (\<exists>seg'. r = Inr (seg', closed, rest) \<and> seg = c # seg')"
  by (auto simp: push_byte_def split: sum.splits prod.splits)

lemma txt_segment_rest: "txt_segment s = Inr (seg, closed, rest) \<Longrightarrow> length rest \<le> length s"
proof (induction s arbitrary: seg rule: txt_segment.induct)
  case 1
  then show ?case by simp
next
  case (2 c s)
  then show ?case
    by (fastforce simp: push_byte_Inr split: if_splits option.splits)
qed

text \<open>The outer loop over the segments; the result is all their bytes.\<close>

function txt_segments :: "string \<Rightarrow> string result" where
  "txt_segments s =
     (let t = dropWhile (\<lambda>c. c = CHR '' '' \<or> c = CHR 0x09) s in
      case t of
        [] \<Rightarrow> Inr []
      | c # u \<Rightarrow>
          if c \<noteq> dquote then Inl ''TXT quoted segments are invalid''
          else (case txt_segment u of
                  Inl e \<Rightarrow> Inl e
                | Inr (segment, closed, rest) \<Rightarrow>
                    if \<not> closed \<or> length segment > 255 then Inl ''TXT quoted segment is invalid''
                    else (case txt_segments rest of
                            Inl e \<Rightarrow> Inl e
                          | Inr more \<Rightarrow> Inr (segment @ more))))"
  by pat_completeness auto
termination
proof (relation "measure length", goal_cases)
  case 1
  show ?case by simp
next
  case (2 s t c u y seg z closed rest)
  then have "length rest \<le> length u" using txt_segment_rest by blast
  also have "length u < length t" using 2 by (metis length_Cons lessI)
  also have "length t \<le> length s" using 2 length_dropWhile_le by metis
  finally show ?case by simp
qed

declare txt_segments.simps [simp del]

definition txt_text_ok :: "string \<Rightarrow> bool" where
  "txt_text_ok v \<longleftrightarrow> valid_utf8 v \<and> CHR 0x00 \<notin> set v \<and> CHR 0x0D \<notin> set v \<and> CHR 0x0A \<notin> set v"

definition canonicalizeTXT :: "string \<Rightarrow> string result" where
  "canonicalizeTXT v =
     (if \<not> txt_text_ok v then Inl ''TXT value is invalid''
      else
        (let trimmed = trim_space v in
         if \<not> prefix [dquote] trimmed then
           (if length v > maximumTXTBytes then Inl ''TXT value is too large'' else Inr v)
         else
           and_then (txt_segments trimmed) (\<lambda>canonical.
             if length canonical > maximumTXTBytes \<or> \<not> valid_utf8 canonical
             then Inl ''TXT value is too large or invalid UTF-8'' else Inr canonical)))"

section \<open>Properties\<close>

text \<open>A text that a reader takes as it stands: it does not begin with a quote.\<close>

definition plain_text :: "string \<Rightarrow> bool" where
  "plain_text v \<longleftrightarrow> \<not> prefix [dquote] (trim_space v)"

lemma canonicalizeTXT_plain:
  "txt_text_ok v \<Longrightarrow> plain_text v \<Longrightarrow> length v \<le> maximumTXTBytes \<Longrightarrow> canonicalizeTXT v = Inr v"
  by (simp add: canonicalizeTXT_def plain_text_def Let_def)

lemma canonicalizeTXT_bounds:
  "canonicalizeTXT v = Inr c \<Longrightarrow> length c \<le> maximumTXTBytes \<and> valid_utf8 c"
  by (auto simp: canonicalizeTXT_def txt_text_ok_def Let_def and_then_Inr split: if_splits)

lemma length_trim_space: "length (trim_space s) \<le> length s"
  using suffix_length_le [OF trim_runes_suffix [of space_runes s]]
    suffix_length_le [OF trim_runes_suffix [of "map rev space_runes" "rev (trim_runes space_runes s)"]]
  by (simp add: trim_space_def)

text \<open>Reading quoted segments takes away the quotes, so a text that begins with one is never read back.\<close>

lemma txt_segment_length:
  "txt_segment s = Inr (seg, closed, rest) \<Longrightarrow> length seg + length rest + (if closed then 1 else 0) \<le> length s"
proof (induction s arbitrary: seg rule: txt_segment.induct)
  case 1
  then show ?case by simp
next
  case (2 c s)
  then show ?case
    by (fastforce simp: push_byte_Inr split: if_splits option.splits)
qed

lemma txt_segments_length: "txt_segments s = Inr c \<Longrightarrow> length c \<le> length s"
proof (induction s arbitrary: c rule: txt_segments.induct)
  case (1 s)
  let ?t = "dropWhile (\<lambda>c. c = CHR '' '' \<or> c = CHR 0x09) s"
  have drop: "length ?t \<le> length s" by (rule length_dropWhile_le)
  show ?case
  proof (cases ?t)
    case Nil
    with "1.prems" show ?thesis by (simp add: txt_segments.simps [of s])
  next
    case (Cons d u)
    with "1.prems" obtain seg rest more where seg: "txt_segment u = Inr (seg, True, rest)" "d = dquote" "length seg \<le> 255"
      and more: "txt_segments rest = Inr more" "c = seg @ more"
      by (subst (asm) txt_segments.simps) (auto simp: Let_def split: if_splits sum.splits prod.splits)
    have "length more \<le> length rest" using "1.IH" [OF refl Cons] seg more by auto
    with txt_segment_length [OF seg(1)] more(2) drop Cons show ?thesis by simp
  qed
qed

lemma canonicalizeTXT_fixed_plain:
  assumes "canonicalizeTXT s = Inr v" and "length s \<le> length v"
  shows "plain_text s"
proof (rule ccontr)
  assume "\<not> plain_text s"
  then obtain u where u: "trim_space s = dquote # u" by (auto simp: plain_text_def prefix_def)
  with assms(1) have "txt_segments (dquote # u) = Inr v"
    by (auto simp: canonicalizeTXT_def Let_def and_then_Inr split: if_splits)
  then obtain seg rest more where "txt_segment u = Inr (seg, True, rest)" "txt_segments rest = Inr more" "v = seg @ more"
    by (subst (asm) txt_segments.simps) (auto simp: Let_def split: if_splits sum.splits prod.splits)
  then have "length v < length (dquote # u)"
    using txt_segment_length [of u seg True rest] txt_segments_length [of rest more] by simp
  also have "length (dquote # u) \<le> length s" unfolding u [symmetric] by (rule length_trim_space)
  finally show False using assms(2) by simp
qed

text \<open>Quoting a text that needs no escape, and reading it back.\<close>

definition quote_segment :: "string \<Rightarrow> string" where
  "quote_segment s = dquote # s @ [dquote]"

definition no_escape :: "string \<Rightarrow> bool" where
  "no_escape s \<longleftrightarrow> dquote \<notin> set s \<and> backslash \<notin> set s"

lemma txt_segment_quoted:
  "no_escape s \<Longrightarrow> txt_segment (s @ dquote # rest) = Inr (s, True, rest)"
  by (induction s) (auto simp: no_escape_def push_byte_def)

lemma txt_segments_quoted:
  assumes "\<forall>s \<in> set segs. no_escape s \<and> length s \<le> 255"
  shows "txt_segments (join_with (CHR '' '') (map quote_segment segs)) = Inr (concat segs)"
  using assms
proof (induction segs)
  case Nil
  then show ?case by (simp add: txt_segments.simps)
next
  case (Cons s segs)
  let ?rest = "join_with (CHR '' '') (map quote_segment segs)"
  have tail: "txt_segments (CHR '' '' # t) = txt_segments t" for t
    by (simp add: txt_segments.simps)
  show ?case
  proof (cases "segs = []")
    case True
    with Cons.prems txt_segment_quoted [of s "[]"] show ?thesis
      by (simp add: txt_segments.simps quote_segment_def)
  next
    case False
    then have "join_with (CHR '' '') (map quote_segment (s # segs))
        = dquote # s @ dquote # CHR '' '' # ?rest"
      by (simp add: join_with_Cons quote_segment_def)
    moreover have "txt_segments (dquote # s @ dquote # CHR '' '' # ?rest)
        = Inr (s @ concat segs)"
      using Cons txt_segment_quoted [of s "CHR '' '' # ?rest"] tail [of ?rest]
      by (simp add: txt_segments.simps [of "dquote # _"])
    ultimately show ?thesis by simp
  qed
qed

lemma quote_segment_valid: "valid_utf8 s \<Longrightarrow> valid_utf8 (quote_segment s)"
  using valid_utf8_append [of s "[dquote]"]
  by (simp add: quote_segment_def is_ascii_def)

lemma join_quoted_valid:
  "\<forall>s \<in> set segs. valid_utf8 s \<Longrightarrow> valid_utf8 (join_with (CHR '' '') (map quote_segment segs))"
proof (induction segs)
  case (Cons s segs)
  have sp: "is_ascii (CHR '' '')" by (simp add: is_ascii_def)
  from Cons show ?case
    by (cases "segs = []")
      (simp_all add: join_with_Cons valid_utf8_append quote_segment_valid sp)
qed simp

lemma canonicalizeTXT_quoted:
  assumes "segs \<noteq> []"
    and "\<forall>s \<in> set segs. no_escape s \<and> length s \<le> 255 \<and> valid_utf8 s
           \<and> CHR 0x00 \<notin> set s \<and> CHR 0x0D \<notin> set s \<and> CHR 0x0A \<notin> set s"
    and "length (concat segs) \<le> maximumTXTBytes"
  shows "canonicalizeTXT (join_with (CHR '' '') (map quote_segment segs)) = Inr (concat segs)"
proof -
  let ?q = "join_with (CHR '' '') (map quote_segment segs)"
  have chars: "c \<noteq> CHR 0x00 \<and> c \<noteq> CHR 0x0D \<and> c \<noteq> CHR 0x0A" if "c \<in> set ?q" for c
    using join_chars [OF that] assms(2) by (auto simp: quote_segment_def)
  have ends: "?q \<noteq> []" "hd ?q = dquote" "last ?q = dquote"
    using join_ends [of "map quote_segment segs" "CHR '' ''"] assms(1)
    by (simp_all add: quote_segment_def hd_map last_map)
  have "solid dquote" by (simp add: solid_def)
  with ends have trim: "trim_space ?q = ?q" by (intro trim_space_solid) simp_all
  from ends have pre: "prefix [dquote] ?q" by (cases ?q) simp_all
  have ok: "txt_text_ok ?q"
    using join_quoted_valid [of segs] assms(2) chars unfolding txt_text_ok_def by blast
  have valid: "valid_utf8 (concat segs)"
    using assms(2) by (induction segs) (simp_all add: valid_utf8_append)
  show ?thesis
    using ok pre trim valid assms(3) txt_segments_quoted [of segs] assms(2)
    by (simp add: canonicalizeTXT_def)
qed

section \<open>Reading twice\<close>

text \<open>
  The function is not idempotent: a text whose own first byte is a quote is taken for quoted
  segments when it is read again.
\<close>

lemma canonicalizeTXT_idem:
  assumes "canonicalizeTXT v = Inr c" and "plain_text c" and "txt_text_ok c"
  shows "canonicalizeTXT c = Inr c"
  using canonicalizeTXT_plain [OF assms(3,2)] canonicalizeTXT_bounds [OF assms(1)] by simp

end
