(* ===== verification/Record_Json.thy ===== *)
theory Record_Json
  imports Provider_Types "HOL-Library.Multiset"
begin

text \<open>
  \<open>encoding/json\<close> as \<open>internal/provider/fingerprint.go\<close> uses it: \<open>json.Marshal\<close> of the two
  structures of a fingerprint, written as a JSON value and its compact rendering. Strings are
  escaped as Go does (the HTML characters, U+2028 and U+2029 and control characters are
  \<open>\u\<close> escapes, an invalid byte becomes \<open>\ufffd\<close>); \<open>omitempty\<close> drops an empty string or slice
  and a nil pointer. Marshalling these types never fails. The last section shows that the
  rendering loses nothing of a value whose strings are valid UTF-8.
\<close>

section \<open>Strings\<close>

definition hex_digit :: "nat \<Rightarrow> char" where
  "hex_digit d = (if d < 10 then char_of (48 + d) else char_of (87 + d))"

definition json_escape :: "char \<Rightarrow> string" where
  "json_escape c =
     (if c = CHR 0x5C \<or> c = CHR 0x22 then [CHR 0x5C, c]
      else if c = CHR 0x08 then [CHR 0x5C, CHR ''b'']
      else if c = CHR 0x0C then [CHR 0x5C, CHR ''f'']
      else if c = CHR 0x0A then [CHR 0x5C, CHR ''n'']
      else if c = CHR 0x0D then [CHR 0x5C, CHR ''r'']
      else if c = CHR 0x09 then [CHR 0x5C, CHR ''t'']
      else if byte c < 32 \<or> c = CHR ''<'' \<or> c = CHR ''>'' \<or> c = CHR ''&''
      then CHR 0x5C # ''u00'' @ [hex_digit (byte c div 16), hex_digit (byte c mod 16)]
      else [c])"

definition line_separator :: string where
  "line_separator = [CHR 0xE2, CHR 0x80, CHR 0xA8]"

definition paragraph_separator :: string where
  "paragraph_separator = [CHR 0xE2, CHR 0x80, CHR 0xA9]"

definition json_rune :: "string \<Rightarrow> string" where
  "json_rune r =
     (if r = line_separator then CHR 0x5C # ''u2028''
      else if r = paragraph_separator then CHR 0x5C # ''u2029'' else r)"

function json_chars :: "string \<Rightarrow> string" where
  "json_chars [] = []"
| "json_chars (c # s) =
     (if is_ascii c then json_escape c @ json_chars s
      else (case rune_rest (c # s) of
              None \<Rightarrow> (CHR 0x5C # ''ufffd'') @ json_chars s
            | Some r \<Rightarrow> json_rune (take (length (c # s) - length r) (c # s)) @ json_chars r))"
  by pat_completeness auto
termination
  by (relation "measure length") (auto dest: rune_rest_less)

declare json_chars.simps(2) [simp del]

definition json_string :: "string \<Rightarrow> string" where
  "json_string s = CHR 0x22 # json_chars s @ [CHR 0x22]"

section \<open>Values\<close>

datatype json =
    JNull | JBool bool | JNum nat | JStr string | JArr "json list" | JObj "(string \<times> json) list"

fun json_render :: "json \<Rightarrow> string" where
  "json_render JNull = ''null''"
| "json_render (JBool b) = (if b then ''true'' else ''false'')"
| "json_render (JNum n) = nat_to_dec n"
| "json_render (JStr s) = json_string s"
| "json_render (JArr js) = ''['' @ join_with (CHR '','') (map json_render js) @ '']''"
| "json_render (JObj fs) =
     ''{'' @ join_with (CHR '','') (map (\<lambda>(k, v). json_string k @ '':'' @ json_render v) fs) @ ''}''"

section \<open>The structures of a fingerprint\<close>

text \<open>A field without \<open>omitempty\<close>, one of pointer type and one of string type with it.\<close>

definition opt_field :: "string \<Rightarrow> ('a \<Rightarrow> json) \<Rightarrow> 'a option \<Rightarrow> (string \<times> json) list" where
  "opt_field k f v = (case v of None \<Rightarrow> [] | Some x \<Rightarrow> [(k, f x)])"

definition str_field :: "string \<Rightarrow> string \<Rightarrow> (string \<times> json) list" where
  "str_field k s = (if s = [] then [] else [(k, JStr s)])"

definition strs_field :: "string \<Rightarrow> string list \<Rightarrow> (string \<times> json) list" where
  "strs_field k ss = (if ss = [] then [] else [(k, JArr (map JStr ss))])"

definition or_null :: "('a \<Rightarrow> json) \<Rightarrow> 'a option \<Rightarrow> json" where
  "or_null f v = (case v of None \<Rightarrow> JNull | Some x \<Rightarrow> f x)"

definition JWord :: "'a::len word \<Rightarrow> json" where
  "JWord w = JNum (unat w)"

definition cloudflare_set_json :: "cloudflare_set_ext \<Rightarrow> json" where
  "cloudflare_set_json x = JObj
     (opt_field ''proxied'' JBool (cfs_Proxied x)
      @ opt_field ''proxiable'' JBool (cfs_Proxiable x)
      @ opt_field ''automatic_ttl'' JBool (cfs_AutomaticTTL x)
      @ str_field ''comment'' (cfs_Comment x)
      @ strs_field ''tags'' (cfs_Tags x))"

definition huawei_set_json :: "huawei_set_ext \<Rightarrow> json" where
  "huawei_set_json x = JObj
     (str_field ''status'' (hws_Status x)
      @ str_field ''provider_status'' (hws_ProviderStatus x)
      @ opt_field ''default'' JBool (hws_Default x))"

definition aliyun_set_json :: "aliyun_set_ext \<Rightarrow> json" where
  "aliyun_set_json x = JObj (str_field ''status'' (als_Status x))"

definition tencent_set_json :: "tencent_set_ext \<Rightarrow> json" where
  "tencent_set_json x = JObj
     (str_field ''status'' (tcs_Status x) @ opt_field ''default'' JBool (tcs_Default x))"

definition set_extensions_json :: "record_set_extensions \<Rightarrow> json" where
  "set_extensions_json x = JObj
     (opt_field ''cloudflare'' cloudflare_set_json (sx_Cloudflare x)
      @ opt_field ''huawei'' huawei_set_json (sx_Huawei x)
      @ opt_field ''aliyun'' aliyun_set_json (sx_Aliyun x)
      @ opt_field ''tencent'' tencent_set_json (sx_Tencent x))"

definition huawei_entry_json :: "huawei_entry_ext \<Rightarrow> json" where
  "huawei_entry_json x = JObj
     (str_field ''line'' (hwe_Line x) @ opt_field ''weight'' JWord (hwe_Weight x))"

definition aliyun_entry_json :: "aliyun_entry_ext \<Rightarrow> json" where
  "aliyun_entry_json x = JObj
     (str_field ''line'' (ale_Line x)
      @ str_field ''status'' (ale_Status x)
      @ opt_field ''weight'' JWord (ale_Weight x)
      @ str_field ''remark'' (ale_Remark x))"

definition tencent_entry_json :: "tencent_entry_ext \<Rightarrow> json" where
  "tencent_entry_json x = JObj
     (str_field ''line'' (tce_Line x)
      @ str_field ''line_id'' (tce_LineID x)
      @ opt_field ''weight'' JWord (tce_Weight x)
      @ str_field ''status'' (tce_Status x)
      @ str_field ''remark'' (tce_Remark x))"

definition entry_extensions_json :: "record_entry_extensions \<Rightarrow> json" where
  "entry_extensions_json x = JObj
     (opt_field ''cloudflare'' (\<lambda>_. JObj []) (ex_Cloudflare x)
      @ opt_field ''huawei'' huawei_entry_json (ex_Huawei x)
      @ opt_field ''aliyun'' aliyun_entry_json (ex_Aliyun x)
      @ opt_field ''tencent'' tencent_entry_json (ex_Tencent x))"

text \<open>\<open>fingerprintEntry\<close>: everything of an entry but its provider ID.\<close>

definition entry_json :: "record_entry \<Rightarrow> json" where
  "entry_json e = JObj
     [(''value'', JStr (re_Value e)),
      (''priority'', or_null JWord (re_Priority e)),
      (''weight'', or_null JWord (re_Weight e)),
      (''port'', or_null JWord (re_Port e)),
      (''target'', or_null JStr (re_Target e)),
      (''flags'', or_null JWord (re_Flags e)),
      (''tag'', or_null JStr (re_Tag e)),
      (''extensions'', entry_extensions_json (re_Extensions e))]"

definition canonicalEntrySerialization :: "record_entry \<Rightarrow> string" where
  "canonicalEntrySerialization e = json_render (entry_json e)"

text \<open>
  \<open>serializeNormalizedRecordSet\<close>. \<open>sort.Slice\<close> is not stable, but entries with equal keys
  have equal serialisations, so their order does not show in the result.
\<close>

definition record_set_json :: "record_set \<Rightarrow> json" where
  "record_set_json rs = JObj
     [(''schema'', JStr ''aster-dns/recordset-fingerprint/v1''),
      (''name'', JStr (rs_Name rs)),
      (''type'', JStr (record_type_string (rs_Type rs))),
      (''ttl'', JWord (rs_TTL rs)),
      (''entries'', JArr (map entry_json (sort_key canonicalEntrySerialization (rs_Entries rs)))),
      (''extensions'', set_extensions_json (rs_Extensions rs)),
      (''provider_version'', JStr (rs_ProviderVersion rs))]"

definition serializeNormalizedRecordSet :: "record_set \<Rightarrow> string" where
  "serializeNormalizedRecordSet rs = json_render (record_set_json rs)"

section \<open>Nothing is lost: strings\<close>

text \<open>A reader for what \<open>json_chars\<close> writes, up to the closing quote.\<close>

definition hex_value :: "char \<Rightarrow> nat" where
  "hex_value c = (if is_digit c then byte c - 48 else byte c - 87)"

definition unescape :: "string \<Rightarrow> string \<times> string" where
  "unescape s =
     (if prefix ''u00'' s then ([char_of (16 * hex_value (s ! 3) + hex_value (s ! 4))], drop 5 s)
      else if prefix ''u2028'' s then (line_separator, drop 5 s)
      else if prefix ''u2029'' s then (paragraph_separator, drop 5 s)
      else if prefix ''b'' s then ([CHR 0x08], drop 1 s)
      else if prefix ''f'' s then ([CHR 0x0C], drop 1 s)
      else if prefix ''n'' s then ([CHR 0x0A], drop 1 s)
      else if prefix ''r'' s then ([CHR 0x0D], drop 1 s)
      else if prefix ''t'' s then ([CHR 0x09], drop 1 s)
      else (take 1 s, drop 1 s))"

function json_read :: "string \<Rightarrow> string \<times> string" where
  "json_read [] = ([], [])"
| "json_read (c # s) =
     (if c = CHR 0x22 then ([], s)
      else if c = CHR 0x5C then
        (let (x, t) = unescape s; (y, r) = json_read t in (x @ y, r))
      else (let (y, r) = json_read s in (c # y, r)))"
  by pat_completeness auto
termination
proof (relation "measure length", goal_cases)
  case (2 c s p x t)
  then have "length t \<le> length s" by (auto simp: unescape_def split: if_splits)
  then show ?case by simp
qed simp_all

declare json_read.simps(2) [simp del]

lemma hex_value_digit [simp]: "d < 16 \<Longrightarrow> hex_value (hex_digit d) = d"
  by (auto simp: hex_value_def hex_digit_def is_digit_def)

lemma json_read_plain:
  "c \<noteq> CHR 0x22 \<Longrightarrow> c \<noteq> CHR 0x5C \<Longrightarrow> json_read (c # s) = (c # fst (json_read s), snd (json_read s))"
  by (simp add: json_read.simps split_beta)

lemma json_read_unescape:
  "unescape s = (x, t) \<Longrightarrow> json_read (CHR 0x5C # s) = (x @ fst (json_read t), snd (json_read t))"
  by (simp add: json_read.simps split_beta)

lemma json_read_escape:
  "json_read (json_escape c @ t) = (c # fst (json_read t), snd (json_read t))"
proof -
  have hex: "unescape (''u00'' @ [hex_digit (byte c div 16), hex_digit (byte c mod 16)] @ t) = ([c], t)"
    if "byte c < 128"
    using that by (simp add: unescape_def)
  define special where "special \<longleftrightarrow> c = CHR 0x5C \<or> c = CHR 0x22"
  define html where "html \<longleftrightarrow> byte c < 32 \<or> c = CHR ''<'' \<or> c = CHR ''>'' \<or> c = CHR ''&''"
  consider special | "c = CHR 0x08" | "c = CHR 0x0C" | "c = CHR 0x0A" | "c = CHR 0x0D" | "c = CHR 0x09"
    | "\<not> special" "c \<noteq> CHR 0x08" "c \<noteq> CHR 0x0C" "c \<noteq> CHR 0x0A" "c \<noteq> CHR 0x0D" "c \<noteq> CHR 0x09" "html"
    | "\<not> special" "c \<noteq> CHR 0x08" "c \<noteq> CHR 0x0C" "c \<noteq> CHR 0x0A" "c \<noteq> CHR 0x0D" "c \<noteq> CHR 0x09" "\<not> html"
    by blast
  then show ?thesis
  proof cases
    case 1
    have "unescape (c # t) = ([c], t)" using 1 by (auto simp: unescape_def special_def)
    from json_read_unescape [OF this] 1 show ?thesis by (simp add: json_escape_def special_def)
  next
    case 7
    then have "json_escape c = CHR 0x5C # ''u00'' @ [hex_digit (byte c div 16), hex_digit (byte c mod 16)]"
      by (simp add: json_escape_def special_def html_def)
    moreover have "byte c < 128" using 7(7) by (auto simp: html_def)
    ultimately show ?thesis using json_read_unescape [OF hex] by simp
  next
    case 8
    then have "json_escape c = [c]" by (simp add: json_escape_def special_def html_def)
    then show ?thesis using 8(1) by (simp add: json_read_plain special_def)
  qed (simp_all add: json_escape_def json_read_unescape unescape_def split_beta)
qed

lemma json_read_bytes:
  "CHR 0x22 \<notin> set x \<Longrightarrow> CHR 0x5C \<notin> set x \<Longrightarrow>
     json_read (x @ t) = (x @ fst (json_read t), snd (json_read t))"
  by (induction x) (auto simp: json_read_plain)

lemma rune_not_ascii:
  "utf8_two a b \<Longrightarrow> \<not> is_ascii b"
  "utf8_three a b c \<Longrightarrow> \<not> is_ascii b \<and> \<not> is_ascii c"
  "utf8_four a b c d \<Longrightarrow> \<not> is_ascii b \<and> \<not> is_ascii c \<and> \<not> is_ascii d"
  by (auto simp: utf8_two_def utf8_three_def utf8_four_def in_bytes_def is_ascii_def)

lemma rune_bytes:
  assumes "rune_rest (c # s) = Some r" and "\<not> is_ascii c"
  obtains x where "c # s = x @ r" and "x = take (length (c # s) - length r) (c # s)"
    and "\<forall>b \<in> set x. \<not> is_ascii b" and "\<And>y. rune_rest (x @ y) = Some y"
proof -
  from assms obtain x where x: "c # s = x @ r" "\<forall>b \<in> set x. \<not> is_ascii b" "\<And>y. rune_rest (x @ y) = Some y"
    by (auto simp: rune_rest.simps dest: rune_not_ascii split: if_splits list.splits
        intro: that [of "[_, _]"] that [of "[_, _, _]"] that [of "[_, _, _, _]"])
  then have "x = take (length (c # s) - length r) (c # s)" by simp
  with x that show thesis by blast
qed

lemma json_read_chars:
  "valid_utf8 s \<Longrightarrow> json_read (json_chars s @ CHR 0x22 # t) = (s, t)"
proof (induction s rule: json_chars.induct)
  case 1
  then show ?case by (simp add: json_read.simps)
next
  case (2 c s)
  show ?case
  proof (cases "is_ascii c")
    case True
    with 2 show ?thesis by (simp add: json_chars.simps json_read_escape)
  next
    case False
    from "2.prems" obtain r where r: "rune_rest (c # s) = Some r" "valid_utf8 r"
      by (auto simp: valid_utf8_rest)
    obtain x where x: "c # s = x @ r" "x = take (length (c # s) - length r) (c # s)"
        "\<forall>b \<in> set x. \<not> is_ascii b"
      using rune_bytes [OF r(1) False] .
    have IH: "json_read (json_chars r @ CHR 0x22 # t) = (r, t)"
      using "2.IH"(3) [OF False r(1) r(2)] .
    have "json_chars (c # s) = json_rune x @ json_chars r"
      using False r(1) x(2) by (simp add: json_chars.simps)
    moreover have "json_read (json_rune x @ json_chars r @ CHR 0x22 # t) = (x @ r, t)"
    proof -
      have "CHR 0x22 \<notin> set x" "CHR 0x5C \<notin> set x" using x(3) by (auto simp: is_ascii_def)
      then show ?thesis
        using IH by (simp add: json_rune_def json_read_unescape unescape_def json_read_bytes)
    qed
    ultimately show ?thesis using x(1) by simp
  qed
qed

lemma json_string_code:
  assumes "valid_utf8 s" and "valid_utf8 t" and "json_string s @ x = json_string t @ y"
  shows "s = t \<and> x = y"
proof -
  have "json_read (json_chars s @ CHR 0x22 # x) = json_read (json_chars t @ CHR 0x22 # y)"
    using assms(3) by (simp add: json_string_def)
  then show ?thesis by (simp add: json_read_chars assms(1,2))
qed

section \<open>Nothing is lost: values\<close>

fun json_ok :: "json \<Rightarrow> bool" where
  "json_ok (JStr s) = valid_utf8 s"
| "json_ok (JArr js) = list_all json_ok js"
| "json_ok (JObj fs) = list_all (\<lambda>(k, v). valid_utf8 k \<and> json_ok v) fs"
| "json_ok _ = True"

text \<open>What may follow a value: the end, a comma or a closing bracket.\<close>

definition json_stop :: "string \<Rightarrow> bool" where
  "json_stop s \<longleftrightarrow> s = [] \<or> hd s \<in> set '',]}''"

definition json_head :: "string \<Rightarrow> bool" where
  "json_head s \<longleftrightarrow> s \<noteq> [] \<and> hd s \<notin> set '',]}''"

lemma digit_head: "is_digit c \<Longrightarrow> c \<notin> set '',]}'' \<and> c \<noteq> CHR 0x22 \<and> c \<notin> set ''ntf[{''"
  by (auto simp: is_digit_def)

lemma dec_hd: "is_digit (hd (nat_to_dec n))"
  using nat_to_dec_digits [of n] by (metis hd_in_set list_all_iff nat_to_dec_nonempty)

lemma json_render_head: "json_head (json_render j)"
  using dec_hd digit_head by (cases j) (auto simp: json_head_def json_string_def)

lemma dec_code:
  assumes "json_stop x" and "json_stop y" and "nat_to_dec m @ x = nat_to_dec n @ y"
  shows "m = n \<and> x = y"
proof -
  have stop: "takeWhile is_digit (nat_to_dec k @ z) = nat_to_dec k" if "json_stop z" for k z
  proof -
    have "takeWhile is_digit z = []"
      using that digit_head by (cases z) (auto simp: json_stop_def)
    then show ?thesis
      using nat_to_dec_digits [of k] by (simp add: takeWhile_append list_all_iff)
  qed
  from stop [OF assms(1), of m] stop [OF assms(2), of n] assms(3)
  have "nat_to_dec m = nat_to_dec n" by simp
  with assms(3) show ?thesis by simp
qed

lemma join_tail: "join_with d (l # ls) = l @ concat (map (\<lambda>m. d # m) ls)"
  by (induction ls arbitrary: l) auto

text \<open>A list of values between brackets can be told apart when each of its values can.\<close>

lemma tail_code:
  assumes code: "\<And>a b x y. a \<in> set js \<Longrightarrow> P b \<Longrightarrow> json_stop x \<Longrightarrow> json_stop y \<Longrightarrow>
      enc a @ x = enc b @ y \<Longrightarrow> a = b \<and> x = y"
    and "list_all P ks" and "e = CHR '']'' \<or> e = CHR ''}''"
    and "concat (map (\<lambda>m. CHR '','' # m) (map enc js)) @ e # x
       = concat (map (\<lambda>m. CHR '','' # m) (map enc ks)) @ e # y"
  shows "js = ks \<and> x = y"
  using assms
proof (induction js arbitrary: ks)
  case Nil
  then show ?case by (cases ks) auto
next
  case (Cons j js)
  from Cons.prems(3,4) obtain k ks' where ks: "ks = k # ks'"
    by (cases ks) auto
  let ?t = "\<lambda>ms z. concat (map (\<lambda>m. CHR '','' # m) (map enc ms)) @ e # z"
  have "json_stop (?t ms z)" for ms z
    using Cons.prems(3) by (cases ms) (auto simp: json_stop_def)
  moreover have "enc j @ ?t js x = enc k @ ?t ks' y" using Cons.prems(4) ks by simp
  ultimately have "j = k \<and> ?t js x = ?t ks' y"
    using Cons.prems(1) [of j k "?t js x" "?t ks' y"] Cons.prems(2) ks by simp
  moreover have "js = ks' \<and> x = y" if "?t js x = ?t ks' y"
  proof (rule Cons.IH [OF _ _ Cons.prems(3) that])
    show "list_all P ks'" using Cons.prems(2) ks by simp
    show "a = b \<and> u = v"
      if "a \<in> set js" "P b" "json_stop u" "json_stop v" "enc a @ u = enc b @ v" for a b u v
      using that by (intro Cons.prems(1)) simp_all
  qed
  ultimately show ?case using ks by simp
qed

lemma json_head_append: "json_head r \<Longrightarrow> e \<in> set '',]}'' \<Longrightarrow> r @ s \<noteq> e # x \<and> e # x \<noteq> r @ s"
  by (cases r) (auto simp: json_head_def)

lemma list_code:
  assumes code: "\<And>a b x y. a \<in> set js \<Longrightarrow> P b \<Longrightarrow> json_stop x \<Longrightarrow> json_stop y \<Longrightarrow>
      enc a @ x = enc b @ y \<Longrightarrow> a = b \<and> x = y"
    and head: "\<And>a. json_head (enc a)"
    and "list_all P ks" and e: "e = CHR '']'' \<or> e = CHR ''}''"
    and eq: "join_with (CHR '','') (map enc js) @ e # x = join_with (CHR '','') (map enc ks) @ e # y"
  shows "js = ks \<and> x = y"
proof (cases js)
  case Nil
  have "ks = []"
  proof (cases ks)
    case (Cons k ks')
    with eq Nil e json_head_append [OF head] show ?thesis by (auto simp: join_tail)
  qed simp
  with eq Nil show ?thesis by simp
next
  case (Cons j js')
  obtain k ks' where ks: "ks = k # ks'"
  proof (cases ks)
    case Nil
    with eq Cons e json_head_append [OF head] show ?thesis by (auto simp: join_tail)
  qed
  let ?t = "\<lambda>ms z. concat (map (\<lambda>m. CHR '','' # m) (map enc ms)) @ e # z"
  have "json_stop (?t ms z)" for ms z
    using e by (cases ms) (auto simp: json_stop_def)
  moreover have "enc j @ ?t js' x = enc k @ ?t ks' y" using eq Cons ks by (simp add: join_tail)
  ultimately have "j = k \<and> ?t js' x = ?t ks' y"
    using code [of j k "?t js' x" "?t ks' y"] Cons assms(3) ks by simp
  moreover have "js' = ks' \<and> x = y" if "?t js' x = ?t ks' y"
  proof (rule tail_code [OF _ _ e that])
    show "list_all P ks'" using assms(3) ks by simp
    show "a = b \<and> u = v"
      if "a \<in> set js'" "P b" "json_stop u" "json_stop v" "enc a @ u = enc b @ v" for a b u v
      using that Cons by (intro code) simp_all
  qed
  ultimately show ?thesis using Cons ks by simp
qed

lemma digit_not_marks: "is_digit c \<Longrightarrow> c \<noteq> CHR ''n'' \<and> c \<noteq> CHR ''t'' \<and> c \<noteq> CHR ''f''
    \<and> c \<noteq> CHR 0x22 \<and> c \<noteq> CHR ''['' \<and> c \<noteq> CHR ''{''"
  by (auto simp: is_digit_def)

lemma json_render_hd:
  "hd (json_render j @ x) =
     (case j of JNull \<Rightarrow> CHR ''n'' | JBool b \<Rightarrow> if b then CHR ''t'' else CHR ''f''
      | JNum n \<Rightarrow> hd (nat_to_dec n) | JStr _ \<Rightarrow> CHR 0x22 | JArr _ \<Rightarrow> CHR ''['' | JObj _ \<Rightarrow> CHR ''{'')"
  by (cases j) (simp_all add: json_string_def)

lemma json_field_head: "json_head ((\<lambda>(k, v). json_string k @ '':'' @ json_render v) f)"
  by (cases f) (simp add: json_head_def json_string_def)

theorem json_render_code:
  assumes "json_ok a" and "json_ok b" and "json_stop x" and "json_stop y"
    and "json_render a @ x = json_render b @ y"
  shows "a = b \<and> x = y"
  using assms
proof (induction a arbitrary: b x y)
  case JNull
  from arg_cong [OF JNull.prems(5), of hd] digit_not_marks [OF dec_hd] have b: "b = JNull"
    by (cases b) (auto simp: json_render_hd simp del: json_render.simps split: if_splits)
  with JNull.prems(5) show ?case by simp
next
  case (JBool p)
  from arg_cong [OF JBool.prems(5), of hd] digit_not_marks [OF dec_hd] have b: "b = JBool p"
    by (cases b) (auto simp: json_render_hd simp del: json_render.simps split: if_splits)
  with JBool.prems(5) show ?case by (simp split: if_splits)
next
  case (JNum n)
  from arg_cong [OF JNum.prems(5), of hd] digit_not_marks [OF dec_hd [of n]] obtain m where b: "b = JNum m"
    by (cases b) (auto simp: json_render_hd simp del: json_render.simps split: if_splits)
  with JNum.prems dec_code [of x y n m] show ?case by simp
next
  case (JStr s)
  from arg_cong [OF JStr.prems(5), of hd] digit_not_marks [OF dec_hd] obtain t where b: "b = JStr t"
    by (cases b) (auto simp: json_render_hd simp del: json_render.simps split: if_splits)
  with JStr.prems json_string_code [of s t x y] show ?case by simp
next
  case (JArr js)
  from arg_cong [OF JArr.prems(5), of hd] digit_not_marks [OF dec_hd] obtain ks where b: "b = JArr ks"
    by (cases b) (auto simp: json_render_hd simp del: json_render.simps split: if_splits)
  have "js = ks \<and> x = y"
  proof (rule list_code [of js json_ok json_render ks "CHR '']''" x y])
    show "u = v \<and> p = q"
      if "u \<in> set js" "json_ok v" "json_stop p" "json_stop q" "json_render u @ p = json_render v @ q"
      for u v p q
      using JArr.IH [OF that(1)] that JArr.prems(1) by (auto simp: list_all_iff)
  qed (use JArr.prems b json_render_head in simp_all)
  with b show ?case by simp
next
  case (JObj fs)
  from arg_cong [OF JObj.prems(5), of hd] digit_not_marks [OF dec_hd] obtain gs where b: "b = JObj gs"
    by (cases b) (auto simp: json_render_hd simp del: json_render.simps split: if_splits)
  let ?enc = "\<lambda>(k, v). json_string k @ '':'' @ json_render v"
  have "fs = gs \<and> x = y"
  proof (rule list_code [of fs "\<lambda>(k, v). valid_utf8 k \<and> json_ok v" ?enc gs "CHR ''}''" x y])
    show "u = v \<and> p = q"
      if *: "u \<in> set fs" "case v of (k, w) \<Rightarrow> valid_utf8 k \<and> json_ok w" "json_stop p" "json_stop q"
        "?enc u @ p = ?enc v @ q" for u v p q
    proof -
      obtain k w where u: "u = (k, w)" by fastforce
      obtain l z where v: "v = (l, z)" by fastforce
      have ok: "valid_utf8 k" "json_ok w" using JObj.prems(1) *(1) u by (auto simp: list_all_iff)
      have "k = l \<and> '':'' @ json_render w @ p = '':'' @ json_render z @ q"
        using json_string_code [of k l "'':'' @ json_render w @ p" "'':'' @ json_render z @ q"]
          ok *(2,5) u v by simp
      moreover have "w = z \<and> p = q" if "json_render w @ p = json_render z @ q"
        using JObj.IH [OF *(1), of w z p q] u v ok *(2-4) that by simp
      ultimately show ?thesis using u v by simp
    qed
  qed (use JObj.prems b json_field_head in simp_all)
  with b show ?case by simp
qed

lemma json_render_inject: "json_ok a \<Longrightarrow> json_ok b \<Longrightarrow> json_render a = json_render b \<Longrightarrow> a = b"
  using json_render_code [of a b "[]" "[]"] by (simp add: json_stop_def)

section \<open>Nothing is lost: the structures\<close>

lemma field_keys [simp]:
  "k \<in> fst ` set (opt_field l f a) \<longleftrightarrow> k = l \<and> a \<noteq> None"
  "k \<in> fst ` set (str_field l s) \<longleftrightarrow> k = l \<and> s \<noteq> []"
  "k \<in> fst ` set (strs_field l ss) \<longleftrightarrow> k = l \<and> ss \<noteq> []"
  by (auto simp: opt_field_def str_field_def strs_field_def split: option.splits)

named_theorems field_eq \<open>equality of field lists, field by field\<close>

lemma opt_field_append [field_eq]:
  assumes "k \<notin> fst ` set r" and "k \<notin> fst ` set s" and "inj f"
  shows "opt_field k f a @ r = opt_field k f b @ s \<longleftrightarrow> a = b \<and> r = s"
  using assms by (force simp: opt_field_def dest: injD split: option.splits)

lemma str_field_append [field_eq]:
  assumes "k \<notin> fst ` set r" and "k \<notin> fst ` set s"
  shows "str_field k a @ r = str_field k b @ s \<longleftrightarrow> a = b \<and> r = s"
  using assms by (force simp: str_field_def split: if_splits)

lemma opt_field_eq [field_eq]: "inj f \<Longrightarrow> opt_field k f a = opt_field k f b \<longleftrightarrow> a = b"
  using opt_field_append [of k "[]" "[]" f a b] by simp

lemma str_field_eq [field_eq]: "str_field k a = str_field k b \<longleftrightarrow> a = b"
  using str_field_append [of k "[]" "[]" a b] by simp

lemma strs_field_eq [field_eq]: "strs_field k a = strs_field k b \<longleftrightarrow> a = b"
  by (auto simp: strs_field_def inj_map_eq_map inj_def)

lemma json_inj [simp]: "inj JBool" "inj JStr" "inj (JWord :: 'a::len word \<Rightarrow> json)"
  by (simp_all add: inj_def JWord_def word_unat_eq_iff)

lemma unit_object_inj [simp]: "inj (\<lambda>_ :: unit. JObj [])"
  by (simp add: inj_def)

lemma set_parts_inj [simp]:
  "inj cloudflare_set_json" "inj huawei_set_json" "inj aliyun_set_json" "inj tencent_set_json"
  unfolding cloudflare_set_json_def huawei_set_json_def aliyun_set_json_def tencent_set_json_def
  by (rule injI, simp add: field_eq image_Un)+

lemma entry_parts_inj [simp]:
  "inj huawei_entry_json" "inj aliyun_entry_json" "inj tencent_entry_json"
  unfolding huawei_entry_json_def aliyun_entry_json_def tencent_entry_json_def
  by (rule injI, simp add: field_eq image_Un)+

lemma set_extensions_json_inj [simp]: "set_extensions_json x = set_extensions_json y \<longleftrightarrow> x = y"
  by (auto simp: set_extensions_json_def field_eq image_Un)

lemma entry_extensions_json_inj [simp]: "entry_extensions_json x = entry_extensions_json y \<longleftrightarrow> x = y"
  by (auto simp: entry_extensions_json_def field_eq image_Un)

lemma or_null_eq [simp]:
  "or_null (JWord :: 'a::len word \<Rightarrow> json) a = or_null JWord b \<longleftrightarrow> a = b"
  "or_null JStr s = or_null JStr t \<longleftrightarrow> s = t"
  by (auto simp: or_null_def JWord_def word_unat_eq_iff split: option.splits)

definition forget_id :: "record_entry \<Rightarrow> record_entry" where
  "forget_id e = e\<lparr>re_ID := []\<rparr>"

lemma entry_json_eq: "entry_json d = entry_json e \<longleftrightarrow> forget_id d = forget_id e"
  by (cases d; cases e) (auto simp: entry_json_def forget_id_def)

section \<open>Well-formed text\<close>

definition opt_utf8 :: "string option \<Rightarrow> bool" where
  "opt_utf8 v \<longleftrightarrow> (case v of None \<Rightarrow> True | Some s \<Rightarrow> valid_utf8 s)"

definition entry_utf8 :: "record_entry \<Rightarrow> bool" where
  "entry_utf8 e \<longleftrightarrow> json_ok (entry_json e)"

definition record_set_utf8 :: "record_set \<Rightarrow> bool" where
  "record_set_utf8 rs \<longleftrightarrow>
     valid_utf8 (rs_Name rs) \<and> valid_utf8 (record_type_string (rs_Type rs))
     \<and> list_all entry_utf8 (rs_Entries rs)
     \<and> json_ok (set_extensions_json (rs_Extensions rs)) \<and> valid_utf8 (rs_ProviderVersion rs)"

lemma ascii_literal [simp]: "list_all is_ascii ''aster-dns/recordset-fingerprint/v1''"
  by (simp add: is_ascii_def)

lemma record_set_json_ok: "record_set_utf8 rs \<Longrightarrow> json_ok (record_set_json rs)"
  by (auto simp: record_set_utf8_def record_set_json_def entry_utf8_def list_all_iff JWord_def
      valid_utf8_ascii is_ascii_def)

lemma canonicalEntrySerialization_eq:
  "entry_utf8 d \<Longrightarrow> entry_utf8 e \<Longrightarrow>
     canonicalEntrySerialization d = canonicalEntrySerialization e \<longleftrightarrow> forget_id d = forget_id e"
  using json_render_inject [of "entry_json d" "entry_json e"] entry_json_eq [of d e]
  by (auto simp: canonicalEntrySerialization_def entry_utf8_def)

text \<open>The content of a record set: what its provider IDs and the order of its entries leave.\<close>

definition same_content :: "record_set \<Rightarrow> record_set \<Rightarrow> bool" where
  "same_content a b \<longleftrightarrow>
     rs_Name a = rs_Name b \<and> rs_Type a = rs_Type b \<and> rs_TTL a = rs_TTL b
     \<and> mset (map forget_id (rs_Entries a)) = mset (map forget_id (rs_Entries b))
     \<and> rs_Extensions a = rs_Extensions b \<and> rs_ProviderVersion a = rs_ProviderVersion b"

text \<open>
  The serialisation depends on the content only, and it determines the content: the sorted
  entries of two record sets with the same content serialise alike, entry by entry.
\<close>

lemma sort_key_mset_map:
  assumes "mset (map f xs) = mset (map f ys)" and key: "k = (\<lambda>x. g (f x))"
  shows "map k (sort_key k xs) = map k (sort_key k ys)"
proof -
  have "map k (sort_key k zs) = sort (map k zs)" for zs
    by (rule properties_for_sort [symmetric]) simp_all
  moreover have "mset (map k zs) = image_mset g (mset (map f zs))" for zs
    using key by (simp add: image_mset.compositionality comp_def)
  ultimately show ?thesis
    using assms(1) by (metis mset_sort properties_for_sort sorted_sort)
qed

lemma map_entry_json_eq: "map entry_json xs = map entry_json ys \<Longrightarrow> map forget_id xs = map forget_id ys"
proof (induction xs arbitrary: ys)
  case (Cons x xs)
  from Cons.prems obtain y zs where ys: "ys = y # zs" by (cases ys) auto
  with Cons.prems have "forget_id x = forget_id y" "map entry_json xs = map entry_json zs"
    by (simp_all add: entry_json_eq)
  with Cons.IH [of zs] ys show ?case by (simp only: list.map)
qed simp

lemma canonicalEntrySerialization_forget [simp]:
  "canonicalEntrySerialization (forget_id e) = canonicalEntrySerialization e"
  using entry_json_eq [of "forget_id e" e] by (simp add: canonicalEntrySerialization_def forget_id_def)

lemma serialize_same_content:
  assumes "same_content a b"
  shows "serializeNormalizedRecordSet a = serializeNormalizedRecordSet b"
proof -
  let ?k = canonicalEntrySerialization
  have "map ?k (sort_key ?k (rs_Entries a)) = map ?k (sort_key ?k (rs_Entries b))"
    using assms by (intro sort_key_mset_map [where f = forget_id and g = ?k])
      (simp_all add: same_content_def)
  then have "map json_render (map entry_json (sort_key ?k (rs_Entries a)))
      = map json_render (map entry_json (sort_key ?k (rs_Entries b)))"
    by (simp add: canonicalEntrySerialization_def [abs_def] comp_def)
  with assms show ?thesis
    by (simp add: serializeNormalizedRecordSet_def record_set_json_def same_content_def)
qed

lemma serialize_determines_content:
  assumes "record_set_utf8 a" and "record_set_utf8 b"
    and "record_type_valid (rs_Type a)" and "record_type_valid (rs_Type b)"
    and "serializeNormalizedRecordSet a = serializeNormalizedRecordSet b"
  shows "same_content a b"
proof -
  let ?k = canonicalEntrySerialization
  have json: "record_set_json a = record_set_json b"
    using json_render_inject record_set_json_ok assms
    by (simp add: serializeNormalizedRecordSet_def)
  then have "map entry_json (sort_key ?k (rs_Entries a)) = map entry_json (sort_key ?k (rs_Entries b))"
    by (simp add: record_set_json_def)
  then have "map forget_id (sort_key ?k (rs_Entries a)) = map forget_id (sort_key ?k (rs_Entries b))"
    by (rule map_entry_json_eq)
  then have "mset (map forget_id (sort_key ?k (rs_Entries a))) = mset (map forget_id (sort_key ?k (rs_Entries b)))"
    by simp
  with json show ?thesis
    using record_type_string_inj [OF assms(3,4)]
    by (simp add: same_content_def record_set_json_def JWord_def word_unat_eq_iff)
qed

end
