(* ===== verification/Record_Sets.thy ===== *)
theory Record_Sets
  imports Record_Json Domain_Names Addresses Txt_Values Base64 Sha256
begin

text \<open>
  Normal forms of entries, record sets, create inputs and zones: the rest of
  \<open>internal/provider/domain.go\<close>, with the fingerprint of a normalised record set of
  \<open>internal/provider/fingerprint.go\<close>. Every early return of the Go code is a branch here.
\<close>

section \<open>Entries\<close>

definition requireOnlyValue :: "record_entry \<Rightarrow> unit result" where
  "requireOnlyValue e =
     (if trim_space (re_Value e) = [] \<and> re_Value e \<noteq> [] then Inl ''record value is empty''
      else if re_Value e = [] \<or> re_Priority e \<noteq> None \<or> re_Weight e \<noteq> None \<or> re_Port e \<noteq> None
        \<or> re_Target e \<noteq> None \<or> re_Flags e \<noteq> None \<or> re_Tag e \<noteq> None
      then Inl ''record entry requires only value'' else Inr ())"

definition entryTarget :: "text_env \<Rightarrow> record_entry \<Rightarrow> string result" where
  "entryTarget E e =
     (if re_Target e \<noteq> None \<and> re_Value e \<noteq> []
      then Inl ''record entry cannot contain both value and target''
      else (let raw = (case re_Target e of None \<Rightarrow> re_Value e | Some t \<Rightarrow> t) in
            if trim_space raw = ''.'' then Inr ''.''
            else (case CanonicalizeDNSName E raw of
                    Inl _ \<Rightarrow> Inl ''record target is invalid'' | Inr c \<Rightarrow> Inr c)))"

definition resetSemanticFields :: "record_entry \<Rightarrow> record_entry" where
  "resetSemanticFields e = empty_entry\<lparr>re_ID := re_ID e, re_Extensions := re_Extensions e\<rparr>"

definition normalize_address :: "RecordType \<Rightarrow> (ip_addr \<Rightarrow> bool) \<Rightarrow> record_entry \<Rightarrow> record_entry result" where
  "normalize_address t fam e =
     and_then (requireOnlyValue e) (\<lambda>_.
       let bad = Inl (''value is not a valid '' @ record_type_string t @ '' address'') in
       case ParseAddr (trim_space (re_Value e)) of
         None \<Rightarrow> bad
       | Some address \<Rightarrow> if \<not> fam address then bad else Inr (e\<lparr>re_Value := addr_string address\<rparr>))"

definition normalize_target :: "text_env \<Rightarrow> record_entry \<Rightarrow> record_entry result" where
  "normalize_target E e =
     and_then (entryTarget E e) (\<lambda>target.
       if target = ''.'' then Inl ''target cannot be the DNS root''
       else Inr ((resetSemanticFields e)\<lparr>re_Target := Some target\<rparr>))"

definition normalize_mx :: "text_env \<Rightarrow> record_entry \<Rightarrow> record_entry result" where
  "normalize_mx E e =
     (if re_Priority e = None \<or> re_Weight e \<noteq> None \<or> re_Port e \<noteq> None \<or> re_Flags e \<noteq> None \<or> re_Tag e \<noteq> None
      then Inl ''MX entry requires priority and target''
      else and_then (entryTarget E e) (\<lambda>target.
        Inr ((resetSemanticFields e)\<lparr>re_Priority := re_Priority e, re_Target := Some target\<rparr>)))"

definition normalize_srv :: "text_env \<Rightarrow> record_entry \<Rightarrow> record_entry result" where
  "normalize_srv E e =
     (if re_Priority e = None \<or> re_Weight e = None \<or> re_Port e = None \<or> re_Flags e \<noteq> None \<or> re_Tag e \<noteq> None
      then Inl ''SRV entry requires priority, weight, port, and target''
      else and_then (entryTarget E e) (\<lambda>target.
        Inr ((resetSemanticFields e)\<lparr>re_Priority := re_Priority e, re_Weight := re_Weight e,
               re_Port := re_Port e, re_Target := Some target\<rparr>)))"

definition caa_value :: "string \<Rightarrow> string result" where
  "caa_value raw =
     (let value = trim_space raw in
      if prefix [dquote] value then wrap_err ''CAA value: '' (canonicalizeTXT value) else Inr value)"

definition normalize_caa :: "text_env \<Rightarrow> record_entry \<Rightarrow> record_entry result" where
  "normalize_caa E e =
     (case (re_Flags e, re_Tag e) of
        (Some flags, Some raw_tag) \<Rightarrow>
          if re_Priority e \<noteq> None \<or> re_Weight e \<noteq> None \<or> re_Port e \<noteq> None \<or> re_Target e \<noteq> None
          then Inl ''CAA entry requires flags, tag, and value''
          else
            (let tag = to_lower (unicode_lower E) (trim_space raw_tag) in
             if tag = [] \<or> \<not> asciiLettersDigits tag then Inl ''CAA tag is invalid''
             else and_then (caa_value (re_Value e)) (\<lambda>value.
               if value = [] \<or> \<not> valid_utf8 value \<or> CHR 0x00 \<in> set value then Inl ''CAA value is invalid''
               else Inr ((resetSemanticFields e)\<lparr>re_Flags := Some flags, re_Tag := Some tag, re_Value := value\<rparr>)))
      | _ \<Rightarrow> Inl ''CAA entry requires flags, tag, and value'')"

definition normalizeRecordEntry :: "text_env \<Rightarrow> RecordType \<Rightarrow> record_entry \<Rightarrow> record_entry result" where
  "normalizeRecordEntry E t e =
     (case t of
        RecordTypeA \<Rightarrow> normalize_address t is4 e
      | RecordTypeAAAA \<Rightarrow> normalize_address t is6 e
      | RecordTypeTXT \<Rightarrow>
          and_then (requireOnlyValue e) (\<lambda>_.
          and_then (canonicalizeTXT (re_Value e)) (\<lambda>value. Inr (e\<lparr>re_Value := value\<rparr>)))
      | RecordTypeCNAME \<Rightarrow> normalize_target E e
      | RecordTypeNS \<Rightarrow> normalize_target E e
      | RecordTypeMX \<Rightarrow> normalize_mx E e
      | RecordTypeSRV \<Rightarrow> normalize_srv E e
      | RecordTypeCAA \<Rightarrow> normalize_caa E e
      | RecordTypeSOA \<Rightarrow>
          and_then (requireOnlyValue e) (\<lambda>_.
            if \<not> valid_utf8 (re_Value e) \<or> trim_space (re_Value e) = []
               \<or> CHR 0x00 \<in> set (re_Value e) \<or> CHR 0x0D \<in> set (re_Value e) \<or> CHR 0x0A \<in> set (re_Value e)
            then Inl ''SOA value is invalid'' else Inr e)
      | RecordTypeOther _ \<Rightarrow> Inl ''record type is invalid'')"

section \<open>Record sets\<close>

definition fingerprintPrefix :: string where
  "fingerprintPrefix = ''v1:''"

definition fingerprintNormalizedRecordSet :: "record_set \<Rightarrow> string" where
  "fingerprintNormalizedRecordSet rs =
     fingerprintPrefix @ b64_encode (sha256 (serializeNormalizedRecordSet rs))"

text \<open>The loop over the entries: index, keys seen so far, entries left.\<close>

fun normalize_entries ::
  "text_env \<Rightarrow> RecordType \<Rightarrow> nat \<Rightarrow> string list \<Rightarrow> record_entry list \<Rightarrow> record_entry list result" where
  "normalize_entries E t i seen [] = Inr []"
| "normalize_entries E t i seen (e # es) =
     and_then (wrap_err (''record entry '' @ nat_to_dec i @ '': '') (normalizeRecordEntry E t e)) (\<lambda>n.
       let key = canonicalEntrySerialization n in
       if key \<in> set seen then Inl ''record set contains duplicate entries''
       else and_then (normalize_entries E t (Suc i) (key # seen) es) (\<lambda>ns. Inr (n # ns)))"

definition normalizeRecordSet :: "text_env \<Rightarrow> string \<Rightarrow> record_set \<Rightarrow> bool \<Rightarrow> record_set result" where
  "normalizeRecordSet E zoneName rs includeFingerprint =
     and_then (wrap_err ''record name: ''
       (if zoneName = [] then canonicalizeName E (rs_Name rs) True False
        else CanonicalizeRecordName E (rs_Name rs) zoneName)) (\<lambda>name.
     if \<not> record_type_valid (rs_Type rs) then Inl ''record type is invalid''
     else if rs_TTL rs = 0 then Inl ''record TTL must be greater than zero''
     else if rs_Entries rs = [] then Inl ''record set must contain at least one entry''
     else and_then (normalize_entries E (rs_Type rs) 0 [] (rs_Entries rs)) (\<lambda>entries.
       let n = rs\<lparr>rs_Name := name,
                  rs_Type := record_type_of_string (to_upper (unicode_upper E) (record_type_string (rs_Type rs))),
                  rs_Entries := entries,
                  rs_ProviderVersion := trim_space (rs_ProviderVersion rs),
                  rs_Fingerprint := []\<rparr>
       in Inr (if includeFingerprint then n\<lparr>rs_Fingerprint := fingerprintNormalizedRecordSet n\<rparr> else n)))"

definition NormalizeRecordSet :: "text_env \<Rightarrow> string \<Rightarrow> record_set \<Rightarrow> record_set result" where
  "NormalizeRecordSet E zoneName rs = normalizeRecordSet E zoneName rs True"

definition record_set_of_input :: "create_input \<Rightarrow> record_set" where
  "record_set_of_input i =
     \<lparr>rs_ID = [], rs_Name = ci_Name i, rs_Type = ci_Type i, rs_TTL = ci_TTL i, rs_Entries = ci_Entries i,
      rs_Extensions = ci_Extensions i, rs_ProviderVersion = [], rs_Fingerprint = []\<rparr>"

definition input_of_record_set :: "record_set \<Rightarrow> create_input" where
  "input_of_record_set rs =
     \<lparr>ci_Name = rs_Name rs, ci_Type = rs_Type rs, ci_TTL = rs_TTL rs, ci_Entries = rs_Entries rs,
      ci_Extensions = rs_Extensions rs\<rparr>"

definition NormalizeCreateRecordSetInput :: "text_env \<Rightarrow> string \<Rightarrow> create_input \<Rightarrow> create_input result" where
  "NormalizeCreateRecordSetInput E zoneName i =
     and_then (normalizeRecordSet E zoneName (record_set_of_input i) False) (\<lambda>n.
       Inr (input_of_record_set n))"

section \<open>Zones\<close>

text \<open>The loop over the name servers: those already collected are the seen map.\<close>

fun unique_nameservers :: "text_env \<Rightarrow> string list \<Rightarrow> string list \<Rightarrow> string list result" where
  "unique_nameservers E acc [] = Inr acc"
| "unique_nameservers E acc (s # ss) =
     and_then (wrap_err ''zone nameserver: '' (CanonicalizeDNSName E s)) (\<lambda>canonical.
       if canonical \<in> set acc then unique_nameservers E acc ss
       else unique_nameservers E (acc @ [canonical]) ss)"

definition NormalizeZone :: "text_env \<Rightarrow> zone \<Rightarrow> zone result" where
  "NormalizeZone E z =
     (if trim_space (zone_ID z) = [] \<or> length (zone_ID z) > 1024 then Inl ''provider zone ID is required''
      else and_then (wrap_err ''zone name: '' (CanonicalizeZoneName E (zone_Name z))) (\<lambda>name.
           and_then (unique_nameservers E [] (zone_Nameservers z)) (\<lambda>nameservers.
             Inr (z\<lparr>zone_Name := name, zone_Status := trim_space (zone_Status z),
                    zone_Nameservers := sort nameservers\<rparr>))))"

section \<open>A normal form is normalised to itself: values\<close>

lemma requireOnlyValue_Inr:
  "requireOnlyValue e = Inr u \<longleftrightarrow> trim_space (re_Value e) \<noteq> [] \<and> re_Priority e = None \<and> re_Weight e = None
     \<and> re_Port e = None \<and> re_Target e = None \<and> re_Flags e = None \<and> re_Tag e = None"
  by (auto simp: requireOnlyValue_def)

lemma space_rune_no_percent: "r \<in> set space_runes \<Longrightarrow> CHR ''%'' \<notin> set r"
  by (auto simp: space_runes_def)

lemma v6_text_nonempty: "wf_addr (IPv6 gs z) \<Longrightarrow> v6_text gs \<noteq> []"
proof
  assume "wf_addr (IPv6 gs z)" and "v6_text gs = []"
  then show False
    using ParseAddr_addr_string [of "IPv6 gs []"] by (simp add: ParseAddr_def del: addr_string.simps)
qed

lemma trim_space_all_solid: "s \<noteq> [] \<Longrightarrow> \<forall>c \<in> set s. solid c \<Longrightarrow> trim_space s = s"
  by (intro trim_space_solid) simp_all

lemma addr_string_trimmed:
  assumes "ParseAddr (trim_space v) = Some a"
  shows "trim_space (addr_string a) = addr_string a"
proof (cases a)
  case (IPv4 os)
  have "addr_string a \<noteq> []" using ParseAddr_canonical [OF assms] by (auto simp: ParseAddr_def)
  with IPv4 string4_chars addr_char_solid show ?thesis by (intro trim_space_all_solid) auto
next
  case (IPv6 gs z)
  have wf: "wf_addr (IPv6 gs z)" using ParseAddr_wf [OF assms] IPv6 by simp
  have chars: "solid c" if "c \<in> set (v6_text gs)" for c
    using that v6_text_chars addr_char_solid by blast
  have ne: "v6_text gs \<noteq> []" using v6_text_nonempty [OF wf] .
  show ?thesis
  proof (cases "z = []")
    case True
    with IPv6 ne chars show ?thesis by (intro trim_space_all_solid) (auto simp del: addr_string.simps)
  next
    case False
    from assms IPv6 have "parse_v6 (trim_space v) = Some (IPv6 gs z)"
      by (auto simp: ParseAddr_def split: option.splits if_splits)
    with False have "z = drop 1 (dropWhile (\<lambda>c. c \<noteq> CHR ''%'') (trim_space v))"
      by (auto simp: parse_v6_def Let_def drop_Suc split: if_splits)
    then have z: "suffix z (trim_space v)"
      by (metis suffix_drop suffix_dropWhile suffix_order.trans)
    have str: "addr_string a = v6_text gs @ CHR ''%'' # z"
      using addr_string_zone [of gs z] IPv6 False by (simp del: addr_string.simps)
    show ?thesis
    proof (rule trim_space_fixed)
      have "\<not> starts_with_any space_runes (addr_string a)"
      proof
        assume "starts_with_any space_runes (addr_string a)"
        then obtain r where r: "r \<in> set space_runes" "r \<noteq> []" "prefix r (addr_string a)"
          by (auto simp: starts_with_any_def)
        have "hd (addr_string a) = hd r" using r(2,3) by (auto simp: prefix_def)
        then have "hd r = hd (v6_text gs)"
          unfolding str hd_append2 [OF ne] by (rule sym)
        with solid_not_space_edge [OF chars r(1,2)] ne show False
          using hd_in_set by blast
      qed
      moreover have "\<not> starts_with_any (map rev space_runes) (rev (addr_string a))"
      proof
        assume "starts_with_any (map rev space_runes) (rev (addr_string a))"
        then obtain r where r: "r \<in> set space_runes" "r \<noteq> []" "suffix r (addr_string a)"
          by (auto simp: starts_with_any_def suffix_to_prefix)
        have "suffix r z"
        proof (rule ccontr)
          assume no: "\<not> suffix r z"
          have "suffix z (addr_string a)" unfolding str suffix_def by (rule exI [of _ "v6_text gs @ ''%''"]) simp
          with r(3) no have "suffix z r" using suffix_same_cases by blast
          then obtain w where w: "r = w @ z" by (auto simp: suffix_def)
          with no have "w \<noteq> []" by auto
          from r(3) w str have "suffix w (v6_text gs @ ''%'')" by (auto simp: suffix_def simp del: addr_string.simps)
          with \<open>w \<noteq> []\<close> have "last w = CHR ''%''" by (auto simp: suffix_def simp del: addr_string.simps) (metis last_append last_snoc)
          with \<open>w \<noteq> []\<close> w space_rune_no_percent [OF r(1)] show False by (metis UnI1 last_in_set set_append)
        qed
        then have "suffix r (trim_space v)" using z suffix_order.trans by blast
        with r(1,2) have "untrimmed (trim_space v)"
          by (auto simp: untrimmed_def starts_with_any_def suffix_to_prefix)
        with trim_space_trimmed show False by blast
      qed
      ultimately show "\<not> untrimmed (addr_string a)" by (simp add: untrimmed_def)
    qed
  qed
qed

text \<open>
  What an entry must be for its value to read the same a second time: a TXT or CAA value is
  decoded when it begins with a quote, and a TXT value is refused when it is blank or has a
  control character that an escape can put into it.
\<close>

definition settled_entry :: "RecordType \<Rightarrow> record_entry \<Rightarrow> bool" where
  "settled_entry t e \<longleftrightarrow>
     (t = RecordTypeTXT \<longrightarrow> plain_text (re_Value e) \<and> txt_text_ok (re_Value e) \<and> trim_space (re_Value e) \<noteq> [])
     \<and> (t = RecordTypeCAA \<longrightarrow> plain_text (re_Value e) \<and> trim_space (re_Value e) = re_Value e)"

definition entry_target_text :: "record_entry \<Rightarrow> string" where
  "entry_target_text e = (case re_Target e of None \<Rightarrow> re_Value e | Some t \<Rightarrow> t)"

lemma empty_entry_simps [simp]:
  "re_Value (resetSemanticFields e) = []" "re_Priority (resetSemanticFields e) = None"
  "re_Weight (resetSemanticFields e) = None" "re_Port (resetSemanticFields e) = None"
  "re_Target (resetSemanticFields e) = None" "re_Flags (resetSemanticFields e) = None"
  "re_Tag (resetSemanticFields e) = None" "re_ID (resetSemanticFields e) = re_ID e"
  "re_Extensions (resetSemanticFields e) = re_Extensions e"
  by (simp_all add: resetSemanticFields_def empty_entry_def)

lemma reset_again:
  "resetSemanticFields ((resetSemanticFields e)\<lparr>re_Target := a\<rparr>) = resetSemanticFields e"
  "resetSemanticFields ((resetSemanticFields e)\<lparr>re_Priority := p, re_Target := a\<rparr>) = resetSemanticFields e"
  "resetSemanticFields ((resetSemanticFields e)\<lparr>re_Priority := p, re_Weight := w, re_Port := q, re_Target := a\<rparr>)
     = resetSemanticFields e"
  "resetSemanticFields ((resetSemanticFields e)\<lparr>re_Flags := f, re_Tag := g, re_Value := v\<rparr>) = resetSemanticFields e"
  by (simp_all add: resetSemanticFields_def empty_entry_def)

lemma entryTarget_canonical:
  assumes "idna_laws (idna_ToASCII E)" and "no_wide_dot (entry_target_text e)"
    and "entryTarget E e = Inr t"
  shows "t = ''.'' \<or> canonical_name E False t"
proof (cases "trim_space (entry_target_text e) = ''.''")
  case True
  with assms(3) show ?thesis by (auto simp: entryTarget_def entry_target_text_def Let_def split: if_splits)
next
  case False
  with assms(3) have "CanonicalizeDNSName E (entry_target_text e) = Inr t"
    by (auto simp: entryTarget_def entry_target_text_def Let_def split: if_splits sum.splits)
  with canonicalizeName_canonical [OF assms(1,2)] show ?thesis
    by (simp add: CanonicalizeDNSName_def)
qed

lemma entryTarget_fixed:
  assumes "t = ''.'' \<or> canonical_name E False t" and "re_Target e = Some t" and "re_Value e = []"
  shows "entryTarget E e = Inr t"
proof -
  have dot: "trim_space ''.'' = ''.''" by (rule trim_space_solid) (simp_all add: solid_def)
  show ?thesis
  proof (cases "t = ''.''")
    case True
    with assms dot show ?thesis by (simp add: entryTarget_def)
  next
    case False
    with assms(1) have c: "canonical_name E False t" by blast
    then have "trim_space t = t" using name_form_props by (auto simp: canonical_name_def)
    with False assms canonicalizeName_fixed [OF c] show ?thesis
      by (simp add: entryTarget_def CanonicalizeDNSName_def)
  qed
qed

lemma tag_fixed: "asciiLettersDigits tag \<Longrightarrow> tag \<noteq> [] \<Longrightarrow> to_lower u (trim_space tag) = tag"
proof -
  assume tag: "asciiLettersDigits tag" "tag \<noteq> []"
  have "\<forall>c \<in> set tag. solid c \<and> is_ascii c \<and> lower_char c = c"
    using tag(1) by (auto simp: asciiLettersDigits_def list_all_iff is_lower_def is_digit_def solid_def
        is_ascii_def lower_char_def is_upper_def)
  with tag(2) show ?thesis
    by (simp add: trim_space_all_solid to_lower_ascii list_all_iff map_idI)
qed

lemma normalizeRecordEntry_settled:
  assumes laws: "idna_laws (idna_ToASCII E)" and dots: "no_wide_dot (entry_target_text e)"
    and res: "normalizeRecordEntry E t e = Inr n" and settled: "settled_entry t n"
  shows "normalizeRecordEntry E t n = Inr n"
proof -
  have address: "normalize_address u fam n = Inr n" if r: "normalize_address u fam e = Inr n" for u fam
  proof -
    from r obtain a where a: "ParseAddr (trim_space (re_Value e)) = Some a" "fam a"
      and n: "n = e\<lparr>re_Value := addr_string a\<rparr>" and only: "requireOnlyValue e = Inr ()"
      by (auto simp: normalize_address_def and_then_Inr Let_def split: option.splits if_splits)
    have p: "trim_space (addr_string a) = addr_string a" "ParseAddr (addr_string a) = Some a"
      using addr_string_trimmed [OF a(1)] ParseAddr_canonical [OF a(1)] by simp_all
    moreover have "addr_string a \<noteq> []" using p(2) by (auto simp: ParseAddr_def)
    ultimately show ?thesis
      using a(2) n only by (simp add: normalize_address_def requireOnlyValue_Inr and_then_Inr)
  qed
  have target: "normalize_target E n = Inr n" if r: "normalize_target E e = Inr n"
  proof -
    from r obtain c where c: "entryTarget E e = Inr c" "c \<noteq> ''.''"
      and n: "n = (resetSemanticFields e)\<lparr>re_Target := Some c\<rparr>"
      by (auto simp: normalize_target_def and_then_Inr split: if_splits)
    have "entryTarget E n = Inr c"
      using entryTarget_canonical [OF laws dots c(1)] n by (intro entryTarget_fixed) simp_all
    with c(2) n show ?thesis by (simp add: normalize_target_def reset_again)
  qed
  have mx: "normalize_mx E n = Inr n" if r: "normalize_mx E e = Inr n"
  proof -
    from r obtain c where c: "entryTarget E e = Inr c" and some: "re_Priority e \<noteq> None"
      and n: "n = (resetSemanticFields e)\<lparr>re_Priority := re_Priority e, re_Target := Some c\<rparr>"
      by (auto simp: normalize_mx_def and_then_Inr split: if_splits)
    have "entryTarget E n = Inr c"
      using entryTarget_canonical [OF laws dots c] n by (intro entryTarget_fixed) simp_all
    with some n show ?thesis by (simp add: normalize_mx_def reset_again)
  qed
  have srv: "normalize_srv E n = Inr n" if r: "normalize_srv E e = Inr n"
  proof -
    from r obtain c where c: "entryTarget E e = Inr c"
      and some: "re_Priority e \<noteq> None" "re_Weight e \<noteq> None" "re_Port e \<noteq> None"
      and n: "n = (resetSemanticFields e)\<lparr>re_Priority := re_Priority e, re_Weight := re_Weight e,
        re_Port := re_Port e, re_Target := Some c\<rparr>"
      by (auto simp: normalize_srv_def and_then_Inr split: if_splits)
    have "entryTarget E n = Inr c"
      using entryTarget_canonical [OF laws dots c] n by (intro entryTarget_fixed) simp_all
    with some n show ?thesis by (simp add: normalize_srv_def reset_again)
  qed
  have caa: "normalize_caa E n = Inr n" if r: "normalize_caa E e = Inr n" and "t = RecordTypeCAA"
  proof -
    from r obtain flags tag v where v: "v \<noteq> []" "valid_utf8 v" "CHR 0x00 \<notin> set v"
      and tag: "tag \<noteq> []" "asciiLettersDigits tag"
      and n: "n = (resetSemanticFields e)\<lparr>re_Flags := Some flags, re_Tag := Some tag, re_Value := v\<rparr>"
      by (auto simp: normalize_caa_def and_then_Inr Let_def split: option.splits if_splits)
    moreover have "plain_text v" and trimmed: "trim_space v = v"
      using settled that(2) n by (simp_all add: settled_entry_def)
    then have "\<not> prefix [dquote] v" by (metis plain_text_def)
    then have "caa_value v = Inr v" using trimmed by (simp add: caa_value_def)
    ultimately show ?thesis
      using tag_fixed [OF tag(2,1)] by (simp add: normalize_caa_def reset_again)
  qed
  show ?thesis
  proof (cases t)
    case RecordTypeTXT
    with res obtain v where v: "canonicalizeTXT (re_Value e) = Inr v"
      and n: "n = e\<lparr>re_Value := v\<rparr>" and only: "requireOnlyValue e = Inr ()"
      by (auto simp: normalizeRecordEntry_def and_then_Inr)
    with settled RecordTypeTXT canonicalizeTXT_idem [OF v] only show ?thesis
      by (simp add: normalizeRecordEntry_def and_then_Inr settled_entry_def requireOnlyValue_Inr)
  qed (use res address target mx srv caa in \<open>auto simp: normalizeRecordEntry_def and_then_Inr split: if_splits\<close>)
qed

text \<open>Only such entries are normalised to themselves.\<close>

lemma normalizeRecordEntry_settles:
  assumes "normalizeRecordEntry E t n = Inr n"
  shows "settled_entry t n"
proof (cases "t = RecordTypeTXT \<or> t = RecordTypeCAA")
  case True
  then show ?thesis
  proof
    assume t: "t = RecordTypeTXT"
    with assms have c: "canonicalizeTXT (re_Value n) = Inr (re_Value n)" and only: "requireOnlyValue n = Inr ()"
      by (auto simp: normalizeRecordEntry_def and_then_Inr) (metis record_entry.surjective record_entry.update_convs(2) record_entry.select_convs(2))+
    have "txt_text_ok (re_Value n)" using c by (simp add: canonicalizeTXT_def split: if_splits)
    with canonicalizeTXT_fixed_plain [OF c] only t show ?thesis by (auto simp: settled_entry_def requireOnlyValue_Inr)
  next
    assume t: "t = RecordTypeCAA"
    with assms have c: "caa_value (re_Value n) = Inr (re_Value n)"
      by (auto simp: normalizeRecordEntry_def normalize_caa_def and_then_Inr Let_def split: option.splits if_splits)
        (metis record_entry.select_convs(2) record_entry.surjective record_entry.update_convs(2))
    have "\<not> prefix [dquote] (trim_space (re_Value n))"
    proof
      assume q: "prefix [dquote] (trim_space (re_Value n))"
      with c have "canonicalizeTXT (trim_space (re_Value n)) = Inr (re_Value n)"
        by (auto simp: caa_value_def Let_def wrap_err_def split: sum.splits)
      from canonicalizeTXT_fixed_plain [OF this length_trim_space] q show False
        by (auto simp: plain_text_def trim_space_idem)
    qed
    with c t show ?thesis by (auto simp: settled_entry_def plain_text_def caa_value_def Let_def)
  qed
qed (simp add: settled_entry_def)

section \<open>A normal form is normalised to itself: record sets\<close>

lemma normalize_entries_Inr:
  "normalize_entries E t i seen es = Inr ns \<longleftrightarrow>
     list_all2 (\<lambda>e n. normalizeRecordEntry E t e = Inr n) es ns
     \<and> distinct (map canonicalEntrySerialization ns)
     \<and> set (map canonicalEntrySerialization ns) \<inter> set seen = {}"
proof (induction es arbitrary: i seen ns)
  case Nil
  then show ?case by auto
next
  case (Cons e es)
  show ?case
    by (cases ns) (auto simp: and_then_Inr Let_def Cons.IH split: if_splits)
qed

lemma to_upper_type [simp]:
  "record_type_valid t \<Longrightarrow> record_type_of_string (to_upper u (record_type_string t)) = t"
  by (cases t) (simp_all add: to_upper_def upper_char_def is_lower_def is_ascii_def
      record_type_of_string_def CoreRecordTypes_def)

definition record_set_name :: "text_env \<Rightarrow> string \<Rightarrow> string \<Rightarrow> string result" where
  "record_set_name E zoneName name =
     (if zoneName = [] then canonicalizeName E name True False else CanonicalizeRecordName E name zoneName)"

lemma normalizeRecordSet_Inr:
  "normalizeRecordSet E zoneName rs fp = Inr n \<longleftrightarrow>
     (\<exists>name ns. record_set_name E zoneName (rs_Name rs) = Inr name
        \<and> record_type_valid (rs_Type rs) \<and> rs_TTL rs \<noteq> 0 \<and> rs_Entries rs \<noteq> []
        \<and> list_all2 (\<lambda>e n. normalizeRecordEntry E (rs_Type rs) e = Inr n) (rs_Entries rs) ns
        \<and> distinct (map canonicalEntrySerialization ns)
        \<and> (let m = rs\<lparr>rs_Name := name, rs_Entries := ns,
                     rs_ProviderVersion := trim_space (rs_ProviderVersion rs), rs_Fingerprint := []\<rparr>
           in n = (if fp then m\<lparr>rs_Fingerprint := fingerprintNormalizedRecordSet m\<rparr> else m)))"
  by (cases rs) (auto simp: normalizeRecordSet_def record_set_name_def and_then_Inr normalize_entries_Inr Let_def)

definition settled :: "record_set \<Rightarrow> bool" where
  "settled rs \<longleftrightarrow> list_all (settled_entry (rs_Type rs)) (rs_Entries rs)"

definition plain_dots :: "string \<Rightarrow> record_set \<Rightarrow> bool" where
  "plain_dots zoneName rs \<longleftrightarrow>
     no_wide_dot zoneName \<and> no_wide_dot (rs_Name rs)
     \<and> list_all (\<lambda>e. no_wide_dot (entry_target_text e)) (rs_Entries rs)"

lemma record_set_name_canonical:
  assumes "idna_laws (idna_ToASCII E)" and "no_wide_dot zoneName" and "no_wide_dot name"
    and "record_set_name E zoneName name = Inr c"
  shows "canonical_name E True c"
proof (cases "zoneName = []")
  case True
  with assms canonicalizeName_canonical show ?thesis by (auto simp: record_set_name_def)
next
  case False
  with assms show ?thesis
    using CanonicalizeRecordName_canonical by (metis record_set_name_def)
qed

lemma normalized_entries_fixed:
  assumes "idna_laws (idna_ToASCII E)"
    and "list_all2 (\<lambda>e n. normalizeRecordEntry E t e = Inr n) es ns"
    and "list_all (\<lambda>e. no_wide_dot (entry_target_text e)) es" and "list_all (settled_entry t) ns"
  shows "list_all2 (\<lambda>e n. normalizeRecordEntry E t e = Inr n) ns ns"
  using assms(2-4)
proof (induction rule: list_all2_induct)
  case (Cons e es n ns)
  with normalizeRecordEntry_settled [OF assms(1), of e t n] show ?case by simp
qed simp

lemma normalizeRecordSet_fixed:
  assumes laws: "idna_laws (idna_ToASCII E)" and dots: "plain_dots zoneName rs"
    and res: "normalizeRecordSet E zoneName rs fp = Inr n" and settled: "settled n"
  shows "normalizeRecordSet E [] n False = Inr (n\<lparr>rs_Fingerprint := []\<rparr>)"
proof -
  from res obtain name ns where name: "record_set_name E zoneName (rs_Name rs) = Inr name"
    and valid: "record_type_valid (rs_Type rs)" "rs_TTL rs \<noteq> 0" "rs_Entries rs \<noteq> []"
    and entries: "list_all2 (\<lambda>e n. normalizeRecordEntry E (rs_Type rs) e = Inr n) (rs_Entries rs) ns"
    and dist: "distinct (map canonicalEntrySerialization ns)"
    and n: "rs_Name n = name" "rs_Type n = rs_Type rs" "rs_TTL n = rs_TTL rs" "rs_Entries n = ns"
      "rs_ProviderVersion n = trim_space (rs_ProviderVersion rs)"
    unfolding normalizeRecordSet_Inr Let_def by (auto split: if_splits)
  have "canonical_name E True name"
    using record_set_name_canonical [OF laws _ _ name] dots by (simp add: plain_dots_def)
  then have "record_set_name E [] name = Inr name"
    using canonicalizeName_fixed by (simp add: record_set_name_def)
  moreover have "list_all2 (\<lambda>e n. normalizeRecordEntry E (rs_Type rs) e = Inr n) ns ns"
    using normalized_entries_fixed [OF laws entries] dots settled n
    by (simp add: plain_dots_def settled_def)
  moreover have "ns \<noteq> []" using entries valid(3) by auto
  ultimately show ?thesis
    unfolding normalizeRecordSet_Inr using valid dist n by (cases n) simp
qed

section \<open>Zones: sorted, distinct, canonical name servers\<close>

lemma unique_nameservers_Inr:
  "unique_nameservers E acc ss = Inr ns \<Longrightarrow> distinct acc \<Longrightarrow>
     distinct ns \<and> set ns = set acc \<union> {c. \<exists>s \<in> set ss. CanonicalizeDNSName E s = Inr c}"
proof (induction E acc ss arbitrary: ns rule: unique_nameservers.induct)
  case (1 E acc)
  then show ?case by auto
next
  case (2 E acc s ss)
  from "2.prems"(1) obtain c where c: "CanonicalizeDNSName E s = Inr c"
    by (auto simp: and_then_Inr)
  then show ?case
    using "2.IH"(1) [OF _ _, of c ns] "2.IH"(2) [OF _ _, of c ns] "2.prems"
    by (auto simp: Let_def split: if_splits)
qed

lemma unique_nameservers_fixed:
  assumes "\<forall>s \<in> set ss. CanonicalizeDNSName E s = Inr s" and "distinct (acc @ ss)"
  shows "unique_nameservers E acc ss = Inr (acc @ ss)"
  using assms
proof (induction ss arbitrary: acc)
  case (Cons s ss)
  then show ?case by (simp add: Let_def)
qed simp

text \<open>A zone that NormalizeZone accepts has a canonical name and the canonical forms of its
  name servers, each once and in ascending order, and normalising it again changes nothing.\<close>

theorem NormalizeZone_canonical:
  assumes laws: "idna_laws (idna_ToASCII E)"
    and dots: "no_wide_dot (zone_Name z)" "\<forall>s \<in> set (zone_Nameservers z). no_wide_dot s"
    and res: "NormalizeZone E z = Inr n"
  shows "canonical_name E False (zone_Name n) \<and> sorted (zone_Nameservers n) \<and> distinct (zone_Nameservers n)
    \<and> set (zone_Nameservers n) = {c. \<exists>s \<in> set (zone_Nameservers z). CanonicalizeDNSName E s = Inr c}
    \<and> NormalizeZone E n = Inr n"
proof -
  from res obtain name ns where id: "trim_space (zone_ID z) \<noteq> []" "length (zone_ID z) \<le> 1024"
    and name: "CanonicalizeZoneName E (zone_Name z) = Inr name"
    and ns: "unique_nameservers E [] (zone_Nameservers z) = Inr ns"
    and n: "n = z\<lparr>zone_Name := name, zone_Status := trim_space (zone_Status z), zone_Nameservers := sort ns\<rparr>"
    by (auto simp: NormalizeZone_def and_then_Inr split: if_splits)
  have servers: "distinct ns" "set ns = {c. \<exists>s \<in> set (zone_Nameservers z). CanonicalizeDNSName E s = Inr c}"
    using unique_nameservers_Inr [OF ns] by simp_all
  have canonical: "canonical_name E False name"
    using canonicalizeName_canonical [OF laws dots(1)] name by (simp add: CanonicalizeZoneName_def)
  have "\<forall>c \<in> set (sort ns). CanonicalizeDNSName E c = Inr c"
    using servers(2) canonicalizeName_idem [OF laws] dots(2)
    by (auto simp: CanonicalizeDNSName_def)
  then have "unique_nameservers E [] (sort ns) = Inr (sort ns)"
    using unique_nameservers_fixed [of "sort ns" E "[]"] servers(1) by simp
  then have "NormalizeZone E n = Inr n"
    using id canonicalizeName_fixed [OF canonical] n
    by (simp add: NormalizeZone_def CanonicalizeZoneName_def sorted_sort_id)
  with canonical servers n show ?thesis by simp
qed

theorem NormalizeZone_canonical_witness:
  "\<exists>n. NormalizeZone ascii_env
      \<lparr>zone_ID = ''z1'', zone_Name = ''Example.COM.'', zone_Status = '' active'',
       zone_Nameservers = [''ns2.example.net'', ''NS1.example.net'', ''ns2.example.net.''],
       zone_Extensions = no_zone_extensions\<rparr> = Inr n
    \<and> zone_Nameservers n = [''ns1.example.net'', ''ns2.example.net''] \<and> NormalizeZone ascii_env n = Inr n"
proof -
  let ?z = "\<lparr>zone_ID = ''z1'', zone_Name = ''Example.COM.'', zone_Status = '' active'',
       zone_Nameservers = [''ns2.example.net'', ''NS1.example.net'', ''ns2.example.net.''],
       zone_Extensions = no_zone_extensions\<rparr>"
  let ?n = "\<lparr>zone_ID = ''z1'', zone_Name = ''example.com'', zone_Status = ''active'',
       zone_Nameservers = [''ns1.example.net'', ''ns2.example.net''],
       zone_Extensions = no_zone_extensions\<rparr>"
  have parts: "CanonicalizeZoneName ascii_env ''Example.COM.'' = Inr ''example.com''"
    "unique_nameservers ascii_env [] [''ns2.example.net'', ''NS1.example.net'', ''ns2.example.net.'']
       = Inr [''ns2.example.net'', ''ns1.example.net'']"
    "trim_space '' active'' = ''active''" "trim_space ''z1'' = ''z1''"
    "sort [''ns2.example.net'', ''ns1.example.net''] = [''ns1.example.net'', ''ns2.example.net'']"
    by code_simp+
  then have res: "NormalizeZone ascii_env ?z = Inr ?n" by (simp add: NormalizeZone_def)
  have "idna_laws (idna_ToASCII ascii_env)" by (simp add: ascii_env_def ldh_ToASCII_laws)
  moreover have "no_wide_dot (zone_Name ?z)" "\<forall>s \<in> set (zone_Nameservers ?z). no_wide_dot s" by code_simp+
  ultimately have "NormalizeZone ascii_env ?n = Inr ?n"
    using NormalizeZone_canonical [OF _ _ _ res] by blast
  with res show ?thesis by simp
qed

section \<open>Properties of a normalised record set\<close>

lemma record_set_name_idem:
  assumes "idna_laws (idna_ToASCII E)" and "no_wide_dot zoneName" and "no_wide_dot name"
    and "record_set_name E zoneName name = Inr c"
  shows "record_set_name E zoneName c = Inr c"
proof (cases "zoneName = []")
  case True
  with assms(4) canonicalizeName_idem [OF assms(1,3)] show ?thesis by (simp add: record_set_name_def)
next
  case False
  with assms(4) CanonicalizeRecordName_idem [OF assms(1,3,2)] show ?thesis by (simp add: record_set_name_def)
qed

text \<open>An accepted record name is a canonical owner name that lies in the canonical form of the
  zone it was given for, so that no input can name a record outside its zone; an absolute name
  that lies elsewhere is an error.\<close>

theorem CanonicalizeRecordName_in_zone:
  assumes "idna_laws (idna_ToASCII E)" and "no_wide_dot name" and "no_wide_dot zoneName"
    and "CanonicalizeRecordName E name zoneName = Inr c"
  shows "(\<exists>zone. CanonicalizeZoneName E zoneName = Inr zone \<and> in_zone zone c) \<and> canonical_name E True c
    \<and> CanonicalizeRecordName E c zoneName = Inr c"
  using CanonicalizeRecordName_canonical [OF assms] CanonicalizeRecordName_idem [OF assms] by metis

theorem CanonicalizeRecordName_in_zone_witness:
  "CanonicalizeRecordName ascii_env ''_dmarc.WWW'' ''Example.com.'' = Inr ''_dmarc.www.example.com''
   \<and> canonical_name ascii_env True ''_dmarc.www.example.com''"
proof -
  have "idna_laws (idna_ToASCII ascii_env)" by (simp add: ascii_env_def ldh_ToASCII_laws)
  moreover have "no_wide_dot ''_dmarc.WWW''" "no_wide_dot ''Example.com.''"
    and res: "CanonicalizeRecordName ascii_env ''_dmarc.WWW'' ''Example.com.'' = Inr ''_dmarc.www.example.com''"
    by code_simp+
  ultimately show ?thesis using CanonicalizeRecordName_in_zone by blast
qed

end
