(* ===== verification/Fingerprints.thy ===== *)
theory Fingerprints
  imports Record_Sets
begin

text \<open>
  Optimistic concurrency on record sets: \<open>FingerprintRecordSet\<close> and \<open>Precondition\<close> of
  \<open>internal/provider/fingerprint.go\<close>. A client sends back the fingerprint of the record set it
  has read; the change goes ahead only when the current record set still has it.
\<close>

definition FingerprintRecordSet :: "text_env \<Rightarrow> record_set \<Rightarrow> string result" where
  "FingerprintRecordSet E rs =
     and_then (normalizeRecordSet E [] rs False) (\<lambda>n. Inr (fingerprintNormalizedRecordSet n))"

definition precondition_validate :: "precondition \<Rightarrow> unit result" where
  "precondition_validate p =
     (if \<not> prefix fingerprintPrefix (pc_ExpectedFingerprint p) then Inl ''expected fingerprint is invalid''
      else (case b64_decode (trim_prefix (pc_ExpectedFingerprint p) fingerprintPrefix) of
              None \<Rightarrow> Inl ''expected fingerprint is invalid''
            | Some digest \<Rightarrow>
                if length digest \<noteq> 32 then Inl ''expected fingerprint is invalid'' else Inr ()))"

definition precondition_matches :: "text_env \<Rightarrow> precondition \<Rightarrow> record_set \<Rightarrow> bool result" where
  "precondition_matches E p rs =
     and_then (precondition_validate p) (\<lambda>_.
       if pc_ProviderVersion p \<noteq> [] \<and> pc_ProviderVersion p \<noteq> rs_ProviderVersion rs then Inr False
       else and_then (FingerprintRecordSet E rs) (\<lambda>fingerprint.
         if length fingerprint \<noteq> length (pc_ExpectedFingerprint p) then Inr False
         else Inr (fingerprint = pc_ExpectedFingerprint p)))"

section \<open>Fingerprints are well formed\<close>

lemma fingerprint_valid:
  "precondition_validate \<lparr>pc_ExpectedFingerprint = fingerprintNormalizedRecordSet n, pc_ProviderVersion = v\<rparr> = Inr ()"
  by (simp add: precondition_validate_def fingerprintNormalizedRecordSet_def b64_round_trip)

lemma fingerprint_eq_serialization:
  "fingerprintNormalizedRecordSet a = fingerprintNormalizedRecordSet b \<longleftrightarrow>
     sha256 (serializeNormalizedRecordSet a) = sha256 (serializeNormalizedRecordSet b)"
  by (simp add: fingerprintNormalizedRecordSet_def b64_encode_inject)

lemma serialize_fingerprint_field [simp]:
  "serializeNormalizedRecordSet (n\<lparr>rs_Fingerprint := f\<rparr>) = serializeNormalizedRecordSet n"
  by (simp add: serializeNormalizedRecordSet_def record_set_json_def)

lemma normalize_then_fingerprint:
  "NormalizeRecordSet E zoneName rs = Inr n \<Longrightarrow> rs_Fingerprint n = fingerprintNormalizedRecordSet n"
  unfolding NormalizeRecordSet_def normalizeRecordSet_Inr Let_def
  by (auto simp: fingerprintNormalizedRecordSet_def)

lemma NormalizeRecordSet_refingerprint:
  assumes "idna_laws (idna_ToASCII E)" and "plain_dots zoneName rs"
    and "NormalizeRecordSet E zoneName rs = Inr n" and "settled n"
  shows "FingerprintRecordSet E n = Inr (fingerprintNormalizedRecordSet n)"
  using normalizeRecordSet_fixed [OF assms(1,2) _ assms(4)] assms(3)
  by (simp add: NormalizeRecordSet_def FingerprintRecordSet_def fingerprintNormalizedRecordSet_def)

definition sha256_collision :: "string \<Rightarrow> string \<Rightarrow> bool" where
  "sha256_collision x y \<longleftrightarrow> x \<noteq> y \<and> sha256 x = sha256 y"

lemma fingerprint_eq_content:
  assumes "record_set_utf8 a" and "record_set_utf8 b"
    and "record_type_valid (rs_Type a)" and "record_type_valid (rs_Type b)"
  shows "fingerprintNormalizedRecordSet a = fingerprintNormalizedRecordSet b \<longleftrightarrow>
    same_content a b \<or> sha256_collision (serializeNormalizedRecordSet a) (serializeNormalizedRecordSet b)"
  using serialize_determines_content [OF assms] serialize_same_content [of a b]
  by (auto simp: fingerprint_eq_serialization sha256_collision_def)

section \<open>What a matching precondition says\<close>

lemma matching_same_content:
  assumes "idna_laws (idna_ToASCII E)"
    and "plain_dots zoneName r" and "NormalizeRecordSet E zoneName r = Inr n"
    and "plain_dots zoneName s" and "NormalizeRecordSet E zoneName s = Inr m" and "settled m"
    and "record_set_utf8 n" and "record_set_utf8 m"
  shows "precondition_matches E \<lparr>pc_ExpectedFingerprint = rs_Fingerprint n, pc_ProviderVersion = v\<rparr> m
    = Inr ((v = [] \<or> v = rs_ProviderVersion m)
           \<and> (same_content n m
              \<or> sha256_collision (serializeNormalizedRecordSet n) (serializeNormalizedRecordSet m)))"
proof -
  have valid: "record_type_valid (rs_Type x)" if "NormalizeRecordSet E zoneName y = Inr x" for x y
    using that unfolding NormalizeRecordSet_def normalizeRecordSet_Inr Let_def by auto
  have len: "length (fingerprintNormalizedRecordSet x) = length (fingerprintNormalizedRecordSet y)" for x y
    by (simp add: fingerprintNormalizedRecordSet_def b64_encode_length)
  from NormalizeRecordSet_refingerprint [OF assms(1,4,5,6)]
    fingerprint_eq_content [OF assms(7,8) valid [OF assms(3)] valid [OF assms(5)]]
  show ?thesis
    using normalize_then_fingerprint [OF assms(3)] fingerprint_valid len [of m n]
    by (auto simp: precondition_matches_def)
qed


section \<open>Normalising twice\<close>

lemma NormalizeRecordSet_fixed:
  assumes laws: "idna_laws (idna_ToASCII E)" and dots: "plain_dots zoneName rs"
    and res: "NormalizeRecordSet E zoneName rs = Inr n" and settled: "settled n"
  shows "NormalizeRecordSet E zoneName n = Inr n"
proof -
  from res obtain name ns where name: "record_set_name E zoneName (rs_Name rs) = Inr name"
    and valid: "record_type_valid (rs_Type rs)" "rs_TTL rs \<noteq> 0" "rs_Entries rs \<noteq> []"
    and entries: "list_all2 (\<lambda>e n. normalizeRecordEntry E (rs_Type rs) e = Inr n) (rs_Entries rs) ns"
    and dist: "distinct (map canonicalEntrySerialization ns)"
    and n: "n = (let m = rs\<lparr>rs_Name := name, rs_Entries := ns,
        rs_ProviderVersion := trim_space (rs_ProviderVersion rs), rs_Fingerprint := []\<rparr>
      in m\<lparr>rs_Fingerprint := fingerprintNormalizedRecordSet m\<rparr>)"
    unfolding NormalizeRecordSet_def normalizeRecordSet_Inr by auto
  have "record_set_name E zoneName name = Inr name"
    using record_set_name_idem [OF laws _ _ name] dots by (simp add: plain_dots_def)
  moreover have "list_all2 (\<lambda>e n. normalizeRecordEntry E (rs_Type rs) e = Inr n) ns ns"
    using normalized_entries_fixed [OF laws entries] dots settled n
    by (simp add: plain_dots_def settled_def Let_def)
  moreover have "ns \<noteq> []" using entries valid(3) by auto
  ultimately show ?thesis
    unfolding NormalizeRecordSet_def normalizeRecordSet_Inr using valid dist n
    by (cases rs) (simp add: Let_def)
qed

lemma NormalizeRecordSet_settles:
  assumes "NormalizeRecordSet E zoneName n = Inr n"
  shows "settled n"
proof -
  from assms have "list_all2 (\<lambda>e e'. normalizeRecordEntry E (rs_Type n) e = Inr e') (rs_Entries n) (rs_Entries n)"
    unfolding NormalizeRecordSet_def normalizeRecordSet_Inr Let_def by (metis (no_types, lifting) record_set.select_convs(5)
        record_set.surjective record_set.update_convs(2,5,7,8))
  then show ?thesis
    using normalizeRecordEntry_settles by (fastforce simp: settled_def list_all2_same list_all_iff)
qed


section \<open>Examples\<close>

definition sample_record :: "string \<Rightarrow> RecordType \<Rightarrow> record_entry list \<Rightarrow> record_set" where
  "sample_record name t es =
     \<lparr>rs_ID = ''r1'', rs_Name = name, rs_Type = t, rs_TTL = 300, rs_Entries = es,
      rs_Extensions = no_set_extensions, rs_ProviderVersion = [], rs_Fingerprint = []\<rparr>"

definition value_entry :: "string \<Rightarrow> record_entry" where
  "value_entry v = empty_entry\<lparr>re_Value := v\<rparr>"

definition sample_a :: record_set where
  "sample_a = sample_record '' WWW'' RecordTypeA [value_entry '' 192.0.2.1'', value_entry ''192.0.2.2'']"

definition sample_b :: record_set where
  "sample_b = sample_record ''www.example.com.'' RecordTypeA [value_entry ''192.0.2.2'', value_entry ''192.0.2.1'']"

definition sample_normal :: "record_entry list \<Rightarrow> record_set" where
  "sample_normal es =
     (let m = sample_record ''www.example.com'' RecordTypeA es
      in m\<lparr>rs_Fingerprint := fingerprintNormalizedRecordSet m\<rparr>)"

lemma normalize_sample:
  assumes "record_set_name ascii_env ''example.com'' name = Inr ''www.example.com''"
    and "list_all2 (\<lambda>e n. normalizeRecordEntry ascii_env RecordTypeA e = Inr n) es ns"
    and "distinct (map canonicalEntrySerialization ns)" and "es \<noteq> []"
  shows "NormalizeRecordSet ascii_env ''example.com'' (sample_record name RecordTypeA es) = Inr (sample_normal ns)"
  unfolding NormalizeRecordSet_def normalizeRecordSet_Inr
  using assms by (simp add: sample_record_def sample_normal_def Let_def)

lemma ascii_env_laws [simp]: "idna_laws (idna_ToASCII ascii_env)"
  by (simp add: ascii_env_def ldh_ToASCII_laws)

lemma sample_normalized:
  "NormalizeRecordSet ascii_env ''example.com'' sample_a
     = Inr (sample_normal [value_entry ''192.0.2.1'', value_entry ''192.0.2.2''])"
  "NormalizeRecordSet ascii_env ''example.com'' sample_b
     = Inr (sample_normal [value_entry ''192.0.2.2'', value_entry ''192.0.2.1''])"
  unfolding sample_a_def sample_b_def by (rule normalize_sample; code_simp)+

lemma sample_normal_utf8:
  "record_set_utf8 (sample_normal [value_entry ''192.0.2.1'', value_entry ''192.0.2.2''])"
  "record_set_utf8 (sample_normal [value_entry ''192.0.2.2'', value_entry ''192.0.2.1''])"
proof -
  have "record_set_utf8 (m\<lparr>rs_Fingerprint := f\<rparr>) = record_set_utf8 m" for m f
    by (simp add: record_set_utf8_def)
  moreover have
    "record_set_utf8 (sample_record ''www.example.com'' RecordTypeA [value_entry ''192.0.2.1'', value_entry ''192.0.2.2''])"
    "record_set_utf8 (sample_record ''www.example.com'' RecordTypeA [value_entry ''192.0.2.2'', value_entry ''192.0.2.1''])"
    by code_simp+
  ultimately show
    "record_set_utf8 (sample_normal [value_entry ''192.0.2.1'', value_entry ''192.0.2.2''])"
    "record_set_utf8 (sample_normal [value_entry ''192.0.2.2'', value_entry ''192.0.2.1''])"
    by (simp_all add: sample_normal_def Let_def)
qed



section \<open>A value that is not read back\<close>

definition quoted_quote :: string where
  "quoted_quote = [dquote, backslash, dquote, CHR ''x'', dquote]"

lemma quoted_quote_read:
  "canonicalizeTXT quoted_quote = Inr [dquote, CHR ''x'']"
  "canonicalizeTXT [dquote, CHR ''x''] = Inl ''TXT quoted segment is invalid''"
proof -
  have "trim_space quoted_quote = quoted_quote" "txt_text_ok quoted_quote" "prefix [dquote] quoted_quote"
    "txt_segments quoted_quote = Inr [dquote, CHR ''x'']"
    by code_simp+
  then show "canonicalizeTXT quoted_quote = Inr [dquote, CHR ''x'']"
    by (simp add: canonicalizeTXT_def maximumTXTBytes_def is_ascii_def)
  have "trim_space [dquote, CHR ''x''] = [dquote, CHR ''x'']" "txt_text_ok [dquote, CHR ''x'']"
    "txt_segments [dquote, CHR ''x''] = Inl ''TXT quoted segment is invalid''"
    by code_simp+
  then show "canonicalizeTXT [dquote, CHR ''x''] = Inl ''TXT quoted segment is invalid''"
    by (simp add: canonicalizeTXT_def)
qed

text \<open>C21: A TXT record whose text begins with a quote is accepted by NormalizeRecordSet, yet the
  precondition built from the fingerprint it is given fails on that very record set: Matches
  normalises once more, takes the text for quoted segments and returns an error.\<close>

theorem txt_leading_quote_not_matched:
  "\<exists>n. NormalizeRecordSet ascii_env ''example.com'' (sample_record ''www'' RecordTypeTXT [value_entry quoted_quote]) = Inr n
     \<and> precondition_matches ascii_env \<lparr>pc_ExpectedFingerprint = rs_Fingerprint n, pc_ProviderVersion = []\<rparr> n
       = Inl ''record entry 0: TXT quoted segment is invalid''"
proof -
  let ?e = "value_entry [dquote, CHR ''x'']"
  let ?m = "sample_record ''www.example.com'' RecordTypeTXT [?e]"
  let ?n = "?m\<lparr>rs_Fingerprint := fingerprintNormalizedRecordSet ?m\<rparr>"
  have zero: "nat_to_dec 0 = ''0''" by code_simp
  have name: "record_set_name ascii_env ''example.com'' ''www'' = Inr ''www.example.com''"
    "record_set_name ascii_env [] ''www.example.com'' = Inr ''www.example.com''"
    by code_simp+
  have "quoted_quote \<noteq> []" "trim_space quoted_quote \<noteq> []" "trim_space [dquote, CHR ''x''] \<noteq> []" by code_simp+
  then have entry: "normalizeRecordEntry ascii_env RecordTypeTXT (value_entry quoted_quote) = Inr ?e"
    "normalizeRecordEntry ascii_env RecordTypeTXT ?e = Inl ''TXT quoted segment is invalid''"
    by (simp_all add: normalizeRecordEntry_def quoted_quote_read value_entry_def requireOnlyValue_def empty_entry_def)
  have "NormalizeRecordSet ascii_env ''example.com'' (sample_record ''www'' RecordTypeTXT [value_entry quoted_quote]) = Inr ?n"
    unfolding NormalizeRecordSet_def normalizeRecordSet_Inr
    using name entry by (simp add: sample_record_def Let_def)
  moreover have "FingerprintRecordSet ascii_env ?n = Inl ''record entry 0: TXT quoted segment is invalid''"
    using name(2) entry(2)
    by (simp add: FingerprintRecordSet_def normalizeRecordSet_def record_set_name_def sample_record_def
        zero)
  then have "precondition_matches ascii_env
      \<lparr>pc_ExpectedFingerprint = rs_Fingerprint ?n, pc_ProviderVersion = []\<rparr> ?n
    = Inl ''record entry 0: TXT quoted segment is invalid''"
    by (simp add: precondition_matches_def fingerprint_valid)
  ultimately show ?thesis by blast
qed

end
