(* ===== verification/Descriptors.thy ===== *)
theory Descriptors
  imports Record_Json
begin

text \<open>
  Descriptors of providers, \<open>internal/provider/descriptor.go\<close>: what credentials and account
  options a provider takes, what it can do, and the check of a submitted payload against them.
  A Go map is an association list in the order the loop happens to visit it. The messages of
  the code are the constructors of \<open>descriptor_error\<close>, with the values they quote.
  \<open>json.Decoder\<close> is the parameter \<open>dec\<close>: the next value of the input and what follows it.
\<close>

section \<open>Data\<close>

datatype NativeRecordGranularity =
    NativeRecordGranularityRRSet | NativeRecordGranularityEntry | NativeRecordGranularityOther string

datatype DescriptorFieldType =
    DescriptorFieldString | DescriptorFieldStringList | DescriptorFieldBoolean
  | DescriptorFieldInteger | DescriptorFieldEnum | DescriptorFieldOther string

datatype ExtensionScope =
    ExtensionScopeZone | ExtensionScopeRecordSet | ExtensionScopeRecordEntry | ExtensionScopeOther string

type_synonym texts = "(string \<times> string) list"

record descriptor_option =
  do_Value :: string
  do_Label :: string
  do_Labels :: texts

record descriptor_condition =
  dc_Field :: string
  dc_Values :: "string list"

record field_descriptor =
  fd_Key :: string
  fd_Label :: string
  fd_Labels :: texts
  fd_Type :: DescriptorFieldType
  fd_Secret :: bool
  fd_Required :: bool
  fd_Placeholder :: string
  fd_Placeholders :: texts
  fd_Description :: string
  fd_Descriptions :: texts
  fd_Options :: "descriptor_option list"
  fd_Minimum :: "int option"
  fd_Maximum :: "int option"

record extension_field =
  xf_Namespace :: ProviderType
  xf_Scope :: ExtensionScope
  xf_Key :: string
  xf_Label :: string
  xf_Type :: DescriptorFieldType
  xf_ReadOnly :: bool
  xf_Required :: bool
  xf_ApplicableWhen :: "descriptor_condition list"
  xf_RequiredWhen :: "descriptor_condition list"
  xf_Options :: "descriptor_option list"
  xf_Minimum :: "int option"
  xf_Maximum :: "int option"

record capabilities =
  cap_SupportedRecordTypes :: "RecordType list"
  cap_MinTTL :: "32 word option"
  cap_MaxTTL :: "32 word option"
  cap_NativeRecordGranularity :: NativeRecordGranularity
  cap_SupportsProxy :: bool
  cap_SupportsRoutingLine :: bool
  cap_SupportsWeight :: bool
  cap_SupportsRecordStatus :: bool
  cap_SupportsDNSSEC :: bool
  cap_SupportsNativeBatch :: bool
  cap_SupportsComments :: bool
  cap_ExtensionFields :: "extension_field list"

record provider_metadata =
  md_Type :: ProviderType
  md_DisplayName :: string
  md_DisplayNames :: texts
  md_DocumentationURL :: string

record provider_definition =
  def_Metadata :: provider_metadata
  def_Credentials :: "field_descriptor list"
  def_AccountOptions :: "field_descriptor list"
  def_Capabilities :: capabilities

datatype descriptor_error =
    KeyAndLabelRequired | FieldDuplicated string | LanguageAndValueRequired string
  | AccountOptionSecret string | SecretNotString string
  | FieldConstraints string | IntegerConstraints string | EnumOptionsRequired string
  | EnumOptionEmpty string | EnumOptionRepeated string | FieldTypeInvalid string
  | GranularityRequired | RecordTypesRequired | RecordTypeInvalid RecordType | RecordTypeDuplicated RecordType
  | TTLRangeInvalid | ExtensionIncomplete | ExtensionScopeInvalid string | ExtensionDuplicated string
  | ConditionIncomplete string | CapabilityWithoutExtension string
  | PayloadNotObject | PayloadTrailing | PayloadMissing string | PayloadUnsupported string
  | PayloadValueInvalid string

section \<open>Descriptors of fields\<close>

definition key_char :: "char \<Rightarrow> bool" where
  "key_char c \<longleftrightarrow> is_lower c \<or> is_digit c \<or> c = CHR ''_''"

text \<open>The pattern \<open>^[a-z][a-z0-9_]{0,63}$\<close>.\<close>

definition descriptor_key_ok :: "string \<Rightarrow> bool" where
  "descriptor_key_ok s \<longleftrightarrow>
     (case s of [] \<Rightarrow> False | c # t \<Rightarrow> is_lower c \<and> list_all key_char t \<and> length t \<le> 63)"

definition localized_text_ok :: "texts \<Rightarrow> bool" where
  "localized_text_ok m \<longleftrightarrow> list_all (\<lambda>(lang, v). trim_space lang \<noteq> [] \<and> trim_space v \<noteq> []) m"

fun enum_options :: "string \<Rightarrow> string list \<Rightarrow> descriptor_option list \<Rightarrow> descriptor_error + unit" where
  "enum_options key seen [] = Inr ()"
| "enum_options key seen (x # xs) =
     (if do_Value x = [] \<or> trim_space (do_Label x) = [] then Inl (EnumOptionEmpty key)
      else if \<not> localized_text_ok (do_Labels x) then Inl (LanguageAndValueRequired key)
      else if do_Value x \<in> set seen then Inl (EnumOptionRepeated key)
      else enum_options key (do_Value x # seen) xs)"

definition validateDescriptorValue ::
  "string \<Rightarrow> DescriptorFieldType \<Rightarrow> descriptor_option list \<Rightarrow> int option \<Rightarrow> int option \<Rightarrow> descriptor_error + unit" where
  "validateDescriptorValue key t opts lo hi =
     (case t of
        DescriptorFieldInteger \<Rightarrow>
          (if opts \<noteq> [] \<or> (lo \<noteq> None \<and> hi \<noteq> None \<and> the lo > the hi)
           then Inl (IntegerConstraints key) else Inr ())
      | DescriptorFieldEnum \<Rightarrow>
          (if opts = [] \<or> lo \<noteq> None \<or> hi \<noteq> None then Inl (EnumOptionsRequired key)
           else enum_options key [] opts)
      | DescriptorFieldOther _ \<Rightarrow> Inl (FieldTypeInvalid key)
      | _ \<Rightarrow> (if opts \<noteq> [] \<or> lo \<noteq> None \<or> hi \<noteq> None then Inl (FieldConstraints key) else Inr ()))"

definition sensitive_fragments :: "string list" where
  "sensitive_fragments =
     [''authorization'', ''credential'', ''password'', ''private_key'', ''secret'', ''token'', ''access_key'']"

definition sensitiveAccountOptionKey :: "string \<Rightarrow> bool" where
  "sensitiveAccountOptionKey key \<longleftrightarrow> list_ex (\<lambda>fragment. sublist fragment key) sensitive_fragments"

fun validateFieldDescriptors ::
  "string list \<Rightarrow> field_descriptor list \<Rightarrow> bool \<Rightarrow> descriptor_error + unit" where
  "validateFieldDescriptors seen [] forbidSecret = Inr ()"
| "validateFieldDescriptors seen (f # fs) forbidSecret =
     (if \<not> descriptor_key_ok (fd_Key f) \<or> trim_space (fd_Label f) = [] then Inl KeyAndLabelRequired
      else if fd_Key f \<in> set seen then Inl (FieldDuplicated (fd_Key f))
      else if \<not> list_all localized_text_ok [fd_Labels f, fd_Placeholders f, fd_Descriptions f]
      then Inl (LanguageAndValueRequired (fd_Key f))
      else if forbidSecret \<and> (fd_Secret f \<or> sensitiveAccountOptionKey (fd_Key f))
      then Inl (AccountOptionSecret (fd_Key f))
      else and_then (validateDescriptorValue (fd_Key f) (fd_Type f) (fd_Options f) (fd_Minimum f) (fd_Maximum f))
             (\<lambda>_. validateFieldDescriptors (fd_Key f # seen) fs forbidSecret))"

definition validate_credential_descriptor :: "field_descriptor list \<Rightarrow> descriptor_error + unit" where
  "validate_credential_descriptor fds =
     and_then (validateFieldDescriptors [] fds False) (\<lambda>_.
       case find (\<lambda>f. fd_Secret f \<and> fd_Type f \<noteq> DescriptorFieldString) fds of
         None \<Rightarrow> Inr () | Some f \<Rightarrow> Inl (SecretNotString (fd_Key f)))"

definition validate_options_descriptor :: "field_descriptor list \<Rightarrow> descriptor_error + unit" where
  "validate_options_descriptor fds = validateFieldDescriptors [] fds True"

section \<open>Capabilities\<close>

definition hasWritableExtension :: "capabilities \<Rightarrow> ExtensionScope \<Rightarrow> string \<Rightarrow> DescriptorFieldType \<Rightarrow> bool" where
  "hasWritableExtension c scope key t \<longleftrightarrow>
     list_ex (\<lambda>f. xf_Scope f = scope \<and> xf_Key f = key \<and> xf_Type f = t \<and> \<not> xf_ReadOnly f) (cap_ExtensionFields c)"

definition validateDescriptorConditions :: "string \<Rightarrow> descriptor_condition list \<Rightarrow> descriptor_error + unit" where
  "validateDescriptorConditions key conds =
     (if list_all (\<lambda>c. trim_space (dc_Field c) \<noteq> [] \<and> dc_Values c \<noteq> []) conds
      then Inr () else Inl (ConditionIncomplete key))"

fun validate_record_types :: "RecordType list \<Rightarrow> RecordType list \<Rightarrow> descriptor_error + unit" where
  "validate_record_types seen [] = Inr ()"
| "validate_record_types seen (t # ts) =
     (if \<not> record_type_valid t then Inl (RecordTypeInvalid t)
      else if t \<in> set seen then Inl (RecordTypeDuplicated t)
      else validate_record_types (t # seen) ts)"

fun scope_string :: "ExtensionScope \<Rightarrow> string" where
  "scope_string ExtensionScopeZone = ''zone''"
| "scope_string ExtensionScopeRecordSet = ''record_set''"
| "scope_string ExtensionScopeRecordEntry = ''record_entry''"
| "scope_string (ExtensionScopeOther s) = s"

fun scope_known :: "ExtensionScope \<Rightarrow> bool" where
  "scope_known (ExtensionScopeOther _) = False"
| "scope_known _ = True"

definition extension_identity :: "extension_field \<Rightarrow> string" where
  "extension_identity f = xf_Namespace f @ [CHR 0x00] @ scope_string (xf_Scope f) @ [CHR 0x00] @ xf_Key f"

fun validate_extensions :: "string list \<Rightarrow> extension_field list \<Rightarrow> descriptor_error + unit" where
  "validate_extensions seen [] = Inr ()"
| "validate_extensions seen (f # fs) =
     (if xf_Namespace f = [] \<or> \<not> descriptor_key_ok (xf_Key f) \<or> trim_space (xf_Label f) = []
      then Inl ExtensionIncomplete
      else if \<not> scope_known (xf_Scope f) then Inl (ExtensionScopeInvalid (xf_Key f))
      else if extension_identity f \<in> set seen then Inl (ExtensionDuplicated (xf_Key f))
      else
        and_then (validateDescriptorValue (xf_Key f) (xf_Type f) (xf_Options f) (xf_Minimum f) (xf_Maximum f)) (\<lambda>_.
        and_then (validateDescriptorConditions (xf_Key f) (xf_ApplicableWhen f)) (\<lambda>_.
        and_then (validateDescriptorConditions (xf_Key f) (xf_RequiredWhen f)) (\<lambda>_.
          validate_extensions (extension_identity f # seen) fs))))"

text \<open>The capability that is claimed without a writable extension field for it.\<close>

definition capability_gap :: "capabilities \<Rightarrow> string option" where
  "capability_gap c =
     (if cap_SupportsProxy c
        \<and> \<not> hasWritableExtension c ExtensionScopeRecordSet ''proxied'' DescriptorFieldBoolean
     then Some ''proxy''
     else if cap_SupportsRoutingLine c
        \<and> \<not> hasWritableExtension c ExtensionScopeRecordEntry ''line'' DescriptorFieldString
     then Some ''routing line''
     else if cap_SupportsWeight c
        \<and> \<not> hasWritableExtension c ExtensionScopeRecordEntry ''weight'' DescriptorFieldInteger
     then Some ''routing weight''
     else if cap_SupportsRecordStatus c
        \<and> \<not> hasWritableExtension c ExtensionScopeRecordSet ''status'' DescriptorFieldEnum
        \<and> \<not> hasWritableExtension c ExtensionScopeRecordEntry ''status'' DescriptorFieldEnum
     then Some ''record status''
     else if cap_SupportsComments c
        \<and> \<not> hasWritableExtension c ExtensionScopeRecordSet ''comment'' DescriptorFieldString
        \<and> \<not> hasWritableExtension c ExtensionScopeRecordEntry ''comment'' DescriptorFieldString
        \<and> \<not> hasWritableExtension c ExtensionScopeRecordEntry ''remark'' DescriptorFieldString
     then Some ''comments''
      else None)"

definition validate_capabilities :: "capabilities \<Rightarrow> descriptor_error + unit" where
  "validate_capabilities c =
     (if cap_NativeRecordGranularity c \<noteq> NativeRecordGranularityRRSet
         \<and> cap_NativeRecordGranularity c \<noteq> NativeRecordGranularityEntry then Inl GranularityRequired
      else if cap_SupportedRecordTypes c = [] then Inl RecordTypesRequired
      else
        and_then (validate_record_types [] (cap_SupportedRecordTypes c)) (\<lambda>_.
        if cap_MinTTL c \<noteq> None \<and> cap_MaxTTL c \<noteq> None \<and> the (cap_MinTTL c) > the (cap_MaxTTL c)
        then Inl TTLRangeInvalid
        else
          and_then (validate_extensions [] (cap_ExtensionFields c)) (\<lambda>_.
          case capability_gap c of Some name \<Rightarrow> Inl (CapabilityWithoutExtension name) | None \<Rightarrow> Inr ())))"

section \<open>Payloads\<close>

text \<open>A decoded JSON value; a number keeps its text (\<open>json.Number\<close>).\<close>

datatype jvalue =
    JVNull | JVBool bool | JVNumber string | JVString string
  | JVList "jvalue list" | JVObject "(string \<times> jvalue) list"

definition validatePayloadValue :: "field_descriptor \<Rightarrow> jvalue \<Rightarrow> bool" where
  "validatePayloadValue f v =
     (case fd_Type f of
        DescriptorFieldString \<Rightarrow>
          (case v of JVString s \<Rightarrow> \<not> (fd_Required f \<and> trim_space s = []) | _ \<Rightarrow> False)
      | DescriptorFieldStringList \<Rightarrow>
          (case v of JVList xs \<Rightarrow>
             list_all (\<lambda>x. case x of JVString s \<Rightarrow> trim_space s \<noteq> [] | _ \<Rightarrow> False) xs | _ \<Rightarrow> False)
      | DescriptorFieldBoolean \<Rightarrow> (case v of JVBool _ \<Rightarrow> True | _ \<Rightarrow> False)
      | DescriptorFieldInteger \<Rightarrow>
          (case v of JVNumber n \<Rightarrow>
             (case parse_int64 n of None \<Rightarrow> False
              | Some i \<Rightarrow> \<not> (fd_Minimum f \<noteq> None \<and> i < the (fd_Minimum f))
                        \<and> \<not> (fd_Maximum f \<noteq> None \<and> i > the (fd_Maximum f)))
           | _ \<Rightarrow> False)
      | DescriptorFieldEnum \<Rightarrow>
          (case v of JVString s \<Rightarrow> list_ex (\<lambda>x. s = do_Value x) (fd_Options f) | _ \<Rightarrow> False)
      | DescriptorFieldOther _ \<Rightarrow> False)"

text \<open>\<open>json.Marshal\<close> of a decoded value; the keys of an object come out sorted.\<close>

fun marshal_value :: "jvalue \<Rightarrow> string" where
  "marshal_value JVNull = ''null''"
| "marshal_value (JVBool b) = (if b then ''true'' else ''false'')"
| "marshal_value (JVNumber n) = n"
| "marshal_value (JVString s) = json_string s"
| "marshal_value (JVList vs) = ''['' @ join_with (CHR '','') (map marshal_value vs) @ '']''"
| "marshal_value (JVObject fs) =
     ''{'' @ join_with (CHR '','')
       (map (\<lambda>(k, s). json_string k @ '':'' @ s) (sort_key fst (map (\<lambda>(k, v). (k, marshal_value v)) fs))) @ ''}''"

text \<open>The white space of JSON between values.\<close>

definition json_blank :: "string \<Rightarrow> bool" where
  "json_blank s \<longleftrightarrow> list_all (\<lambda>c. c \<in> {CHR '' '', CHR 0x09, CHR 0x0A, CHR 0x0D}) s"

type_synonym json_decoder = "string \<Rightarrow> (jvalue \<times> string) option"

fun payload_fields :: "field_descriptor list \<Rightarrow> (string \<times> jvalue) list \<Rightarrow> descriptor_error + unit" where
  "payload_fields fds [] = Inr ()"
| "payload_fields fds ((k, v) # kvs) =
     (case find (\<lambda>f. fd_Key f = k) (rev fds) of
        None \<Rightarrow> Inl (PayloadUnsupported k)
      | Some f \<Rightarrow> if \<not> validatePayloadValue f v then Inl (PayloadValueInvalid k)
                 else payload_fields fds kvs)"

definition validateDescriptorPayload ::
  "json_decoder \<Rightarrow> string \<Rightarrow> field_descriptor list \<Rightarrow> descriptor_error + string" where
  "validateDescriptorPayload dec raw fds =
     (case dec raw of
        Some (JVObject values, rest) \<Rightarrow>
          if \<not> json_blank rest then Inl PayloadTrailing
          else (case find (\<lambda>f. fd_Required f \<and> fd_Key f \<notin> fst ` set values) fds of
                  Some f \<Rightarrow> Inl (PayloadMissing (fd_Key f))
                | None \<Rightarrow> and_then (payload_fields fds values) (\<lambda>_. Inr (marshal_value (JVObject values))))
      | _ \<Rightarrow> Inl PayloadNotObject)"

definition ValidateCredentialPayload ::
  "json_decoder \<Rightarrow> string \<Rightarrow> field_descriptor list \<Rightarrow> descriptor_error + string" where
  "ValidateCredentialPayload dec raw fds =
     and_then (validate_credential_descriptor fds) (\<lambda>_. validateDescriptorPayload dec raw fds)"

definition ValidateAccountOptionsPayload ::
  "json_decoder \<Rightarrow> string \<Rightarrow> field_descriptor list \<Rightarrow> descriptor_error + string" where
  "ValidateAccountOptionsPayload dec raw fds =
     and_then (validate_options_descriptor fds) (\<lambda>_.
       validateDescriptorPayload dec (if trim_space raw = [] then ''{}'' else raw) fds)"

definition sortedRecordTypes :: "RecordType list \<Rightarrow> RecordType list" where
  "sortedRecordTypes ts = sort_key record_type_string ts"

section \<open>What a valid descriptor guarantees\<close>

lemma enum_options_values:
  "enum_options key seen xs = Inr () \<Longrightarrow>
     distinct (map do_Value xs) \<and> set (map do_Value xs) \<inter> set seen = {} \<and> [] \<notin> set (map do_Value xs)"
  by (induction key seen xs rule: enum_options.induct) (auto split: if_splits)

lemma validateFieldDescriptors_Inr:
  "validateFieldDescriptors seen fds secret = Inr () \<Longrightarrow>
     distinct (map fd_Key fds) \<and> set (map fd_Key fds) \<inter> set seen = {}
     \<and> (\<forall>f \<in> set fds. descriptor_key_ok (fd_Key f)
          \<and> (secret \<longrightarrow> \<not> fd_Secret f \<and> \<not> sensitiveAccountOptionKey (fd_Key f))
          \<and> validateDescriptorValue (fd_Key f) (fd_Type f) (fd_Options f) (fd_Minimum f) (fd_Maximum f) = Inr ())"
proof (induction seen fds secret rule: validateFieldDescriptors.induct)
  case (2 seen f fds secret)
  let ?val = "validateDescriptorValue (fd_Key f) (fd_Type f) (fd_Options f) (fd_Minimum f) (fd_Maximum f)"
  from "2.prems" have here: "descriptor_key_ok (fd_Key f)" "fd_Key f \<notin> set seen"
      "\<not> (secret \<and> (fd_Secret f \<or> sensitiveAccountOptionKey (fd_Key f)))"
    and rest: "and_then ?val (\<lambda>_. validateFieldDescriptors (fd_Key f # seen) fds secret) = Inr ()"
    by (simp_all split: if_splits)
  from rest have val: "?val = Inr ()"
    and tail: "validateFieldDescriptors (fd_Key f # seen) fds secret = Inr ()"
    by (auto simp: and_then_Inr)
  from "2.prems" have "\<not> (\<not> descriptor_key_ok (fd_Key f) \<or> trim_space (fd_Label f) = [])"
    "fd_Key f \<notin> set seen" "\<not> \<not> list_all localized_text_ok [fd_Labels f, fd_Placeholders f, fd_Descriptions f]"
    by (simp_all split: if_splits)
  from "2.IH" [OF this here(3) tail] here val show ?case by simp
qed simp

lemma payload_fields_Inr:
  "payload_fields fds kvs = Inr () \<longleftrightarrow>
     (\<forall>(k, v) \<in> set kvs. \<exists>f. find (\<lambda>f. fd_Key f = k) (rev fds) = Some f \<and> validatePayloadValue f v)"
  by (induction fds kvs rule: payload_fields.induct) (auto split: option.splits)

lemma find_rev_distinct:
  "distinct (map fd_Key fds) \<Longrightarrow> find (\<lambda>f. fd_Key f = k) (rev fds) = Some f \<longleftrightarrow> f \<in> set fds \<and> fd_Key f = k"
proof (induction fds)
  case (Cons g fds)
  have no: "find (\<lambda>f. fd_Key f = k) (rev fds) = None \<longleftrightarrow> k \<notin> fd_Key ` set fds"
    by (auto simp: find_None_iff)
  show ?case
  proof (cases "k \<in> fd_Key ` set fds")
    case True
    with no obtain h where "find (\<lambda>f. fd_Key f = k) (rev fds) = Some h" by fastforce
    with Cons True show ?thesis by (auto simp: find_append)
  next
    case False
    with Cons no show ?thesis by (auto simp: find_append)
  qed
qed simp

text \<open>C22: A payload is accepted exactly when it is one JSON object whose keys are declared by the
  descriptor, whose required keys are present and whose values have the declared types; the
  result is the marshalled object. The order in which the maps are visited does not matter.\<close>

theorem validateDescriptorPayload_iff:
  assumes "distinct (map fd_Key fds)"
  shows "validateDescriptorPayload dec raw fds = Inr canonical \<longleftrightarrow>
    (\<exists>values rest. dec raw = Some (JVObject values, rest) \<and> json_blank rest
       \<and> (\<forall>f \<in> set fds. fd_Required f \<longrightarrow> fd_Key f \<in> fst ` set values)
       \<and> (\<forall>(k, v) \<in> set values. \<exists>f \<in> set fds. fd_Key f = k \<and> validatePayloadValue f v)
       \<and> canonical = marshal_value (JVObject values))"
proof -
  have found: "payload_fields fds kvs = Inr () \<longleftrightarrow>
      (\<forall>(k, v) \<in> set kvs. \<exists>f \<in> set fds. fd_Key f = k \<and> validatePayloadValue f v)" for kvs
    unfolding payload_fields_Inr find_rev_distinct [OF assms] by blast
  have present: "find (\<lambda>f. fd_Required f \<and> fd_Key f \<notin> fst ` set kvs) fds = None \<longleftrightarrow>
      (\<forall>f \<in> set fds. fd_Required f \<longrightarrow> fd_Key f \<in> fst ` set kvs)" for kvs
    by (auto simp: find_None_iff)
  show ?thesis
    unfolding found [symmetric] present [symmetric]
    by (auto simp: validateDescriptorPayload_def and_then_Inr split: option.splits jvalue.splits if_splits)
qed

text \<open>Account options never carry credential material: no key of an accepted options payload
  contains one of the sensitive fragments, whatever the descriptor says.\<close>

theorem account_options_without_credentials:
  assumes "ValidateAccountOptionsPayload dec raw fds = Inr canonical"
  shows "\<exists>values rest. dec (if trim_space raw = [] then ''{}'' else raw) = Some (JVObject values, rest)
    \<and> (\<forall>k \<in> fst ` set values. descriptor_key_ok k \<and> \<not> sensitiveAccountOptionKey k)"
proof -
  let ?raw = "if trim_space raw = [] then ''{}'' else raw"
  from assms have valid: "validateFieldDescriptors [] fds True = Inr ()"
    and payload: "validateDescriptorPayload dec ?raw fds = Inr canonical"
    by (auto simp: ValidateAccountOptionsPayload_def validate_options_descriptor_def and_then_Inr)
  from payload validateFieldDescriptors_Inr [OF valid] obtain vals rest
    where doc: "dec ?raw = Some (JVObject vals, rest)"
      and fds: "payload_fields fds vals = Inr ()"
    by (auto simp: validateDescriptorPayload_def and_then_Inr split: option.splits jvalue.splits if_splits)
  have "descriptor_key_ok k \<and> \<not> sensitiveAccountOptionKey k" if "k \<in> fst ` set vals" for k
  proof -
    from that obtain v where "(k, v) \<in> set vals" by force
    with fds obtain f where "f \<in> set fds" "fd_Key f = k"
      using find_rev_distinct validateFieldDescriptors_Inr [OF valid]
      by (fastforce simp: payload_fields_Inr)
    with validateFieldDescriptors_Inr [OF valid] show ?thesis by auto
  qed
  with doc show ?thesis by blast
qed

section \<open>What valid capabilities guarantee\<close>

lemma validate_record_types_Inr:
  "validate_record_types seen ts = Inr () \<longleftrightarrow>
     list_all record_type_valid ts \<and> distinct ts \<and> set ts \<inter> set seen = {}"
  by (induction seen ts rule: validate_record_types.induct) auto

lemma validate_extensions_Inr:
  "validate_extensions seen fs = Inr () \<Longrightarrow>
     distinct (map extension_identity fs) \<and> set (map extension_identity fs) \<inter> set seen = {}
     \<and> (\<forall>f \<in> set fs. xf_Namespace f \<noteq> [] \<and> descriptor_key_ok (xf_Key f))"
proof (induction fs arbitrary: seen)
  case (Cons f fs)
  from Cons.prems have here: "xf_Namespace f \<noteq> []" "descriptor_key_ok (xf_Key f)" "extension_identity f \<notin> set seen"
    by (auto simp del: and_then_Inr split: if_splits)
  from Cons.prems have
    "and_then (validateDescriptorValue (xf_Key f) (xf_Type f) (xf_Options f) (xf_Minimum f) (xf_Maximum f)) (\<lambda>_.
     and_then (validateDescriptorConditions (xf_Key f) (xf_ApplicableWhen f)) (\<lambda>_.
     and_then (validateDescriptorConditions (xf_Key f) (xf_RequiredWhen f)) (\<lambda>_.
       validate_extensions (extension_identity f # seen) fs))) = Inr ()"
    by (simp split: if_splits)
  then have "validate_extensions (extension_identity f # seen) fs = Inr ()"
    unfolding and_then_Inr by blast
  from Cons.IH [OF this] here show ?case by simp
qed simp

lemma capability_gap_None:
  assumes "capability_gap c = None"
  shows "cap_SupportsProxy c \<Longrightarrow> hasWritableExtension c ExtensionScopeRecordSet ''proxied'' DescriptorFieldBoolean"
    and "cap_SupportsRoutingLine c \<Longrightarrow> hasWritableExtension c ExtensionScopeRecordEntry ''line'' DescriptorFieldString"
    and "cap_SupportsWeight c \<Longrightarrow> hasWritableExtension c ExtensionScopeRecordEntry ''weight'' DescriptorFieldInteger"
    and "cap_SupportsRecordStatus c \<Longrightarrow>
       \<exists>s \<in> {ExtensionScopeRecordSet, ExtensionScopeRecordEntry}. hasWritableExtension c s ''status'' DescriptorFieldEnum"
    and "cap_SupportsComments c \<Longrightarrow>
       \<exists>s \<in> {ExtensionScopeRecordSet, ExtensionScopeRecordEntry}. \<exists>k \<in> {''comment'', ''remark''}.
         hasWritableExtension c s k DescriptorFieldString"
proof -
  have parts:
    "\<not> (cap_SupportsProxy c \<and> \<not> hasWritableExtension c ExtensionScopeRecordSet ''proxied'' DescriptorFieldBoolean)"
    "\<not> (cap_SupportsRoutingLine c \<and> \<not> hasWritableExtension c ExtensionScopeRecordEntry ''line'' DescriptorFieldString)"
    "\<not> (cap_SupportsWeight c \<and> \<not> hasWritableExtension c ExtensionScopeRecordEntry ''weight'' DescriptorFieldInteger)"
    "\<not> (cap_SupportsRecordStatus c
        \<and> \<not> hasWritableExtension c ExtensionScopeRecordSet ''status'' DescriptorFieldEnum
        \<and> \<not> hasWritableExtension c ExtensionScopeRecordEntry ''status'' DescriptorFieldEnum)"
    "\<not> (cap_SupportsComments c
        \<and> \<not> hasWritableExtension c ExtensionScopeRecordSet ''comment'' DescriptorFieldString
        \<and> \<not> hasWritableExtension c ExtensionScopeRecordEntry ''comment'' DescriptorFieldString
        \<and> \<not> hasWritableExtension c ExtensionScopeRecordEntry ''remark'' DescriptorFieldString)"
    using assms unfolding capability_gap_def by (metis option.distinct(1))+
  then show "cap_SupportsProxy c \<Longrightarrow> hasWritableExtension c ExtensionScopeRecordSet ''proxied'' DescriptorFieldBoolean"
    and "cap_SupportsRoutingLine c \<Longrightarrow> hasWritableExtension c ExtensionScopeRecordEntry ''line'' DescriptorFieldString"
    and "cap_SupportsWeight c \<Longrightarrow> hasWritableExtension c ExtensionScopeRecordEntry ''weight'' DescriptorFieldInteger"
    and "cap_SupportsRecordStatus c \<Longrightarrow>
       \<exists>s \<in> {ExtensionScopeRecordSet, ExtensionScopeRecordEntry}. hasWritableExtension c s ''status'' DescriptorFieldEnum"
    and "cap_SupportsComments c \<Longrightarrow>
       \<exists>s \<in> {ExtensionScopeRecordSet, ExtensionScopeRecordEntry}. \<exists>k \<in> {''comment'', ''remark''}.
         hasWritableExtension c s k DescriptorFieldString"
    by blast+
qed

text \<open>Valid capabilities promise only what the extension fields can express: a provider that
  claims proxying, routing lines, weights, record status or comments has a writable extension
  field of the right scope and type for it; the record types are known and listed once.\<close>

theorem valid_capabilities_have_extensions:
  assumes "validate_capabilities c = Inr ()"
  shows "(cap_SupportsProxy c \<longrightarrow>
       hasWritableExtension c ExtensionScopeRecordSet ''proxied'' DescriptorFieldBoolean)
    \<and> (cap_SupportsRoutingLine c \<longrightarrow>
       hasWritableExtension c ExtensionScopeRecordEntry ''line'' DescriptorFieldString)
    \<and> (cap_SupportsWeight c \<longrightarrow>
       hasWritableExtension c ExtensionScopeRecordEntry ''weight'' DescriptorFieldInteger)
    \<and> (cap_SupportsRecordStatus c \<longrightarrow>
       (\<exists>s \<in> {ExtensionScopeRecordSet, ExtensionScopeRecordEntry}.
          hasWritableExtension c s ''status'' DescriptorFieldEnum))
    \<and> (cap_SupportsComments c \<longrightarrow>
       (\<exists>s \<in> {ExtensionScopeRecordSet, ExtensionScopeRecordEntry}. \<exists>k \<in> {''comment'', ''remark''}.
          hasWritableExtension c s k DescriptorFieldString))
    \<and> cap_SupportedRecordTypes c \<noteq> [] \<and> list_all record_type_valid (cap_SupportedRecordTypes c)
    \<and> distinct (cap_SupportedRecordTypes c) \<and> distinct (map extension_identity (cap_ExtensionFields c))"
proof -
  from assms have "validate_record_types [] (cap_SupportedRecordTypes c) = Inr ()"
    and "validate_extensions [] (cap_ExtensionFields c) = Inr ()"
    by (auto simp: validate_capabilities_def and_then_Inr split: if_splits)
  with validate_record_types_Inr [of "[]"] validate_extensions_Inr [of "[]"]
  have sets: "list_all record_type_valid (cap_SupportedRecordTypes c)"
    "distinct (cap_SupportedRecordTypes c)" "distinct (map extension_identity (cap_ExtensionFields c))"
    by auto
  from assms have "capability_gap c = None" and "cap_SupportedRecordTypes c \<noteq> []"
    by (auto simp: validate_capabilities_def and_then_Inr split: if_splits option.splits)
  with capability_gap_None sets show ?thesis by blast
qed

section \<open>Examples\<close>

definition plain_field :: "string \<Rightarrow> DescriptorFieldType \<Rightarrow> bool \<Rightarrow> field_descriptor" where
  "plain_field key t required =
     \<lparr>fd_Key = key, fd_Label = ''Label'', fd_Labels = [], fd_Type = t, fd_Secret = False, fd_Required = required,
      fd_Placeholder = [], fd_Placeholders = [], fd_Description = [], fd_Descriptions = [], fd_Options = [],
      fd_Minimum = None, fd_Maximum = None\<rparr>"

definition example_fields :: "field_descriptor list" where
  "example_fields =
     [plain_field ''region'' DescriptorFieldString True,
      (plain_field ''limit'' DescriptorFieldInteger False)\<lparr>fd_Minimum := Some 1, fd_Maximum := Some 9\<rparr>]"

text \<open>A decoder that knows one document.\<close>

definition example_document :: "(string \<times> jvalue) list" where
  "example_document = [(''region'', JVString ''eu''), (''limit'', JVNumber ''5'')]"

definition example_decoder :: json_decoder where
  "example_decoder raw = (if raw = ''doc'' then Some (JVObject example_document, [CHR 0x0A]) else None)"

lemma example_payload_accepted:
  "ValidateAccountOptionsPayload example_decoder ''doc'' example_fields
     = Inr (marshal_value (JVObject example_document))"
proof -
  have "validate_options_descriptor example_fields = Inr ()" "\<not> trim_space ''doc'' = []"
    "payload_fields example_fields example_document = Inr ()"
    "find (\<lambda>f. fd_Required f \<and> fd_Key f \<notin> fst ` set example_document) example_fields = None"
    "json_blank [CHR 0x0A]"
    by code_simp+
  then show ?thesis
    by (simp add: ValidateAccountOptionsPayload_def validateDescriptorPayload_def example_decoder_def)
qed

theorem account_options_without_credentials_witness:
  "map fst example_document = [''region'', ''limit'']
   \<and> \<not> sensitiveAccountOptionKey ''region'' \<and> \<not> sensitiveAccountOptionKey ''limit''"
proof -
  have "trim_space ''doc'' \<noteq> []" by code_simp
  then have "\<forall>k \<in> fst ` set example_document. descriptor_key_ok k \<and> \<not> sensitiveAccountOptionKey k"
    using account_options_without_credentials [OF example_payload_accepted]
    by (auto simp: example_decoder_def)
  then show ?thesis by (simp add: example_document_def)
qed

theorem validateDescriptorPayload_iff_witness:
  "validateDescriptorPayload example_decoder ''doc'' example_fields = Inr (marshal_value (JVObject example_document))
   \<and> validateDescriptorPayload example_decoder ''other'' example_fields \<noteq> Inr ''{}''"
proof -
  have d: "distinct (map fd_Key example_fields)" by code_simp
  have "validateDescriptorPayload example_decoder ''doc'' example_fields = Inr (marshal_value (JVObject example_document))"
    using example_payload_accepted by (auto simp: ValidateAccountOptionsPayload_def and_then_Inr split: if_splits)
      (simp add: example_decoder_def validateDescriptorPayload_def)
  moreover have "example_decoder ''other'' = None" by (simp add: example_decoder_def)
  ultimately show ?thesis
    using validateDescriptorPayload_iff [OF d, of example_decoder "''other''"] by simp
qed

definition example_capabilities :: capabilities where
  "example_capabilities =
     \<lparr>cap_SupportedRecordTypes = CoreRecordTypes, cap_MinTTL = Some 60, cap_MaxTTL = Some 86400,
      cap_NativeRecordGranularity = NativeRecordGranularityRRSet,
      cap_SupportsProxy = True, cap_SupportsRoutingLine = False, cap_SupportsWeight = False,
      cap_SupportsRecordStatus = False, cap_SupportsDNSSEC = False, cap_SupportsNativeBatch = False,
      cap_SupportsComments = False,
      cap_ExtensionFields =
        [\<lparr>xf_Namespace = ''cloudflare'', xf_Scope = ExtensionScopeRecordSet, xf_Key = ''proxied'', xf_Label = ''Proxied'',
          xf_Type = DescriptorFieldBoolean, xf_ReadOnly = False, xf_Required = False, xf_ApplicableWhen = [],
          xf_RequiredWhen = [], xf_Options = [], xf_Minimum = None, xf_Maximum = None\<rparr>]\<rparr>"

theorem valid_capabilities_have_extensions_witness:
  "validate_capabilities example_capabilities = Inr ()
   \<and> hasWritableExtension example_capabilities ExtensionScopeRecordSet ''proxied'' DescriptorFieldBoolean"
proof -
  have ok: "validate_capabilities example_capabilities = Inr ()" by code_simp
  have "cap_SupportsProxy example_capabilities" by (simp add: example_capabilities_def)
  with ok valid_capabilities_have_extensions [OF ok] show ?thesis by blast
qed

end
