(* ===== verification/Providers.thy ===== *)
theory Providers
  imports Descriptors Fingerprints Provider_Errors Pagination
begin

text \<open>
  The interface between the core and the DNS providers: \<open>Provider\<close> and \<open>Factory\<close> of
  \<open>internal/provider/types.go\<close>, the registry of factories (\<open>registry.go\<close>), and the contract
  that record sets are changed under a precondition, stated as a locale. An operation of a
  provider takes the state of the outside world and returns it with an error or a result.
\<close>

type_synonym ('w, 'a) call = "'w \<Rightarrow> 'w \<times> (go_error + 'a)"

record 'w provider =
  pv_Capabilities :: capabilities
  pv_ValidateCredentials :: "('w, unit) call"
  pv_ListZones :: "page_request \<Rightarrow> ('w, zone page) call"
  pv_GetZone :: "string \<Rightarrow> ('w, zone) call"
  pv_ListRecordSets :: "string \<Rightarrow> page_request \<Rightarrow> ('w, record_set page) call"
  pv_GetRecordSet :: "string \<Rightarrow> string \<Rightarrow> ('w, record_set) call"
  pv_CreateRecordSet :: "string \<Rightarrow> create_input \<Rightarrow> ('w, record_set) call"
  pv_UpdateRecordSet :: "string \<Rightarrow> string \<Rightarrow> update_input \<Rightarrow> ('w, record_set) call"
  pv_DeleteRecordSet :: "string \<Rightarrow> string \<Rightarrow> precondition \<Rightarrow> ('w, unit) call"

record 'w factory =
  f_Type :: ProviderType
  f_Metadata :: provider_metadata
  f_CredentialDescriptor :: "field_descriptor list"
  f_AccountOptionsDescriptor :: "field_descriptor list"
  f_Capabilities :: capabilities
  f_Build :: "account_config \<Rightarrow> string \<Rightarrow> ('w, 'w provider) call"

definition fail :: "ErrorCode \<Rightarrow> string \<Rightarrow> string option \<Rightarrow> go_error + 'a" where
  "fail code operation cause = Inl (ProviderErr (NewError code operation [] 0 (map_option PlainError cause)))"

definition error_has_code :: "ErrorCode \<Rightarrow> go_error + 'a \<Rightarrow> bool" where
  "error_has_code code r = (case r of Inl e \<Rightarrow> IsErrorCode (Some e) code | Inr _ \<Rightarrow> False)"

lemma fail_code [simp]: "error_code_valid code \<Longrightarrow> error_has_code c (fail code op m) = (code = c)"
  by (simp add: error_has_code_def fail_def IsErrorCode_def NewError_def Let_def)

lemma fail_not_Inr [simp]: "fail code op m \<noteq> Inr x"
  by (simp add: fail_def)

section \<open>The registry\<close>

text \<open>\<open>url.Parse\<close> is a parameter: the parts of the URL the code looks at.\<close>

record url =
  url_Scheme :: string
  url_Host :: string
  url_User :: "string option"
  url_RawQuery :: string
  url_Fragment :: string

datatype registry_error =
    FactoryMetadataInvalid | LocalizedMetadataInvalid | DocumentationURLInvalid
  | CredentialDescriptorError descriptor_error | OptionsDescriptorError descriptor_error
  | CapabilitiesError descriptor_error | NamespaceMismatch string | AlreadyRegistered ProviderType

definition type_char :: "char \<Rightarrow> bool" where
  "type_char c \<longleftrightarrow> is_lower c \<or> is_digit c \<or> c = CHR ''_'' \<or> c = CHR ''-''"

text \<open>The pattern \<open>^[a-z][a-z0-9_-]{0,63}$\<close>.\<close>

definition provider_type_ok :: "string \<Rightarrow> bool" where
  "provider_type_ok s \<longleftrightarrow>
     (case s of [] \<Rightarrow> False | c # t \<Rightarrow> is_lower c \<and> list_all type_char t \<and> length t \<le> 63)"

definition documentation_ok :: "(string \<Rightarrow> url option) \<Rightarrow> string \<Rightarrow> bool" where
  "documentation_ok url_parse s \<longleftrightarrow>
     s = [] \<or> (case url_parse s of None \<Rightarrow> False
       | Some u \<Rightarrow> url_Scheme u = ''https'' \<and> url_Host u \<noteq> [] \<and> url_User u = None
                  \<and> url_RawQuery u = [] \<and> url_Fragment u = [])"

definition relabel :: "('e \<Rightarrow> 'f) \<Rightarrow> 'e + 'a \<Rightarrow> 'f + 'a" where
  "relabel f r = (case r of Inl e \<Rightarrow> Inl (f e) | Inr x \<Rightarrow> Inr x)"

lemma relabel_Inr [simp]: "relabel f r = Inr x \<longleftrightarrow> r = Inr x"
  by (cases r) (simp_all add: relabel_def)

definition check_factory :: "(string \<Rightarrow> url option) \<Rightarrow> 'w factory \<Rightarrow> registry_error + unit" where
  "check_factory url_parse f =
     (let t = f_Type f; md = f_Metadata f in
      if \<not> provider_type_ok t \<or> md_Type md \<noteq> t \<or> trim_space (md_DisplayName md) = []
      then Inl FactoryMetadataInvalid
      else if \<not> localized_text_ok (md_DisplayNames md) then Inl LocalizedMetadataInvalid
      else if \<not> documentation_ok url_parse (md_DocumentationURL md) then Inl DocumentationURLInvalid
      else
        and_then (relabel CredentialDescriptorError (validate_credential_descriptor (f_CredentialDescriptor f))) (\<lambda>_.
        and_then (relabel OptionsDescriptorError (validate_options_descriptor (f_AccountOptionsDescriptor f))) (\<lambda>_.
        and_then (relabel CapabilitiesError (validate_capabilities (f_Capabilities f))) (\<lambda>_.
          case find (\<lambda>x. xf_Namespace x \<noteq> t) (cap_ExtensionFields (f_Capabilities f)) of
            Some x \<Rightarrow> Inl (NamespaceMismatch (xf_Key x)) | None \<Rightarrow> Inr ()))))"

text \<open>The factories by type, in the order a loop over the map visits them.\<close>

type_synonym 'w registry = "(ProviderType \<times> 'w factory) list"

definition Register :: "(string \<Rightarrow> url option) \<Rightarrow> 'w registry \<Rightarrow> 'w factory \<Rightarrow> registry_error + 'w registry" where
  "Register url_parse r f =
     and_then (check_factory url_parse f) (\<lambda>_.
       if f_Type f \<in> fst ` set r then Inl (AlreadyRegistered (f_Type f))
       else Inr ((f_Type f, f) # r))"

fun NewRegistry_from :: "(string \<Rightarrow> url option) \<Rightarrow> 'w registry \<Rightarrow> 'w factory list \<Rightarrow> registry_error + 'w registry" where
  "NewRegistry_from url_parse r [] = Inr r"
| "NewRegistry_from url_parse r (f # fs) =
     and_then (Register url_parse r f) (\<lambda>r'. NewRegistry_from url_parse r' fs)"

definition NewRegistry :: "(string \<Rightarrow> url option) \<Rightarrow> 'w factory list \<Rightarrow> registry_error + 'w registry" where
  "NewRegistry url_parse fs = NewRegistry_from url_parse [] fs"

definition registry_factory :: "'w registry \<Rightarrow> ProviderType \<Rightarrow> 'w factory option" where
  "registry_factory r t = map_of r t"

definition Definitions :: "'w registry \<Rightarrow> provider_definition list" where
  "Definitions r =
     sort_key (\<lambda>d. md_Type (def_Metadata d))
       (map (\<lambda>(t, f).
          \<lparr>def_Metadata = f_Metadata f, def_Credentials = f_CredentialDescriptor f,
           def_AccountOptions = f_AccountOptionsDescriptor f,
           def_Capabilities = (f_Capabilities f)\<lparr>cap_SupportedRecordTypes :=
             sortedRecordTypes (cap_SupportedRecordTypes (f_Capabilities f))\<rparr>\<rparr>) r)"

definition registry_ok :: "(string \<Rightarrow> url option) \<Rightarrow> 'w registry \<Rightarrow> bool" where
  "registry_ok url_parse r \<longleftrightarrow>
     distinct (map fst r) \<and> (\<forall>(t, f) \<in> set r. f_Type f = t \<and> check_factory url_parse f = Inr ())"

lemma Register_ok:
  "registry_ok u r \<Longrightarrow> Register u r f = Inr r' \<Longrightarrow>
     registry_ok u r' \<and> registry_factory r' (f_Type f) = Some f
     \<and> (\<forall>t. t \<noteq> f_Type f \<longrightarrow> registry_factory r' t = registry_factory r t)"
  by (auto simp: Register_def registry_ok_def registry_factory_def and_then_Inr split: if_splits)

lemma NewRegistry_from_ok:
  "registry_ok u r \<Longrightarrow> NewRegistry_from u r fs = Inr r' \<Longrightarrow>
     registry_ok u r' \<and> set (map snd r') = set (map snd r) \<union> set fs"
proof (induction fs arbitrary: r)
  case (Cons f fs)
  then obtain r1 where r1: "Register u r f = Inr r1" "NewRegistry_from u r1 fs = Inr r'"
    by (auto simp: and_then_Inr)
  moreover from r1(1) have "set (map snd r1) = insert f (set (map snd r))"
    by (auto simp: Register_def and_then_Inr split: if_splits)
  ultimately show ?case using Cons.IH [of r1] Register_ok [OF Cons.prems(1) r1(1)] by simp
qed simp

lemma check_factory_Inr:
  "check_factory u f = Inr () \<Longrightarrow> md_Type (f_Metadata f) = f_Type f
     \<and> validate_capabilities (f_Capabilities f) = Inr ()
     \<and> (\<forall>x \<in> set (cap_ExtensionFields (f_Capabilities f)). xf_Namespace x = f_Type f)"
  by (auto simp: check_factory_def Let_def and_then_Inr find_None_iff split: if_splits option.splits)

text \<open>A registry built from factories holds exactly those factories, each under its own type,
  and lists their definitions in strictly ascending order of type; every listed provider has
  valid capabilities whose extension fields are in its own namespace.\<close>

theorem NewRegistry_definitions:
  assumes "NewRegistry u fs = Inr r"
  shows "(\<forall>f \<in> set fs. registry_factory r (f_Type f) = Some f)
    \<and> sorted_wrt (<) (map (\<lambda>d. md_Type (def_Metadata d)) (Definitions r))
    \<and> set (map (\<lambda>d. md_Type (def_Metadata d)) (Definitions r)) = f_Type ` set fs
    \<and> (\<forall>f \<in> set fs. validate_capabilities (f_Capabilities f) = Inr ()
         \<and> (\<forall>x \<in> set (cap_ExtensionFields (f_Capabilities f)). xf_Namespace x = f_Type f))"
proof -
  have "registry_ok u ([] :: 'a registry)" by (simp add: registry_ok_def)
  with NewRegistry_from_ok assms have ok: "registry_ok u r" and all: "set (map snd r) = set fs"
    unfolding NewRegistry_def by fastforce+
  have key: "map (\<lambda>d. md_Type (def_Metadata d)) (Definitions r) = sort (map fst r)"
  proof -
    let ?k = "\<lambda>d. md_Type (def_Metadata d)"
    have "map ?k (sort_key ?k ds) = sort (map ?k ds)" for ds :: "provider_definition list"
      by (rule properties_for_sort [symmetric]) simp_all
    moreover
    have "md_Type (f_Metadata f) = t" if "(t, f) \<in> set r" for t f
      using ok that check_factory_Inr [of u f] by (fastforce simp: registry_ok_def)
    then have types: "map (\<lambda>x. md_Type (f_Metadata (snd x))) r = map fst r"
      by (intro map_cong) auto
    ultimately show ?thesis by (simp add: Definitions_def comp_def case_prod_unfold types)
  qed
  have each: "registry_factory r (f_Type f) = Some f \<and> check_factory u f = Inr ()" if "f \<in> set fs" for f
  proof -
    from that all obtain t where "(t, f) \<in> set r" by force
    with ok show ?thesis by (force simp: registry_ok_def registry_factory_def)
  qed
  have types: "fst ` set r = f_Type ` set fs"
  proof -
    have "fst ` set r = f_Type ` snd ` set r"
      using ok by (force simp: registry_ok_def)
    with all show ?thesis by simp
  qed
  have "distinct (sort (map fst r))" using ok by (simp add: registry_ok_def)
  then have "sorted_wrt (<) (sort (map fst r))"
    by (simp add: strict_sorted_iff)
  with key each types check_factory_Inr show ?thesis by fastforce
qed

section \<open>The contract of conditional changes\<close>

text \<open>
  What the core relies on when it changes a record set at a provider: a change that succeeds
  found the record set with a precondition that matches it, touches no other record set, and a
  change that fails leaves the record sets alone. \<open>lookup\<close> is the record set a read would find.
\<close>

locale conditional_store =
  fixes E :: text_env
    and lookup :: "'w \<Rightarrow> string \<Rightarrow> string \<Rightarrow> record_set option"
    and update :: "string \<Rightarrow> string \<Rightarrow> update_input \<Rightarrow> ('w, record_set) call"
    and delete :: "string \<Rightarrow> string \<Rightarrow> precondition \<Rightarrow> ('w, unit) call"
  assumes update_done: "update z i inp w = (w', Inr r) \<Longrightarrow>
        (\<exists>cur. lookup w z i = Some cur \<and> precondition_matches E (ui_Precondition inp) cur = Inr True)
        \<and> lookup w' z i = Some r"
    and update_frame: "update z i inp w = (w', x) \<Longrightarrow> (z', i') \<noteq> (z, i) \<Longrightarrow> lookup w' z' i' = lookup w z' i'"
    and update_failed: "update z i inp w = (w', Inl e) \<Longrightarrow> lookup w' = lookup w"
    and delete_done: "delete z i p w = (w', Inr u) \<Longrightarrow>
        \<exists>cur. lookup w z i = Some cur \<and> precondition_matches E p cur = Inr True"
    and delete_frame: "delete z i p w = (w', y) \<Longrightarrow> (z', i') \<noteq> (z, i) \<Longrightarrow> lookup w' z' i' = lookup w z' i'"
    and delete_failed: "delete z i p w = (w', Inl e) \<Longrightarrow> lookup w' = lookup w"

text \<open>A record set as a provider hands it out: normalised, with text that reads back.\<close>

definition clean_record_set :: "text_env \<Rightarrow> string \<Rightarrow> record_set \<Rightarrow> bool" where
  "clean_record_set E zoneName r \<longleftrightarrow>
     (\<exists>raw. plain_dots zoneName raw \<and> NormalizeRecordSet E zoneName raw = Inr r)
     \<and> settled r \<and> record_set_utf8 r"

definition precondition_for :: "record_set \<Rightarrow> precondition" where
  "precondition_for r = \<lparr>pc_ExpectedFingerprint = rs_Fingerprint r, pc_ProviderVersion = []\<rparr>"

lemma clean_matches:
  assumes "idna_laws (idna_ToASCII E)" and "clean_record_set E zn r" and "clean_record_set E zn m"
    and "precondition_matches E (precondition_for r) m = Inr True"
  shows "same_content r m
    \<or> sha256_collision (serializeNormalizedRecordSet r) (serializeNormalizedRecordSet m)"
proof -
  from assms(2) obtain x where r: "plain_dots zn x" "NormalizeRecordSet E zn x = Inr r" "record_set_utf8 r"
    by (auto simp: clean_record_set_def)
  from assms(3) obtain y where m: "plain_dots zn y" "NormalizeRecordSet E zn y = Inr m" "settled m" "record_set_utf8 m"
    by (auto simp: clean_record_set_def)
  from matching_same_content [OF assms(1) r(1,2) m(1-3) r(3) m(4)] assms(4) show ?thesis
    by (simp add: precondition_for_def)
qed

lemma clean_normalized:
  assumes "idna_laws (idna_ToASCII E)" and "clean_record_set E zn r"
  shows "NormalizeRecordSet E zn r = Inr r"
  using assms NormalizeRecordSet_fixed by (auto simp: clean_record_set_def)

lemma clean_matches_self:
  assumes "idna_laws (idna_ToASCII E)" and "clean_record_set E zn r"
  shows "precondition_matches E (precondition_for r) r = Inr True"
proof -
  from assms(2) obtain x where r: "plain_dots zn x" "NormalizeRecordSet E zn x = Inr r" "settled r" "record_set_utf8 r"
    by (auto simp: clean_record_set_def)
  from matching_same_content [OF assms(1) r(1,2) r(1-3) r(4) r(4)] show ?thesis
    by (simp add: precondition_for_def same_content_def)
qed

context conditional_store
begin

text \<open>No lost update: what a client overwrites or deletes is what it has read.\<close>

lemma update_sees_read:
  assumes "idna_laws (idna_ToASCII E)" and "clean_record_set E zn r" and "clean_record_set E zn m"
    and "lookup w z i = Some m" and "ui_Precondition inp = precondition_for r"
    and "update z i inp w = (w', Inr x)"
  shows "same_content r m
    \<or> sha256_collision (serializeNormalizedRecordSet r) (serializeNormalizedRecordSet m)"
  using update_done [OF assms(6)] assms(4,5) clean_matches [OF assms(1-3)] by auto

lemma delete_sees_read:
  assumes "idna_laws (idna_ToASCII E)" and "clean_record_set E zn r" and "clean_record_set E zn m"
    and "lookup w z i = Some m" and "delete z i (precondition_for r) w = (w', Inr u)"
  shows "same_content r m
    \<or> sha256_collision (serializeNormalizedRecordSet r) (serializeNormalizedRecordSet m)"
  using delete_done [OF assms(5)] assms(4) clean_matches [OF assms(1-3)] by auto

text \<open>Of two clients that read the same record set, the second to write fails.\<close>

lemma second_writer_fails:
  assumes "idna_laws (idna_ToASCII E)" and "clean_record_set E zn r" and "clean_record_set E zn x"
    and "update z i first w = (w1, Inr x)" and "\<not> same_content r x"
    and "ui_Precondition second = precondition_for r"
  shows "(\<exists>w2 e. update z i second w1 = (w2, Inl e) \<and> lookup w2 z i = Some x)
    \<or> sha256_collision (serializeNormalizedRecordSet r) (serializeNormalizedRecordSet x)"
proof -
  have found: "lookup w1 z i = Some x" using update_done [OF assms(4)] by simp
  obtain w2 y where y: "update z i second w1 = (w2, y)" by fastforce
  show ?thesis
  proof (cases y)
    case (Inl e)
    with y found update_failed show ?thesis by auto
  next
    case (Inr r2)
    with y update_sees_read [OF assms(1-3) found assms(6)] assms(5) show ?thesis by blast
  qed
qed

end

end
