(* ===== verification/Fake_Provider.thy ===== *)
theory Fake_Provider
  imports Providers
begin

text \<open>
  The in-memory provider of \<open>internal/provider/fake/fake.go\<close>, against which the service is
  run: zones and record sets in lists, injected errors per operation, opaque identifiers from
  a counter. \<open>ctx\<close> is \<open>ctx.Err()\<close> at the start of the call. The clones the Go code makes
  protect its slices from callers; values need none.
\<close>

datatype operation =
    OperationValidate | OperationListZones | OperationGetZone | OperationListSets
  | OperationGetSet | OperationCreateSet | OperationUpdateSet | OperationDeleteSet

record fake_state =
  fk_zones :: "zone list"
  fk_recordSets :: "string \<Rightarrow> record_set list"
  fk_errors :: "operation \<Rightarrow> go_error option"
  fk_nextID :: "64 word"

definition fake_new :: fake_state where
  "fake_new = \<lparr>fk_zones = [], fk_recordSets = (\<lambda>_. []), fk_errors = (\<lambda>_. None), fk_nextID = 1\<rparr>"

definition fake_capabilities :: capabilities where
  "fake_capabilities =
     \<lparr>cap_SupportedRecordTypes = CoreRecordTypes, cap_MinTTL = None, cap_MaxTTL = None,
      cap_NativeRecordGranularity = NativeRecordGranularityRRSet,
      cap_SupportsProxy = False, cap_SupportsRoutingLine = False, cap_SupportsWeight = False,
      cap_SupportsRecordStatus = False, cap_SupportsDNSSEC = False, cap_SupportsNativeBatch = False,
      cap_SupportsComments = False, cap_ExtensionFields = []\<rparr>"

section \<open>Set-up\<close>

definition SetError :: "operation \<Rightarrow> go_error option \<Rightarrow> fake_state \<Rightarrow> fake_state" where
  "SetError op err s = s\<lparr>fk_errors := (fk_errors s)(op := err)\<rparr>"

definition SetZones :: "text_env \<Rightarrow> zone list \<Rightarrow> fake_state \<Rightarrow> fake_state \<times> unit result" where
  "SetZones E zs s =
     (case traverse (NormalizeZone E) zs of
        Inl e \<Rightarrow> (s, Inl e) | Inr ns \<Rightarrow> (s\<lparr>fk_zones := ns\<rparr>, Inr ()))"

definition fake_zone :: "fake_state \<Rightarrow> string \<Rightarrow> go_error + zone" where
  "fake_zone s zoneID =
     (case find (\<lambda>z. zone_ID z = zoneID) (fk_zones s) of
        Some z \<Rightarrow> Inr z | None \<Rightarrow> fail ErrNotFound ''get_zone'' None)"

definition SetRecordSets ::
  "text_env \<Rightarrow> string \<Rightarrow> record_set list \<Rightarrow> fake_state \<Rightarrow> fake_state \<times> (go_error + unit)" where
  "SetRecordSets E zoneID rss s =
     (case fake_zone s zoneID of
        Inl e \<Rightarrow> (s, Inl e)
      | Inr z \<Rightarrow>
          (case traverse (\<lambda>rs. if rs_ID rs = [] then Inl ''fake provider record set ID is required''
                               else NormalizeRecordSet E (zone_Name z) rs) rss of
             Inl e \<Rightarrow> (s, Inl (PlainError e))
           | Inr ns \<Rightarrow> (s\<lparr>fk_recordSets := (fk_recordSets s)(zoneID := ns)\<rparr>, Inr ())))"

section \<open>Reading\<close>

text \<open>The checks at the start of every operation.\<close>

definition guarded :: "go_error option \<Rightarrow> operation \<Rightarrow> (fake_state, 'a) call \<Rightarrow> (fake_state, 'a) call" where
  "guarded ctx op f s =
     (case ctx of Some e \<Rightarrow> (s, Inl e)
      | None \<Rightarrow> (case fk_errors s op of Some e \<Rightarrow> (s, Inl e) | None \<Rightarrow> f s))"

definition paginate :: "page_request \<Rightarrow> 'a list \<Rightarrow> go_error + 'a page" where
  "paginate request items =
     (case NormalizePageRequest request of
        Inl m \<Rightarrow> fail ErrValidation ''paginate'' (Some m)
      | Inr n \<Rightarrow>
          (let off = (if pr_Cursor n = [] then Some 0
                      else (case parse_int64 (pr_Cursor n) of None \<Rightarrow> None
                        | Some k \<Rightarrow> if k < 0 \<or> k > int (length items) then None else Some k))
           in case off of
                None \<Rightarrow> fail ErrValidation ''paginate'' (Some ''invalid fake cursor'')
              | Some offset \<Rightarrow>
                  (let end' = min (nat (offset + pr_Limit n)) (length items)
                   in Inr \<lparr>pg_Items = drop (nat offset) (take end' items),
                           pg_NextCursor = (if end' < length items then itoa (int end') else [])\<rparr>)))"

definition fake_ValidateCredentials :: "go_error option \<Rightarrow> (fake_state, unit) call" where
  "fake_ValidateCredentials ctx = guarded ctx OperationValidate (\<lambda>s. (s, Inr ()))"

definition fake_ListZones :: "go_error option \<Rightarrow> page_request \<Rightarrow> (fake_state, zone page) call" where
  "fake_ListZones ctx request = guarded ctx OperationListZones (\<lambda>s. (s, paginate request (fk_zones s)))"

definition fake_GetZone :: "go_error option \<Rightarrow> string \<Rightarrow> (fake_state, zone) call" where
  "fake_GetZone ctx zoneID = guarded ctx OperationGetZone (\<lambda>s. (s, fake_zone s zoneID))"

definition fake_ListRecordSets :: "go_error option \<Rightarrow> string \<Rightarrow> page_request \<Rightarrow> (fake_state, record_set page) call" where
  "fake_ListRecordSets ctx zoneID request = guarded ctx OperationListSets (\<lambda>s.
     case fake_zone s zoneID of
       Inl e \<Rightarrow> (s, Inl e) | Inr _ \<Rightarrow> (s, paginate request (fk_recordSets s zoneID)))"

definition fake_lookup :: "fake_state \<Rightarrow> string \<Rightarrow> string \<Rightarrow> record_set option" where
  "fake_lookup s zoneID recordSetID = find (\<lambda>rs. rs_ID rs = recordSetID) (fk_recordSets s zoneID)"

definition fake_GetRecordSet :: "go_error option \<Rightarrow> string \<Rightarrow> string \<Rightarrow> (fake_state, record_set) call" where
  "fake_GetRecordSet ctx zoneID recordSetID = guarded ctx OperationGetSet (\<lambda>s.
     (s, case fake_lookup s zoneID recordSetID of
           Some rs \<Rightarrow> Inr rs | None \<Rightarrow> fail ErrNotFound ''get_record_set'' None))"

section \<open>Changing\<close>

definition nextOpaqueID :: "string \<Rightarrow> fake_state \<Rightarrow> fake_state \<times> string" where
  "nextOpaqueID kind s =
     (s\<lparr>fk_nextID := fk_nextID s + 1\<rparr>, ''fake-'' @ kind @ ''-'' @ nat_to_dec (unat (fk_nextID s)))"

fun assignEntryIDs :: "record_entry list \<Rightarrow> fake_state \<Rightarrow> fake_state \<times> record_entry list" where
  "assignEntryIDs [] s = (s, [])"
| "assignEntryIDs (e # es) s =
     (let (s1, e1) = (if re_ID e = [] then (let (t, i) = nextOpaqueID ''entry'' s in (t, e\<lparr>re_ID := i\<rparr>)) else (s, e));
          (s2, es2) = assignEntryIDs es s1
      in (s2, e1 # es2))"

definition record_set_from :: "string \<Rightarrow> create_input \<Rightarrow> string \<Rightarrow> record_set" where
  "record_set_from i inp version =
     \<lparr>rs_ID = i, rs_Name = ci_Name inp, rs_Type = ci_Type inp, rs_TTL = ci_TTL inp,
      rs_Entries = ci_Entries inp, rs_Extensions = ci_Extensions inp,
      rs_ProviderVersion = version, rs_Fingerprint = []\<rparr>"

definition fake_CreateRecordSet :: "text_env \<Rightarrow> go_error option \<Rightarrow> string \<Rightarrow> create_input \<Rightarrow> (fake_state, record_set) call" where
  "fake_CreateRecordSet E ctx zoneID input = guarded ctx OperationCreateSet (\<lambda>s.
     case fake_zone s zoneID of
       Inl e \<Rightarrow> (s, Inl e)
     | Inr z \<Rightarrow>
         (case NormalizeCreateRecordSetInput E (zone_Name z) input of
            Inl m \<Rightarrow> (s, fail ErrValidation ''create_record_set'' (Some m))
          | Inr n \<Rightarrow>
              if list_ex (\<lambda>x. rs_Name x = ci_Name n \<and> rs_Type x = ci_Type n) (fk_recordSets s zoneID)
              then (s, fail ErrConflict ''create_record_set'' None)
              else
                (let (s1, i) = nextOpaqueID ''set'' s;
                     (s2, version) = nextOpaqueID ''version'' s1;
                     (s3, es) = assignEntryIDs (ci_Entries n) s2
                 in case NormalizeRecordSet E (zone_Name z) ((record_set_from i n version)\<lparr>rs_Entries := es\<rparr>) of
                      Inl m \<Rightarrow> (s3, Inl (PlainError m))
                    | Inr rs \<Rightarrow>
                        (s3\<lparr>fk_recordSets := (fk_recordSets s3)(zoneID := fk_recordSets s3 zoneID @ [rs])\<rparr>, Inr rs))))"

text \<open>Entries of the new value without an ID take the ID at their position in the old value.\<close>

fun inherit_entry_ids :: "record_entry list \<Rightarrow> record_entry list \<Rightarrow> record_entry list" where
  "inherit_entry_ids (e # es) (c # cs) =
     (if re_ID e = [] then e\<lparr>re_ID := re_ID c\<rparr> else e) # inherit_entry_ids es cs"
| "inherit_entry_ids es cs = es"

fun replace_first :: "('a \<Rightarrow> bool) \<Rightarrow> 'a \<Rightarrow> 'a list \<Rightarrow> 'a list" where
  "replace_first P y [] = []"
| "replace_first P y (x # xs) = (if P x then y # xs else x # replace_first P y xs)"

fun remove_first :: "('a \<Rightarrow> bool) \<Rightarrow> 'a list \<Rightarrow> 'a list" where
  "remove_first P [] = []"
| "remove_first P (x # xs) = (if P x then xs else x # remove_first P xs)"

definition fake_UpdateRecordSet ::
  "text_env \<Rightarrow> go_error option \<Rightarrow> string \<Rightarrow> string \<Rightarrow> update_input \<Rightarrow> (fake_state, record_set) call" where
  "fake_UpdateRecordSet E ctx zoneID recordSetID input = guarded ctx OperationUpdateSet (\<lambda>s.
     case precondition_validate (ui_Precondition input) of
       Inl m \<Rightarrow> (s, fail ErrValidation ''update_record_set'' (Some m))
     | Inr _ \<Rightarrow>
     (case fake_zone s zoneID of
        Inl e \<Rightarrow> (s, Inl e)
      | Inr z \<Rightarrow>
     (case NormalizeCreateRecordSetInput E (zone_Name z) (ui_Desired input) of
        Inl m \<Rightarrow> (s, fail ErrValidation ''update_record_set'' (Some m))
      | Inr n \<Rightarrow>
     (case fake_lookup s zoneID recordSetID of
        None \<Rightarrow> (s, fail ErrNotFound ''update_record_set'' None)
      | Some current \<Rightarrow>
     (case precondition_matches E (ui_Precondition input) current of
        Inl m \<Rightarrow> (s, fail ErrValidation ''update_record_set'' (Some m))
      | Inr matches \<Rightarrow>
          if \<not> matches then (s, fail ErrConflict ''update_record_set'' None)
          else
            (let (s1, version) = nextOpaqueID ''version'' s;
                 (s2, es) = assignEntryIDs (inherit_entry_ids (ci_Entries n) (rs_Entries current)) s1
             in case NormalizeRecordSet E (zone_Name z) ((record_set_from (rs_ID current) n version)\<lparr>rs_Entries := es\<rparr>) of
                  Inl m \<Rightarrow> (s2, Inl (PlainError m))
                | Inr rs \<Rightarrow>
                    (s2\<lparr>fk_recordSets := (fk_recordSets s2)(zoneID :=
                       replace_first (\<lambda>x. rs_ID x = recordSetID) rs (fk_recordSets s2 zoneID))\<rparr>, Inr rs)))))))"

definition fake_DeleteRecordSet ::
  "text_env \<Rightarrow> go_error option \<Rightarrow> string \<Rightarrow> string \<Rightarrow> precondition \<Rightarrow> (fake_state, unit) call" where
  "fake_DeleteRecordSet E ctx zoneID recordSetID p = guarded ctx OperationDeleteSet (\<lambda>s.
     case precondition_validate p of
       Inl m \<Rightarrow> (s, fail ErrValidation ''delete_record_set'' (Some m))
     | Inr _ \<Rightarrow>
     (case fake_lookup s zoneID recordSetID of
        None \<Rightarrow> (s, fail ErrNotFound ''delete_record_set'' None)
      | Some current \<Rightarrow>
     (case precondition_matches E p current of
        Inl m \<Rightarrow> (s, fail ErrValidation ''delete_record_set'' (Some m))
      | Inr matches \<Rightarrow>
          if \<not> matches then (s, fail ErrConflict ''delete_record_set'' None)
          else (s\<lparr>fk_recordSets := (fk_recordSets s)(zoneID :=
                  remove_first (\<lambda>x. rs_ID x = recordSetID) (fk_recordSets s zoneID))\<rparr>, Inr ()))))"

definition fake_provider :: "text_env \<Rightarrow> go_error option \<Rightarrow> fake_state provider" where
  "fake_provider E ctx =
     \<lparr>pv_Capabilities = fake_capabilities,
      pv_ValidateCredentials = fake_ValidateCredentials ctx,
      pv_ListZones = fake_ListZones ctx, pv_GetZone = fake_GetZone ctx,
      pv_ListRecordSets = fake_ListRecordSets ctx, pv_GetRecordSet = fake_GetRecordSet ctx,
      pv_CreateRecordSet = fake_CreateRecordSet E ctx,
      pv_UpdateRecordSet = fake_UpdateRecordSet E ctx,
      pv_DeleteRecordSet = fake_DeleteRecordSet E ctx\<rparr>"

section \<open>The fake provider keeps the contract\<close>

lemma nextOpaqueID_keeps [simp]:
  "fk_recordSets (fst (nextOpaqueID k s)) = fk_recordSets s" "fk_zones (fst (nextOpaqueID k s)) = fk_zones s"
  by (simp_all add: nextOpaqueID_def)

lemma assignEntryIDs_keeps [simp]:
  "fk_recordSets (fst (assignEntryIDs es s)) = fk_recordSets s" "fk_zones (fst (assignEntryIDs es s)) = fk_zones s"
  by (induction es arbitrary: s) (simp_all add: Let_def case_prod_unfold)

lemma replace_first_find:
  "find (\<lambda>x. f x = i) xs = Some x \<Longrightarrow> f y = i \<Longrightarrow>
     find (\<lambda>x. f x = j) (replace_first (\<lambda>x. f x = i) y xs) = (if j = i then Some y else find (\<lambda>x. f x = j) xs)"
  by (induction xs) (auto split: if_splits)

lemma remove_first_find:
  "j \<noteq> i \<Longrightarrow> find (\<lambda>x. f x = j) (remove_first (\<lambda>x. f x = i) xs) = find (\<lambda>x. f x = j) xs"
  by (induction xs) auto

lemma set_replace_first: "set (replace_first P y xs) \<subseteq> insert y (set xs)"
  by (induction xs) auto

lemma set_remove_first: "set (remove_first P xs) \<subseteq> set xs"
  by (induction xs) auto

lemma NormalizeRecordSet_ID: "NormalizeRecordSet E zn rs = Inr n \<Longrightarrow> rs_ID n = rs_ID rs"
  unfolding NormalizeRecordSet_def normalizeRecordSet_Inr Let_def by auto

text \<open>An update either fails and keeps all record sets, or replaces the one it was given.\<close>

lemma fake_UpdateRecordSet_cases:
  assumes "fake_UpdateRecordSet E ctx z i inp s = (s', x)"
  obtains (failed) e where "x = Inl e" and "fk_recordSets s' = fk_recordSets s"
  | (updated) rs cur zn es where "x = Inr rs"
      and "fake_lookup s z i = Some cur" and "precondition_matches E (ui_Precondition inp) cur = Inr True"
      and "fake_zone s z = Inr zn"
      and "NormalizeRecordSet E (zone_Name zn) es = Inr rs" and "rs_ID rs = i"
      and "fk_recordSets s' = (fk_recordSets s)(z := replace_first (\<lambda>x. rs_ID x = i) rs (fk_recordSets s z))"
proof -
  have id: "rs_ID cur = i" if "fake_lookup s z i = Some cur" for cur
    using that by (auto simp: fake_lookup_def find_Some_iff)
  from assms show thesis
    unfolding fake_UpdateRecordSet_def guarded_def Let_def case_prod_unfold
    by (auto simp: fail_def record_set_from_def id dest: NormalizeRecordSet_ID
        split: option.splits sum.splits if_splits intro: failed elim!: updated)
qed

lemma fake_DeleteRecordSet_cases:
  assumes "fake_DeleteRecordSet E ctx z i p s = (s', x)"
  obtains (failed) e where "x = Inl e" and "fk_recordSets s' = fk_recordSets s"
  | (deleted) cur where "x = Inr ()" and "fake_lookup s z i = Some cur"
      and "precondition_matches E p cur = Inr True"
      and "fk_recordSets s' = (fk_recordSets s)(z := remove_first (\<lambda>x. rs_ID x = i) (fk_recordSets s z))"
proof -
  from assms show thesis
    unfolding fake_DeleteRecordSet_def guarded_def
    by (auto simp: fail_def split: option.splits sum.splits if_splits intro: failed elim!: deleted)
qed

interpretation fake: conditional_store E fake_lookup "fake_UpdateRecordSet E ctx" "fake_DeleteRecordSet E ctx"
  for E ctx
proof (unfold_locales, goal_cases)
  case (1 z i inp w w' r)
  then show ?case
  proof (cases rule: fake_UpdateRecordSet_cases)
    case (updated rs cur zn es)
    then have "fake_lookup w' z i = Some rs"
      using replace_first_find [of rs_ID i "fk_recordSets w z" cur rs i]
      by (simp add: fake_lookup_def)
    with updated 1 show ?thesis by auto
  qed (use 1 in auto)
next
  case (2 z i inp w w' x z' i')
  from 2(1) show ?case
  proof (cases rule: fake_UpdateRecordSet_cases)
    case (failed e)
    then show ?thesis by (simp add: fake_lookup_def)
  next
    case (updated rs cur zn es)
    then show ?thesis
      using replace_first_find [of rs_ID i "fk_recordSets w z" cur rs i'] 2(2)
      by (auto simp: fake_lookup_def)
  qed
next
  case (3 z i inp w w' e)
  then show ?case
    by (cases rule: fake_UpdateRecordSet_cases) (auto simp: fake_lookup_def fun_eq_iff)
next
  case (4 z i p w w' u)
  then show ?case by (cases rule: fake_DeleteRecordSet_cases) (use 4 in auto)
next
  case (5 z i p w w' y z' i')
  from 5(1) show ?case
    by (cases rule: fake_DeleteRecordSet_cases)
      (use 5(2) in \<open>auto simp: fake_lookup_def remove_first_find\<close>)
next
  case (6 z i p w w' e)
  then show ?case by (cases rule: fake_DeleteRecordSet_cases) (auto simp: fake_lookup_def fun_eq_iff)
qed

text \<open>No lost update at the in-memory provider: when two clients have read the record set r and
  the first has changed it to x with another content, the second client's update, sent with the
  precondition of r, fails and leaves x in place, unless r and x collide under SHA-256.\<close>

theorem fake_second_writer_fails:
  assumes "idna_laws (idna_ToASCII E)" and "clean_record_set E zn r" and "clean_record_set E zn x"
    and "fake_UpdateRecordSet E ctx z i first s = (s1, Inr x)" and "\<not> same_content r x"
    and "ui_Precondition second = precondition_for r"
  shows "(\<exists>s2 e. fake_UpdateRecordSet E ctx z i second s1 = (s2, Inl e) \<and> fake_lookup s2 z i = Some x)
    \<or> sha256_collision (serializeNormalizedRecordSet r) (serializeNormalizedRecordSet x)"
  by (rule fake.second_writer_fails [OF assms])

section \<open>Reachable states\<close>

text \<open>
  The states a fake provider can reach from a new one. \<open>fake_wf\<close> holds in all of them: every
  stored record set is the normal form of something, so it carries its own fingerprint.
\<close>

inductive fake_step :: "text_env \<Rightarrow> fake_state \<Rightarrow> fake_state \<Rightarrow> bool" for E where
  step_error: "fake_step E s (SetError op err s)"
| step_zones: "SetZones E zs s = (s', r) \<Longrightarrow> fake_step E s s'"
| step_sets: "SetRecordSets E z rss s = (s', r) \<Longrightarrow> fake_step E s s'"
| step_create: "fake_CreateRecordSet E ctx z inp s = (s', r) \<Longrightarrow> fake_step E s s'"
| step_update: "fake_UpdateRecordSet E ctx z i upd s = (s', r) \<Longrightarrow> fake_step E s s'"
| step_delete: "fake_DeleteRecordSet E ctx z i p s = (s', u) \<Longrightarrow> fake_step E s s'"

inductive fake_reachable :: "text_env \<Rightarrow> fake_state \<Rightarrow> bool" for E where
  reach_new: "fake_reachable E fake_new"
| reach_step: "fake_reachable E s \<Longrightarrow> fake_step E s s' \<Longrightarrow> fake_reachable E s'"

definition normal_form :: "text_env \<Rightarrow> record_set \<Rightarrow> bool" where
  "normal_form E rs \<longleftrightarrow> (\<exists>zn raw. NormalizeRecordSet E zn raw = Inr rs)"

definition fake_wf :: "text_env \<Rightarrow> fake_state \<Rightarrow> bool" where
  "fake_wf E s \<longleftrightarrow> (\<forall>z. \<forall>rs \<in> set (fk_recordSets s z). normal_form E rs)"

lemma normal_formI: "NormalizeRecordSet E zn raw = Inr rs \<Longrightarrow> normal_form E rs"
  by (auto simp: normal_form_def)

lemma fake_CreateRecordSet_cases:
  assumes "fake_CreateRecordSet E ctx z inp s = (s', x)"
  obtains (failed) e where "x = Inl e" and "fk_recordSets s' = fk_recordSets s"
  | (created) rs where "x = Inr rs" and "normal_form E rs"
      and "fk_recordSets s' = (fk_recordSets s)(z := fk_recordSets s z @ [rs])"
proof -
  from assms show thesis
    unfolding fake_CreateRecordSet_def guarded_def Let_def case_prod_unfold
    by (auto simp: fail_def dest: normal_formI split: option.splits sum.splits if_splits
        intro: failed elim!: created)
qed

lemma fake_step_wf: "fake_step E s s' \<Longrightarrow> fake_wf E s \<Longrightarrow> fake_wf E s'"
proof (induction rule: fake_step.induct)
  case (step_error s op err)
  then show ?case by (simp add: fake_wf_def SetError_def)
next
  case (step_zones zs s s' r)
  then show ?case by (auto simp: fake_wf_def SetZones_def split: sum.splits)
next
  case (step_sets z rss s s' r)
  then show ?case
    by (auto simp: fake_wf_def SetRecordSets_def traverse_Inr normal_form_def list_all2_conv_all_nth
        in_set_conv_nth split: sum.splits if_splits) metis
next
  case (step_create ctx z inp s s' r)
  from step_create(1) show ?case
    by (cases rule: fake_CreateRecordSet_cases) (use step_create(2) in \<open>auto simp: fake_wf_def\<close>)
next
  case (step_update ctx z i upd s s' r)
  from step_update(1) show ?case
  proof (cases rule: fake_UpdateRecordSet_cases)
    case (updated rs cur zn es)
    then show ?thesis
      using step_update(2) set_replace_first [of "\<lambda>x. rs_ID x = i" rs "fk_recordSets s z"]
        normal_formI [OF updated(5)]
      by (auto simp: fake_wf_def)
  qed (use step_update(2) in \<open>simp add: fake_wf_def\<close>)
next
  case (step_delete ctx z i p s s' u)
  from step_delete(1) show ?case
  proof (cases rule: fake_DeleteRecordSet_cases)
    case (deleted cur)
    then show ?thesis
      using step_delete(2) set_remove_first [of "\<lambda>x. rs_ID x = i" "fk_recordSets s z"]
      by (auto simp: fake_wf_def)
  qed (use step_delete(2) in \<open>simp add: fake_wf_def\<close>)
qed

lemma fake_reachable_wf: "fake_reachable E s \<Longrightarrow> fake_wf E s"
proof (induction rule: fake_reachable.induct)
  case reach_new
  then show ?case by (simp add: fake_wf_def fake_new_def)
next
  case (reach_step s s')
  then show ?case by (blast intro: fake_step_wf)
qed

text \<open>In every state the fake provider can reach, each stored record set is a normal form and
  carries the fingerprint of its own content.\<close>

theorem fake_reachable_fingerprints:
  assumes "fake_reachable E s" and "rs \<in> set (fk_recordSets s z)"
  shows "rs_Fingerprint rs = fingerprintNormalizedRecordSet rs \<and> rs_TTL rs \<noteq> 0 \<and> rs_Entries rs \<noteq> []
    \<and> distinct (map canonicalEntrySerialization (rs_Entries rs))"
proof -
  from fake_reachable_wf [OF assms(1)] assms(2) obtain zn raw where n: "NormalizeRecordSet E zn raw = Inr rs"
    unfolding fake_wf_def normal_form_def by blast
  from n have "rs_TTL rs \<noteq> 0 \<and> rs_Entries rs \<noteq> [] \<and> distinct (map canonicalEntrySerialization (rs_Entries rs))"
    unfolding NormalizeRecordSet_def normalizeRecordSet_Inr Let_def by auto
  with normalize_then_fingerprint [OF n] show ?thesis by simp
qed

section \<open>Examples\<close>

definition example_zone :: zone where
  "example_zone = \<lparr>zone_ID = ''z1'', zone_Name = ''example.com'', zone_Status = [], zone_Nameservers = [],
     zone_Extensions = no_zone_extensions\<rparr>"

definition example_before :: record_set where
  "example_before = sample_normal [value_entry ''192.0.2.1'']"

definition example_after :: record_set where
  "example_after =
     (let m = (sample_record ''www.example.com'' RecordTypeA [(value_entry ''192.0.2.9'')\<lparr>re_ID := ''fake-entry-2''\<rparr>])
                \<lparr>rs_ProviderVersion := ''fake-version-1''\<rparr>
      in m\<lparr>rs_Fingerprint := fingerprintNormalizedRecordSet m\<rparr>)"

definition example_state :: fake_state where
  "example_state = fake_new\<lparr>fk_zones := [example_zone], fk_recordSets := (\<lambda>_. [])(''z1'' := [example_before])\<rparr>"

definition example_update :: update_input where
  "example_update =
     \<lparr>ui_Desired = \<lparr>ci_Name = ''www'', ci_Type = RecordTypeA, ci_TTL = 300, ci_Entries = [value_entry ''192.0.2.9''],
        ci_Extensions = no_set_extensions\<rparr>,
      ui_Precondition = precondition_for example_before\<rparr>"

lemma example_entries:
  "normalizeRecordEntry ascii_env RecordTypeA (value_entry ''192.0.2.9'') = Inr (value_entry ''192.0.2.9'')"
  "normalizeRecordEntry ascii_env RecordTypeA ((value_entry ''192.0.2.9'')\<lparr>re_ID := ''fake-entry-2''\<rparr>)
     = Inr ((value_entry ''192.0.2.9'')\<lparr>re_ID := ''fake-entry-2''\<rparr>)"
  "record_set_name ascii_env ''example.com'' ''www'' = Inr ''www.example.com''"
  "record_set_name ascii_env ''example.com'' ''www.example.com'' = Inr ''www.example.com''"
  "trim_space ''fake-version-1'' = ''fake-version-1''"
  "nat_to_dec 1 = ''1''" "nat_to_dec 2 = ''2''"
  by code_simp+

lemma example_clean: "clean_record_set ascii_env ''example.com'' example_before"
proof -
  let ?raw = "sample_record ''www'' RecordTypeA [value_entry ''192.0.2.1'']"
  have "NormalizeRecordSet ascii_env ''example.com'' ?raw = Inr example_before"
    unfolding example_before_def by (rule normalize_sample; code_simp)
  moreover have "plain_dots ''example.com'' ?raw" by code_simp
  moreover have "settled example_before"
    by (simp add: example_before_def settled_def settled_entry_def sample_normal_def sample_record_def Let_def)
  moreover have "record_set_utf8 (m\<lparr>rs_Fingerprint := f\<rparr>) = record_set_utf8 m" for m f
    by (simp add: record_set_utf8_def)
  moreover have "record_set_utf8 (sample_record ''www.example.com'' RecordTypeA [value_entry ''192.0.2.1''])"
    by code_simp
  ultimately show ?thesis
    by (auto simp: clean_record_set_def example_before_def sample_normal_def Let_def)
qed

lemma example_after_normal:
  "NormalizeRecordSet ascii_env ''example.com''
     ((record_set_from ''r1'' \<lparr>ci_Name = ''www.example.com'', ci_Type = RecordTypeA, ci_TTL = 300,
          ci_Entries = [value_entry ''192.0.2.9''], ci_Extensions = no_set_extensions\<rparr> ''fake-version-1'')
        \<lparr>rs_Entries := [(value_entry ''192.0.2.9'')\<lparr>re_ID := ''fake-entry-2''\<rparr>]\<rparr>) = Inr example_after"
  unfolding NormalizeRecordSet_def normalizeRecordSet_Inr
  by (simp add: record_set_from_def example_after_def sample_record_def example_entries Let_def)

lemma example_after_clean: "clean_record_set ascii_env ''example.com'' example_after"
proof -
  let ?e = "(value_entry ''192.0.2.9'')\<lparr>re_ID := ''fake-entry-2''\<rparr>"
  let ?raw = "(record_set_from ''r1'' \<lparr>ci_Name = ''www.example.com'', ci_Type = RecordTypeA, ci_TTL = 300,
          ci_Entries = [value_entry ''192.0.2.9''], ci_Extensions = no_set_extensions\<rparr> ''fake-version-1'')
        \<lparr>rs_Entries := [?e]\<rparr>"
  let ?m = "(sample_record ''www.example.com'' RecordTypeA [?e])\<lparr>rs_ProviderVersion := ''fake-version-1''\<rparr>"
  have "plain_dots ''example.com'' ?raw" by code_simp
  moreover have "settled example_after"
    by (simp add: example_after_def settled_def settled_entry_def sample_record_def Let_def)
  moreover have "record_set_utf8 (m\<lparr>rs_Fingerprint := f\<rparr>) = record_set_utf8 m" for m f
    by (simp add: record_set_utf8_def)
  moreover have "record_set_utf8 ?m" by code_simp
  ultimately show ?thesis
    using example_after_normal by (auto simp: clean_record_set_def example_after_def Let_def)
qed

definition example_desired :: create_input where
  "example_desired =
     \<lparr>ci_Name = ''www.example.com'', ci_Type = RecordTypeA, ci_TTL = 300, ci_Entries = [value_entry ''192.0.2.9''],
      ci_Extensions = no_set_extensions\<rparr>"

lemma example_input_normal:
  "NormalizeCreateRecordSetInput ascii_env ''example.com'' (ui_Desired example_update) = Inr example_desired"
  "NormalizeCreateRecordSetInput ascii_env ''example.com'' example_desired = Inr example_desired"
proof -
  have "normalizeRecordSet ascii_env ''example.com'' (record_set_of_input (ui_Desired example_update)) False
      = Inr (record_set_of_input example_desired)"
    and "normalizeRecordSet ascii_env ''example.com'' (record_set_of_input example_desired) False
      = Inr (record_set_of_input example_desired)"
    unfolding normalizeRecordSet_Inr
    by (simp_all add: example_update_def record_set_of_input_def example_desired_def example_entries Let_def)
  then show "NormalizeCreateRecordSetInput ascii_env ''example.com'' (ui_Desired example_update) = Inr example_desired"
    and "NormalizeCreateRecordSetInput ascii_env ''example.com'' example_desired = Inr example_desired"
    by (simp_all add: NormalizeCreateRecordSetInput_def input_of_record_set_def record_set_of_input_def example_desired_def)
qed

lemma example_matches:
  "precondition_matches ascii_env (ui_Precondition example_update) example_before = Inr True"
  "precondition_validate (ui_Precondition example_update) = Inr ()"
  using clean_matches_self [OF ascii_env_laws example_clean] fingerprint_valid
  by (simp_all add: example_update_def precondition_for_def example_before_def sample_normal_def Let_def)

lemma example_found:
  "fake_zone example_state ''z1'' = Inr example_zone" "zone_Name example_zone = ''example.com''"
  "fake_lookup example_state ''z1'' ''r1'' = Some example_before" "fk_errors example_state op = None"
  "rs_ID example_before = ''r1''" "rs_Entries example_before = [value_entry ''192.0.2.1'']"
  by (simp_all add: fake_zone_def fake_lookup_def example_state_def fake_new_def example_zone_def example_before_def
      sample_normal_def sample_record_def Let_def)

lemma example_update_works:
  assumes "NormalizeCreateRecordSetInput ascii_env ''example.com'' (ui_Desired upd) = Inr example_desired"
    and "ui_Precondition upd = ui_Precondition example_update"
  shows "\<exists>s'. fake_UpdateRecordSet ascii_env None ''z1'' ''r1'' upd example_state = (s', Inr example_after)"
proof -
  have "nextOpaqueID ''version'' example_state = (example_state\<lparr>fk_nextID := 2\<rparr>, ''fake-version-1'')"
    using example_entries(6) by (simp add: nextOpaqueID_def example_state_def fake_new_def)
  moreover have "assignEntryIDs (inherit_entry_ids [value_entry ''192.0.2.9''] [value_entry ''192.0.2.1''])
      (example_state\<lparr>fk_nextID := 2\<rparr>)
    = (example_state\<lparr>fk_nextID := 3\<rparr>, [(value_entry ''192.0.2.9'')\<lparr>re_ID := ''fake-entry-2''\<rparr>])"
    using example_entries(7) by (simp add: nextOpaqueID_def value_entry_def empty_entry_def)
  ultimately show ?thesis
    using example_after_normal assms
    by (simp add: fake_UpdateRecordSet_def guarded_def example_found example_matches example_desired_def)
qed

theorem fake_second_writer_fails_witness:
  "\<exists>s1. fake_UpdateRecordSet ascii_env None ''z1'' ''r1'' example_update example_state = (s1, Inr example_after)
     \<and> ((\<exists>s2 e. fake_UpdateRecordSet ascii_env None ''z1'' ''r1'' example_update s1 = (s2, Inl e)
          \<and> fake_lookup s2 ''z1'' ''r1'' = Some example_after)
        \<or> sha256_collision (serializeNormalizedRecordSet example_before) (serializeNormalizedRecordSet example_after))"
proof -
  obtain s1 where s1: "fake_UpdateRecordSet ascii_env None ''z1'' ''r1'' example_update example_state = (s1, Inr example_after)"
    using example_update_works [OF example_input_normal(1)] by blast
  have "\<not> same_content example_before example_after"
    by (simp add: same_content_def example_before_def example_after_def sample_normal_def sample_record_def Let_def)
  moreover have "ui_Precondition example_update = precondition_for example_before"
    by (simp add: example_update_def)
  ultimately show ?thesis
    using s1 fake_second_writer_fails [OF ascii_env_laws example_clean example_after_clean s1] by blast
qed

theorem fake_reachable_fingerprints_witness:
  "\<exists>s. fake_reachable ascii_env s \<and> fk_recordSets s ''z1'' = [example_before]
     \<and> rs_Fingerprint example_before = fingerprintNormalizedRecordSet example_before"
proof -
  let ?raw = "sample_record ''www'' RecordTypeA [value_entry ''192.0.2.1'']"
  have norm: "NormalizeRecordSet ascii_env ''example.com'' ?raw = Inr example_before"
    unfolding example_before_def by (rule normalize_sample; code_simp)
  have "NormalizeZone ascii_env example_zone = Inr example_zone" by code_simp
  then have zones: "SetZones ascii_env [example_zone] fake_new = (fake_new\<lparr>fk_zones := [example_zone]\<rparr>, Inr ())"
    by (simp add: SetZones_def)
  have sets: "SetRecordSets ascii_env ''z1'' [?raw] (fake_new\<lparr>fk_zones := [example_zone]\<rparr>) = (example_state, Inr ())"
    using norm by (simp add: SetRecordSets_def fake_zone_def example_zone_def example_state_def fake_new_def sample_record_def)
  have "fake_reachable ascii_env example_state"
    using reach_step [OF reach_step [OF reach_new step_zones [OF zones]] step_sets [OF sets]] .
  moreover have "fk_recordSets example_state ''z1'' = [example_before]"
    by (simp add: example_state_def)
  moreover from this have "rs_Fingerprint example_before = fingerprintNormalizedRecordSet example_before"
    using fake_reachable_fingerprints [OF calculation(1), of example_before "''z1''"] by simp
  ultimately show ?thesis by blast
qed

definition fake_metadata :: provider_metadata where
  "fake_metadata = \<lparr>md_Type = ''fake'', md_DisplayName = ''Fake DNS'', md_DisplayNames = [], md_DocumentationURL = []\<rparr>"

definition fake_credentials :: "field_descriptor list" where
  "fake_credentials = [(plain_field ''token'' DescriptorFieldString True)\<lparr>fd_Label := ''API token'', fd_Secret := True\<rparr>]"

text \<open>
  \<open>Factory\<close> of the fake provider. \<open>decode_token\<close> is the decoding of the credential JSON into
  its token, \<^const>\<open>None\<close> when that fails.
\<close>

definition fake_factory :: "text_env \<Rightarrow> (string \<Rightarrow> string option) \<Rightarrow> go_error option \<Rightarrow> fake_state factory" where
  "fake_factory E decode_token ctx =
     \<lparr>f_Type = ''fake'', f_Metadata = fake_metadata, f_CredentialDescriptor = fake_credentials,
      f_AccountOptionsDescriptor = [], f_Capabilities = fake_capabilities,
      f_Build = (\<lambda>config credential s.
        case ctx of
          Some e \<Rightarrow> (s, Inl (ProviderErr (NewError ErrTimeout ''build_client'' [] 0 (Some e))))
        | None \<Rightarrow>
            (case decode_token credential of
               None \<Rightarrow> (s, fail ErrAuthentication ''build_client'' (Some ''decode provider credential''))
             | Some token \<Rightarrow>
                 if token = [] then (s, fail ErrAuthentication ''build_client'' None)
                 else (fake_new, Inr (fake_provider E ctx))))\<rparr>"

theorem NewRegistry_definitions_witness:
  "\<exists>r. NewRegistry (\<lambda>_. None) [fake_factory ascii_env Some None] = Inr r
     \<and> registry_factory r ''fake'' = Some (fake_factory ascii_env Some None)"
proof -
  let ?f = "fake_factory ascii_env Some None"
  have parts: "provider_type_ok ''fake''" "trim_space ''Fake DNS'' \<noteq> []"
    "validate_credential_descriptor fake_credentials = Inr ()" "validate_options_descriptor [] = Inr ()"
    "validate_capabilities fake_capabilities = Inr ()" "cap_ExtensionFields fake_capabilities = []"
    by code_simp+
  have fields: "f_Type ?f = ''fake''" "f_Metadata ?f = fake_metadata" "f_CredentialDescriptor ?f = fake_credentials"
    "f_AccountOptionsDescriptor ?f = []" "f_Capabilities ?f = fake_capabilities"
    by (simp_all add: fake_factory_def)
  have "check_factory (\<lambda>_. None) ?f = Inr ()"
    using parts by (simp add: check_factory_def fields fake_metadata_def localized_text_ok_def
        documentation_ok_def relabel_def)
  then have r: "NewRegistry (\<lambda>_. None) [?f] = Inr [(''fake'', ?f)]"
    by (simp add: NewRegistry_def Register_def fields)
  from NewRegistry_definitions [OF r] r fields(1) show ?thesis by auto
qed

end
