(* ===== verification/Calls.thy ===== *)
theory Calls
  imports Prelude
begin

text \<open>
  Operations that change the state of the world and may fail, as the services are written: an
  operation takes the world it shares with the other operations and returns it with an error or a
  result. \<open>attempt\<close> is one call together with what the code does on its error and what it does with
  its result, \<open>seq\<close> the call whose error is returned at once. The rules for \<open>ends\<close> walk through the
  branches of an operation.
\<close>

type_synonym ('w, 'e, 'a) outcome = "'w \<Rightarrow> 'w \<times> ('e + 'a)"


definition attempt ::
  "('w, 'e, 'a) outcome \<Rightarrow> ('e \<Rightarrow> ('w, 'f, 'b) outcome) \<Rightarrow> ('a \<Rightarrow> ('w, 'f, 'b) outcome) \<Rightarrow> ('w, 'f, 'b) outcome" where
  "attempt m h k w = (case m w of (w', Inl e) \<Rightarrow> h e w' | (w', Inr x) \<Rightarrow> k x w')"

definition give :: "'a \<Rightarrow> ('w, 'e, 'a) outcome" where "give x w = (w, Inr x)"

definition reject :: "'e \<Rightarrow> ('w, 'e, 'a) outcome" where "reject e w = (w, Inl e)"

text \<open>The early return of an error.\<close>

definition seq :: "('w, 'e, 'a) outcome \<Rightarrow> ('a \<Rightarrow> ('w, 'e, 'b) outcome) \<Rightarrow> ('w, 'e, 'b) outcome" where
  "seq m k = attempt m reject k"

text \<open>A check that only computes, and an operation that cannot fail.\<close>

definition checked :: "'e + 'a \<Rightarrow> ('w, 'e, 'a) outcome" where
  "checked r w = (w, r)"

definition plainly :: "('w \<Rightarrow> 'w \<times> 'a) \<Rightarrow> ('w, 'e, 'a) outcome" where
  "plainly f w = (case f w of (w', x) \<Rightarrow> (w', Inr x))"

named_theorems call_result \<open>results of sequences of calls\<close>

lemma attempt_result [call_result]:
  "attempt m h k w = (w', r) \<longleftrightarrow>
     (\<exists>w1 e. m w = (w1, Inl e) \<and> h e w1 = (w', r)) \<or> (\<exists>w1 x. m w = (w1, Inr x) \<and> k x w1 = (w', r))"
  by (auto simp: attempt_def split: prod.splits sum.splits)

lemma seq_result [call_result]:
  "seq m k w = (w', r) \<longleftrightarrow>
     (\<exists>e. m w = (w', Inl e) \<and> r = Inl e) \<or> (\<exists>w1 x. m w = (w1, Inr x) \<and> k x w1 = (w', r))"
  by (auto simp: seq_def attempt_result reject_def)

lemma give_result [simp]: "give x w = (w', r) \<longleftrightarrow> w' = w \<and> r = Inr x"
  by (auto simp: give_def)

lemma reject_result [simp]: "reject e w = (w', r) \<longleftrightarrow> w' = w \<and> r = Inl e"
  by (auto simp: reject_def)

lemma checked_result [call_result]: "checked r w = (w', x) \<longleftrightarrow> w' = w \<and> x = r"
  by (auto simp: checked_def)

text \<open>
  What holds of the state and the result when an operation ends. The rules follow the structure of
  an operation, so \<open>(rule ends_rules)+\<close> walks through its branches and leaves one goal for each.
\<close>

definition ends :: "('w, 'e, 'a) outcome \<Rightarrow> 'w \<Rightarrow> ('w \<Rightarrow> 'e + 'a \<Rightarrow> bool) \<Rightarrow> bool" where
  "ends m w Q \<longleftrightarrow> Q (fst (m w)) (snd (m w))"

lemma endsD: "m w = (w', r) \<Longrightarrow> ends m w Q \<Longrightarrow> Q w' r"
  by (simp add: ends_def)

text \<open>To conclude from how an operation ended, it is enough to look at the branches that end so.\<close>

lemma ends_conclude: "m w = (w', r) \<Longrightarrow> ends m w (\<lambda>w1 r1. w1 = w' \<longrightarrow> r1 = r \<longrightarrow> P) \<Longrightarrow> P"
  by (simp add: ends_def)

lemma ends_call: "(\<And>w' r. m w = (w', r) \<Longrightarrow> Q w' r) \<Longrightarrow> ends m w Q"
  by (simp add: ends_def)

lemma ends_attempt:
  "(\<And>w1 e. m w = (w1, Inl e) \<Longrightarrow> ends (h e) w1 Q) \<Longrightarrow> (\<And>w1 x. m w = (w1, Inr x) \<Longrightarrow> ends (k x) w1 Q) \<Longrightarrow>
     ends (attempt m h k) w Q"
  by (auto simp: ends_def attempt_def split: prod.splits sum.splits)

lemma ends_seq:
  "(\<And>w1 e. m w = (w1, Inl e) \<Longrightarrow> Q w1 (Inl e)) \<Longrightarrow> (\<And>w1 x. m w = (w1, Inr x) \<Longrightarrow> ends (k x) w1 Q) \<Longrightarrow>
     ends (seq m k) w Q"
  unfolding seq_def by (rule ends_attempt) (auto simp: ends_def reject_def)

lemma ends_give: "Q w (Inr x) \<Longrightarrow> ends (give x) w Q"
  by (simp add: ends_def give_def)

lemma ends_reject: "Q w (Inl e) \<Longrightarrow> ends (reject e) w Q"
  by (simp add: ends_def reject_def)

lemma ends_prod: "(\<And>a b. p = (a, b) \<Longrightarrow> ends (f a b) w Q) \<Longrightarrow> ends (case p of (a, b) \<Rightarrow> f a b) w Q"
  by (cases p) simp

lemma ends_if: "(b \<Longrightarrow> ends m w Q) \<Longrightarrow> (\<not> b \<Longrightarrow> ends n w Q) \<Longrightarrow> ends (if b then m else n) w Q"
  by simp

lemma ends_sum:
  "(\<And>e. v = Inl e \<Longrightarrow> ends (f e) w Q) \<Longrightarrow> (\<And>x. v = Inr x \<Longrightarrow> ends (g x) w Q) \<Longrightarrow>
     ends (case v of Inl e \<Rightarrow> f e | Inr x \<Rightarrow> g x) w Q"
  by (cases v) simp_all

lemma ends_option:
  "(v = None \<Longrightarrow> ends f w Q) \<Longrightarrow> (\<And>x. v = Some x \<Longrightarrow> ends (g x) w Q) \<Longrightarrow>
     ends (case v of None \<Rightarrow> f | Some x \<Rightarrow> g x) w Q"
  by (cases v) simp_all

lemmas ends_rules = ends_attempt ends_seq ends_give ends_reject ends_prod ends_if ends_sum ends_option

end
