(* ===== verification/Audit_Events.thy ===== *)
theory Audit_Events
  imports Provider_Types
begin

text \<open>
  Audit events and their sanitising, \<open>internal/audit/event.go\<close>. The values of a
  \<open>map[string]any\<close> are what \<open>reflect\<close> can tell apart of them. \<open>AMap\<close> lists the entries of a map
  in the order its iterator visits them, a key of another kind than string being \<^const>\<open>None\<close>;
  \<open>AStruct\<close> lists the fields with their names, JSON tags and whether they are exported;
  \<open>ARaw\<close> is a \<open>json.RawMessage\<close>, \<open>ABytes\<close> any other slice or array of bytes.
\<close>

record struct_field =
  sf_Name :: string
  sf_Tag :: string
  sf_Exported :: bool

datatype any =
    ANil
  | AText string
  | ANum int
  | ABool bool
  | ATime time
  | AFloat string
  | ARaw string
  | ABytes string
  | APtr "any option"
  | AList "any list"
  | AMap "(string option \<times> any) list"
  | AStruct "(struct_field \<times> any) list"

type_synonym any_map = "(string \<times> any) list"

datatype audit_result = ResultSucceeded | ResultFailed

record audit_event =
  ev_ID :: uuid
  ev_OccurredAt :: time
  ev_ActorUserID :: "uuid option"
  ev_ActorUsernameSnapshot :: string
  ev_Action :: string
  ev_ResourceType :: string
  ev_ResourceID :: string
  ev_ProviderAccountID :: "uuid option"
  ev_ZoneID :: "uuid option"
  ev_RequestID :: string
  ev_IP :: string
  ev_UserAgent :: string
  ev_Result :: audit_result
  ev_ErrorCode :: string
  ev_BeforeData :: any_map
  ev_AfterData :: any_map
  ev_Metadata :: any_map

section \<open>Sensitive keys\<close>

definition sensitive_fragments :: "string list" where
  "sensitive_fragments =
     [''authorization'', ''cookie'', ''password'', ''secret'', ''token'', ''credential'',
      ''accesskey'', ''apikey'', ''ciphertext'', ''nonce'', ''privatekey'', ''totpuri'', ''provisioninguri'']"

text \<open>\<open>strings.Contains\<close>, in a form that computes.\<close>

fun contains :: "string \<Rightarrow> string \<Rightarrow> bool" where
  "contains [] f = (f = [])"
| "contains (c # s) f = (prefix f (c # s) \<or> contains s f)"

lemma contains_sublist: "contains s f \<longleftrightarrow> sublist f s"
  by (induction s) (auto simp: sublist_Cons_right)

text \<open>\<open>nonAlphanumericKey\<close> keeps ASCII letters and digits only, so lower casing is ASCII too.\<close>

definition normalized_key :: "string \<Rightarrow> string" where
  "normalized_key key = map lower_char (filter (\<lambda>c. is_upper c \<or> is_lower c \<or> is_digit c) key)"

definition sensitiveKey :: "string \<Rightarrow> bool" where
  "sensitiveKey key =
     (let normalized = normalized_key key in
      if normalized = ''credentialrevision'' \<or> normalized = ''credentialconfigured'' then False
      else list_ex (contains normalized) sensitive_fragments)"

section \<open>Sensitive text\<close>

text \<open>
  The pattern \<open>sensitiveValuePattern\<close>. Case folding of \<open>(?i)\<close> lets \<open>s\<close> match U+017F and \<open>k\<close>
  match U+212A as well; a byte that starts no rune counts as one. The classes after a keyword
  exclude the separators they are followed by, so a match is unique once its start and the
  optional scheme are fixed, and the engine prefers the first alternative that succeeds.
\<close>

fun fold_char :: "char \<Rightarrow> string \<Rightarrow> string option" where
  "fold_char k [] = None"
| "fold_char k (c # s) =
     (if lower_char c = k then Some s
      else if k = CHR ''s'' \<and> byte c = 0xC5 \<and> (case s of d # _ \<Rightarrow> byte d = 0xBF | [] \<Rightarrow> False) then Some (tl s)
      else if k = CHR ''k'' \<and> byte c = 0xE2
        \<and> (case s of d # e # _ \<Rightarrow> byte d = 0x84 \<and> byte e = 0xAA | _ \<Rightarrow> False) then Some (tl (tl s))
      else None)"

fun fold_match :: "string \<Rightarrow> string \<Rightarrow> string option" where
  "fold_match [] s = Some s"
| "fold_match (k # ks) s = (case fold_char k s of None \<Rightarrow> None | Some r \<Rightarrow> fold_match ks r)"

definition sensitive_words :: "string list" where
  "sensitive_words =
     [''authorization'', ''cookie'', ''password'', ''secret'', ''token'', ''credential'', ''signature'',
      ''access_key'', ''access-key'', ''accesskey'', ''api_key'', ''api-key'', ''apikey'']"

fun first_some :: "('a \<Rightarrow> 'b option) \<Rightarrow> 'a list \<Rightarrow> 'b option" where
  "first_some f [] = None"
| "first_some f (x # xs) = (case f x of None \<Rightarrow> first_some f xs | Some y \<Rightarrow> Some y)"

definition next_rune :: "string \<Rightarrow> string" where
  "next_rune s = (case rune_rest s of Some r \<Rightarrow> r | None \<Rightarrow> tl s)"

lemma next_rune_less: "s \<noteq> [] \<Longrightarrow> length (next_rune s) < length s"
  by (auto simp: next_rune_def dest: rune_rest_less split: option.splits)

fun separator :: "nat \<Rightarrow> string \<Rightarrow> string option" where
  "separator n [] = None"
| "separator n (c # s) =
     (if c = CHR '':'' \<or> c = CHR ''='' then Some s
      else if byte c = 13 \<or> byte c = 10 then None
      else (case n of 0 \<Rightarrow> None | Suc m \<Rightarrow> separator m (next_rune (c # s))))"

definition is_blank :: "char \<Rightarrow> bool" where
  "is_blank c \<longleftrightarrow> c = CHR '' '' \<or> byte c = 9"

definition value_char :: "char \<Rightarrow> bool" where
  "value_char c \<longleftrightarrow> \<not> (c = CHR '' '' \<or> byte c \<in> {9, 10, 12, 13} \<or> c = CHR '','' \<or> c = CHR '';'')"

definition quoted :: "char \<Rightarrow> string \<Rightarrow> string option" where
  "quoted q s =
     (case s of [] \<Rightarrow> None
      | c # t \<Rightarrow>
          if c = q \<and> q \<in> set t then Some (tl (dropWhile (\<lambda>x. x \<noteq> q) t)) else None)"

definition secret_value :: "string \<Rightarrow> string option" where
  "secret_value s =
     (case quoted (CHR 0x22) s of Some r \<Rightarrow> Some r
      | None \<Rightarrow>
          (case quoted (CHR 0x27) s of Some r \<Rightarrow> Some r
           | None \<Rightarrow>
               (case s of [] \<Rightarrow> None
                | c # _ \<Rightarrow> if value_char c then Some (dropWhile value_char s) else None)))"

definition scheme_value :: "string \<Rightarrow> string \<Rightarrow> string option" where
  "scheme_value w s =
     (case fold_match w s of None \<Rightarrow> None
      | Some r \<Rightarrow>
          (case r of [] \<Rightarrow> None
           | c # _ \<Rightarrow> if is_blank c then secret_value (dropWhile is_blank r) else None))"

text \<open>A match at the start of a string: what follows it, and what follows its first group.\<close>

definition sensitive_match :: "string \<Rightarrow> (string \<times> string) option" where
  "sensitive_match s =
     (case first_some (\<lambda>w. fold_match w s) sensitive_words of None \<Rightarrow> None
      | Some r \<Rightarrow>
          (case separator 24 r of None \<Rightarrow> None
           | Some r' \<Rightarrow>
               (let v = dropWhile is_blank r' in
                case first_some id [scheme_value ''bearer'' v, scheme_value ''basic'' v, secret_value v] of
                  None \<Rightarrow> None | Some rest \<Rightarrow> Some (v, rest))))"

lemma fold_char_less: "fold_char k s = Some r \<Longrightarrow> length r < length s"
  by (cases s) (auto split: if_splits list.splits)

lemma fold_match_less: "fold_match w s = Some r \<Longrightarrow> length r + (if w = [] then 0 else 1) \<le> length s"
proof (induction w arbitrary: s)
  case (Cons k w)
  then obtain t where "fold_char k s = Some t" "fold_match w t = Some r"
    by (auto split: option.splits)
  with Cons.IH [of t] fold_char_less [of k s t] show ?case by (simp split: if_splits)
qed simp

lemma separator_less: "separator n s = Some r \<Longrightarrow> length r < length s"
proof (induction n s rule: separator.induct)
  case (2 n c s)
  then show ?case
    using next_rune_less [of "c # s"] by (fastforce split: if_splits nat.splits)
qed simp

lemma dropWhile_le: "length (dropWhile p xs) \<le> length xs"
  by (induction xs) auto

lemma first_some_Some: "first_some f xs = Some y \<Longrightarrow> \<exists>x \<in> set xs. f x = Some y"
  by (induction xs) (auto split: option.splits)

lemma quoted_less: "quoted q s = Some r \<Longrightarrow> length r < length s"
  using dropWhile_le [of "\<lambda>x. x \<noteq> q" "tl s"] by (auto simp: quoted_def split: list.splits if_splits)

lemma secret_value_less: "secret_value s = Some r \<Longrightarrow> length r < length s"
  using dropWhile_le [of value_char "tl s"]
  by (auto simp: secret_value_def dest: quoted_less split: option.splits list.splits if_splits)

lemma scheme_value_less: "scheme_value w s = Some r \<Longrightarrow> length r < length s"
proof -
  assume "scheme_value w s = Some r"
  then obtain t where "fold_match w s = Some t" "secret_value (dropWhile is_blank t) = Some r"
    by (auto simp: scheme_value_def split: option.splits list.splits if_splits)
  with fold_match_less [of w s t] secret_value_less [of "dropWhile is_blank t" r] dropWhile_le [of is_blank t]
  show ?thesis by (simp split: if_splits)
qed

lemma sensitive_match_less: "sensitive_match s = Some (v, r) \<Longrightarrow> length r < length s"
proof -
  assume "sensitive_match s = Some (v, r)"
  then obtain t u where t: "first_some (\<lambda>w. fold_match w s) sensitive_words = Some t"
      "separator 24 t = Some u" "v = dropWhile is_blank u"
      "first_some id [scheme_value ''bearer'' v, scheme_value ''basic'' v, secret_value v] = Some r"
    by (auto simp: sensitive_match_def Let_def simp del: first_some.simps split: option.splits)
  from first_some_Some [OF t(1)] obtain w where "fold_match w s = Some t" by blast
  then have "length t \<le> length s" using fold_match_less [of w s t] by simp
  moreover have "length r < length v"
    using first_some_Some [OF t(4)] by (auto dest!: sym [of "Some _"] dest: scheme_value_less secret_value_less)
  ultimately show ?thesis
    using separator_less [OF t(2)] t(3) dropWhile_le [of is_blank u] by simp
qed

text \<open>\<open>ReplaceAllString\<close>: matches from the left, none of them empty.\<close>

function SanitizeText :: "string \<Rightarrow> string" where
  "SanitizeText s =
     (case s of [] \<Rightarrow> []
      | c # t \<Rightarrow>
          (case sensitive_match s of
             None \<Rightarrow> c # SanitizeText t
           | Some (v, r) \<Rightarrow> take (length s - length v) s @ ''[REDACTED]'' @ SanitizeText r))"
  by pat_completeness auto
termination
  by (relation "measure length") (auto dest: sensitive_match_less)

declare SanitizeText.simps [simp del]

section \<open>Sanitising values\<close>

text \<open>
  \<open>sanitizeReflectValue\<close>. The last field of a struct tag before a comma names the key.
\<close>

definition field_key :: "struct_field \<Rightarrow> string" where
  "field_key f = (let tagged = hd (split_on (CHR '','') (sf_Tag f)) in if tagged \<noteq> [] then tagged else sf_Name f)"

definition field_shown :: "struct_field \<Rightarrow> bool" where
  "field_shown f \<longleftrightarrow> sf_Exported f \<and> hd (split_on (CHR '','') (sf_Tag f)) \<noteq> ''-'' \<and> \<not> sensitiveKey (field_key f)"

definition key_shown :: "string option \<Rightarrow> bool" where
  "key_shown k = (case k of None \<Rightarrow> False | Some key \<Rightarrow> \<not> sensitiveKey key)"

fun sanitizeReflectValue :: "any \<Rightarrow> any" where
  "sanitizeReflectValue ANil = ANil"
| "sanitizeReflectValue (AText s) = AText (SanitizeText s)"
| "sanitizeReflectValue (ANum i) = ANum i"
| "sanitizeReflectValue (ABool b) = ABool b"
| "sanitizeReflectValue (ATime t) = ATime t"
| "sanitizeReflectValue (AFloat f) = AFloat f"
| "sanitizeReflectValue (ARaw s) = AText ''[REDACTED_BINARY]''"
| "sanitizeReflectValue (ABytes s) = AText ''[REDACTED_BINARY]''"
| "sanitizeReflectValue (APtr v) = (case v of None \<Rightarrow> ANil | Some w \<Rightarrow> sanitizeReflectValue w)"
| "sanitizeReflectValue (AList vs) = AList (map sanitizeReflectValue vs)"
| "sanitizeReflectValue (AMap kvs) =
     AMap (map (\<lambda>(k, v). (k, sanitizeReflectValue v)) (filter (\<lambda>(k, v). key_shown k) kvs))"
| "sanitizeReflectValue (AStruct fvs) =
     AMap (map (\<lambda>(f, v). (Some (field_key f), sanitizeReflectValue v)) (filter (\<lambda>(f, v). field_shown f) fvs))"

text \<open>\<open>decode\<close> is \<open>json.Unmarshal\<close> into an \<open>any\<close>, \<^const>\<open>None\<close> for invalid JSON; what it
  returns holds no \<open>json.RawMessage\<close>, so the recursion of \<open>sanitizeValue\<close> is one step deep.\<close>

definition sanitizeValue :: "(string \<Rightarrow> any option) \<Rightarrow> any \<Rightarrow> any" where
  "sanitizeValue decode v =
     (case v of
        ANil \<Rightarrow> ANil
      | ARaw raw \<Rightarrow> (case decode raw of Some d \<Rightarrow> sanitizeReflectValue d | None \<Rightarrow> AText ''[REDACTED_INVALID_JSON]'')
      | AText s \<Rightarrow> AText (SanitizeText s)
      | _ \<Rightarrow> sanitizeReflectValue v)"

text \<open>A nil map and an empty one are both the empty list.\<close>

definition SanitizeMap :: "(string \<Rightarrow> any option) \<Rightarrow> any_map \<Rightarrow> any_map" where
  "SanitizeMap decode input =
     map (\<lambda>(k, v). (k, sanitizeValue decode v)) (filter (\<lambda>(k, v). \<not> sensitiveKey k) input)"

text \<open>A value without sensitive keys, raw bytes or unsanitised text anywhere in it.\<close>

fun clean_value :: "any \<Rightarrow> bool" where
  "clean_value (AText s) = (s \<in> {''[REDACTED_BINARY]'', ''[REDACTED_INVALID_JSON]''} \<or> (\<exists>t. s = SanitizeText t))"
| "clean_value (ARaw s) = False"
| "clean_value (ABytes s) = False"
| "clean_value (APtr v) = False"
| "clean_value (AStruct fvs) = False"
| "clean_value (AList vs) = (\<forall>v \<in> set vs. clean_value v)"
| "clean_value (AMap kvs) = (\<forall>(k, v) \<in> set kvs. key_shown k \<and> clean_value v)"
| "clean_value v = True"

lemma sanitizeReflectValue_clean: "clean_value (sanitizeReflectValue v)"
proof (induction v rule: sanitizeReflectValue.induct)
  case (9 v)
  then show ?case by (cases v) auto
next
  case (11 kvs)
  then show ?case by fastforce
next
  case (12 fvs)
  then show ?case by (fastforce simp: key_shown_def field_shown_def)
qed auto

lemma sanitizeValue_clean: "clean_value (sanitizeValue decode v)"
  by (cases v) (auto simp: sanitizeValue_def sanitizeReflectValue_clean simp del: sanitizeReflectValue.simps
      split: option.splits)

text \<open>C27: What \<open>SanitizeMap\<close> returns has no sensitive key at any depth, no raw bytes and no text
  that has not been through \<open>SanitizeText\<close>, and keeps every other key of the map it was given.\<close>

theorem SanitizeMap_clean:
  "list_all (\<lambda>(k, v). \<not> sensitiveKey k \<and> clean_value v) (SanitizeMap decode input)
   \<and> map fst (SanitizeMap decode input) = filter (\<lambda>k. \<not> sensitiveKey k) (map fst input)"
proof -
  have "map fst (SanitizeMap decode input) = filter (\<lambda>k. \<not> sensitiveKey k) (map fst input)"
    by (induction input) (auto simp: SanitizeMap_def)
  then show ?thesis
    by (auto simp: SanitizeMap_def list_all_iff sanitizeValue_clean)
qed

lemma secret_value_plain:
  assumes "t \<noteq> []" and "list_all value_char t" and "hd t \<noteq> CHR 0x22" and "hd t \<noteq> CHR 0x27"
    and "rest = [] \<or> \<not> value_char (hd rest)"
  shows "secret_value (t @ rest) = Some rest"
proof -
  obtain c u where t: "t = c # u" using assms(1) by (cases t) auto
  have "dropWhile value_char (t @ rest) = rest"
    using assms(2,5) by (cases rest) (auto simp: list_all_iff dropWhile_append)
  then show ?thesis
    using assms t by (auto simp: secret_value_def quoted_def)
qed

text \<open>A bearer token of an authorisation header is replaced as a whole, whatever characters it has.\<close>

theorem SanitizeText_bearer:
  assumes "t \<noteq> []" and "list_all value_char t" and "hd t \<noteq> CHR 0x22" and "hd t \<noteq> CHR 0x27"
    and "rest = [] \<or> \<not> value_char (hd rest)"
  shows "SanitizeText (''Authorization: Bearer '' @ t @ rest) = ''Authorization: [REDACTED]'' @ SanitizeText rest"
proof -
  obtain c u where t: "t = c # u" using assms(1) by (cases t) auto
  with assms(2) have "\<not> is_blank c" by (auto simp: value_char_def is_blank_def)
  with t have blank: "dropWhile is_blank (t @ rest) = t @ rest" by simp
  have "map lower_char ''Authorization Bearer'' = ''authorization bearer''" by code_simp
  then have lower: "lower_char (CHR ''A'') = CHR ''a''" "lower_char (CHR ''u'') = CHR ''u''"
    "lower_char (CHR ''t'') = CHR ''t''" "lower_char (CHR ''h'') = CHR ''h''" "lower_char (CHR ''o'') = CHR ''o''"
    "lower_char (CHR ''r'') = CHR ''r''" "lower_char (CHR ''i'') = CHR ''i''" "lower_char (CHR ''z'') = CHR ''z''"
    "lower_char (CHR ''a'') = CHR ''a''" "lower_char (CHR ''n'') = CHR ''n''" "lower_char (CHR ''B'') = CHR ''b''"
    "lower_char (CHR ''e'') = CHR ''e''"
    by simp_all
  have "sensitive_match (''Authorization: Bearer '' @ t @ rest) = Some (''Bearer '' @ t @ rest, rest)"
    using secret_value_plain [OF assms] blank
    using lower by (simp add: sensitive_match_def sensitive_words_def Let_def scheme_value_def is_blank_def)
  then show ?thesis by (subst SanitizeText.simps) simp
qed

theorem SanitizeText_bearer_witness:
  "SanitizeText ''Authorization: Bearer eyJhbGci.x; path'' = ''Authorization: [REDACTED]; path''"
proof -
  have "SanitizeText ''; path'' = ''; path''" by code_simp
  moreover have "list_all value_char ''eyJhbGci.x''" "\<not> value_char (hd ''; path'')" by code_simp+
  ultimately show ?thesis using SanitizeText_bearer [of "''eyJhbGci.x''" "''; path''"] by simp
qed

end
