(* ===== verification/Service_Types.thy ===== *)
theory Service_Types
  imports Calls Audit_Events Providers
begin

text \<open>
  The types and the repository interface of \<open>internal/service/provider_models.go\<close>. An operation
  of the service layer is an outcome (theory Calls) whose errors are the errors of the layer.
\<close>

section \<open>Errors\<close>

text \<open>
  The sentinel errors, an error of a provider, a \<open>RecordConflictError\<close> with its cause, the record
  set at the provider and the one that was asked for, an error that \<open>fmt.Errorf\<close> wraps, with the whole text,
  and \<open>errors.New\<close>.
\<close>

datatype service_error =
    ErrInvalidProviderInput | ErrProviderAccountNotFound | ErrProviderAccountConflict
  | ErrProviderAccountDisabled | ErrProviderCredentialsMissing | ErrProviderTypeUnavailable
  | ErrZoneNotFound | ErrAuditEventNotFound | ErrInvalidCursor | ErrBatchTooLarge
  | ErrUnsafeBatchOperation
  | Upstream go_error
  | RecordConflictError service_error "record_set option" "create_input option"
  | Wrapped service_error string
  | InvalidInput descriptor_error
  | ServiceFailure string

text \<open>
  \<open>InvalidInput d\<close> is \<open>fmt.Errorf("%w: %v", ErrInvalidProviderInput, err)\<close>; the descriptor error is
  kept as a value, so \<open>error_text\<close> gives only the first part of its message.
\<close>

text \<open>\<open>errors.Unwrap\<close> until nothing is wrapped any more.\<close>

fun root_error :: "service_error \<Rightarrow> service_error" where
  "root_error (InvalidInput d) = ErrInvalidProviderInput"
| "root_error (Wrapped e m) = root_error e"
| "root_error (RecordConflictError e c p) = root_error e"
| "root_error e = e"

fun has_conflict :: "service_error \<Rightarrow> bool" where
  "has_conflict (Wrapped e m) = has_conflict e"
| "has_conflict (RecordConflictError e c p) = True"
| "has_conflict e = False"

text \<open>The first \<open>ProviderError\<close> in a chain, what \<open>errors.As\<close> finds.\<close>

definition as_provider_error :: "service_error \<Rightarrow> provider_error option" where
  "as_provider_error e = (case root_error e of Upstream (ProviderErr p) \<Rightarrow> Some p | _ \<Rightarrow> None)"

text \<open>\<open>MapError\<close> on an error of the service layer: a sentinel is a plain error to it.\<close>

fun error_text :: "service_error \<Rightarrow> string" where
  "error_text ErrInvalidProviderInput = ''provider account input is invalid''"
| "error_text ErrProviderAccountNotFound = ''provider account was not found''"
| "error_text ErrProviderAccountConflict = ''provider account state changed''"
| "error_text ErrProviderAccountDisabled = ''provider account is disabled''"
| "error_text ErrProviderCredentialsMissing = ''provider account credentials are not configured''"
| "error_text ErrProviderTypeUnavailable = ''provider type is not registered''"
| "error_text ErrZoneNotFound = ''zone was not found''"
| "error_text ErrAuditEventNotFound = ''audit event was not found''"
| "error_text ErrInvalidCursor = ''pagination cursor is invalid''"
| "error_text ErrBatchTooLarge = ''record batch exceeds the safety limit''"
| "error_text ErrUnsafeBatchOperation = ''record batch operation is not safe''"
| "error_text (Upstream (ProviderErr p)) = provider_error_message (Some p)"
| "error_text (Upstream (ContextDone m)) = m"
| "error_text (Upstream (NetError t m)) = m"
| "error_text (Upstream (PlainError m)) = m"
| "error_text (RecordConflictError e c p) = ''record set changed at the provider''"
| "error_text (Wrapped e m) = m"
| "error_text (InvalidInput d) = ''provider account input is invalid''"
| "error_text (ServiceFailure m) = m"

definition map_service_error :: "service_error \<Rightarrow> string \<Rightarrow> provider_error option" where
  "map_service_error e operation =
     (case root_error e of
        Upstream g \<Rightarrow> MapError (Some g) operation
      | _ \<Rightarrow> MapError (Some (PlainError (error_text e))) operation)"

type_synonym ('w, 'a) scall = "'w \<Rightarrow> 'w \<times> (service_error + 'a)"

text \<open>A call of a provider, its error an error of the service layer.\<close>

definition up :: "('w, 'a) call \<Rightarrow> ('w, 'a) scall" where
  "up m w = (case m w of (w', Inl e) \<Rightarrow> (w', Inl (Upstream e)) | (w', Inr x) \<Rightarrow> (w', Inr x))"

lemma up_Inr [call_result]: "up m w = (w', Inr x) \<longleftrightarrow> m w = (w', Inr x)"
  by (auto simp: up_def split: prod.splits sum.splits)

lemma up_Inl [call_result]: "up m w = (w', Inl e) \<longleftrightarrow> (\<exists>g. e = Upstream g \<and> m w = (w', Inl g))"
  by (auto simp: up_def split: prod.splits sum.splits)

section \<open>Calls of a provider\<close>

definition map_error :: "go_error \<Rightarrow> string \<Rightarrow> service_error" where
  "map_error e operation =
     (case MapError (Some e) operation of Some p \<Rightarrow> Upstream (ProviderErr p) | None \<Rightarrow> Upstream e)"

text \<open>\<open>NewError(code, operation, "", 0, errors.New(m))\<close> as a service error.\<close>

definition new_error :: "ErrorCode \<Rightarrow> string \<Rightarrow> string \<Rightarrow> service_error" where
  "new_error code operation m = Upstream (ProviderErr (NewError code operation [] 0 (Some (PlainError m))))"

definition mapped :: "string \<Rightarrow> ('w, 'a) call \<Rightarrow> ('w, 'a) scall" where
  "mapped operation m w = (case m w of (w', Inl e) \<Rightarrow> (w', Inl (map_error e operation)) | (w', Inr x) \<Rightarrow> (w', Inr x))"

definition of_result :: "ErrorCode \<Rightarrow> string \<Rightarrow> 'a result \<Rightarrow> ('w, 'a) scall" where
  "of_result code operation r w = (case r of Inl m \<Rightarrow> (w, Inl (new_error code operation m)) | Inr x \<Rightarrow> (w, Inr x))"

lemma mapped_Inr [call_result]: "mapped op m w = (w', Inr x) \<longleftrightarrow> m w = (w', Inr x)"
  by (auto simp: mapped_def split: prod.splits sum.splits)

lemma mapped_Inl [call_result]: "mapped op m w = (w', Inl e) \<longleftrightarrow> (\<exists>g. m w = (w', Inl g) \<and> e = map_error g op)"
  by (auto simp: mapped_def split: prod.splits sum.splits)

lemma of_result_Inr [call_result]: "of_result c op r w = (w', Inr x) \<longleftrightarrow> w' = w \<and> r = Inr x"
  by (auto simp: of_result_def split: sum.splits)

lemma of_result_Inl [call_result]: "of_result c op r w = (w', Inl e) \<longleftrightarrow> w' = w \<and> (\<exists>m. r = Inl m \<and> e = new_error c op m)"
  by (auto simp: of_result_def split: sum.splits)

section \<open>Accounts, zones, actors\<close>

definition nil_uuid :: uuid where
  "nil_uuid = ''00000000-0000-0000-0000-000000000000''"

text \<open>\<open>ValidationStatusNone\<close> is the empty string, the zero value of the type.\<close>

datatype ValidationStatus =
    ValidationStatusNone | ValidationStatusUnconfigured | ValidationStatusPending | ValidationStatusValid
  | ValidationStatusInvalid | ValidationStatusError

record encrypted_credential =
  ec_Ciphertext :: string
  ec_Nonce :: string
  ec_KeyVersion :: int

record credential_context =
  cc_ProviderAccountID :: string
  cc_ProviderType :: string
  cc_CredentialRevision :: "64 word"

record provider_account =
  pa_ID :: uuid
  pa_ProviderType :: ProviderType
  pa_Name :: string
  pa_Description :: string
  pa_Enabled :: bool
  pa_Options :: string
  pa_CredentialRevision :: "64 word"
  pa_CredentialConfigured :: bool
  pa_ValidationStatus :: ValidationStatus
  pa_LastValidatedAt :: "time option"
  pa_LastValidationErrorCode :: string
  pa_LastZoneSyncAt :: "time option"
  pa_ZoneCount :: int
  pa_CreatedAt :: time
  pa_UpdatedAt :: time

definition zero_account :: provider_account where
  "zero_account =
     \<lparr>pa_ID = nil_uuid, pa_ProviderType = [], pa_Name = [], pa_Description = [], pa_Enabled = False, pa_Options = [],
      pa_CredentialRevision = 0, pa_CredentialConfigured = False, pa_ValidationStatus = ValidationStatusNone,
      pa_LastValidatedAt = None, pa_LastValidationErrorCode = [], pa_LastZoneSyncAt = None, pa_ZoneCount = 0,
      pa_CreatedAt = 0, pa_UpdatedAt = 0\<rparr>"

record credential_material =
  cm_Revision :: "64 word"
  cm_Encrypted :: encrypted_credential

record account_changes =
  ch_Name :: "string option"
  ch_Description :: "string option"
  ch_Enabled :: "bool option"
  ch_Options :: string
  ch_ResetValidation :: bool

record zone_entry =
  ze_ID :: uuid
  ze_ProviderAccountID :: uuid
  ze_ProviderType :: ProviderType
  ze_ProviderZoneID :: string
  ze_AccountName :: string
  ze_AccountEnabled :: bool
  ze_ValidationStatus :: ValidationStatus
  ze_Name :: string
  ze_Status :: string
  ze_Metadata :: string
  ze_FetchedAt :: time
  ze_LastSeenAt :: time

definition zero_zone_entry :: zone_entry where
  "zero_zone_entry =
     \<lparr>ze_ID = nil_uuid, ze_ProviderAccountID = nil_uuid, ze_ProviderType = [], ze_ProviderZoneID = [],
      ze_AccountName = [], ze_AccountEnabled = False, ze_ValidationStatus = ValidationStatusNone, ze_Name = [],
      ze_Status = [], ze_Metadata = [], ze_FetchedAt = 0, ze_LastSeenAt = 0\<rparr>"

record actor =
  act_ID :: uuid
  act_Username :: string

record request_metadata =
  rm_RequestID :: string
  rm_IP :: string
  rm_UserAgent :: string

record zone_query =
  zq_Search :: string
  zq_ProviderType :: ProviderType
  zq_ProviderAccountID :: "uuid option"
  zq_Status :: string
  zq_Offset :: int
  zq_Limit :: int

record audit_query =
  aq_Actor :: string
  aq_Action :: string
  aq_DNSOnly :: bool
  aq_ProviderAccountID :: "uuid option"
  aq_ZoneID :: "uuid option"
  aq_Result :: "audit_result option"
  aq_From :: "time option"
  aq_To :: "time option"
  aq_Offset :: int
  aq_Limit :: int

datatype AuditVisibility = AuditVisibilityAll | AuditVisibilityDNS

section \<open>The repository interface\<close>

text \<open>
  The value a closure given to \<open>WithinTx\<close> leaves in the variables it captures: none, an account
  or a zone.
\<close>

datatype tx_value = TxDone | TxAccount provider_account | TxZone zone_entry

record 'w repository =
  rp_WithinTx :: "('w, tx_value) scall \<Rightarrow> ('w, tx_value) scall"
  rp_CreateProviderAccount :: "provider_account \<Rightarrow> credential_material option \<Rightarrow> ('w, unit) scall"
  rp_ListProviderAccounts :: "('w, provider_account list) scall"
  rp_GetProviderAccount :: "uuid \<Rightarrow> ('w, provider_account) scall"
  rp_GetProviderAccountCredential :: "uuid \<Rightarrow> ('w, provider_account \<times> credential_material) scall"
  rp_UpdateProviderAccount :: "uuid \<Rightarrow> time \<Rightarrow> account_changes \<Rightarrow> ('w, provider_account) scall"
  rp_ReplaceProviderAccountCredential :: "uuid \<Rightarrow> 64 word \<Rightarrow> credential_material \<Rightarrow> ('w, provider_account) scall"
  rp_SetProviderAccountValidation ::
    "uuid \<Rightarrow> 64 word \<Rightarrow> time \<Rightarrow> ValidationStatus \<Rightarrow> time \<Rightarrow> string \<Rightarrow> ('w, provider_account) scall"
  rp_DeleteProviderAccount :: "uuid \<Rightarrow> ('w, provider_account) scall"
  rp_ReplaceZoneIndex :: "uuid \<Rightarrow> 64 word \<Rightarrow> time \<Rightarrow> zone_entry list \<Rightarrow> time \<Rightarrow> ('w, unit) scall"
  rp_InvalidateZoneIndex :: "uuid \<Rightarrow> time \<Rightarrow> ('w, unit) scall"
  rp_MarkZoneDeleted :: "uuid \<Rightarrow> uuid \<Rightarrow> 64 word \<Rightarrow> time \<Rightarrow> time \<Rightarrow> ('w, unit) scall"
  rp_UpsertZoneIndex :: "uuid \<Rightarrow> 64 word \<Rightarrow> time \<Rightarrow> zone_entry \<Rightarrow> time \<Rightarrow> ('w, zone_entry) scall"
  rp_ListZones :: "zone_query \<Rightarrow> ('w, zone_entry list \<times> int) scall"
  rp_GetZone :: "uuid \<Rightarrow> ('w, zone_entry) scall"
  rp_InsertAuditEvent :: "audit_event \<Rightarrow> ('w, unit) scall"
  rp_ListAuditEvents :: "audit_query \<Rightarrow> ('w, audit_event list \<times> int) scall"
  rp_GetAuditEvent :: "uuid \<Rightarrow> ('w, audit_event) scall"

text \<open>What the services have beside the repository: the clock, fresh identifiers and the text tables.\<close>

record 'w service_env =
  se_repository :: "'w repository"
  se_now :: "'w \<Rightarrow> 'w \<times> time"
  se_NewV7 :: "'w \<Rightarrow> 'w \<times> uuid option"
  se_text :: text_env

definition now :: "'w service_env \<Rightarrow> ('w, time) scall" where
  "now V w = (case se_now V w of (w', t) \<Rightarrow> (w', Inr t))"

definition NewV7 :: "'w service_env \<Rightarrow> string \<Rightarrow> ('w, uuid) scall" where
  "NewV7 V message w =
     (case se_NewV7 V w of
        (w', None) \<Rightarrow> (w', Inl (ServiceFailure message)) | (w', Some u) \<Rightarrow> (w', Inr u))"

text \<open>\<open>time.Time.Sub\<close> saturates.\<close>

definition time_sub :: "time \<Rightarrow> time \<Rightarrow> duration" where
  "time_sub a b = max min_int64 (min max_int64 (a - b))"

end
