(* ===== verification/Record_Cache.thy ===== *)
theory Record_Cache
  imports Provider_Types
begin

text \<open>
  The cache of record sets of \<open>DNSService\<close> (\<open>internal/service/dns.go\<close>) and the contract that makes
  it safe: a fetch takes a generation, everything that makes its answer stale moves the generation
  on, and an answer is stored only while the generation is the one the fetch took. The contract is
  a locale, because the provider clients use the same scheme.
\<close>

section \<open>Answers guarded by a generation\<close>

text \<open>
  \<open>bump op s\<close> is how often \<open>op\<close> moves the generation on in \<open>s\<close>. Generations are 64-bit and
  wrap, so a late answer is refused as long as fewer than \<open>2 ^ 64\<close> bumps happened meanwhile.
\<close>

locale generation_guard =
  fixes gen :: "'s \<Rightarrow> 64 word"
    and step :: "'op \<Rightarrow> 's \<Rightarrow> 's"
    and bump :: "'op \<Rightarrow> 's \<Rightarrow> nat"
    and store :: "64 word \<Rightarrow> 'e \<Rightarrow> 's \<Rightarrow> 's"
    and held :: "'s \<Rightarrow> 'e option"
  assumes step_gen: "gen (step op s) = gen s + of_nat (bump op s)"
    and store_stale: "gen s \<noteq> g \<Longrightarrow> store g e s = s"
    and store_current: "gen s = g \<Longrightarrow> held (store g e s) = Some e \<and> gen (store g e s) = g"

context generation_guard
begin

fun run :: "'op list \<Rightarrow> 's \<Rightarrow> 's" where
  "run [] s = s"
| "run (op # ops) s = run ops (step op s)"

fun bumps :: "'op list \<Rightarrow> 's \<Rightarrow> nat" where
  "bumps [] s = 0"
| "bumps (op # ops) s = bump op s + bumps ops (step op s)"

lemma gen_run: "gen (run ops s) = gen s + of_nat (bumps ops s)"
  by (induction ops arbitrary: s) (simp_all add: step_gen add.assoc)

lemma moved_on:
  assumes "0 < bumps ops s" and "bumps ops s < 2 ^ 64"
  shows "gen (run ops s) \<noteq> gen s"
proof
  assume "gen (run ops s) = gen s"
  then have "of_nat (bumps ops s) = (0 :: 64 word)" by (simp add: gen_run)
  then have "2 ^ 64 dvd bumps ops s" by (simp add: word_of_nat_eq_0_iff)
  with assms show False by (auto dest: dvd_imp_le)
qed

lemma late_store_dropped:
  "0 < bumps ops s \<Longrightarrow> bumps ops s < 2 ^ 64 \<Longrightarrow> store (gen s) e (run ops s) = run ops s"
  using moved_on store_stale by blast

lemma timely_store_kept: "bumps ops s = 0 \<Longrightarrow> held (store (gen s) e (run ops s)) = Some e"
  using store_current gen_run by simp

end

section \<open>The cache\<close>

record record_cache_entry =
  ce_accountID :: uuid
  ce_accountUpdatedAt :: time
  ce_credentialRevision :: "64 word"
  ce_fetchedAt :: time
  ce_recordSets :: "record_set list"

record record_cache_state =
  cs_accountID :: uuid
  cs_entry :: record_cache_entry
  cs_generation :: "64 word"

type_synonym record_cache = "uuid \<rightharpoonup> record_cache_state"

definition zero_entry :: record_cache_entry where
  "zero_entry = \<lparr>ce_accountID = [], ce_accountUpdatedAt = 0, ce_credentialRevision = 0,
     ce_fetchedAt = 0, ce_recordSets = []\<rparr>"

text \<open>Go reads a missing key of a map as the zero value.\<close>

definition cache_state :: "record_cache \<Rightarrow> uuid \<Rightarrow> record_cache_state" where
  "cache_state c z =
     (case c z of Some s \<Rightarrow> s | None \<Rightarrow> \<lparr>cs_accountID = [], cs_entry = zero_entry, cs_generation = 0\<rparr>)"

definition forget_entry :: "record_cache_state \<Rightarrow> record_cache_state" where
  "forget_entry s = s\<lparr>cs_entry := zero_entry, cs_generation := cs_generation s + 1\<rparr>"

definition InvalidateZone :: "uuid \<Rightarrow> record_cache \<Rightarrow> record_cache" where
  "InvalidateZone z c = c(z \<mapsto> forget_entry (cache_state c z))"

definition InvalidateAccount :: "uuid \<Rightarrow> record_cache \<Rightarrow> record_cache" where
  "InvalidateAccount a c =
     (\<lambda>z. case c z of None \<Rightarrow> None
        | Some s \<Rightarrow> if cs_accountID s \<noteq> a then Some s else Some (forget_entry s))"

definition cachedRecordSets :: "uuid \<Rightarrow> uuid \<Rightarrow> 64 word \<Rightarrow> time \<Rightarrow> record_cache \<Rightarrow> record_cache_entry \<times> bool" where
  "cachedRecordSets z a revision updatedAt c =
     (let entry = cs_entry (cache_state c z)
      in (entry, ce_fetchedAt entry \<noteq> 0 \<and> ce_accountID entry = a \<and> ce_credentialRevision entry = revision
           \<and> ce_accountUpdatedAt entry = updatedAt))"

definition beginRecordFetch :: "uuid \<Rightarrow> uuid \<Rightarrow> record_cache \<Rightarrow> record_cache \<times> 64 word" where
  "beginRecordFetch z a c =
     (let s = cache_state c z;
          s' = s\<lparr>cs_accountID := a, cs_generation := cs_generation s + 1\<rparr>
      in (c(z \<mapsto> s'), cs_generation s'))"

definition storeRecordFetch :: "uuid \<Rightarrow> 64 word \<Rightarrow> record_cache_entry \<Rightarrow> record_cache \<Rightarrow> record_cache" where
  "storeRecordFetch z generation entry c =
     (let s = cache_state c z
      in if cs_generation s = generation then c(z \<mapsto> s\<lparr>cs_entry := entry\<rparr>) else c)"

section \<open>What other requests do meanwhile\<close>

datatype cache_op =
    OpInvalidateZone uuid | OpInvalidateAccount uuid | OpBegin uuid uuid
  | OpStore uuid "64 word" record_cache_entry

fun cache_step :: "cache_op \<Rightarrow> record_cache \<Rightarrow> record_cache" where
  "cache_step (OpInvalidateZone z) c = InvalidateZone z c"
| "cache_step (OpInvalidateAccount a) c = InvalidateAccount a c"
| "cache_step (OpBegin z a) c = fst (beginRecordFetch z a c)"
| "cache_step (OpStore z g e) c = storeRecordFetch z g e c"

definition cache_run :: "cache_op list \<Rightarrow> record_cache \<Rightarrow> record_cache" where
  "cache_run ops c = fold cache_step ops c"

definition cache_generation :: "uuid \<Rightarrow> record_cache \<Rightarrow> 64 word" where
  "cache_generation z c = cs_generation (cache_state c z)"

text \<open>Whether an operation makes what is known of a zone stale.\<close>

fun stale_after :: "uuid \<Rightarrow> cache_op \<Rightarrow> record_cache \<Rightarrow> bool" where
  "stale_after z (OpInvalidateZone z') c = (z' = z)"
| "stale_after z (OpInvalidateAccount a) c = (\<exists>s. c z = Some s \<and> cs_accountID s = a)"
| "stale_after z (OpBegin z' a) c = (z' = z)"
| "stale_after z (OpStore z' g e) c = False"

fun stale_steps :: "uuid \<Rightarrow> cache_op list \<Rightarrow> record_cache \<Rightarrow> nat" where
  "stale_steps z [] c = 0"
| "stale_steps z (op # ops) c = (if stale_after z op c then 1 else 0) + stale_steps z ops (cache_step op c)"

lemma cache_state_upd [simp]: "cache_state (c(z \<mapsto> s)) z' = (if z' = z then s else cache_state c z')"
  by (simp add: cache_state_def)

lemma cache_step_generation:
  "cache_generation z (cache_step op c) = cache_generation z c + of_nat (if stale_after z op c then 1 else 0)"
  by (cases op)
    (auto simp: cache_generation_def InvalidateZone_def InvalidateAccount_def beginRecordFetch_def
      storeRecordFetch_def forget_entry_def cache_state_def Let_def split: option.splits)

interpretation zone_cache: generation_guard "cache_generation z" cache_step
    "\<lambda>op c. if stale_after z op c then 1 else 0" "storeRecordFetch z"
    "\<lambda>c. Some (cs_entry (cache_state c z))" for z
  by unfold_locales
    (rule cache_step_generation, auto simp: storeRecordFetch_def cache_generation_def Let_def)

lemma zone_cache_run: "zone_cache.run ops c = cache_run ops c"
  by (induction ops arbitrary: c) (simp_all add: cache_run_def)

lemma zone_cache_bumps: "zone_cache.bumps z ops c = stale_steps z ops c"
  by (induction ops arbitrary: c) simp_all

text \<open>C25: A fetch that began before the zone, or its account, was invalidated, or before another fetch
  of the zone began, cannot store its answer: the cache is as if it had never come.\<close>

theorem late_fetch_dropped:
  assumes "beginRecordFetch z a c = (c1, g)"
    and "0 < stale_steps z ops c1" and "stale_steps z ops c1 < 2 ^ 64"
  shows "storeRecordFetch z g e (cache_run ops c1) = cache_run ops c1"
proof -
  from assms(1) have "g = cache_generation z c1"
    by (auto simp: beginRecordFetch_def cache_generation_def Let_def)
  with zone_cache.late_store_dropped [of z ops c1 e] assms(2,3) show ?thesis
    by (simp add: zone_cache_run zone_cache_bumps)
qed

lemma InvalidateZone_empty: "snd (cachedRecordSets z a r u (InvalidateZone z c)) = False"
  by (simp add: cachedRecordSets_def InvalidateZone_def forget_entry_def zero_entry_def)

text \<open>After \<open>InvalidateZone\<close> nothing is found in the cache for the zone until a fetch that began
  later stores its answer; after \<open>InvalidateAccount\<close> the same holds of every zone of the account.\<close>

theorem invalidation_empties:
  "\<not> snd (cachedRecordSets z a r u (InvalidateZone z c))
   \<and> (cs_accountID (cache_state c z) = a \<and> z \<in> dom c \<longrightarrow> \<not> snd (cachedRecordSets z a r u (InvalidateAccount a c)))
   \<and> (cs_accountID (cache_state c z) \<noteq> a \<longrightarrow> cache_state (InvalidateAccount a c) z = cache_state c z)"
proof (intro conjI impI)
  show "\<not> snd (cachedRecordSets z a r u (InvalidateZone z c))" by (simp add: InvalidateZone_empty)
qed (auto simp: cachedRecordSets_def InvalidateAccount_def forget_entry_def zero_entry_def
      cache_state_def Let_def split: option.splits)

theorem late_fetch_dropped_witness:
  "storeRecordFetch ''z'' (snd (beginRecordFetch ''z'' ''a'' Map.empty)) zero_entry
     (cache_run [OpInvalidateAccount ''a''] (fst (beginRecordFetch ''z'' ''a'' Map.empty)))
   = cache_run [OpInvalidateAccount ''a''] (fst (beginRecordFetch ''z'' ''a'' Map.empty))"
  using late_fetch_dropped [of "''z''" "''a''" Map.empty "fst (beginRecordFetch ''z'' ''a'' Map.empty)"
      "snd (beginRecordFetch ''z'' ''a'' Map.empty)" "[OpInvalidateAccount ''a'']" zero_entry]
  by (simp add: beginRecordFetch_def Let_def)

theorem invalidation_empties_witness:
  "\<not> snd (cachedRecordSets ''z'' ''a'' 1 2 (InvalidateAccount ''a''
       (storeRecordFetch ''z'' 1 (zero_entry\<lparr>ce_accountID := ''a'', ce_fetchedAt := 5\<rparr>)
         (fst (beginRecordFetch ''z'' ''a'' Map.empty)))))"
  by (rule invalidation_empties [THEN conjunct2, THEN conjunct1, THEN mp])
    (simp add: beginRecordFetch_def storeRecordFetch_def cache_state_def Let_def)

end
