(* ===== verification/Dns_Audit.thy ===== *)
theory Dns_Audit
  imports Service_Types Record_Json
begin

text \<open>
  The audit side of \<open>internal/service/dns.go\<close>: the data an event carries, how an event is made, and
  \<open>auditRecordSuccess\<close>, \<open>auditRecordFailure\<close> and \<open>auditZoneFailure\<close>. An event's data is a map of
  Go values, so the structures of \<open>types.go\<close> appear with their fields and tags.
\<close>

section \<open>Values of the provider types\<close>

definition tagged :: "string \<Rightarrow> string \<Rightarrow> any \<Rightarrow> struct_field \<times> any" where
  "tagged name tag v = (\<lparr>sf_Name = name, sf_Tag = tag, sf_Exported = True\<rparr>, v)"

definition any_ptr :: "('a \<Rightarrow> any) \<Rightarrow> 'a option \<Rightarrow> any" where
  "any_ptr f v = APtr (map_option f v)"

definition any_word :: "'a::len word \<Rightarrow> any" where
  "any_word x = ANum (uint x)"

definition any_set_extensions :: "record_set_extensions \<Rightarrow> any" where
  "any_set_extensions x = AStruct
     [tagged ''Cloudflare'' ''cloudflare,omitempty'' (any_ptr (\<lambda>c. AStruct
        [tagged ''Proxied'' ''proxied,omitempty'' (any_ptr ABool (cfs_Proxied c)),
         tagged ''Proxiable'' ''proxiable,omitempty'' (any_ptr ABool (cfs_Proxiable c)),
         tagged ''AutomaticTTL'' ''automatic_ttl,omitempty'' (any_ptr ABool (cfs_AutomaticTTL c)),
         tagged ''Comment'' ''comment,omitempty'' (AText (cfs_Comment c)),
         tagged ''Tags'' ''tags,omitempty'' (AList (map AText (cfs_Tags c)))]) (sx_Cloudflare x)),
      tagged ''Huawei'' ''huawei,omitempty'' (any_ptr (\<lambda>h. AStruct
        [tagged ''Status'' ''status,omitempty'' (AText (hws_Status h)),
         tagged ''ProviderStatus'' ''provider_status,omitempty'' (AText (hws_ProviderStatus h)),
         tagged ''Default'' ''default,omitempty'' (any_ptr ABool (hws_Default h))]) (sx_Huawei x)),
      tagged ''Aliyun'' ''aliyun,omitempty'' (any_ptr (\<lambda>a. AStruct
        [tagged ''Status'' ''status,omitempty'' (AText (als_Status a))]) (sx_Aliyun x)),
      tagged ''Tencent'' ''tencent,omitempty'' (any_ptr (\<lambda>t. AStruct
        [tagged ''Status'' ''status,omitempty'' (AText (tcs_Status t)),
         tagged ''Default'' ''default,omitempty'' (any_ptr ABool (tcs_Default t))]) (sx_Tencent x))]"

definition any_entry_extensions :: "record_entry_extensions \<Rightarrow> any" where
  "any_entry_extensions x = AStruct
     [tagged ''Cloudflare'' ''cloudflare,omitempty'' (any_ptr (\<lambda>_. AStruct []) (ex_Cloudflare x)),
      tagged ''Huawei'' ''huawei,omitempty'' (any_ptr (\<lambda>h. AStruct
        [tagged ''Line'' ''line,omitempty'' (AText (hwe_Line h)),
         tagged ''Weight'' ''weight,omitempty'' (any_ptr any_word (hwe_Weight h))]) (ex_Huawei x)),
      tagged ''Aliyun'' ''aliyun,omitempty'' (any_ptr (\<lambda>a. AStruct
        [tagged ''Line'' ''line,omitempty'' (AText (ale_Line a)),
         tagged ''Status'' ''status,omitempty'' (AText (ale_Status a)),
         tagged ''Weight'' ''weight,omitempty'' (any_ptr any_word (ale_Weight a)),
         tagged ''Remark'' ''remark,omitempty'' (AText (ale_Remark a))]) (ex_Aliyun x)),
      tagged ''Tencent'' ''tencent,omitempty'' (any_ptr (\<lambda>t. AStruct
        [tagged ''Line'' ''line,omitempty'' (AText (tce_Line t)),
         tagged ''LineID'' ''line_id,omitempty'' (AText (tce_LineID t)),
         tagged ''Weight'' ''weight,omitempty'' (any_ptr any_word (tce_Weight t)),
         tagged ''Status'' ''status,omitempty'' (AText (tce_Status t)),
         tagged ''Remark'' ''remark,omitempty'' (AText (tce_Remark t))]) (ex_Tencent x))]"

definition any_entry :: "record_entry \<Rightarrow> any" where
  "any_entry e = AStruct
     [tagged ''ID'' ''id,omitempty'' (AText (re_ID e)),
      tagged ''Value'' ''value,omitempty'' (AText (re_Value e)),
      tagged ''Priority'' ''priority,omitempty'' (any_ptr any_word (re_Priority e)),
      tagged ''Weight'' ''weight,omitempty'' (any_ptr any_word (re_Weight e)),
      tagged ''Port'' ''port,omitempty'' (any_ptr any_word (re_Port e)),
      tagged ''Target'' ''target,omitempty'' (any_ptr AText (re_Target e)),
      tagged ''Flags'' ''flags,omitempty'' (any_ptr any_word (re_Flags e)),
      tagged ''Tag'' ''tag,omitempty'' (any_ptr AText (re_Tag e)),
      tagged ''Extensions'' ''extensions,omitempty'' (any_entry_extensions (re_Extensions e))]"

fun status_string :: "ValidationStatus \<Rightarrow> string" where
  "status_string ValidationStatusNone = []"
| "status_string ValidationStatusUnconfigured = ''unconfigured''"
| "status_string ValidationStatusPending = ''pending''"
| "status_string ValidationStatusValid = ''valid''"
| "status_string ValidationStatusInvalid = ''invalid''"
| "status_string ValidationStatusError = ''error''"

section \<open>The data of an event\<close>

definition safeZoneData :: "zone_entry \<Rightarrow> any_map" where
  "safeZoneData z =
     [(''id'', AText (ze_ID z)), (''provider_account_id'', AText (ze_ProviderAccountID z)),
      (''provider_type'', AText (ze_ProviderType z)), (''name'', AText (ze_Name z)),
      (''status'', AText (ze_Status z)), (''metadata'', ARaw (ze_Metadata z)),
      (''fetched_at'', ATime (ze_FetchedAt z))]"

definition safeRecordSetData :: "record_set option \<Rightarrow> any_map" where
  "safeRecordSetData recordSet =
     (case recordSet of None \<Rightarrow> []
      | Some r \<Rightarrow>
          [(''id'', AText (rs_ID r)), (''name'', AText (rs_Name r)),
           (''type'', AText (record_type_string (rs_Type r))), (''ttl'', any_word (rs_TTL r)),
           (''entries'', AList (map any_entry (rs_Entries r))),
           (''extensions'', any_set_extensions (rs_Extensions r)),
           (''provider_version'', AText (rs_ProviderVersion r)), (''fingerprint'', AText (rs_Fingerprint r))])"

definition safeDesiredData :: "create_input option \<Rightarrow> any_map" where
  "safeDesiredData desired =
     (case desired of None \<Rightarrow> []
      | Some d \<Rightarrow>
          [(''name'', AText (ci_Name d)), (''type'', AText (record_type_string (ci_Type d))),
           (''ttl'', any_word (ci_TTL d)), (''entries'', AList (map any_entry (ci_Entries d))),
           (''extensions'', any_set_extensions (ci_Extensions d))])"

text \<open>
  \<open>encodeZoneMetadata\<close>; a nil slice of name servers is rendered as \<open>null\<close>, which a normalised zone
  never has: \<open>NormalizeZone\<close> makes a fresh slice. Marshalling these types does not fail.
\<close>

definition zone_extensions_json :: "zone_extensions \<Rightarrow> json" where
  "zone_extensions_json x = JObj
     (opt_field ''cloudflare'' (\<lambda>c. JObj (opt_field ''paused'' JBool (cfz_Paused c))) (zx_Cloudflare x)
      @ opt_field ''huawei'' (\<lambda>h. JObj (str_field ''zone_type'' (hwz_ZoneType h))) (zx_Huawei x)
      @ opt_field ''aliyun'' (\<lambda>a. JObj (str_field ''group_id'' (alz_GroupID a))) (zx_Aliyun x)
      @ opt_field ''tencent'' (\<lambda>t. JObj (str_field ''grade'' (tcz_Grade t))) (zx_Tencent x))"

definition encodeZoneMetadata :: "zone \<Rightarrow> string" where
  "encodeZoneMetadata z = json_render (JObj
     [(''nameservers'', JArr (map JStr (zone_Nameservers z))),
      (''extensions'', zone_extensions_json (zone_Extensions z))])"

section \<open>Events\<close>

definition providerErrorCode :: "service_error \<Rightarrow> string" where
  "providerErrorCode e =
     (if has_conflict e then error_code_string ErrConflict
      else (case as_provider_error e of
              Some p \<Rightarrow> error_code_string (pe_Code p)
            | None \<Rightarrow>
                (if root_error e \<in> {ErrUnsafeBatchOperation, ErrInvalidProviderInput, ErrInvalidCursor}
                 then error_code_string ErrValidation
                 else if root_error e = ErrProviderAccountDisabled then ''provider_account_disabled''
                 else ''internal'')))"

definition newDNSAuditEvent ::
  "'w service_env \<Rightarrow> actor \<Rightarrow> request_metadata \<Rightarrow> string \<Rightarrow> string \<Rightarrow> string \<Rightarrow> uuid \<Rightarrow> uuid option \<Rightarrow>
   audit_result \<Rightarrow> string \<Rightarrow> ('w, audit_event) scall" where
  "newDNSAuditEvent V actor md action resourceType resourceID accountID zoneID res errorCode =
     seq (NewV7 V ''generate DNS audit event ID'') (\<lambda>eventID.
     seq (now V) (\<lambda>t. give
       \<lparr>ev_ID = eventID, ev_OccurredAt = t,
        ev_ActorUserID = (if act_ID actor \<noteq> nil_uuid then Some (act_ID actor) else None),
        ev_ActorUsernameSnapshot = act_Username actor, ev_Action = action,
        ev_ResourceType = resourceType, ev_ResourceID = resourceID,
        ev_ProviderAccountID = Some accountID, ev_ZoneID = zoneID, ev_RequestID = rm_RequestID md,
        ev_IP = rm_IP md, ev_UserAgent = rm_UserAgent md, ev_Result = res, ev_ErrorCode = errorCode,
        ev_BeforeData = [], ev_AfterData = [], ev_Metadata = []\<rparr>))"

definition insert_event :: "'w service_env \<Rightarrow> audit_event \<Rightarrow> ('w, unit) scall" where
  "insert_event V event = rp_InsertAuditEvent (se_repository V) event"

definition auditRecordSuccess ::
  "'w service_env \<Rightarrow> actor \<Rightarrow> zone_entry \<Rightarrow> request_metadata \<Rightarrow> string \<Rightarrow> string \<Rightarrow>
   record_set option \<Rightarrow> record_set option \<Rightarrow> ('w, unit) scall" where
  "auditRecordSuccess V actor z md action recordSetID before after =
     seq (newDNSAuditEvent V actor md action ''recordset'' recordSetID (ze_ProviderAccountID z) (Some (ze_ID z))
           ResultSucceeded []) (\<lambda>event.
       insert_event V (event\<lparr>ev_BeforeData := safeRecordSetData before, ev_AfterData := safeRecordSetData after\<rparr>))"

text \<open>The end of both failure audits: the error that is returned carries the audit's own failure.\<close>

definition insert_failure :: "'w service_env \<Rightarrow> audit_event \<Rightarrow> service_error \<Rightarrow> ('w, 'a) scall" where
  "insert_failure V event operationErr =
     attempt (insert_event V event)
       (\<lambda>auditErr. reject (Wrapped operationErr
         (error_text operationErr @ ''; persist failed DNS audit: '' @ error_text auditErr)))
       (\<lambda>_. reject operationErr)"

definition auditRecordFailure ::
  "'w service_env \<Rightarrow> actor \<Rightarrow> zone_entry \<Rightarrow> request_metadata \<Rightarrow> string \<Rightarrow> string \<Rightarrow>
   record_set option \<Rightarrow> create_input option \<Rightarrow> service_error \<Rightarrow> ('w, 'a) scall" where
  "auditRecordFailure V actor z md action recordSetID before desired operationErr =
     attempt (newDNSAuditEvent V actor md action ''recordset'' recordSetID (ze_ProviderAccountID z)
               (Some (ze_ID z)) ResultFailed (providerErrorCode operationErr))
       (\<lambda>_. reject operationErr)
       (\<lambda>event. insert_failure V
          (event\<lparr>ev_BeforeData := safeRecordSetData before, ev_AfterData := safeDesiredData desired\<rparr>) operationErr)"

definition auditZoneFailure ::
  "'w service_env \<Rightarrow> actor \<Rightarrow> zone_entry \<Rightarrow> request_metadata \<Rightarrow> string \<Rightarrow> service_error \<Rightarrow> ('w, 'a) scall" where
  "auditZoneFailure V actor z md action operationErr =
     attempt (newDNSAuditEvent V actor md action ''zone'' (ze_ID z) (ze_ProviderAccountID z) (Some (ze_ID z))
               ResultFailed (providerErrorCode operationErr))
       (\<lambda>_. reject operationErr)
       (\<lambda>event. insert_failure V (event\<lparr>ev_BeforeData := safeZoneData z\<rparr>) operationErr)"

section \<open>What an audited operation leaves behind\<close>

text \<open>
  The last step of an operation inserted an event that records a success, or one that records a
  failure and its code.
\<close>

definition audited_success :: "'w service_env \<Rightarrow> string \<Rightarrow> string \<Rightarrow> uuid \<Rightarrow> any_map \<Rightarrow> any_map \<Rightarrow> 'w \<Rightarrow> bool" where
  "audited_success V action recordSetID zoneID before after w \<longleftrightarrow>
     (\<exists>w0 ev. insert_event V ev w0 = (w, Inr ()) \<and> ev_Result ev = ResultSucceeded \<and> ev_Action ev = action
        \<and> ev_ResourceID ev = recordSetID \<and> ev_ZoneID ev = Some zoneID
        \<and> ev_BeforeData ev = before \<and> ev_AfterData ev = after)"

definition failure_event :: "string \<Rightarrow> string \<Rightarrow> service_error \<Rightarrow> audit_event \<Rightarrow> bool" where
  "failure_event action resourceID e ev \<longleftrightarrow>
     ev_Result ev = ResultFailed \<and> ev_Action ev = action \<and> ev_ResourceID ev = resourceID
     \<and> ev_ErrorCode ev = providerErrorCode e"

inductive audited_failure :: "'w service_env \<Rightarrow> string \<Rightarrow> string \<Rightarrow> service_error \<Rightarrow> 'w \<Rightarrow> bool" where
  failure_inserted: "insert_event V ev w0 = (w, Inr ()) \<Longrightarrow> failure_event action rid e ev \<Longrightarrow>
     audited_failure V action rid e w"
| failure_not_inserted: "insert_event V ev w0 = (w, Inl ae) \<Longrightarrow> failure_event action rid e ev \<Longrightarrow>
     audited_failure V action rid (Wrapped e m) w"
| failure_without_id: "se_NewV7 V w0 = (w, None) \<Longrightarrow> audited_failure V action rid e w"

lemma newDNSAuditEvent_Inr:
  "newDNSAuditEvent V a md act rt rid acc z res code w = (w', Inr ev) \<Longrightarrow>
     ev_Result ev = res \<and> ev_Action ev = act \<and> ev_ResourceType ev = rt \<and> ev_ResourceID ev = rid \<and> ev_ZoneID ev = z
     \<and> ev_ErrorCode ev = code \<and> ev_ProviderAccountID ev = Some acc \<and> ev_ActorUsernameSnapshot ev = act_Username a"
  by (auto simp: newDNSAuditEvent_def call_result)

lemma newDNSAuditEvent_Inl:
  "newDNSAuditEvent V a md act rt rid acc z res code w = (w', Inl e) \<Longrightarrow> se_NewV7 V w = (w', None)"
  by (auto simp: newDNSAuditEvent_def call_result now_def NewV7_def split: prod.splits option.splits)

lemma auditRecordSuccess_Inr:
  assumes "auditRecordSuccess V a z md act rid before after w = (w', Inr u)"
  shows "audited_success V act rid (ze_ID z) (safeRecordSetData before) (safeRecordSetData after) w'"
proof -
  from assms obtain w1 ev where "newDNSAuditEvent V a md act ''recordset'' rid (ze_ProviderAccountID z) (Some (ze_ID z))
        ResultSucceeded [] w = (w1, Inr ev)"
    and "insert_event V (ev\<lparr>ev_BeforeData := safeRecordSetData before, ev_AfterData := safeRecordSetData after\<rparr>) w1
      = (w', Inr ())"
    by (auto simp: auditRecordSuccess_def seq_result)
  with newDNSAuditEvent_Inr show ?thesis
    unfolding audited_success_def by (intro exI conjI) (assumption | fastforce)+
qed

lemma insert_failure_Inl:
  assumes "insert_failure V ev e0 w = (w', r)" and "failure_event act rid e0 ev"
  shows "\<exists>e. r = Inl e \<and> audited_failure V act rid e w' \<and> (e = e0 \<or> (\<exists>m. e = Wrapped e0 m))"
  using assms by (auto simp: insert_failure_def attempt_result intro: audited_failure.intros)

lemma auditRecordFailure_Inl:
  assumes "auditRecordFailure V a z md act rid before desired e0 w = (w', r)"
  shows "\<exists>e. r = Inl e \<and> audited_failure V act rid e w' \<and> (e = e0 \<or> (\<exists>m. e = Wrapped e0 m))"
  using assms unfolding auditRecordFailure_def attempt_result
proof (elim disjE exE conjE)
  fix w1 e
  assume "newDNSAuditEvent V a md act ''recordset'' rid (ze_ProviderAccountID z) (Some (ze_ID z)) ResultFailed
      (providerErrorCode e0) w = (w1, Inl e)" and "reject e0 w1 = (w', r)"
  then show ?thesis by (auto dest!: newDNSAuditEvent_Inl intro: failure_without_id)
next
  fix w1 ev
  assume new: "newDNSAuditEvent V a md act ''recordset'' rid (ze_ProviderAccountID z) (Some (ze_ID z)) ResultFailed
      (providerErrorCode e0) w = (w1, Inr ev)"
    and ins: "insert_failure V (ev\<lparr>ev_BeforeData := safeRecordSetData before, ev_AfterData := safeDesiredData desired\<rparr>) e0 w1
      = (w', r)"
  from newDNSAuditEvent_Inr [OF new] insert_failure_Inl [OF ins] show ?thesis
    by (simp add: failure_event_def)
qed

lemma auditRecordFailure_not_Inr [simp]:
  "auditRecordFailure V a z md act rid before desired e0 w = (w', Inr x) \<longleftrightarrow> False"
  by (auto dest: auditRecordFailure_Inl)

lemma auditZoneFailure_not_Inr [simp]:
  "auditZoneFailure V a z md act e0 w = (w', Inr x) \<longleftrightarrow> False"
  by (auto simp: auditZoneFailure_def insert_failure_def call_result)

text \<open>Wrapping does not change the code an error is audited with.\<close>

lemma providerErrorCode_simps [simp]:
  "providerErrorCode (Wrapped e m) = providerErrorCode e
   \<and> providerErrorCode (RecordConflictError e c p) = ''conflict''
   \<and> providerErrorCode (Upstream (ProviderErr q)) = error_code_string (pe_Code q)"
  by (simp add: providerErrorCode_def as_provider_error_def)

end
