(* ===== verification/Dns_Reads.thy ===== *)
theory Dns_Reads
  imports Dns_Audit Record_Cache
begin

text \<open>
  The reading side of \<open>DNSService\<close> in \<open>internal/service/dns.go\<close>: zones, record sets with their cache,
  the walk over the pages of a provider, the pages of the API and audit events. The state of the
  service is its cache and the world it shares with the rest of the program.
\<close>

section \<open>The service\<close>

record 'w dns_service =
  dv_env :: "'w service_env"
  dv_clients_Get :: "uuid \<Rightarrow> ('w, 'w provider \<times> provider_account) scall"
  dv_recordCacheTTL :: duration
  dv_zoneStaleAfter :: duration

record 'w dns_state =
  ds_cache :: record_cache
  ds_world :: 'w

definition second :: duration where "second = 1000000000"

definition defaultRecordCacheTTL :: duration where "defaultRecordCacheTTL = 30 * second"

definition defaultZoneStaleAfter :: duration where "defaultZoneStaleAfter = 5 * 60 * second"

definition NewDNSService ::
  "'w service_env \<Rightarrow> (uuid \<Rightarrow> ('w, 'w provider \<times> provider_account) scall) \<Rightarrow> 'w \<Rightarrow> 'w dns_service \<times> 'w dns_state" where
  "NewDNSService V clientsGet w =
     (\<lparr>dv_env = V, dv_clients_Get = clientsGet, dv_recordCacheTTL = defaultRecordCacheTTL,
       dv_zoneStaleAfter = defaultZoneStaleAfter\<rparr>, \<lparr>ds_cache = Map.empty, ds_world = w\<rparr>)"

text \<open>A call that works on the world, and a change of the cache.\<close>

definition lift :: "('w, 'a) scall \<Rightarrow> ('w dns_state, 'a) scall" where
  "lift m s = (case m (ds_world s) of (w, r) \<Rightarrow> (s\<lparr>ds_world := w\<rparr>, r))"

definition in_cache :: "(record_cache \<Rightarrow> record_cache \<times> 'a) \<Rightarrow> ('w dns_state, 'a) scall" where
  "in_cache f s = (case f (ds_cache s) of (c, x) \<Rightarrow> (s\<lparr>ds_cache := c\<rparr>, Inr x))"

definition dns_invalidate :: "uuid \<Rightarrow> ('w dns_state, unit) scall" where
  "dns_invalidate z = in_cache (\<lambda>c. (InvalidateZone z c, ()))"

lemma lift_result [call_result]:
  "lift m s = (s', r) \<longleftrightarrow> (\<exists>w. m (ds_world s) = (w, r) \<and> s' = s\<lparr>ds_world := w\<rparr>)"
  by (auto simp: lift_def split: prod.splits)

lemma in_cache_result [call_result]:
  "in_cache f s = (s', r) \<longleftrightarrow> (\<exists>c x. f (ds_cache s) = (c, x) \<and> s' = s\<lparr>ds_cache := c\<rparr> \<and> r = Inr x)"
  by (auto simp: in_cache_def split: prod.splits)

section \<open>Zones\<close>

record zone_list_input =
  zl_Search :: string
  zl_ProviderType :: ProviderType
  zl_ProviderAccountID :: "uuid option"
  zl_Status :: string
  zl_Cursor :: string
  zl_Limit :: int

record 'a service_page =
  sp_Items :: "'a list"
  sp_NextCursor :: string
  sp_Total :: int

definition of_page_error :: "page_error \<Rightarrow> service_error" where
  "of_page_error e = (case e of ErrInvalidLimit \<Rightarrow> ErrInvalidProviderInput | Pagination.ErrInvalidCursor \<Rightarrow> ErrInvalidCursor)"

definition page_bounds :: "string \<Rightarrow> string \<Rightarrow> int \<Rightarrow> ('w, int \<times> int) scall" where
  "page_bounds scope cursor limit w =
     (case normalizePage scope cursor limit of Inl e \<Rightarrow> (w, Inl (of_page_error e)) | Inr b \<Rightarrow> (w, Inr b))"

definition ListZones :: "'w dns_service \<Rightarrow> zone_list_input \<Rightarrow> ('w, zone_entry service_page) scall" where
  "ListZones D input =
     seq (page_bounds ''zones'' (zl_Cursor input) (zl_Limit input)) (\<lambda>(limit, offset).
     seq (rp_ListZones (se_repository (dv_env D))
           \<lparr>zq_Search = trim_space (zl_Search input), zq_ProviderType = zl_ProviderType input,
            zq_ProviderAccountID = zl_ProviderAccountID input, zq_Status = trim_space (zl_Status input),
            zq_Offset = offset, zq_Limit = limit\<rparr>) (\<lambda>(zs, totalCount).
     give \<lparr>sp_Items = zs, sp_NextCursor = nextCursor ''zones'' offset (int (length zs)) totalCount,
           sp_Total = totalCount\<rparr>))"

definition GetZone :: "'w dns_service \<Rightarrow> uuid \<Rightarrow> ('w, zone_entry) scall" where
  "GetZone D z = rp_GetZone (se_repository (dv_env D)) z"

text \<open>\<open>ZoneStale\<close>; the clock is read only when the zone has been fetched.\<close>

definition ZoneStale :: "'w dns_service \<Rightarrow> zone_entry \<Rightarrow> ('w, bool) scall" where
  "ZoneStale D z =
     (if ze_FetchedAt z = 0 then give True
      else seq (now (dv_env D)) (\<lambda>t. give (time_sub t (ze_FetchedAt z) > dv_zoneStaleAfter D)))"

section \<open>One record set\<close>

definition getCurrentRecordSet ::
  "'w dns_service \<Rightarrow> 'w provider \<Rightarrow> zone_entry \<Rightarrow> string \<Rightarrow> ('w, record_set) scall" where
  "getCurrentRecordSet D client z recordSetID =
     seq (mapped ''get_record_set'' (pv_GetRecordSet client (ze_ProviderZoneID z) recordSetID)) (\<lambda>current.
     of_result ErrUpstream ''normalize_record_set'' (NormalizeRecordSet (se_text (dv_env D)) (ze_Name z) current))"

definition GetRecordSet :: "'w dns_service \<Rightarrow> uuid \<Rightarrow> string \<Rightarrow> ('w, record_set) scall" where
  "GetRecordSet D zoneID recordSetID =
     seq (GetZone D zoneID) (\<lambda>z.
     seq (dv_clients_Get D (ze_ProviderAccountID z)) (\<lambda>(client, _).
     getCurrentRecordSet D client z recordSetID))"

section \<open>All record sets of a zone\<close>

definition recordReadPageLimit :: int where "recordReadPageLimit = 200"

definition maximumRecordPages :: nat where "maximumRecordPages = 10000"

text \<open>
  The loop over the items of a page. \<open>seenIDs\<close> always holds the IDs of the record sets collected so
  far, so the list stands for both.
\<close>

fun add_items :: "text_env \<Rightarrow> string \<Rightarrow> record_set list \<Rightarrow> record_set list \<Rightarrow> service_error + record_set list" where
  "add_items E zoneName acc [] = Inr acc"
| "add_items E zoneName acc (r # rs) =
     (case NormalizeRecordSet E zoneName r of
        Inl m \<Rightarrow> Inl (new_error ErrUpstream ''normalize_record_set'' m)
      | Inr n \<Rightarrow>
          if rs_ID n \<in> set (map rs_ID acc)
          then Inl (new_error ErrUpstream ''list_record_sets'' ''provider returned duplicate record set IDs'')
          else add_items E zoneName (acc @ [n]) rs)"

fun fetch_pages ::
  "text_env \<Rightarrow> 'w provider \<Rightarrow> zone_entry \<Rightarrow> nat \<Rightarrow> string \<Rightarrow> string list \<Rightarrow> record_set list \<Rightarrow> ('w, record_set list) scall" where
  "fetch_pages E client z 0 cursor seenCursors acc =
     reject (new_error ErrUpstream ''list_record_sets'' ''provider record pagination exceeded the safety limit'')"
| "fetch_pages E client z (Suc n) cursor seenCursors acc =
     (let request = \<lparr>pr_Cursor = cursor, pr_Limit = recordReadPageLimit\<rparr> in
      seq (mapped ''list_record_sets'' (pv_ListRecordSets client (ze_ProviderZoneID z) request)) (\<lambda>page.
      seq (of_result ErrUpstream ''list_record_sets'' (ValidatePage request page)) (\<lambda>_.
      case add_items E (ze_Name z) acc (pg_Items page) of
        Inl e \<Rightarrow> reject e
      | Inr acc' \<Rightarrow>
          if pg_NextCursor page = [] then give acc'
          else if pg_NextCursor page \<in> set seenCursors
          then reject (new_error ErrUpstream ''list_record_sets'' ''provider pagination cursor cycled'')
          else fetch_pages E client z n (pg_NextCursor page) (pg_NextCursor page # seenCursors) acc')))"

definition fetchAllRecordSets :: "'w dns_service \<Rightarrow> 'w provider \<Rightarrow> zone_entry \<Rightarrow> ('w, record_set list) scall" where
  "fetchAllRecordSets D client z = fetch_pages (se_text (dv_env D)) client z maximumRecordPages [] [] []"

text \<open>
  The pages a provider answers with, each asked for with the cursor of the one before and each
  valid for its request, up to the one without a cursor.
\<close>

inductive page_chain :: "int \<Rightarrow> (page_request \<Rightarrow> ('w, 'i page) call) \<Rightarrow> 'w \<Rightarrow> string \<Rightarrow> 'i page list \<Rightarrow> 'w \<Rightarrow> bool"
  for limit :: int and ask :: "page_request \<Rightarrow> ('w, 'i page) call" where
  chain_last: "ask \<lparr>pr_Cursor = cursor, pr_Limit = limit\<rparr> w = (w', Inr page) \<Longrightarrow>
     ValidatePage \<lparr>pr_Cursor = cursor, pr_Limit = limit\<rparr> page = Inr () \<Longrightarrow> pg_NextCursor page = [] \<Longrightarrow>
     page_chain limit ask w cursor [page] w'"
| chain_more: "ask \<lparr>pr_Cursor = cursor, pr_Limit = limit\<rparr> w = (w1, Inr page) \<Longrightarrow>
     ValidatePage \<lparr>pr_Cursor = cursor, pr_Limit = limit\<rparr> page = Inr () \<Longrightarrow> pg_NextCursor page \<noteq> [] \<Longrightarrow>
     page_chain limit ask w1 (pg_NextCursor page) pages w' \<Longrightarrow>
     page_chain limit ask w cursor (page # pages) w'"

inductive_cases page_chain_ConsE: "page_chain limit ask w cursor (page # pages) w'"
inductive_cases page_chain_NilE: "page_chain limit ask w cursor [] w'"

definition page_items :: "'i page list \<Rightarrow> 'i list" where
  "page_items pages = concat (map pg_Items pages)"

definition page_cursors :: "'i page list \<Rightarrow> string list" where
  "page_cursors pages = filter (\<lambda>c. c \<noteq> []) (map pg_NextCursor pages)"

lemma page_parts [simp]:
  "page_items [] = []" "page_items (p # ps) = pg_Items p @ page_items ps"
  "page_cursors [] = []"
  "page_cursors (p # ps) = (if pg_NextCursor p = [] then page_cursors ps else pg_NextCursor p # page_cursors ps)"
  by (simp_all add: page_items_def page_cursors_def)

definition normalized_as :: "text_env \<Rightarrow> string \<Rightarrow> record_set list \<Rightarrow> record_set list \<Rightarrow> bool" where
  "normalized_as E zn rs ns \<longleftrightarrow> list_all2 (\<lambda>r n. NormalizeRecordSet E zn r = Inr n) rs ns"

lemma add_items_Inr:
  "distinct (map rs_ID acc) \<Longrightarrow> add_items E zn acc rs = Inr acc' \<longleftrightarrow>
     (\<exists>ns. normalized_as E zn rs ns \<and> acc' = acc @ ns \<and> distinct (map rs_ID acc'))"
proof (induction rs arbitrary: acc)
  case Nil
  then show ?case by (auto simp: normalized_as_def)
next
  case (Cons r rs)
  show ?case
  proof (cases "NormalizeRecordSet E zn r")
    case (Inl e)
    then show ?thesis by (auto simp: normalized_as_def list_all2_Cons1)
  next
    case (Inr n)
    show ?thesis
    proof (cases "rs_ID n \<in> set (map rs_ID acc)")
      case True
      with Inr show ?thesis by (auto simp: normalized_as_def list_all2_Cons1)
    next
      case False
      with Cons.prems have d: "distinct (map rs_ID (acc @ [n]))" by auto
      with Inr False Cons.IH [OF d] show ?thesis
        by (auto simp: normalized_as_def list_all2_Cons1)
    qed
  qed
qed

abbreviation list_pages :: "'w provider \<Rightarrow> zone_entry \<Rightarrow> page_request \<Rightarrow> ('w, record_set page) call" where
  "list_pages client z \<equiv> pv_ListRecordSets client (ze_ProviderZoneID z)"

lemma fetch_pages_Inr:
  assumes "distinct (map rs_ID acc)" and "distinct seen"
  shows "fetch_pages E client z n cursor seen acc w = (w', Inr rs) \<longleftrightarrow>
     (\<exists>pages ns. page_chain recordReadPageLimit (list_pages client z) w cursor pages w' \<and> length pages \<le> n
        \<and> normalized_as E (ze_Name z) (page_items pages) ns \<and> rs = acc @ ns \<and> distinct (map rs_ID rs)
        \<and> distinct (page_cursors pages @ seen))"
  using assms
proof (induction n arbitrary: cursor seen acc w)
  case 0
  then show ?case by (auto elim: page_chain_NilE)
next
  case (Suc n)
  let ?req = "\<lparr>pr_Cursor = cursor, pr_Limit = recordReadPageLimit\<rparr>"
  show ?case (is "?L \<longleftrightarrow> ?R")
  proof
    assume ?L
    then obtain w1 page where page: "list_pages client z ?req w = (w1, Inr page)"
        "ValidatePage ?req page = Inr ()"
      and tail: "(case add_items E (ze_Name z) acc (pg_Items page) of Inl e \<Rightarrow> reject e
        | Inr acc' \<Rightarrow>
            if pg_NextCursor page = [] then give acc'
            else if pg_NextCursor page \<in> set seen
            then reject (new_error ErrUpstream ''list_record_sets'' ''provider pagination cursor cycled'')
            else fetch_pages E client z n (pg_NextCursor page) (pg_NextCursor page # seen) acc') w1 = (w', Inr rs)"
      by (auto simp: Let_def seq_result mapped_Inr of_result_Inr)
    from tail obtain acc' where items: "add_items E (ze_Name z) acc (pg_Items page) = Inr acc'"
      by (cases "add_items E (ze_Name z) acc (pg_Items page)") auto
    with tail have rest: "if pg_NextCursor page = [] then w' = w1 \<and> rs = acc'
        else pg_NextCursor page \<notin> set seen
          \<and> fetch_pages E client z n (pg_NextCursor page) (pg_NextCursor page # seen) acc' w1 = (w', Inr rs)"
      by (auto split: if_splits)
    from add_items_Inr [OF Suc.prems(1)] items obtain ms where
      ms: "normalized_as E (ze_Name z) (pg_Items page) ms" "acc' = acc @ ms" "distinct (map rs_ID acc')" by blast
    show ?R
    proof (cases "pg_NextCursor page = []")
      case True
      with rest page ms Suc.prems show ?thesis
        by (intro exI [of _ "[page]"] exI [of _ ms]) (auto intro: chain_last)
    next
      case False
      with rest Suc.IH [OF ms(3), of "pg_NextCursor page # seen" "pg_NextCursor page" w1] Suc.prems(2)
      obtain pages ns where more: "page_chain recordReadPageLimit (list_pages client z) w1 (pg_NextCursor page) pages w'"
          "length pages \<le> n" "normalized_as E (ze_Name z) (page_items pages) ns" "rs = acc' @ ns"
          "distinct (map rs_ID rs)" "distinct (page_cursors pages @ pg_NextCursor page # seen)"
        by auto
      from page False more(1) have "page_chain recordReadPageLimit (list_pages client z) w cursor (page # pages) w'"
        by (auto intro: chain_more)
      moreover have "normalized_as E (ze_Name z) (page_items (page # pages)) (ms @ ns)"
        using ms(1) more(3) by (simp add: normalized_as_def list_all2_appendI)
      ultimately show ?thesis
        using more ms False by (intro exI [of _ "page # pages"] exI [of _ "ms @ ns"]) auto
    qed
  next
    assume ?R
    then obtain pages ns where R: "page_chain recordReadPageLimit (list_pages client z) w cursor pages w'"
        "length pages \<le> Suc n" "normalized_as E (ze_Name z) (page_items pages) ns" "rs = acc @ ns"
        "distinct (map rs_ID rs)" "distinct (page_cursors pages @ seen)" by blast
    from R(1) show ?L
    proof (cases rule: page_chain.cases)
      case (chain_last page)
      with R(3,4,5) add_items_Inr [OF Suc.prems(1)] have "add_items E (ze_Name z) acc (pg_Items page) = Inr rs" by auto
      with chain_last show ?thesis by (simp add: Let_def call_result)
    next
      case (chain_more w1 page ps)
      from R(3) chain_more(1) obtain ms ks where split: "ns = ms @ ks"
          "normalized_as E (ze_Name z) (pg_Items page) ms" "normalized_as E (ze_Name z) (page_items ps) ks"
        by (auto simp: normalized_as_def list_all2_append1)
      with R(4,5) have d: "distinct (map rs_ID (acc @ ms))" by auto
      with split add_items_Inr [OF Suc.prems(1)] have items: "add_items E (ze_Name z) acc (pg_Items page) = Inr (acc @ ms)" by blast
      from R(6) chain_more(1,4) have "distinct (pg_NextCursor page # seen)" "pg_NextCursor page \<notin> set seen"
        "distinct (page_cursors ps @ pg_NextCursor page # seen)" by auto
      moreover from R(2) chain_more(1) have "length ps \<le> n" by simp
      ultimately have "fetch_pages E client z n (pg_NextCursor page) (pg_NextCursor page # seen) (acc @ ms) w1 = (w', Inr rs)"
        using Suc.IH [OF d] chain_more(5) R(4,5) split by auto
      with chain_more items \<open>pg_NextCursor page \<notin> set seen\<close> show ?thesis
        by (auto simp: Let_def call_result)
    qed
  qed
qed

text \<open>\<open>fetchAllRecordSets\<close> returns record sets exactly when the provider answers a chain of at most 10000
  valid pages without repeating a cursor, every item can be normalised and no ID occurs twice; the result is
  then all items of all pages, normalised, in order.\<close>

theorem fetchAllRecordSets_iff:
  "fetchAllRecordSets D client z w = (w', Inr rs) \<longleftrightarrow>
     (\<exists>pages. page_chain recordReadPageLimit (list_pages client z) w [] pages w'
        \<and> length pages \<le> maximumRecordPages \<and> distinct (page_cursors pages)
        \<and> normalized_as (se_text (dv_env D)) (ze_Name z) (page_items pages) rs \<and> distinct (map rs_ID rs))"
  unfolding fetchAllRecordSets_def by (subst fetch_pages_Inr) auto

section \<open>Pages of the API\<close>

record record_list_input =
  rl_Search :: string
  rl_Type :: RecordType
  rl_Cursor :: string
  rl_Limit :: int
  rl_Refresh :: bool

record record_set_page =
  rp_Items :: "record_set list"
  rp_NextCursor :: string
  rp_Total :: int
  rp_FetchedAt :: time
  rp_Stale :: bool
  rp_Warning :: "service_error option"

definition recordSetMatches :: "text_env \<Rightarrow> record_set \<Rightarrow> string \<Rightarrow> bool" where
  "recordSetMatches E r search =
     (let lower = to_lower (unicode_lower E) in
      if contains (lower (rs_Name r)) search \<or> contains (lower (record_type_string (rs_Type r))) search then True
      else list_ex (\<lambda>e. contains (lower (re_Value e)) search
             \<or> (case re_Target e of None \<Rightarrow> False | Some target \<Rightarrow> contains (lower target) search)) (rs_Entries r))"

definition filter_record_sets :: "text_env \<Rightarrow> record_list_input \<Rightarrow> record_set list \<Rightarrow> record_set list" where
  "filter_record_sets E input rs =
     (let search = to_lower (unicode_lower E) (trim_space (rl_Search input)) in
      filter (\<lambda>r. (record_type_string (rl_Type input) = [] \<or> record_type_string (rs_Type r) = record_type_string (rl_Type input))
               \<and> (search = [] \<or> recordSetMatches E r search)) rs)"

definition paginateRecordSets ::
  "text_env \<Rightarrow> record_set list \<Rightarrow> record_list_input \<Rightarrow> string \<Rightarrow> int \<Rightarrow> int \<Rightarrow> time \<Rightarrow> bool \<Rightarrow> service_error option \<Rightarrow> record_set_page" where
  "paginateRecordSets E recordSets input scope limit offset fetchedAt stale warning =
     (let filtered = filter_record_sets E input recordSets;
          totalCount = int (length filtered);
          items = page_slice filtered (nat offset) (nat limit)
      in \<lparr>rp_Items = items, rp_NextCursor = nextCursor scope offset (int (length items)) totalCount,
          rp_Total = totalCount, rp_FetchedAt = fetchedAt, rp_Stale = stale, rp_Warning = warning\<rparr>)"

text \<open>A client that follows the cursors of a listing, for at most \<open>n\<close> further pages.\<close>

fun follow_cursors ::
  "nat \<Rightarrow> text_env \<Rightarrow> record_set list \<Rightarrow> record_list_input \<Rightarrow> string \<Rightarrow> string \<Rightarrow> record_set list option" where
  "follow_cursors n E rs input scope cursor =
     (case normalizePage scope cursor (rl_Limit input) of Inl _ \<Rightarrow> None
      | Inr (limit, offset) \<Rightarrow>
          (let p = paginateRecordSets E rs input scope limit offset 0 False None in
           if rp_NextCursor p = [] then Some (rp_Items p)
           else (case n of 0 \<Rightarrow> None
                 | Suc m \<Rightarrow> map_option (append (rp_Items p)) (follow_cursors m E rs input scope (rp_NextCursor p)))))"

declare follow_cursors.simps [simp del]

lemma filter_record_sets_length: "length (filter_record_sets E input rs) \<le> length rs"
  by (simp add: filter_record_sets_def Let_def)

lemma follow_from:
  assumes "length scope \<le> 108" and "int (length rs) \<le> max_int64"
    and "normalizePage scope [] (rl_Limit input) = Inr (limit, 0)"
    and "normalizePage scope cursor (rl_Limit input) = Inr (limit, int offset)"
    and "length (filter_record_sets E input rs) \<le> offset + n"
  shows "follow_cursors n E rs input scope cursor = Some (drop offset (filter_record_sets E input rs))"
  using assms(4,5)
proof (induction n arbitrary: cursor offset)
  case 0
  let ?f = "filter_record_sets E input rs"
  from "0.prems" have "int offset \<le> max_int64" using normalizePage_bounds by blast
  then have "add_int64 (int offset) 0 = int offset"
    using add_int64_exact [of "int offset" 0] by (simp add: min_int64_def)
  then show ?case using "0.prems"
    by (subst follow_cursors.simps) (simp add: paginateRecordSets_def Let_def page_slice_eq nextCursor_empty_iff)
next
  case (Suc n)
  let ?f = "filter_record_sets E input rs"
  let ?items = "take (nat limit) (drop offset ?f)"
  let ?next = "nextCursor scope (int offset) (int (length ?items)) (int (length ?f))"
  from Suc.prems(1) have off: "int offset \<le> max_int64" and lim: "1 \<le> limit" using normalizePage_bounds by blast+
  have len: "int (length ?f) \<le> max_int64"
    using assms(2) filter_record_sets_length [of E input rs] by linarith
  have page: "paginateRecordSets E rs input scope limit (int offset) 0 False None =
      \<lparr>rp_Items = ?items, rp_NextCursor = ?next, rp_Total = int (length ?f), rp_FetchedAt = 0, rp_Stale = False, rp_Warning = None\<rparr>"
    by (simp add: paginateRecordSets_def Let_def page_slice_eq)
  show ?case
  proof (cases "offset + nat limit < length ?f")
    case True
    then have l: "length ?items = nat limit" by simp
    have lt: "int offset + int (length ?items) < int (length ?f)" using True l lim by simp
    have next_off: "normalizePage scope ?next (rl_Limit input) = Inr (limit, int (offset + nat limit))"
      using cursor_round_trip [OF assms(1) _ _ lt len assms(3)] l by simp
    have "min_int64 \<le> int offset + int (length ?items)" "int offset + int (length ?items) \<le> max_int64"
      using lt len by (simp add: min_int64_def, linarith)
    then have "add_int64 (int offset) (int (length ?items)) = int offset + int (length ?items)"
      by (rule add_int64_exact)
    with lt have "\<not> int (length ?f) \<le> add_int64 (int offset) (int (length ?items))" by linarith
    then have "?next \<noteq> []" unfolding nextCursor_empty_iff .
    moreover have "length ?f \<le> offset + nat limit + n" using Suc.prems(2) lim by linarith
    then have "follow_cursors n E rs input scope ?next = Some (drop (offset + nat limit) ?f)"
      using Suc.IH [OF next_off] by simp
    moreover have "?items @ drop (offset + nat limit) ?f = drop offset ?f"
      by (metis add.commute append_take_drop_id drop_drop)
    ultimately show ?thesis
      by (subst follow_cursors.simps) (simp add: Suc.prems(1) page)
  next
    case False
    then have items: "?items = drop offset ?f" by simp
    have "int (length ?f) \<le> add_int64 (int offset) (int (length ?items))"
    proof (cases "offset \<le> length ?f")
      case True
      with items len have "add_int64 (int offset) (int (length ?items)) = int offset + int (length ?items)"
        by (intro add_int64_exact) (simp_all add: min_int64_def)
      with True items show ?thesis by simp
    next
      case False
      then have "length ?items = 0" by simp
      with off have "add_int64 (int offset) (int (length ?items)) = int offset"
        by (subst add_int64_exact) (simp_all add: min_int64_def)
      with False show ?thesis by simp
    qed
    then have "?next = []" by (simp add: nextCursor_empty_iff)
    with items show ?thesis
      by (subst follow_cursors.simps) (simp add: Suc.prems(1) page)
  qed
qed

text \<open>C26: A client that follows the cursors of a listing gets every record set that matches, each once and in
  order, after at most as many pages as there are matches; the limit only has to be one the service accepts.\<close>

theorem listing_enumerates:
  assumes "length scope \<le> 108" and "int (length rs) \<le> max_int64"
    and "0 \<le> rl_Limit input" and "rl_Limit input \<le> maximumPageLimit"
  shows "follow_cursors (length (filter_record_sets E input rs)) E rs input scope [] = Some (filter_record_sets E input rs)"
proof -
  let ?l = "if rl_Limit input = 0 then defaultPageLimit else rl_Limit input"
  have start: "normalizePage scope [] (rl_Limit input) = Inr (?l, 0)"
    using assms(3,4) by (auto simp: normalizePage_def Let_def defaultPageLimit_def maximumPageLimit_def)
  from follow_from [OF assms(1,2) start, of "[]" 0] start show ?thesis by simp
qed

section \<open>Listing with the cache\<close>

text \<open>
  \<open>ListRecordSets\<close>. The clock is read for a cached answer only when a refresh was not asked for and
  the cache has one.
\<close>

definition cached_is_fresh :: "'w dns_service \<Rightarrow> bool \<Rightarrow> record_cache_entry \<times> bool \<Rightarrow> ('w, bool) scall" where
  "cached_is_fresh D refresh cached =
     (if \<not> refresh \<and> snd cached
      then seq (now (dv_env D)) (\<lambda>t. give (time_sub t (ce_fetchedAt (fst cached)) \<le> dv_recordCacheTTL D))
      else give False)"

definition recordsets_scope :: "uuid \<Rightarrow> string" where
  "recordsets_scope zoneID = ''recordsets:'' @ zoneID"

text \<open>The answer of \<open>ListRecordSets\<close> when the cache does not give it.\<close>

definition list_by_fetching ::
  "'w dns_service \<Rightarrow> uuid \<Rightarrow> record_list_input \<Rightarrow> zone_entry \<Rightarrow> 'w provider \<Rightarrow> provider_account \<Rightarrow> int \<times> int \<Rightarrow>
   record_cache_entry \<times> bool \<Rightarrow> ('w dns_state, record_set_page) scall" where
  "list_by_fetching D zoneID input z client account bounds cached =
     (let page = (\<lambda>rs. paginateRecordSets (se_text (dv_env D)) rs input (recordsets_scope zoneID) (fst bounds) (snd bounds)) in
      seq (in_cache (beginRecordFetch zoneID (pa_ID account))) (\<lambda>generation.
      attempt (lift (fetchAllRecordSets D client z))
        (\<lambda>fetchErr.
           if \<not> rl_Refresh input \<and> snd cached
           then give (page (ce_recordSets (fst cached)) (ce_fetchedAt (fst cached)) True (Some fetchErr))
           else reject fetchErr)
        (\<lambda>recordSets.
           seq (lift (now (dv_env D))) (\<lambda>fetchedAt.
           seq (in_cache (\<lambda>c. (storeRecordFetch zoneID generation
                 \<lparr>ce_accountID = ze_ProviderAccountID z, ce_accountUpdatedAt = pa_UpdatedAt account,
                  ce_credentialRevision = pa_CredentialRevision account, ce_fetchedAt = fetchedAt,
                  ce_recordSets = recordSets\<rparr> c, ()))) (\<lambda>_.
           give (page recordSets fetchedAt False None))))))"

definition ListRecordSets :: "'w dns_service \<Rightarrow> uuid \<Rightarrow> record_list_input \<Rightarrow> ('w dns_state, record_set_page) scall" where
  "ListRecordSets D zoneID input =
     seq (lift (GetZone D zoneID)) (\<lambda>z.
     seq (lift (dv_clients_Get D (ze_ProviderAccountID z))) (\<lambda>(client, account).
     seq (lift (page_bounds (recordsets_scope zoneID) (rl_Cursor input) (rl_Limit input))) (\<lambda>bounds.
     seq (in_cache (\<lambda>c. (c, cachedRecordSets zoneID (pa_ID account) (pa_CredentialRevision account) (pa_UpdatedAt account) c)))
       (\<lambda>cached.
     seq (lift (cached_is_fresh D (rl_Refresh input) cached)) (\<lambda>fresh.
     if fresh
     then give (paginateRecordSets (se_text (dv_env D)) (ce_recordSets (fst cached)) input (recordsets_scope zoneID)
                  (fst bounds) (snd bounds) (ce_fetchedAt (fst cached)) False None)
     else list_by_fetching D zoneID input z client account bounds cached)))))"

text \<open>Nothing that can be found in the cache for a zone, for whatever account state.\<close>

definition cache_empty_for :: "uuid \<Rightarrow> record_cache \<Rightarrow> bool" where
  "cache_empty_for z c \<longleftrightarrow> ce_fetchedAt (cs_entry (cache_state c z)) = 0"

lemma InvalidateZone_cache_empty [simp]: "cache_empty_for z (InvalidateZone z c)"
  by (simp add: cache_empty_for_def InvalidateZone_def forget_entry_def zero_entry_def)

lemma cache_empty_not_cached: "cache_empty_for z c \<Longrightarrow> \<not> snd (cachedRecordSets z a r u c)"
  by (simp add: cache_empty_for_def cachedRecordSets_def Let_def)

lemma list_by_fetching_Inr:
  assumes "list_by_fetching D zoneID input z client account bounds cached s = (s', Inr p)" and "\<not> snd cached"
  shows "\<exists>w w' rs t. fetchAllRecordSets D client z w = (w', Inr rs)
     \<and> p = paginateRecordSets (se_text (dv_env D)) rs input (recordsets_scope zoneID) (fst bounds) (snd bounds) t False None"
  using assms by (auto simp: list_by_fetching_def Let_def attempt_result seq_result in_cache_result lift_result)

lemma ListRecordSets_Inr:
  assumes "ListRecordSets D zoneID input s = (s', Inr p)" and "cache_empty_for zoneID (ds_cache s)"
  shows "\<exists>z client account bounds cached s1.
     normalizePage (recordsets_scope zoneID) (rl_Cursor input) (rl_Limit input) = Inr bounds \<and> \<not> snd cached
     \<and> list_by_fetching D zoneID input z client account bounds cached s1 = (s', Inr p)"
proof -
  have nc: "\<not> snd (cachedRecordSets zoneID a r u (ds_cache s))" for a r u
    by (rule cache_empty_not_cached [OF assms(2)])
  have "ends (ListRecordSets D zoneID input) s (\<lambda>s' r. \<forall>p. r = Inr p \<longrightarrow>
     (\<exists>z client account bounds cached s1.
       normalizePage (recordsets_scope zoneID) (rl_Cursor input) (rl_Limit input) = Inr bounds \<and> \<not> snd cached
       \<and> list_by_fetching D zoneID input z client account bounds cached s1 = (s', Inr p)))"
    unfolding ListRecordSets_def
  proof (intro ends_rules, goal_cases)
    case (6 s1 z s2 ca client account s3 bounds s4 cached s5 fresh)
    with nc have "\<not> snd cached" by (auto simp: lift_result in_cache_result)
    with 6(6,7) show ?case by (auto simp: lift_result cached_is_fresh_def)
  next
    case (7 s1 z s2 ca client account s3 bounds s4 cached s5 fresh)
    from 7 nc have "\<not> snd cached" by (auto simp: lift_result in_cache_result)
    moreover from 7 have "normalizePage (recordsets_scope zoneID) (rl_Cursor input) (rl_Limit input) = Inr bounds"
      by (auto simp: lift_result page_bounds_def split: sum.splits)
    ultimately show ?case by (intro ends_call) blast
  qed auto
  from endsD [OF assms(1) this] show ?thesis by blast
qed

text \<open>While the cache holds nothing for a zone, a listing of it is what the provider's pages say: the
  items shown are the matching ones of all record sets fetched in this very call, and they are not stale.\<close>

theorem uncached_listing_fetches:
  assumes "ListRecordSets D zoneID input s = (s', Inr p)" and "cache_empty_for zoneID (ds_cache s)"
  shows "\<exists>z client w w' rs limit offset.
     fetchAllRecordSets D client z w = (w', Inr rs) \<and> \<not> rp_Stale p
     \<and> normalizePage (recordsets_scope zoneID) (rl_Cursor input) (rl_Limit input) = Inr (limit, offset)
     \<and> rp_Items p = page_slice (filter_record_sets (se_text (dv_env D)) input rs) (nat offset) (nat limit)
     \<and> rp_Total p = int (length (filter_record_sets (se_text (dv_env D)) input rs))"
proof -
  from ListRecordSets_Inr [OF assms] obtain z client account bounds cached s1 where
    b: "normalizePage (recordsets_scope zoneID) (rl_Cursor input) (rl_Limit input) = Inr bounds"
    and f: "list_by_fetching D zoneID input z client account bounds cached s1 = (s', Inr p)" "\<not> snd cached" by blast
  obtain limit offset where "bounds = (limit, offset)" by (cases bounds)
  with b list_by_fetching_Inr [OF f] show ?thesis
    by (auto simp: paginateRecordSets_def Let_def) blast
qed

section \<open>Audit events\<close>

record audit_list_input =
  al_Actor :: string
  al_Action :: string
  al_ProviderAccountID :: "uuid option"
  al_ZoneID :: "uuid option"
  al_Result :: string
  al_From :: "time option"
  al_To :: "time option"
  al_Cursor :: string
  al_Limit :: int
  al_Visibility :: AuditVisibility

definition parse_result :: "string \<Rightarrow> audit_result option option" where
  "parse_result s =
     (if s = [] then Some None
      else if s = ''succeeded'' then Some (Some ResultSucceeded)
      else if s = ''failed'' then Some (Some ResultFailed) else None)"

definition ListAuditEvents :: "'w dns_service \<Rightarrow> audit_list_input \<Rightarrow> ('w, audit_event service_page) scall" where
  "ListAuditEvents D input =
     (case parse_result (al_Result input) of None \<Rightarrow> reject ErrInvalidProviderInput
      | Some res \<Rightarrow>
          if (case (al_From input, al_To input) of (Some from', Some to') \<Rightarrow> from' > to' | _ \<Rightarrow> False)
          then reject ErrInvalidProviderInput
          else
            seq (page_bounds ''audit'' (al_Cursor input) (al_Limit input)) (\<lambda>(limit, offset).
            seq (rp_ListAuditEvents (se_repository (dv_env D))
                  \<lparr>aq_Actor = trim_space (al_Actor input), aq_Action = trim_space (al_Action input),
                   aq_DNSOnly = (al_Visibility input = AuditVisibilityDNS),
                   aq_ProviderAccountID = al_ProviderAccountID input, aq_ZoneID = al_ZoneID input, aq_Result = res,
                   aq_From = al_From input, aq_To = al_To input, aq_Offset = offset, aq_Limit = limit\<rparr>) (\<lambda>(evs, totalCount).
            give \<lparr>sp_Items = evs, sp_NextCursor = nextCursor ''audit'' offset (int (length evs)) totalCount,
                  sp_Total = totalCount\<rparr>)))"

definition GetAuditEvent :: "'w dns_service \<Rightarrow> uuid \<Rightarrow> ('w, audit_event) scall" where
  "GetAuditEvent D i = rp_GetAuditEvent (se_repository (dv_env D)) i"

definition isDNSAuditEvent :: "audit_event \<Rightarrow> bool" where
  "isDNSAuditEvent e \<longleftrightarrow>
     (ev_ResourceType e = ''zone'' \<or> ev_ResourceType e = ''recordset'')
     \<and> (prefix ''zone.'' (ev_Action e) \<or> prefix ''recordset.'' (ev_Action e))"

definition GetVisibleAuditEvent :: "'w dns_service \<Rightarrow> uuid \<Rightarrow> AuditVisibility \<Rightarrow> ('w, audit_event) scall" where
  "GetVisibleAuditEvent D i visibility =
     seq (GetAuditEvent D i) (\<lambda>e.
       if visibility = AuditVisibilityDNS \<and> \<not> isDNSAuditEvent e then reject ErrAuditEventNotFound else give e)"

end
