(* ===== verification/Dns_Changes.thy ===== *)
theory Dns_Changes
  imports Dns_Reads
begin

text \<open>
  The changes of \<open>DNSService\<close> in \<open>internal/service/dns.go\<close>: creating, updating and deleting record sets,
  batches and the refresh of a zone. A change reads the record set at the provider, checks the
  client's precondition against it, invalidates the cache around the provider's call and audits
  the outcome.
\<close>

section \<open>Capabilities and conflicts\<close>

definition validateRecordCapabilities :: "capabilities \<Rightarrow> create_input \<Rightarrow> service_error + unit" where
  "validateRecordCapabilities c input =
     (if ci_Type input \<notin> set (cap_SupportedRecordTypes c)
      then Inl (Upstream (ProviderErr (NewError ErrUnsupported ''validate_record_set'' [] 0 None)))
      else if (case cap_MinTTL c of Some m \<Rightarrow> ci_TTL input < m | None \<Rightarrow> False)
      then Inl (new_error ErrValidation ''validate_record_set''
             (''TTL must be at least '' @ nat_to_dec (unat (the (cap_MinTTL c)))))
      else if (case cap_MaxTTL c of Some m \<Rightarrow> ci_TTL input > m | None \<Rightarrow> False)
      then Inl (new_error ErrValidation ''validate_record_set''
             (''TTL must not exceed '' @ nat_to_dec (unat (the (cap_MaxTTL c)))))
      else Inr ())"

definition conflict_cause :: "string \<Rightarrow> service_error" where
  "conflict_cause operation = Upstream (ProviderErr (NewError ErrConflict operation [] 0 None))"

definition newRecordConflict :: "record_set \<Rightarrow> create_input \<Rightarrow> service_error" where
  "newRecordConflict current pending =
     RecordConflictError (conflict_cause ''update_record_set'') (Some current) (Some pending)"

text \<open>\<open>IsErrorCode(err, ErrConflict)\<close> for an error that \<open>MapError\<close> returned.\<close>

definition is_conflict :: "service_error \<Rightarrow> bool" where
  "is_conflict e = (case e of Upstream g \<Rightarrow> IsErrorCode (Some g) ErrConflict | _ \<Rightarrow> False)"

definition refreshConflict ::
  "'w dns_service \<Rightarrow> 'w provider \<Rightarrow> zone_entry \<Rightarrow> string \<Rightarrow> create_input option \<Rightarrow> service_error \<Rightarrow> 'w \<Rightarrow> 'w \<times> service_error" where
  "refreshConflict D client z recordSetID pending cause w =
     (case getCurrentRecordSet D client z recordSetID w of
        (w', Inl e) \<Rightarrow> (w', cause)
      | (w', Inr current) \<Rightarrow> (w', RecordConflictError cause (Some current) pending))"

definition automaticTTL :: "record_set \<Rightarrow> bool" where
  "automaticTTL r =
     (case sx_Cloudflare (rs_Extensions r) of None \<Rightarrow> False
      | Some c \<Rightarrow> (case cfs_AutomaticTTL c of None \<Rightarrow> False | Some b \<Rightarrow> b))"

text \<open>
  \<open>InvalidateZone\<close>, and the deferred one that runs when the function returns.
\<close>

definition invalidating :: "uuid \<Rightarrow> ('w dns_state, 'a) scall \<Rightarrow> ('w dns_state, 'a) scall" where
  "invalidating zoneID m s =
     (case m (fst (dns_invalidate zoneID s)) of (s', r) \<Rightarrow> (fst (dns_invalidate zoneID s'), r))"

text \<open>A failed call of the provider in a change: a conflict is looked up before it is audited.\<close>

definition change_failed ::
  "'w dns_service \<Rightarrow> 'w provider \<Rightarrow> zone_entry \<Rightarrow> string \<Rightarrow> create_input option \<Rightarrow> service_error \<Rightarrow> 'w \<Rightarrow> 'w \<times> service_error" where
  "change_failed D client z recordSetID pending e w =
     (if is_conflict e then refreshConflict D client z recordSetID pending e w else (w, e))"

section \<open>Create\<close>

definition CreateRecordSet ::
  "'w dns_service \<Rightarrow> actor \<Rightarrow> uuid \<Rightarrow> create_input \<Rightarrow> request_metadata \<Rightarrow> ('w dns_state, record_set) scall" where
  "CreateRecordSet D actor zoneID input md =
     (let V = dv_env D; E = se_text V in
      seq (lift (GetZone D zoneID)) (\<lambda>z.
      let failed = (\<lambda>rid desired e. lift (auditRecordFailure V actor z md ''recordset.create'' rid None (Some desired) e)) in
      attempt (lift (dv_clients_Get D (ze_ProviderAccountID z))) (failed [] input) (\<lambda>(client, _).
      attempt (lift (of_result ErrValidation ''create_record_set'' (NormalizeCreateRecordSetInput E (ze_Name z) input)))
        (failed [] input) (\<lambda>normalized.
      case validateRecordCapabilities (pv_Capabilities client) normalized of
        Inl e \<Rightarrow> failed [] normalized e
      | Inr _ \<Rightarrow>
          invalidating zoneID
            (attempt (lift (mapped ''create_record_set'' (pv_CreateRecordSet client (ze_ProviderZoneID z) normalized)))
              (failed [] normalized) (\<lambda>raw.
             attempt (lift (of_result ErrUpstream ''normalize_record_set'' (NormalizeRecordSet E (ze_Name z) raw)))
              (failed [] normalized) (\<lambda>created.
             seq (dns_invalidate zoneID) (\<lambda>_.
             seq (lift (auditRecordSuccess V actor z md ''recordset.create'' (rs_ID created) None (Some created))) (\<lambda>_.
             give created)))))))))"

section \<open>Update\<close>

record update_request =
  ur_Desired :: create_input
  ur_Precondition :: precondition

text \<open>From the provider's call of an update to its end.\<close>

definition perform_update ::
  "'w dns_service \<Rightarrow> actor \<Rightarrow> uuid \<Rightarrow> zone_entry \<Rightarrow> 'w provider \<Rightarrow> string \<Rightarrow> request_metadata \<Rightarrow> record_set \<Rightarrow>
   create_input \<Rightarrow> precondition \<Rightarrow> ('w dns_state, record_set) scall" where
  "perform_update D actor zoneID z client recordSetID md current normalized pre =
     (let V = dv_env D;
          failed = (\<lambda>e. auditRecordFailure V actor z md ''recordset.update'' recordSetID (Some current) (Some normalized) e)
      in invalidating zoneID
           (attempt (lift (mapped ''update_record_set'' (pv_UpdateRecordSet client (ze_ProviderZoneID z) recordSetID
                       \<lparr>ui_Desired = normalized, ui_Precondition = pre\<rparr>)))
             (\<lambda>e. lift (\<lambda>w. case change_failed D client z recordSetID (Some normalized) e w of (w', e') \<Rightarrow> failed e' w'))
             (\<lambda>raw.
            attempt (lift (of_result ErrUpstream ''normalize_record_set'' (NormalizeRecordSet (se_text V) (ze_Name z) raw)))
             (\<lambda>e. lift (failed e)) (\<lambda>updated.
            seq (dns_invalidate zoneID) (\<lambda>_.
            seq (lift (auditRecordSuccess V actor z md ''recordset.update'' recordSetID (Some current) (Some updated))) (\<lambda>_.
            give updated))))))"

definition UpdateRecordSet ::
  "'w dns_service \<Rightarrow> actor \<Rightarrow> uuid \<Rightarrow> string \<Rightarrow> update_request \<Rightarrow> request_metadata \<Rightarrow> ('w dns_state, record_set) scall" where
  "UpdateRecordSet D actor zoneID recordSetID input md =
     (let V = dv_env D; E = se_text V in
      seq (lift (GetZone D zoneID)) (\<lambda>z.
      let failed = (\<lambda>before desired e.
            lift (auditRecordFailure V actor z md ''recordset.update'' recordSetID before (Some desired) e)) in
      attempt (lift (dv_clients_Get D (ze_ProviderAccountID z))) (failed None (ur_Desired input)) (\<lambda>(client, _).
      attempt (lift (getCurrentRecordSet D client z recordSetID)) (failed None (ur_Desired input)) (\<lambda>current.
      attempt (lift (of_result ErrValidation ''update_record_set''
                (NormalizeCreateRecordSetInput E (ze_Name z) (ur_Desired input))))
        (failed (Some current) (ur_Desired input)) (\<lambda>normalized.
      case validateRecordCapabilities (pv_Capabilities client) normalized of
        Inl e \<Rightarrow> failed (Some current) normalized e
      | Inr _ \<Rightarrow>
          attempt (lift (of_result ErrValidation ''update_record_set'' (precondition_matches E (ur_Precondition input) current)))
            (failed (Some current) normalized) (\<lambda>matches.
          if \<not> matches then failed (Some current) normalized (newRecordConflict current normalized)
          else perform_update D actor zoneID z client recordSetID md current normalized (ur_Precondition input)))))))"

section \<open>Delete\<close>

definition perform_delete ::
  "'w dns_service \<Rightarrow> actor \<Rightarrow> uuid \<Rightarrow> zone_entry \<Rightarrow> 'w provider \<Rightarrow> string \<Rightarrow> request_metadata \<Rightarrow> record_set \<Rightarrow>
   precondition \<Rightarrow> ('w dns_state, unit) scall" where
  "perform_delete D actor zoneID z client recordSetID md current pre =
     (let V = dv_env D;
          failed = (\<lambda>e. auditRecordFailure V actor z md ''recordset.delete'' recordSetID (Some current) None e)
      in invalidating zoneID
           (attempt (lift (mapped ''delete_record_set'' (pv_DeleteRecordSet client (ze_ProviderZoneID z) recordSetID pre)))
             (\<lambda>e. lift (\<lambda>w. case change_failed D client z recordSetID None e w of (w', e') \<Rightarrow> failed e' w'))
             (\<lambda>_.
            seq (dns_invalidate zoneID) (\<lambda>_.
            lift (auditRecordSuccess V actor z md ''recordset.delete'' recordSetID (Some current) None)))))"

definition DeleteRecordSet ::
  "'w dns_service \<Rightarrow> actor \<Rightarrow> uuid \<Rightarrow> string \<Rightarrow> precondition \<Rightarrow> request_metadata \<Rightarrow> ('w dns_state, unit) scall" where
  "DeleteRecordSet D actor zoneID recordSetID pre md =
     (let V = dv_env D; E = se_text V in
      seq (lift (GetZone D zoneID)) (\<lambda>z.
      let failed = (\<lambda>before e. lift (auditRecordFailure V actor z md ''recordset.delete'' recordSetID before None e)) in
      attempt (lift (dv_clients_Get D (ze_ProviderAccountID z))) (failed None) (\<lambda>(client, _).
      attempt (lift (getCurrentRecordSet D client z recordSetID)) (failed None) (\<lambda>current.
      attempt (lift (of_result ErrValidation ''delete_record_set'' (precondition_matches E pre current)))
        (failed (Some current)) (\<lambda>matches.
      if \<not> matches
      then failed (Some current) (RecordConflictError (conflict_cause ''delete_record_set'') (Some current) None)
      else perform_delete D actor zoneID z client recordSetID md current pre)))))"

section \<open>Batches\<close>

datatype BatchOperation = BatchDelete | BatchTTLUpdate | BatchOther string

record batch_item =
  bi_RecordSetID :: string
  bi_ExpectedFingerprint :: string
  bi_ProviderVersion :: string
  bi_TTL :: "32 word"

record batch_request =
  br_Operation :: BatchOperation
  br_Items :: "batch_item list"
  br_Confirmation :: string

record batch_item_result =
  bt_RecordSetID :: string
  bt_RecordSet :: "record_set option"
  bt_Err :: "service_error option"

record batch_result =
  bs_Total :: nat
  bs_Succeeded :: nat
  bs_Failed :: nat
  bs_Items :: "batch_item_result list"

definition maximumBatchSize :: nat where "maximumBatchSize = 100"

text \<open>The check of the items before anything is done, with the seen map as a list.\<close>

fun check_batch_items :: "string list \<Rightarrow> batch_item list \<Rightarrow> service_error option" where
  "check_batch_items seen [] = None"
| "check_batch_items seen (i # is) =
     (if bi_RecordSetID i = [] then Some ErrInvalidProviderInput
      else if bi_RecordSetID i \<in> set seen then Some ErrUnsafeBatchOperation
      else check_batch_items (bi_RecordSetID i # seen) is)"

definition item_failed :: "string \<Rightarrow> service_error \<Rightarrow> batch_item_result" where
  "item_failed recordSetID e = \<lparr>bt_RecordSetID = recordSetID, bt_RecordSet = None, bt_Err = Some e\<rparr>"

definition item_done :: "string \<Rightarrow> record_set option \<Rightarrow> batch_item_result" where
  "item_done recordSetID r = \<lparr>bt_RecordSetID = recordSetID, bt_RecordSet = r, bt_Err = None\<rparr>"

text \<open>An operation whose outcome, error or not, becomes the result of an item.\<close>

definition item_of :: "string \<Rightarrow> ('a \<Rightarrow> record_set option) \<Rightarrow> ('s, 'a) scall \<Rightarrow> 's \<Rightarrow> 's \<times> batch_item_result" where
  "item_of recordSetID f m s =
     (case m s of (s', Inl e) \<Rightarrow> (s', item_failed recordSetID e) | (s', Inr x) \<Rightarrow> (s', item_done recordSetID (f x)))"

definition update_ttl ::
  "'w dns_service \<Rightarrow> actor \<Rightarrow> uuid \<Rightarrow> zone_entry \<Rightarrow> request_metadata \<Rightarrow> batch_item \<Rightarrow> precondition \<Rightarrow> ('w dns_state, record_set) scall" where
  "update_ttl D actor zoneID z md item pre =
     (let rid = bi_RecordSetID item;
          failed = (\<lambda>before e. lift (auditRecordFailure (dv_env D) actor z md ''recordset.update'' rid before None e)) in
      attempt (lift (GetRecordSet D zoneID rid)) (failed None) (\<lambda>current.
      if bi_TTL item = 0 \<or> rs_Type current = RecordTypeSOA \<or> automaticTTL current
      then failed (Some current) ErrUnsafeBatchOperation
      else UpdateRecordSet D actor zoneID rid
             \<lparr>ur_Desired = \<lparr>ci_Name = rs_Name current, ci_Type = rs_Type current, ci_TTL = bi_TTL item,
                ci_Entries = rs_Entries current, ci_Extensions = rs_Extensions current\<rparr>,
              ur_Precondition = pre\<rparr> md))"

definition run_item ::
  "'w dns_service \<Rightarrow> actor \<Rightarrow> uuid \<Rightarrow> zone_entry \<Rightarrow> BatchOperation \<Rightarrow> request_metadata \<Rightarrow> batch_item \<Rightarrow>
   'w dns_state \<Rightarrow> 'w dns_state \<times> batch_item_result" where
  "run_item D actor zoneID z op md item s =
     (let rid = bi_RecordSetID item;
          pre = \<lparr>pc_ExpectedFingerprint = bi_ExpectedFingerprint item, pc_ProviderVersion = bi_ProviderVersion item\<rparr> in
      case op of
        BatchDelete \<Rightarrow> item_of rid (\<lambda>_. None) (DeleteRecordSet D actor zoneID rid pre md) s
      | BatchTTLUpdate \<Rightarrow> item_of rid Some (update_ttl D actor zoneID z md item pre) s
      | BatchOther _ \<Rightarrow> (s, item_done rid None))"

fun run_items ::
  "(batch_item \<Rightarrow> 's \<Rightarrow> 's \<times> batch_item_result) \<Rightarrow> batch_item list \<Rightarrow> batch_result \<Rightarrow> 's \<Rightarrow> 's \<times> batch_result" where
  "run_items f [] acc s = (s, acc)"
| "run_items f (i # is) acc s =
     (case f i s of (s', r) \<Rightarrow>
        run_items f is
          (let acc' = (if bt_Err r = None then acc\<lparr>bs_Succeeded := bs_Succeeded acc + 1\<rparr>
                       else acc\<lparr>bs_Failed := bs_Failed acc + 1\<rparr>)
           in acc'\<lparr>bs_Items := bs_Items acc' @ [r]\<rparr>) s')"

definition BatchRecordSets ::
  "'w dns_service \<Rightarrow> actor \<Rightarrow> uuid \<Rightarrow> batch_request \<Rightarrow> request_metadata \<Rightarrow> ('w dns_state, batch_result) scall" where
  "BatchRecordSets D actor zoneID input md =
     (if br_Operation input \<noteq> BatchDelete \<and> br_Operation input \<noteq> BatchTTLUpdate then reject ErrUnsafeBatchOperation
      else if br_Items input = [] then reject ErrInvalidProviderInput
      else if length (br_Items input) > maximumBatchSize then reject ErrBatchTooLarge
      else
        seq (lift (GetZone D zoneID)) (\<lambda>z.
        if br_Operation input = BatchDelete \<and> trim_space (br_Confirmation input) \<noteq> ze_Name z
        then reject ErrUnsafeBatchOperation
        else (case check_batch_items [] (br_Items input) of
                Some e \<Rightarrow> reject e
              | None \<Rightarrow>
                  (\<lambda>s. case run_items (run_item D actor zoneID z (br_Operation input) md) (br_Items input)
                           \<lparr>bs_Total = length (br_Items input), bs_Succeeded = 0, bs_Failed = 0, bs_Items = []\<rparr> s of
                         (s', res) \<Rightarrow> (s', Inr res)))))"

section \<open>Refreshing a zone\<close>

definition RefreshZone ::
  "'w dns_service \<Rightarrow> actor \<Rightarrow> uuid \<Rightarrow> request_metadata \<Rightarrow> ('w dns_state, zone_entry) scall" where
  "RefreshZone D actor zoneID md =
     (let V = dv_env D; R = se_repository V in
      seq (lift (GetZone D zoneID)) (\<lambda>indexed.
      let failed = (\<lambda>e. lift (auditZoneFailure V actor indexed md ''zone.refresh'' e));
          event = (\<lambda>account. newDNSAuditEvent V actor md ''zone.refresh'' ''zone'' (ze_ID indexed) (pa_ID account) (Some (ze_ID indexed))) in
      attempt (lift (dv_clients_Get D (ze_ProviderAccountID indexed))) failed (\<lambda>(client, account).
      attempt (lift (mapped ''get_zone'' (pv_GetZone client (ze_ProviderZoneID indexed))))
        (\<lambda>e. if (case e of Upstream g \<Rightarrow> IsErrorCode (Some g) ErrNotFound | _ \<Rightarrow> False)
             then attempt (lift (rp_WithinTx R
                      (seq (now V) (\<lambda>t.
                       seq (rp_MarkZoneDeleted R (ze_ID indexed) (pa_ID account) (pa_CredentialRevision account)
                              (pa_UpdatedAt account) t) (\<lambda>_.
                       seq (event account ResultFailed (error_code_string ErrNotFound)) (\<lambda>ev.
                       seq (rp_InsertAuditEvent R (ev\<lparr>ev_BeforeData := safeZoneData indexed\<rparr>)) (\<lambda>_.
                       give TxDone)))))))
                    failed
                    (\<lambda>_. seq (dns_invalidate zoneID) (\<lambda>_. reject e))
             else failed e)
        (\<lambda>raw.
      attempt (lift (of_result ErrUpstream ''normalize_zone'' (NormalizeZone (se_text V) raw))) failed (\<lambda>current.
      seq (lift (now V)) (\<lambda>fetchedAt.
      seq (lift (rp_WithinTx R
            (seq (rp_UpsertZoneIndex R (pa_ID account) (pa_CredentialRevision account) (pa_UpdatedAt account)
                   (zero_zone_entry\<lparr>ze_ID := ze_ID indexed, ze_ProviderZoneID := zone_ID current,
                      ze_Name := zone_Name current, ze_Status := zone_Status current,
                      ze_Metadata := encodeZoneMetadata current\<rparr>) fetchedAt) (\<lambda>refreshed.
             seq (event account ResultSucceeded []) (\<lambda>ev.
             seq (rp_InsertAuditEvent R (ev\<lparr>ev_BeforeData := safeZoneData indexed, ev_AfterData := safeZoneData refreshed\<rparr>)) (\<lambda>_.
             give (TxZone refreshed))))))) (\<lambda>v.
      give (case v of TxZone refreshed \<Rightarrow> refreshed | _ \<Rightarrow> zero_zone_entry))))))))"

end
