(* ===== verification/Dns_Properties.thy ===== *)
theory Dns_Properties
  imports Dns_Changes
begin

text \<open>
  What \<open>DNSService\<close> promises of its changes, for every repository, every provider and every way of
  finding clients: an update or a deletion happens only under a precondition that matched what was
  just read, success and failure are audited, the cache holds nothing of a zone after a change of it,
  and a batch accounts for each of its items.
\<close>

lemma ends_invalidating:
  "ends m (fst (dns_invalidate z s)) (\<lambda>s1 r. Q (fst (dns_invalidate z s1)) r) \<Longrightarrow> ends (invalidating z m) s Q"
  by (simp add: ends_def invalidating_def case_prod_unfold)

lemma ends_audit_failure:
  "(\<And>w e. audited_failure V act rid e w \<Longrightarrow> Q (s\<lparr>ds_world := w\<rparr>) (Inl e)) \<Longrightarrow>
     ends (lift (auditRecordFailure V a z md act rid before desired e0)) s Q"
  by (rule ends_call) (auto simp: lift_result dest!: auditRecordFailure_Inl)

lemma ends_change_failure:
  "(\<And>w e. audited_failure V act rid e w \<Longrightarrow> Q (s\<lparr>ds_world := w\<rparr>) (Inl e)) \<Longrightarrow>
     ends (lift (\<lambda>w. case f w of (w', e') \<Rightarrow> auditRecordFailure V a z md act rid before desired e' w')) s Q"
  by (rule ends_call) (auto simp: lift_result dest!: auditRecordFailure_Inl split: prod.splits)

lemma dns_invalidate_state: "fst (dns_invalidate z s) = s\<lparr>ds_cache := InvalidateZone z (ds_cache s)\<rparr>"
  by (simp add: dns_invalidate_def in_cache_def)

lemmas change_rules = ends_audit_failure ends_change_failure ends_invalidating ends_rules

lemma audited_later [simp]: "ds_world (fst (dns_invalidate z s)) = ds_world s"
  by (simp add: dns_invalidate_state)

section \<open>Updates and deletions\<close>

text \<open>
  What a change reads before it acts: the zone from the repository, the client of its account, and the
  record set from the provider, of which the precondition holds.
\<close>

definition read_current ::
  "'w dns_service \<Rightarrow> uuid \<Rightarrow> string \<Rightarrow> precondition \<Rightarrow> 'w \<Rightarrow> zone_entry \<Rightarrow> 'w provider \<Rightarrow> record_set \<Rightarrow> 'w \<Rightarrow> bool" where
  "read_current D zoneID rid pre w z client current w' \<longleftrightarrow>
     (\<exists>w1 w2 account. GetZone D zoneID w = (w1, Inr z)
        \<and> dv_clients_Get D (ze_ProviderAccountID z) w1 = (w2, Inr (client, account))
        \<and> getCurrentRecordSet D client z rid w2 = (w', Inr current))
     \<and> precondition_matches (se_text (dv_env D)) pre current = Inr True"

text \<open>C1: An update that succeeds read the record set from the provider of the zone's account, found the client's
  precondition true of it, asked the provider to change it under that very precondition to a normalised value
  its capabilities allow, and audited the change with what was before and what came of it; the cache holds
  nothing of the zone.\<close>

theorem UpdateRecordSet_success:
  assumes "UpdateRecordSet D actor zoneID rid input md s = (s', Inr r)"
  shows "\<exists>z client current normalized w1 w2 raw.
     read_current D zoneID rid (ur_Precondition input) (ds_world s) z client current w1
     \<and> NormalizeCreateRecordSetInput (se_text (dv_env D)) (ze_Name z) (ur_Desired input) = Inr normalized
     \<and> validateRecordCapabilities (pv_Capabilities client) normalized = Inr ()
     \<and> pv_UpdateRecordSet client (ze_ProviderZoneID z) rid
          \<lparr>ui_Desired = normalized, ui_Precondition = ur_Precondition input\<rparr> w1 = (w2, Inr raw)
     \<and> NormalizeRecordSet (se_text (dv_env D)) (ze_Name z) raw = Inr r
     \<and> audited_success (dv_env D) ''recordset.update'' rid (ze_ID z) (safeRecordSetData (Some current))
          (safeRecordSetData (Some r)) (ds_world s')
     \<and> cache_empty_for zoneID (ds_cache s')"
proof (rule ends_conclude [where m = "UpdateRecordSet D actor zoneID rid input md" and w = s, OF assms],
    unfold UpdateRecordSet_def perform_update_def Let_def, intro change_rules, simp_all, goal_cases)
  case (1 s1 z s2 ca client account s3 current s4 normalized s5 matches s6 raw s7 updated s8 s9)
  from 1 have "read_current D zoneID rid (ur_Precondition input) (ds_world s) z client current (ds_world s5)"
    by (auto simp: read_current_def lift_result of_result_Inr)
  moreover from 1 have "pv_UpdateRecordSet client (ze_ProviderZoneID z) rid
      \<lparr>ui_Desired = normalized, ui_Precondition = ur_Precondition input\<rparr> (ds_world s5) = (ds_world s6, Inr raw)"
    by (auto simp: lift_result mapped_Inr)
  moreover from 1 have "NormalizeRecordSet (se_text (dv_env D)) (ze_Name z) raw = Inr updated"
    and "NormalizeCreateRecordSetInput (se_text (dv_env D)) (ze_Name z) (ur_Desired input) = Inr normalized"
    by (auto simp: lift_result of_result_Inr)
  moreover from 1 have "audited_success (dv_env D) ''recordset.update'' rid (ze_ID z)
      (safeRecordSetData (Some current)) (safeRecordSetData (Some updated)) (ds_world s9)"
    by (auto simp: lift_result dest: auditRecordSuccess_Inr)
  ultimately show ?case using 1(6) by (clarsimp simp: dns_invalidate_state) blast
qed

text \<open>A deletion that succeeds read the record set, found the precondition true of it, asked the provider to
  delete it under that very precondition, and audited the deletion with what was there before; the cache holds
  nothing of the zone.\<close>

theorem DeleteRecordSet_success:
  assumes "DeleteRecordSet D actor zoneID rid pre md s = (s', Inr u)"
  shows "\<exists>z client current w1 w2.
     read_current D zoneID rid pre (ds_world s) z client current w1
     \<and> pv_DeleteRecordSet client (ze_ProviderZoneID z) rid pre w1 = (w2, Inr ())
     \<and> audited_success (dv_env D) ''recordset.delete'' rid (ze_ID z) (safeRecordSetData (Some current)) [] (ds_world s')
     \<and> cache_empty_for zoneID (ds_cache s')"
proof (rule ends_conclude [where m = "DeleteRecordSet D actor zoneID rid pre md" and w = s, OF assms],
    unfold DeleteRecordSet_def perform_delete_def Let_def, intro change_rules ends_call, simp_all, goal_cases)
  case (1 s1 z s2 ca client account s3 current s4 matches s5 s6 s7 r)
  from 1 have "read_current D zoneID rid pre (ds_world s) z client current (ds_world s4)"
    by (auto simp: read_current_def lift_result of_result_Inr)
  moreover from 1 have "pv_DeleteRecordSet client (ze_ProviderZoneID z) rid pre (ds_world s4) = (ds_world s5, Inr ())"
    by (auto simp: lift_result mapped_Inr)
  moreover have "audited_success (dv_env D) ''recordset.delete'' rid (ze_ID z) (safeRecordSetData (Some current)) [] (ds_world s7)"
    if "r = Inr ()"
    using 1 that by (auto simp: lift_result safeRecordSetData_def dest: auditRecordSuccess_Inr)
  ultimately show ?case by (clarsimp simp: dns_invalidate_state) blast
qed

section \<open>Failures\<close>

text \<open>An update that fails after its zone was found has been audited as a failure with the code of the error,
  unless it is the audit of the success that failed.\<close>

theorem UpdateRecordSet_failure:
  assumes "UpdateRecordSet D actor zoneID rid input md s = (s', Inl e)"
  shows "(\<exists>w. GetZone D zoneID (ds_world s) = (w, Inl e))
     \<or> audited_failure (dv_env D) ''recordset.update'' rid e (ds_world s')
     \<or> (\<exists>z before after w w'. auditRecordSuccess (dv_env D) actor z md ''recordset.update'' rid before after w = (w', Inl e))"
proof (rule ends_conclude [where m = "UpdateRecordSet D actor zoneID rid input md" and w = s, OF assms],
    unfold UpdateRecordSet_def perform_update_def Let_def, intro change_rules, simp_all, goal_cases)
qed (auto simp: lift_result dns_invalidate_def in_cache_def)

text \<open>C24: A precondition that does not match what was just read makes no call of the provider, leaves the cache
  alone, and is reported as a conflict that shows the current record set and what was asked for.\<close>

theorem UpdateRecordSet_mismatch:
  assumes "GetZone D zoneID (ds_world s) = (w1, Inr z)"
    and "dv_clients_Get D (ze_ProviderAccountID z) w1 = (w2, Inr (client, account))"
    and "getCurrentRecordSet D client z rid w2 = (w3, Inr current)"
    and "NormalizeCreateRecordSetInput (se_text (dv_env D)) (ze_Name z) (ur_Desired input) = Inr normalized"
    and "validateRecordCapabilities (pv_Capabilities client) normalized = Inr ()"
    and "precondition_matches (se_text (dv_env D)) (ur_Precondition input) current = Inr False"
  shows "\<exists>w4 e. UpdateRecordSet D actor zoneID rid input md s = (s\<lparr>ds_world := w4\<rparr>, Inl e)
     \<and> auditRecordFailure (dv_env D) actor z md ''recordset.update'' rid (Some current) (Some normalized)
          (newRecordConflict current normalized) w3 = (w4, Inl e :: service_error + record_set)
     \<and> providerErrorCode e = ''conflict''"
proof -
  obtain w4 r where a: "auditRecordFailure (dv_env D) actor z md ''recordset.update'' rid (Some current) (Some normalized)
          (newRecordConflict current normalized) w3 = (w4, r :: service_error + record_set)"
    by (cases "auditRecordFailure (dv_env D) actor z md ''recordset.update'' rid (Some current) (Some normalized)
          (newRecordConflict current normalized) w3 :: 'a \<times> (service_error + record_set)")
  from auditRecordFailure_Inl [OF a] obtain e where r: "r = Inl e" and
    "e = newRecordConflict current normalized \<or> (\<exists>m. e = Wrapped (newRecordConflict current normalized) m)" by blast
  then have "providerErrorCode e = ''conflict''" by (auto simp: newRecordConflict_def)
  moreover have "UpdateRecordSet D actor zoneID rid input md s = (s\<lparr>ds_world := w4\<rparr>, Inl e)"
    using assms a r by (simp add: UpdateRecordSet_def Let_def seq_def attempt_def lift_def of_result_def)
  ultimately show ?thesis using a r by blast
qed

section \<open>Batches\<close>

lemma check_batch_items_None:
  "check_batch_items seen is = None \<longleftrightarrow>
     [] \<notin> set (map bi_RecordSetID is) \<and> distinct (map bi_RecordSetID is) \<and> set seen \<inter> set (map bi_RecordSetID is) = {}"
  by (induction seen "is" rule: check_batch_items.induct) auto

definition accounted :: "batch_result \<Rightarrow> bool" where
  "accounted r \<longleftrightarrow>
     bs_Succeeded r = length (filter (\<lambda>i. bt_Err i = None) (bs_Items r))
     \<and> bs_Failed r = length (filter (\<lambda>i. bt_Err i \<noteq> None) (bs_Items r))"

lemma accounted_length: "accounted r \<Longrightarrow> bs_Succeeded r + bs_Failed r = length (bs_Items r)"
  using sum_length_filter_compl [of "\<lambda>i. bt_Err i = None" "bs_Items r"] by (simp add: accounted_def)

lemma run_items_accounted:
  assumes "\<And>i s. bt_RecordSetID (snd (f i s)) = bi_RecordSetID i"
    and "run_items f is acc s = (s', res)" and "accounted acc"
  shows "accounted res \<and> bs_Total res = bs_Total acc
    \<and> map bt_RecordSetID (bs_Items res) = map bt_RecordSetID (bs_Items acc) @ map bi_RecordSetID is"
  using assms(2,3)
proof (induction "is" arbitrary: acc s)
  case (Cons i iss)
  obtain s1 r where r: "f i s = (s1, r)" by (cases "f i s")
  let ?acc = "let acc' = (if bt_Err r = None then acc\<lparr>bs_Succeeded := bs_Succeeded acc + 1\<rparr>
       else acc\<lparr>bs_Failed := bs_Failed acc + 1\<rparr>) in acc'\<lparr>bs_Items := bs_Items acc' @ [r]\<rparr>"
  have "accounted ?acc" using Cons.prems(2) by (auto simp: accounted_def Let_def)
  moreover from r Cons.prems(1) have "run_items f iss ?acc s1 = (s', res)" by simp
  moreover have "bt_RecordSetID r = bi_RecordSetID i" using assms(1) [of i s] r by simp
  ultimately show ?case using Cons.IH [of ?acc s1] by (auto simp: Let_def split: if_splits)
qed simp

lemma run_item_ID: "bt_RecordSetID (snd (run_item D actor zoneID z op md item s)) = bi_RecordSetID item"
  by (auto simp: run_item_def Let_def item_of_def item_failed_def item_done_def split: BatchOperation.splits prod.splits sum.splits)

text \<open>A batch that is carried out has at most 100 items with distinct record set IDs, and, when it deletes, the
  zone's name as its confirmation; its result has one entry for each item in order, and counts as succeeded and
  failed exactly the entries without and with an error.\<close>

theorem BatchRecordSets_accounts:
  assumes "BatchRecordSets D actor zoneID input md s = (s', Inr res)"
  shows "bs_Total res = length (br_Items input) \<and> bs_Succeeded res + bs_Failed res = bs_Total res
     \<and> bs_Failed res = length (filter (\<lambda>i. bt_Err i \<noteq> None) (bs_Items res))
     \<and> map bt_RecordSetID (bs_Items res) = map bi_RecordSetID (br_Items input)
     \<and> distinct (map bi_RecordSetID (br_Items input)) \<and> length (br_Items input) \<le> maximumBatchSize
     \<and> (br_Operation input = BatchDelete \<longrightarrow>
          (\<exists>w z. GetZone D zoneID (ds_world s) = (w, Inr z) \<and> trim_space (br_Confirmation input) = ze_Name z))"
proof (rule ends_conclude [where m = "BatchRecordSets D actor zoneID input md" and w = s, OF assms],
    unfold BatchRecordSets_def, intro change_rules, simp_all, goal_cases)
  case (1 s1 z)
  let ?start = "\<lparr>bs_Total = length (br_Items input), bs_Succeeded = 0, bs_Failed = 0, bs_Items = []\<rparr>"
  obtain s2 res2 where run: "run_items (run_item D actor zoneID z (br_Operation input) md) (br_Items input) ?start s1 = (s2, res2)"
    by (cases "run_items (run_item D actor zoneID z (br_Operation input) md) (br_Items input) ?start s1")
  have "accounted res2 \<and> bs_Total res2 = bs_Total ?start
    \<and> map bt_RecordSetID (bs_Items res2) = map bt_RecordSetID (bs_Items ?start) @ map bi_RecordSetID (br_Items input)"
    by (rule run_items_accounted [OF run_item_ID run]) (simp add: accounted_def)
  then have r: "accounted res2" "bs_Total res2 = length (br_Items input)"
      "map bt_RecordSetID (bs_Items res2) = map bi_RecordSetID (br_Items input)" by simp_all
  moreover have "length (bs_Items res2) = length (br_Items input)"
    using arg_cong [OF r(3), of length] by simp
  moreover have "distinct (map bi_RecordSetID (br_Items input))"
    using 1 by (simp add: check_batch_items_None)
  ultimately show ?case
    using 1 run accounted_length [OF r(1)] by (auto simp: ends_def lift_result accounted_def)
qed

end
