(* ===== verification/Client_Runtime.thy ===== *)
theory Client_Runtime
  imports Service_Types Record_Cache
begin

text \<open>
  The clients of provider accounts, \<open>internal/service/provider_clients.go\<close>. Each account has a runtime:
  a generation, the client built for it and the account it was built from. Runtimes are shared by
  reference - a client that was handed out keeps its runtime after the manager forgot it - so they
  are cells of a store addressed by numbers. What other goroutines do meanwhile is part of the
  calls that wait: they return a changed state.
\<close>

section \<open>The runtime of an account\<close>

text \<open>
  The context of a generation is numbered; \<open>invalidate\<close> cancels the current one and makes the next,
  so exactly the contexts with a smaller number are cancelled. \<open>rt_timer\<close> is the sequence number the
  armed expiry timer carries.
\<close>

record 'c runtime =
  rt_generation :: "64 word"
  rt_ctx :: nat
  rt_client :: "'c option"
  rt_account :: provider_account
  rt_cacheExpiresAt :: time
  rt_cacheSequence :: "64 word"
  rt_timer :: "64 word option"

definition maximumClientCacheLifetime :: duration where
  "maximumClientCacheLifetime = 5 * 60 * 1000000000"

definition new_runtime :: "'c runtime" where
  "new_runtime =
     \<lparr>rt_generation = 1, rt_ctx = 0, rt_client = None, rt_account = zero_account, rt_cacheExpiresAt = 0,
      rt_cacheSequence = 0, rt_timer = None\<rparr>"

definition snapshot :: "'c runtime \<Rightarrow> 64 word \<times> nat" where
  "snapshot r = (rt_generation r, rt_ctx r)"

definition current :: "64 word \<Rightarrow> 'c runtime \<Rightarrow> bool" where
  "current generation r \<longleftrightarrow> rt_generation r = generation"

definition cancelled :: "nat \<Rightarrow> 'c runtime \<Rightarrow> bool" where
  "cancelled ctx r \<longleftrightarrow> ctx < rt_ctx r"

definition clearCachedLocked :: "'c runtime \<Rightarrow> 'c runtime" where
  "clearCachedLocked r =
     r\<lparr>rt_timer := None, rt_client := None, rt_account := zero_account, rt_cacheExpiresAt := 0\<rparr>"

text \<open>Whether what is cached still belongs to the account as the repository has it.\<close>

definition cache_matches :: "time \<Rightarrow> provider_account \<Rightarrow> 'c runtime \<Rightarrow> bool" where
  "cache_matches t account r \<longleftrightarrow>
     \<not> (t > rt_cacheExpiresAt r \<or> \<not> pa_Enabled (rt_account r)
        \<or> pa_CredentialRevision (rt_account r) \<noteq> pa_CredentialRevision account
        \<or> pa_UpdatedAt (rt_account r) \<noteq> pa_UpdatedAt account
        \<or> pa_Options (rt_account r) \<noteq> pa_Options account)"

definition cached :: "time \<Rightarrow> 64 word \<Rightarrow> provider_account \<Rightarrow> 'c runtime \<Rightarrow> 'c runtime \<times> 'c option" where
  "cached t generation account r =
     (if rt_generation r \<noteq> generation \<or> rt_client r = None then (r, None)
      else if \<not> cache_matches t account r then (clearCachedLocked r, None)
      else (r, rt_client r))"

definition store :: "time \<Rightarrow> 64 word \<Rightarrow> provider_account \<Rightarrow> 'c \<Rightarrow> 'c runtime \<Rightarrow> 'c runtime \<times> bool" where
  "store t generation account client r =
     (if rt_generation r \<noteq> generation then (r, False)
      else
        (let r1 = clearCachedLocked r; sequence = rt_cacheSequence r1 + 1 in
         (r1\<lparr>rt_client := Some client, rt_account := account,
             rt_cacheExpiresAt := t + maximumClientCacheLifetime,
             rt_cacheSequence := sequence, rt_timer := Some sequence\<rparr>, True)))"

text \<open>The function of the expiry timer; \<open>Stop\<close> may come too late to keep it from running.\<close>

definition expire :: "64 word \<Rightarrow> 'c runtime \<Rightarrow> 'c runtime" where
  "expire sequence r = (if rt_cacheSequence r = sequence then clearCachedLocked r else r)"

definition invalidate :: "'c runtime \<Rightarrow> 'c runtime" where
  "invalidate r =
     (let r1 = clearCachedLocked r in r1\<lparr>rt_generation := rt_generation r1 + 1, rt_ctx := rt_ctx r1 + 1\<rparr>)"

datatype 'c runtime_op =
    RtInvalidate | RtCached time "64 word" provider_account
  | RtStore time "64 word" provider_account 'c | RtExpire "64 word"

fun runtime_step :: "'c runtime_op \<Rightarrow> 'c runtime \<Rightarrow> 'c runtime" where
  "runtime_step RtInvalidate r = invalidate r"
| "runtime_step (RtCached t g a) r = fst (cached t g a r)"
| "runtime_step (RtStore t g a c) r = fst (store t g a c r)"
| "runtime_step (RtExpire q) r = expire q r"

definition runtime_run :: "'c runtime_op list \<Rightarrow> 'c runtime \<Rightarrow> 'c runtime" where
  "runtime_run ops r = fold runtime_step ops r"

definition invalidations :: "'c runtime_op list \<Rightarrow> nat" where
  "invalidations ops = length (filter (\<lambda>op. op = RtInvalidate) ops)"

lemma clear_simps [simp]:
  "rt_generation (clearCachedLocked r) = rt_generation r" "rt_ctx (clearCachedLocked r) = rt_ctx r"
  "rt_client (clearCachedLocked r) = None" "rt_cacheSequence (clearCachedLocked r) = rt_cacheSequence r"
  by (simp_all add: clearCachedLocked_def)

definition held_client :: "'c runtime \<Rightarrow> (time \<times> provider_account \<times> 'c) option" where
  "held_client r =
     map_option (\<lambda>c. (rt_cacheExpiresAt r - maximumClientCacheLifetime, rt_account r, c)) (rt_client r)"

interpretation client_cache: generation_guard rt_generation runtime_step
    "\<lambda>op r. if op = RtInvalidate then 1 else 0" "\<lambda>g (t, a, c) r. fst (store t g a c r)" held_client
proof (unfold_locales, goal_cases)
  case (1 op s)
  show ?case
    by (cases op) (auto simp: invalidate_def cached_def store_def expire_def Let_def)
next
  case (2 s g e)
  then show ?case by (auto simp: store_def split: prod.splits)
next
  case (3 s g e)
  then show ?case by (auto simp: store_def Let_def held_client_def split: prod.splits)
qed

lemma client_cache_run: "client_cache.run ops r = runtime_run ops r"
  by (induction ops arbitrary: r) (simp_all add: runtime_run_def)

lemma client_cache_bumps: "client_cache.bumps ops r = invalidations ops"
  by (induction ops arbitrary: r) (auto simp: invalidations_def)

text \<open>A client that was being built while its account was invalidated is not stored: the runtime is as if
  it had never been built, whatever else happened to it.\<close>

theorem stale_client_not_stored:
  assumes "0 < invalidations ops" and "invalidations ops < 2 ^ 64"
  shows "store t (rt_generation r) account client (runtime_run ops r) = (runtime_run ops r, False)"
proof -
  have "rt_generation (runtime_run ops r) \<noteq> rt_generation r"
    using client_cache.moved_on [of ops r] assms by (simp add: client_cache_run client_cache_bumps)
  then show ?thesis by (simp add: store_def)
qed

text \<open>A timer of an older entry does not remove a newer one.\<close>

lemma expire_older: "snd (store t g a c r) \<Longrightarrow> q \<noteq> rt_cacheSequence r + 1 \<Longrightarrow>
     expire q (fst (store t g a c r)) = fst (store t g a c r)"
  by (simp add: expire_def store_def Let_def split: if_splits)

text \<open>What happens to a runtime between two builds: look-ups and timers.\<close>

definition quiet :: "'c runtime_op \<Rightarrow> bool" where
  "quiet op = (case op of RtCached _ _ _ \<Rightarrow> True | RtExpire _ \<Rightarrow> True | _ \<Rightarrow> False)"

lemma quiet_keeps:
  "list_all quiet ops \<Longrightarrow> rt_client (runtime_run ops r) = None
     \<or> (rt_client (runtime_run ops r) = rt_client r \<and> rt_account (runtime_run ops r) = rt_account r
        \<and> rt_cacheExpiresAt (runtime_run ops r) = rt_cacheExpiresAt r)"
proof (induction ops arbitrary: r)
  case (Cons op ops)
  have step: "rt_client (runtime_step op r) = None \<or> runtime_step op r = r"
    using Cons.prems by (cases op) (auto simp: quiet_def cached_def expire_def)
  have "rt_client (runtime_run ops q) = None" if "rt_client q = None" for q
    using Cons.IH [of q] Cons.prems that by auto
  with step Cons.IH [of r] Cons.prems show ?case by (auto simp: runtime_run_def)
qed (simp add: runtime_run_def)

text \<open>A client is reused only for the state of the account it was built from: after it was stored, and
  whatever timers and look-ups came since, \<open>cached\<close> returns it only within its lifetime, for the same
  credential revision, update time and options.\<close>

theorem cached_client_fits:
  assumes "store t g a c r = (r1, True)" and "list_all quiet ops"
    and "cached t' g' a' (runtime_run ops r1) = (r2, Some c')"
  shows "c' = c \<and> t' \<le> t + maximumClientCacheLifetime \<and> pa_Enabled a
    \<and> pa_CredentialRevision a' = pa_CredentialRevision a \<and> pa_UpdatedAt a' = pa_UpdatedAt a \<and> pa_Options a' = pa_Options a"
proof -
  let ?q = "runtime_run ops r1"
  from assms(1) have r1: "rt_client r1 = Some c" "rt_account r1 = a" "rt_cacheExpiresAt r1 = t + maximumClientCacheLifetime"
    by (auto simp: store_def Let_def split: if_splits)
  from assms(3) have "rt_client ?q = Some c'" "cache_matches t' a' ?q"
    by (auto simp: cached_def split: if_splits)
  with quiet_keeps [OF assms(2), of r1] r1 show ?thesis by (auto simp: cache_matches_def)
qed

end
