(* ===== verification/Client_Manager.thy ===== *)
theory Client_Manager
  imports Client_Runtime
begin

text \<open>
  \<open>ProviderClientManager\<close> and \<open>boundedProvider\<close> of \<open>internal/service/provider_clients.go\<close>. The state of
  the program is the manager's with the rest of the world in it, so that every call - of the
  repository, of a semaphore - may return a state in which other goroutines invalidated a runtime
  or removed it.
\<close>

section \<open>The manager\<close>

record 'w manager =
  mg_accounts :: "uuid \<rightharpoonup> nat"
  mg_runtimes :: "nat \<Rightarrow> 'w provider runtime"
  mg_next :: nat
  mg_world :: 'w

definition on_runtime :: "nat \<Rightarrow> ('w provider runtime \<Rightarrow> 'w provider runtime) \<Rightarrow> 'w manager \<Rightarrow> 'w manager" where
  "on_runtime a f m = m\<lparr>mg_runtimes := (mg_runtimes m)(a := f (mg_runtimes m a))\<rparr>"

definition accountRuntime :: "uuid \<Rightarrow> 'w manager \<Rightarrow> 'w manager \<times> nat" where
  "accountRuntime i m =
     (case mg_accounts m i of
        Some a \<Rightarrow> (m, a)
      | None \<Rightarrow>
          (m\<lparr>mg_accounts := (mg_accounts m)(i \<mapsto> mg_next m),
             mg_runtimes := (mg_runtimes m)(mg_next m := new_runtime), mg_next := mg_next m + 1\<rparr>, mg_next m))"

definition Invalidate :: "uuid \<Rightarrow> 'w manager \<Rightarrow> 'w manager" where
  "Invalidate i m = (case mg_accounts m i of None \<Rightarrow> m | Some a \<Rightarrow> on_runtime a invalidate m)"

definition Remove :: "uuid \<Rightarrow> 'w manager \<Rightarrow> 'w manager" where
  "Remove i m =
     (case mg_accounts m i of None \<Rightarrow> m
      | Some a \<Rightarrow> on_runtime a invalidate (m\<lparr>mg_accounts := (mg_accounts m)(i := None)\<rparr>))"

text \<open>
  What the manager uses: the repository, the registry, the vault's \<open>Decrypt\<close>, the clock, and the
  points where a goroutine waits. \<open>ce_calls\<close>, \<open>ce_mutations\<close> and \<open>ce_build\<close> wait for a slot of a
  semaphore, or return the error of the context that was done first; \<open>ce_err\<close> is \<open>callContext.Err()\<close>;
  \<open>ce_others\<close> is what other goroutines do where the code only computes.
\<close>

record 'w client_env =
  ce_repository :: "'w manager repository"
  ce_registry :: "'w registry"
  ce_Decrypt :: "encrypted_credential \<Rightarrow> credential_context \<Rightarrow> string option"
  ce_now :: "'w manager \<Rightarrow> time"
  ce_others :: "'w manager \<Rightarrow> 'w manager"
  ce_build :: "'w manager \<Rightarrow> 'w manager \<times> go_error option"
  ce_calls :: "'w manager \<Rightarrow> 'w manager \<times> go_error option"
  ce_mutations :: "'w manager \<Rightarrow> 'w manager \<times> go_error option"
  ce_err :: "'w manager \<Rightarrow> go_error option"

section \<open>The bounded provider\<close>

definition account_conflict :: go_error where
  "account_conflict = PlainError (error_text ErrProviderAccountConflict)"

definition in_world :: "('w, 'a) call \<Rightarrow> ('w manager, 'a) call" where
  "in_world call m = (case call (mg_world m) of (w, r) \<Rightarrow> (m\<lparr>mg_world := w\<rparr>, r))"

definition is_current :: "nat \<Rightarrow> 64 word \<Rightarrow> 'w manager \<Rightarrow> bool" where
  "is_current a generation m = current generation (mg_runtimes m a)"

definition providerCall :: "'w client_env \<Rightarrow> nat \<Rightarrow> 64 word \<Rightarrow> ('w manager, 'a) call \<Rightarrow> ('w manager, 'a) call" where
  "providerCall V a generation call m =
     (if \<not> is_current a generation m then (m, Inl account_conflict)
      else (case ce_calls V m of
        (m1, Some e) \<Rightarrow> if \<not> is_current a generation m1 then (m1, Inl account_conflict) else (m1, Inl e)
      | (m1, None) \<Rightarrow>
          if \<not> is_current a generation m1 then (m1, Inl account_conflict)
          else (case ce_err V m1 of Some e \<Rightarrow> (m1, Inl e) | None \<Rightarrow> call m1)))"

definition providerMutationCall :: "'w client_env \<Rightarrow> nat \<Rightarrow> 64 word \<Rightarrow> ('w manager, 'a) call \<Rightarrow> ('w manager, 'a) call" where
  "providerMutationCall V a generation call m =
     (case ce_mutations V m of (m1, Some e) \<Rightarrow> (m1, Inl e) | (m1, None) \<Rightarrow> providerCall V a generation call m1)"

definition bounded :: "'w client_env \<Rightarrow> 'w provider \<Rightarrow> nat \<Rightarrow> 64 word \<Rightarrow> 'w manager provider" where
  "bounded V inner a generation =
     \<lparr>pv_Capabilities = pv_Capabilities inner,
      pv_ValidateCredentials = providerCall V a generation (in_world (pv_ValidateCredentials inner)),
      pv_ListZones = (\<lambda>request. providerCall V a generation (in_world (pv_ListZones inner request))),
      pv_GetZone = (\<lambda>z. providerCall V a generation (in_world (pv_GetZone inner z))),
      pv_ListRecordSets = (\<lambda>z request. providerCall V a generation (in_world (pv_ListRecordSets inner z request))),
      pv_GetRecordSet = (\<lambda>z i. providerCall V a generation (in_world (pv_GetRecordSet inner z i))),
      pv_CreateRecordSet = (\<lambda>z input. providerMutationCall V a generation (in_world (pv_CreateRecordSet inner z input))),
      pv_UpdateRecordSet = (\<lambda>z i input. providerMutationCall V a generation (in_world (pv_UpdateRecordSet inner z i input))),
      pv_DeleteRecordSet = (\<lambda>z i p. providerMutationCall V a generation (in_world (pv_DeleteRecordSet inner z i p)))\<rparr>"

section \<open>Getting a client\<close>

definition maximumClientBuildAttempts :: nat where "maximumClientBuildAttempts = 3"

text \<open>What the built client must agree with, read again after the build.\<close>

definition same_account_state :: "provider_account \<Rightarrow> provider_account \<Rightarrow> 64 word \<Rightarrow> bool" where
  "same_account_state latest account revision \<longleftrightarrow>
     pa_Enabled latest \<and> pa_CredentialRevision latest = revision
     \<and> pa_UpdatedAt latest = pa_UpdatedAt account \<and> pa_Options latest = pa_Options account"

definition cached_client :: "'w client_env \<Rightarrow> nat \<Rightarrow> 64 word \<Rightarrow> provider_account \<Rightarrow> 'w manager \<Rightarrow> 'w manager \<times> 'w provider option" where
  "cached_client V a generation account m =
     (case cached (ce_now V m) generation account (mg_runtimes m a) of
        (r, c) \<Rightarrow> (m\<lparr>mg_runtimes := (mg_runtimes m)(a := r)\<rparr>, c))"

definition store_client :: "'w client_env \<Rightarrow> nat \<Rightarrow> 64 word \<Rightarrow> provider_account \<Rightarrow> 'w provider \<Rightarrow> 'w manager \<Rightarrow> 'w manager \<times> bool" where
  "store_client V a generation account client m =
     (case store (ce_now V m) generation account client (mg_runtimes m a) of
        (r, ok) \<Rightarrow> (m\<lparr>mg_runtimes := (mg_runtimes m)(a := r)\<rparr>, ok))"

text \<open>The build of a client for an account, to the point where it is stored or not.\<close>

definition build_client ::
  "'w client_env \<Rightarrow> uuid \<Rightarrow> nat \<Rightarrow> 64 word \<Rightarrow> provider_account \<Rightarrow> credential_material \<Rightarrow> 'w factory \<Rightarrow>
   ('w manager, ('w provider \<times> provider_account) option) scall" where
  "build_client V accountID a generation account credential factory =
     (case ce_Decrypt V (cm_Encrypted credential)
             \<lparr>cc_ProviderAccountID = pa_ID account, cc_ProviderType = pa_ProviderType account,
              cc_CredentialRevision = cm_Revision credential\<rparr> of
        None \<Rightarrow> reject (ServiceFailure ''decrypt provider credential'')
      | Some plaintext \<Rightarrow>
          seq (mapped ''build_client'' (in_world (f_Build factory
                \<lparr>ac_ID = pa_ID account, ac_Type = pa_ProviderType account, ac_Name = pa_Name account,
                 ac_Options = pa_Options account, ac_CredentialRevision = cm_Revision credential\<rparr> plaintext))) (\<lambda>client.
          seq (rp_GetProviderAccount (ce_repository V) accountID) (\<lambda>latest.
          if same_account_state latest account (cm_Revision credential)
          then seq (plainly (store_client V a generation latest client)) (\<lambda>stored.
                 give (if stored then Some (client, latest) else None))
          else give None)))"

text \<open>One attempt from the read of the account on; \<open>retry\<close> is the rest of the loop.\<close>

definition get_once ::
  "'w client_env \<Rightarrow> uuid \<Rightarrow> nat \<Rightarrow> 64 word \<Rightarrow> ('w manager, 'w manager provider \<times> provider_account) scall \<Rightarrow>
   ('w manager, 'w manager provider \<times> provider_account) scall" where
  "get_once V accountID a generation retry =
     seq (rp_GetProviderAccountCredential (ce_repository V) accountID) (\<lambda>(account, credential).
     if \<not> pa_Enabled account then reject ErrProviderAccountDisabled
     else if \<not> pa_CredentialConfigured account \<or> cm_Revision credential = 0 then reject ErrProviderCredentialsMissing
     else (case registry_factory (ce_registry V) (pa_ProviderType account) of
       None \<Rightarrow> reject ErrProviderTypeUnavailable
     | Some factory \<Rightarrow>
         seq (plainly (cached_client V a generation account)) (\<lambda>c.
         case c of
           Some client \<Rightarrow> give (bounded V client a generation, account)
         | None \<Rightarrow>
             seq (build_client V accountID a generation account credential factory) (\<lambda>b.
             case b of
               None \<Rightarrow> retry
             | Some cl \<Rightarrow> give (bounded V (fst cl) a generation, snd cl)))))"

fun get_attempts ::
  "'w client_env \<Rightarrow> uuid \<Rightarrow> nat \<Rightarrow> nat \<Rightarrow> ('w manager, 'w manager provider \<times> provider_account) scall" where
  "get_attempts V accountID a 0 m = (m, Inl ErrProviderAccountConflict)"
| "get_attempts V accountID a (Suc n) m =
     (let generation = fst (snapshot (mg_runtimes m a));
          ctx = snd (snapshot (mg_runtimes m a));
          m1 = ce_others V m in
      if cancelled ctx (mg_runtimes m1 a) then get_attempts V accountID a n m1
      else get_once V accountID a generation (get_attempts V accountID a n) m1)"

definition Get :: "'w client_env \<Rightarrow> uuid \<Rightarrow> ('w manager, 'w manager provider \<times> provider_account) scall" where
  "Get V accountID m =
     (case accountRuntime accountID m of
        (m1, a) \<Rightarrow>
          (case ce_build V m1 of
             (m2, Some e) \<Rightarrow> (m2, Inl (Upstream e))
           | (m2, None) \<Rightarrow> get_attempts V accountID a maximumClientBuildAttempts m2))"

section \<open>Invalidated clients\<close>

lemma providerCall_stale: "\<not> is_current a g m \<Longrightarrow> providerCall V a g call m = (m, Inl account_conflict)"
  by (simp add: providerCall_def)

text \<open>A client that was handed out refuses every call once its account was invalidated or removed: reads
  return the conflict without any effect, and a mutation at most waits for its turn before it does.\<close>

theorem invalidated_client_refuses:
  assumes "mg_accounts m i = Some a" and "is_current a g m"
    and "m' = Invalidate i m \<or> m' = Remove i m"
  shows "pv_GetRecordSet (bounded V p a g) z rid m' = (m', Inl account_conflict)
    \<and> pv_ListRecordSets (bounded V p a g) z req m' = (m', Inl account_conflict)
    \<and> pv_ListZones (bounded V p a g) req m' = (m', Inl account_conflict)
    \<and> pv_ValidateCredentials (bounded V p a g) m' = (m', Inl account_conflict)
    \<and> (\<forall>m1. ce_mutations V m' = (m1, None) \<and> mg_runtimes m1 = mg_runtimes m' \<longrightarrow>
         pv_UpdateRecordSet (bounded V p a g) z rid upd m' = (m1, Inl account_conflict)
         \<and> pv_DeleteRecordSet (bounded V p a g) z rid pre m' = (m1, Inl account_conflict)
         \<and> pv_CreateRecordSet (bounded V p a g) z inp m' = (m1, Inl account_conflict))"
proof -
  have "rt_generation (mg_runtimes m' a) = rt_generation (mg_runtimes m a) + 1"
    using assms(1,3) by (auto simp: Invalidate_def Remove_def on_runtime_def invalidate_def Let_def)
  then have "\<not> is_current a g m'" using assms(2) by (simp add: is_current_def current_def)
  then show ?thesis
    by (auto simp: bounded_def providerCall_stale providerMutationCall_def is_current_def)
qed

section \<open>What a client is built from\<close>

text \<open>
  The account and the credential a client was built from, as the repository had them: the account is
  enabled, the credential is the configured one, it decrypts in the context of the account and of its
  revision, and the factory is the one registered for the account's type.
\<close>

definition built_from ::
  "'w client_env \<Rightarrow> uuid \<Rightarrow> 'w provider \<Rightarrow> provider_account \<Rightarrow> bool" where
  "built_from V accountID client latest \<longleftrightarrow>
     (\<exists>account credential factory plaintext w w' m m1 m2 m3.
        rp_GetProviderAccountCredential (ce_repository V) accountID m = (m1, Inr (account, credential))
        \<and> pa_Enabled account \<and> pa_CredentialConfigured account \<and> cm_Revision credential \<noteq> 0
        \<and> registry_factory (ce_registry V) (pa_ProviderType account) = Some factory
        \<and> ce_Decrypt V (cm_Encrypted credential)
             \<lparr>cc_ProviderAccountID = pa_ID account, cc_ProviderType = pa_ProviderType account,
              cc_CredentialRevision = cm_Revision credential\<rparr> = Some plaintext
        \<and> f_Build factory \<lparr>ac_ID = pa_ID account, ac_Type = pa_ProviderType account, ac_Name = pa_Name account,
             ac_Options = pa_Options account, ac_CredentialRevision = cm_Revision credential\<rparr> plaintext w = (w', Inr client)
        \<and> rp_GetProviderAccount (ce_repository V) accountID m2 = (m3, Inr latest)
        \<and> same_account_state latest account (cm_Revision credential))"

text \<open>Or it was cached, in the generation it is handed out for, for an account with the same state.\<close>

definition cached_for :: "'w client_env \<Rightarrow> uuid \<Rightarrow> 'w provider \<Rightarrow> nat \<Rightarrow> 64 word \<Rightarrow> provider_account \<Rightarrow> bool" where
  "cached_for V accountID client a generation account \<longleftrightarrow>
     (\<exists>m m1 credential r.
        rp_GetProviderAccountCredential (ce_repository V) accountID m = (m1, Inr (account, credential))
        \<and> pa_Enabled account \<and> pa_CredentialConfigured account
        \<and> cached (ce_now V m1) generation account (mg_runtimes m1 a) = (r, Some client))"

lemma build_client_Some:
  assumes "build_client V i a g account credential factory m = (m', Inr (Some (client, latest)))"
    and "rp_GetProviderAccountCredential (ce_repository V) i m0 = (m0', Inr (account, credential))"
    and "pa_Enabled account" "pa_CredentialConfigured account" "cm_Revision credential \<noteq> 0"
    and "registry_factory (ce_registry V) (pa_ProviderType account) = Some factory"
  shows "built_from V i client latest \<and> is_current a g m'"
proof (rule ends_conclude [where m = "build_client V i a g account credential factory" and w = m, OF assms(1)],
    unfold build_client_def, intro ends_rules, simp_all, goal_cases)
  case (1 plaintext m1 client' m2 latest' m3 stored)
  have "built_from V i client' latest'"
    unfolding built_from_def using 1 assms(2-)
    by (auto simp: mapped_Inr in_world_def split: prod.splits) blast
  moreover have "is_current a g m3" if stored
    using 1 that
    by (auto simp: plainly_def store_client_def is_current_def current_def store_def Let_def split: prod.splits if_splits)
  ultimately show ?case by auto
qed

definition handed_out ::
  "'w client_env \<Rightarrow> uuid \<Rightarrow> nat \<Rightarrow> 'w manager \<Rightarrow> 'w manager provider \<Rightarrow> provider_account \<Rightarrow> bool" where
  "handed_out V i a m p account \<longleftrightarrow>
     (\<exists>client g. p = bounded V client a g \<and> is_current a g m
        \<and> (built_from V i client account \<or> cached_for V i client a g account))"

lemma get_once_Inr:
  assumes "get_once V i a g retry m = (m', Inr (p, account))"
    and "\<And>m m' p account. retry m = (m', Inr (p, account)) \<Longrightarrow> handed_out V i a m' p account"
  shows "handed_out V i a m' p account"
proof (rule ends_conclude [where m = "get_once V i a g retry" and w = m, OF assms(1)],
    unfold get_once_def, intro ends_rules, simp_all, goal_cases)
  case (1 m1 ca account' credential factory c m2 b)
  then show ?case
    by (auto intro!: ends_call dest: assms(2))
next
  case (2 m1 ca account' credential factory m2 c m3 b cl)
  then show ?case
    by (cases cl) (auto simp: handed_out_def dest!: build_client_Some)
next
  case (3 m1 ca account' credential factory m2 c client)
  obtain r where r: "cached (ce_now V m1) g account' (mg_runtimes m1 a) = (r, Some client)"
      "m2 = m1\<lparr>mg_runtimes := (mg_runtimes m1)(a := r)\<rparr>"
    using 3 by (auto simp: plainly_def cached_client_def split: prod.splits)
  then have "is_current a g m2"
    by (auto simp: cached_def is_current_def current_def split: if_splits)
  moreover from 3 r have "cached_for V i client a g account'" unfolding cached_for_def by blast
  ultimately show ?case by (auto simp: handed_out_def)
qed

lemma get_attempts_Inr:
  "get_attempts V i a n m = (m', Inr (p, account)) \<Longrightarrow> handed_out V i a m' p account"
proof (induction n arbitrary: m m' p account)
  case (Suc n)
  then show ?case by (auto simp: Let_def elim!: get_once_Inr split: if_splits)
qed simp

text \<open>C17: A client that \<open>Get\<close> returns belongs to the account as the repository has it: it was built by the
  registered factory from the configured credential, decrypted in the context of the account and its revision,
  and the account was read again unchanged, or it was cached for an account in the same state; and it is of the
  current generation of its runtime when it is handed out.\<close>

theorem Get_hands_out:
  assumes "Get V accountID m = (m', Inr (p, account))"
  shows "\<exists>client a g. p = bounded V client a g \<and> is_current a g m'
     \<and> (built_from V accountID client account \<or> cached_for V accountID client a g account)"
proof -
  from assms obtain m2 where "get_attempts V accountID (snd (accountRuntime accountID m)) maximumClientBuildAttempts m2
      = (m', Inr (p, account))"
    by (auto simp: Get_def split: prod.splits option.splits)
  from get_attempts_Inr [OF this] show ?thesis by (auto simp: handed_out_def)
qed

end
