(* ===== verification/Call_Slots.thy ===== *)
theory Call_Slots
  imports Main
begin

text \<open>
  The two semaphores of an account's runtime in \<open>internal/service/provider_clients.go\<close>, as the
  interleaving of any number of goroutines that run \<open>providerCall\<close> and \<open>providerMutationCall\<close>. A
  buffered channel is the number of its elements; sending blocks while it is full, and the deferred
  receives give the slots back in reverse order.
\<close>

definition maximumAccountConcurrency :: nat where "maximumAccountConcurrency = 8"

text \<open>
  Where a goroutine is; the flag tells a mutation from a read. \<open>Calling\<close> is between the send to
  \<open>calls\<close> and its deferred receive, \<open>Leaving\<close> a mutation that has given back only that slot.
\<close>

datatype phase = Outside | WaitingMutation | WaitingCall bool | Calling bool | Leaving

record slots =
  sl_calls :: nat
  sl_mutations :: nat
  sl_phase :: "nat \<Rightarrow> phase"

definition holds_call :: "phase \<Rightarrow> bool" where
  "holds_call p \<longleftrightarrow> p = Calling False \<or> p = Calling True"

definition holds_mutation :: "phase \<Rightarrow> bool" where
  "holds_mutation p \<longleftrightarrow> p = WaitingCall True \<or> p = Calling True \<or> p = Leaving"

definition free_slots :: slots where
  "free_slots = \<lparr>sl_calls = 0, sl_mutations = 0, sl_phase = (\<lambda>_. Outside)\<rparr>"

definition move :: "nat \<Rightarrow> phase \<Rightarrow> slots \<Rightarrow> slots" where
  "move t p s = s\<lparr>sl_phase := (sl_phase s)(t := p)\<rparr>"

inductive slot_step :: "slots \<Rightarrow> slots \<Rightarrow> bool" where
  read_begins: "sl_phase s t = Outside \<Longrightarrow> slot_step s (move t (WaitingCall False) s)"
| mutation_begins: "sl_phase s t = Outside \<Longrightarrow> slot_step s (move t WaitingMutation s)"
| mutation_taken: "sl_phase s t = WaitingMutation \<Longrightarrow> sl_mutations s < 1 \<Longrightarrow>
     slot_step s (move t (WaitingCall True) (s\<lparr>sl_mutations := sl_mutations s + 1\<rparr>))"
| mutation_given_up: "sl_phase s t = WaitingMutation \<Longrightarrow> slot_step s (move t Outside s)"
| call_taken: "sl_phase s t = WaitingCall b \<Longrightarrow> sl_calls s < maximumAccountConcurrency \<Longrightarrow>
     slot_step s (move t (Calling b) (s\<lparr>sl_calls := sl_calls s + 1\<rparr>))"
| call_given_up: "sl_phase s t = WaitingCall b \<Longrightarrow> slot_step s (move t (if b then Leaving else Outside) s)"
| call_done: "sl_phase s t = Calling b \<Longrightarrow>
     slot_step s (move t (if b then Leaving else Outside) (s\<lparr>sl_calls := sl_calls s - 1\<rparr>))"
| mutation_done: "sl_phase s t = Leaving \<Longrightarrow>
     slot_step s (move t Outside (s\<lparr>sl_mutations := sl_mutations s - 1\<rparr>))"

inductive slots_reachable :: "slots \<Rightarrow> bool" where
  slots_free: "slots_reachable free_slots"
| slots_step: "slots_reachable s \<Longrightarrow> slot_step s s' \<Longrightarrow> slots_reachable s'"

inductive_simps slot_step_simps: "slot_step s s'"

definition calling :: "slots \<Rightarrow> nat set" where
  "calling s = {t. holds_call (sl_phase s t)}"

definition mutating :: "slots \<Rightarrow> nat set" where
  "mutating s = {t. holds_mutation (sl_phase s t)}"

text \<open>The channels hold one element for each goroutine that has sent to them and not yet received.\<close>

definition slots_ok :: "slots \<Rightarrow> bool" where
  "slots_ok s \<longleftrightarrow> finite (calling s) \<and> finite (mutating s)
     \<and> card (calling s) = sl_calls s \<and> card (mutating s) = sl_mutations s
     \<and> sl_calls s \<le> maximumAccountConcurrency \<and> sl_mutations s \<le> 1"

lemma move_sets:
  "calling (move t p s) = (if holds_call p then insert t (calling s) else calling s - {t})"
  "mutating (move t p s) = (if holds_mutation p then insert t (mutating s) else mutating s - {t})"
  by (auto simp: calling_def mutating_def move_def)

lemma move_counts [simp]:
  "sl_calls (move t p s) = sl_calls s" "sl_mutations (move t p s) = sl_mutations s"
  by (simp_all add: move_def)

lemma sets_update [simp]:
  "calling (s\<lparr>sl_calls := n\<rparr>) = calling s" "calling (s\<lparr>sl_mutations := n\<rparr>) = calling s"
  "mutating (s\<lparr>sl_calls := n\<rparr>) = mutating s" "mutating (s\<lparr>sl_mutations := n\<rparr>) = mutating s"
  by (simp_all add: calling_def mutating_def)

lemma member_sets:
  "t \<in> calling s \<longleftrightarrow> holds_call (sl_phase s t)" "t \<in> mutating s \<longleftrightarrow> holds_mutation (sl_phase s t)"
  by (simp_all add: calling_def mutating_def)

lemmas slot_facts = slots_ok_def move_sets member_sets holds_call_def holds_mutation_def insert_absorb
  card_insert_if card_Diff_singleton

lemma slot_step_ok: "slot_step s s' \<Longrightarrow> slots_ok s \<Longrightarrow> slots_ok s'"
proof (induction rule: slot_step.induct)
  case (call_given_up s t b)
  then show ?case by (cases b) (auto simp: slot_facts)
next
  case (call_taken s t b)
  then show ?case by (cases b) (auto simp: slot_facts)
next
  case (call_done s t b)
  then show ?case by (cases b) (auto simp: slot_facts)
qed (auto simp: slot_facts)

lemma slots_reachable_ok: "slots_reachable s \<Longrightarrow> slots_ok s"
proof (induction rule: slots_reachable.induct)
  case slots_free
  then show ?case by (simp add: slots_ok_def free_slots_def calling_def mutating_def holds_call_def holds_mutation_def)
next
  case (slots_step s s')
  then show ?case by (blast intro: slot_step_ok)
qed

text \<open>C29: However the goroutines of an account interleave, at most eight of them are inside a call of the
  provider and at most one inside a mutation; the channels count them exactly, so no slot is lost, and when all
  have left, every slot is free again.\<close>

theorem slots_bounded:
  assumes "slots_reachable s"
  shows "card {t. holds_call (sl_phase s t)} \<le> maximumAccountConcurrency
    \<and> (\<forall>t u. sl_phase s t = Calling True \<and> sl_phase s u = Calling True \<longrightarrow> t = u)
    \<and> ((\<forall>t. sl_phase s t = Outside) \<longrightarrow> s = free_slots)"
proof -
  from slots_reachable_ok [OF assms] have ok: "slots_ok s" .
  have "t = u" if "sl_phase s t = Calling True" "sl_phase s u = Calling True" for t u
  proof -
    from that have "{t, u} \<subseteq> mutating s" by (auto simp: mutating_def holds_mutation_def)
    with ok have "card {t, u} \<le> 1" unfolding slots_ok_def by (metis card_mono le_trans)
    then show ?thesis by (auto simp: card_insert_if split: if_splits)
  qed
  moreover have "s = free_slots" if "\<forall>t. sl_phase s t = Outside"
  proof -
    from that have "calling s = {}" "mutating s = {}" "sl_phase s = (\<lambda>_. Outside)"
      by (auto simp: calling_def mutating_def holds_call_def holds_mutation_def)
    with ok show ?thesis by (cases s) (simp add: slots_ok_def free_slots_def)
  qed
  ultimately show ?thesis using ok by (simp add: slots_ok_def calling_def [symmetric])
qed

theorem slots_bounded_witness:
  "\<exists>s. slots_reachable s \<and> sl_phase s 3 = Calling True \<and> card {t. holds_call (sl_phase s t)} \<le> maximumAccountConcurrency"
proof -
  let ?s1 = "move 3 WaitingMutation free_slots"
  let ?s2 = "move 3 (WaitingCall True) (?s1\<lparr>sl_mutations := sl_mutations ?s1 + 1\<rparr>)"
  let ?s3 = "move 3 (Calling True) (?s2\<lparr>sl_calls := sl_calls ?s2 + 1\<rparr>)"
  have "slot_step free_slots ?s1" by (rule mutation_begins) (simp add: free_slots_def)
  moreover have "slot_step ?s1 ?s2" by (rule mutation_taken) (simp_all add: free_slots_def move_def)
  moreover have "slot_step ?s2 ?s3"
    by (rule call_taken) (simp_all add: free_slots_def move_def maximumAccountConcurrency_def)
  ultimately have r: "slots_reachable ?s3" by (blast intro: slots_free slots_step)
  moreover have "sl_phase ?s3 3 = Calling True" by (simp add: move_def)
  ultimately show ?thesis using slots_bounded [OF r] by blast
qed

end
