(* ===== verification/Provider_Accounts.thy ===== *)
theory Provider_Accounts
  imports Dns_Reads
begin

text \<open>
  \<open>ProviderAccountService\<close> of \<open>internal/service/provider_accounts.go\<close>. Every change of an account runs
  in a transaction with its audit event, and the clients and the cached record sets of the account
  are invalidated before it and after it. The vault's \<open>Encrypt\<close> and the JSON decoder are parameters.
\<close>

section \<open>The service\<close>

record ('w, 'f) account_service =
  av_env :: "'w service_env"
  av_registry :: "'f registry"
  av_Encrypt :: "string \<Rightarrow> credential_context \<Rightarrow> 'w \<Rightarrow> 'w \<times> encrypted_credential option"
  av_decoder :: json_decoder
  av_clients_Get :: "uuid \<Rightarrow> ('w, 'w provider \<times> provider_account) scall"
  av_clients_Invalidate :: "uuid \<Rightarrow> 'w \<Rightarrow> 'w"
  av_clients_Remove :: "uuid \<Rightarrow> 'w \<Rightarrow> 'w"
  av_cache :: bool

abbreviation av_repository :: "('w, 'f) account_service \<Rightarrow> 'w repository" where
  "av_repository A \<equiv> se_repository (av_env A)"

definition SetCacheInvalidator :: "('w, 'f) account_service \<Rightarrow> ('w, 'f) account_service" where
  "SetCacheInvalidator A = A\<lparr>av_cache := True\<rparr>"

definition ProviderDefinitions :: "('w, 'f) account_service \<Rightarrow> provider_definition list" where
  "ProviderDefinitions A = Definitions (av_registry A)"

definition ListAccounts :: "('w, 'f) account_service \<Rightarrow> ('w, provider_account list) scall" where
  "ListAccounts A = rp_ListProviderAccounts (av_repository A)"

definition GetAccount :: "('w, 'f) account_service \<Rightarrow> uuid \<Rightarrow> ('w, provider_account) scall" where
  "GetAccount A i = rp_GetProviderAccount (av_repository A) i"

section \<open>Audit\<close>

definition newProviderAuditEvent ::
  "'w service_env \<Rightarrow> actor \<Rightarrow> request_metadata \<Rightarrow> string \<Rightarrow> uuid \<Rightarrow> audit_result \<Rightarrow> string \<Rightarrow> ('w, audit_event) scall" where
  "newProviderAuditEvent V actor md action accountID res errorCode =
     seq (NewV7 V ''generate provider audit event ID'') (\<lambda>eventID.
     seq (now V) (\<lambda>t. give
       \<lparr>ev_ID = eventID, ev_OccurredAt = t,
        ev_ActorUserID = (if act_ID actor \<noteq> nil_uuid then Some (act_ID actor) else None),
        ev_ActorUsernameSnapshot = act_Username actor, ev_Action = action,
        ev_ResourceType = ''provider_account'', ev_ResourceID = accountID,
        ev_ProviderAccountID = Some accountID, ev_ZoneID = None, ev_RequestID = rm_RequestID md,
        ev_IP = rm_IP md, ev_UserAgent = rm_UserAgent md, ev_Result = res, ev_ErrorCode = errorCode,
        ev_BeforeData = [], ev_AfterData = [], ev_Metadata = []\<rparr>))"

definition safeProviderAccountAuditData :: "provider_account \<Rightarrow> any_map" where
  "safeProviderAccountAuditData a =
     [(''provider_type'', AText (pa_ProviderType a)), (''name'', AText (pa_Name a)),
      (''description'', AText (pa_Description a)), (''enabled'', ABool (pa_Enabled a)),
      (''options'', ARaw (pa_Options a)), (''credential_revision'', any_word (pa_CredentialRevision a)),
      (''credential_configured'', ABool (pa_CredentialConfigured a)),
      (''validation_status'', AText (status_string (pa_ValidationStatus a)))]"

text \<open>The end of a transaction: an event with data, inserted, and the value of the transaction.\<close>

definition audit_in_tx ::
  "'w service_env \<Rightarrow> actor \<Rightarrow> request_metadata \<Rightarrow> string \<Rightarrow> uuid \<Rightarrow> audit_result \<Rightarrow> string \<Rightarrow>
   (audit_event \<Rightarrow> audit_event) \<Rightarrow> tx_value \<Rightarrow> ('w, tx_value) scall" where
  "audit_in_tx V actor md action accountID res errorCode f v =
     seq (newProviderAuditEvent V actor md action accountID res errorCode) (\<lambda>event.
     seq (rp_InsertAuditEvent (se_repository V) (f event)) (\<lambda>_. give v))"

definition tx_account :: "tx_value \<Rightarrow> provider_account" where
  "tx_account v = (case v of TxAccount a \<Rightarrow> a | _ \<Rightarrow> zero_account)"

section \<open>Validation of the input\<close>

definition validateProviderAccountText :: "string \<Rightarrow> string \<Rightarrow> service_error + string \<times> string" where
  "validateProviderAccountText name description =
     (let n = trim_space name; d = trim_space description in
      if length n = 0 \<or> length n > 128 \<or> length d > 2048 then Inl ErrInvalidProviderInput else Inr (n, d))"

definition payload :: "descriptor_error + string \<Rightarrow> service_error + string" where
  "payload r = (case r of Inl d \<Rightarrow> Inl (InvalidInput d) | Inr s \<Rightarrow> Inr s)"

definition factory_of :: "('w, 'f) account_service \<Rightarrow> ProviderType \<Rightarrow> service_error + 'f factory" where
  "factory_of A t = (case registry_factory (av_registry A) t of None \<Rightarrow> Inl ErrProviderTypeUnavailable | Some f \<Rightarrow> Inr f)"

text \<open>Invalidation of the clients and of the cache, if one is set.\<close>

definition invalidate_account :: "('w, 'f) account_service \<Rightarrow> uuid \<Rightarrow> ('w dns_state, unit) scall" where
  "invalidate_account A i s =
     (let s1 = s\<lparr>ds_world := av_clients_Invalidate A i (ds_world s)\<rparr>
      in (if av_cache A then s1\<lparr>ds_cache := InvalidateAccount i (ds_cache s1)\<rparr> else s1, Inr ()))"

section \<open>Create\<close>

record create_account_input =
  cai_ProviderType :: ProviderType
  cai_Name :: string
  cai_Description :: string
  cai_Enabled :: "bool option"
  cai_Options :: string
  cai_Credentials :: string

text \<open>The account as it will be stored, and the credential when the input has one.\<close>

definition encrypt_credential ::
  "('w, 'f) account_service \<Rightarrow> string \<Rightarrow> credential_context \<Rightarrow> ('w, credential_material) scall" where
  "encrypt_credential A canonical context =
     seq (plainly (av_Encrypt A canonical context)) (\<lambda>encrypted.
     case encrypted of
       None \<Rightarrow> reject (ServiceFailure ''encrypt provider credential'')
     | Some c \<Rightarrow> give \<lparr>cm_Revision = cc_CredentialRevision context, cm_Encrypted = c\<rparr>)"

definition new_account ::
  "('w, 'f) account_service \<Rightarrow> create_account_input \<Rightarrow> ('w, provider_account \<times> credential_material option) scall" where
  "new_account A input =
     seq (checked (factory_of A (cai_ProviderType input))) (\<lambda>factory.
     seq (checked (validateProviderAccountText (cai_Name input) (cai_Description input))) (\<lambda>(name, description).
     seq (checked (payload (ValidateAccountOptionsPayload (av_decoder A) (cai_Options input) (f_AccountOptionsDescriptor factory))))
       (\<lambda>options.
     seq (NewV7 (av_env A) ''generate provider account ID'') (\<lambda>accountID.
     seq (now (av_env A)) (\<lambda>t.
     let account = zero_account\<lparr>pa_ID := accountID, pa_ProviderType := cai_ProviderType input, pa_Name := name,
           pa_Description := description, pa_Enabled := (case cai_Enabled input of None \<Rightarrow> True | Some b \<Rightarrow> b),
           pa_Options := options, pa_ValidationStatus := ValidationStatusUnconfigured,
           pa_CreatedAt := t, pa_UpdatedAt := t\<rparr> in
     if cai_Credentials input = [] then give (account, None)
     else
       seq (checked (payload (ValidateCredentialPayload (av_decoder A) (cai_Credentials input) (f_CredentialDescriptor factory))))
         (\<lambda>canonical.
       seq (encrypt_credential A canonical
              \<lparr>cc_ProviderAccountID = accountID, cc_ProviderType = cai_ProviderType input, cc_CredentialRevision = 1\<rparr>)
         (\<lambda>material.
       give (account\<lparr>pa_CredentialRevision := 1, pa_CredentialConfigured := True,
               pa_ValidationStatus := ValidationStatusPending\<rparr>, Some material))))))))"

definition CreateAccount ::
  "('w, 'f) account_service \<Rightarrow> actor \<Rightarrow> create_account_input \<Rightarrow> request_metadata \<Rightarrow> ('w, provider_account) scall" where
  "CreateAccount A actor input md =
     seq (new_account A input) (\<lambda>(account, credential).
     seq (rp_WithinTx (av_repository A)
           (seq (rp_CreateProviderAccount (av_repository A) account credential) (\<lambda>_.
            audit_in_tx (av_env A) actor md ''provider_account.create'' (pa_ID account) ResultSucceeded []
              (\<lambda>e. e\<lparr>ev_AfterData := safeProviderAccountAuditData account\<rparr>) TxDone))) (\<lambda>_.
     give account))"

section \<open>Update\<close>

record update_account_input =
  uai_Name :: "string option"
  uai_Description :: "string option"
  uai_Enabled :: "bool option"
  uai_Options :: string

definition optional :: "('a \<Rightarrow> service_error + 'b) \<Rightarrow> 'a option \<Rightarrow> service_error + 'b option" where
  "optional f v = (case v of None \<Rightarrow> Inr None | Some x \<Rightarrow> and_then (f x) (\<lambda>y. Inr (Some y)))"

definition account_changes_of ::
  "('w, 'f) account_service \<Rightarrow> 'f factory \<Rightarrow> provider_account \<Rightarrow> update_account_input \<Rightarrow> service_error + account_changes" where
  "account_changes_of A factory before input =
     and_then (optional (\<lambda>n. and_then (validateProviderAccountText n (pa_Description before)) (\<lambda>p. Inr (fst p))) (uai_Name input)) (\<lambda>name.
     and_then (optional (\<lambda>d. and_then (validateProviderAccountText (pa_Name before) d) (\<lambda>p. Inr (snd p))) (uai_Description input)) (\<lambda>description.
     if uai_Options input = []
     then Inr \<lparr>ch_Name = name, ch_Description = description, ch_Enabled = uai_Enabled input, ch_Options = [], ch_ResetValidation = False\<rparr>
     else and_then (payload (ValidateAccountOptionsPayload (av_decoder A) (uai_Options input) (f_AccountOptionsDescriptor factory))) (\<lambda>options.
       Inr \<lparr>ch_Name = name, ch_Description = description, ch_Enabled = uai_Enabled input, ch_Options = options, ch_ResetValidation = True\<rparr>)))"

definition affects_clients :: "update_account_input \<Rightarrow> bool" where
  "affects_clients input \<longleftrightarrow> uai_Enabled input \<noteq> None \<or> uai_Options input \<noteq> []"

definition when_true :: "bool \<Rightarrow> ('w, unit) scall \<Rightarrow> ('w, unit) scall" where
  "when_true b m = (if b then m else give ())"

definition UpdateAccount ::
  "('w, 'f) account_service \<Rightarrow> actor \<Rightarrow> uuid \<Rightarrow> update_account_input \<Rightarrow> request_metadata \<Rightarrow> ('w dns_state, provider_account) scall" where
  "UpdateAccount A actor accountID input md =
     (let V = av_env A; R = av_repository A in
      seq (lift (rp_GetProviderAccount R accountID)) (\<lambda>before.
      seq (invalidate_account A accountID) (\<lambda>_.
      seq (checked (factory_of A (pa_ProviderType before))) (\<lambda>factory.
      seq (checked (account_changes_of A factory before input)) (\<lambda>changes.
      seq (when_true (affects_clients input) (invalidate_account A accountID)) (\<lambda>_.
      seq (lift (rp_WithinTx R
            (seq (rp_UpdateProviderAccount R accountID (pa_UpdatedAt before) changes) (\<lambda>updated.
             seq (when_true (uai_Options input \<noteq> []) (seq (now V) (rp_InvalidateZoneIndex R accountID))) (\<lambda>_.
             audit_in_tx V actor md ''provider_account.update'' accountID ResultSucceeded []
               (\<lambda>e. e\<lparr>ev_BeforeData := safeProviderAccountAuditData before, ev_AfterData := safeProviderAccountAuditData updated\<rparr>)
               (TxAccount updated)))))) (\<lambda>v.
      seq (when_true (affects_clients input) (invalidate_account A accountID)) (\<lambda>_.
      give (tx_account v)))))))))"

section \<open>Delete\<close>

definition DeleteAccount ::
  "('w, 'f) account_service \<Rightarrow> actor \<Rightarrow> uuid \<Rightarrow> request_metadata \<Rightarrow> ('w dns_state, unit) scall" where
  "DeleteAccount A actor accountID md =
     (let V = av_env A; R = av_repository A in
      seq (invalidate_account A accountID) (\<lambda>_.
      seq (lift (rp_WithinTx R
            (seq (rp_DeleteProviderAccount R accountID) (\<lambda>deleted.
             audit_in_tx V actor md ''provider_account.delete'' accountID ResultSucceeded []
               (\<lambda>e. e\<lparr>ev_BeforeData := safeProviderAccountAuditData deleted\<rparr>) TxDone)))) (\<lambda>_.
      (\<lambda>s. let s1 = s\<lparr>ds_world := av_clients_Remove A accountID (ds_world s)\<rparr>
           in (if av_cache A then s1\<lparr>ds_cache := InvalidateAccount accountID (ds_cache s1)\<rparr> else s1, Inr ())))))"

section \<open>Credentials\<close>

definition ReplaceCredentials ::
  "('w, 'f) account_service \<Rightarrow> actor \<Rightarrow> uuid \<Rightarrow> string \<Rightarrow> request_metadata \<Rightarrow> ('w dns_state, provider_account) scall" where
  "ReplaceCredentials A actor accountID credentials md =
     (let V = av_env A; R = av_repository A in
      seq (lift (rp_GetProviderAccount R accountID)) (\<lambda>account.
      seq (invalidate_account A accountID) (\<lambda>_.
      seq (checked (factory_of A (pa_ProviderType account))) (\<lambda>factory.
      seq (checked (payload (ValidateCredentialPayload (av_decoder A) credentials (f_CredentialDescriptor factory)))) (\<lambda>canonical.
      let nextRevision = pa_CredentialRevision account + 1 in
      if nextRevision = 0 then reject ErrProviderAccountConflict
      else
        seq (lift (encrypt_credential A canonical
               \<lparr>cc_ProviderAccountID = pa_ID account, cc_ProviderType = pa_ProviderType account,
                cc_CredentialRevision = nextRevision\<rparr>)) (\<lambda>material.
        seq (lift (rp_WithinTx R
              (seq (rp_ReplaceProviderAccountCredential R accountID (pa_CredentialRevision account) material) (\<lambda>updated.
               seq (seq (now V) (rp_InvalidateZoneIndex R accountID)) (\<lambda>_.
               audit_in_tx V actor md ''provider_account.credentials.replace'' accountID ResultSucceeded []
                 (\<lambda>e. e\<lparr>ev_BeforeData := [(''credential_revision'', any_word (pa_CredentialRevision account)),
                          (''configured'', ABool (pa_CredentialConfigured account))],
                       ev_AfterData := [(''credential_revision'', any_word (pa_CredentialRevision updated)),
                          (''configured'', ABool True)]\<rparr>)
                 (TxAccount updated)))))) (\<lambda>v.
        seq (invalidate_account A accountID) (\<lambda>_.
        give (tx_account v)))))))))"

section \<open>Validation of an account\<close>

text \<open>
  What a failed validation means for the account. The mapped error has one of the nine codes.
\<close>

definition validation_outcome :: "provider_error option \<Rightarrow> ValidationStatus \<times> string \<times> audit_result" where
  "validation_outcome e =
     (case e of None \<Rightarrow> (ValidationStatusValid, [], ResultSucceeded)
      | Some p \<Rightarrow>
          (if pe_Code p \<in> {ErrAuthentication, ErrForbidden, ErrValidation} then ValidationStatusInvalid
           else ValidationStatusError, error_code_string (pe_Code p), ResultFailed))"

definition try_validation :: "('w, 'f) account_service \<Rightarrow> uuid \<Rightarrow> ('w, provider_error option) scall" where
  "try_validation A accountID =
     attempt (av_clients_Get A accountID) (\<lambda>e. give (map_service_error e ''validate_credentials'')) (\<lambda>(client, _).
     attempt (up (pv_ValidateCredentials client)) (\<lambda>e. give (map_service_error e ''validate_credentials'')) (\<lambda>_.
     give None))"

text \<open>The result carries the account and the validation error, as the code returns both.\<close>

definition ValidateAccount ::
  "('w, 'f) account_service \<Rightarrow> actor \<Rightarrow> uuid \<Rightarrow> request_metadata \<Rightarrow> ('w, provider_account \<times> provider_error option) scall" where
  "ValidateAccount A actor accountID md =
     (let V = av_env A; R = av_repository A in
      seq (rp_GetProviderAccount R accountID) (\<lambda>account.
      seq (try_validation A accountID) (\<lambda>validationErr.
      case validation_outcome validationErr of (status, errorCode, res) \<Rightarrow>
      seq (now V) (\<lambda>validatedAt.
      seq (rp_WithinTx R
            (seq (rp_SetProviderAccountValidation R accountID (pa_CredentialRevision account) (pa_UpdatedAt account)
                    status validatedAt errorCode) (\<lambda>updated.
             audit_in_tx V actor md ''provider_account.validate'' accountID res errorCode
               (\<lambda>e. e\<lparr>ev_Metadata := [(''credential_revision'', any_word (pa_CredentialRevision account))]\<rparr>)
               (TxAccount updated)))) (\<lambda>v.
      give (tx_account v, validationErr))))))"

end
