(* ===== verification/Zone_Sync.thy ===== *)
theory Zone_Sync
  imports Provider_Accounts
begin

text \<open>
  \<open>ZoneSyncService\<close> of \<open>internal/service/zone_sync.go\<close>: all zones of an account are read page by page,
  the index of the account is replaced by them in one transaction with the audit event, and the
  cached record sets of the account are invalidated. One sync of an account runs at a time; the wait
  for its turn and the release are parameters that may change the world.
\<close>

record 'w sync_service =
  yv_env :: "'w service_env"
  yv_clients_Get :: "uuid \<Rightarrow> ('w, 'w provider \<times> provider_account) scall"
  yv_cache :: bool
  yv_acquire :: "uuid \<Rightarrow> 'w \<Rightarrow> 'w \<times> go_error option"
  yv_release :: "uuid \<Rightarrow> 'w \<Rightarrow> 'w"

definition zoneSyncPageLimit :: int where "zoneSyncPageLimit = 200"

definition maximumZonePages :: nat where "maximumZonePages = 10000"

text \<open>A \<open>ProviderError\<close> that is the error itself is replaced by its mapped form.\<close>

definition mapped_sync_error :: "service_error \<Rightarrow> service_error" where
  "mapped_sync_error e = (case e of Upstream (ProviderErr p) \<Rightarrow> map_error (ProviderErr p) ''zone_sync'' | _ \<Rightarrow> e)"

definition sync_error_code :: "service_error \<Rightarrow> string" where
  "sync_error_code e =
     (case map_service_error e ''zone_sync'' of None \<Rightarrow> ''internal'' | Some p \<Rightarrow> error_code_string (pe_Code p))"

definition auditSyncFailure ::
  "'w sync_service \<Rightarrow> actor \<Rightarrow> uuid \<Rightarrow> request_metadata \<Rightarrow> service_error \<Rightarrow> ('w, 'a) scall" where
  "auditSyncFailure Y actor accountID md syncErr =
     attempt (rp_WithinTx (se_repository (yv_env Y))
                (audit_in_tx (yv_env Y) actor md ''zone.sync'' accountID ResultFailed (sync_error_code syncErr) id TxDone))
       (\<lambda>auditErr. reject (Wrapped auditErr (''zone sync failed and audit persistence failed: '' @ error_text auditErr)))
       (\<lambda>_. reject (mapped_sync_error syncErr))"

section \<open>Reading all zones\<close>

definition index_entry :: "uuid \<Rightarrow> zone \<Rightarrow> zone_entry" where
  "index_entry i z =
     zero_zone_entry\<lparr>ze_ID := i, ze_ProviderZoneID := zone_ID z, ze_Name := zone_Name z,
       ze_Status := zone_Status z, ze_Metadata := encodeZoneMetadata z\<rparr>"

text \<open>The provider zone IDs of the entries collected so far are the seen IDs.\<close>

fun sync_items ::
  "'w service_env \<Rightarrow> (service_error \<Rightarrow> ('w, zone_entry list) scall) \<Rightarrow> zone_entry list \<Rightarrow> zone list \<Rightarrow> ('w, zone_entry list) scall" where
  "sync_items V failed acc [] = give acc"
| "sync_items V failed acc (z # zs) =
     (case NormalizeZone (se_text V) z of
        Inl m \<Rightarrow> failed (new_error ErrUpstream ''normalize_zone'' m)
      | Inr n \<Rightarrow>
          if zone_ID n \<in> set (map ze_ProviderZoneID acc)
          then failed (new_error ErrUpstream ''list_zones'' ''provider returned duplicate zone IDs'')
          else seq (NewV7 V ''generate zone index ID'') (\<lambda>i. sync_items V failed (acc @ [index_entry i n]) zs))"

fun sync_pages ::
  "'w service_env \<Rightarrow> (service_error \<Rightarrow> ('w, zone_entry list) scall) \<Rightarrow> 'w provider \<Rightarrow> nat \<Rightarrow> string \<Rightarrow> string list \<Rightarrow>
   zone_entry list \<Rightarrow> ('w, zone_entry list) scall" where
  "sync_pages V failed client 0 cursor seenCursors acc =
     failed (new_error ErrUpstream ''list_zones'' ''provider zone pagination exceeded the safety limit'')"
| "sync_pages V failed client (Suc n) cursor seenCursors acc =
     (let request = \<lparr>pr_Cursor = cursor, pr_Limit = zoneSyncPageLimit\<rparr> in
      attempt (mapped ''list_zones'' (pv_ListZones client request)) failed (\<lambda>page.
      attempt (of_result ErrUpstream ''list_zones'' (ValidatePage request page)) failed (\<lambda>_.
      seq (sync_items V failed acc (pg_Items page)) (\<lambda>acc'.
      if pg_NextCursor page = [] then give acc'
      else if pg_NextCursor page \<in> set seenCursors
      then failed (new_error ErrUpstream ''list_zones'' ''provider pagination cursor cycled'')
      else sync_pages V failed client n (pg_NextCursor page) (pg_NextCursor page # seenCursors) acc'))))"

section \<open>The sync\<close>

definition sync_locked ::
  "'w sync_service \<Rightarrow> actor \<Rightarrow> uuid \<Rightarrow> request_metadata \<Rightarrow> ('w dns_state, zone_entry list) scall" where
  "sync_locked Y actor accountID md =
     (let V = yv_env Y; R = se_repository V in
      attempt (lift (yv_clients_Get Y accountID)) (\<lambda>e. lift (auditSyncFailure Y actor accountID md e)) (\<lambda>(client, account).
      seq (lift (sync_pages V (auditSyncFailure Y actor accountID md) client maximumZonePages [] [] [])) (\<lambda>zones.
      seq (lift (now V)) (\<lambda>fetchedAt.
      seq (lift (rp_WithinTx R
            (seq (rp_ReplaceZoneIndex R accountID (pa_CredentialRevision account) (pa_UpdatedAt account) zones fetchedAt) (\<lambda>_.
             audit_in_tx V actor md ''zone.sync'' accountID ResultSucceeded []
               (\<lambda>e. e\<lparr>ev_ResourceType := ''provider_account'',
                      ev_Metadata := [(''zone_count'', ANum (int (length zones))), (''fetched_at'', ATime fetchedAt),
                        (''provider_type'', AText (pa_ProviderType account))]\<rparr>) TxDone)))) (\<lambda>_.
      seq (in_cache (\<lambda>c. (if yv_cache Y then InvalidateAccount accountID c else c, ()))) (\<lambda>_.
      give zones))))))"

definition SyncAccount ::
  "'w sync_service \<Rightarrow> actor \<Rightarrow> uuid \<Rightarrow> request_metadata \<Rightarrow> ('w dns_state, zone_entry list) scall" where
  "SyncAccount Y actor accountID md s =
     (case yv_acquire Y accountID (ds_world s) of
        (w, Some e) \<Rightarrow> (s\<lparr>ds_world := w\<rparr>, Inl (Upstream e))
      | (w, None) \<Rightarrow>
          (case sync_locked Y actor accountID md (s\<lparr>ds_world := w\<rparr>) of
             (s1, r) \<Rightarrow> (s1\<lparr>ds_world := yv_release Y accountID (ds_world s1)\<rparr>, r)))"

section \<open>What a sync stores\<close>

text \<open>
  The pages a provider answered with, each valid and asked for with the cursor of the one before.
\<close>

definition answered :: "(page_request \<Rightarrow> ('w, 'i page) call) \<Rightarrow> int \<Rightarrow> string \<Rightarrow> 'i page \<Rightarrow> bool" where
  "answered ask limit cursor page \<longleftrightarrow>
     ValidatePage \<lparr>pr_Cursor = cursor, pr_Limit = limit\<rparr> page = Inr ()
     \<and> (\<exists>w w'. ask \<lparr>pr_Cursor = cursor, pr_Limit = limit\<rparr> w = (w', Inr page))"

fun pages_from :: "(page_request \<Rightarrow> ('w, 'i page) call) \<Rightarrow> int \<Rightarrow> string \<Rightarrow> 'i page list \<Rightarrow> bool" where
  "pages_from ask limit cursor [] = False"
| "pages_from ask limit cursor (p # ps) =
     (answered ask limit cursor p
      \<and> (if pg_NextCursor p = [] then ps = [] else pages_from ask limit (pg_NextCursor p) ps))"

definition indexed_as :: "text_env \<Rightarrow> zone list \<Rightarrow> zone_entry list \<Rightarrow> bool" where
  "indexed_as E zs es \<longleftrightarrow> list_all2 (\<lambda>z e. \<exists>n i. NormalizeZone E z = Inr n \<and> e = index_entry i n) zs es"

lemma sync_items_Inr:
  assumes "\<And>e w w' x. failed e w \<noteq> (w', Inr x)"
  shows "sync_items V failed acc zs w = (w', Inr acc') \<Longrightarrow> distinct (map ze_ProviderZoneID acc) \<Longrightarrow>
     \<exists>es. acc' = acc @ es \<and> indexed_as (se_text V) zs es \<and> distinct (map ze_ProviderZoneID acc')"
proof (induction zs arbitrary: acc w)
  case Nil
  then show ?case by (auto simp: indexed_as_def)
next
  case (Cons z zs)
  obtain n where n: "NormalizeZone (se_text V) z = Inr n"
    using Cons.prems(1) assms by (cases "NormalizeZone (se_text V) z") auto
  with Cons.prems(1) assms have fresh: "zone_ID n \<notin> set (map ze_ProviderZoneID acc)"
    by (auto split: if_splits)
  with n Cons.prems(1) obtain w1 i where rest: "sync_items V failed (acc @ [index_entry i n]) zs w1 = (w', Inr acc')"
    by (auto simp: seq_result)
  have "distinct (map ze_ProviderZoneID (acc @ [index_entry i n]))"
    using fresh Cons.prems(2) by (auto simp: index_entry_def)
  from Cons.IH [OF rest this] n show ?case by (auto simp: indexed_as_def)
qed

lemma sync_pages_Inr:
  assumes "\<And>e w w' x. failed e w \<noteq> (w', Inr x)"
  shows "sync_pages V failed client n cursor seen acc w = (w', Inr es) \<Longrightarrow> distinct (map ze_ProviderZoneID acc) \<Longrightarrow>
     \<exists>pages new. pages_from (pv_ListZones client) zoneSyncPageLimit cursor pages \<and> length pages \<le> n
       \<and> es = acc @ new \<and> indexed_as (se_text V) (page_items pages) new \<and> distinct (map ze_ProviderZoneID es)"
proof (induction n arbitrary: cursor seen acc w)
  case 0
  then show ?case using assms by auto
next
  case (Suc n)
  let ?req = "\<lparr>pr_Cursor = cursor, pr_Limit = zoneSyncPageLimit\<rparr>"
  from Suc.prems(1) assms obtain w1 w2 page acc' where
    ask: "pv_ListZones client ?req w = (w1, Inr page)" "ValidatePage ?req page = Inr ()"
    and items: "sync_items V failed acc (pg_Items page) w1 = (w2, Inr acc')"
    and tail: "(if pg_NextCursor page = [] then give acc'
      else if pg_NextCursor page \<in> set seen
      then failed (new_error ErrUpstream ''list_zones'' ''provider pagination cursor cycled'')
      else sync_pages V failed client n (pg_NextCursor page) (pg_NextCursor page # seen) acc') w2 = (w', Inr es)"
    by (auto simp: Let_def attempt_result seq_result mapped_Inr of_result_Inr)
  from ask have page: "answered (pv_ListZones client) zoneSyncPageLimit cursor page"
    unfolding answered_def by blast
  from sync_items_Inr [OF assms items Suc.prems(2)] obtain ms where
    ms: "acc' = acc @ ms" "indexed_as (se_text V) (pg_Items page) ms" "distinct (map ze_ProviderZoneID acc')" by blast
  show ?case
  proof (cases "pg_NextCursor page = []")
    case True
    with tail ms page show ?thesis by (intro exI [of _ "[page]"] exI [of _ ms]) auto
  next
    case False
    with tail assms have "sync_pages V failed client n (pg_NextCursor page) (pg_NextCursor page # seen) acc' w2 = (w', Inr es)"
      by (auto split: if_splits)
    from Suc.IH [OF this ms(3)] obtain pages new where
      more: "pages_from (pv_ListZones client) zoneSyncPageLimit (pg_NextCursor page) pages" "length pages \<le> n"
        "es = acc' @ new" "indexed_as (se_text V) (page_items pages) new" "distinct (map ze_ProviderZoneID es)" by blast
    with ms page False show ?thesis
      by (intro exI [of _ "page # pages"] exI [of _ "ms @ new"]) (auto simp: indexed_as_def intro: list_all2_appendI)
  qed
qed

lemma auditSyncFailure_fails: "auditSyncFailure Y a i md e w \<noteq> (w', Inr x)"
  by (auto simp: auditSyncFailure_def attempt_result)

lemma ends_sync_failure: "(\<And>w e. Q (s\<lparr>ds_world := w\<rparr>) (Inl e)) \<Longrightarrow> ends (lift (auditSyncFailure Y a i md e0)) s Q"
  by (rule ends_call) (auto simp: lift_result auditSyncFailure_def attempt_result)

text \<open>C23: A sync that succeeds has replaced the index of the account, in one transaction with its audit event,
  by entries for all zones of a complete chain of valid pages of the provider, each normalised, in order and
  none twice; it did so for the account state its client was handed out for, and it leaves nothing of the
  account in the cache of record sets.\<close>

theorem SyncAccount_success:
  assumes "SyncAccount Y actor accountID md s = (s', Inr zones)"
  shows "\<exists>client account pages w w1 w2 w3 v fetchedAt event.
     pages_from (pv_ListZones client) zoneSyncPageLimit [] pages \<and> length pages \<le> maximumZonePages
     \<and> indexed_as (se_text (yv_env Y)) (page_items pages) zones \<and> distinct (map ze_ProviderZoneID zones)
     \<and> yv_clients_Get Y accountID w = (w1, Inr (client, account))
     \<and> rp_WithinTx (se_repository (yv_env Y))
         (seq (rp_ReplaceZoneIndex (se_repository (yv_env Y)) accountID (pa_CredentialRevision account)
                 (pa_UpdatedAt account) zones fetchedAt) (\<lambda>_.
          audit_in_tx (yv_env Y) actor md ''zone.sync'' accountID ResultSucceeded [] event TxDone)) w2 = (w3, Inr v)
     \<and> ds_cache s' = (if yv_cache Y then InvalidateAccount accountID (ds_cache s) else ds_cache s)"
proof -
  from assms obtain w0 s1 where locked: "sync_locked Y actor accountID md (s\<lparr>ds_world := w0\<rparr>) = (s1, Inr zones)"
    and s': "ds_cache s' = ds_cache s1"
    by (auto simp: SyncAccount_def split: prod.splits option.splits)
  show ?thesis
  proof (rule ends_conclude [where m = "sync_locked Y actor accountID md" and w = "s\<lparr>ds_world := w0\<rparr>", OF locked],
     unfold sync_locked_def Let_def, intro ends_sync_failure ends_rules, simp_all, goal_cases)
    case (1 s2 ca client account s3 zs s4 fetchedAt s5 v s6)
    from 1 obtain w where "sync_pages (yv_env Y) (auditSyncFailure Y actor accountID md) client maximumZonePages [] [] []
        (ds_world s2) = (w, Inr zs)"
      by (auto simp: lift_result)
    from sync_pages_Inr [OF auditSyncFailure_fails this] obtain pages where
      "pages_from (pv_ListZones client) zoneSyncPageLimit [] pages" "length pages \<le> maximumZonePages"
      "indexed_as (se_text (yv_env Y)) (page_items pages) zs" "distinct (map ze_ProviderZoneID zs)" by auto
    moreover from 1 have "ds_cache s6 = (if yv_cache Y then InvalidateAccount accountID (ds_cache s) else ds_cache s)"
      by (auto simp: lift_result in_cache_result)
    moreover from 1(1) have "yv_clients_Get Y accountID w0 = (ds_world s2, Inr (client, account))"
      by (auto simp: lift_result)
    moreover note 1(5)
    ultimately show ?case using s' by (auto simp: lift_result) blast+
  qed
qed

end
