(* ===== verification/Provider_Store.thy ===== *)
theory Provider_Store
  imports Service_Types "HOL-Library.Product_Lexorder"
begin

text \<open>
  \<open>ProviderStore\<close> of \<open>internal/db/provider_store.go\<close> and \<open>insertAuditEvent\<close> of \<open>audit_store.go\<close>. The
  tables are lists of rows and each SQL statement of the code is a function on them, with the
  constraints of \<open>migrations/\<close> that PostgreSQL checks. Any statement may also fail: \<open>st_faults\<close> says
  what happens to the next ones. What the code asks of PostgreSQL beyond that - text folding and
  collation, \<open>ILIKE\<close>, \<open>jsonb\<close>, the check constraints on lengths - is a parameter.
\<close>

section \<open>Tables\<close>

record account_row =
  ar_id :: uuid
  ar_provider_type :: string
  ar_name :: string
  ar_description :: string
  ar_enabled :: bool
  ar_options :: string
  ar_credential_revision :: int
  ar_credential :: "encrypted_credential option"
  ar_validation_status :: ValidationStatus
  ar_last_validated_at :: "time option"
  ar_last_validation_error_code :: "string option"
  ar_last_zone_sync_at :: "time option"
  ar_created_at :: time
  ar_updated_at :: time

record zone_row =
  zr_id :: uuid
  zr_account_id :: uuid
  zr_provider_zone_id :: string
  zr_name :: string
  zr_status :: "string option"
  zr_metadata :: string
  zr_fetched_at :: time
  zr_last_seen_at :: time
  zr_deleted_at :: "time option"
  zr_updated_at :: time

datatype pg_error = PgNoRows | PgUniqueViolation | PgSerializationFailure | PgForeignKeyViolation | PgCheckViolation | PgOther

text \<open>\<open>st_now\<close> is \<open>now()\<close>, the start of the transaction.\<close>

record store =
  st_accounts :: "account_row list"
  st_zones :: "zone_row list"
  st_events :: "audit_event list"
  st_now :: time
  st_in_tx :: bool
  st_faults :: "pg_error option list"

record db_env =
  de_lower :: "string \<Rightarrow> string"
  de_collation :: "string \<Rightarrow> string"
  de_ilike :: "string \<Rightarrow> string \<Rightarrow> bool"
  de_jsonb :: "string \<Rightarrow> string option"
  de_account_ok :: "account_row \<Rightarrow> bool"
  de_zone_ok :: "zone_row \<Rightarrow> bool"
  de_event_ok :: "audit_event \<Rightarrow> bool"
  de_unmarshal :: "string \<Rightarrow> any option"
  de_marshal :: "any_map \<Rightarrow> string"
  de_summary :: "string \<Rightarrow> any_map"

text \<open>\<open>timestamptz\<close> keeps microseconds; the driver cuts the nanoseconds off.\<close>

definition timestamptz :: "time \<Rightarrow> time" where
  "timestamptz t = t - t mod 1000"

section \<open>Statements\<close>

definition run_statement :: "('a store_scheme \<Rightarrow> pg_error + 'a store_scheme \<times> 'b) \<Rightarrow> 'a store_scheme \<Rightarrow> 'a store_scheme \<times> (pg_error + 'b)" where
  "run_statement f s = (case f s of Inl e \<Rightarrow> (s, Inl e) | Inr (s', x) \<Rightarrow> (s', Inr x))"

definition statement :: "('a store_scheme \<Rightarrow> pg_error + 'a store_scheme \<times> 'b) \<Rightarrow> 'a store_scheme \<Rightarrow> 'a store_scheme \<times> (pg_error + 'b)" where
  "statement f s =
     (case st_faults s of
        [] \<Rightarrow> run_statement f s
      | None # fs \<Rightarrow> run_statement f (s\<lparr>st_faults := fs\<rparr>)
      | Some e # fs \<Rightarrow> (s\<lparr>st_faults := fs\<rparr>, Inl e))"

definition mapProviderStoreError :: "string \<Rightarrow> pg_error \<Rightarrow> service_error" where
  "mapProviderStoreError operation e =
     (case e of
        PgNoRows \<Rightarrow> ErrProviderAccountNotFound
      | PgUniqueViolation \<Rightarrow> Wrapped ErrProviderAccountConflict (error_text ErrProviderAccountConflict @ '': '' @ operation)
      | PgSerializationFailure \<Rightarrow> Wrapped ErrProviderAccountConflict (error_text ErrProviderAccountConflict @ '': '' @ operation)
      | PgForeignKeyViolation \<Rightarrow> Wrapped ErrInvalidProviderInput (error_text ErrInvalidProviderInput @ '': '' @ operation)
      | PgCheckViolation \<Rightarrow> Wrapped ErrInvalidProviderInput (error_text ErrInvalidProviderInput @ '': '' @ operation)
      | PgOther \<Rightarrow> ServiceFailure operation)"

definition mapZoneStoreError :: "string \<Rightarrow> pg_error \<Rightarrow> service_error" where
  "mapZoneStoreError operation e = (if e = PgNoRows then ErrZoneNotFound else mapProviderStoreError operation e)"

definition mapAuditStoreError :: "string \<Rightarrow> pg_error \<Rightarrow> service_error" where
  "mapAuditStoreError operation e = (if e = PgNoRows then ErrAuditEventNotFound else mapProviderStoreError operation e)"

definition sql ::
  "(pg_error \<Rightarrow> 'e) \<Rightarrow> ('a store_scheme \<Rightarrow> pg_error + 'a store_scheme \<times> 'b) \<Rightarrow> ('a store_scheme, 'e, 'b) outcome" where
  "sql h f s = (case statement f s of (s', Inl e) \<Rightarrow> (s', Inl (h e)) | (s', Inr x) \<Rightarrow> (s', Inr x))"

section \<open>Transactions\<close>

text \<open>
  A transaction of one of the two stores: it is not nested, begins, runs the operation and commits; \<open>undo\<close>
  puts the tables back. The two stores differ in their tables and in the errors they report.
\<close>

definition run_tx ::
  "'e \<Rightarrow> 'e \<Rightarrow> (pg_error \<Rightarrow> 'e) \<Rightarrow> ('a store_scheme \<Rightarrow> 'a store_scheme \<Rightarrow> 'a store_scheme) \<Rightarrow>
     ('a store_scheme, 'e, 'b) outcome \<Rightarrow> ('a store_scheme, 'e, 'b) outcome" where
  "run_tx nested failed commit undo operation s =
     (if st_in_tx s then (s, Inl nested)
      else (case statement (\<lambda>s. Inr (s, ())) s of
        (s0, Inl e) \<Rightarrow> (s0, Inl failed)
      | (s0, Inr _) \<Rightarrow>
          (case operation (s0\<lparr>st_in_tx := True\<rparr>) of
             (s1, Inl e) \<Rightarrow> (undo s s1, Inl e)
           | (s1, Inr x) \<Rightarrow>
               (case statement (\<lambda>s. Inr (s, ())) s1 of
                  (s2, Inl e) \<Rightarrow> (undo s s2, Inl (commit e))
                | (s2, Inr _) \<Rightarrow> (s2\<lparr>st_in_tx := False\<rparr>, Inr x)))))"

definition rollback :: "'a store_scheme \<Rightarrow> 'a store_scheme \<Rightarrow> 'a store_scheme" where
  "rollback s s1 = s1\<lparr>st_accounts := st_accounts s, st_zones := st_zones s, st_events := st_events s, st_in_tx := False\<rparr>"

definition WithinTx :: "('a store_scheme, 'b) scall \<Rightarrow> ('a store_scheme, 'b) scall" where
  "WithinTx operation =
     run_tx (ServiceFailure ''nested provider transaction is not supported'') (ServiceFailure ''begin provider transaction'')
       (mapProviderStoreError ''commit provider transaction'') rollback operation"

definition same_tables :: "'a store_scheme \<Rightarrow> 'a store_scheme \<Rightarrow> bool" where
  "same_tables s s' \<longleftrightarrow> st_accounts s' = st_accounts s \<and> st_zones s' = st_zones s \<and> st_events s' = st_events s"

lemma statement_noop_faults:
  "statement (\<lambda>s. Inr (s, ())) s = (s', r) \<Longrightarrow> s' = s \<or> (\<exists>fs. s' = s\<lparr>st_faults := fs\<rparr>)"
  by (auto simp: statement_def run_statement_def split: list.splits option.splits)

text \<open>Every outcome of a transaction, for a relation between states that ignores how a transaction runs.\<close>

lemma run_tx_outcome:
  assumes r: "run_tx nested failed commit undo operation s = (s', r)"
    and undone: "\<And>s1. same s (undo s s1)" and refl: "\<And>s. same s s"
    and faults: "\<And>s fs. same s (s\<lparr>st_faults := fs\<rparr>)"
    and running: "\<And>s1 s2 b. same s1 s2 \<Longrightarrow> same s1 (s2\<lparr>st_in_tx := b\<rparr>)"
  shows "case r of Inl e \<Rightarrow> same s s'
    | Inr x \<Rightarrow> \<not> st_in_tx s \<and> (\<exists>s0 s1. same s s0 \<and> st_now s0 = st_now s \<and> operation s0 = (s1, Inr x) \<and> same s1 s')"
proof (cases "st_in_tx s")
  case True
  with r have "s' = s" and "\<exists>e. r = Inl e" by (auto simp: run_tx_def)
  with refl show ?thesis by auto
next
  case False
  obtain s0 r0 where b: "statement (\<lambda>s. Inr (s, ())) s = (s0, r0)" by fastforce
  obtain s1 r1 where o1: "operation (s0\<lparr>st_in_tx := True\<rparr>) = (s1, r1)" by fastforce
  obtain s2 r2 where c: "statement (\<lambda>s. Inr (s, ())) s1 = (s2, r2)" by fastforce
  have same0: "same s s0" "same s1 s2" and now: "st_now s0 = st_now s"
    using statement_noop_faults [OF b] statement_noop_faults [OF c] refl faults by auto
  show ?thesis
  proof (cases r)
    case (Inl e)
    with r False b o1 c have "s' = s0 \<or> s' = undo s s1 \<or> s' = undo s s2"
      by (cases r0; cases r1; cases r2) (auto simp: run_tx_def)
    with Inl same0 undone show ?thesis by auto
  next
    case (Inr x)
    then have op: "operation (s0\<lparr>st_in_tx := True\<rparr>) = (s1, Inr x)" and s': "s' = s2\<lparr>st_in_tx := False\<rparr>"
      using r False b o1 c by (cases r0; cases r1; cases r2; auto simp: run_tx_def)+
    have "same s (s0\<lparr>st_in_tx := True\<rparr>)" "same s1 s'" using running same0 s' by auto
    moreover have "st_now (s0\<lparr>st_in_tx := True\<rparr>) = st_now s" using now by simp
    ultimately show ?thesis using op Inr False by (simp only: sum.case) blast
  qed
qed

lemma run_tx_quiet:
  "st_faults s = [] \<Longrightarrow> \<not> st_in_tx s \<Longrightarrow> operation (s\<lparr>st_in_tx := True\<rparr>) = (s1, Inr x) \<Longrightarrow> st_faults s1 = [] \<Longrightarrow>
     run_tx nested failed commit undo operation s = (s1\<lparr>st_in_tx := False\<rparr>, Inr x)"
  by (simp add: run_tx_def statement_def run_statement_def)

lemma WithinTx_outcome:
  assumes "WithinTx operation s = (s', r)"
  shows "case r of Inl e \<Rightarrow> same_tables s s'
    | Inr x \<Rightarrow> \<not> st_in_tx s \<and> (\<exists>s0 s1. same_tables s s0 \<and> st_now s0 = st_now s \<and> operation s0 = (s1, Inr x) \<and> same_tables s1 s')"
  using assms unfolding WithinTx_def
  by (rule run_tx_outcome [where same = same_tables]) (simp_all add: same_tables_def rollback_def)

text \<open>A transaction is all or nothing: when it returns an error, whether of the operation or of the database
  at the beginning or at the commit, the tables are as they were; when it succeeds, they are as the
  operation left them, which began at the time the transaction began.\<close>

theorem WithinTx_atomic:
  "case WithinTx operation s of (s', r) \<Rightarrow>
     (case r of Inl e \<Rightarrow> same_tables s s'
      | Inr x \<Rightarrow> \<not> st_in_tx s \<and> (\<exists>s0 s1. same_tables s s0 \<and> st_now s0 = st_now s \<and> operation s0 = (s1, Inr x) \<and> same_tables s1 s'))"
  using WithinTx_outcome [of operation s, OF surjective_pairing] by (simp only: case_prod_unfold)

text \<open>Without faults a statement is what its function says, and a transaction is its operation.\<close>

lemma sql_quiet:
  "st_faults s = [] \<Longrightarrow> sql h f s = (case f s of Inl e \<Rightarrow> (s, Inl (h e)) | Inr (s', x) \<Rightarrow> (s', Inr x))"
  by (simp add: sql_def statement_def run_statement_def split: sum.splits prod.splits)

lemma WithinTx_quiet:
  "st_faults s = [] \<Longrightarrow> \<not> st_in_tx s \<Longrightarrow> operation (s\<lparr>st_in_tx := True\<rparr>) = (s1, Inr x) \<Longrightarrow> st_faults s1 = [] \<Longrightarrow>
     WithinTx operation s = (s1\<lparr>st_in_tx := False\<rparr>, Inr x)"
  unfolding WithinTx_def by (rule run_tx_quiet)

section \<open>Accounts\<close>

definition account_of_row :: "account_row \<Rightarrow> provider_account" where
  "account_of_row r =
     \<lparr>pa_ID = ar_id r, pa_ProviderType = ar_provider_type r, pa_Name = ar_name r, pa_Description = ar_description r,
      pa_Enabled = ar_enabled r, pa_Options = ar_options r, pa_CredentialRevision = word_of_int (ar_credential_revision r),
      pa_CredentialConfigured = (ar_credential r \<noteq> None), pa_ValidationStatus = ar_validation_status r,
      pa_LastValidatedAt = ar_last_validated_at r,
      pa_LastValidationErrorCode = (case ar_last_validation_error_code r of None \<Rightarrow> [] | Some c \<Rightarrow> c),
      pa_LastZoneSyncAt = ar_last_zone_sync_at r, pa_ZoneCount = 0, pa_CreatedAt = ar_created_at r,
      pa_UpdatedAt = ar_updated_at r\<rparr>"

text \<open>\<open>scanProviderAccount\<close>: the row as an account, unless its revision is negative.\<close>

definition scanProviderAccount :: "account_row \<Rightarrow> service_error + provider_account" where
  "scanProviderAccount r =
     (if ar_credential_revision r < 0 then Inl (ServiceFailure ''provider credential revision is invalid'')
      else Inr (account_of_row r))"

definition nullableString :: "string \<Rightarrow> string option" where
  "nullableString s = (if s = [] then None else Some s)"

definition account_clash :: "db_env \<Rightarrow> account_row \<Rightarrow> account_row \<Rightarrow> bool" where
  "account_clash Q r r' \<longleftrightarrow>
     ar_id r = ar_id r' \<or> (ar_provider_type r = ar_provider_type r' \<and> de_lower Q (ar_name r) = de_lower Q (ar_name r'))"

definition row_of_account :: "provider_account \<Rightarrow> encrypted_credential option \<Rightarrow> string \<Rightarrow> account_row" where
  "row_of_account a c options =
     \<lparr>ar_id = pa_ID a, ar_provider_type = pa_ProviderType a, ar_name = pa_Name a, ar_description = pa_Description a,
      ar_enabled = pa_Enabled a, ar_options = options, ar_credential_revision = sint (pa_CredentialRevision a),
      ar_credential = c, ar_validation_status = pa_ValidationStatus a,
      ar_last_validated_at = map_option timestamptz (pa_LastValidatedAt a),
      ar_last_validation_error_code = nullableString (pa_LastValidationErrorCode a),
      ar_last_zone_sync_at = map_option timestamptz (pa_LastZoneSyncAt a),
      ar_created_at = timestamptz (pa_CreatedAt a), ar_updated_at = timestamptz (pa_UpdatedAt a)\<rparr>"

definition insert_account :: "db_env \<Rightarrow> provider_account \<Rightarrow> encrypted_credential option \<Rightarrow> 'a store_scheme \<Rightarrow> pg_error + 'a store_scheme \<times> unit" where
  "insert_account Q a c s =
     (case de_jsonb Q (pa_Options a) of None \<Rightarrow> Inl PgOther
      | Some options \<Rightarrow>
          (let r = row_of_account a c options in
           if \<not> de_account_ok Q r then Inl PgCheckViolation
           else if list_ex (account_clash Q r) (st_accounts s) then Inl PgUniqueViolation
           else Inr (s\<lparr>st_accounts := st_accounts s @ [r]\<rparr>, ())))"

definition max_revision :: "64 word" where "max_revision = 9223372036854775807"

definition CreateProviderAccount :: "db_env \<Rightarrow> provider_account \<Rightarrow> credential_material option \<Rightarrow> ('a store_scheme, unit) scall" where
  "CreateProviderAccount Q account credential =
     (if pa_CredentialRevision account > max_revision then reject ErrInvalidProviderInput
      else sql (mapProviderStoreError ''insert provider account'')
             (insert_account Q account (map_option cm_Encrypted credential)))"

definition zone_count :: "uuid \<Rightarrow> 'a store_scheme \<Rightarrow> int" where
  "zone_count i s = int (length (filter (\<lambda>z. zr_account_id z = i \<and> zr_deleted_at z = None) (st_zones s)))"

definition with_count :: "'a store_scheme \<Rightarrow> account_row \<Rightarrow> account_row \<times> int" where
  "with_count s r = (r, zone_count (ar_id r) s)"

definition scanProviderAccountWithZoneCount :: "account_row \<times> int \<Rightarrow> service_error + provider_account" where
  "scanProviderAccountWithZoneCount rc =
     and_then (scanProviderAccount (fst rc)) (\<lambda>a. Inr (a\<lparr>pa_ZoneCount := snd rc\<rparr>))"

definition find_account :: "uuid \<Rightarrow> 'a store_scheme \<Rightarrow> account_row option" where
  "find_account i s = find (\<lambda>r. ar_id r = i) (st_accounts s)"

definition select_account :: "uuid \<Rightarrow> 'a store_scheme \<Rightarrow> pg_error + 'a store_scheme \<times> (account_row \<times> int)" where
  "select_account i s = (case find_account i s of None \<Rightarrow> Inl PgNoRows | Some r \<Rightarrow> Inr (s, with_count s r))"

definition ListProviderAccounts :: "db_env \<Rightarrow> ('a store_scheme, provider_account list) scall" where
  "ListProviderAccounts Q =
     seq (sql (mapProviderStoreError ''list provider accounts'')
            (\<lambda>s. Inr (s, map (with_count s)
               (sort_key (\<lambda>r. (de_collation Q (de_lower Q (ar_name r)), ar_id r)) (st_accounts s)))))
       (\<lambda>rows. checked (traverse scanProviderAccountWithZoneCount rows))"

definition GetProviderAccount :: "uuid \<Rightarrow> ('a store_scheme, provider_account) scall" where
  "GetProviderAccount i =
     seq (sql (mapProviderStoreError ''read provider account'') (select_account i))
       (\<lambda>rc. checked (scanProviderAccountWithZoneCount rc))"

definition no_credential :: encrypted_credential where
  "no_credential = \<lparr>ec_Ciphertext = [], ec_Nonce = [], ec_KeyVersion = 0\<rparr>"

definition scanProviderAccountCredential :: "account_row \<Rightarrow> service_error + provider_account \<times> credential_material" where
  "scanProviderAccountCredential r =
     and_then (scanProviderAccount r) (\<lambda>a.
       Inr (a, \<lparr>cm_Revision = pa_CredentialRevision a,
                cm_Encrypted = (case ar_credential r of None \<Rightarrow> no_credential | Some c \<Rightarrow> c)\<rparr>))"

definition GetProviderAccountCredential :: "uuid \<Rightarrow> ('a store_scheme, provider_account \<times> credential_material) scall" where
  "GetProviderAccountCredential i =
     seq (sql (mapProviderStoreError ''read provider account credential'') (select_account i))
       (\<lambda>rc. checked (scanProviderAccountCredential (fst rc)))"

text \<open>
  \<open>UPDATE provider_accounts SET ... WHERE id = $1 AND ... RETURNING ...\<close>: the row with that id if it
  satisfies the rest of the condition, after the checks of its new value.
\<close>

definition update_account ::
  "db_env \<Rightarrow> uuid \<Rightarrow> (account_row \<Rightarrow> bool) \<Rightarrow> (account_row \<Rightarrow> account_row) \<Rightarrow> 'a store_scheme \<Rightarrow> pg_error + 'a store_scheme \<times> account_row" where
  "update_account Q i cond f s =
     (case find_account i s of
        None \<Rightarrow> Inl PgNoRows
      | Some r \<Rightarrow>
          if \<not> cond r then Inl PgNoRows
          else if \<not> de_account_ok Q (f r) then Inl PgCheckViolation
          else if list_ex (\<lambda>x. ar_id x \<noteq> i \<and> account_clash Q (f r) x) (st_accounts s) then Inl PgUniqueViolation
          else Inr (s\<lparr>st_accounts := map (\<lambda>x. if ar_id x = i then f r else x) (st_accounts s)\<rparr>, f r))"

definition returning :: "account_row \<Rightarrow> ('w, provider_account) scall" where
  "returning r = checked (scanProviderAccount r)"

text \<open>A missing row means that the account changed, or is gone.\<close>

definition conflict_if_missing :: "('w, 'b) scall \<Rightarrow> ('w, 'b) scall" where
  "conflict_if_missing m =
     attempt m (\<lambda>e. reject (if root_error e = ErrProviderAccountNotFound then ErrProviderAccountConflict else e)) give"

definition apply_changes :: "account_changes \<Rightarrow> string option \<Rightarrow> time \<Rightarrow> account_row \<Rightarrow> account_row" where
  "apply_changes ch options t r =
     (let r1 = r\<lparr>ar_name := (case ch_Name ch of None \<Rightarrow> ar_name r | Some n \<Rightarrow> n),
                 ar_description := (case ch_Description ch of None \<Rightarrow> ar_description r | Some d \<Rightarrow> d),
                 ar_enabled := (case ch_Enabled ch of None \<Rightarrow> ar_enabled r | Some b \<Rightarrow> b),
                 ar_options := (case options of None \<Rightarrow> ar_options r | Some p \<Rightarrow> p), ar_updated_at := t\<rparr> in
      if ch_ResetValidation ch
      then r1\<lparr>ar_validation_status := (if ar_credential_revision r > 0 then ValidationStatusPending else ValidationStatusUnconfigured),
              ar_last_validated_at := None, ar_last_validation_error_code := None\<rparr>
      else r1)"

definition UpdateProviderAccount :: "db_env \<Rightarrow> uuid \<Rightarrow> time \<Rightarrow> account_changes \<Rightarrow> ('a store_scheme, provider_account) scall" where
  "UpdateProviderAccount Q i expectedUpdatedAt ch =
     conflict_if_missing
       (seq (sql (mapProviderStoreError ''read provider account'') (\<lambda>s.
          case (if ch_Options ch = [] then Some None else map_option Some (de_jsonb Q (ch_Options ch))) of
            None \<Rightarrow> Inl PgOther
          | Some options \<Rightarrow>
              update_account Q i (\<lambda>r. ar_updated_at r = timestamptz expectedUpdatedAt)
                (apply_changes ch options (st_now s)) s))
        returning)"

definition ReplaceProviderAccountCredential ::
  "db_env \<Rightarrow> uuid \<Rightarrow> 64 word \<Rightarrow> credential_material \<Rightarrow> ('a store_scheme, provider_account) scall" where
  "ReplaceProviderAccountCredential Q i expectedRevision material =
     (if expectedRevision > max_revision \<or> cm_Revision material > max_revision then reject ErrInvalidProviderInput
      else
        attempt
          (seq (sql (mapProviderStoreError ''read provider account'') (\<lambda>s.
             update_account Q i (\<lambda>r. ar_credential_revision r = sint expectedRevision)
               (\<lambda>r. r\<lparr>ar_credential_revision := sint (cm_Revision material), ar_credential := Some (cm_Encrypted material),
                       ar_validation_status := ValidationStatusPending, ar_last_validated_at := None,
                       ar_last_validation_error_code := None, ar_updated_at := st_now s\<rparr>) s))
           returning)
          (\<lambda>e. if root_error e \<noteq> ErrProviderAccountNotFound then reject e
               else seq (sql (mapProviderStoreError ''check provider account revision'') (\<lambda>s. Inr (s, find_account i s \<noteq> None)))
                      (\<lambda>exists. reject (if exists then ErrProviderAccountConflict else ErrProviderAccountNotFound)))
          give)"

definition SetProviderAccountValidation ::
  "db_env \<Rightarrow> uuid \<Rightarrow> 64 word \<Rightarrow> time \<Rightarrow> ValidationStatus \<Rightarrow> time \<Rightarrow> string \<Rightarrow> ('a store_scheme, provider_account) scall" where
  "SetProviderAccountValidation Q i expectedRevision expectedUpdatedAt status validatedAt errorCode =
     (if expectedRevision > max_revision then reject ErrInvalidProviderInput
      else conflict_if_missing
        (seq (sql (mapProviderStoreError ''read provider account'') (\<lambda>s.
           update_account Q i
             (\<lambda>r. ar_credential_revision r = sint expectedRevision \<and> ar_updated_at r = timestamptz expectedUpdatedAt)
             (\<lambda>r. r\<lparr>ar_validation_status := status, ar_last_validated_at := Some (timestamptz validatedAt),
                     ar_last_validation_error_code := nullableString errorCode, ar_updated_at := st_now s\<rparr>) s))
         returning))"

text \<open>The zones of an account go with it (\<open>ON DELETE CASCADE\<close>).\<close>

definition DeleteProviderAccount :: "uuid \<Rightarrow> ('a store_scheme, provider_account) scall" where
  "DeleteProviderAccount i =
     seq (sql (mapProviderStoreError ''read provider account'') (\<lambda>s.
            case find_account i s of None \<Rightarrow> Inl PgNoRows
            | Some r \<Rightarrow> Inr (s\<lparr>st_accounts := filter (\<lambda>x. ar_id x \<noteq> i) (st_accounts s),
                              st_zones := filter (\<lambda>z. zr_account_id z \<noteq> i) (st_zones s)\<rparr>, r)))
       returning"

end
