(* ===== verification/Zone_Store.thy ===== *)
theory Zone_Store
  imports Provider_Store
begin

text \<open>
  The index of zones and the audit events in \<open>internal/db/provider_store.go\<close> and
  \<open>internal/db/audit_store.go\<close>, and \<open>ProviderStore\<close> as the repository of the services.
\<close>

section \<open>The index of zones\<close>

definition metadata_or_empty :: "string \<Rightarrow> string" where
  "metadata_or_empty m = (if m = [] then ''{}'' else m)"

text \<open>
  \<open>INSERT INTO zones ... ON CONFLICT (provider_account_id, provider_zone_id) DO UPDATE\<close>: a row of the
  account with that provider zone keeps its ID; otherwise a new row, whose ID must be fresh and whose
  account must exist.
\<close>

definition new_zone_row :: "uuid \<Rightarrow> zone_entry \<Rightarrow> string \<Rightarrow> time \<Rightarrow> zone_row" where
  "new_zone_row accountID z metadata t =
     \<lparr>zr_id = ze_ID z, zr_account_id = accountID, zr_provider_zone_id = ze_ProviderZoneID z, zr_name = ze_Name z,
      zr_status = nullableString (ze_Status z), zr_metadata = metadata, zr_fetched_at = t, zr_last_seen_at = t,
      zr_deleted_at = None, zr_updated_at = t\<rparr>"

definition same_zone :: "zone_row \<Rightarrow> zone_row \<Rightarrow> bool" where
  "same_zone r r' \<longleftrightarrow> zr_account_id r = zr_account_id r' \<and> zr_provider_zone_id r = zr_provider_zone_id r'"

definition upsert_zone :: "db_env \<Rightarrow> uuid \<Rightarrow> zone_entry \<Rightarrow> time \<Rightarrow> 'a store_scheme \<Rightarrow> pg_error + 'a store_scheme \<times> zone_row" where
  "upsert_zone Q accountID z fetchedAt s =
     (case de_jsonb Q (metadata_or_empty (ze_Metadata z)) of None \<Rightarrow> Inl PgOther
      | Some metadata \<Rightarrow>
          (let new = new_zone_row accountID z metadata (timestamptz fetchedAt) in
           if \<not> de_zone_ok Q new then Inl PgCheckViolation
           else (case find (same_zone new) (st_zones s) of
             Some old \<Rightarrow>
               Inr (s\<lparr>st_zones := map (\<lambda>x. if same_zone new x then new\<lparr>zr_id := zr_id x\<rparr> else x) (st_zones s)\<rparr>,
                    new\<lparr>zr_id := zr_id old\<rparr>)
           | None \<Rightarrow>
               if list_ex (\<lambda>x. zr_id x = zr_id new) (st_zones s) then Inl PgUniqueViolation
               else if find_account accountID s = None then Inl PgForeignKeyViolation
               else Inr (s\<lparr>st_zones := st_zones s @ [new]\<rparr>, new))))"

fun upsert_zones :: "db_env \<Rightarrow> uuid \<Rightarrow> zone_entry list \<Rightarrow> time \<Rightarrow> ('a store_scheme, unit) scall" where
  "upsert_zones Q accountID [] fetchedAt = give ()"
| "upsert_zones Q accountID (z # zs) fetchedAt =
     seq (sql (mapProviderStoreError ''upsert provider zone index'') (upsert_zone Q accountID z fetchedAt)) (\<lambda>_.
     upsert_zones Q accountID zs fetchedAt)"

text \<open>\<open>UPDATE zones SET deleted_from_provider_at = ... WHERE ... AND deleted_from_provider_at IS NULL\<close>.\<close>

definition delete_zones :: "(zone_row \<Rightarrow> bool) \<Rightarrow> time \<Rightarrow> 'a store_scheme \<Rightarrow> 'a store_scheme \<times> nat" where
  "delete_zones cond t s =
     (let hit = (\<lambda>x. cond x \<and> zr_deleted_at x = None) in
      (s\<lparr>st_zones := map (\<lambda>x. if hit x then x\<lparr>zr_deleted_at := Some t, zr_updated_at := t\<rparr> else x) (st_zones s)\<rparr>,
       length (filter hit (st_zones s))))"

text \<open>The number of rows an update of one account affects.\<close>

definition touch_account ::
  "uuid \<Rightarrow> (account_row \<Rightarrow> bool) \<Rightarrow> (account_row \<Rightarrow> account_row) \<Rightarrow> 'a store_scheme \<Rightarrow> pg_error + 'a store_scheme \<times> nat" where
  "touch_account i cond f s =
     Inr (s\<lparr>st_accounts := map (\<lambda>x. if ar_id x = i \<and> cond x then f x else x) (st_accounts s)\<rparr>,
          length (filter (\<lambda>x. ar_id x = i \<and> cond x) (st_accounts s)))"

definition ReplaceZoneIndex ::
  "db_env \<Rightarrow> uuid \<Rightarrow> 64 word \<Rightarrow> time \<Rightarrow> zone_entry list \<Rightarrow> time \<Rightarrow> ('a store_scheme, unit) scall" where
  "ReplaceZoneIndex Q accountID expectedRevision expectedUpdatedAt zones fetchedAt =
     (if expectedRevision > max_revision then reject ErrInvalidProviderInput
      else
        seq (upsert_zones Q accountID zones fetchedAt) (\<lambda>_.
        seq (sql (mapProviderStoreError ''mark missing provider zones'')
               (\<lambda>s. Inr (delete_zones (\<lambda>x. zr_account_id x = accountID
                  \<and> zr_provider_zone_id x \<notin> set (map ze_ProviderZoneID zones)) (timestamptz fetchedAt) s))) (\<lambda>_.
        seq (sql (mapProviderStoreError ''update provider zone sync time'')
               (\<lambda>s. touch_account accountID
                  (\<lambda>r. ar_credential_revision r = sint expectedRevision \<and> ar_updated_at r = timestamptz expectedUpdatedAt)
                  (\<lambda>r. r\<lparr>ar_last_zone_sync_at := Some (timestamptz fetchedAt), ar_updated_at := st_now s\<rparr>) s)) (\<lambda>affected.
        if affected \<noteq> 1 then reject ErrProviderAccountConflict else give ()))))"

definition InvalidateZoneIndex :: "uuid \<Rightarrow> time \<Rightarrow> ('a store_scheme, unit) scall" where
  "InvalidateZoneIndex accountID invalidatedAt =
     seq (sql (mapProviderStoreError ''invalidate provider zone index'')
            (\<lambda>s. Inr (delete_zones (\<lambda>x. zr_account_id x = accountID) (timestamptz invalidatedAt) s))) (\<lambda>_.
     seq (sql (mapProviderStoreError ''invalidate provider zone sync state'')
            (touch_account accountID (\<lambda>_. True) (\<lambda>r. r\<lparr>ar_last_zone_sync_at := None\<rparr>))) (\<lambda>affected.
     if affected \<noteq> 1 then reject ErrProviderAccountNotFound else give ()))"

definition account_unchanged :: "uuid \<Rightarrow> 64 word \<Rightarrow> time \<Rightarrow> 'a store_scheme \<Rightarrow> bool" where
  "account_unchanged i expectedRevision expectedUpdatedAt s \<longleftrightarrow>
     list_ex (\<lambda>r. ar_id r = i \<and> ar_credential_revision r = sint expectedRevision
        \<and> ar_updated_at r = timestamptz expectedUpdatedAt) (st_accounts s)"

definition MarkZoneDeleted :: "uuid \<Rightarrow> uuid \<Rightarrow> 64 word \<Rightarrow> time \<Rightarrow> time \<Rightarrow> ('a store_scheme, unit) scall" where
  "MarkZoneDeleted zoneID accountID expectedRevision expectedUpdatedAt deletedAt =
     (if expectedRevision > max_revision then reject ErrInvalidProviderInput
      else
        seq (sql (mapProviderStoreError ''mark zone deleted'')
               (\<lambda>s. Inr (delete_zones (\<lambda>x. zr_id x = zoneID \<and> zr_account_id x = accountID
                  \<and> account_unchanged accountID expectedRevision expectedUpdatedAt s) (timestamptz deletedAt) s))) (\<lambda>affected.
        if affected = 1 then give () else reject ErrProviderAccountConflict))"

definition entry_of_row :: "zone_row \<Rightarrow> provider_account \<Rightarrow> zone_entry" where
  "entry_of_row z a =
     \<lparr>ze_ID = zr_id z, ze_ProviderAccountID = zr_account_id z, ze_ProviderType = pa_ProviderType a,
      ze_ProviderZoneID = zr_provider_zone_id z, ze_AccountName = pa_Name a, ze_AccountEnabled = pa_Enabled a,
      ze_ValidationStatus = pa_ValidationStatus a, ze_Name = zr_name z,
      ze_Status = (case zr_status z of None \<Rightarrow> [] | Some t \<Rightarrow> t), ze_Metadata = zr_metadata z,
      ze_FetchedAt = zr_fetched_at z, ze_LastSeenAt = zr_last_seen_at z\<rparr>"

definition UpsertZoneIndex ::
  "db_env \<Rightarrow> uuid \<Rightarrow> 64 word \<Rightarrow> time \<Rightarrow> zone_entry \<Rightarrow> time \<Rightarrow> ('a store_scheme, zone_entry) scall" where
  "UpsertZoneIndex Q accountID expectedRevision expectedUpdatedAt z fetchedAt =
     (if expectedRevision > max_revision then reject ErrInvalidProviderInput
      else
        seq (attempt
              (sql (\<lambda>e. if e = PgNoRows then ErrProviderAccountConflict else mapZoneStoreError ''upsert zone index'' e)
                (\<lambda>s. if account_unchanged accountID expectedRevision expectedUpdatedAt s
                     then upsert_zone Q accountID z fetchedAt s else Inl PgNoRows))
              reject give) (\<lambda>row.
        seq (GetProviderAccount accountID) (\<lambda>account.
        give (entry_of_row row account))))"

text \<open>The join of zones with their accounts; \<open>scanZoneIndexEntry\<close> reads no revision.\<close>

definition visible_zones :: "'a store_scheme \<Rightarrow> (zone_row \<times> account_row) list" where
  "visible_zones s =
     List.map_filter (\<lambda>z. if zr_deleted_at z \<noteq> None then None
        else map_option (\<lambda>a. (z, a)) (find_account (zr_account_id z) s)) (st_zones s)"

definition scanZoneIndexEntry :: "zone_row \<times> account_row \<Rightarrow> zone_entry" where
  "scanZoneIndexEntry za = entry_of_row (fst za) (account_of_row (snd za))"

definition zone_matches :: "db_env \<Rightarrow> zone_query \<Rightarrow> zone_row \<times> account_row \<Rightarrow> bool" where
  "zone_matches Q q za =
     (case za of (z, a) \<Rightarrow>
       (zq_Search q = [] \<or> de_ilike Q (zr_name z) (''%'' @ zq_Search q @ ''%''))
       \<and> (zq_ProviderType q = [] \<or> ar_provider_type a = zq_ProviderType q)
       \<and> (case zq_ProviderAccountID q of None \<Rightarrow> True | Some i \<Rightarrow> ar_id a = i)
       \<and> (zq_Status q = [] \<or> (case zr_status z of None \<Rightarrow> [] | Some t \<Rightarrow> t) = zq_Status q))"

text \<open>\<open>OFFSET\<close> and \<open>LIMIT\<close>; the total comes with the rows, so a page without rows has the total 0.\<close>

definition sql_page :: "int \<Rightarrow> int \<Rightarrow> 'b list \<Rightarrow> 'b list \<times> int" where
  "sql_page offset limit rows =
     (let page = take (nat limit) (drop (nat offset) rows)
      in (page, if page = [] then 0 else int (length rows)))"

definition ListZones :: "db_env \<Rightarrow> zone_query \<Rightarrow> ('a store_scheme, zone_entry list \<times> int) scall" where
  "ListZones Q q =
     seq (sql (mapProviderStoreError ''list zones'') (\<lambda>s. Inr (s,
        sql_page (zq_Offset q) (zq_Limit q)
          (sort_key (\<lambda>za. (de_collation Q (de_lower Q (zr_name (fst za))), zr_id (fst za)))
            (filter (zone_matches Q q) (visible_zones s)))))) (\<lambda>(rows, totalCount).
     give (map scanZoneIndexEntry rows, totalCount))"

definition GetZone :: "uuid \<Rightarrow> ('a store_scheme, zone_entry) scall" where
  "GetZone zoneID =
     seq (sql (mapZoneStoreError ''read zone'') (\<lambda>s.
            case find (\<lambda>za. zr_id (fst za) = zoneID) (visible_zones s) of
              None \<Rightarrow> Inl PgNoRows | Some za \<Rightarrow> Inr (s, za))) (\<lambda>za.
     give (scanZoneIndexEntry za))"

section \<open>Audit events\<close>

definition maximumAuditDocumentBytes :: nat where "maximumAuditDocumentBytes = 262144"

text \<open>
  \<open>marshalBoundedAuditMap\<close>: a document that is too long is replaced by its length and hash. What is
  stored is kept as the map it encodes.
\<close>

definition marshalBoundedAuditMap :: "db_env \<Rightarrow> any_map \<Rightarrow> any_map" where
  "marshalBoundedAuditMap Q m =
     (let encoded = de_marshal Q m in
      if length encoded \<le> maximumAuditDocumentBytes then m else de_summary Q encoded)"

definition marshalSafeAuditData :: "db_env \<Rightarrow> any_map \<Rightarrow> any_map" where
  "marshalSafeAuditData Q m = (if m = [] then [] else marshalBoundedAuditMap Q (SanitizeMap (de_unmarshal Q) m))"

definition stored_event :: "db_env \<Rightarrow> audit_event \<Rightarrow> audit_event" where
  "stored_event Q e =
     e\<lparr>ev_OccurredAt := timestamptz (ev_OccurredAt e),
       ev_ActorUsernameSnapshot := SanitizeText (ev_ActorUsernameSnapshot e),
       ev_UserAgent := SanitizeText (ev_UserAgent e),
       ev_BeforeData := marshalSafeAuditData Q (ev_BeforeData e),
       ev_AfterData := marshalSafeAuditData Q (ev_AfterData e),
       ev_Metadata := marshalBoundedAuditMap Q (SanitizeMap (de_unmarshal Q) (ev_Metadata e))\<rparr>"

definition insert_event_row :: "db_env \<Rightarrow> audit_event \<Rightarrow> 'a store_scheme \<Rightarrow> pg_error + 'a store_scheme \<times> unit" where
  "insert_event_row Q e s =
     (if \<not> de_event_ok Q e then Inl PgCheckViolation
      else if list_ex (\<lambda>x. ev_ID x = ev_ID e) (st_events s) then Inl PgUniqueViolation
      else Inr (s\<lparr>st_events := st_events s @ [e]\<rparr>, ()))"

definition InsertAuditEvent :: "db_env \<Rightarrow> audit_event \<Rightarrow> ('a store_scheme, unit) scall" where
  "InsertAuditEvent Q e = sql (mapProviderStoreError ''insert audit event'') (insert_event_row Q (stored_event Q e))"

definition dns_event :: "audit_event \<Rightarrow> bool" where
  "dns_event e \<longleftrightarrow>
     (ev_ResourceType e = ''zone'' \<or> ev_ResourceType e = ''recordset'')
     \<and> (prefix ''zone.'' (ev_Action e) \<or> prefix ''recordset.'' (ev_Action e))"

definition event_matches :: "db_env \<Rightarrow> audit_query \<Rightarrow> audit_event \<Rightarrow> bool" where
  "event_matches Q q e \<longleftrightarrow>
     (aq_Actor q = [] \<or> de_ilike Q (ev_ActorUsernameSnapshot e) (''%'' @ aq_Actor q @ ''%''))
     \<and> (aq_Action q = [] \<or> de_ilike Q (ev_Action e) (''%'' @ aq_Action q @ ''%''))
     \<and> (aq_DNSOnly q \<longrightarrow> dns_event e)
     \<and> (case aq_ProviderAccountID q of None \<Rightarrow> True | Some i \<Rightarrow> ev_ProviderAccountID e = Some i)
     \<and> (case aq_ZoneID q of None \<Rightarrow> True | Some i \<Rightarrow> ev_ZoneID e = Some i)
     \<and> (case aq_Result q of None \<Rightarrow> True | Some r \<Rightarrow> ev_Result e = r)
     \<and> (case aq_From q of None \<Rightarrow> True | Some t \<Rightarrow> ev_OccurredAt e \<ge> timestamptz t)
     \<and> (case aq_To q of None \<Rightarrow> True | Some t \<Rightarrow> ev_OccurredAt e \<le> timestamptz t)"

text \<open>\<open>ORDER BY occurred_at DESC, id DESC\<close>.\<close>

definition ListAuditEvents :: "db_env \<Rightarrow> audit_query \<Rightarrow> ('a store_scheme, audit_event list \<times> int) scall" where
  "ListAuditEvents Q q =
     sql (mapProviderStoreError ''list audit events'') (\<lambda>s. Inr (s,
       sql_page (aq_Offset q) (aq_Limit q)
         (rev (sort_key (\<lambda>e. (ev_OccurredAt e, ev_ID e)) (filter (event_matches Q q) (st_events s))))))"

definition GetAuditEvent :: "uuid \<Rightarrow> ('a store_scheme, audit_event) scall" where
  "GetAuditEvent i =
     sql (mapAuditStoreError ''read audit event'') (\<lambda>s.
       case find (\<lambda>e. ev_ID e = i) (st_events s) of None \<Rightarrow> Inl PgNoRows | Some e \<Rightarrow> Inr (s, e))"

section \<open>The store as a repository\<close>

definition provider_store :: "db_env \<Rightarrow> 'a store_scheme repository" where
  "provider_store Q =
     \<lparr>rp_WithinTx = WithinTx,
      rp_CreateProviderAccount = CreateProviderAccount Q,
      rp_ListProviderAccounts = ListProviderAccounts Q,
      rp_GetProviderAccount = GetProviderAccount,
      rp_GetProviderAccountCredential = GetProviderAccountCredential,
      rp_UpdateProviderAccount = UpdateProviderAccount Q,
      rp_ReplaceProviderAccountCredential = ReplaceProviderAccountCredential Q,
      rp_SetProviderAccountValidation = SetProviderAccountValidation Q,
      rp_DeleteProviderAccount = DeleteProviderAccount,
      rp_ReplaceZoneIndex = ReplaceZoneIndex Q,
      rp_InvalidateZoneIndex = InvalidateZoneIndex,
      rp_MarkZoneDeleted = MarkZoneDeleted,
      rp_UpsertZoneIndex = UpsertZoneIndex Q,
      rp_ListZones = ListZones Q,
      rp_GetZone = GetZone,
      rp_InsertAuditEvent = InsertAuditEvent Q,
      rp_ListAuditEvents = ListAuditEvents Q,
      rp_GetAuditEvent = GetAuditEvent\<rparr>"

end
