(* ===== verification/Store_Changes.thy ===== *)
theory Store_Changes
  imports Zone_Store
begin

text \<open>
  What the store may do to its tables. \<open>table_change\<close> is the abstract machine: one row comes, is
  replaced or goes, under the constraints of the schema. Every operation of the store, alone or in a
  transaction, is a sequence of such changes, so what they keep the store keeps: keys stay unique, zones
  belong to accounts, and the audit events are only ever appended to.
\<close>

section \<open>The abstract machine\<close>

definition same_account_key :: "account_row \<Rightarrow> account_row \<Rightarrow> bool" where
  "same_account_key r r' \<longleftrightarrow> ar_id r = ar_id r' \<and> ar_provider_type r = ar_provider_type r' \<and> ar_name r = ar_name r'"

definition same_zone_key :: "zone_row \<Rightarrow> zone_row \<Rightarrow> bool" where
  "same_zone_key z z' \<longleftrightarrow> zr_id z = zr_id z' \<and> same_zone z z'"

inductive table_change :: "db_env \<Rightarrow> 'a store_scheme \<Rightarrow> 'a store_scheme \<Rightarrow> bool" for Q where
  change_none: "same_tables s s' \<Longrightarrow> table_change Q s s'"
| change_new_account: "\<not> list_ex (account_clash Q r) (st_accounts s) \<Longrightarrow>
    table_change Q s (s\<lparr>st_accounts := st_accounts s @ [r]\<rparr>)"
| change_one_account: "ar_id r = i \<Longrightarrow> \<not> list_ex (\<lambda>x. ar_id x \<noteq> i \<and> account_clash Q r x) (st_accounts s) \<Longrightarrow>
    table_change Q s (s\<lparr>st_accounts := map (\<lambda>x. if ar_id x = i then r else x) (st_accounts s)\<rparr>)"
| change_accounts: "(\<And>x. same_account_key x (f x)) \<Longrightarrow>
    table_change Q s (s\<lparr>st_accounts := map f (st_accounts s)\<rparr>)"
| change_no_account:
    "table_change Q s (s\<lparr>st_accounts := filter (\<lambda>x. ar_id x \<noteq> i) (st_accounts s),
                         st_zones := filter (\<lambda>z. zr_account_id z \<noteq> i) (st_zones s)\<rparr>)"
| change_new_zone: "zr_id z \<notin> zr_id ` set (st_zones s) \<Longrightarrow> \<not> list_ex (same_zone z) (st_zones s) \<Longrightarrow>
    zr_account_id z \<in> ar_id ` set (st_accounts s) \<Longrightarrow> table_change Q s (s\<lparr>st_zones := st_zones s @ [z]\<rparr>)"
| change_zones: "(\<And>z. same_zone_key z (f z)) \<Longrightarrow> table_change Q s (s\<lparr>st_zones := map f (st_zones s)\<rparr>)"
| change_new_event: "ev_ID e \<notin> ev_ID ` set (st_events s) \<Longrightarrow> table_change Q s (s\<lparr>st_events := st_events s @ [e]\<rparr>)"

section \<open>Operations as sequences of changes\<close>

definition takes :: "('w \<Rightarrow> 'w \<Rightarrow> bool) \<Rightarrow> ('w, 'e, 'a) outcome \<Rightarrow> bool" where
  "takes R m \<longleftrightarrow> (\<forall>w. R\<^sup>*\<^sup>* w (fst (m w)))"

named_theorems takes_rules \<open>sequences of changes along the structure of an operation\<close>

lemma takesD: "takes R m \<Longrightarrow> m w = (w', r) \<Longrightarrow> R\<^sup>*\<^sup>* w w'"
  by (metis fst_conv takes_def)

lemma takes_attempt [takes_rules]:
  "takes R m \<Longrightarrow> (\<And>e. takes R (h e)) \<Longrightarrow> (\<And>x. takes R (k x)) \<Longrightarrow> takes R (attempt m h k)"
  unfolding takes_def attempt_def
  by (auto split: prod.splits sum.splits) (metis fst_conv rtranclp_trans)+

lemma takes_seq [takes_rules]: "takes R m \<Longrightarrow> (\<And>x. takes R (k x)) \<Longrightarrow> takes R (seq m k)"
  unfolding seq_def by (rule takes_attempt) (simp_all add: takes_def reject_def)

lemma takes_still [takes_rules]: "takes R (give x)" "takes R (reject e)" "takes R (checked r)"
  by (simp_all add: takes_def give_def reject_def checked_def)

lemma takes_if [takes_rules]: "takes R m \<Longrightarrow> takes R n \<Longrightarrow> takes R (if b then m else n)"
  by simp

lemma takes_prod [takes_rules]: "(\<And>a b. takes R (f a b)) \<Longrightarrow> takes R (case p of (a, b) \<Rightarrow> f a b)"
  by (cases p) simp

lemma table_change_same: "same_tables s s' \<Longrightarrow> (table_change Q)\<^sup>*\<^sup>* s s'"
  by (auto intro: change_none)

lemma takes_sql [takes_rules]:
  assumes "\<And>s s' x. f s = Inr (s', x) \<Longrightarrow> table_change Q s s'"
  shows "takes (table_change Q) (sql h f)"
  unfolding takes_def
proof
  fix s
  obtain s1 where s1: "same_tables s s1" and
    "fst (sql h f s) = s1 \<or> (\<exists>x. f s1 = Inr (fst (sql h f s), x))"
  proof (cases "st_faults s")
    case Nil
    then show thesis
      by (intro that [of s]) (auto simp: sql_quiet same_tables_def split: sum.splits prod.splits)
  next
    case (Cons a fs)
    then show thesis
      by (intro that [of "s\<lparr>st_faults := fs\<rparr>"])
        (auto simp: sql_def statement_def run_statement_def same_tables_def split: sum.splits prod.splits option.splits)
  qed
  then show "(table_change Q)\<^sup>*\<^sup>* s (fst (sql h f s))"
    using assms change_none [OF s1] by (metis converse_rtranclp_into_rtranclp r_into_rtranclp)
qed

lemma same_tables_refl [simp]: "same_tables s s"
  by (simp add: same_tables_def)

lemma takes_WithinTx [takes_rules]:
  assumes "takes (table_change Q) operation"
  shows "takes (table_change Q) (WithinTx operation)"
  unfolding takes_def
proof
  fix s
  obtain s' r where r: "WithinTx operation s = (s', r)" by fastforce
  have "(table_change Q)\<^sup>*\<^sup>* s s'"
  proof (cases r)
    case (Inl e)
    with WithinTx_outcome [OF r] show ?thesis by (simp add: table_change_same)
  next
    case (Inr x)
    with WithinTx_outcome [OF r] obtain s0 s1 where
      "same_tables s s0" "operation s0 = (s1, Inr x)" "same_tables s1 s'" by auto
    then show ?thesis
      using takesD [OF assms] table_change_same by (metis rtranclp_trans)
  qed
  with r show "(table_change Q)\<^sup>*\<^sup>* s (fst (WithinTx operation s))" by simp
qed

section \<open>The operations of the store\<close>

lemma update_account_change:
  assumes "update_account Q i cond f s = Inr (s', r')" and "\<And>r. ar_id (f r) = ar_id r"
  shows "table_change Q s s'"
proof -
  from assms obtain r where r: "find_account i s = Some r" "s' = s\<lparr>st_accounts := map (\<lambda>x. if ar_id x = i then f r else x) (st_accounts s)\<rparr>"
    "\<not> list_ex (\<lambda>x. ar_id x \<noteq> i \<and> account_clash Q (f r) x) (st_accounts s)"
    by (auto simp: update_account_def split: option.splits if_splits)
  have "ar_id r = i" using r(1) by (auto simp: find_account_def find_Some_iff)
  then have "ar_id (f r) = i" using assms(2) by simp
  from change_one_account [OF this r(3)] r(2) show ?thesis by simp
qed

lemma touch_account_change:
  "touch_account i cond f s = Inr (s', n) \<Longrightarrow> (\<And>r. same_account_key r (f r)) \<Longrightarrow> table_change Q s s'"
  unfolding touch_account_def by (auto intro!: change_accounts simp: same_account_key_def)

lemma delete_zones_change: "delete_zones cond t s = (s', n) \<Longrightarrow> table_change Q s s'"
  unfolding delete_zones_def Let_def by (auto intro!: change_zones simp: same_zone_key_def same_zone_def)

lemma find_account_in: "find_account i s = None \<longleftrightarrow> i \<notin> ar_id ` set (st_accounts s)"
  by (auto simp: find_account_def find_None_iff)

lemma list_ex_eq: "list_ex (\<lambda>x. k x = v) xs \<longleftrightarrow> v \<in> k ` set xs"
  by (auto simp: list_ex_iff)

lemma find_None_list_ex: "find P xs = None \<longleftrightarrow> \<not> list_ex P xs"
  by (induction xs) auto

lemma upsert_zone_change:
  assumes "upsert_zone Q i z t s = Inr (s', row)"
  shows "table_change Q s s'"
proof -
  from assms obtain md where md: "de_jsonb Q (metadata_or_empty (ze_Metadata z)) = Some md"
    by (auto simp: upsert_zone_def split: option.splits)
  let ?new = "new_zone_row i z md (timestamptz t)"
  show ?thesis
  proof (cases "find (same_zone ?new) (st_zones s)")
    case (Some old)
    with assms md have "s' = s\<lparr>st_zones := map (\<lambda>x. if same_zone ?new x then ?new\<lparr>zr_id := zr_id x\<rparr> else x) (st_zones s)\<rparr>"
      by (auto simp: upsert_zone_def Let_def split: if_splits)
    then show ?thesis by (auto intro!: change_zones simp: same_zone_key_def same_zone_def)
  next
    case None
    with assms md have s': "s' = s\<lparr>st_zones := st_zones s @ [?new]\<rparr>" and "\<not> list_ex (\<lambda>x. zr_id x = zr_id ?new) (st_zones s)"
      and acc: "find_account i s \<noteq> None"
      by (auto simp: upsert_zone_def Let_def split: if_splits)
    then have "zr_id ?new \<notin> zr_id ` set (st_zones s)" by (simp add: list_ex_eq)
    moreover have "zr_account_id ?new = i" by (simp add: new_zone_row_def)
    then have "zr_account_id ?new \<in> ar_id ` set (st_accounts s)" using acc by (simp only: find_account_in not_not)
    moreover have "\<not> list_ex (same_zone ?new) (st_zones s)" using None by (simp add: find_None_list_ex)
    ultimately show ?thesis unfolding s' by (intro change_new_zone)
  qed
qed

lemmas changes = change_none change_new_account change_no_account change_new_event update_account_change
  touch_account_change delete_zones_change upsert_zone_change

lemma takes_account_writes [takes_rules]:
  "takes (table_change Q) (CreateProviderAccount Q a c)"
  "takes (table_change Q) (UpdateProviderAccount Q i t ch)"
  "takes (table_change Q) (ReplaceProviderAccountCredential Q i k m)"
  "takes (table_change Q) (SetProviderAccountValidation Q i k t st v code)"
  "takes (table_change Q) (DeleteProviderAccount i)"
  unfolding CreateProviderAccount_def UpdateProviderAccount_def ReplaceProviderAccountCredential_def
    SetProviderAccountValidation_def DeleteProviderAccount_def conflict_if_missing_def returning_def
  by (intro takes_rules; auto simp: insert_account_def apply_changes_def Let_def intro: changes split: option.splits if_splits)+

lemma takes_upsert_zones [takes_rules]: "takes (table_change Q) (upsert_zones Q i zs t)"
  by (induction zs) (auto intro!: takes_rules intro: changes)

lemma takes_zone_writes [takes_rules]:
  "takes (table_change Q) (ReplaceZoneIndex Q i k t zs f)"
  "takes (table_change Q) (InvalidateZoneIndex i f)"
  "takes (table_change Q) (MarkZoneDeleted z i k t f)"
  "takes (table_change Q) (UpsertZoneIndex Q i k t ze f)"
  unfolding ReplaceZoneIndex_def InvalidateZoneIndex_def MarkZoneDeleted_def UpsertZoneIndex_def GetProviderAccount_def
  by (intro takes_rules; auto simp: same_account_key_def select_account_def intro: changes split: if_splits option.splits)+

lemma takes_InsertAuditEvent [takes_rules]: "takes (table_change Q) (InsertAuditEvent Q e)"
  unfolding InsertAuditEvent_def
  by (intro takes_rules) (force simp: insert_event_row_def list_ex_iff intro: change_new_event split: if_splits)

lemma takes_reads [takes_rules]:
  "takes (table_change Q) (ListProviderAccounts Q)"
  "takes (table_change Q) (GetProviderAccount i)"
  "takes (table_change Q) (GetProviderAccountCredential i)"
  "takes (table_change Q) (Zone_Store.ListZones Q q)"
  "takes (table_change Q) (Zone_Store.GetZone z)"
  "takes (table_change Q) (Zone_Store.ListAuditEvents Q aq)"
  "takes (table_change Q) (Zone_Store.GetAuditEvent e)"
  unfolding ListProviderAccounts_def GetProviderAccount_def GetProviderAccountCredential_def Zone_Store.ListZones_def
    Zone_Store.GetZone_def Zone_Store.ListAuditEvents_def Zone_Store.GetAuditEvent_def
  by (auto intro!: takes_rules change_none simp: select_account_def split: option.splits)

section \<open>What every change keeps\<close>

text \<open>
  The keys of the schema: identifiers are unique, so are an account's type and folded name and a zone of
  an account, and a zone's account exists.
\<close>

definition store_wf :: "db_env \<Rightarrow> 'a store_scheme \<Rightarrow> bool" where
  "store_wf Q s \<longleftrightarrow>
     distinct (map ar_id (st_accounts s))
     \<and> distinct (map (\<lambda>r. (ar_provider_type r, de_lower Q (ar_name r))) (st_accounts s))
     \<and> distinct (map zr_id (st_zones s))
     \<and> distinct (map (\<lambda>z. (zr_account_id z, zr_provider_zone_id z)) (st_zones s))
     \<and> zr_account_id ` set (st_zones s) \<subseteq> ar_id ` set (st_accounts s)
     \<and> distinct (map ev_ID (st_events s))"

lemma map_keys: "(\<And>x. k (f x) = k x) \<Longrightarrow> map (\<lambda>x. k (f x)) xs = map k xs"
  by simp

lemma distinct_map_one:
  assumes "distinct (map i xs)" and "distinct (map k xs)" and "\<And>x. x \<in> set xs \<Longrightarrow> i x \<noteq> i r \<Longrightarrow> k x \<noteq> k r"
  shows "distinct (map k (map (\<lambda>x. if i x = i r then r else x) xs))"
  using assms
proof (induction xs)
  case (Cons x xs)
  show ?case
  proof (cases "i x = i r")
    case True
    then have "i r \<notin> i ` set xs" using Cons.prems(1) by auto
    then have "map (\<lambda>x. if i x = i r then r else x) xs = xs" by (intro map_idI) (metis imageI)
    moreover have "k y \<noteq> k r" if "y \<in> set xs" for y
      using Cons.prems(3) [of y] that \<open>i r \<notin> i ` set xs\<close> by (auto simp: image_iff)
    then have "k r \<notin> k ` set xs" by (auto simp: image_iff) (metis)
    ultimately show ?thesis using True Cons.prems by (simp add: comp_def)
  next
    case False
    then have "k x \<noteq> k r" using Cons.prems(3) by simp
    moreover have "k x \<notin> k ` set xs" using Cons.prems(2) by auto
    moreover have "distinct (map k (map (\<lambda>x. if i x = i r then r else x) xs))"
      using Cons by simp
    ultimately show ?thesis using False by (auto split: if_splits)
  qed
qed simp

lemma store_wf_accounts:
  assumes "store_wf Q s" and "map ar_id rows = map ar_id (st_accounts s)"
    and "distinct (map (\<lambda>r. (ar_provider_type r, de_lower Q (ar_name r))) rows)"
  shows "store_wf Q (s\<lparr>st_accounts := rows\<rparr>)"
proof -
  have "ar_id ` set rows = ar_id ` set (st_accounts s)"
    using arg_cong [OF assms(2), of set] by (simp only: set_map)
  then show ?thesis using assms by (simp add: store_wf_def)
qed

lemma table_change_wf: "table_change Q s s' \<Longrightarrow> store_wf Q s \<Longrightarrow> store_wf Q s'"
proof (induction rule: table_change.induct)
  case (change_none s s')
  then show ?case by (simp add: store_wf_def same_tables_def)
next
  case (change_new_account r s)
  then show ?case by (auto simp: store_wf_def list_ex_iff account_clash_def)
next
  case (change_one_account r i s)
  have "distinct (map (\<lambda>r. (ar_provider_type r, de_lower Q (ar_name r)))
      (map (\<lambda>x. if ar_id x = ar_id r then r else x) (st_accounts s)))"
    using change_one_account by (intro distinct_map_one) (auto simp: store_wf_def list_ex_iff account_clash_def)
  with change_one_account show ?case by (intro store_wf_accounts) simp_all
next
  case (change_accounts f s)
  have f: "ar_id (f x) = ar_id x" "ar_provider_type (f x) = ar_provider_type x" "ar_name (f x) = ar_name x" for x
    using change_accounts(1) [of x] by (simp_all add: same_account_key_def)
  show ?case using change_accounts(2) by (simp add: store_wf_def comp_def f image_image)
next
  case (change_no_account i s)
  then show ?case
    by (auto simp: store_wf_def distinct_map_filter)
next
  case (change_new_zone z s)
  then show ?case by (auto simp: store_wf_def list_ex_iff same_zone_def)
next
  case (change_zones f s)
  have f: "zr_id (f z) = zr_id z" "zr_account_id (f z) = zr_account_id z" "zr_provider_zone_id (f z) = zr_provider_zone_id z" for z
    using change_zones(1) [of z] by (simp_all add: same_zone_key_def same_zone_def)
  show ?case using change_zones(2) by (simp add: store_wf_def comp_def f image_image)
next
  case (change_new_event e s)
  then show ?case by (auto simp: store_wf_def)
qed

lemma table_changes_wf: "(table_change Q)\<^sup>*\<^sup>* s s' \<Longrightarrow> store_wf Q s \<Longrightarrow> store_wf Q s'"
  by (induction rule: rtranclp_induct) (auto dest: table_change_wf)

lemma table_change_events: "table_change Q s s' \<Longrightarrow> prefix (st_events s) (st_events s')"
  by (induction rule: table_change.induct) (auto simp: same_tables_def)

lemma table_changes_events: "(table_change Q)\<^sup>*\<^sup>* s s' \<Longrightarrow> prefix (st_events s) (st_events s')"
  by (induction rule: rtranclp_induct) (auto dest: table_change_events intro: prefix_order.trans)

section \<open>Every use of the store\<close>

text \<open>
  A use of the store: one of the operations of the interface, or a transaction whose operation is a
  sequence of uses. The rest of the record, such as the clock and what will fail, changes by itself.
\<close>

inductive store_use :: "db_env \<Rightarrow> 'a store_scheme \<Rightarrow> 'a store_scheme \<Rightarrow> bool" for Q where
  use_create: "CreateProviderAccount Q a c s = (s', r1) \<Longrightarrow> store_use Q s s'"
| use_update: "UpdateProviderAccount Q i t ch s = (s', r2) \<Longrightarrow> store_use Q s s'"
| use_replace: "ReplaceProviderAccountCredential Q i k m s = (s', r3) \<Longrightarrow> store_use Q s s'"
| use_validation: "SetProviderAccountValidation Q i k t st v code s = (s', r4) \<Longrightarrow> store_use Q s s'"
| use_delete: "DeleteProviderAccount i s = (s', r5) \<Longrightarrow> store_use Q s s'"
| use_index: "ReplaceZoneIndex Q i k t zs f s = (s', r6) \<Longrightarrow> store_use Q s s'"
| use_invalidate: "InvalidateZoneIndex i f s = (s', r7) \<Longrightarrow> store_use Q s s'"
| use_mark: "MarkZoneDeleted z i k t f s = (s', r8) \<Longrightarrow> store_use Q s s'"
| use_upsert: "UpsertZoneIndex Q i k t ze f s = (s', r9) \<Longrightarrow> store_use Q s s'"
| use_event: "InsertAuditEvent Q e s = (s', r10) \<Longrightarrow> store_use Q s s'"
| use_accounts: "ListProviderAccounts Q s = (s', r11) \<Longrightarrow> store_use Q s s'"
| use_account: "GetProviderAccount i s = (s', r12) \<Longrightarrow> store_use Q s s'"
| use_credential: "GetProviderAccountCredential i s = (s', r13) \<Longrightarrow> store_use Q s s'"
| use_zones: "Zone_Store.ListZones Q q s = (s', r14) \<Longrightarrow> store_use Q s s'"
| use_zone: "Zone_Store.GetZone z s = (s', r15) \<Longrightarrow> store_use Q s s'"
| use_events: "Zone_Store.ListAuditEvents Q aq s = (s', r16) \<Longrightarrow> store_use Q s s'"
| use_one_event: "Zone_Store.GetAuditEvent i s = (s', r17) \<Longrightarrow> store_use Q s s'"
| use_tx: "(\<And>w. (store_use Q)\<^sup>*\<^sup>* w (fst (operation w))) \<Longrightarrow>
    WithinTx (operation :: ('a store_scheme, tx_value) scall) s = (s', r18) \<Longrightarrow> store_use Q s s'"
| use_time: "same_tables s s' \<Longrightarrow> store_use Q s s'"

lemma store_use_changes: "store_use Q s s' \<Longrightarrow> (table_change Q)\<^sup>*\<^sup>* s s'"
proof (induction rule: store_use.induct)
  case (use_tx operation s s' r18)
  have "(table_change Q)\<^sup>*\<^sup>* w w'" if "(\<lambda>a b. store_use Q a b \<and> (table_change Q)\<^sup>*\<^sup>* a b)\<^sup>*\<^sup>* w w'" for w w'
    using that by (induction rule: rtranclp_induct) auto
  with use_tx have "takes (table_change Q) operation" by (auto simp: takes_def)
  from takesD [OF takes_WithinTx [OF this]] use_tx show ?case by blast
qed (auto intro: takesD takes_rules table_change_same)

text \<open>C14: Whatever is done with the store, from empty tables on, by single operations or in transactions of any
  shape and with faults at any statement: identifiers stay unique, an account's type and folded name and a
  zone of an account stay unique, and every zone belongs to an account that exists.\<close>

theorem store_stays_wf:
  assumes "(store_use Q)\<^sup>*\<^sup>* s s'" and "st_accounts s = []" and "st_zones s = []" and "st_events s = []"
  shows "store_wf Q s'"
proof -
  have "store_wf Q s" using assms(2-4) by (simp add: store_wf_def)
  with assms(1) show ?thesis
    by (induction rule: rtranclp_induct) (auto dest: store_use_changes table_changes_wf)
qed

text \<open>C28: The audit trail is append-only: no use of the store removes or changes an event that was there.\<close>

theorem audit_trail_append_only:
  assumes "(store_use Q)\<^sup>*\<^sup>* s s'"
  shows "prefix (st_events s) (st_events s')"
  using assms
  by (induction rule: rtranclp_induct)
    (auto dest: store_use_changes table_changes_events intro: prefix_order.trans)

end
