(* ===== verification/Versioned_Rows.thy ===== *)
theory Versioned_Rows
  imports Store_Changes
begin

text \<open>
  Optimistic locking. The services read an account, decide, and write on condition that the account is
  still as it was read: its update time, or its credential revision, is the version. The contract is a
  locale: a write that expects a version succeeds only before the version is past, makes it past, and no
  write brings it back. Clients of the contract then know that of all writes that expect the same
  version at most one succeeds. The lemmas after it say what a successful update of an account found and left.
\<close>

section \<open>The contract\<close>

text \<open>The writes to a row that succeed when several writes are made, one after the other.\<close>

fun carried_out :: "('k \<Rightarrow> 'op \<Rightarrow> 's \<Rightarrow> 's \<times> ('e + 'a)) \<Rightarrow> 'k \<Rightarrow> ('k \<times> 'op) list \<Rightarrow> 's \<Rightarrow> 'op list" where
  "carried_out put k [] s = []"
| "carried_out put k ((k', op) # ws) s =
     (case put k' op s of (s', r) \<Rightarrow> if k' = k \<and> \<not> isl r then op # carried_out put k ws s' else carried_out put k ws s')"

locale versioned_rows =
  fixes put :: "'k \<Rightarrow> 'op \<Rightarrow> 's \<Rightarrow> 's \<times> ('e + 'a)"
    and inv :: "'s \<Rightarrow> bool"
    and past :: "'k \<Rightarrow> 'v \<Rightarrow> 's \<Rightarrow> bool"
    and expects :: "'v \<Rightarrow> 'op \<Rightarrow> bool"
    and fresh :: "'v \<Rightarrow> 'op \<Rightarrow> bool"
  assumes put_inv: "inv s \<Longrightarrow> put k op s = (s', r) \<Longrightarrow> inv s'"
    and put_expected: "inv s \<Longrightarrow> put k op s = (s', Inr x) \<Longrightarrow> expects v op \<Longrightarrow> \<not> past k v s"
    and put_moves: "inv s \<Longrightarrow> put k op s = (s', Inr x) \<Longrightarrow> expects v op \<Longrightarrow> fresh v op \<Longrightarrow> past k v s'"
    and put_past: "inv s \<Longrightarrow> put k' op s = (s', r) \<Longrightarrow> fresh v op \<Longrightarrow> past k v s \<Longrightarrow> past k v s'"
begin

text \<open>A version that is past is never met again.\<close>

lemma past_never_met:
  "inv s \<Longrightarrow> past k v s \<Longrightarrow> list_all (\<lambda>w. fresh v (snd w)) ws \<Longrightarrow>
     list_all (\<lambda>op. \<not> expects v op) (carried_out put k ws s)"
proof (induction ws arbitrary: s)
  case (Cons w ws)
  obtain k' op where w: "w = (k', op)" by (cases w)
  obtain s' r where r: "put k' op s = (s', r)" by fastforce
  have "list_all (\<lambda>op. \<not> expects v op) (carried_out put k ws s')"
    using Cons put_inv [OF _ r] put_past [OF _ r] w by simp
  moreover have "\<not> expects v op" if "k' = k" "\<not> isl r"
    using that put_expected r Cons.prems(1,2) by (cases r) auto
  ultimately show ?case using r w by simp
qed simp

lemma at_most_one:
  "inv s \<Longrightarrow> list_all (\<lambda>w. fresh v (snd w)) ws \<Longrightarrow> length (filter (expects v) (carried_out put k ws s)) \<le> 1"
proof (induction ws arbitrary: s)
  case (Cons w ws)
  obtain k' op where w: "w = (k', op)" by (cases w)
  obtain s' r where r: "put k' op s = (s', r)" by fastforce
  note inv' = put_inv [OF Cons.prems(1) r]
  show ?case
  proof (cases "k' = k \<and> \<not> isl r \<and> expects v op")
    case True
    then obtain x where "r = Inr x" by (cases r) auto
    with True r w Cons.prems have "past k v s'" using put_moves by fastforce
    moreover have "list_all (\<lambda>w. fresh v (snd w)) ws" using Cons.prems by simp
    ultimately have "list_all (\<lambda>op. \<not> expects v op) (carried_out put k ws s')"
      by (rule past_never_met [OF inv'])
    then have "filter (expects v) (carried_out put k ws s') = []" by (simp add: filter_empty_conv list_all_iff)
    with r w show ?thesis by simp
  next
    case False
    with Cons.IH [OF inv'] Cons.prems r w show ?thesis by auto
  qed
qed simp

end

text \<open>When every write makes the version past, only the first one can have expected it.\<close>

locale stamped_rows = versioned_rows +
  assumes put_stamps: "inv s \<Longrightarrow> put k op s = (s', Inr x) \<Longrightarrow> fresh v op \<Longrightarrow> past k v s'"
begin

lemma only_the_first:
  "inv s \<Longrightarrow> list_all (\<lambda>w. fresh v (snd w)) ws \<Longrightarrow>
     list_all (\<lambda>op. \<not> expects v op) (tl (carried_out put k ws s))"
proof (induction ws arbitrary: s)
  case (Cons w ws)
  obtain k' op where w: "w = (k', op)" by (cases w)
  obtain s' r where r: "put k' op s = (s', r)" by fastforce
  note inv' = put_inv [OF Cons.prems(1) r]
  show ?case
  proof (cases "k' = k \<and> \<not> isl r")
    case True
    then obtain x where "r = Inr x" by (cases r) auto
    with True r w Cons.prems have "past k v s'" using put_stamps by fastforce
    with past_never_met [OF inv'] Cons.prems True r w show ?thesis by simp
  next
    case False
    with Cons.IH [OF inv'] Cons.prems r w show ?thesis by auto
  qed
qed simp

end

section \<open>The update of one account\<close>

lemma sql_Inr:
  assumes "sql h f s = (s', Inr x)"
  shows "\<exists>s1. same_tables s s1 \<and> st_now s1 = st_now s \<and> f s1 = Inr (s', x)"
proof (cases "st_faults s")
  case Nil
  with assms show ?thesis by (intro exI [of _ s]) (auto simp: sql_quiet split: sum.splits prod.splits)
next
  case (Cons a fs)
  with assms show ?thesis
    by (intro exI [of _ "s\<lparr>st_faults := fs\<rparr>"])
      (auto simp: sql_def statement_def run_statement_def same_tables_def split: sum.splits prod.splits option.splits)
qed

text \<open>An update of an account that succeeds found the row as expected, and left the new row there.\<close>

lemma sql_update_account_Inr:
  assumes "sql h (\<lambda>s. update_account Q i cond (f (st_now s)) s) s = (s', Inr r')"
    and "\<And>t r. ar_id (f t r) = ar_id r"
  shows "\<exists>r. find_account i s = Some r \<and> cond r \<and> r' = f (st_now s) r \<and> find_account i s' = Some r'
     \<and> (\<forall>j. j \<noteq> i \<longrightarrow> find_account j s' = find_account j s)"
proof -
  from sql_Inr [OF assms(1)] obtain s1 where
    s1: "same_tables s s1" "update_account Q i cond (f (st_now s)) s1 = Inr (s', r')" by auto
  then obtain r where r: "find_account i s1 = Some r" "cond r" "r' = f (st_now s) r"
    "s' = s1\<lparr>st_accounts := map (\<lambda>x. if ar_id x = i then f (st_now s) r else x) (st_accounts s1)\<rparr>"
    by (auto simp: update_account_def split: option.splits if_splits)
  have id: "ar_id (f (st_now s) r) = i" using r(1) assms(2) by (auto simp: find_account_def find_Some_iff)
  have "find (\<lambda>x. ar_id x = i) (map (\<lambda>x. if ar_id x = i then f (st_now s) r else x) xs)
      = map_option (\<lambda>_. f (st_now s) r) (find (\<lambda>x. ar_id x = i) xs)"
    and "j \<noteq> i \<Longrightarrow> find (\<lambda>x. ar_id x = j) (map (\<lambda>x. if ar_id x = i then f (st_now s) r else x) xs) = find (\<lambda>x. ar_id x = j) xs" for xs j
    using id by (induction xs) auto
  with r s1(1) show ?thesis by (auto simp: find_account_def same_tables_def)
qed

lemma find_account_same: "same_tables s s' \<Longrightarrow> find_account i s' = find_account i s"
  by (simp add: find_account_def same_tables_def)

section \<open>The writes to an account\<close>

lemma WithinTx_failed_account: "WithinTx operation s = (s', Inl e) \<Longrightarrow> find_account i s' = find_account i s"
  using WithinTx_outcome [of operation s s' "Inl e"] by (simp add: find_account_same)

lemma returning_Inr: "returning r s = (s', Inr x) \<longleftrightarrow> s' = s \<and> scanProviderAccount r = Inr x"
  by (auto simp: returning_def checked_result)

lemma conflict_if_missing_Inr: "conflict_if_missing m s = (s', Inr x) \<longleftrightarrow> m s = (s', Inr x)"
  by (auto simp: conflict_if_missing_def attempt_result)

lemma UpdateProviderAccount_Inr:
  assumes "UpdateProviderAccount Q i t ch s = (s', Inr x)"
  shows "\<exists>r r'. find_account i s = Some r \<and> ar_updated_at r = timestamptz t \<and> find_account i s' = Some r'
    \<and> ar_updated_at r' = st_now s \<and> ar_credential_revision r' = ar_credential_revision r \<and> (\<forall>j. j \<noteq> i \<longrightarrow> find_account j s' = find_account j s)"
proof -
  from assms obtain w r' where w: "sql (mapProviderStoreError ''read provider account'') (\<lambda>s.
        case (if ch_Options ch = [] then Some None else map_option Some (de_jsonb Q (ch_Options ch))) of
          None \<Rightarrow> Inl PgOther
        | Some options \<Rightarrow> update_account Q i (\<lambda>r. ar_updated_at r = timestamptz t) (apply_changes ch options (st_now s)) s) s
      = (w, Inr r')" and "returning r' w = (s', Inr x)"
    by (auto simp: UpdateProviderAccount_def conflict_if_missing_Inr seq_result)
  then have s': "s' = w" by (simp add: returning_Inr)
  show ?thesis
  proof (cases "if ch_Options ch = [] then Some None else map_option Some (de_jsonb Q (ch_Options ch))")
    case None
    with w sql_Inr [OF w] show ?thesis by auto
  next
    case (Some options)
    have f: "ar_id (apply_changes ch options t r) = ar_id r" "ar_updated_at (apply_changes ch options t r) = t"
      "ar_credential_revision (apply_changes ch options t r) = ar_credential_revision r" for t r
      by (simp_all add: apply_changes_def Let_def)
    from w Some have "sql (mapProviderStoreError ''read provider account'') (\<lambda>s.
        update_account Q i (\<lambda>r. ar_updated_at r = timestamptz t) (apply_changes ch options (st_now s)) s) s = (w, Inr r')"
      by simp
    from sql_update_account_Inr [where f = "apply_changes ch options", OF this f(1)] f(2,3) s' show ?thesis by auto
  qed
qed

end
