(* ===== verification/Zone_Index.thy ===== *)
theory Zone_Index
  imports Versioned_Rows
begin

text \<open>
  What a replacement of the zone index leaves behind: the zones of the account that are shown are exactly
  the given ones, the zones of other accounts are untouched, and no zone loses its identifier.
\<close>

definition shown_zones :: "uuid \<Rightarrow> 'a store_scheme \<Rightarrow> string set" where
  "shown_zones i s = zr_provider_zone_id ` {x \<in> set (st_zones s). zr_account_id x = i \<and> zr_deleted_at x = None}"

definition foreign_zones :: "uuid \<Rightarrow> 'a store_scheme \<Rightarrow> zone_row list" where
  "foreign_zones i s = filter (\<lambda>x. zr_account_id x \<noteq> i) (st_zones s)"

definition zones_kept :: "'a store_scheme \<Rightarrow> 'a store_scheme \<Rightarrow> bool" where
  "zones_kept s s' \<longleftrightarrow> (\<forall>x \<in> set (st_zones s). \<exists>y \<in> set (st_zones s'). same_zone_key x y)"

lemma zones_kept_trans: "zones_kept a b \<Longrightarrow> zones_kept b c \<Longrightarrow> zones_kept a c"
  by (force simp: zones_kept_def same_zone_key_def same_zone_def)

lemma zones_kept_same [simp]: "st_zones s' = st_zones s \<Longrightarrow> zones_kept s s'"
  by (auto simp: zones_kept_def same_zone_key_def same_zone_def)

lemma zones_kept_map:
  assumes "\<And>x. same_zone_key x (f x)"
  shows "zones_kept s (s\<lparr>st_zones := map f (st_zones s)\<rparr>)"
  unfolding zones_kept_def using assms by (auto intro: bexI [of _ "f x" for x])

lemma shown_in: "p \<in> shown_zones i s \<longleftrightarrow>
    (\<exists>x \<in> set (st_zones s). zr_account_id x = i \<and> zr_provider_zone_id x = p \<and> zr_deleted_at x = None)"
  by (auto simp: shown_zones_def)

lemma shown_in_map:
  assumes "\<And>x. same_zone_key x (f x)"
  shows "p \<in> shown_zones i (s\<lparr>st_zones := map f (st_zones s)\<rparr>) \<longleftrightarrow>
    (\<exists>x \<in> set (st_zones s). zr_account_id x = i \<and> zr_provider_zone_id x = p \<and> zr_deleted_at (f x) = None)"
  using assms by (simp add: shown_in same_zone_key_def same_zone_def)

lemma shown_with:
  assumes "x0 \<in> S" and "a x0 = i" and "z x0 = q"
  shows "(\<exists>x \<in> S. a x = i \<and> z x = p \<and> ((a x = i \<and> z x = q) \<or> d x)) \<longleftrightarrow> p = q \<or> (\<exists>x \<in> S. a x = i \<and> z x = p \<and> d x)"
  using assms by auto

lemma shown_among:
  "(\<exists>x \<in> S. a x = i \<and> z x = p \<and> d x \<and> (a x = i \<longrightarrow> z x \<in> A)) \<longleftrightarrow> (\<exists>x \<in> S. a x = i \<and> z x = p \<and> d x) \<and> p \<in> A"
  by auto

lemma filter_map_other:
  "(\<And>x. P (f x) = P x) \<Longrightarrow> (\<And>x. P x \<Longrightarrow> f x = x) \<Longrightarrow> filter P (map f xs) = filter P xs"
  by (induction xs) auto

lemma upsert_zone_effect:
  assumes "upsert_zone Q i z t s = Inr (s', row)"
  shows "shown_zones i s' = insert (ze_ProviderZoneID z) (shown_zones i s) \<and> foreign_zones i s' = foreign_zones i s
     \<and> zones_kept s s' \<and> st_accounts s' = st_accounts s"
proof -
  from assms obtain md where md: "de_jsonb Q (metadata_or_empty (ze_Metadata z)) = Some md"
    by (auto simp: upsert_zone_def split: option.splits)
  obtain new where new: "new = new_zone_row i z md (timestamptz t)" by simp
  then have n: "zr_account_id new = i" "zr_provider_zone_id new = ze_ProviderZoneID z" "zr_deleted_at new = None"
    by (simp_all add: new_zone_row_def)
  show ?thesis
  proof (cases "find (same_zone new) (st_zones s)")
    case (Some old)
    let ?f = "\<lambda>x. if same_zone new x then new\<lparr>zr_id := zr_id x\<rparr> else x"
    from Some assms md new have s': "s' = s\<lparr>st_zones := map ?f (st_zones s)\<rparr>"
      by (auto simp: upsert_zone_def Let_def split: if_splits)
    have old: "old \<in> set (st_zones s)" "same_zone new old"
      using Some by (auto simp: find_Some_iff)
    have key: "same_zone_key x (?f x)" for x by (auto simp: same_zone_key_def same_zone_def)
    have deleted: "zr_deleted_at (?f x) = None \<longleftrightarrow>
        (zr_account_id x = i \<and> zr_provider_zone_id x = ze_ProviderZoneID z) \<or> zr_deleted_at x = None" for x
      by (auto simp: same_zone_def n)
    have "foreign_zones i s' = foreign_zones i s"
      unfolding foreign_zones_def s' by (simp, rule filter_map_other) (auto simp: same_zone_def n)
    moreover have "zones_kept s s'" unfolding s' by (rule zones_kept_map [OF key])
    moreover have "shown_zones i s' = insert (ze_ProviderZoneID z) (shown_zones i s)"
    proof (rule set_eqI)
      fix p
      have "zr_account_id old = i" "zr_provider_zone_id old = ze_ProviderZoneID z"
        using old(2) n by (simp_all add: same_zone_def)
      then show "p \<in> shown_zones i s' \<longleftrightarrow> p \<in> insert (ze_ProviderZoneID z) (shown_zones i s)"
        unfolding s' insert_iff by (subst shown_in_map [OF key], subst deleted, subst shown_in, rule shown_with [OF old(1)])
    qed
    ultimately show ?thesis by (simp add: s')
  next
    case None
    with assms md new have s': "s' = s\<lparr>st_zones := st_zones s @ [new]\<rparr>"
      by (auto simp: upsert_zone_def Let_def split: if_splits)
    have "foreign_zones i s' = foreign_zones i s" by (simp add: foreign_zones_def s' n)
    moreover have "zones_kept s s'"
      unfolding zones_kept_def s' by (auto simp: same_zone_key_def same_zone_def intro: bexI)
    moreover have "shown_zones i s' = insert (ze_ProviderZoneID z) (shown_zones i s)"
      by (rule set_eqI) (auto simp: shown_in s' n)
    ultimately show ?thesis by (simp add: s')
  qed
qed

lemma upsert_zones_effect:
  assumes "upsert_zones Q i zs t s = (s', Inr u)"
  shows "shown_zones i s' = set (map ze_ProviderZoneID zs) \<union> shown_zones i s \<and> foreign_zones i s' = foreign_zones i s
     \<and> zones_kept s s' \<and> st_accounts s' = st_accounts s"
  using assms
proof (induction zs arbitrary: s)
  case (Cons z zs)
  then obtain s1 row where "sql (mapProviderStoreError ''upsert provider zone index'') (upsert_zone Q i z t) s = (s1, Inr row)"
    and rest: "upsert_zones Q i zs t s1 = (s', Inr u)"
    by (auto simp: seq_result)
  then obtain s0 where s0: "same_tables s s0" "upsert_zone Q i z t s0 = Inr (s1, row)" using sql_Inr [where f = "upsert_zone Q i z t"] by blast
  have "zones_kept s0 s' \<longleftrightarrow> zones_kept s s'" "shown_zones i s0 = shown_zones i s" "foreign_zones i s0 = foreign_zones i s"
    "st_accounts s0 = st_accounts s"
    using s0(1) by (simp_all add: zones_kept_def shown_zones_def foreign_zones_def same_tables_def)
  with upsert_zone_effect [OF s0(2)] Cons.IH [OF rest] zones_kept_trans show ?case by auto
qed simp

lemma delete_zones_effect:
  assumes "delete_zones (\<lambda>x. zr_account_id x = i \<and> zr_provider_zone_id x \<notin> A) t s = (s', n)"
  shows "shown_zones i s' = shown_zones i s \<inter> A \<and> foreign_zones i s' = foreign_zones i s \<and> zones_kept s s'
     \<and> st_accounts s' = st_accounts s"
proof -
  let ?f = "\<lambda>x. if (zr_account_id x = i \<and> zr_provider_zone_id x \<notin> A) \<and> zr_deleted_at x = None
      then x\<lparr>zr_deleted_at := Some t, zr_updated_at := t\<rparr> else x"
  from assms have s': "s' = s\<lparr>st_zones := map ?f (st_zones s)\<rparr>" by (simp add: delete_zones_def Let_def)
  have key: "same_zone_key x (?f x)" for x by (simp add: same_zone_key_def same_zone_def)
  have deleted: "zr_deleted_at (?f x) = None \<longleftrightarrow>
      zr_deleted_at x = None \<and> (zr_account_id x = i \<longrightarrow> zr_provider_zone_id x \<in> A)" for x
    by auto
  have "foreign_zones i s' = foreign_zones i s"
    unfolding foreign_zones_def s' by (simp, rule filter_map_other) auto
  moreover have "zones_kept s s'" unfolding s' by (rule zones_kept_map [OF key])
  moreover have "shown_zones i s' = shown_zones i s \<inter> A"
    by (rule set_eqI) (unfold s' Int_iff, subst shown_in_map [OF key], subst deleted, subst shown_in, rule shown_among)
  ultimately show ?thesis by (simp add: s')
qed

text \<open>C15: A replacement of an account's zone index that succeeds shows exactly the given zones for the account,
  leaves the zones of every other account untouched, and keeps the identifiers of the zones that were known,
  deleted ones included; it happens only for the account state that was expected.\<close>

theorem ReplaceZoneIndex_exact:
  assumes "ReplaceZoneIndex Q i revision updatedAt zs t s = (s', Inr u)"
  shows "shown_zones i s' = set (map ze_ProviderZoneID zs) \<and> foreign_zones i s' = foreign_zones i s \<and> zones_kept s s'
     \<and> account_unchanged i revision updatedAt s"
proof -
  let ?ids = "set (map ze_ProviderZoneID zs)"
  from assms obtain s1 s2 n1 n2 where
    up: "upsert_zones Q i zs t s = (s1, Inr ())"
    and del: "sql (mapProviderStoreError ''mark missing provider zones'')
      (\<lambda>s. Inr (delete_zones (\<lambda>x. zr_account_id x = i \<and> zr_provider_zone_id x \<notin> ?ids) (timestamptz t) s)) s1 = (s2, Inr n1)"
    and touch: "sql (mapProviderStoreError ''update provider zone sync time'')
      (\<lambda>s. touch_account i (\<lambda>r. ar_credential_revision r = sint revision \<and> ar_updated_at r = timestamptz updatedAt)
        (\<lambda>r. r\<lparr>ar_last_zone_sync_at := Some (timestamptz t), ar_updated_at := st_now s\<rparr>) s) s2 = (s', Inr n2)"
    and one: "n2 = 1"
    by (auto simp: ReplaceZoneIndex_def seq_result split: if_splits)
  from sql_Inr [OF del] obtain d where d: "same_tables s1 d"
    "delete_zones (\<lambda>x. zr_account_id x = i \<and> zr_provider_zone_id x \<notin> ?ids) (timestamptz t) d = (s2, n1)" by auto
  from sql_Inr [OF touch] obtain a where a: "same_tables s2 a"
    "touch_account i (\<lambda>r. ar_credential_revision r = sint revision \<and> ar_updated_at r = timestamptz updatedAt)
        (\<lambda>r. r\<lparr>ar_last_zone_sync_at := Some (timestamptz t), ar_updated_at := st_now a\<rparr>) a = Inr (s', n2)" by auto
  have same: "zones_kept s1 x \<longleftrightarrow> zones_kept d x" "shown_zones i d = shown_zones i s1" "foreign_zones i d = foreign_zones i s1"
    "st_accounts d = st_accounts s1" for x
    using d(1) by (simp_all add: zones_kept_def shown_zones_def foreign_zones_def same_tables_def)
  have last: "st_zones s' = st_zones s2" using a by (auto simp: touch_account_def same_tables_def)
  then have "shown_zones i s' = shown_zones i s2" "foreign_zones i s' = foreign_zones i s2" "zones_kept s2 s'"
    by (simp_all add: shown_zones_def foreign_zones_def)
  with upsert_zones_effect [OF up] delete_zones_effect [OF d(2)] same zones_kept_trans have
    "shown_zones i s' = ?ids" "foreign_zones i s' = foreign_zones i s" and kept: "zones_kept s s1" "zones_kept s1 s2" "zones_kept s2 s'"
    by auto
  moreover have "zones_kept s s'" using kept zones_kept_trans by blast
  moreover have "account_unchanged i revision updatedAt s"
  proof -
    have "filter (\<lambda>x. ar_id x = i \<and> ar_credential_revision x = sint revision \<and> ar_updated_at x = timestamptz updatedAt)
        (st_accounts a) \<noteq> []"
      using a(2) one by (auto simp: touch_account_def)
    moreover have "st_accounts a = st_accounts s"
      using a(1) delete_zones_effect [OF d(2)] same upsert_zones_effect [OF up] by (simp add: same_tables_def)
    ultimately show ?thesis by (auto simp: account_unchanged_def list_ex_iff filter_empty_conv)
  qed
  ultimately show ?thesis by blast
qed

end
