(* ===== verification/Account_Writes.thy ===== *)
theory Account_Writes
  imports Zone_Index
begin

text \<open>
  The writes to an account that exists: a change, a new credential, the result of a validation, a new zone index
  and the deletion. The services make each of them in a transaction, in which they also record the audit event and may
  invalidate the zones - which changes no version and is left out - and on condition that the account is as it was
  read, except the deletion, which expects nothing, and the new credential, which expects
  the credential revision only. The contract of \<open>Versioned_Rows\<close> holds for the update time of an account and for its
  credential revision.
\<close>

section \<open>Writes\<close>

datatype account_write =
    ChangeAccount time account_changes
  | ReplaceCredential "64 word" credential_material
  | SetValidation "64 word" time ValidationStatus time string
  | ReplaceIndex "64 word" time "zone_entry list" time
  | RemoveAccount

text \<open>The call of the store inside the transaction; what it returns besides success is left out.\<close>

definition perform_write :: "db_env \<Rightarrow> uuid \<Rightarrow> account_write \<Rightarrow> ('a store_scheme, unit) scall" where
  "perform_write Q i op =
     (case op of
        ChangeAccount t ch \<Rightarrow> seq (UpdateProviderAccount Q i t ch) (\<lambda>_. give ())
      | ReplaceCredential k m \<Rightarrow> seq (ReplaceProviderAccountCredential Q i k m) (\<lambda>_. give ())
      | SetValidation k t st v code \<Rightarrow> seq (SetProviderAccountValidation Q i k t st v code) (\<lambda>_. give ())
      | ReplaceIndex k t zs f \<Rightarrow> ReplaceZoneIndex Q i k t zs f
      | RemoveAccount \<Rightarrow> seq (DeleteProviderAccount i) (\<lambda>_. give ()))"

text \<open>A transaction that begins at the given time, which is \<open>now()\<close> in it.\<close>

definition write_account ::
  "db_env \<Rightarrow> uuid \<Rightarrow> time \<times> account_write \<Rightarrow> 'a store_scheme \<Rightarrow> 'a store_scheme \<times> (service_error + unit)" where
  "write_account Q i w s = WithinTx (perform_write Q i (snd w)) (s\<lparr>st_now := fst w\<rparr>)"

text \<open>The update time on which a write was decided, and the revision that a replacement expects.\<close>

definition decided_at :: "time \<Rightarrow> time \<times> account_write \<Rightarrow> bool" where
  "decided_at t w \<longleftrightarrow>
     (case snd w of ChangeAccount t' _ \<Rightarrow> timestamptz t' = t | SetValidation _ t' _ _ _ \<Rightarrow> timestamptz t' = t
      | ReplaceIndex _ t' _ _ \<Rightarrow> timestamptz t' = t | _ \<Rightarrow> False)"

definition replaces :: "int \<Rightarrow> time \<times> account_write \<Rightarrow> bool" where
  "replaces k w \<longleftrightarrow> (case snd w of ReplaceCredential k' _ \<Rightarrow> sint k' = k | _ \<Rightarrow> False)"

text \<open>The services replace a credential by one of the next revision.\<close>

definition revision_grows :: "account_write \<Rightarrow> bool" where
  "revision_grows op \<longleftrightarrow> (case op of ReplaceCredential k m \<Rightarrow> sint k < sint (cm_Revision m) | _ \<Rightarrow> True)"

section \<open>What a write finds and leaves\<close>

text \<open>The row with its update time and revision, as far as a write is concerned.\<close>

definition account_version :: "'a store_scheme \<Rightarrow> uuid \<Rightarrow> (time \<times> int) option" where
  "account_version s i = map_option (\<lambda>r. (ar_updated_at r, ar_credential_revision r)) (find_account i s)"

text \<open>What a write expects of the row and leaves of it when it begins at a time.\<close>

fun write_expects :: "account_write \<Rightarrow> time \<times> int \<Rightarrow> bool" where
  "write_expects (ChangeAccount t ch) (u, k) \<longleftrightarrow> u = timestamptz t"
| "write_expects (ReplaceCredential k' m) (u, k) \<longleftrightarrow> k = sint k'"
| "write_expects (SetValidation k' t st v code) (u, k) \<longleftrightarrow> k = sint k' \<and> u = timestamptz t"
| "write_expects (ReplaceIndex k' t zs f) (u, k) \<longleftrightarrow> k = sint k' \<and> u = timestamptz t"
| "write_expects RemoveAccount (u, k) \<longleftrightarrow> True"

fun write_leaves :: "account_write \<Rightarrow> time \<Rightarrow> int \<Rightarrow> (time \<times> int) option" where
  "write_leaves (ReplaceCredential k' m) began k = Some (began, sint (cm_Revision m))"
| "write_leaves RemoveAccount began k = None"
| "write_leaves _ began k = Some (began, k)"

lemma account_version_same: "same_tables s s' \<Longrightarrow> account_version s' i = account_version s i"
  by (simp add: account_version_def find_account_same)

lemma sql_update_version:
  assumes "sql h (\<lambda>s. update_account Q i cond (f (st_now s)) s) s = (w, Inr r')" and "\<And>t r. ar_id (f t r) = ar_id r"
  shows "\<exists>r. cond r \<and> account_version s i = Some (ar_updated_at r, ar_credential_revision r)
    \<and> account_version w i = Some (ar_updated_at (f (st_now s) r), ar_credential_revision (f (st_now s) r))
    \<and> (\<forall>j. j \<noteq> i \<longrightarrow> account_version w j = account_version s j)"
  using sql_update_account_Inr [OF assms] by (auto simp: account_version_def)

lemma replace_version:
  assumes "ReplaceProviderAccountCredential Q i k m s = (s', Inr x)"
  shows "\<exists>u. account_version s i = Some (u, sint k) \<and> account_version s' i = Some (st_now s, sint (cm_Revision m))
    \<and> (\<forall>j. j \<noteq> i \<longrightarrow> account_version s' j = account_version s j)"
proof -
  let ?f = "\<lambda>t r. r\<lparr>ar_credential_revision := sint (cm_Revision m), ar_credential := Some (cm_Encrypted m),
        ar_validation_status := ValidationStatusPending, ar_last_validated_at := None,
        ar_last_validation_error_code := None, ar_updated_at := t\<rparr>"
  from assms obtain r' where "sql (mapProviderStoreError ''read provider account'') (\<lambda>s.
      update_account Q i (\<lambda>r. ar_credential_revision r = sint k) (?f (st_now s)) s) s = (s', Inr r')"
    by (auto simp: ReplaceProviderAccountCredential_def attempt_result seq_result returning_Inr split: if_splits)
  from sql_update_version [where f = ?f, OF this] show ?thesis by auto
qed

lemma validation_version:
  assumes "SetProviderAccountValidation Q i k t st v code s = (s', Inr x)"
  shows "account_version s i = Some (timestamptz t, sint k) \<and> account_version s' i = Some (st_now s, sint k)
    \<and> (\<forall>j. j \<noteq> i \<longrightarrow> account_version s' j = account_version s j)"
proof -
  let ?f = "\<lambda>u r. r\<lparr>ar_validation_status := st, ar_last_validated_at := Some (timestamptz v),
                     ar_last_validation_error_code := nullableString code, ar_updated_at := u\<rparr>"
  from assms obtain r' where "sql (mapProviderStoreError ''read provider account'') (\<lambda>s.
      update_account Q i (\<lambda>r. ar_credential_revision r = sint k \<and> ar_updated_at r = timestamptz t) (?f (st_now s)) s) s = (s', Inr r')"
    by (auto simp: SetProviderAccountValidation_def conflict_if_missing_Inr seq_result returning_Inr split: if_splits)
  from sql_update_version [where f = ?f, OF this] show ?thesis by auto
qed

lemma find_without:
  "find (\<lambda>x. k x = i) (filter (\<lambda>x. k x \<noteq> i) xs) = None"
  "j \<noteq> i \<Longrightarrow> find (\<lambda>x. k x = j) (filter (\<lambda>x. k x \<noteq> i) xs) = find (\<lambda>x. k x = j) xs"
  by (induction xs) auto

lemma delete_version:
  assumes "DeleteProviderAccount i s = (s', Inr x)"
  shows "account_version s i \<noteq> None \<and> account_version s' i = None \<and> (\<forall>j. j \<noteq> i \<longrightarrow> account_version s' j = account_version s j)"
proof -
  from assms obtain r where "sql (mapProviderStoreError ''read provider account'') (\<lambda>s.
            case find_account i s of None \<Rightarrow> Inl PgNoRows
            | Some r \<Rightarrow> Inr (s\<lparr>st_accounts := filter (\<lambda>x. ar_id x \<noteq> i) (st_accounts s),
                              st_zones := filter (\<lambda>z. zr_account_id z \<noteq> i) (st_zones s)\<rparr>, r)) s = (s', Inr r)"
    by (auto simp: DeleteProviderAccount_def seq_result returning_Inr)
  from sql_Inr [OF this] obtain s1 where s1: "same_tables s s1" "find_account i s1 \<noteq> None"
      "st_accounts s' = filter (\<lambda>x. ar_id x \<noteq> i) (st_accounts s1)"
    by (auto split: option.splits)
  then have "find_account i s' = None" "\<And>j. j \<noteq> i \<Longrightarrow> find_account j s' = find_account j s1"
    by (simp_all add: find_account_def find_without)
  with s1 find_account_same [OF s1(1)] show ?thesis by (auto simp: account_version_def)
qed

text \<open>The zones of an account can change without it; a new index stamps the account.\<close>

lemma upsert_zones_now:
  "upsert_zones Q i zs t s = (s', Inr u) \<Longrightarrow> st_now s' = st_now s"
proof (induction zs arbitrary: s)
  case (Cons z zs)
  then obtain s1 row where 1: "sql (mapProviderStoreError ''upsert provider zone index'') (upsert_zone Q i z t) s = (s1, Inr row)"
    and rest: "upsert_zones Q i zs t s1 = (s', Inr u)"
    by (auto simp: seq_result)
  from sql_Inr [OF 1] obtain s0 where "st_now s0 = st_now s" "upsert_zone Q i z t s0 = Inr (s1, row)" by auto
  then have "st_now s1 = st_now s" by (auto simp: upsert_zone_def Let_def split: option.splits if_splits)
  with Cons.IH [OF rest] show ?case by simp
qed simp

lemma touch_version:
  assumes "touch_account i cond f s = Inr (s', 1)" and "distinct (map ar_id (st_accounts s))" and "\<And>r. ar_id (f r) = ar_id r"
  shows "\<exists>r. find_account i s = Some r \<and> cond r \<and> find_account i s' = Some (f r)
    \<and> (\<forall>j. j \<noteq> i \<longrightarrow> find_account j s' = find_account j s)"
proof -
  from assms(1) have n: "length (filter (\<lambda>x. ar_id x = i \<and> cond x) (st_accounts s)) = 1"
    and s': "st_accounts s' = map (\<lambda>x. if ar_id x = i \<and> cond x then f x else x) (st_accounts s)"
    by (auto simp: touch_account_def)
  then obtain r where r: "r \<in> set (st_accounts s)" "ar_id r = i" "cond r"
  proof -
    from n have "filter (\<lambda>x. ar_id x = i \<and> cond x) (st_accounts s) \<noteq> []" by auto
    with that show thesis by (auto simp: filter_empty_conv)
  qed
  have found: "distinct (map ar_id xs) \<Longrightarrow> r \<in> set xs \<Longrightarrow> find (\<lambda>x. ar_id x = i) xs = Some r \<and>
      find (\<lambda>x. ar_id x = i) (map (\<lambda>x. if ar_id x = i \<and> cond x then f x else x) xs) = Some (f r)" for xs
    using r(2,3) assms(3) by (induction xs) (auto simp: image_iff)
  have other: "j \<noteq> i \<Longrightarrow> find (\<lambda>x. ar_id x = j) (map (\<lambda>x. if ar_id x = i \<and> cond x then f x else x) xs) = find (\<lambda>x. ar_id x = j) xs" for j xs
    using assms(3) by (induction xs) auto
  show ?thesis using found [OF assms(2) r(1)] other r(3) by (simp add: find_account_def s')
qed

lemma index_version:
  assumes "ReplaceZoneIndex Q i k t zs f s = (s', Inr u)" and "distinct (map ar_id (st_accounts s))"
  shows "account_version s i = Some (timestamptz t, sint k) \<and> account_version s' i = Some (st_now s, sint k)
    \<and> (\<forall>j. j \<noteq> i \<longrightarrow> account_version s' j = account_version s j)"
proof -
  let ?cond = "\<lambda>x. zr_account_id x = i \<and> zr_provider_zone_id x \<notin> set (map ze_ProviderZoneID zs)"
  let ?touch = "\<lambda>s. touch_account i (\<lambda>r. ar_credential_revision r = sint k \<and> ar_updated_at r = timestamptz t)
        (\<lambda>r. r\<lparr>ar_last_zone_sync_at := Some (timestamptz f), ar_updated_at := st_now s\<rparr>) s"
  from assms(1) obtain s1 s2 n1 where
    up: "upsert_zones Q i zs f s = (s1, Inr ())"
    and del: "sql (mapProviderStoreError ''mark missing provider zones'') (\<lambda>s. Inr (delete_zones ?cond (timestamptz f) s)) s1 = (s2, Inr n1)"
    and touch: "sql (mapProviderStoreError ''update provider zone sync time'') ?touch s2 = (s', Inr 1)"
    by (auto simp: ReplaceZoneIndex_def seq_result split: if_splits)
  from sql_Inr [OF del] obtain d where d: "same_tables s1 d" "st_now d = st_now s1" "delete_zones ?cond (timestamptz f) d = (s2, n1)" by auto
  from sql_Inr [OF touch] obtain a where a: "same_tables s2 a" "st_now a = st_now s2" "?touch a = Inr (s', 1)" by auto
  have now: "st_now a = st_now s"
    using a(2) d(2,3) upsert_zones_now [OF up] by (auto simp: delete_zones_def Let_def)
  have rows: "st_accounts a = st_accounts s"
    using a(1) d(1) delete_zones_effect [OF d(3)] upsert_zones_effect [OF up] by (simp add: same_tables_def)
  then have "find_account j a = find_account j s" for j by (simp add: find_account_def)
  with touch_version [OF a(3)] assms(2) rows now show ?thesis by (auto simp: account_version_def)
qed

lemma perform_write_version:
  assumes "perform_write Q i op s = (s', Inr u)" and "distinct (map ar_id (st_accounts s))"
  shows "\<exists>v. account_version s i = Some v \<and> write_expects op v \<and> account_version s' i = write_leaves op (st_now s) (snd v)
    \<and> (\<forall>j. j \<noteq> i \<longrightarrow> account_version s' j = account_version s j)"
proof (cases op)
  case (ChangeAccount t ch)
  with assms(1) obtain x where "UpdateProviderAccount Q i t ch s = (s', Inr x)" by (auto simp: perform_write_def seq_result)
  from UpdateProviderAccount_Inr [OF this] ChangeAccount show ?thesis by (auto simp: account_version_def)
next
  case (ReplaceCredential k m)
  with assms(1) obtain x where "ReplaceProviderAccountCredential Q i k m s = (s', Inr x)" by (auto simp: perform_write_def seq_result)
  from replace_version [OF this] ReplaceCredential show ?thesis by auto
next
  case (SetValidation k t st v code)
  with assms(1) obtain x where "SetProviderAccountValidation Q i k t st v code s = (s', Inr x)"
    by (auto simp: perform_write_def seq_result)
  from validation_version [OF this] SetValidation show ?thesis by auto
next
  case (ReplaceIndex k t zs f)
  with assms(1) have "ReplaceZoneIndex Q i k t zs f s = (s', Inr u)" by (simp add: perform_write_def)
  from index_version [OF this assms(2)] ReplaceIndex show ?thesis by auto
next
  case RemoveAccount
  with assms(1) obtain x where "DeleteProviderAccount i s = (s', Inr x)" by (auto simp: perform_write_def seq_result)
  from delete_version [OF this] RemoveAccount show ?thesis by auto
qed

section \<open>The contract holds\<close>

lemma write_account_wf:
  assumes "write_account Q i w s = (s', r)" and "store_wf Q s"
  shows "store_wf Q s'"
proof -
  have "takes (table_change Q) (perform_write Q i op)" for op
    unfolding perform_write_def by (cases op; simp only: account_write.case; intro takes_rules)
  from takesD [OF takes_WithinTx [OF this] assms(1) [unfolded write_account_def]] table_changes_wf assms(2)
  show ?thesis by (fastforce simp: store_wf_def)
qed

lemma write_account_failed:
  "write_account Q i w s = (s', Inl e) \<Longrightarrow> account_version s' j = account_version s j"
  using WithinTx_failed_account by (fastforce simp: write_account_def account_version_def find_account_def)

lemma write_account_version:
  assumes "write_account Q i w s = (s', Inr u)" and "store_wf Q s"
  shows "\<exists>v. account_version s i = Some v \<and> write_expects (snd w) v \<and> account_version s' i = write_leaves (snd w) (fst w) (snd v)
    \<and> (\<forall>j. j \<noteq> i \<longrightarrow> account_version s' j = account_version s j)"
proof -
  from WithinTx_outcome [OF assms(1) [unfolded write_account_def]] obtain s0 s1 where
    s: "same_tables (s\<lparr>st_now := fst w\<rparr>) s0" "st_now s0 = fst w" "perform_write Q i (snd w) s0 = (s1, Inr u)" "same_tables s1 s'"
    by auto
  have "account_version s0 j = account_version s j" for j
    using account_version_same [OF s(1)] by (simp add: account_version_def find_account_def)
  moreover have "distinct (map ar_id (st_accounts s0))" using s(1) assms(2) by (simp add: same_tables_def store_wf_def)
  ultimately show ?thesis using perform_write_version [OF s(3)] account_version_same [OF s(4)] s(2) by simp
qed

text \<open>An update time is past when the account does not have it; a revision is past when the account has a later one or is gone.\<close>

definition time_past :: "uuid \<Rightarrow> time \<Rightarrow> 'a store_scheme \<Rightarrow> bool" where
  "time_past i t s \<longleftrightarrow> map_option fst (account_version s i) \<noteq> Some t"

definition revision_past :: "uuid \<Rightarrow> int \<Rightarrow> 'a store_scheme \<Rightarrow> bool" where
  "revision_past i k s \<longleftrightarrow> (case account_version s i of None \<Rightarrow> True | Some (_, k') \<Rightarrow> k < k')"

lemma past_other:
  "account_version s' i = account_version s i \<Longrightarrow> time_past i t s' = time_past i t s"
  "account_version s' i = account_version s i \<Longrightarrow> revision_past i k s' = revision_past i k s"
  by (simp_all add: time_past_def revision_past_def)

lemma write_stamps:
  assumes "write_account Q i w s = (s', Inr u)" and "store_wf Q s" and "fst w \<noteq> t"
  shows "time_past i t s'"
  using write_account_version [OF assms(1,2)] assms(3) by (cases "snd w") (auto simp: time_past_def)

lemma write_revision:
  assumes "write_account Q i w s = (s', Inr u)" and "store_wf Q s" and "revision_grows (snd w)"
  shows "replaces k w \<or> revision_past i k s \<Longrightarrow> revision_past i k s'"
  using write_account_version [OF assms(1,2)] assms(3)
  by (cases "snd w") (auto simp: revision_past_def replaces_def revision_grows_def split: option.splits)

lemma write_decided:
  assumes "write_account Q i w s = (s', Inr u)" and "store_wf Q s"
  shows "decided_at t w \<Longrightarrow> \<not> time_past i t s" "replaces k w \<Longrightarrow> \<not> revision_past i k s"
  using write_account_version [OF assms]
  by (cases "snd w"; auto simp: time_past_def revision_past_def decided_at_def replaces_def)+

text \<open>A write that fails, or is to another account, leaves the version.\<close>

lemma write_frame:
  assumes "write_account Q j w s = (s', r)" and "store_wf Q s" and "i \<noteq> j \<or> isl r"
  shows "account_version s' i = account_version s i"
proof (cases r)
  case (Inl e)
  with assms(1) write_account_failed show ?thesis by blast
next
  case (Inr x)
  with write_account_version [of Q j w s s' x] assms show ?thesis by auto
qed

interpretation account_stamps: stamped_rows "write_account Q" "store_wf Q" time_past decided_at "\<lambda>t w. fst w \<noteq> t"
proof (unfold_locales, goal_cases)
  case (1 s i w s' r)
  then show ?case using write_account_wf by blast
next
  case (2 s i w s' x t)
  then show ?case using write_decided by blast
next
  case (3 s i w s' x t)
  then show ?case using write_stamps by blast
next
  case (4 s j w s' r t i)
  show ?case
  proof (cases "i \<noteq> j \<or> isl r")
    case True
    from past_other(1) [OF write_frame [OF 4(2,1) True]] 4(4) show ?thesis by simp
  next
    case False
    with 4 write_stamps [of Q j w s s' _ t] show ?thesis by (cases r) auto
  qed
next
  case (5 s i w s' x t)
  then show ?case using write_stamps by blast
qed

interpretation credential_revisions: versioned_rows "write_account Q" "store_wf Q" revision_past replaces
  "\<lambda>k w. revision_grows (snd w)"
proof (unfold_locales, goal_cases)
  case (1 s i w s' r)
  then show ?case using write_account_wf by blast
next
  case (2 s i w s' x k)
  then show ?case using write_decided by blast
next
  case (3 s i w s' x k)
  then show ?case using write_revision by blast
next
  case (4 s j w s' r k i)
  show ?case
  proof (cases "i \<noteq> j \<or> isl r")
    case True
    from past_other(2) [OF write_frame [OF 4(2,1) True]] 4(4) show ?thesis by simp
  next
    case False
    with 4 write_revision [of Q j w s s' _ k] show ?thesis by (cases r) auto
  qed
qed


end
