(* ===== verification/Account_Audit.thy ===== *)
theory Account_Audit
  imports Provider_Accounts Versioned_Rows
begin

text \<open>
  The account service on the store: the service's transactions make every change of an account one unit
  with its audit event. The clock, the identifiers, the vault and the clients may do what they like
  with the rest of the world, but not with the tables.
\<close>

section \<open>Operations that record what they did\<close>

text \<open>
  On a state that has a store in it: an operation that does not touch the tables, one that, when it
  succeeds, leaves the audit events alone, and one that appends exactly one event.
\<close>

definition still :: "('s \<Rightarrow> 'a store_scheme) \<Rightarrow> ('s, 'x) scall \<Rightarrow> bool" where
  "still p m \<longleftrightarrow> (\<forall>s. same_tables (p s) (p (fst (m s))))"

definition silent :: "('a store_scheme, 'x) scall \<Rightarrow> bool" where
  "silent m \<longleftrightarrow> (\<forall>s s' x. m s = (s', Inr x) \<longrightarrow> st_events s' = st_events s)"

definition appended :: "string \<Rightarrow> (uuid \<Rightarrow> bool) \<Rightarrow> 'a store_scheme \<Rightarrow> 'a store_scheme \<Rightarrow> bool" where
  "appended action P s s' \<longleftrightarrow>
     (\<exists>ev. st_events s' = st_events s @ [ev] \<and> ev_Action ev = action \<and> P (ev_ResourceID ev)
        \<and> ev_Result ev = ResultSucceeded)"

definition records :: "string \<Rightarrow> (uuid \<Rightarrow> bool) \<Rightarrow> ('a store_scheme, 'x) scall \<Rightarrow> bool" where
  "records action P m \<longleftrightarrow> (\<forall>s s' x. m s = (s', Inr x) \<longrightarrow> appended action P s s')"

definition audited :: "('s \<Rightarrow> 'a store_scheme) \<Rightarrow> string \<Rightarrow> (uuid \<Rightarrow> bool) \<Rightarrow> ('s, 'x) scall \<Rightarrow> bool" where
  "audited p action P m \<longleftrightarrow>
     (\<forall>s s' r. m s = (s', r) \<longrightarrow>
        (case r of Inl e \<Rightarrow> same_tables (p s) (p s') | Inr x \<Rightarrow> appended action P (p s) (p s')))"

named_theorems audit_rules \<open>what an operation does to the audit events\<close>

lemma same_tables_trans: "same_tables a b \<Longrightarrow> same_tables b c \<Longrightarrow> same_tables a c"
  by (simp add: same_tables_def)

lemma appended_same: "same_tables a b \<Longrightarrow> appended action P b c \<Longrightarrow> same_tables c d \<Longrightarrow> appended action P a d"
  by (simp add: appended_def same_tables_def)

lemma still_seq [audit_rules]: "still p m \<Longrightarrow> (\<And>x. still p (k x)) \<Longrightarrow> still p (seq m k)"
  unfolding still_def seq_def attempt_def reject_def
  by (auto split: prod.splits sum.splits) (metis fst_conv same_tables_trans)+

lemma still_basic [audit_rules]: "still p (give x)" "still p (reject e)" "still p (checked r)"
  by (simp_all add: still_def give_def reject_def checked_def)

lemma still_if [audit_rules]: "still p m \<Longrightarrow> still p n \<Longrightarrow> still p (if b then m else n)"
  by simp

lemma still_prod [audit_rules]: "(\<And>x y. still p (f x y)) \<Longrightarrow> still p (case v of (x, y) \<Rightarrow> f x y)"
  by (cases v) simp

lemma still_lift [audit_rules]: "still id m \<Longrightarrow> still ds_world (lift m)"
  by (auto simp: still_def lift_def split: prod.splits) (metis fst_conv)

lemma still_sql [audit_rules]: "(\<And>s s' x. f s = Inr (s', x) \<Longrightarrow> same_tables s s') \<Longrightarrow> still id (sql h f)"
  unfolding still_def
proof (intro allI, goal_cases)
  case (1 s)
  then show ?case
    by (cases "st_faults s")
      (fastforce simp: sql_def statement_def run_statement_def same_tables_def split: sum.splits prod.splits option.splits)+
qed

lemma silent_seq [audit_rules]: "silent m \<Longrightarrow> (\<And>x. silent (k x)) \<Longrightarrow> silent (seq m k)"
  by (auto simp: silent_def seq_result) (metis)

lemma silent_basic [audit_rules]: "silent (give x)" "silent (reject e)" "silent (checked r)"
  by (simp_all add: silent_def checked_result)

lemma silent_sql [audit_rules]:
  "(\<And>s s' x. f s = Inr (s', x) \<Longrightarrow> st_events s' = st_events s) \<Longrightarrow> silent (sql h f)"
  unfolding silent_def by (metis same_tables_def sql_Inr)

lemma silent_if [audit_rules]: "silent m \<Longrightarrow> silent n \<Longrightarrow> silent (if b then m else n)"
  by simp

lemma silent_conflict [audit_rules]: "silent m \<Longrightarrow> silent (conflict_if_missing m)"
  by (auto simp: silent_def conflict_if_missing_Inr)

lemma silent_still: "still id m \<Longrightarrow> silent m"
  by (auto simp: silent_def still_def same_tables_def) (metis fst_conv)

lemma records_seq [audit_rules]: "silent m \<Longrightarrow> (\<And>x. records a P (k x)) \<Longrightarrow> records a P (seq m k)"
  by (auto simp: records_def silent_def seq_result appended_def) metis

lemma stillD: "still p m \<Longrightarrow> m s = (s', r) \<Longrightarrow> same_tables (p s) (p s')"
  by (metis fst_conv still_def)

lemma auditedI:
  assumes "\<And>s s' e. m s = (s', Inl e) \<Longrightarrow> same_tables (p s) (p s')"
    and "\<And>s s' x. m s = (s', Inr x) \<Longrightarrow> appended a P (p s) (p s')"
  shows "audited p a P m"
  using assms by (auto simp: audited_def split: sum.split)

lemma audited_Inl: "audited p a P m \<Longrightarrow> m s = (s', Inl e) \<Longrightarrow> same_tables (p s) (p s')"
  by (fastforce simp: audited_def)

lemma audited_Inr: "audited p a P m \<Longrightarrow> m s = (s', Inr x) \<Longrightarrow> appended a P (p s) (p s')"
  by (fastforce simp: audited_def)

lemma audited_before [audit_rules]:
  assumes "still p m" and "\<And>x. audited p a P (k x)"
  shows "audited p a P (seq m k)"
proof (rule auditedI)
  fix s s' e
  assume "seq m k s = (s', Inl e)"
  then show "same_tables (p s) (p s')"
    using stillD [OF assms(1)] audited_Inl [OF assms(2)] same_tables_trans by (auto simp: seq_result) blast+
next
  fix s s' x
  assume "seq m k s = (s', Inr x)"
  then obtain s1 y where "m s = (s1, Inr y)" "k y s1 = (s', Inr x)" by (auto simp: seq_result)
  from stillD [OF assms(1) this(1)] audited_Inr [OF assms(2) this(2)] same_tables_refl
  show "appended a P (p s) (p s')" by (rule appended_same)
qed

lemma audited_after:
  assumes "audited p a P m" and "\<And>x s. \<exists>s' y. k x s = (s', Inr y) \<and> same_tables (p s) (p s')"
  shows "audited p a P (seq m k)"
proof (rule auditedI)
  fix s s' e
  assume "seq m k s = (s', Inl e)"
  moreover have "k x s1 \<noteq> (s', Inl e)" for x s1 using assms(2) [of x s1] by auto
  ultimately have "m s = (s', Inl e)" by (auto simp: seq_result)
  then show "same_tables (p s) (p s')" by (rule audited_Inl [OF assms(1)])
next
  fix s s' x
  assume "seq m k s = (s', Inr x)"
  then obtain s1 y where 1: "m s = (s1, Inr y)" "k y s1 = (s', Inr x)" by (auto simp: seq_result)
  with assms(2) [of y s1] have "same_tables (p s1) (p s')" by auto
  from same_tables_refl audited_Inr [OF assms(1) 1(1)] this show "appended a P (p s) (p s')"
    by (rule appended_same)
qed

lemma audited_tx [audit_rules]:
  assumes "records a P m"
  shows "audited id a P (WithinTx m)"
proof (rule auditedI)
  fix s s' e
  assume "WithinTx m s = (s', Inl e)"
  from WithinTx_outcome [OF this] show "same_tables (id s) (id s')" by simp
next
  fix s s' x
  assume "WithinTx m s = (s', Inr x)"
  from WithinTx_outcome [OF this] assms show "appended a P (id s) (id s')"
    by (auto simp: records_def intro: appended_same)
qed

lemma audited_lift [audit_rules]: "audited id a P m \<Longrightarrow> audited ds_world a P (lift m)"
  by (rule auditedI) (auto simp: lift_result dest: audited_Inl audited_Inr)

lemma audited_reject [audit_rules]: "audited p a P (reject e)"
  by (simp add: audited_def)

lemma audited_if [audit_rules]: "audited p a P m \<Longrightarrow> audited p a P n \<Longrightarrow> audited p a P (if b then m else n)"
  by simp

lemma audited_prod [audit_rules]: "(\<And>x y. audited p a P (f x y)) \<Longrightarrow> audited p a P (case v of (x, y) \<Rightarrow> f x y)"
  by (cases v) simp

section \<open>The operations of the store and the event\<close>

lemma still_reads [audit_rules]:
  "still id (GetProviderAccount i)" "still id (GetProviderAccountCredential i)" "still id (ListProviderAccounts Q)"
  unfolding GetProviderAccount_def GetProviderAccountCredential_def ListProviderAccounts_def
  by (auto intro!: audit_rules simp: select_account_def split: option.splits)

lemma silent_update_account: "update_account Q i c f s = Inr (s', r) \<Longrightarrow> st_events s' = st_events s"
  by (auto simp: update_account_def split: option.splits if_splits)

lemma silent_writes [audit_rules]:
  "silent (CreateProviderAccount Q a c)" "silent (UpdateProviderAccount Q i t ch)" "silent (DeleteProviderAccount i)"
  "silent (SetProviderAccountValidation Q i k t st v code)" "silent (InvalidateZoneIndex i f)"
  unfolding CreateProviderAccount_def UpdateProviderAccount_def DeleteProviderAccount_def returning_def
    SetProviderAccountValidation_def InvalidateZoneIndex_def
  by (intro audit_rules;
      auto simp: insert_account_def delete_zones_def touch_account_def Let_def dest: silent_update_account
        split: option.splits if_splits)+

lemma silent_replace [audit_rules]: "silent (ReplaceProviderAccountCredential Q i k m)"
proof -
  have "silent (seq (sql (mapProviderStoreError ''read provider account'') (\<lambda>s.
             update_account Q i (\<lambda>r. ar_credential_revision r = sint k)
               (\<lambda>r. r\<lparr>ar_credential_revision := sint (cm_Revision m), ar_credential := Some (cm_Encrypted m),
                       ar_validation_status := ValidationStatusPending, ar_last_validated_at := None,
                       ar_last_validation_error_code := None, ar_updated_at := st_now s\<rparr>) s)) returning)"
    unfolding returning_def by (intro audit_rules) (auto dest: silent_update_account)
  then show ?thesis
    by (auto simp: silent_def ReplaceProviderAccountCredential_def attempt_result split: if_splits) (auto simp: seq_result)
qed

text \<open>The parts of the service that are not the store leave the tables alone.\<close>

definition beside_store :: "db_env \<Rightarrow> ('a store_scheme, 'f) account_service \<Rightarrow> bool" where
  "beside_store Q A \<longleftrightarrow>
     av_repository A = provider_store Q
     \<and> (\<forall>w. same_tables w (fst (se_now (av_env A) w)) \<and> same_tables w (fst (se_NewV7 (av_env A) w)))
     \<and> (\<forall>w p c. same_tables w (fst (av_Encrypt A p c w)))
     \<and> (\<forall>w i. same_tables w (av_clients_Invalidate A i w) \<and> same_tables w (av_clients_Remove A i w))"

lemma repository_fields [simp]:
  "rp_WithinTx (provider_store Q) = WithinTx" "rp_CreateProviderAccount (provider_store Q) = CreateProviderAccount Q"
  "rp_GetProviderAccount (provider_store Q) = GetProviderAccount"
  "rp_UpdateProviderAccount (provider_store Q) = UpdateProviderAccount Q"
  "rp_ReplaceProviderAccountCredential (provider_store Q) = ReplaceProviderAccountCredential Q"
  "rp_DeleteProviderAccount (provider_store Q) = DeleteProviderAccount"
  "rp_InvalidateZoneIndex (provider_store Q) = InvalidateZoneIndex"
  "rp_InsertAuditEvent (provider_store Q) = InsertAuditEvent Q"
  by (simp_all add: provider_store_def)

lemma beside_still:
  assumes "beside_store Q A"
  shows "still id (now (av_env A))" "still id (NewV7 (av_env A) m)" "still id (encrypt_credential A text ctx)"
    "still ds_world (invalidate_account A i)" "av_repository A = provider_store Q"
proof -
  show "still id (now (av_env A))" "still id (NewV7 (av_env A) m)" "av_repository A = provider_store Q"
    using assms by (auto simp: beside_store_def still_def now_def NewV7_def case_prod_unfold split: option.split)
  have "still id (plainly (av_Encrypt A text ctx))"
    using assms by (simp add: beside_store_def still_def plainly_def case_prod_unfold)
  then show "still id (encrypt_credential A text ctx)"
    unfolding encrypt_credential_def by (intro audit_rules) (auto intro!: audit_rules split: option.split)
  show "still ds_world (invalidate_account A i)"
    using assms by (simp add: beside_store_def still_def invalidate_account_def Let_def)
qed

lemma silent_now: "beside_store Q A \<Longrightarrow> silent (now (av_env A))"
  by (rule silent_still [OF beside_still(1)])

lemma records_audit_in_tx:
  assumes "beside_store Q A" and "\<And>e. ev_Action (f e) = ev_Action e \<and> ev_ResourceID (f e) = ev_ResourceID e \<and> ev_Result (f e) = ev_Result e"
  shows "records action (\<lambda>j. j = i) (audit_in_tx (av_env A) actor md action i ResultSucceeded code f v)"
  unfolding records_def
proof (intro allI impI)
  fix s s' x
  assume "audit_in_tx (av_env A) actor md action i ResultSucceeded code f v s = (s', Inr x)"
  then obtain s1 ev where e: "newProviderAuditEvent (av_env A) actor md action i ResultSucceeded code s = (s1, Inr ev)"
    and ins: "InsertAuditEvent Q (f ev) s1 = (s', Inr ())"
    using beside_still(5) [OF assms(1)] by (auto simp: audit_in_tx_def seq_result)
  have "still id (newProviderAuditEvent (av_env A) actor md action i ResultSucceeded code)"
    unfolding newProviderAuditEvent_def by (intro audit_rules beside_still [OF assms(1)])
  from stillD [OF this e] have "same_tables s s1" by simp
  moreover from e have "ev_Action ev = action" "ev_ResourceID ev = i" "ev_Result ev = ResultSucceeded"
    by (auto simp: newProviderAuditEvent_def seq_result)
  moreover from sql_Inr [OF ins [unfolded InsertAuditEvent_def]] have
    "\<exists>s2. same_tables s1 s2 \<and> st_events s' = st_events s2 @ [stored_event Q (f ev)]"
    by (auto simp: insert_event_row_def split: if_splits)
  ultimately show "appended action (\<lambda>j. j = i) s s'"
    using assms(2) by (auto simp: appended_def same_tables_def stored_event_def)
qed

lemma finishing_steps:
  assumes "beside_store Q A"
  shows "\<exists>s' y. seq (invalidate_account A i) (\<lambda>_. give v) s = (s', Inr y) \<and> same_tables (ds_world s) (ds_world s')"
    and "\<exists>s' y. seq (when_true b (invalidate_account A i)) (\<lambda>_. give v) s = (s', Inr y) \<and> same_tables (ds_world s) (ds_world s')"
  using assms
  by (auto simp: beside_store_def seq_result invalidate_account_def Let_def when_true_def)

lemma audited_tx_then:
  assumes "records a P m"
  shows "(\<And>x s. \<exists>s' y. k x s = (s', Inr y) \<and> same_tables s s') \<Longrightarrow> audited id a P (seq (WithinTx m) k)"
    and "(\<And>x s. \<exists>s' y. k' x s = (s', Inr y) \<and> same_tables (ds_world s) (ds_world s')) \<Longrightarrow>
      audited ds_world a P (seq (lift (WithinTx m)) k')"
  by (rule audited_after [OF audited_tx [OF assms]], simp)
    (rule audited_after [OF audited_lift [OF audited_tx [OF assms]]], simp)

section \<open>The operations of the service\<close>

lemma still_when [audit_rules]: "still p m \<Longrightarrow> still p (when_true b m)"
  by (simp add: when_true_def still_basic)

lemma silent_when [audit_rules]: "silent m \<Longrightarrow> silent (when_true b m)"
  by (simp add: when_true_def silent_basic)

lemma UpdateAccount_audited:
  assumes "beside_store Q A"
  shows "audited ds_world ''provider_account.update'' (\<lambda>j. j = i) (UpdateAccount A actor i input md)"
  unfolding UpdateAccount_def Let_def beside_still(5) [OF assms] repository_fields
  by (intro audited_tx_then audit_rules records_audit_in_tx [OF assms] beside_still [OF assms] finishing_steps [OF assms]
      silent_now [OF assms]) simp

lemma ReplaceCredentials_audited:
  assumes "beside_store Q A"
  shows "audited ds_world ''provider_account.credentials.replace'' (\<lambda>j. j = i) (ReplaceCredentials A actor i text md)"
  unfolding ReplaceCredentials_def Let_def beside_still(5) [OF assms] repository_fields
  by (intro audited_tx_then audit_rules records_audit_in_tx [OF assms] beside_still [OF assms] finishing_steps [OF assms]
      silent_now [OF assms]) simp

lemma DeleteAccount_audited:
  assumes "beside_store Q A"
  shows "audited ds_world ''provider_account.delete'' (\<lambda>j. j = i) (DeleteAccount A actor i md)"
  unfolding DeleteAccount_def Let_def beside_still(5) [OF assms] repository_fields
  by (intro audited_tx_then audit_rules records_audit_in_tx [OF assms] beside_still [OF assms])
    (use assms in \<open>auto simp: beside_store_def\<close>)

lemma CreateAccount_audited:
  assumes "beside_store Q A" and "CreateAccount A actor input md s = (s', r)"
  shows "case r of Inl e \<Rightarrow> same_tables s s' | Inr a \<Rightarrow> appended ''provider_account.create'' (\<lambda>j. j = pa_ID a) s s'"
proof -
  have n: "still id (new_account A input)"
    unfolding new_account_def Let_def by (intro audit_rules beside_still [OF assms(1)])
  let ?tx = "\<lambda>a c. seq (WithinTx (seq (CreateProviderAccount Q a c) (\<lambda>_.
            audit_in_tx (av_env A) actor md ''provider_account.create'' (pa_ID a) ResultSucceeded []
              (\<lambda>e. e\<lparr>ev_AfterData := safeProviderAccountAuditData a\<rparr>) TxDone))) (\<lambda>_. give a)"
  have tx: "audited id ''provider_account.create'' (\<lambda>j. j = pa_ID a) (?tx a c)" for a c
    by (intro audited_tx_then audit_rules records_audit_in_tx [OF assms(1)]) (auto simp: give_def)
  obtain s1 r1 where new: "new_account A input s = (s1, r1)" by fastforce
  from stillD [OF n new] have same: "same_tables s s1" by simp
  have rest: "case r1 of Inl e \<Rightarrow> s' = s1 \<and> r = Inl e | Inr p \<Rightarrow> ?tx (fst p) (snd p) s1 = (s', r)"
    using assms(2) new unfolding CreateAccount_def beside_still(5) [OF assms(1)] repository_fields
    by (auto simp: seq_result case_prod_unfold split: sum.splits)
  show ?thesis
  proof (cases r1)
    case (Inl e)
    with rest same show ?thesis by simp
  next
    case (Inr p)
    with rest have run: "?tx (fst p) (snd p) s1 = (s', r)" by simp
    show ?thesis
    proof (cases r)
      case (Inl e)
      with run audited_Inl [OF tx] have "same_tables s1 s'" by fastforce
      with Inl same same_tables_trans show ?thesis by auto
    next
      case (Inr a)
      with run have "a = fst p" by (auto simp: seq_result)
      moreover from run Inr audited_Inr [OF tx] have "appended ''provider_account.create'' (\<lambda>j. j = pa_ID (fst p)) s1 s'"
        by fastforce
      ultimately show ?thesis using Inr appended_same [OF same _ same_tables_refl] by simp
    qed
  qed
qed

text \<open>C13: The account service never changes accounts without a trace, nor leaves a trace of what it did not do: a
  create, update, credential replacement or deletion that returns an error leaves every table as it was, and
  one that succeeds has appended exactly one event, of its action, for its account.\<close>

theorem account_changes_audited:
  assumes "beside_store Q A"
  shows "audited ds_world ''provider_account.update'' (\<lambda>j. j = i) (UpdateAccount A actor i changes md)
    \<and> audited ds_world ''provider_account.credentials.replace'' (\<lambda>j. j = i) (ReplaceCredentials A actor i text md)
    \<and> audited ds_world ''provider_account.delete'' (\<lambda>j. j = i) (DeleteAccount A actor i md)
    \<and> (\<forall>s. case CreateAccount A actor input md s of (s', r) \<Rightarrow>
         (case r of Inl e \<Rightarrow> same_tables s s' | Inr a \<Rightarrow> appended ''provider_account.create'' (\<lambda>j. j = pa_ID a) s s'))"
  using UpdateAccount_audited [OF assms] ReplaceCredentials_audited [OF assms] DeleteAccount_audited [OF assms]
    CreateAccount_audited [OF assms, OF surjective_pairing]
  by (simp only: case_prod_unfold) blast

end
