(* ===== verification/Example_Deployment.thy ===== *)
theory Example_Deployment
  imports Fake_Provider Dns_Properties Zone_Sync Client_Manager Account_Writes Account_Audit
begin

text \<open>
  A small deployment on which the properties of the services are tried out: the tables of the store with
  one account and one zone, the fake provider behind that account, a clock that ticks and a counter for
  identifiers.
\<close>

section \<open>The world\<close>

record example_world = store +
  xw_fake :: fake_state
  xw_ids :: nat
  xw_clock :: time

definition example_db :: db_env where
  "example_db =
     \<lparr>de_lower = (\<lambda>t. t), de_collation = (\<lambda>t. t), de_ilike = (\<lambda>t p. True), de_jsonb = Some,
      de_account_ok = (\<lambda>_. True), de_zone_ok = (\<lambda>_. True), de_event_ok = (\<lambda>_. True),
      de_unmarshal = (\<lambda>_. None), de_marshal = (\<lambda>_. []), de_summary = (\<lambda>_. [])\<rparr>"

definition example_env :: "example_world service_env" where
  "example_env =
     \<lparr>se_repository = provider_store example_db,
      se_now = (\<lambda>w. (w\<lparr>xw_clock := xw_clock w + 1\<rparr>, xw_clock w)),
      se_NewV7 = (\<lambda>w. (w\<lparr>xw_ids := xw_ids w + 1\<rparr>, Some (''id-'' @ nat_to_dec (xw_ids w)))),
      se_text = ascii_env\<rparr>"

text \<open>A call of the fake provider, which keeps its state in the world.\<close>

definition on_fake :: "(fake_state, 'a) call \<Rightarrow> (example_world, 'a) call" where
  "on_fake m w = (case m (xw_fake w) of (f, r) \<Rightarrow> (w\<lparr>xw_fake := f\<rparr>, r))"

definition carried :: "fake_state provider \<Rightarrow> example_world provider" where
  "carried p =
     \<lparr>pv_Capabilities = pv_Capabilities p,
      pv_ValidateCredentials = on_fake (pv_ValidateCredentials p),
      pv_ListZones = (\<lambda>request. on_fake (pv_ListZones p request)),
      pv_GetZone = (\<lambda>z. on_fake (pv_GetZone p z)),
      pv_ListRecordSets = (\<lambda>z request. on_fake (pv_ListRecordSets p z request)),
      pv_GetRecordSet = (\<lambda>z i. on_fake (pv_GetRecordSet p z i)),
      pv_CreateRecordSet = (\<lambda>z input. on_fake (pv_CreateRecordSet p z input)),
      pv_UpdateRecordSet = (\<lambda>z i input. on_fake (pv_UpdateRecordSet p z i input)),
      pv_DeleteRecordSet = (\<lambda>z i pre. on_fake (pv_DeleteRecordSet p z i pre))\<rparr>"

definition example_client :: "example_world provider" where
  "example_client = carried (fake_provider ascii_env None)"

definition example_account_row :: account_row where
  "example_account_row =
     \<lparr>ar_id = ''account-1'', ar_provider_type = ''fake'', ar_name = ''main'', ar_description = [], ar_enabled = True,
      ar_options = ''{}'', ar_credential_revision = 1, ar_credential = Some no_credential,
      ar_validation_status = ValidationStatusValid, ar_last_validated_at = None, ar_last_validation_error_code = None,
      ar_last_zone_sync_at = None, ar_created_at = 1000, ar_updated_at = 1000\<rparr>"

definition example_zone_row :: zone_row where
  "example_zone_row =
     \<lparr>zr_id = ''zone-1'', zr_account_id = ''account-1'', zr_provider_zone_id = ''z1'', zr_name = ''example.com'',
      zr_status = None, zr_metadata = ''{}'', zr_fetched_at = 1000, zr_last_seen_at = 1000, zr_deleted_at = None,
      zr_updated_at = 1000\<rparr>"

definition example_world :: example_world where
  "example_world =
     \<lparr>st_accounts = [example_account_row], st_zones = [example_zone_row], st_events = [], st_now = 5000,
      st_in_tx = False, st_faults = [], xw_fake = example_state, xw_ids = 1, xw_clock = 5000\<rparr>"

definition example_dns :: "example_world dns_service" where
  "example_dns =
     \<lparr>dv_env = example_env, dv_clients_Get = (\<lambda>i w. (w, Inr (example_client, account_of_row example_account_row))),
      dv_recordCacheTTL = defaultRecordCacheTTL, dv_zoneStaleAfter = defaultZoneStaleAfter\<rparr>"

definition example_dns_state :: "example_world dns_state" where
  "example_dns_state = \<lparr>ds_cache = Map.empty, ds_world = example_world\<rparr>"

definition example_actor :: actor where "example_actor = \<lparr>act_ID = ''user-1'', act_Username = ''ada''\<rparr>"

definition example_request :: request_metadata where
  "example_request = \<lparr>rm_RequestID = ''req-1'', rm_IP = ''192.0.2.7'', rm_UserAgent = []\<rparr>"

section \<open>What its parts do\<close>

definition example_entry :: zone_entry where
  "example_entry = entry_of_row example_zone_row (account_of_row example_account_row)"

lemma example_GetZone:
  "Dns_Reads.GetZone example_dns ''zone-1'' example_world = (example_world, Inr example_entry)"
  by (simp add: Dns_Reads.GetZone_def example_dns_def example_env_def provider_store_def Zone_Store.GetZone_def seq_def attempt_def
      sql_def statement_def run_statement_def visible_zones_def find_account_def List.map_filter_simps
      example_world_def example_zone_row_def example_account_row_def scanZoneIndexEntry_def example_entry_def give_def)

lemma example_entry_simps [simp]:
  "ze_ID example_entry = ''zone-1''" "ze_Name example_entry = ''example.com''"
  "ze_ProviderZoneID example_entry = ''z1''" "ze_ProviderAccountID example_entry = ''account-1''"
  by (simp_all add: example_entry_def entry_of_row_def example_zone_row_def)

lemma example_simps [simp]:
  "dv_env example_dns = example_env" "se_text example_env = ascii_env"
  "dv_clients_Get example_dns i w = (w, Inr (example_client, account_of_row example_account_row))"
  "ds_world example_dns_state = example_world" "example_dns_state\<lparr>ds_world := example_world\<rparr> = example_dns_state"
  by (simp_all add: example_dns_def example_env_def example_dns_state_def)

lemma example_insert: "st_faults w = [] \<Longrightarrow> st_events w = [] \<Longrightarrow>
    insert_event example_env ev w = (w\<lparr>st_events := [stored_event example_db ev]\<rparr>, Inr ())"
  by (simp add: insert_event_def example_env_def provider_store_def InsertAuditEvent_def sql_def statement_def
      run_statement_def insert_event_row_def example_db_def)

lemma example_now: "now example_env w = (w\<lparr>xw_clock := xw_clock w + 1\<rparr>, Inr (xw_clock w))"
  by (simp add: now_def example_env_def)

lemma example_NewV7:
  "NewV7 example_env m w = (w\<lparr>xw_ids := xw_ids w + 1\<rparr>, Inr (''id-'' @ nat_to_dec (xw_ids w)))"
  by (simp add: NewV7_def example_env_def)

text \<open>The steps of a service, when each of them succeeds.\<close>

lemmas steps = attempt_def seq_def give_def reject_def lift_def of_result_def mapped_def invalidating_def
  in_cache_def dns_invalidate_def

lemma example_audit_success:
  "st_faults w = [] \<Longrightarrow> st_events w = [] \<Longrightarrow>
     \<exists>w'. auditRecordSuccess example_env a z md act rid before after w = (w', Inr ())"
  by (simp add: auditRecordSuccess_def newDNSAuditEvent_def steps example_NewV7 example_now example_insert)

section \<open>A record set is updated, deleted and listed\<close>

definition example_request_update :: update_request where
  "example_request_update =
     \<lparr>ur_Desired = ui_Desired example_update, ur_Precondition = ui_Precondition example_update\<rparr>"

lemma example_read:
  "getCurrentRecordSet example_dns example_client example_entry ''r1'' example_world = (example_world, Inr example_before)"
proof -
  have "pv_GetRecordSet example_client ''z1'' ''r1'' example_world = (example_world, Inr example_before)"
    by (simp add: example_client_def carried_def on_fake_def fake_provider_def fake_GetRecordSet_def guarded_def
        example_found example_world_def)
  then show ?thesis
    using clean_normalized [OF ascii_env_laws example_clean]
    by (simp add: getCurrentRecordSet_def steps)
qed

lemma example_provider_update:
  "\<exists>f. pv_UpdateRecordSet example_client ''z1'' ''r1''
     \<lparr>ui_Desired = example_desired, ui_Precondition = ui_Precondition example_update\<rparr> example_world
     = (example_world\<lparr>xw_fake := f\<rparr>, Inr example_after)"
proof -
  obtain f where "fake_UpdateRecordSet ascii_env None ''z1'' ''r1''
      \<lparr>ui_Desired = example_desired, ui_Precondition = ui_Precondition example_update\<rparr> example_state = (f, Inr example_after)"
    using example_update_works [of "\<lparr>ui_Desired = example_desired, ui_Precondition = ui_Precondition example_update\<rparr>"]
      example_input_normal by auto
  then show ?thesis
    by (auto simp: example_client_def carried_def on_fake_def fake_provider_def example_world_def)
qed

lemma example_allowed: "validateRecordCapabilities (pv_Capabilities example_client) example_desired = Inr ()"
  by (simp add: validateRecordCapabilities_def example_client_def carried_def fake_provider_def fake_capabilities_def
      example_desired_def CoreRecordTypes_def)

lemma example_quiet: "st_faults (example_world\<lparr>xw_fake := f\<rparr>) = []" "st_events (example_world\<lparr>xw_fake := f\<rparr>) = []"
  by (simp_all add: example_world_def)

lemma example_UpdateRecordSet:
  "\<exists>s'. UpdateRecordSet example_dns example_actor ''zone-1'' ''r1'' example_request_update example_request example_dns_state
     = (s', Inr example_after)"
proof -
  obtain f where f: "pv_UpdateRecordSet example_client ''z1'' ''r1''
      \<lparr>ui_Desired = example_desired, ui_Precondition = ui_Precondition example_update\<rparr> example_world
      = (example_world\<lparr>xw_fake := f\<rparr>, Inr example_after)" using example_provider_update by blast
  obtain w' where "auditRecordSuccess example_env example_actor example_entry example_request ''recordset.update'' ''r1''
      (Some example_before) (Some example_after) (example_world\<lparr>xw_fake := f\<rparr>) = (w', Inr ())"
    using example_audit_success [OF example_quiet] by blast
  with f show ?thesis
    using clean_normalized [OF ascii_env_laws example_after_clean]
    by (simp add: UpdateRecordSet_def perform_update_def Let_def steps example_GetZone example_read example_input_normal
        example_allowed example_matches example_request_update_def)
qed

theorem UpdateRecordSet_success_witness:
  "\<exists>s'. UpdateRecordSet example_dns example_actor ''zone-1'' ''r1'' example_request_update example_request example_dns_state
     = (s', Inr example_after) \<and> cache_empty_for ''zone-1'' (ds_cache s')"
proof -
  obtain s' where s': "UpdateRecordSet example_dns example_actor ''zone-1'' ''r1'' example_request_update example_request
      example_dns_state = (s', Inr example_after)" using example_UpdateRecordSet by blast
  from UpdateRecordSet_success [OF s'] s' show ?thesis by blast
qed

definition other_version :: update_request where
  "other_version =
     example_request_update\<lparr>ur_Precondition :=
       \<lparr>pc_ExpectedFingerprint = rs_Fingerprint example_before, pc_ProviderVersion = ''v2''\<rparr>\<rparr>"

theorem UpdateRecordSet_mismatch_witness:
  "\<exists>w e. UpdateRecordSet example_dns example_actor ''zone-1'' ''r1'' other_version example_request example_dns_state
       = (example_dns_state\<lparr>ds_world := w\<rparr>, Inl e)
     \<and> providerErrorCode e = ''conflict''"
proof -
  have "precondition_matches ascii_env (ur_Precondition other_version) example_before = Inr False"
    using fingerprint_valid
    by (simp add: precondition_matches_def other_version_def example_before_def sample_normal_def sample_record_def Let_def)
  then show ?thesis
    using UpdateRecordSet_mismatch [where D = example_dns and s = example_dns_state and input = other_version
       and zoneID = "''zone-1''" and rid = "''r1''" and actor = example_actor and md = example_request and z = example_entry
       and ?w1.0 = example_world and ?w2.0 = example_world and ?w3.0 = example_world and client = example_client
       and account = "account_of_row example_account_row" and current = example_before and normalized = example_desired]
      example_GetZone example_read example_input_normal(1) example_allowed
    by (simp add: other_version_def example_request_update_def) blast
qed

definition without_fingerprint :: update_request where
  "without_fingerprint = example_request_update\<lparr>ur_Precondition := \<lparr>pc_ExpectedFingerprint = [], pc_ProviderVersion = []\<rparr>\<rparr>"

theorem UpdateRecordSet_failure_witness:
  "\<exists>s' e. UpdateRecordSet example_dns example_actor ''zone-1'' ''r1'' without_fingerprint example_request example_dns_state
       = (s', Inl e)
     \<and> (audited_failure example_env ''recordset.update'' ''r1'' e (ds_world s')
        \<or> (\<exists>z before after w w'. auditRecordSuccess example_env example_actor z example_request ''recordset.update'' ''r1''
             before after w = (w', Inl e)))"
proof -
  have "precondition_matches ascii_env (ur_Precondition without_fingerprint) example_before
      = Inl ''expected fingerprint is invalid''"
    by (simp add: precondition_matches_def precondition_validate_def without_fingerprint_def fingerprintPrefix_def)
  moreover obtain w r where a: "auditRecordFailure example_env example_actor example_entry example_request ''recordset.update''
      ''r1'' (Some example_before) (Some example_desired)
      (new_error ErrValidation ''update_record_set'' ''expected fingerprint is invalid'') example_world
      = (w, r :: service_error + record_set)" by fastforce
  moreover from auditRecordFailure_Inl [OF a] obtain e where "r = Inl e" by blast
  ultimately have "UpdateRecordSet example_dns example_actor ''zone-1'' ''r1'' without_fingerprint example_request
      example_dns_state = (example_dns_state\<lparr>ds_world := w\<rparr>, Inl e)"
    using example_input_normal(1)
    by (simp add: UpdateRecordSet_def Let_def steps example_GetZone example_read example_allowed without_fingerprint_def
        example_request_update_def)
  from UpdateRecordSet_failure [OF this] this show ?thesis
    using example_GetZone by auto
qed

theorem DeleteRecordSet_success_witness:
  "\<exists>s'. DeleteRecordSet example_dns example_actor ''zone-1'' ''r1'' (ui_Precondition example_update) example_request
      example_dns_state = (s', Inr ()) \<and> cache_empty_for ''zone-1'' (ds_cache s')"
proof -
  obtain f where "fake_DeleteRecordSet ascii_env None ''z1'' ''r1'' (ui_Precondition example_update) example_state = (f, Inr ())"
    by (simp add: fake_DeleteRecordSet_def guarded_def example_found example_matches)
  then have "pv_DeleteRecordSet example_client ''z1'' ''r1'' (ui_Precondition example_update) example_world
      = (example_world\<lparr>xw_fake := f\<rparr>, Inr ())"
    by (simp add: example_client_def carried_def on_fake_def fake_provider_def example_world_def)
  moreover obtain w' where "auditRecordSuccess example_env example_actor example_entry example_request ''recordset.delete'' ''r1''
      (Some example_before) None (example_world\<lparr>xw_fake := f\<rparr>) = (w', Inr ())"
    using example_audit_success [OF example_quiet] by blast
  ultimately obtain s' where s': "DeleteRecordSet example_dns example_actor ''zone-1'' ''r1'' (ui_Precondition example_update)
      example_request example_dns_state = (s', Inr ())"
    by (simp add: DeleteRecordSet_def perform_delete_def Let_def steps example_GetZone example_read example_matches)
  from DeleteRecordSet_success [OF s'] s' show ?thesis by blast
qed

definition example_batch :: batch_request where
  "example_batch =
     \<lparr>br_Operation = BatchDelete,
      br_Items = [\<lparr>bi_RecordSetID = ''r1'', bi_ExpectedFingerprint = [], bi_ProviderVersion = [], bi_TTL = 0\<rparr>],
      br_Confirmation = '' example.com ''\<rparr>"

theorem BatchRecordSets_accounts_witness:
  "\<exists>s' res. BatchRecordSets example_dns example_actor ''zone-1'' example_batch example_request example_dns_state = (s', Inr res)
     \<and> bs_Total res = 1 \<and> bs_Succeeded res + bs_Failed res = 1"
proof -
  let ?start = "\<lparr>bs_Total = 1, bs_Succeeded = 0, bs_Failed = 0, bs_Items = []\<rparr>"
  have "trim_space '' example.com '' = ''example.com''" by code_simp
  moreover obtain s' res where "run_items (run_item example_dns example_actor ''zone-1'' example_entry BatchDelete example_request)
      (br_Items example_batch) ?start example_dns_state = (s', res)" by fastforce
  ultimately have run: "BatchRecordSets example_dns example_actor ''zone-1'' example_batch example_request
      example_dns_state = (s', Inr res)"
    by (simp add: BatchRecordSets_def steps example_GetZone example_batch_def maximumBatchSize_def del: run_items.simps)
  from BatchRecordSets_accounts [OF run] run show ?thesis by (auto simp: example_batch_def)
qed

section \<open>Listings\<close>

definition everything :: record_list_input where
  "everything = \<lparr>rl_Search = [], rl_Type = RecordTypeOther [], rl_Cursor = [], rl_Limit = 0, rl_Refresh = False\<rparr>"

lemma everything_matches: "filter_record_sets E everything rs = rs"
  by (simp add: filter_record_sets_def everything_def to_lower_def Let_def)

theorem listing_enumerates_witness:
  "follow_cursors 1 ascii_env [example_before] everything ''recordsets:zone-1'' [] = Some [example_before]"
  using listing_enumerates [of "''recordsets:zone-1''" "[example_before]" everything ascii_env]
  by (simp add: everything_matches) (simp add: everything_def maximumPageLimit_def max_int64_def)

lemma example_page:
  "pv_ListRecordSets example_client ''z1'' \<lparr>pr_Cursor = [], pr_Limit = 200\<rparr> example_world
     = (example_world, Inr \<lparr>pg_Items = [example_before], pg_NextCursor = []\<rparr>)"
proof -
  have "paginate \<lparr>pr_Cursor = [], pr_Limit = 200\<rparr> [example_before] = Inr \<lparr>pg_Items = [example_before], pg_NextCursor = []\<rparr>"
    by (simp add: paginate_def NormalizePageRequest_def MaximumPageLimit_def Let_def)
  then show ?thesis
    by (simp add: example_client_def carried_def on_fake_def fake_provider_def fake_ListRecordSets_def guarded_def
        example_found example_world_def)
      (simp add: example_state_def)
qed

lemma example_fetch: "fetchAllRecordSets example_dns example_client example_entry example_world = (example_world, Inr [example_before])"
proof -
  have "ValidatePage \<lparr>pr_Cursor = [], pr_Limit = 200\<rparr> \<lparr>pg_Items = [example_before], pg_NextCursor = []\<rparr> = Inr ()"
    by (simp add: ValidatePage_def NormalizePageRequest_def MaximumPageLimit_def Let_def)
  then have "fetch_pages ascii_env example_client example_entry (Suc n) [] [] [] example_world
      = (example_world, Inr [example_before])" for n
    using clean_normalized [OF ascii_env_laws example_clean]
    by (simp add: Let_def steps recordReadPageLimit_def example_page)
  from this [of 9999] show ?thesis
    by (simp add: fetchAllRecordSets_def maximumRecordPages_def del: fetch_pages.simps)
qed

theorem uncached_listing_fetches_witness:
  "\<exists>s' p. ListRecordSets example_dns ''zone-1'' everything example_dns_state = (s', Inr p) \<and> \<not> rp_Stale p"
proof -
  have "normalizePage (recordsets_scope ''zone-1'') [] 0 = Inr (defaultPageLimit, 0)"
    by (simp add: normalizePage_def Let_def defaultPageLimit_def maximumPageLimit_def)
  then obtain s' p where run: "ListRecordSets example_dns ''zone-1'' everything example_dns_state = (s', Inr p)"
    using example_fetch
    by (simp add: ListRecordSets_def list_by_fetching_def steps example_GetZone page_bounds_def cached_is_fresh_def
        everything_def example_dns_state_def cachedRecordSets_def cache_state_def zero_entry_def Let_def example_now
        beginRecordFetch_def split: prod.splits)
  have "cache_empty_for ''zone-1'' (ds_cache example_dns_state)"
    by (simp add: cache_empty_for_def example_dns_state_def cache_state_def zero_entry_def)
  from uncached_listing_fetches [OF run this] run show ?thesis by blast
qed

section \<open>Clients\<close>

text \<open>
  The store under the manager of clients. The operations of a transaction work on the store alone.
\<close>

definition managed :: "('w, 'a) scall \<Rightarrow> ('w manager, 'a) scall" where
  "managed f m = (case f (mg_world m) of (w, r) \<Rightarrow> (m\<lparr>mg_world := w\<rparr>, r))"

definition managed_tx ::
  "(('w, 'a) scall \<Rightarrow> ('w, 'a) scall) \<Rightarrow> ('w manager, 'a) scall \<Rightarrow> ('w manager, 'a) scall" where
  "managed_tx tx f m = managed (tx (\<lambda>w. case f (m\<lparr>mg_world := w\<rparr>) of (m', r) \<Rightarrow> (mg_world m', r))) m"

definition managed_repository :: "'w repository \<Rightarrow> 'w manager repository" where
  "managed_repository R =
     \<lparr>rp_WithinTx = managed_tx (rp_WithinTx R),
      rp_CreateProviderAccount = (\<lambda>a c. managed (rp_CreateProviderAccount R a c)),
      rp_ListProviderAccounts = managed (rp_ListProviderAccounts R),
      rp_GetProviderAccount = (\<lambda>i. managed (rp_GetProviderAccount R i)),
      rp_GetProviderAccountCredential = (\<lambda>i. managed (rp_GetProviderAccountCredential R i)),
      rp_UpdateProviderAccount = (\<lambda>i t c. managed (rp_UpdateProviderAccount R i t c)),
      rp_ReplaceProviderAccountCredential = (\<lambda>i r c. managed (rp_ReplaceProviderAccountCredential R i r c)),
      rp_SetProviderAccountValidation = (\<lambda>i r u v t e. managed (rp_SetProviderAccountValidation R i r u v t e)),
      rp_DeleteProviderAccount = (\<lambda>i. managed (rp_DeleteProviderAccount R i)),
      rp_ReplaceZoneIndex = (\<lambda>i r u zs t. managed (rp_ReplaceZoneIndex R i r u zs t)),
      rp_InvalidateZoneIndex = (\<lambda>i t. managed (rp_InvalidateZoneIndex R i t)),
      rp_MarkZoneDeleted = (\<lambda>z i r u t. managed (rp_MarkZoneDeleted R z i r u t)),
      rp_UpsertZoneIndex = (\<lambda>i r u z t. managed (rp_UpsertZoneIndex R i r u z t)),
      rp_ListZones = (\<lambda>q. managed (rp_ListZones R q)),
      rp_GetZone = (\<lambda>z. managed (rp_GetZone R z)),
      rp_InsertAuditEvent = (\<lambda>e. managed (rp_InsertAuditEvent R e)),
      rp_ListAuditEvents = (\<lambda>q. managed (rp_ListAuditEvents R q)),
      rp_GetAuditEvent = (\<lambda>i. managed (rp_GetAuditEvent R i))\<rparr>"

definition example_factory :: "example_world factory" where
  "example_factory =
     \<lparr>f_Type = ''fake'', f_Metadata = fake_metadata, f_CredentialDescriptor = fake_credentials,
      f_AccountOptionsDescriptor = [], f_Capabilities = fake_capabilities,
      f_Build = (\<lambda>config credential w. (w, Inr example_client))\<rparr>"

definition example_client_env :: "example_world client_env" where
  "example_client_env =
     \<lparr>ce_repository = managed_repository (provider_store example_db), ce_registry = [(''fake'', example_factory)],
      ce_Decrypt = (\<lambda>c context. Some ''token''), ce_now = (\<lambda>m. xw_clock (mg_world m)), ce_others = id,
      ce_build = (\<lambda>m. (m, None)), ce_calls = (\<lambda>m. (m, None)), ce_mutations = (\<lambda>m. (m, None)), ce_err = (\<lambda>_. None)\<rparr>"

definition example_manager :: "example_world manager" where
  "example_manager =
     \<lparr>mg_accounts = Map.empty(''account-1'' \<mapsto> 0), mg_runtimes = (\<lambda>_. new_runtime), mg_next = 1, mg_world = example_world\<rparr>"

theorem stale_client_not_stored_witness:
  "store 0 1 zero_account (7::nat) (runtime_run [RtInvalidate] new_runtime) = (runtime_run [RtInvalidate] new_runtime, False)"
  using stale_client_not_stored [of "[RtInvalidate]" 0 new_runtime zero_account "7::nat"]
  by (simp add: invalidations_def) (simp add: new_runtime_def)

theorem cached_client_fits_witness:
  "\<exists>r1 r2. store 0 1 (zero_account\<lparr>pa_Enabled := True\<rparr>) (7::nat) new_runtime = (r1, True)
     \<and> cached 10 1 (zero_account\<lparr>pa_Enabled := True\<rparr>) (runtime_run [RtExpire 9] r1) = (r2, Some 7)
     \<and> (10::int) \<le> 0 + maximumClientCacheLifetime"
proof -
  let ?a = "zero_account\<lparr>pa_Enabled := True\<rparr>"
  obtain r1 where r1: "store 0 1 ?a (7::nat) new_runtime = (r1, True)"
    by (simp add: store_def new_runtime_def Let_def)
  have "rt_cacheSequence r1 = 1" "rt_client r1 = Some 7" "rt_generation r1 = 1" "cache_matches 10 ?a r1"
    using r1 by (auto simp: store_def new_runtime_def Let_def cache_matches_def maximumClientCacheLifetime_def
        clearCachedLocked_def)
  then obtain r2 where r2: "cached 10 1 ?a (runtime_run [RtExpire 9] r1) = (r2, Some 7)"
    by (simp add: runtime_run_def expire_def cached_def)
  have "list_all quiet [RtExpire 9 :: nat runtime_op]" by (simp add: quiet_def)
  from cached_client_fits [OF r1 this r2] r1 r2 show ?thesis by blast
qed

theorem invalidated_client_refuses_witness:
  "pv_GetRecordSet (bounded example_client_env example_client 0 1) ''z1'' ''r1'' (Invalidate ''account-1'' example_manager)
     = (Invalidate ''account-1'' example_manager, Inl account_conflict)"
proof -
  have "mg_accounts example_manager ''account-1'' = Some 0" "is_current 0 1 example_manager"
    by (simp_all add: example_manager_def is_current_def current_def new_runtime_def)
  from invalidated_client_refuses [OF this] show ?thesis by blast
qed

lemma example_credential:
  "rp_GetProviderAccountCredential (managed_repository (provider_store example_db)) ''account-1'' m
     = (m, Inr (account_of_row example_account_row, \<lparr>cm_Revision = 1, cm_Encrypted = no_credential\<rparr>))"
  "rp_GetProviderAccount (managed_repository (provider_store example_db)) ''account-1'' m
     = (m, Inr ((account_of_row example_account_row)\<lparr>pa_ZoneCount := 1\<rparr>))"
  if "mg_world m = example_world"
  using that
  by (simp_all add: managed_repository_def provider_store_def managed_def GetProviderAccountCredential_def
      GetProviderAccount_def steps sql_def statement_def run_statement_def select_account_def find_account_def
      example_world_def with_count_def zone_count_def scanProviderAccountWithZoneCount_def
      scanProviderAccountCredential_def scanProviderAccount_def checked_def example_account_row_def example_zone_row_def
      account_of_row_def)

lemma example_manager_simps [simp]:
  "mg_accounts example_manager ''account-1'' = Some 0" "mg_runtimes example_manager = (\<lambda>_. new_runtime)"
  "mg_world example_manager = example_world"
  "ce_repository example_client_env = managed_repository (provider_store example_db)"
  "ce_registry example_client_env = [(''fake'', example_factory)]" "ce_Decrypt example_client_env c x = Some ''token''"
  "ce_others example_client_env m = m" "ce_build example_client_env m = (m, None)"
  by (simp_all add: example_manager_def example_client_env_def)

lemma example_build:
  "\<exists>m'. build_client example_client_env ''account-1'' 0 1 (account_of_row example_account_row)
      \<lparr>cm_Revision = 1, cm_Encrypted = no_credential\<rparr> example_factory example_manager
    = (m', Inr (Some (example_client, (account_of_row example_account_row)\<lparr>pa_ZoneCount := 1\<rparr>)))"
proof -
  have "same_account_state ((account_of_row example_account_row)\<lparr>pa_ZoneCount := 1\<rparr>) (account_of_row example_account_row) 1"
    by (simp add: same_account_state_def account_of_row_def example_account_row_def)
  moreover have "example_manager\<lparr>mg_world := example_world\<rparr> = example_manager"
    by (simp add: example_manager_def)
  ultimately show ?thesis
    by (simp add: build_client_def steps in_world_def example_factory_def example_credential store_client_def store_def
        plainly_def new_runtime_def Let_def)
qed

theorem Get_hands_out_witness:
  "\<exists>m' p account. Get example_client_env ''account-1'' example_manager = (m', Inr (p, account))
     \<and> (\<exists>client a g. p = bounded example_client_env client a g \<and> is_current a g m')"
proof -
  have account: "pa_Enabled (account_of_row example_account_row)" "pa_CredentialConfigured (account_of_row example_account_row)"
    "pa_ProviderType (account_of_row example_account_row) = ''fake''"
    by (simp_all add: account_of_row_def example_account_row_def)
  have "cached_client example_client_env 0 1 (account_of_row example_account_row) example_manager = (example_manager, None)"
    by (simp add: cached_client_def cached_def new_runtime_def example_manager_def fun_upd_idem_iff)
  with example_build account obtain m' where
    "get_once example_client_env ''account-1'' 0 1 retry example_manager
       = (m', Inr (bounded example_client_env example_client 0 1, (account_of_row example_account_row)\<lparr>pa_ZoneCount := 1\<rparr>))" for retry
    by (auto simp: get_once_def steps example_credential registry_factory_def plainly_def)
  then have run: "Get example_client_env ''account-1'' example_manager
       = (m', Inr (bounded example_client_env example_client 0 1, (account_of_row example_account_row)\<lparr>pa_ZoneCount := 1\<rparr>))"
    by (simp add: Get_def accountRuntime_def maximumClientBuildAttempts_def numeral_3_eq_3 snapshot_def cancelled_def
        new_runtime_def Let_def)
  from Get_hands_out [OF run] run show ?thesis by blast
qed

section \<open>A synchronisation\<close>

definition example_sync :: "example_world sync_service" where
  "example_sync =
     \<lparr>yv_env = example_env, yv_clients_Get = (\<lambda>i w. (w, Inr (example_client, account_of_row example_account_row))),
      yv_cache = True, yv_acquire = (\<lambda>i w. (w, None)), yv_release = (\<lambda>i w. w)\<rparr>"

lemma example_zones:
  "pv_ListZones example_client \<lparr>pr_Cursor = [], pr_Limit = 200\<rparr> example_world
     = (example_world, Inr \<lparr>pg_Items = [example_zone], pg_NextCursor = []\<rparr>)"
proof -
  have "paginate \<lparr>pr_Cursor = [], pr_Limit = 200\<rparr> [example_zone] = Inr \<lparr>pg_Items = [example_zone], pg_NextCursor = []\<rparr>"
    by (simp add: paginate_def NormalizePageRequest_def MaximumPageLimit_def Let_def)
  then show ?thesis
    by (simp add: example_client_def carried_def on_fake_def fake_provider_def fake_ListZones_def guarded_def
        example_found example_world_def)
      (simp add: example_state_def)
qed

lemma example_sync_pages:
  "sync_pages example_env failed example_client maximumZonePages [] [] [] example_world
     = (example_world\<lparr>xw_ids := 2\<rparr>, Inr [index_entry (''id-'' @ nat_to_dec 1) example_zone])"
proof -
  have "ValidatePage \<lparr>pr_Cursor = [], pr_Limit = 200\<rparr> \<lparr>pg_Items = [example_zone], pg_NextCursor = []\<rparr> = Inr ()"
    by (simp add: ValidatePage_def NormalizePageRequest_def MaximumPageLimit_def Let_def)
  moreover have "NormalizeZone ascii_env example_zone = Inr example_zone" by code_simp
  ultimately have "sync_pages example_env failed example_client (Suc n) [] [] [] example_world
     = (example_world\<lparr>xw_ids := 2\<rparr>, Inr [index_entry (''id-'' @ nat_to_dec 1) example_zone])" for n
    by (simp add: Let_def steps zoneSyncPageLimit_def example_zones example_NewV7)
      (simp add: example_world_def)
  from this [of 9999] show ?thesis by (simp add: maximumZonePages_def del: sync_pages.simps)
qed

lemma example_replace_index:
  "\<exists>w'. ReplaceZoneIndex example_db ''account-1'' 1 1000 [index_entry i example_zone] 5000 w = (w', Inr ())
     \<and> st_faults w' = [] \<and> st_events w' = []"
  if "st_faults w = []" "st_zones w = [example_zone_row]" "st_accounts w = [example_account_row]" "st_events w = []"
  using that
  by (simp add: ReplaceZoneIndex_def max_revision_def steps sql_quiet upsert_zone_def example_db_def same_zone_def
      new_zone_row_def index_entry_def example_zone_def example_zone_row_def example_account_row_def Let_def
      delete_zones_def touch_account_def timestamptz_def)

lemma example_audit_in_tx:
  "\<exists>w'. audit_in_tx example_env a md act i res code f v w = (w', Inr v) \<and> st_faults w' = []"
  if "st_faults w = []" "st_events w = []"
  using that
  by (simp add: audit_in_tx_def newProviderAuditEvent_def steps example_NewV7 example_now
      example_insert [unfolded insert_event_def])

theorem SyncAccount_success_witness:
  "\<exists>s' zones. SyncAccount example_sync example_actor ''account-1'' example_request example_dns_state = (s', Inr zones)
     \<and> distinct (map ze_ProviderZoneID zones)"
proof -
  let ?zones = "[index_entry (''id-'' @ nat_to_dec 1) example_zone]"
  have "\<exists>w. WithinTx
      (seq (ReplaceZoneIndex example_db ''account-1'' 1 1000 ?zones 5000) (\<lambda>_.
       audit_in_tx example_env example_actor example_request ''zone.sync'' ''account-1'' ResultSucceeded [] event TxDone))
      (example_world\<lparr>xw_ids := 2, xw_clock := 5001\<rparr>) = (w, Inr TxDone)" for event
  proof -
    let ?w = "example_world\<lparr>xw_ids := 2, xw_clock := 5001, st_in_tx := True\<rparr>"
    obtain w1 where w1: "ReplaceZoneIndex example_db ''account-1'' 1 1000 ?zones 5000 ?w = (w1, Inr ())"
        "st_faults w1 = []" "st_events w1 = []"
      using example_replace_index [of ?w] by (auto simp: example_world_def)
    from example_audit_in_tx [OF this(2,3)] obtain w2 where
      "audit_in_tx example_env example_actor example_request ''zone.sync'' ''account-1'' ResultSucceeded [] event TxDone w1
        = (w2, Inr TxDone)" "st_faults w2 = []" by blast
    with w1 have "seq (ReplaceZoneIndex example_db ''account-1'' 1 1000 ?zones 5000) (\<lambda>_.
        audit_in_tx example_env example_actor example_request ''zone.sync'' ''account-1'' ResultSucceeded [] event TxDone)
        ((example_world\<lparr>xw_ids := 2, xw_clock := 5001\<rparr>)\<lparr>st_in_tx := True\<rparr>) = (w2, Inr TxDone)"
      by (simp add: steps)
    then have "WithinTx (seq (ReplaceZoneIndex example_db ''account-1'' 1 1000 ?zones 5000) (\<lambda>_.
        audit_in_tx example_env example_actor example_request ''zone.sync'' ''account-1'' ResultSucceeded [] event TxDone))
        (example_world\<lparr>xw_ids := 2, xw_clock := 5001\<rparr>) = (w2\<lparr>st_in_tx := False\<rparr>, Inr TxDone)"
      by (intro WithinTx_quiet) (simp_all add: \<open>st_faults w2 = []\<close>, simp_all add: example_world_def)
    then show ?thesis by blast
  qed
  then obtain W where W: "\<And>event. WithinTx
      (seq (ReplaceZoneIndex example_db ''account-1'' 1 1000 ?zones 5000) (\<lambda>_.
       audit_in_tx example_env example_actor example_request ''zone.sync'' ''account-1'' ResultSucceeded [] event TxDone))
      (example_world\<lparr>xw_ids := 2, xw_clock := 5001\<rparr>) = (W event, Inr TxDone)" by metis
  have account: "pa_CredentialRevision (account_of_row example_account_row) = 1"
    "pa_UpdatedAt (account_of_row example_account_row) = 1000"
    by (simp_all add: account_of_row_def example_account_row_def)
  have repo: "rp_WithinTx (se_repository example_env) = WithinTx"
    "rp_ReplaceZoneIndex (se_repository example_env) = ReplaceZoneIndex example_db"
    by (simp_all add: example_env_def provider_store_def)
  have clock: "xw_clock (example_world\<lparr>xw_ids := 2\<rparr>) = 5000" by (simp add: example_world_def)
  let ?meta = "[(''zone_count'', ANum 1), (''fetched_at'', ATime 5000), (''provider_type'', AText (pa_ProviderType (account_of_row example_account_row)))]"
  let ?event = "\<lambda>e. e\<lparr>ev_ResourceType := ''provider_account'', ev_Metadata := ?meta\<rparr>"
  have run: "SyncAccount example_sync example_actor ''account-1'' example_request example_dns_state
      = (\<lparr>ds_cache = InvalidateAccount ''account-1'' Map.empty, ds_world = W ?event\<rparr>, Inr ?zones)"
    using W [of ?event] account repo clock
    by (simp add: SyncAccount_def sync_locked_def example_sync_def example_sync_pages Let_def steps [abs_def] example_now example_dns_state_def)
  from SyncAccount_success [OF run] run show ?thesis by blast
qed

section \<open>The store\<close>

definition empty_world :: example_world where
  "empty_world = example_world\<lparr>st_accounts := [], st_zones := []\<rparr>"

lemma example_create:
  "\<exists>w. CreateProviderAccount example_db zero_account None empty_world = (w, Inr ()) \<and> length (st_accounts w) = 1"
  by (simp add: CreateProviderAccount_def max_revision_def zero_account_def sql_quiet insert_account_def example_db_def
      empty_world_def example_world_def Let_def)

theorem store_stays_wf_witness:
  "\<exists>w. (store_use example_db)\<^sup>*\<^sup>* empty_world w \<and> store_wf example_db w \<and> length (st_accounts w) = 1"
proof -
  obtain w where w: "CreateProviderAccount example_db zero_account None empty_world = (w, Inr ())" "length (st_accounts w) = 1"
    using example_create by blast
  then have "(store_use example_db)\<^sup>*\<^sup>* empty_world w" by (intro r_into_rtranclp use_create)
  from store_stays_wf [OF this] this w(2) show ?thesis
    by (auto simp: empty_world_def example_world_def)
qed

theorem audit_trail_append_only_witness:
  "\<exists>w e. (store_use example_db)\<^sup>*\<^sup>* (example_world\<lparr>st_events := [e]\<rparr>) w \<and> prefix [e] (st_events w)"
proof -
  obtain e :: audit_event and w r where
    "DeleteProviderAccount ''account-1'' (example_world\<lparr>st_events := [e]\<rparr>) = (w, r)" by fastforce
  then have "(store_use example_db)\<^sup>*\<^sup>* (example_world\<lparr>st_events := [e]\<rparr>) w" by (intro r_into_rtranclp use_delete)
  from audit_trail_append_only [OF this] this show ?thesis by auto
qed

definition rename :: account_changes where
  "rename = \<lparr>ch_Name = Some ''second'', ch_Description = None, ch_Enabled = None, ch_Options = [], ch_ResetValidation = False\<rparr>"

definition renewal :: credential_material where
  "renewal = \<lparr>cm_Revision = 2, cm_Encrypted = no_credential\<rparr>"

text \<open>Five writes decided on the account as it is: a change and a new credential are carried out.\<close>

definition example_writes :: "(uuid \<times> time \<times> account_write) list" where
  "example_writes =
     [(''account-1'', 5000, ChangeAccount 1000 rename), (''account-1'', 6000, ChangeAccount 1000 rename),
      (''account-1'', 7000, ReplaceCredential 1 renewal), (''account-1'', 8000, SetValidation 1 1000 ValidationStatusValid 8000 []),
      (''account-1'', 9000, ReplaceCredential 1 renewal)]"

lemma example_carried_out:
  "carried_out (write_account example_db) ''account-1'' example_writes example_world
     = [(5000, ChangeAccount 1000 rename), (7000, ReplaceCredential 1 renewal)]"
  by (simp add: example_writes_def write_account_def perform_write_def WithinTx_def run_tx_def statement_def run_statement_def
      UpdateProviderAccount_def ReplaceProviderAccountCredential_def SetProviderAccountValidation_def conflict_if_missing_def
      seq_def attempt_def reject_def give_def sql_def update_account_def find_account_def returning_def checked_def
      scanProviderAccount_def apply_changes_def timestamptz_def max_revision_def rename_def renewal_def example_db_def
      example_world_def example_account_row_def mapProviderStoreError_def rollback_def account_clash_def Let_def)

lemma example_world_wf: "store_wf example_db example_world"
  by (simp add: store_wf_def example_world_def example_account_row_def example_zone_row_def)


theorem ReplaceZoneIndex_exact_witness:
  "\<exists>w. ReplaceZoneIndex example_db ''account-1'' 1 1000 [index_entry ''id-1'' example_zone] 5000 example_world = (w, Inr ())
     \<and> shown_zones ''account-1'' w = {''z1''}"
proof -
  obtain w where w: "ReplaceZoneIndex example_db ''account-1'' 1 1000 [index_entry ''id-1'' example_zone] 5000 example_world = (w, Inr ())"
    using example_replace_index [of example_world] by (auto simp: example_world_def)
  from ReplaceZoneIndex_exact [OF w] w show ?thesis by (auto simp: index_entry_def example_zone_def)
qed

definition example_accounts :: "(example_world, example_world) account_service" where
  "example_accounts =
     \<lparr>av_env = example_env, av_registry = [(''fake'', example_factory)],
      av_Encrypt = (\<lambda>text context w. (w, Some no_credential)), av_decoder = (\<lambda>_. None),
      av_clients_Get = (\<lambda>i w. (w, Inr (example_client, account_of_row example_account_row))),
      av_clients_Invalidate = (\<lambda>i w. w), av_clients_Remove = (\<lambda>i w. w), av_cache = True\<rparr>"

theorem account_changes_audited_witness:
  "audited ds_world ''provider_account.delete'' (\<lambda>j. j = ''account-1'')
     (DeleteAccount example_accounts example_actor ''account-1'' example_request)"
proof -
  have "beside_store example_db example_accounts"
    by (simp add: beside_store_def example_accounts_def example_env_def same_tables_def)
  from account_changes_audited [OF this] show ?thesis by blast
qed

end
