(* ===== verification/Roles.thy ===== *)
theory Roles
  imports Prelude
begin

text \<open>
  \<open>internal/auth/role.go\<close>: the roles, the permissions each role has, and which audit events a role may
  read. Both are string types in the code, so a value outside the constants is possible.
\<close>

type_synonym Role = string
type_synonym Permission = string

definition RoleAdmin :: Role where "RoleAdmin = ''admin''"
definition RoleOperator :: Role where "RoleOperator = ''operator''"
definition RoleViewer :: Role where "RoleViewer = ''viewer''"

definition PermissionReadDNS :: Permission where "PermissionReadDNS = ''dns:read''"
definition PermissionMutateDNS :: Permission where "PermissionMutateDNS = ''dns:mutate''"
definition PermissionManageProviders :: Permission where "PermissionManageProviders = ''providers:manage''"
definition PermissionManageUsers :: Permission where "PermissionManageUsers = ''users:manage''"
definition PermissionReadAudit :: Permission where "PermissionReadAudit = ''audit:read''"
definition PermissionManageOwnSecurity :: Permission where "PermissionManageOwnSecurity = ''security:self''"

lemmas role_names = RoleAdmin_def RoleOperator_def RoleViewer_def

lemmas permission_names = PermissionReadDNS_def PermissionMutateDNS_def PermissionManageProviders_def
  PermissionManageUsers_def PermissionReadAudit_def PermissionManageOwnSecurity_def

definition role_valid :: "Role \<Rightarrow> bool" where
  "role_valid r \<longleftrightarrow> r = RoleAdmin \<or> r = RoleOperator \<or> r = RoleViewer"

definition Allows :: "Role \<Rightarrow> Permission \<Rightarrow> bool" where
  "Allows r permission =
     (if \<not> role_valid r then False
      else if permission = PermissionReadDNS \<or> permission = PermissionManageOwnSecurity then True
      else if permission = PermissionReadAudit then r = RoleAdmin \<or> r = RoleOperator \<or> r = RoleViewer
      else if permission = PermissionMutateDNS then r = RoleAdmin \<or> r = RoleOperator
      else if permission = PermissionManageProviders \<or> permission = PermissionManageUsers then r = RoleAdmin
      else False)"

definition CanReadAuditEvent :: "Role \<Rightarrow> string \<Rightarrow> string \<Rightarrow> bool" where
  "CanReadAuditEvent r action resourceType =
     (if r = RoleAdmin then True
      else if r \<noteq> RoleOperator \<and> r \<noteq> RoleViewer then False
      else (resourceType = ''zone'' \<or> resourceType = ''recordset'')
        \<and> (prefix ''zone.'' action \<or> prefix ''recordset.'' action))"

section \<open>The order of the roles\<close>

text \<open>Roles by what they may do: an unknown role is below all others.\<close>

definition role_rank :: "Role \<Rightarrow> nat" where
  "role_rank r = (if r = RoleAdmin then 3 else if r = RoleOperator then 2 else if r = RoleViewer then 1 else 0)"

definition required_rank :: "Permission \<Rightarrow> nat" where
  "required_rank p =
     (if p \<in> {PermissionReadDNS, PermissionManageOwnSecurity, PermissionReadAudit} then 1
      else if p = PermissionMutateDNS then 2
      else if p \<in> {PermissionManageProviders, PermissionManageUsers} then 3 else 4)"

lemma Allows_rank: "Allows r p \<longleftrightarrow> required_rank p \<le> role_rank r"
  by (auto simp: Allows_def role_valid_def required_rank_def role_rank_def role_names permission_names)

lemma Allows_mono: "role_rank r \<le> role_rank r' \<Longrightarrow> Allows r p \<Longrightarrow> Allows r' p"
  by (simp add: Allows_rank)

lemma admin_permissions:
  "p \<in> {PermissionManageProviders, PermissionManageUsers} \<Longrightarrow> Allows r p \<Longrightarrow> r = RoleAdmin"
  by (auto simp: Allows_rank required_rank_def role_rank_def permission_names split: if_splits)

lemma CanReadAuditEvent_mono:
  "role_rank r \<le> role_rank r' \<Longrightarrow> CanReadAuditEvent r a t \<Longrightarrow> CanReadAuditEvent r' a t"
  by (auto simp: CanReadAuditEvent_def role_rank_def role_names split: if_splits)

end
