(* ===== verification/Tokens.thy ===== *)
theory Tokens
  imports Base64 Sha256 Roles
begin

text \<open>
  \<open>token.go\<close>, \<open>validation.go\<close> and the checks of \<open>password.go\<close> in \<open>internal/auth\<close>. Random bytes are a
  function from positions, as many as \<open>io.ReadFull\<close> is asked for; \<open>net/mail\<close>'s parser is a parameter.
\<close>

section \<open>Tokens\<close>

definition tokenBytes :: nat where "tokenBytes = 32"

type_synonym entropy = "nat \<Rightarrow> char"

definition random_bytes :: "entropy \<Rightarrow> nat \<Rightarrow> string" where
  "random_bytes f n = map f [0..<n]"

definition HashToken :: "string \<Rightarrow> string" where
  "HashToken raw = sha256 raw"

definition NewOpaqueToken :: "entropy option \<Rightarrow> string + string \<times> string" where
  "NewOpaqueToken random =
     (case random of None \<Rightarrow> Inl ''generate secure token''
      | Some f \<Rightarrow> (let raw = b64_encode (random_bytes f tokenBytes) in Inr (raw, HashToken raw)))"

definition ValidOpaqueToken :: "string \<Rightarrow> bool" where
  "ValidOpaqueToken raw \<longleftrightarrow> (case b64_decode raw of None \<Rightarrow> False | Some decoded \<Rightarrow> length decoded = tokenBytes)"

definition NewUserHandle :: "entropy option \<Rightarrow> string + string" where
  "NewUserHandle random =
     (case random of None \<Rightarrow> Inl ''generate WebAuthn user handle'' | Some f \<Rightarrow> Inr (random_bytes f 64))"

lemma random_bytes_length [simp]: "length (random_bytes f n) = n"
  by (simp add: random_bytes_def)

lemma NewOpaqueToken_valid:
  "NewOpaqueToken random = Inr (raw, hash) \<Longrightarrow> ValidOpaqueToken raw \<and> hash = HashToken raw \<and> length hash = 32"
  by (auto simp: NewOpaqueToken_def ValidOpaqueToken_def HashToken_def b64_round_trip sha256_length Let_def
      split: option.splits)

text \<open>Different random bytes make different tokens.\<close>

lemma NewOpaqueToken_inject:
  "NewOpaqueToken (Some f) = Inr (raw, h) \<Longrightarrow> NewOpaqueToken (Some g) = Inr (raw, h') \<Longrightarrow>
     random_bytes f tokenBytes = random_bytes g tokenBytes"
  by (auto simp: NewOpaqueToken_def Let_def b64_encode_inject)

section \<open>Names, addresses and passwords\<close>

text \<open>
  A rune of \<open>unicode.IsControl\<close> in valid UTF-8: the bytes below 0x20, 0x7F, and U+0080 to U+009F, which
  are 0xC2 and a byte below 0xA0.
\<close>

fun has_control :: "string \<Rightarrow> bool" where
  "has_control [] = False"
| "has_control (c # s) =
     (byte c < 32 \<or> byte c = 127
      \<or> (byte c = 194 \<and> (case s of [] \<Rightarrow> False | d # _ \<Rightarrow> 128 \<le> byte d \<and> byte d < 160))
      \<or> has_control s)"

definition validateUsername :: "string \<Rightarrow> string option" where
  "validateUsername username =
     (let name = trim_space username in
      if length name < 1 \<or> length name > 128 \<or> \<not> valid_utf8 name then None
      else if has_control name then None else Some name)"

definition validateDisplayName :: "string \<Rightarrow> string option" where
  "validateDisplayName displayName =
     (let name = trim_space displayName in
      if length name > 256 \<or> \<not> valid_utf8 name then None else Some name)"

definition validateEmail :: "(string \<Rightarrow> string option) \<Rightarrow> string \<Rightarrow> string option" where
  "validateEmail parse_address address =
     (let email = trim_space address in
      if email = [] then Some []
      else if length email > 320 \<or> \<not> valid_utf8 email then None
      else if parse_address email \<noteq> Some email then None else Some email)"

definition validatePasskeyName :: "string \<Rightarrow> string option" where
  "validatePasskeyName name =
     (let name = trim_space name in
      if length name < 1 \<or> length name > 128 \<or> \<not> valid_utf8 name then None else Some name)"

definition minimumPasswordBytes :: nat where "minimumPasswordBytes = 12"
definition maximumPasswordBytes :: nat where "maximumPasswordBytes = 1024"

definition ValidatePassword :: "string \<Rightarrow> bool" where
  "ValidatePassword password \<longleftrightarrow>
     (if \<not> valid_utf8 password then False
      else if length password < minimumPasswordBytes \<or> length password > maximumPasswordBytes then False
      else trim_space password \<noteq> [])"

definition validPasswordVerificationInput :: "string \<Rightarrow> bool" where
  "validPasswordVerificationInput password \<longleftrightarrow> length password \<le> maximumPasswordBytes \<and> valid_utf8 password"

definition normalizeUsername :: "(string \<Rightarrow> string) \<Rightarrow> string \<Rightarrow> string" where
  "normalizeUsername unicode_lower username = to_lower unicode_lower (trim_space username)"

lemma validateUsername_idem: "validateUsername username = Some name \<Longrightarrow> validateUsername name = Some name"
  by (auto simp: validateUsername_def Let_def split: if_splits)

lemma validateDisplayName_idem: "validateDisplayName d = Some name \<Longrightarrow> validateDisplayName name = Some name"
  by (auto simp: validateDisplayName_def Let_def split: if_splits)

lemma validateEmail_idem: "validateEmail p e = Some address \<Longrightarrow> validateEmail p address = Some address"
  by (auto simp: validateEmail_def Let_def split: if_splits)

text \<open>A password that can be set can also be checked.\<close>

lemma ValidatePassword_verifiable: "ValidatePassword p \<Longrightarrow> validPasswordVerificationInput p"
  by (auto simp: ValidatePassword_def validPasswordVerificationInput_def split: if_splits)

end
