(* ===== verification/Aes_Gcm.thy ===== *)
theory Aes_Gcm
  imports Prelude
begin

text \<open>
  \<open>crypto/aes\<close> and \<open>crypto/cipher\<close>'s \<open>NewGCM\<close> for keys of 32 bytes: AES-256 (FIPS 197) in Galois/Counter mode
  (SP 800-38D) with a nonce of 12 bytes and a tag of 16 bytes.
\<close>

unbundle bit_operations_syntax

section \<open>Bytes\<close>

type_synonym octet = "8 word"

definition octets :: "string \<Rightarrow> octet list" where
  "octets s = map (\<lambda>c. of_nat (byte c)) s"

definition chars :: "octet list \<Rightarrow> string" where
  "chars xs = map (\<lambda>x. char_of (unat x)) xs"

definition xor_list :: "octet list \<Rightarrow> octet list \<Rightarrow> octet list" where
  "xor_list xs ys = map2 (\<lambda>x y. x XOR y) xs ys"

lemma octets_length [simp]: "length (octets s) = length s" and chars_length [simp]: "length (chars xs) = length xs"
  by (simp_all add: octets_def chars_def)

lemma chars_octets [simp]: "chars (octets s) = s"
proof -
  have "unat (of_nat (byte c) :: octet) = byte c" for c
    by (simp add: unat_of_nat)
  then show ?thesis by (simp add: chars_def octets_def comp_def)
qed

lemma octets_chars [simp]: "octets (chars xs) = xs"
proof -
  have "of_nat (byte (char_of (unat x))) = x" for x :: octet
  proof -
    have "unat x < 256" by (rule order_less_le_trans [OF unsigned_less]) simp
    then have "byte (char_of (unat x)) = unat x" by (rule byte_char_of)
    then show ?thesis by simp
  qed
  then show ?thesis by (simp add: chars_def octets_def comp_def)
qed

lemma xor_list_length [simp]: "length (xor_list xs ys) = min (length xs) (length ys)"
  by (simp add: xor_list_def)

lemma xor_list_twice: "length xs \<le> length ys \<Longrightarrow> xor_list (xor_list xs ys) ys = xs"
proof (induction xs arbitrary: ys)
  case (Cons x xs)
  then show ?case by (cases ys) (simp_all add: xor_list_def ac_simps)
qed (simp add: xor_list_def)

section \<open>AES-256\<close>

definition xtime :: "octet \<Rightarrow> octet" where
  "xtime x = push_bit 1 x XOR (if bit x 7 then 0x1b else 0)"

fun gmul :: "nat \<Rightarrow> octet \<Rightarrow> octet \<Rightarrow> octet" where
  "gmul 0 x y = 0"
| "gmul (Suc n) x y = (if bit y 0 then x else 0) XOR gmul n (xtime x) (drop_bit 1 y)"

definition mul8 :: "octet \<Rightarrow> octet \<Rightarrow> octet" where "mul8 x y = gmul 8 x y"

text \<open>The inverse is the 254th power.\<close>

definition inverse8 :: "octet \<Rightarrow> octet" where
  "inverse8 x =
     (let x2 = mul8 x x; x4 = mul8 x2 x2; x8 = mul8 x4 x4; x16 = mul8 x8 x8; x32 = mul8 x16 x16;
          x64 = mul8 x32 x32; x128 = mul8 x64 x64
      in mul8 x2 (mul8 x4 (mul8 x8 (mul8 x16 (mul8 x32 (mul8 x64 x128))))))"

definition sub_byte :: "octet \<Rightarrow> octet" where
  "sub_byte x =
     (let i = inverse8 x
      in i XOR word_rotl 1 i XOR word_rotl 2 i XOR word_rotl 3 i XOR word_rotl 4 i XOR 0x63)"

fun chunks :: "nat \<Rightarrow> nat \<Rightarrow> 'a list \<Rightarrow> 'a list list" where
  "chunks 0 k xs = []"
| "chunks (Suc n) k xs = take k xs # chunks n k (drop k xs)"

definition round_constant :: "nat \<Rightarrow> octet" where
  "round_constant i = (xtime ^^ (i - 1)) 1"

definition next_word :: "nat \<Rightarrow> octet list list \<Rightarrow> octet list list" where
  "next_word i ws =
     (let t = last ws;
          t' = (if i mod 8 = 0 then xor_list (map sub_byte (rotate1 t)) [round_constant (i div 8), 0, 0, 0]
                else if i mod 8 = 4 then map sub_byte t else t)
      in ws @ [xor_list (ws ! (i - 8)) t'])"

definition round_keys :: "octet list \<Rightarrow> octet list list" where
  "round_keys key = chunks 15 16 (concat (fold next_word [8..<60] (chunks 8 4 key)))"

definition shift_rows :: "octet list \<Rightarrow> octet list" where
  "shift_rows s = map (\<lambda>i. s ! ((i + 4 * (i mod 4)) mod 16)) [0..<16]"

definition mix_column :: "octet list \<Rightarrow> octet list" where
  "mix_column c =
     map (\<lambda>i. mul8 2 (c ! i) XOR mul8 3 (c ! ((i + 1) mod 4)) XOR c ! ((i + 2) mod 4) XOR c ! ((i + 3) mod 4)) [0..<4]"

definition aes_round :: "bool \<Rightarrow> octet list \<Rightarrow> octet list \<Rightarrow> octet list" where
  "aes_round final k s =
     (let t = shift_rows (map sub_byte s)
      in xor_list (if final then t else concat (map mix_column (chunks 4 4 t))) k)"

definition aes_block :: "octet list \<Rightarrow> octet list \<Rightarrow> octet list" where
  "aes_block key block =
     (let ks = round_keys key
      in aes_round True (ks ! 14) (fold (aes_round False) (take 13 (drop 1 ks)) (xor_list block (ks ! 0))))"

section \<open>Galois/Counter mode\<close>

definition gcm_reduce :: "128 word \<Rightarrow> 128 word" where
  "gcm_reduce v = drop_bit 1 v XOR (if bit v 0 then push_bit 120 0xe1 else 0)"

fun ghash_mul :: "nat \<Rightarrow> 128 word \<Rightarrow> 128 word \<Rightarrow> 128 word" where
  "ghash_mul 0 x v = 0"
| "ghash_mul (Suc n) x v = (if bit x 127 then v else 0) XOR ghash_mul n (push_bit 1 x) (gcm_reduce v)"

definition block_word :: "octet list \<Rightarrow> 128 word" where
  "block_word b = foldl (\<lambda>w x. push_bit 8 w OR ucast x) 0 b"

definition pad16 :: "octet list \<Rightarrow> octet list" where
  "pad16 xs = xs @ replicate ((16 - length xs mod 16) mod 16) 0"

definition blocks16 :: "octet list \<Rightarrow> octet list list" where
  "blocks16 xs = chunks (length xs div 16) 16 xs"

definition ghash :: "128 word \<Rightarrow> octet list \<Rightarrow> 128 word" where
  "ghash h xs = fold (\<lambda>b y. ghash_mul 128 (y XOR block_word b) h) (blocks16 xs) 0"

text \<open>The last \<open>k\<close> bytes of a word, the most significant first.\<close>

definition big_endian :: "nat \<Rightarrow> 'a::len word \<Rightarrow> octet list" where
  "big_endian k w = map (\<lambda>i. ucast (drop_bit (8 * (k - 1 - i)) w)) [0..<k]"

definition counter_block :: "octet list \<Rightarrow> nat \<Rightarrow> octet list" where
  "counter_block nonce n = nonce @ big_endian 4 (of_nat n :: 32 word)"

definition gcm_nonce_size :: nat where "gcm_nonce_size = 12"
definition gcm_overhead :: nat where "gcm_overhead = 16"

definition gcm_tag :: "octet list \<Rightarrow> octet list \<Rightarrow> octet list \<Rightarrow> octet list \<Rightarrow> octet list" where
  "gcm_tag key nonce aad ct =
     (let h = block_word (aes_block key (replicate 16 0));
          g = ghash h (pad16 aad @ pad16 ct @ big_endian 8 (of_nat (8 * length aad) :: 64 word) @ big_endian 8 (of_nat (8 * length ct) :: 64 word))
      in big_endian gcm_overhead (g XOR block_word (aes_block key (counter_block nonce 1))))"

definition keystream :: "octet list \<Rightarrow> octet list \<Rightarrow> nat \<Rightarrow> octet list" where
  "keystream key nonce n =
     take n (concat (map (\<lambda>i. aes_block key (counter_block nonce (i + 2))) [0..<(n + 15) div 16]))"

definition gcm_seal :: "string \<Rightarrow> string \<Rightarrow> string \<Rightarrow> string \<Rightarrow> string" where
  "gcm_seal key nonce plaintext aad =
     (let k = octets key; n = octets nonce; p = octets plaintext;
          ct = xor_list p (keystream k n (length p))
      in chars (ct @ gcm_tag k n (octets aad) ct))"

definition gcm_open :: "string \<Rightarrow> string \<Rightarrow> string \<Rightarrow> string \<Rightarrow> string option" where
  "gcm_open key nonce ciphertext aad =
     (if length ciphertext < gcm_overhead then None
      else
        (let k = octets key; n = octets nonce; c = octets ciphertext; m = length c - gcm_overhead;
             ct = take m c; tag = drop m c
         in if tag \<noteq> gcm_tag k n (octets aad) ct then None
            else Some (chars (xor_list ct (keystream k n m)))))"

section \<open>Opening what was sealed\<close>

lemma chunks_lengths:
  "n * k \<le> length xs \<Longrightarrow> length (chunks n k xs) = n \<and> (\<forall>c \<in> set (chunks n k xs). length c = k)"
proof (induction n arbitrary: xs)
  case (Suc n)
  then have "n * k \<le> length (drop k xs)" by simp
  from Suc.IH [OF this] Suc.prems show ?case by auto
qed simp

lemma concat_length: "(\<forall>c \<in> set cs. length c = k) \<Longrightarrow> length (concat cs) = length cs * k"
  by (induction cs) auto

lemma next_word_length:
  assumes "length ws = i" and "8 \<le> i" and "\<forall>w \<in> set ws. length w = 4"
  shows "length (next_word i ws) = Suc i \<and> (\<forall>w \<in> set (next_word i ws). length w = 4)"
proof -
  have "ws \<noteq> []" using assms by auto
  then have "length (last ws) = 4" "length (ws ! (i - 8)) = 4" using assms by simp_all
  then show ?thesis using assms by (simp add: next_word_def Let_def)
qed

lemma next_words_lengths:
  assumes "length ws = 8" and "\<forall>w \<in> set ws. length w = 4"
  shows "length (fold next_word [8..<8 + n] ws) = 8 + n \<and> (\<forall>w \<in> set (fold next_word [8..<8 + n] ws). length w = 4)"
proof (induction n)
  case (Suc n)
  have "fold next_word [8..<8 + Suc n] ws = next_word (8 + n) (fold next_word [8..<8 + n] ws)"
    using upt_Suc_append [of 8 "8 + n"] by simp
  then show ?case using next_word_length [of "fold next_word [8..<8 + n] ws" "8 + n"] Suc by (simp del: fold_append)
qed (use assms in simp)

lemma round_key_length:
  assumes "length key = 32" and "i < 15"
  shows "length (round_keys key ! i) = 16"
proof -
  have "length (chunks 8 4 key) = 8 \<and> (\<forall>w \<in> set (chunks 8 4 key). length w = 4)"
    by (rule chunks_lengths) (simp add: assms)
  then have w: "length (fold next_word [8..<60] (chunks 8 4 key)) = 60
      \<and> (\<forall>w \<in> set (fold next_word [8..<60] (chunks 8 4 key)). length w = 4)"
    using next_words_lengths [of "chunks 8 4 key" 52] by simp
  then have "length (concat (fold next_word [8..<60] (chunks 8 4 key))) = 60 * 4"
    using concat_length by metis
  then have "length (round_keys key) = 15 \<and> (\<forall>c \<in> set (round_keys key). length c = 16)"
    unfolding round_keys_def by (intro chunks_lengths) simp
  with assms show ?thesis by simp
qed

lemma aes_block_length: "length key = 32 \<Longrightarrow> length (aes_block key block) = 16"
  by (simp add: aes_block_def aes_round_def shift_rows_def Let_def round_key_length)

lemma gcm_tag_length [simp]: "length (gcm_tag k n a c) = gcm_overhead"
  by (simp add: gcm_tag_def big_endian_def Let_def)

lemma keystream_length: "length key = 32 \<Longrightarrow> length (keystream key nonce n) = n"
proof -
  assume "length key = 32"
  then have "length (concat (map (\<lambda>i. aes_block key (counter_block nonce (i + 2))) [0..<(n + 15) div 16])) = (n + 15) div 16 * 16"
    by (subst concat_length [where k = 16]) (auto simp: aes_block_length)
  moreover have "n \<le> (n + 15) div 16 * 16" by presburger
  ultimately show ?thesis by (simp add: keystream_def)
qed

lemma gcm_seal_length: "length key = 32 \<Longrightarrow> length (gcm_seal key nonce plaintext aad) = length plaintext + gcm_overhead"
  by (simp add: gcm_seal_def Let_def keystream_length)

theorem gcm_open_seal:
  assumes "length key = 32"
  shows "gcm_open key nonce (gcm_seal key nonce plaintext aad) aad = Some plaintext"
proof -
  have "length (xor_list (octets plaintext) (keystream (octets key) (octets nonce) (length plaintext))) = length plaintext"
    by (simp add: assms keystream_length)
  then show ?thesis
    using assms by (simp add: gcm_open_def gcm_seal_def Let_def keystream_length xor_list_twice)
qed

end
