(* ===== verification/Envelope.thy ===== *)
theory Envelope
  imports Aes_Gcm Tokens Service_Types
begin

text \<open>
  \<open>internal/crypto\<close>: the keyring that encrypts secrets, and the vault that binds a provider credential
  to the account, the provider type and the revision it belongs to. An AEAD is the key it was made from;
  the parser of \<open>google/uuid\<close> is a parameter that returns the 128 bits of the identifier.
\<close>

unbundle bit_operations_syntax

datatype crypto_error = ErrAuthenticationFailed | ErrInvalidCredentialContext | CryptoFailure string

section \<open>The keyring\<close>

definition MasterKeySize :: nat where "MasterKeySize = 32"
definition maximumPlaintextSize :: nat where "maximumPlaintextSize = 1048576"

record envelope =
  env_activeVersion :: int
  env_aeads :: "(int \<times> string) list"

text \<open>A Go map has each key once; \<open>masterKeys\<close> lists its entries in the order of the iteration.\<close>

fun add_aeads :: "(int \<times> string) list \<Rightarrow> crypto_error + (int \<times> string) list" where
  "add_aeads [] = Inr []"
| "add_aeads ((version, masterKey) # ks) =
     (if version \<le> 0 \<or> length masterKey \<noteq> MasterKeySize
      then Inl (CryptoFailure ''master key version must be positive and contain exactly 32 bytes'')
      else and_then (add_aeads ks) (\<lambda>aeads. Inr ((version, masterKey) # aeads)))"

definition NewKeyringEnvelope :: "int \<Rightarrow> (int \<times> string) list \<Rightarrow> crypto_error + envelope" where
  "NewKeyringEnvelope activeVersion masterKeys =
     (if activeVersion \<le> 0 \<or> masterKeys = []
      then Inl (CryptoFailure ''master keyring requires a positive active version'')
      else and_then (add_aeads masterKeys) (\<lambda>aeads.
        if map_of aeads activeVersion = None
        then Inl (CryptoFailure ''active master key version is missing from keyring'')
        else Inr \<lparr>env_activeVersion = activeVersion, env_aeads = aeads\<rparr>))"

definition ActiveKeyVersion :: "envelope option \<Rightarrow> int" where
  "ActiveKeyVersion e = (case e of None \<Rightarrow> 0 | Some e \<Rightarrow> env_activeVersion e)"

definition KeyVersions :: "envelope option \<Rightarrow> int list" where
  "KeyVersions e = (case e of None \<Rightarrow> [] | Some e \<Rightarrow> sort (map fst (env_aeads e)))"

definition SupportsKeyVersion :: "envelope option \<Rightarrow> int \<Rightarrow> bool" where
  "SupportsKeyVersion e version = (case e of None \<Rightarrow> False | Some e \<Rightarrow> map_of (env_aeads e) version \<noteq> None)"

definition envelope_Encrypt ::
  "envelope option \<Rightarrow> entropy option \<Rightarrow> string \<Rightarrow> string \<Rightarrow> crypto_error + string \<times> string \<times> int" where
  "envelope_Encrypt env random plaintext aad =
     (case env of None \<Rightarrow> Inl (CryptoFailure ''secret plaintext size is invalid'')
      | Some e \<Rightarrow>
         if length plaintext = 0 \<or> length plaintext > maximumPlaintextSize
         then Inl (CryptoFailure ''secret plaintext size is invalid'')
         else (case map_of (env_aeads e) (env_activeVersion e) of
           None \<Rightarrow> Inl (CryptoFailure ''secret envelope is not initialized'')
         | Some key \<Rightarrow>
             (case random of None \<Rightarrow> Inl (CryptoFailure ''generate encryption nonce'')
              | Some f \<Rightarrow>
                 (let nonce = random_bytes f gcm_nonce_size
                  in Inr (gcm_seal key nonce plaintext aad, nonce, env_activeVersion e)))))"

definition envelope_Decrypt :: "envelope \<Rightarrow> string \<Rightarrow> string \<Rightarrow> string \<Rightarrow> int \<Rightarrow> crypto_error + string" where
  "envelope_Decrypt e ciphertext nonce aad keyVersion =
     (case map_of (env_aeads e) keyVersion of
        None \<Rightarrow> Inl ErrAuthenticationFailed
      | Some key \<Rightarrow>
          if length nonce \<noteq> gcm_nonce_size \<or> length ciphertext \<le> gcm_overhead
             \<or> length ciphertext > maximumPlaintextSize + gcm_overhead
          then Inl ErrAuthenticationFailed
          else (case gcm_open key nonce ciphertext aad of
                  None \<Rightarrow> Inl ErrAuthenticationFailed | Some plaintext \<Rightarrow> Inr plaintext))"

text \<open>What the constructor establishes: every key has its size and the active version is there.\<close>

definition keyring_ok :: "envelope \<Rightarrow> bool" where
  "keyring_ok e \<longleftrightarrow>
     (\<forall>(v, k) \<in> set (env_aeads e). v > 0 \<and> length k = MasterKeySize)
     \<and> map_of (env_aeads e) (env_activeVersion e) \<noteq> None"

lemma add_aeads_Inr:
  "add_aeads ks = Inr as \<longleftrightarrow> as = ks \<and> (\<forall>(v, k) \<in> set ks. v > 0 \<and> length k = MasterKeySize)"
  by (induction ks arbitrary: as rule: add_aeads.induct) (auto simp: and_then_Inr)

lemma NewKeyringEnvelope_ok: "NewKeyringEnvelope v ks = Inr e \<Longrightarrow> keyring_ok e \<and> env_activeVersion e = v \<and> v > 0"
  by (auto simp: NewKeyringEnvelope_def and_then_Inr add_aeads_Inr keyring_ok_def split: if_splits)

lemma keyring_key: "keyring_ok e \<Longrightarrow> map_of (env_aeads e) v = Some k \<Longrightarrow> v > 0 \<and> length k = MasterKeySize"
  by (auto simp: keyring_ok_def dest: map_of_SomeD)

lemma envelope_round_trip:
  assumes "keyring_ok e" and "envelope_Encrypt (Some e) random plaintext aad = Inr (c, n, v)"
  shows "envelope_Decrypt e c n aad v = Inr plaintext \<and> v = env_activeVersion e"
proof -
  from assms(2) obtain key f where k: "map_of (env_aeads e) v = Some key" "v = env_activeVersion e"
    "n = random_bytes f gcm_nonce_size" "c = gcm_seal key n plaintext aad"
    "0 < length plaintext" "length plaintext \<le> maximumPlaintextSize"
    by (auto simp: envelope_Encrypt_def Let_def not_less split: if_splits option.splits)
  have "length key = 32" using keyring_key [OF assms(1) k(1)] by (simp add: MasterKeySize_def)
  then have "length c = length plaintext + gcm_overhead" "gcm_open key n c aad = Some plaintext"
    using k(4) by (simp_all add: gcm_seal_length gcm_open_seal)
  moreover have "length n = gcm_nonce_size" using k(3) by simp
  ultimately show ?thesis using k(1,2,5,6) by (simp add: envelope_Decrypt_def)
qed

text \<open>Rotating the active key keeps what an older key of the keyring encrypted readable.\<close>

lemma envelope_rotation:
  assumes "keyring_ok e" and "envelope_Encrypt (Some e) random plaintext aad = Inr (c, n, v)"
    and "map_of (env_aeads e') v = map_of (env_aeads e) v"
  shows "envelope_Decrypt e' c n aad v = Inr plaintext"
proof -
  have "envelope_Decrypt e' c n aad v = envelope_Decrypt e c n aad v"
    by (simp only: envelope_Decrypt_def assms(3))
  then show ?thesis using conjunct1 [OF envelope_round_trip [OF assms(1,2)]] by simp
qed

section \<open>The credential vault\<close>

definition credential_provider_type :: "string \<Rightarrow> bool" where
  "credential_provider_type s \<longleftrightarrow>
     (case s of [] \<Rightarrow> False
      | c # cs \<Rightarrow> is_lower c \<and> length cs \<le> 63
          \<and> list_all (\<lambda>c. is_lower c \<or> is_digit c \<or> c = CHR ''_'' \<or> c = CHR ''-'') cs)"

definition be_bytes :: "nat \<Rightarrow> 'a::len word \<Rightarrow> string" where
  "be_bytes k w = chars (big_endian k w)"

definition writeCredentialAADBytes :: "string \<Rightarrow> string" where
  "writeCredentialAADBytes value = be_bytes 4 (of_nat (length value) :: 32 word) @ value"

definition credentialAAD :: "(string \<Rightarrow> 128 word option) \<Rightarrow> credential_context \<Rightarrow> int \<Rightarrow> crypto_error + string" where
  "credentialAAD parse_uuid context keyVersion =
     (case parse_uuid (cc_ProviderAccountID context) of
        None \<Rightarrow> Inl ErrInvalidCredentialContext
      | Some accountID \<Rightarrow>
          if \<not> credential_provider_type (cc_ProviderType context) \<or> cc_CredentialRevision context = 0 \<or> keyVersion \<le> 0
          then Inl ErrInvalidCredentialContext
          else Inr (writeCredentialAADBytes ''aster-dns/provider-credential/v1''
                 @ writeCredentialAADBytes (be_bytes 16 accountID)
                 @ writeCredentialAADBytes (cc_ProviderType context)
                 @ be_bytes 8 (cc_CredentialRevision context)
                 @ be_bytes 4 (word_of_int keyVersion :: 32 word)))"

definition NewCredentialVault :: "envelope option \<Rightarrow> crypto_error + envelope" where
  "NewCredentialVault envelope =
     (case envelope of None \<Rightarrow> Inl (CryptoFailure ''credential vault envelope is required'') | Some e \<Rightarrow> Inr e)"

definition vault_Encrypt ::
  "(string \<Rightarrow> 128 word option) \<Rightarrow> envelope \<Rightarrow> entropy option \<Rightarrow> string \<Rightarrow> credential_context \<Rightarrow> crypto_error + encrypted_credential" where
  "vault_Encrypt parse_uuid v random plaintext context =
     (if length plaintext = 0 then Inl (CryptoFailure ''provider credential plaintext is required'')
      else
        (let keyVersion = ActiveKeyVersion (Some v) in
         and_then (credentialAAD parse_uuid context keyVersion) (\<lambda>aad.
         and_then (envelope_Encrypt (Some v) random plaintext aad) (\<lambda>(ciphertext, nonce, encryptedVersion).
         Inr \<lparr>ec_Ciphertext = ciphertext, ec_Nonce = nonce, ec_KeyVersion = encryptedVersion\<rparr>))))"

definition vault_Decrypt ::
  "(string \<Rightarrow> 128 word option) \<Rightarrow> envelope \<Rightarrow> encrypted_credential \<Rightarrow> credential_context \<Rightarrow> crypto_error + string" where
  "vault_Decrypt parse_uuid v encrypted context =
     (if length (ec_Ciphertext encrypted) = 0 \<or> length (ec_Nonce encrypted) = 0 \<or> ec_KeyVersion encrypted \<le> 0
      then Inl ErrAuthenticationFailed
      else and_then (credentialAAD parse_uuid context (ec_KeyVersion encrypted)) (\<lambda>aad.
        envelope_Decrypt v (ec_Ciphertext encrypted) (ec_Nonce encrypted) aad (ec_KeyVersion encrypted)))"

section \<open>What the additional data says\<close>

lemma be_bytes_length [simp]: "length (be_bytes k w) = k"
  by (simp add: be_bytes_def big_endian_def)

lemma big_endian_bit:
  assumes "i < k" and "n < 8"
  shows "bit (big_endian k w ! i) n \<longleftrightarrow> bit w (8 * (k - 1 - i) + n)"
  using assms by (simp add: big_endian_def bit_simps)

lemma big_endian_inject:
  fixes v w :: "'a::len word"
  assumes "big_endian k v = big_endian k w" and "LENGTH('a) \<le> 8 * k"
  shows "v = w"
proof (rule bit_word_eqI)
  fix n
  assume n: "n < LENGTH('a)"
  define i where "i = k - 1 - n div 8"
  have "n div 8 < k" using n assms(2) by linarith
  then have i: "i < k" "8 * (k - 1 - i) + n mod 8 = n" by (auto simp: i_def)
  have "bit (big_endian k v ! i) (n mod 8) = bit (big_endian k w ! i) (n mod 8)" using assms(1) by simp
  then show "bit v n = bit w n" 
    using big_endian_bit [OF i(1), of "n mod 8" v] big_endian_bit [OF i(1), of "n mod 8" w] i(2) by simp
qed

lemma chars_inject: "chars xs = chars ys \<longleftrightarrow> xs = ys"
  by (metis octets_chars)

lemma be_bytes_inject: "LENGTH('a::len) \<le> 8 * k \<Longrightarrow> be_bytes k (v :: 'a word) = be_bytes k w \<longleftrightarrow> v = w"
  by (auto simp: be_bytes_def chars_inject dest: big_endian_inject)

lemma credential_provider_type_length: "credential_provider_type s \<Longrightarrow> length s < 65"
  by (auto simp: credential_provider_type_def split: list.splits)

lemma written_inject:
  assumes "writeCredentialAADBytes x @ r = writeCredentialAADBytes y @ r'" and "length x < 2 ^ 32" and "length y < 2 ^ 32"
  shows "x = y \<and> r = r'"
proof -
  have "(of_nat (length x) :: 32 word) = of_nat (length y)" and e: "x @ r = y @ r'"
    using assms(1) by (auto simp: writeCredentialAADBytes_def be_bytes_inject)
  then have "length x = length y"
    using assms(2,3) by (simp add: word_of_nat_eq_iff take_bit_nat_eq_self)
  with e show ?thesis by simp
qed

text \<open>The additional data of two contexts is equal only if they name the same account, type, revision and key.\<close>

lemma credentialAAD_inject:
  assumes "credentialAAD p c k = Inr a" and "credentialAAD p c' k' = Inr a"
  shows "p (cc_ProviderAccountID c) = p (cc_ProviderAccountID c') \<and> cc_ProviderType c = cc_ProviderType c'
    \<and> cc_CredentialRevision c = cc_CredentialRevision c' \<and> (word_of_int k :: 32 word) = word_of_int k'"
proof -
  obtain i i' where
    "p (cc_ProviderAccountID c) = Some i" "credential_provider_type (cc_ProviderType c)"
    "p (cc_ProviderAccountID c') = Some i'" "credential_provider_type (cc_ProviderType c')"
    and e: "writeCredentialAADBytes (be_bytes 16 i) @ writeCredentialAADBytes (cc_ProviderType c)
        @ be_bytes 8 (cc_CredentialRevision c) @ be_bytes 4 (word_of_int k :: 32 word)
      = writeCredentialAADBytes (be_bytes 16 i') @ writeCredentialAADBytes (cc_ProviderType c')
        @ be_bytes 8 (cc_CredentialRevision c') @ be_bytes 4 (word_of_int k' :: 32 word)"
    using assms by (auto simp: credentialAAD_def split: option.splits if_splits)
  moreover from written_inject [OF e] have "be_bytes 16 i = be_bytes 16 i'"
    and t: "writeCredentialAADBytes (cc_ProviderType c) @ be_bytes 8 (cc_CredentialRevision c) @ be_bytes 4 (word_of_int k :: 32 word)
      = writeCredentialAADBytes (cc_ProviderType c') @ be_bytes 8 (cc_CredentialRevision c') @ be_bytes 4 (word_of_int k' :: 32 word)"
    by simp_all
  moreover from written_inject [OF t] have "cc_ProviderType c = cc_ProviderType c'"
    "be_bytes 8 (cc_CredentialRevision c) = be_bytes 8 (cc_CredentialRevision c')"
    "be_bytes 4 (word_of_int k :: 32 word) = be_bytes 4 (word_of_int k' :: 32 word)"
    using credential_provider_type_length calculation(2,4) by fastforce+
  ultimately show ?thesis by (simp add: be_bytes_inject)
qed

section \<open>The vault\<close>

text \<open>C32: The round trip of the credential vault: what it encrypts in a context is decrypted in that context to the
  same bytes, by the vault itself and by any later vault whose keyring still has the key, whatever its active
  version is.\<close>

theorem vault_round_trip:
  assumes "keyring_ok v" and "vault_Encrypt parse_uuid v random plaintext context = Inr c"
    and "map_of (env_aeads v') (ec_KeyVersion c) = map_of (env_aeads v) (ec_KeyVersion c)"
  shows "vault_Decrypt parse_uuid v' c context = Inr plaintext"
proof -
  from assms(2) obtain aad ct n k where aad: "credentialAAD parse_uuid context (env_activeVersion v) = Inr aad"
    and e: "envelope_Encrypt (Some v) random plaintext aad = Inr (ct, n, k)" and p: "plaintext \<noteq> []"
    and c: "c = \<lparr>ec_Ciphertext = ct, ec_Nonce = n, ec_KeyVersion = k\<rparr>"
    by (auto simp: vault_Encrypt_def ActiveKeyVersion_def and_then_Inr split: if_splits)
  note k = conjunct2 [OF envelope_round_trip [OF assms(1) e]]
  have d: "envelope_Decrypt v' ct n aad k = Inr plaintext"
    using envelope_rotation [OF assms(1) e] assms(3) c by simp
  then have "ct \<noteq> []" "n \<noteq> []"
    by (auto simp: envelope_Decrypt_def gcm_nonce_size_def split: option.splits if_splits)
  moreover have "k > 0" using aad k by (auto simp: credentialAAD_def split: option.splits if_splits)
  ultimately show ?thesis using d aad k c by (simp add: vault_Decrypt_def)
qed

text \<open>A credential is bound to its place: what the vault authenticates with a ciphertext differs for two contexts
  that differ in the account, the provider type, the revision or the key version, so a stored ciphertext that
  is moved to another account or to another revision is opened with other data than it was sealed with.\<close>

theorem credential_context_bound:
  assumes "credentialAAD parse_uuid context k = Inr aad" and "credentialAAD parse_uuid context' k' = Inr aad'"
    and "parse_uuid (cc_ProviderAccountID context) \<noteq> parse_uuid (cc_ProviderAccountID context')
      \<or> cc_ProviderType context \<noteq> cc_ProviderType context' \<or> cc_CredentialRevision context \<noteq> cc_CredentialRevision context'
      \<or> (word_of_int k :: 32 word) \<noteq> word_of_int k'"
  shows "aad \<noteq> aad'"
  using credentialAAD_inject [OF assms(1), of context' k'] assms(2,3) by blast

end
