(* ===== verification/Auth_Types.thy ===== *)
theory Auth_Types
  imports Envelope Provider_Store
begin

text \<open>
  \<open>errors.go\<close> and \<open>models.go\<close> of \<open>internal/auth\<close>, and the world the authentication service lives in: the
  database of the provider store with the tables of users, sessions, passkeys, TOTP credentials and
  challenges, the two rate limiters, and \<open>aw_outside\<close>, everything else - the clock, random bytes, the
  password hasher, WebAuthn - which no operation of the code can reach into. The library calls are
  functions on that part of the world only.
\<close>

section \<open>Errors\<close>

text \<open>\<open>AuthWrapped e m\<close> is \<open>fmt.Errorf("%w: ...")\<close> with its whole text, \<open>AuthFailure\<close> is \<open>errors.New\<close>.\<close>

datatype auth_error =
    ErrUnauthenticated | ErrForbidden | ErrInvalidInput | ErrInvalidCredentials | ErrRateLimited | ErrNotFound
  | ErrConflict | ErrChallengeExpired | ErrChallengeReplayed | ErrBootstrapUnavailable | ErrPasswordLoginDisabled
  | ErrLastAuthentication | ErrLastAdmin | ErrSecretTampered
  | AuthWrapped auth_error string
  | AuthFailure string

fun auth_root :: "auth_error \<Rightarrow> auth_error" where
  "auth_root (AuthWrapped e m) = auth_root e"
| "auth_root e = e"

type_synonym ('w, 'a) acall = "('w, auth_error, 'a) outcome"

section \<open>Models\<close>

datatype AuthMethod = AuthMethodNone | AuthMethodPasskey | AuthMethodPassword

fun auth_method_string :: "AuthMethod \<Rightarrow> string" where
  "auth_method_string AuthMethodNone = []"
| "auth_method_string AuthMethodPasskey = ''passkey''"
| "auth_method_string AuthMethodPassword = ''password''"

datatype ChallengeKind =
    ChallengeBootstrapRegistration | ChallengeEnrollmentGrant | ChallengeEnrollmentRegistration
  | ChallengePasskeyRegistration | ChallengePasskeyLogin | ChallengePendingTOTP

text \<open>
  \<open>webauthn.Credential\<close> is a type of a library: the fields the code uses, and the rest of the value.
\<close>

record webauthn_credential =
  wc_ID :: string
  wc_PublicKey :: string
  wc_Transport :: "string list"
  wc_BackupEligible :: bool
  wc_BackupState :: bool
  wc_AAGUID :: string
  wc_SignCount :: "32 word"
  wc_CloneWarning :: bool
  wc_Other :: string

record passkey =
  pk_ID :: uuid
  pk_UserID :: uuid
  pk_Name :: string
  pk_Credential :: webauthn_credential
  pk_CreatedAt :: time
  pk_LastUsedAt :: "time option"

record user =
  us_ID :: uuid
  us_WebAuthnUserHandle :: string
  us_Username :: string
  us_Email :: string
  us_DisplayName :: string
  us_Role :: Role
  us_PasswordHash :: string
  us_PasswordEnabled :: bool
  us_TOTPRequired :: bool
  us_DisabledAt :: "time option"
  us_CreatedAt :: time
  us_UpdatedAt :: time
  us_Passkeys :: "passkey list"

definition WebAuthnDisplayName :: "user \<Rightarrow> string" where
  "WebAuthnDisplayName u = (if us_DisplayName u \<noteq> [] then us_DisplayName u else us_Username u)"

definition WebAuthnCredentials :: "user \<Rightarrow> webauthn_credential list" where
  "WebAuthnCredentials u = map pk_Credential (us_Passkeys u)"

definition Disabled :: "user \<Rightarrow> bool" where
  "Disabled u \<longleftrightarrow> us_DisabledAt u \<noteq> None"

record session =
  ss_ID :: uuid
  ss_UserID :: uuid
  ss_TokenHash :: string
  ss_CSRFTokenHash :: string
  ss_IP :: string
  ss_UserAgent :: string
  ss_AuthMethod :: AuthMethod
  ss_CreatedAt :: time
  ss_LastSeenAt :: time
  ss_IdleExpiresAt :: time
  ss_AbsoluteExpiresAt :: time
  ss_RevokedAt :: "time option"

record authenticated_session =
  as_Session :: session
  as_User :: user

record challenge =
  ch_ID :: uuid
  ch_TokenHash :: string
  ch_Kind :: ChallengeKind
  ch_UserID :: "uuid option"
  ch_SessionID :: "uuid option"
  ch_ParentID :: "uuid option"
  ch_WebAuthnSession :: string
  ch_Payload :: string
  ch_AuthMethod :: AuthMethod
  ch_Attempts :: int
  ch_CreatedAt :: time
  ch_ExpiresAt :: time

record totp_credential =
  tc_UserID :: uuid
  tc_SecretCiphertext :: string
  tc_SecretNonce :: string
  tc_KeyVersion :: int
  tc_CredentialRevision :: int
  tc_ConfirmedAt :: "time option"
  tc_LastAcceptedTimestep :: "int option"
  tc_CreatedAt :: time
  tc_UpdatedAt :: time

record user_changes =
  uc_DisplayName :: "string option"
  uc_Email :: "string option"
  uc_Role :: "Role option"
  uc_PasswordHash :: string
  uc_SetPasswordHash :: bool
  uc_PasswordEnabled :: "bool option"
  uc_TOTPRequired :: "bool option"

definition no_changes :: user_changes where
  "no_changes =
     \<lparr>uc_DisplayName = None, uc_Email = None, uc_Role = None, uc_PasswordHash = [], uc_SetPasswordHash = False,
      uc_PasswordEnabled = None, uc_TOTPRequired = None\<rparr>"

text \<open>\<open>MarshalCredential\<close> and \<open>UnmarshalCredential\<close>, over the library's encoder and decoder.\<close>

definition MarshalCredential :: "(webauthn_credential \<Rightarrow> string option) \<Rightarrow> passkey \<Rightarrow> auth_error + string" where
  "MarshalCredential marshal p =
     (case marshal (pk_Credential p) of
        None \<Rightarrow> Inl (AuthFailure ''encode WebAuthn credential'') | Some encoded \<Rightarrow> Inr encoded)"

definition UnmarshalCredential ::
  "(string \<Rightarrow> (webauthn_credential \<times> string) option) \<Rightarrow> string \<Rightarrow> auth_error + webauthn_credential" where
  "UnmarshalCredential unmarshal encoded =
     (case unmarshal encoded of
        Some (credential, remaining) \<Rightarrow>
          if remaining \<noteq> [] then Inl (AuthFailure ''decode WebAuthn credential'') else Inr credential
      | None \<Rightarrow> Inl (AuthFailure ''decode WebAuthn credential''))"

section \<open>Rows\<close>

record user_row =
  ur_id :: uuid
  ur_handle :: "string option"
  ur_username :: string
  ur_display_name :: string
  ur_email :: string
  ur_role :: string
  ur_password_hash :: "string option"
  ur_password_enabled :: bool
  ur_totp_required :: bool
  ur_disabled_at :: "time option"
  ur_created_at :: time
  ur_updated_at :: time

record session_row =
  sr_id :: uuid
  sr_user_id :: uuid
  sr_token_hash :: string
  sr_csrf_token_hash :: string
  sr_ip :: "string option"
  sr_user_agent :: string
  sr_auth_method :: AuthMethod
  sr_created_at :: time
  sr_last_seen_at :: time
  sr_idle_expires_at :: time
  sr_absolute_expires_at :: time
  sr_revoked_at :: "time option"

record passkey_row =
  pr_id :: uuid
  pr_user_id :: uuid
  pr_credential_id :: string
  pr_public_key :: string
  pr_sign_count :: int
  pr_transports :: string
  pr_aaguid :: "string option"
  pr_backup_eligible :: bool
  pr_backed_up :: bool
  pr_name :: string
  pr_credential_data :: "string option"
  pr_created_at :: time
  pr_last_used_at :: "time option"

record challenge_row =
  cr_id :: uuid
  cr_token_hash :: string
  cr_kind :: ChallengeKind
  cr_user_id :: "uuid option"
  cr_session_id :: "uuid option"
  cr_parent_id :: "uuid option"
  cr_webauthn_session :: "string option"
  cr_payload :: string
  cr_auth_method :: "AuthMethod option"
  cr_attempts :: int
  cr_created_at :: time
  cr_expires_at :: time

record auth_store = store +
  au_users :: "user_row list"
  au_sessions :: "session_row list"
  au_passkeys :: "passkey_row list"
  au_totp :: "totp_credential list"
  au_challenges :: "challenge_row list"

text \<open>
  What the code asks of PostgreSQL and of the encoders beyond the provider store: reading an \<open>inet\<close>, the
  checks on lengths, and the encodings of a passkey.
\<close>

record auth_db = db_env +
  ad_inet :: "string \<Rightarrow> string option"
  ad_user_ok :: "user_row \<Rightarrow> bool"
  ad_session_ok :: "session_row \<Rightarrow> bool"
  ad_passkey_ok :: "passkey_row \<Rightarrow> bool"
  ad_marshal :: "webauthn_credential \<Rightarrow> string option"
  ad_unmarshal :: "string \<Rightarrow> (webauthn_credential \<times> string) option"
  ad_transports :: "string list \<Rightarrow> string option"

end
