(* ===== verification/Auth_Store.thy ===== *)
theory Auth_Store
  imports Auth_Types Zone_Store
begin

text \<open>
  \<open>AuthStore\<close> of \<open>internal/db/auth_*.go\<close>: each statement is a function on the tables, with the constraints
  of \<open>migrations/\<close>. A statement may also fail for another reason, as in the provider store.
\<close>

definition mapAuthStoreError :: "string \<Rightarrow> pg_error \<Rightarrow> auth_error" where
  "mapAuthStoreError operation e =
     (case e of
        PgNoRows \<Rightarrow> ErrNotFound
      | PgUniqueViolation \<Rightarrow> AuthWrapped ErrConflict (''authentication state conflict: '' @ operation)
      | PgSerializationFailure \<Rightarrow> AuthWrapped ErrConflict (''authentication state conflict: '' @ operation)
      | PgForeignKeyViolation \<Rightarrow> AuthWrapped ErrInvalidInput (''invalid authentication input: '' @ operation)
      | PgCheckViolation \<Rightarrow> AuthWrapped ErrInvalidInput (''invalid authentication input: '' @ operation)
      | PgOther \<Rightarrow> AuthFailure operation)"

text \<open>The errors of the store that mean that there was no row.\<close>

lemma mapAuthStoreError_NotFound [simp]: "auth_root (mapAuthStoreError op e) = ErrNotFound \<longleftrightarrow> e = PgNoRows"
  by (cases e) (simp_all add: mapAuthStoreError_def)

definition query :: "string \<Rightarrow> ('a auth_store_scheme \<Rightarrow> pg_error + 'a auth_store_scheme \<times> 'b) \<Rightarrow> ('a auth_store_scheme, 'b) acall" where
  "query operation f = sql (mapAuthStoreError operation) f"

definition auth_rollback :: "'a auth_store_scheme \<Rightarrow> 'a auth_store_scheme \<Rightarrow> 'a auth_store_scheme" where
  "auth_rollback s s1 =
     s1\<lparr>st_accounts := st_accounts s, st_zones := st_zones s, st_events := st_events s, st_in_tx := False,
        au_users := au_users s, au_sessions := au_sessions s, au_passkeys := au_passkeys s, au_totp := au_totp s,
        au_challenges := au_challenges s\<rparr>"

definition auth_WithinTx :: "('a auth_store_scheme, 'b) acall \<Rightarrow> ('a auth_store_scheme, 'b) acall" where
  "auth_WithinTx operation =
     run_tx (AuthFailure ''nested authentication transaction is not supported'')
       (AuthFailure ''begin authentication transaction'') (mapAuthStoreError ''commit authentication transaction'')
       auth_rollback operation"

definition auth_InsertAuditEvent :: "auth_db \<Rightarrow> audit_event \<Rightarrow> ('a auth_store_scheme, unit) acall" where
  "auth_InsertAuditEvent Q e =
     query ''insert audit event'' (insert_event_row (db_env.truncate Q) (stored_event (db_env.truncate Q) e))"

section \<open>Users\<close>

definition user_of_row :: "user_row \<Rightarrow> user" where
  "user_of_row r =
     \<lparr>us_ID = ur_id r, us_WebAuthnUserHandle = (case ur_handle r of None \<Rightarrow> [] | Some h \<Rightarrow> h), us_Username = ur_username r,
      us_Email = ur_email r, us_DisplayName = ur_display_name r, us_Role = ur_role r,
      us_PasswordHash = (case ur_password_hash r of None \<Rightarrow> [] | Some h \<Rightarrow> h), us_PasswordEnabled = ur_password_enabled r,
      us_TOTPRequired = ur_totp_required r, us_DisabledAt = ur_disabled_at r, us_CreatedAt = ur_created_at r,
      us_UpdatedAt = ur_updated_at r, us_Passkeys = []\<rparr>"

definition active_admin :: "user_row \<Rightarrow> bool" where
  "active_admin r \<longleftrightarrow> ur_role r = ''admin'' \<and> ur_disabled_at r = None"

definition CountUsers :: "('a auth_store_scheme, int) acall" where
  "CountUsers = query ''count users'' (\<lambda>s. Inr (s, int (length (au_users s))))"

definition CountActiveAdmins :: "('a auth_store_scheme, int) acall" where
  "CountActiveAdmins =
     query ''count active administrators'' (\<lambda>s. Inr (s, int (length (filter active_admin (au_users s)))))"

definition scanPasskey :: "auth_db \<Rightarrow> passkey_row \<Rightarrow> auth_error + passkey" where
  "scanPasskey Q r =
     (case pr_credential_data r of
        None \<Rightarrow> Inl (AuthFailure ''passkey credential data is unavailable'')
      | Some credentialData \<Rightarrow>
          if credentialData = [] then Inl (AuthFailure ''passkey credential data is unavailable'')
          else and_then (UnmarshalCredential (ad_unmarshal Q) credentialData) (\<lambda>credential.
            Inr \<lparr>pk_ID = pr_id r, pk_UserID = pr_user_id r, pk_Name = pr_name r, pk_Credential = credential,
                 pk_CreatedAt = pr_created_at r, pk_LastUsedAt = pr_last_used_at r\<rparr>))"

definition user_passkeys :: "uuid \<Rightarrow> 'a auth_store_scheme \<Rightarrow> passkey_row list" where
  "user_passkeys i s = filter (\<lambda>r. pr_user_id r = i) (au_passkeys s)"

definition ListPasskeys :: "auth_db \<Rightarrow> uuid \<Rightarrow> ('a auth_store_scheme, passkey list) acall" where
  "ListPasskeys Q userID =
     seq (query ''list passkeys'' (\<lambda>s. Inr (s, sort_key (\<lambda>r. (pr_created_at r, pr_id r)) (user_passkeys userID s)))) (\<lambda>rows.
     checked (traverse (scanPasskey Q) rows))"

definition CountPasskeys :: "uuid \<Rightarrow> ('a auth_store_scheme, int) acall" where
  "CountPasskeys userID = query ''count passkeys'' (\<lambda>s. Inr (s, int (length (user_passkeys userID s))))"

definition loadUserPasskeys :: "auth_db \<Rightarrow> user \<Rightarrow> ('a auth_store_scheme, user) acall" where
  "loadUserPasskeys Q u = seq (ListPasskeys Q (us_ID u)) (\<lambda>passkeys. give (u\<lparr>us_Passkeys := passkeys\<rparr>))"

definition select_user :: "(user_row \<Rightarrow> bool) \<Rightarrow> 'a auth_store_scheme \<Rightarrow> pg_error + 'a auth_store_scheme \<times> user" where
  "select_user cond s =
     (case find cond (au_users s) of None \<Rightarrow> Inl PgNoRows | Some r \<Rightarrow> Inr (s, user_of_row r))"

definition GetUserByID :: "auth_db \<Rightarrow> uuid \<Rightarrow> ('a auth_store_scheme, user) acall" where
  "GetUserByID Q i = seq (query ''read user'' (select_user (\<lambda>r. ur_id r = i))) (loadUserPasskeys Q)"

definition GetUserByUsername :: "auth_db \<Rightarrow> string \<Rightarrow> ('a auth_store_scheme, user) acall" where
  "GetUserByUsername Q username =
     seq (query ''read user'' (select_user (\<lambda>r. de_lower Q (ur_username r) = de_lower Q username))) (loadUserPasskeys Q)"

definition GetUserByCredential :: "auth_db \<Rightarrow> string \<Rightarrow> string \<Rightarrow> ('a auth_store_scheme, user) acall" where
  "GetUserByCredential Q credentialID userHandle =
     seq (query ''read user'' (\<lambda>s.
            select_user (\<lambda>r. ur_handle r = Some userHandle
              \<and> list_ex (\<lambda>p. pr_user_id p = ur_id r \<and> pr_credential_id p = credentialID) (au_passkeys s)) s))
       (loadUserPasskeys Q)"

definition ListUsers :: "auth_db \<Rightarrow> ('a auth_store_scheme, user list) acall" where
  "ListUsers Q =
     query ''list users'' (\<lambda>s. Inr (s, map user_of_row
       (sort_key (\<lambda>r. (de_collation Q (de_lower Q (ur_username r)), ur_id r)) (au_users s))))"

definition user_row_ok :: "auth_db \<Rightarrow> user_row \<Rightarrow> bool" where
  "user_row_ok Q r \<longleftrightarrow>
     role_valid (ur_role r) \<and> (ur_password_enabled r \<longrightarrow> ur_password_hash r \<noteq> None) \<and> ad_user_ok Q r"

definition user_clash :: "auth_db \<Rightarrow> user_row \<Rightarrow> user_row \<Rightarrow> bool" where
  "user_clash Q r x \<longleftrightarrow>
     ur_id r = ur_id x \<or> de_lower Q (ur_username r) = de_lower Q (ur_username x)
     \<or> (ur_email r \<noteq> [] \<and> ur_email x \<noteq> [] \<and> de_lower Q (ur_email r) = de_lower Q (ur_email x))
     \<or> (ur_handle r \<noteq> None \<and> ur_handle r = ur_handle x)"

definition row_of_user :: "user \<Rightarrow> user_row" where
  "row_of_user u =
     \<lparr>ur_id = us_ID u, ur_handle = nullableString (us_WebAuthnUserHandle u), ur_username = us_Username u,
      ur_display_name = us_DisplayName u, ur_email = us_Email u, ur_role = us_Role u,
      ur_password_hash = nullableString (us_PasswordHash u), ur_password_enabled = us_PasswordEnabled u,
      ur_totp_required = us_TOTPRequired u, ur_disabled_at = map_option timestamptz (us_DisabledAt u),
      ur_created_at = timestamptz (us_CreatedAt u), ur_updated_at = timestamptz (us_UpdatedAt u)\<rparr>"

definition InsertUser :: "auth_db \<Rightarrow> user \<Rightarrow> ('a auth_store_scheme, unit) acall" where
  "InsertUser Q u =
     query ''insert user'' (\<lambda>s.
       let r = row_of_user u in
       if \<not> user_row_ok Q r then Inl PgCheckViolation
       else if list_ex (user_clash Q r) (au_users s) then Inl PgUniqueViolation
       else Inr (s\<lparr>au_users := au_users s @ [r]\<rparr>, ()))"

text \<open>\<open>UPDATE users SET ... WHERE id = $1 AND updated_at = $9 RETURNING ...\<close>.\<close>

definition update_user ::
  "auth_db \<Rightarrow> uuid \<Rightarrow> time \<Rightarrow> (user_row \<Rightarrow> user_row) \<Rightarrow> 'a auth_store_scheme \<Rightarrow> pg_error + 'a auth_store_scheme \<times> user" where
  "update_user Q i expectedUpdatedAt f s =
     (case find (\<lambda>r. ur_id r = i) (au_users s) of
        None \<Rightarrow> Inl PgNoRows
      | Some r \<Rightarrow>
          if ur_updated_at r \<noteq> timestamptz expectedUpdatedAt then Inl PgNoRows
          else
            (let r' = (f r)\<lparr>ur_updated_at := st_now s\<rparr> in
             if \<not> user_row_ok Q r' then Inl PgCheckViolation
             else if list_ex (\<lambda>x. ur_id x \<noteq> i \<and> user_clash Q r' x) (au_users s) then Inl PgUniqueViolation
             else Inr (s\<lparr>au_users := map (\<lambda>x. if ur_id x = i then r' else x) (au_users s)\<rparr>, user_of_row r')))"

definition missing_is_conflict :: "('w, 'b) acall \<Rightarrow> ('w, 'b) acall" where
  "missing_is_conflict m = attempt m (\<lambda>e. reject (if auth_root e = ErrNotFound then ErrConflict else e)) give"

definition or_else :: "'b option \<Rightarrow> 'b \<Rightarrow> 'b" where
  "or_else v d = (case v of None \<Rightarrow> d | Some x \<Rightarrow> x)"

definition apply_user_changes :: "user_changes \<Rightarrow> user_row \<Rightarrow> user_row" where
  "apply_user_changes ch r =
     r\<lparr>ur_display_name := or_else (uc_DisplayName ch) (ur_display_name r), ur_email := or_else (uc_Email ch) (ur_email r),
       ur_role := or_else (uc_Role ch) (ur_role r),
       ur_password_hash := (if uc_SetPasswordHash ch then nullableString (uc_PasswordHash ch) else ur_password_hash r),
       ur_password_enabled := or_else (uc_PasswordEnabled ch) (ur_password_enabled r),
       ur_totp_required := or_else (uc_TOTPRequired ch) (ur_totp_required r)\<rparr>"

definition UpdateUser :: "auth_db \<Rightarrow> uuid \<Rightarrow> time \<Rightarrow> user_changes \<Rightarrow> ('a auth_store_scheme, user) acall" where
  "UpdateUser Q i expectedUpdatedAt changes =
     missing_is_conflict (query ''read user'' (update_user Q i expectedUpdatedAt (apply_user_changes changes)))"

definition SetUserDisabled :: "auth_db \<Rightarrow> uuid \<Rightarrow> time \<Rightarrow> time option \<Rightarrow> ('a auth_store_scheme, user) acall" where
  "SetUserDisabled Q i expectedUpdatedAt disabledAt =
     missing_is_conflict (query ''read user'' (update_user Q i expectedUpdatedAt
       (\<lambda>r. r\<lparr>ur_disabled_at := map_option timestamptz disabledAt\<rparr>)))"

section \<open>Passkeys\<close>

definition passkey_row_ok :: "auth_db \<Rightarrow> passkey_row \<Rightarrow> bool" where
  "passkey_row_ok Q r \<longleftrightarrow>
     pr_sign_count r \<ge> 0 \<and> (pr_backed_up r \<longrightarrow> pr_backup_eligible r) \<and> pr_credential_data r \<noteq> Some [] \<and> ad_passkey_ok Q r"

definition row_of_passkey :: "passkey \<Rightarrow> string \<Rightarrow> string \<Rightarrow> passkey_row" where
  "row_of_passkey p transports credentialData =
     \<lparr>pr_id = pk_ID p, pr_user_id = pk_UserID p, pr_credential_id = wc_ID (pk_Credential p),
      pr_public_key = wc_PublicKey (pk_Credential p), pr_sign_count = uint (wc_SignCount (pk_Credential p)),
      pr_transports = transports, pr_aaguid = nullableString (wc_AAGUID (pk_Credential p)),
      pr_backup_eligible = wc_BackupEligible (pk_Credential p), pr_backed_up = wc_BackupState (pk_Credential p),
      pr_name = pk_Name p, pr_credential_data = Some credentialData, pr_created_at = timestamptz (pk_CreatedAt p),
      pr_last_used_at = map_option timestamptz (pk_LastUsedAt p)\<rparr>"

definition InsertPasskey :: "auth_db \<Rightarrow> passkey \<Rightarrow> ('a auth_store_scheme, unit) acall" where
  "InsertPasskey Q p =
     seq (checked (MarshalCredential (ad_marshal Q) p)) (\<lambda>credentialData.
     seq (checked (case ad_transports Q (wc_Transport (pk_Credential p)) of
            None \<Rightarrow> Inl (AuthFailure ''encode passkey transports'') | Some t \<Rightarrow> Inr t)) (\<lambda>transports.
     query ''insert passkey'' (\<lambda>s.
       let r = row_of_passkey p transports credentialData in
       if \<not> passkey_row_ok Q r then Inl PgCheckViolation
       else if list_ex (\<lambda>x. pr_id x = pr_id r \<or> pr_credential_id x = pr_credential_id r) (au_passkeys s)
       then Inl PgUniqueViolation
       else if \<not> list_ex (\<lambda>u. ur_id u = pk_UserID p) (au_users s) then Inl PgForeignKeyViolation
       else Inr (s\<lparr>au_passkeys := au_passkeys s @ [r]\<rparr>, ()))))"

definition DeletePasskey :: "auth_db \<Rightarrow> uuid \<Rightarrow> uuid \<Rightarrow> ('a auth_store_scheme, passkey) acall" where
  "DeletePasskey Q userID passkeyID =
     seq (query ''read passkey'' (\<lambda>s.
            case find (\<lambda>r. pr_id r = passkeyID \<and> pr_user_id r = userID) (au_passkeys s) of
              None \<Rightarrow> Inl PgNoRows
            | Some r \<Rightarrow>
                Inr (s\<lparr>au_passkeys := filter (\<lambda>r. \<not> (pr_id r = passkeyID \<and> pr_user_id r = userID)) (au_passkeys s)\<rparr>, r)))
       (\<lambda>r. checked (scanPasskey Q r))"

definition used_passkey :: "passkey \<Rightarrow> string \<Rightarrow> passkey_row \<Rightarrow> passkey_row" where
  "used_passkey p credentialData r =
     r\<lparr>pr_public_key := wc_PublicKey (pk_Credential p), pr_sign_count := uint (wc_SignCount (pk_Credential p)),
       pr_backup_eligible := wc_BackupEligible (pk_Credential p), pr_backed_up := wc_BackupState (pk_Credential p),
       pr_credential_data := Some credentialData, pr_last_used_at := map_option timestamptz (pk_LastUsedAt p)\<rparr>"

definition UpdatePasskey :: "auth_db \<Rightarrow> passkey \<Rightarrow> 32 word \<Rightarrow> ('a auth_store_scheme, unit) acall" where
  "UpdatePasskey Q p expectedSignCount =
     seq (checked (MarshalCredential (ad_marshal Q) p)) (\<lambda>credentialData.
     seq (query ''update passkey'' (\<lambda>s.
            let hit = (\<lambda>r. pr_id r = pk_ID p \<and> pr_user_id r = pk_UserID p \<and> pr_sign_count r = uint expectedSignCount);
                rows = filter hit (au_passkeys s) in
            if \<not> list_all (\<lambda>r. passkey_row_ok Q (used_passkey p credentialData r)) rows then Inl PgCheckViolation
            else Inr (s\<lparr>au_passkeys := map (\<lambda>r. if hit r then used_passkey p credentialData r else r) (au_passkeys s)\<rparr>,
                      length rows))) (\<lambda>n.
     if n = 1 then give ()
     else seq (query ''check passkey sign count''
                 (\<lambda>s. Inr (s, list_ex (\<lambda>r. pr_id r = pk_ID p \<and> pr_user_id r = pk_UserID p) (au_passkeys s))))
            (\<lambda>exists. reject (if exists then ErrConflict else ErrNotFound))))"

section \<open>Sessions\<close>

definition session_row_ok :: "auth_db \<Rightarrow> session_row \<Rightarrow> bool" where
  "session_row_ok Q r \<longleftrightarrow>
     length (sr_token_hash r) = 32 \<and> length (sr_csrf_token_hash r) = 32 \<and> sr_auth_method r \<noteq> AuthMethodNone
     \<and> sr_idle_expires_at r \<le> sr_absolute_expires_at r \<and> ad_session_ok Q r"

definition row_of_session :: "session \<Rightarrow> string option \<Rightarrow> session_row" where
  "row_of_session x ip =
     \<lparr>sr_id = ss_ID x, sr_user_id = ss_UserID x, sr_token_hash = ss_TokenHash x, sr_csrf_token_hash = ss_CSRFTokenHash x,
      sr_ip = ip, sr_user_agent = ss_UserAgent x, sr_auth_method = ss_AuthMethod x,
      sr_created_at = timestamptz (ss_CreatedAt x), sr_last_seen_at = timestamptz (ss_LastSeenAt x),
      sr_idle_expires_at = timestamptz (ss_IdleExpiresAt x), sr_absolute_expires_at = timestamptz (ss_AbsoluteExpiresAt x),
      sr_revoked_at = map_option timestamptz (ss_RevokedAt x)\<rparr>"

definition session_of_row :: "session_row \<Rightarrow> session" where
  "session_of_row r =
     \<lparr>ss_ID = sr_id r, ss_UserID = sr_user_id r, ss_TokenHash = sr_token_hash r, ss_CSRFTokenHash = sr_csrf_token_hash r,
      ss_IP = (case sr_ip r of None \<Rightarrow> [] | Some ip \<Rightarrow> ip), ss_UserAgent = sr_user_agent r,
      ss_AuthMethod = sr_auth_method r, ss_CreatedAt = sr_created_at r, ss_LastSeenAt = sr_last_seen_at r,
      ss_IdleExpiresAt = sr_idle_expires_at r, ss_AbsoluteExpiresAt = sr_absolute_expires_at r,
      ss_RevokedAt = sr_revoked_at r\<rparr>"

text \<open>The text of an address cast to \<open>inet\<close>; no text is \<open>NULL\<close>.\<close>

definition inet :: "auth_db \<Rightarrow> string \<Rightarrow> string option option" where
  "inet Q ip = (if ip = [] then Some None else map_option Some (ad_inet Q ip))"

definition InsertSession :: "auth_db \<Rightarrow> session \<Rightarrow> ('a auth_store_scheme, unit) acall" where
  "InsertSession Q x =
     query ''insert session'' (\<lambda>s.
       case inet Q (ss_IP x) of
         None \<Rightarrow> Inl PgOther
       | Some ip \<Rightarrow>
           (let r = row_of_session x ip in
            if \<not> session_row_ok Q r then Inl PgCheckViolation
            else if list_ex (\<lambda>y. sr_id y = sr_id r \<or> sr_token_hash y = sr_token_hash r) (au_sessions s)
            then Inl PgUniqueViolation
            else if \<not> list_ex (\<lambda>u. ur_id u = sr_user_id r) (au_users s) then Inl PgForeignKeyViolation
            else Inr (s\<lparr>au_sessions := au_sessions s @ [r]\<rparr>, ())))"

definition GetSessionByTokenHash :: "string \<Rightarrow> ('a auth_store_scheme, authenticated_session) acall" where
  "GetSessionByTokenHash tokenHash =
     query ''read session'' (\<lambda>s.
       case find (\<lambda>r. sr_token_hash r = tokenHash) (au_sessions s) of
         None \<Rightarrow> Inl PgNoRows
       | Some r \<Rightarrow>
           (case find (\<lambda>u. ur_id u = sr_user_id r) (au_users s) of
              None \<Rightarrow> Inl PgNoRows
            | Some u \<Rightarrow> Inr (s, \<lparr>as_Session = session_of_row r, as_User = user_of_row u\<rparr>)))"

definition change_sessions ::
  "(session_row \<Rightarrow> bool) \<Rightarrow> (session_row \<Rightarrow> session_row) \<Rightarrow> 'a auth_store_scheme \<Rightarrow> pg_error + 'a auth_store_scheme \<times> int" where
  "change_sessions cond f s =
     Inr (s\<lparr>au_sessions := map (\<lambda>r. if cond r then f r else r) (au_sessions s)\<rparr>,
          int (length (filter cond (au_sessions s))))"

definition TouchSession :: "uuid \<Rightarrow> time \<Rightarrow> time \<Rightarrow> ('a auth_store_scheme, unit) acall" where
  "TouchSession sessionID lastSeenAt idleExpiresAt =
     seq (query ''touch session'' (change_sessions
            (\<lambda>r. sr_id r = sessionID \<and> sr_revoked_at r = None \<and> sr_absolute_expires_at r > timestamptz lastSeenAt)
            (\<lambda>r. r\<lparr>sr_last_seen_at := timestamptz lastSeenAt,
                    sr_idle_expires_at := min (timestamptz idleExpiresAt) (sr_absolute_expires_at r)\<rparr>))) (\<lambda>n.
     if n \<noteq> 1 then reject ErrUnauthenticated else give ())"

definition revoked_at :: "time \<Rightarrow> session_row \<Rightarrow> session_row" where
  "revoked_at t r = r\<lparr>sr_revoked_at := Some (or_else (sr_revoked_at r) (timestamptz t))\<rparr>"

definition RevokeSession :: "uuid \<Rightarrow> uuid \<Rightarrow> time \<Rightarrow> ('a auth_store_scheme, bool) acall" where
  "RevokeSession userID sessionID t =
     seq (query ''revoke session'' (change_sessions
            (\<lambda>r. sr_id r = sessionID \<and> sr_user_id r = userID \<and> sr_revoked_at r = None) (revoked_at t))) (\<lambda>n.
     give (n = 1))"

definition RevokeAllSessions :: "uuid \<Rightarrow> uuid option \<Rightarrow> time \<Rightarrow> ('a auth_store_scheme, int) acall" where
  "RevokeAllSessions userID exceptID t =
     query ''revoke user sessions'' (change_sessions
       (\<lambda>r. sr_user_id r = userID \<and> sr_revoked_at r = None \<and> (exceptID = None \<or> exceptID \<noteq> Some (sr_id r))) (revoked_at t))"

definition ListSessions :: "uuid \<Rightarrow> ('a auth_store_scheme, session list) acall" where
  "ListSessions userID =
     query ''list sessions'' (\<lambda>s. Inr (s, map session_of_row (rev (sort_key (\<lambda>r. (sr_last_seen_at r, sr_id r))
       (filter (\<lambda>r. sr_user_id r = userID \<and> sr_revoked_at r = None \<and> sr_absolute_expires_at r > st_now s) (au_sessions s))))))"

section \<open>Challenges\<close>

text \<open>
  Deleting challenges takes those with them whose parent is gone (\<open>ON DELETE CASCADE\<close>); each round removes
  at least one of them or there are none left.
\<close>

fun drop_orphans :: "nat \<Rightarrow> challenge_row list \<Rightarrow> challenge_row list" where
  "drop_orphans 0 cs = cs"
| "drop_orphans (Suc n) cs =
     drop_orphans n (filter (\<lambda>c. case cr_parent_id c of None \<Rightarrow> True | Some p \<Rightarrow> list_ex (\<lambda>x. cr_id x = p) cs) cs)"

definition delete_challenges :: "(challenge_row \<Rightarrow> bool) \<Rightarrow> 'a auth_store_scheme \<Rightarrow> 'a auth_store_scheme" where
  "delete_challenges cond s =
     s\<lparr>au_challenges := drop_orphans (length (au_challenges s)) (filter (\<lambda>c. \<not> cond c) (au_challenges s))\<rparr>"

text \<open>Of equally old challenges PostgreSQL may take any into the hundred; here it is the first ones.\<close>

definition clean_expired :: "time \<Rightarrow> 'a auth_store_scheme \<Rightarrow> 'a auth_store_scheme" where
  "clean_expired t s =
     (let expired = map cr_id (take 100 (sort_key cr_expires_at (filter (\<lambda>c. cr_expires_at c \<le> t) (au_challenges s))))
      in delete_challenges (\<lambda>c. List.member expired (cr_id c)) s)"

definition row_of_challenge :: "challenge \<Rightarrow> string \<Rightarrow> challenge_row" where
  "row_of_challenge c payload =
     \<lparr>cr_id = ch_ID c, cr_token_hash = ch_TokenHash c, cr_kind = ch_Kind c, cr_user_id = ch_UserID c,
      cr_session_id = ch_SessionID c, cr_parent_id = ch_ParentID c,
      cr_webauthn_session = nullableString (ch_WebAuthnSession c), cr_payload = payload,
      cr_auth_method = (if ch_AuthMethod c = AuthMethodNone then None else Some (ch_AuthMethod c)),
      cr_attempts = ch_Attempts c, cr_created_at = timestamptz (ch_CreatedAt c),
      cr_expires_at = timestamptz (ch_ExpiresAt c)\<rparr>"

definition challenge_of_row :: "challenge_row \<Rightarrow> challenge" where
  "challenge_of_row r =
     \<lparr>ch_ID = cr_id r, ch_TokenHash = cr_token_hash r, ch_Kind = cr_kind r, ch_UserID = cr_user_id r,
      ch_SessionID = cr_session_id r, ch_ParentID = cr_parent_id r,
      ch_WebAuthnSession = (case cr_webauthn_session r of None \<Rightarrow> [] | Some w \<Rightarrow> w), ch_Payload = cr_payload r,
      ch_AuthMethod = (case cr_auth_method r of None \<Rightarrow> AuthMethodNone | Some m \<Rightarrow> m), ch_Attempts = cr_attempts r,
      ch_CreatedAt = cr_created_at r, ch_ExpiresAt = cr_expires_at r\<rparr>"

definition challenge_row_ok :: "challenge_row \<Rightarrow> bool" where
  "challenge_row_ok r \<longleftrightarrow> length (cr_token_hash r) = 32 \<and> cr_attempts r \<ge> 0 \<and> cr_expires_at r > cr_created_at r"

definition refers :: "'b option \<Rightarrow> ('c \<Rightarrow> 'b) \<Rightarrow> 'c list \<Rightarrow> bool" where
  "refers v key rows = (case v of None \<Rightarrow> True | Some i \<Rightarrow> list_ex (\<lambda>r. key r = i) rows)"

definition insert_challenge :: "auth_db \<Rightarrow> challenge \<Rightarrow> 'a auth_store_scheme \<Rightarrow> pg_error + 'a auth_store_scheme \<times> unit" where
  "insert_challenge Q c s =
     (case de_jsonb Q (if ch_Payload c = [] then ''{}'' else ch_Payload c) of
        None \<Rightarrow> Inl PgOther
      | Some payload \<Rightarrow>
          (let r = row_of_challenge c payload in
           if \<not> challenge_row_ok r then Inl PgCheckViolation
           else if list_ex (\<lambda>x. cr_id x = cr_id r \<or> cr_token_hash x = cr_token_hash r) (au_challenges s)
           then Inl PgUniqueViolation
           else if \<not> (refers (cr_user_id r) ur_id (au_users s) \<and> refers (cr_session_id r) sr_id (au_sessions s)
                    \<and> refers (cr_parent_id r) cr_id (au_challenges s)) then Inl PgForeignKeyViolation
           else Inr (s\<lparr>au_challenges := au_challenges s @ [r]\<rparr>, ())))"

definition InsertChallenge :: "auth_db \<Rightarrow> challenge \<Rightarrow> ('a auth_store_scheme, unit) acall" where
  "InsertChallenge Q c =
     seq (query ''clean expired authentication challenges'' (\<lambda>s. Inr (clean_expired (timestamptz (ch_CreatedAt c)) s, ()))) (\<lambda>_.
     query ''insert authentication challenge'' (insert_challenge Q c))"

definition open_challenge :: "string \<Rightarrow> ChallengeKind \<Rightarrow> time \<Rightarrow> challenge_row \<Rightarrow> bool" where
  "open_challenge tokenHash kind t c \<longleftrightarrow> cr_token_hash c = tokenHash \<and> cr_kind c = kind \<and> cr_expires_at c > timestamptz t"

definition GetChallenge :: "string \<Rightarrow> ChallengeKind \<Rightarrow> time \<Rightarrow> ('a auth_store_scheme, challenge) acall" where
  "GetChallenge tokenHash kind t =
     query ''read authentication challenge'' (\<lambda>s.
       case find (open_challenge tokenHash kind t) (au_challenges s) of
         None \<Rightarrow> Inl PgNoRows | Some c \<Rightarrow> Inr (s, challenge_of_row c))"

definition ConsumeChallenge :: "string \<Rightarrow> ChallengeKind \<Rightarrow> time \<Rightarrow> ('a auth_store_scheme, challenge) acall" where
  "ConsumeChallenge tokenHash kind t =
     query ''read authentication challenge'' (\<lambda>s.
       case find (open_challenge tokenHash kind t) (au_challenges s) of
         None \<Rightarrow> Inl PgNoRows
       | Some c \<Rightarrow> Inr (delete_challenges (open_challenge tokenHash kind t) s, challenge_of_row c))"

definition DeleteChallenge :: "uuid \<Rightarrow> ('a auth_store_scheme, unit) acall" where
  "DeleteChallenge i =
     seq (query ''delete authentication challenge'' (\<lambda>s.
            Inr (delete_challenges (\<lambda>c. cr_id c = i) s, length (filter (\<lambda>c. cr_id c = i) (au_challenges s))))) (\<lambda>n.
     if n \<noteq> 1 then reject ErrNotFound else give ())"

definition IncrementChallengeAttempts :: "uuid \<Rightarrow> int \<Rightarrow> ('a auth_store_scheme, unit) acall" where
  "IncrementChallengeAttempts i maximum =
     seq (query ''increment authentication challenge attempts'' (\<lambda>s.
            let hit = (\<lambda>c. cr_id c = i \<and> cr_attempts c < maximum) in
            Inr (s\<lparr>au_challenges := map (\<lambda>c. if hit c then c\<lparr>cr_attempts := cr_attempts c + 1\<rparr> else c) (au_challenges s)\<rparr>,
                 length (filter hit (au_challenges s))))) (\<lambda>n.
     if n \<noteq> 1 then reject ErrRateLimited else give ())"

definition DeleteChallengesForUser :: "uuid \<Rightarrow> ChallengeKind \<Rightarrow> ('a auth_store_scheme, unit) acall" where
  "DeleteChallengesForUser userID kind =
     query ''delete user authentication challenges'' (\<lambda>s.
       Inr (delete_challenges (\<lambda>c. cr_user_id c = Some userID \<and> cr_kind c = kind) s, ()))"

section \<open>TOTP credentials\<close>

definition totp_row_ok :: "totp_credential \<Rightarrow> bool" where
  "totp_row_ok c \<longleftrightarrow>
     tc_KeyVersion c > 0 \<and> tc_CredentialRevision c > 0 \<and> length (tc_SecretNonce c) = 12
     \<and> 17 \<le> length (tc_SecretCiphertext c) \<and> length (tc_SecretCiphertext c) \<le> 1040"

definition totp_row :: "totp_credential \<Rightarrow> totp_credential" where
  "totp_row c =
     c\<lparr>tc_ConfirmedAt := map_option timestamptz (tc_ConfirmedAt c), tc_CreatedAt := timestamptz (tc_CreatedAt c),
       tc_UpdatedAt := timestamptz (tc_UpdatedAt c)\<rparr>"

definition replaced_totp :: "totp_credential \<Rightarrow> totp_credential \<Rightarrow> totp_credential" where
  "replaced_totp c old =
     (totp_row c)\<lparr>tc_ConfirmedAt := None, tc_LastAcceptedTimestep := None, tc_CreatedAt := tc_CreatedAt old\<rparr>"

definition UpsertTOTPCredential :: "totp_credential \<Rightarrow> ('a auth_store_scheme, unit) acall" where
  "UpsertTOTPCredential c =
     query ''store TOTP credential'' (\<lambda>s.
       if \<not> totp_row_ok c then Inl PgCheckViolation
       else if list_ex (\<lambda>x. tc_UserID x = tc_UserID c) (au_totp s)
       then Inr (s\<lparr>au_totp := map (\<lambda>x. if tc_UserID x = tc_UserID c then replaced_totp c x else x) (au_totp s)\<rparr>, ())
       else if \<not> list_ex (\<lambda>u. ur_id u = tc_UserID c) (au_users s) then Inl PgForeignKeyViolation
       else Inr (s\<lparr>au_totp := au_totp s @ [totp_row c]\<rparr>, ()))"

definition GetTOTPCredential :: "uuid \<Rightarrow> ('a auth_store_scheme, totp_credential) acall" where
  "GetTOTPCredential userID =
     query ''read TOTP credential'' (\<lambda>s.
       case find (\<lambda>c. tc_UserID c = userID) (au_totp s) of None \<Rightarrow> Inl PgNoRows | Some c \<Rightarrow> Inr (s, c))"

definition change_totp ::
  "(totp_credential \<Rightarrow> bool) \<Rightarrow> (totp_credential \<Rightarrow> totp_credential) \<Rightarrow> 'a auth_store_scheme \<Rightarrow> pg_error + 'a auth_store_scheme \<times> nat" where
  "change_totp cond f s =
     Inr (s\<lparr>au_totp := map (\<lambda>c. if cond c then f c else c) (au_totp s)\<rparr>, length (filter cond (au_totp s)))"

definition ConfirmTOTPCredential :: "uuid \<Rightarrow> int \<Rightarrow> time \<Rightarrow> ('a auth_store_scheme, unit) acall" where
  "ConfirmTOTPCredential userID timestep confirmedAt =
     seq (query ''confirm TOTP credential'' (change_totp (\<lambda>c. tc_UserID c = userID \<and> tc_ConfirmedAt c = None)
            (\<lambda>c. c\<lparr>tc_ConfirmedAt := Some (timestamptz confirmedAt), tc_LastAcceptedTimestep := Some timestep,
                    tc_UpdatedAt := timestamptz confirmedAt\<rparr>))) (\<lambda>n.
     if n \<noteq> 1 then reject ErrConflict else give ())"

definition AcceptTOTPTimestep :: "uuid \<Rightarrow> int \<Rightarrow> time \<Rightarrow> ('a auth_store_scheme, bool) acall" where
  "AcceptTOTPTimestep userID timestep acceptedAt =
     seq (query ''accept TOTP timestep'' (change_totp
            (\<lambda>c. tc_UserID c = userID \<and> tc_ConfirmedAt c \<noteq> None
                \<and> (case tc_LastAcceptedTimestep c of None \<Rightarrow> True | Some previous \<Rightarrow> previous < timestep))
            (\<lambda>c. c\<lparr>tc_LastAcceptedTimestep := Some timestep, tc_UpdatedAt := timestamptz acceptedAt\<rparr>))) (\<lambda>n.
     give (n = 1))"

definition DeleteTOTPCredential :: "uuid \<Rightarrow> ('a auth_store_scheme, bool) acall" where
  "DeleteTOTPCredential userID =
     seq (query ''delete TOTP credential'' (\<lambda>s.
            Inr (s\<lparr>au_totp := filter (\<lambda>c. tc_UserID c \<noteq> userID) (au_totp s)\<rparr>,
                 length (filter (\<lambda>c. tc_UserID c = userID) (au_totp s))))) (\<lambda>n.
     give (n = 1))"

end
