(* ===== verification/Login_Limiter.thy ===== *)
theory Login_Limiter
  imports Sha256 Provider_Types "HOL-Library.AList"
begin

text \<open>
  \<open>internal/auth/limiter.go\<close>: one token bucket for each hashed key, and no more buckets than the maximum.
  The bucket is \<open>golang.org/x/time/rate\<close>, a parameter. The entries of the Go map are listed in the order in
  which \<open>removeOldest\<close> happens to meet them.
\<close>

record 'l rate_env =
  rl_NewLimiter :: "duration \<Rightarrow> int \<Rightarrow> 'l"
  rl_AllowN :: "'l \<Rightarrow> time \<Rightarrow> 'l \<times> bool"

record 'l limiter_entry =
  le_limiter :: 'l
  le_lastSeen :: time

record 'l login_limiter =
  ll_interval :: duration
  ll_burst :: int
  ll_maximum :: int
  ll_entries :: "(string \<times> 'l limiter_entry) list"

text \<open>\<open>rate.Every(window / attempts)\<close> is given by the interval.\<close>

definition NewLoginLimiter :: "int \<Rightarrow> duration \<Rightarrow> int \<Rightarrow> 'l login_limiter" where
  "NewLoginLimiter attempts window maximumEntries =
     \<lparr>ll_interval = window div attempts, ll_burst = attempts, ll_maximum = maximumEntries, ll_entries = []\<rparr>"

definition older :: "string \<times> time \<Rightarrow> string \<times> 'l limiter_entry \<Rightarrow> string \<times> time" where
  "older best entry =
     (case (best, entry) of ((oldestKey, oldestTime), (key, e)) \<Rightarrow>
        if oldestKey = [] \<or> le_lastSeen e < oldestTime then (key, le_lastSeen e) else (oldestKey, oldestTime))"

definition removeOldest :: "(string \<times> 'l limiter_entry) list \<Rightarrow> (string \<times> 'l limiter_entry) list" where
  "removeOldest entries = AList.delete (fst (foldl older ([], 0) entries)) entries"

definition Allow :: "'l rate_env \<Rightarrow> string \<Rightarrow> time \<Rightarrow> 'l login_limiter \<Rightarrow> 'l login_limiter \<times> bool" where
  "Allow R key t l =
     (if ll_maximum l \<le> 0 \<or> ll_burst l \<le> 0 then (l, False)
      else
        (let boundedKey = sha256 key;
             known = map_of (ll_entries l) boundedKey;
             entries = (if known = None \<and> int (length (ll_entries l)) \<ge> ll_maximum l
                        then removeOldest (ll_entries l) else ll_entries l);
             limiter = (case known of None \<Rightarrow> rl_NewLimiter R (ll_interval l) (ll_burst l) | Some e \<Rightarrow> le_limiter e)
         in case rl_AllowN R limiter t of
              (limiter', allowed) \<Rightarrow>
                (l\<lparr>ll_entries := AList.update boundedKey \<lparr>le_limiter = limiter', le_lastSeen = t\<rparr> entries\<rparr>, allowed)))"

section \<open>The limiter is bounded\<close>

definition limiter_ok :: "'l login_limiter \<Rightarrow> bool" where
  "limiter_ok l \<longleftrightarrow>
     distinct (map fst (ll_entries l)) \<and> [] \<notin> fst ` set (ll_entries l) \<and> int (length (ll_entries l)) \<le> max 0 (ll_maximum l)"

lemma foldl_older_key:
  "[] \<notin> fst ` set es \<Longrightarrow> es \<noteq> [] \<or> k \<in> K \<Longrightarrow> k \<noteq> [] \<or> es \<noteq> [] \<Longrightarrow>
     fst (foldl older (k, t) es) \<in> fst ` set es \<union> (if k = [] then {} else {k})"
proof (induction es arbitrary: k t)
  case (Cons e es)
  obtain key x where e: "e = (key, x)" by (cases e)
  with Cons.prems have key: "key \<noteq> []" "[] \<notin> fst ` set es" by auto
  obtain k' t' where k': "older (k, t) e = (k', t')" by fastforce
  then have "k' = key \<or> (k' = k \<and> k \<noteq> [])" by (auto simp: older_def e split: if_splits)
  moreover from this key have "k' \<noteq> []" by auto
  moreover have "fst (foldl older (k', t') es) \<in> fst ` set es \<union> {k'}"
  proof (cases "es = []")
    case False
    with Cons.IH [of k' t'] key \<open>k' \<noteq> []\<close> show ?thesis by auto
  qed simp
  ultimately show ?case using k' e by auto
qed simp

lemma oldest_is_key: "[] \<notin> fst ` set es \<Longrightarrow> es \<noteq> [] \<Longrightarrow> fst (foldl older ([], 0) es) \<in> fst ` set es"
  using foldl_older_key [of es "[]" UNIV 0] by simp

lemma delete_length:
  "distinct (map fst es) \<Longrightarrow> k \<in> fst ` set es \<Longrightarrow> length (AList.delete k es) = length es - 1"
proof (induction es)
  case (Cons e es)
  then show ?case
  proof (cases "fst e = k")
    case True
    with Cons.prems have "k \<notin> fst ` set es" by auto
    then have "AList.delete k es = es"
      by (force simp: AList.delete_eq intro!: filter_True)
    then show ?thesis using True by (cases e) (simp add: AList.delete_eq)
  next
    case False
    with Cons have "length (AList.delete k es) = length es - 1" by auto
    moreover have "es \<noteq> []" using Cons.prems False by auto
    ultimately show ?thesis using False by (cases e) (simp add: AList.delete_eq)
  qed
qed simp

lemma removeOldest_length:
  "distinct (map fst es) \<Longrightarrow> [] \<notin> fst ` set es \<Longrightarrow> length (removeOldest es) = length es - 1"
  by (cases "es = []") (simp_all add: removeOldest_def delete_length oldest_is_key)

lemma update_length:
  "length (AList.update k v es) = (if k \<in> fst ` set es then length es else Suc (length es))"
  by (induction es) auto

lemma sha256_nonempty [simp]: "sha256 x \<noteq> []" "[] \<noteq> sha256 x"
  using sha256_length [of x] by force+

lemma Allow_ok: "limiter_ok l \<Longrightarrow> limiter_ok (fst (Allow R key t l))"
proof (cases "ll_maximum l \<le> 0 \<or> ll_burst l \<le> 0")
  case False
  assume ok: "limiter_ok l"
  define k where "k = sha256 key"
  define es where "es = (if map_of (ll_entries l) k = None \<and> int (length (ll_entries l)) \<ge> ll_maximum l
      then removeOldest (ll_entries l) else ll_entries l)"
  have d: "distinct (map fst (ll_entries l))" "[] \<notin> fst ` set (ll_entries l)" "int (length (ll_entries l)) \<le> ll_maximum l"
    using ok False by (auto simp: limiter_ok_def)
  have es: "distinct (map fst es)" "fst ` set es \<subseteq> fst ` set (ll_entries l)"
    using d by (auto simp: es_def removeOldest_def AList.delete_eq distinct_map_filter)
  have room: "k \<in> fst ` set es \<or> int (length es) < ll_maximum l"
    using d False removeOldest_length [OF d(1,2)]
    by (auto simp: es_def map_of_eq_None_iff nat_less_iff)
  have len: "int (length es) \<le> ll_maximum l"
    using d removeOldest_length [OF d(1,2)] by (auto simp: es_def)
  obtain lim a where r: "rl_AllowN R (case map_of (ll_entries l) k of None \<Rightarrow> rl_NewLimiter R (ll_interval l) (ll_burst l)
      | Some e \<Rightarrow> le_limiter e) t = (lim, a)" by fastforce
  define e where "e = \<lparr>le_limiter = lim, le_lastSeen = t\<rparr>"
  have a: "fst (Allow R key t l) = l\<lparr>ll_entries := AList.update k e es\<rparr>"
    using False r by (simp add: Allow_def Let_def k_def es_def e_def)
  have "length (AList.update k e es) = (if k \<in> fst ` set es then length es else Suc (length es))"
    by (rule update_length)
  then have "int (length (AList.update k e es)) \<le> ll_maximum l" using room len by (auto split: if_splits)
  moreover have "[] \<notin> fst ` set (AList.update k e es)"
    using es(2) d(2) by (auto simp: k_def AList.dom_update)
  ultimately show ?thesis
    using es(1) False by (simp add: a limiter_ok_def AList.distinct_update)
qed (simp add: Allow_def)

lemma NewLoginLimiter_ok: "limiter_ok (NewLoginLimiter attempts window maximum)"
  by (simp add: NewLoginLimiter_def limiter_ok_def)

text \<open>The memory of the limiter is bounded: whatever keys are presented at whatever times, it never holds more
  buckets than its maximum, and each key has one.\<close>

theorem limiter_bounded:
  assumes "0 \<le> maximum"
  shows "int (length (ll_entries (fold (\<lambda>(key, t) l. fst (Allow R key t l)) attempts (NewLoginLimiter n window maximum)))) \<le> maximum
    \<and> distinct (map fst (ll_entries (fold (\<lambda>(key, t) l. fst (Allow R key t l)) attempts (NewLoginLimiter n window maximum))))"
proof -
  let ?step = "\<lambda>(key, t) l. fst (Allow R key t l)"
  have "limiter_ok (fold ?step as l) \<and> ll_maximum (fold ?step as l) = ll_maximum l" if "limiter_ok l" for as l
    using that
  proof (induction as arbitrary: l)
    case (Cons a as)
    obtain key t where "a = (key, t)" by fastforce
    moreover have "ll_maximum (fst (Allow R key t l)) = ll_maximum l"
      by (simp add: Allow_def Let_def split: prod.splits)
    ultimately show ?case using Cons Allow_ok by fastforce
  qed simp
  from this [OF NewLoginLimiter_ok, of attempts n window maximum] show ?thesis
    using assms by (auto simp: limiter_ok_def NewLoginLimiter_def)
qed

end
