(* ===== verification/Auth_Service.thy ===== *)
theory Auth_Service
  imports Auth_Store Login_Limiter
begin

text \<open>
  What the operations of \<open>internal/auth\<close> share: the world and the environment of the service (\<open>service.go\<close>),
  the events (\<open>audit.go\<close>), the password hasher (\<open>password.go\<close>), the challenges and the calls of WebAuthn
  (\<open>webauthn.go\<close>), TOTP (\<open>totp.go\<close>), and new sessions.
\<close>

section \<open>The world and the environment\<close>

record ('l, 'o) auth_world = auth_store +
  aw_limiter :: "'l login_limiter"
  aw_publicLimiter :: "'l login_limiter"
  aw_outside :: 'o

record auth_config =
  cf_Scheme :: string
  cf_Host :: string
  cf_BootstrapTokenHash :: string
  cf_PasswordLoginEnabled :: bool
  cf_SessionIdleTTL :: duration
  cf_SessionAbsoluteTTL :: duration
  cf_SessionRefreshInterval :: duration
  cf_ChallengeTTL :: duration
  cf_EnrollmentTTL :: duration

record bootstrap_payload =
  bp_UserID :: uuid
  bp_WebAuthnUserHandle :: string
  bp_Username :: string
  bp_DisplayName :: string
  bp_PasskeyName :: string

text \<open>
  The libraries: identifiers, random bytes and the clock; \<open>argon2id\<close>; \<open>pquerna/otp\<close>; \<open>go-webauthn\<close>, whose
  session data is kept as the bytes it is stored as, and whose \<open>FinishPasskeyLogin\<close> asks for the user of a
  credential once, between reading the response and verifying it; the decoders of stored JSON. None of
  them sees the database.
\<close>

record ('l, 'o) auth_env =
  ae_db :: auth_db
  ae_rate :: "'l rate_env"
  ae_config :: auth_config
  ae_envelope :: envelope
  ae_now :: "'o \<Rightarrow> 'o \<times> time"
  ae_uuid :: "'o \<Rightarrow> 'o \<times> uuid option"
  ae_random :: "'o \<Rightarrow> 'o \<times> entropy option"
  ae_lower :: "string \<Rightarrow> string"
  ae_address :: "string \<Rightarrow> string option"
  ae_CreateHash :: "string \<Rightarrow> 'o \<Rightarrow> 'o \<times> string option"
  ae_CompareHash :: "string \<Rightarrow> string \<Rightarrow> bool option"
  ae_GenerateTOTP :: "string \<Rightarrow> 'o \<Rightarrow> 'o \<times> (string \<times> string) option"
  ae_ValidateTOTP :: "string \<Rightarrow> string \<Rightarrow> time \<Rightarrow> bool option"
  ae_BeginRegistration :: "user \<Rightarrow> webauthn_credential list \<Rightarrow> 'o \<Rightarrow> 'o \<times> (string \<times> string) option"
  ae_FinishRegistration :: "user \<Rightarrow> string \<Rightarrow> string \<Rightarrow> 'o \<Rightarrow> 'o \<times> webauthn_credential option"
  ae_BeginLogin :: "'o \<Rightarrow> 'o \<times> (string \<times> string) option"
  ae_LoginHandles :: "string \<Rightarrow> string \<Rightarrow> (string \<times> string) option"
  ae_VerifyLogin :: "user \<Rightarrow> string \<Rightarrow> string \<Rightarrow> 'o \<Rightarrow> 'o \<times> webauthn_credential option"
  ae_session_valid :: "string \<Rightarrow> bool"
  ae_passkey_payload :: "string \<Rightarrow> string option"
  ae_bootstrap_payload :: "string \<Rightarrow> bootstrap_payload option"

type_synonym ('l, 'o, 'a) auth_op = "(('l, 'o) auth_world, 'a) acall"

definition outside :: "('o \<Rightarrow> 'o \<times> 'a) \<Rightarrow> ('l, 'o, 'a) auth_op" where
  "outside f w = (case f (aw_outside w) of (x, a) \<Rightarrow> (w\<lparr>aw_outside := x\<rparr>, Inr a))"

definition outside_or :: "string \<Rightarrow> ('o \<Rightarrow> 'o \<times> 'a option) \<Rightarrow> ('l, 'o, 'a) auth_op" where
  "outside_or message f =
     seq (outside f) (\<lambda>r. case r of None \<Rightarrow> reject (AuthFailure message) | Some a \<Rightarrow> give a)"

definition time_now :: "('l, 'o) auth_env \<Rightarrow> ('l, 'o, time) auth_op" where
  "time_now V = outside (ae_now V)"

definition newUUID :: "('l, 'o) auth_env \<Rightarrow> ('l, 'o, uuid) auth_op" where
  "newUUID V = outside_or ''generate identifier'' (ae_uuid V)"

definition crypto_result :: "string + 'a \<Rightarrow> ('w, 'a) acall" where
  "crypto_result r = checked (case r of Inl m \<Rightarrow> Inl (AuthFailure m) | Inr x \<Rightarrow> Inr x)"

definition opaque_token :: "('l, 'o) auth_env \<Rightarrow> ('l, 'o, string \<times> string) auth_op" where
  "opaque_token V = seq (outside (ae_random V)) (\<lambda>random. crypto_result (NewOpaqueToken random))"

definition input_or :: "auth_error \<Rightarrow> 'a option \<Rightarrow> ('w, 'a) acall" where
  "input_or e v = checked (case v of None \<Rightarrow> Inl e | Some x \<Rightarrow> Inr x)"

section \<open>Requests, events\<close>

definition allow_limiter :: "('l, 'o) auth_env \<Rightarrow> string \<Rightarrow> time \<Rightarrow> ('l, 'o, bool) auth_op" where
  "allow_limiter V key t w =
     (case Allow (ae_rate V) key t (aw_limiter w) of (l, ok) \<Rightarrow> (w\<lparr>aw_limiter := l\<rparr>, Inr ok))"

definition allow_public :: "('l, 'o) auth_env \<Rightarrow> string \<Rightarrow> time \<Rightarrow> ('l, 'o, bool) auth_op" where
  "allow_public V key t w =
     (case Allow (ae_rate V) key t (aw_publicLimiter w) of (l, ok) \<Rightarrow> (w\<lparr>aw_publicLimiter := l\<rparr>, Inr ok))"

definition allowPublicAuth :: "('l, 'o) auth_env \<Rightarrow> string \<Rightarrow> request_metadata \<Rightarrow> ('l, 'o, bool) auth_op" where
  "allowPublicAuth V operation md =
     seq (time_now V) (\<lambda>t.
     seq (allow_public V (''public-auth-ip|'' @ rm_IP md) t) (\<lambda>ok.
     if \<not> ok then give False
     else seq (time_now V) (\<lambda>t'. allow_public V (''public-auth-operation|'' @ operation @ ''|'' @ rm_IP md) t')))"

text \<open>The error of \<open>uuid.NewV7\<close> is returned as it is.\<close>

definition newAuditEvent ::
  "('l, 'o) auth_env \<Rightarrow> request_metadata \<Rightarrow> user option \<Rightarrow> string \<Rightarrow> string \<Rightarrow> string \<Rightarrow> audit_result \<Rightarrow> string \<Rightarrow> ('l, 'o, audit_event) auth_op" where
  "newAuditEvent V md actor action resourceType resourceID result errorCode =
     seq (outside_or ''uuid'' (ae_uuid V)) (\<lambda>i.
     seq (time_now V) (\<lambda>t.
     give \<lparr>ev_ID = i, ev_OccurredAt = t, ev_ActorUserID = map_option us_ID actor,
           ev_ActorUsernameSnapshot = (case actor of None \<Rightarrow> [] | Some u \<Rightarrow> us_Username u), ev_Action = action,
           ev_ResourceType = resourceType, ev_ResourceID = resourceID, ev_ProviderAccountID = None, ev_ZoneID = None,
           ev_RequestID = rm_RequestID md, ev_IP = rm_IP md, ev_UserAgent = rm_UserAgent md, ev_Result = result,
           ev_ErrorCode = errorCode, ev_BeforeData = [], ev_AfterData = [], ev_Metadata = []\<rparr>))"

text \<open>An event of a success, completed by \<open>f\<close> and inserted; the last step of a transaction.\<close>

definition audit_success ::
  "('l, 'o) auth_env \<Rightarrow> request_metadata \<Rightarrow> user \<Rightarrow> string \<Rightarrow> string \<Rightarrow> string \<Rightarrow> (audit_event \<Rightarrow> audit_event) \<Rightarrow> ('l, 'o, unit) auth_op" where
  "audit_success V md actor action resourceType resourceID f =
     seq (newAuditEvent V md (Some actor) action resourceType resourceID ResultSucceeded []) (\<lambda>e.
     auth_InsertAuditEvent (ae_db V) (f e))"

text \<open>\<open>truncate\<close>: at most \<open>maximum\<close> bytes, cut before a rune.\<close>

fun rune_cut :: "string \<Rightarrow> nat \<Rightarrow> nat" where
  "rune_cut s 0 = 0"
| "rune_cut s (Suc n) = (if 128 \<le> byte (s ! Suc n) \<and> byte (s ! Suc n) < 192 then rune_cut s n else Suc n)"

definition truncate_text :: "string \<Rightarrow> nat \<Rightarrow> string" where
  "truncate_text value maximum = (if length value \<le> maximum then value else take (rune_cut value maximum) value)"

definition MetadataFromRequest :: "string \<Rightarrow> string \<Rightarrow> string \<Rightarrow> request_metadata" where
  "MetadataFromRequest requestID ip userAgent =
     \<lparr>rm_RequestID = requestID, rm_IP = ip, rm_UserAgent = truncate_text (trim_space userAgent) 1024\<rparr>"

section \<open>Passwords\<close>

definition hash_password :: "('l, 'o) auth_env \<Rightarrow> string \<Rightarrow> ('l, 'o, string) auth_op" where
  "hash_password V password =
     (if \<not> ValidatePassword password then reject ErrInvalidInput
      else outside_or ''hash password'' (ae_CreateHash V password))"

text \<open>\<open>VerifyUnknown\<close> only takes the time of a comparison: it changes nothing and returns nothing.\<close>

definition verify_password :: "('l, 'o) auth_env \<Rightarrow> string \<Rightarrow> string \<Rightarrow> auth_error + bool" where
  "verify_password V password encodedHash =
     (if \<not> validPasswordVerificationInput password then Inr False
      else (case ae_CompareHash V password encodedHash of
              None \<Rightarrow> Inl (AuthFailure ''verify password hash'') | Some matched \<Rightarrow> Inr matched))"

section \<open>TOTP\<close>

definition totpPeriod :: int where "totpPeriod = 30"

text \<open>\<open>UUID.String()\<close> and \<open>%d\<close>; an identifier is kept as its canonical text.\<close>

definition totpAAD :: "uuid \<Rightarrow> int \<Rightarrow> int \<Rightarrow> string" where
  "totpAAD userID revision keyVersion =
     ''aster-dns:totp:'' @ userID @ '':'' @ itoa revision @ '':'' @ itoa keyVersion"

definition crypto_auth :: "crypto_error \<Rightarrow> auth_error" where
  "crypto_auth e =
     (case e of ErrAuthenticationFailed \<Rightarrow> AuthFailure ''secret ciphertext authentication failed''
      | ErrInvalidCredentialContext \<Rightarrow> AuthFailure ''provider credential encryption context is invalid''
      | CryptoFailure m \<Rightarrow> AuthFailure m)"

definition totp_Setup :: "('l, 'o) auth_env \<Rightarrow> user \<Rightarrow> int \<Rightarrow> time \<Rightarrow> ('l, 'o, totp_credential \<times> string) auth_op" where
  "totp_Setup V u revision t =
     seq (outside_or ''generate TOTP credential'' (ae_GenerateTOTP V (us_Username u))) (\<lambda>(secret, url).
     seq (outside (ae_random V)) (\<lambda>random.
     seq (checked (case envelope_Encrypt (Some (ae_envelope V)) random secret
                          (totpAAD (us_ID u) revision (ActiveKeyVersion (Some (ae_envelope V)))) of
            Inl e \<Rightarrow> Inl (crypto_auth e) | Inr x \<Rightarrow> Inr x)) (\<lambda>(ciphertext, nonce, encryptedVersion).
     give (\<lparr>tc_UserID = us_ID u, tc_SecretCiphertext = ciphertext, tc_SecretNonce = nonce,
            tc_KeyVersion = encryptedVersion, tc_CredentialRevision = revision, tc_ConfirmedAt = None,
            tc_LastAcceptedTimestep = None, tc_CreatedAt = t, tc_UpdatedAt = t\<rparr>, url))))"

text \<open>
  \<open>time.Unix\<close> counts seconds from 1970, \<open>unix_epoch\<close> nanoseconds after Go's zero time; \<open>/\<close> truncates, and
  the clock is after 1970. The current step is tried first, then the one before, then the one after.
\<close>

definition unix_epoch :: time where "unix_epoch = 62135596800 * 1000000000"

definition unix_seconds :: "time \<Rightarrow> int" where
  "unix_seconds t = (t - unix_epoch) div 1000000000"

definition step_time :: "int \<Rightarrow> time" where
  "step_time step = unix_epoch + step * totpPeriod * 1000000000"

fun first_valid_step :: "('l, 'o) auth_env \<Rightarrow> string \<Rightarrow> string \<Rightarrow> int list \<Rightarrow> auth_error + int" where
  "first_valid_step V code secret [] = Inl ErrInvalidCredentials"
| "first_valid_step V code secret (step # steps) =
     (case ae_ValidateTOTP V code secret (step_time step) of
        None \<Rightarrow> Inl ErrInvalidCredentials
      | Some True \<Rightarrow> Inr step
      | Some False \<Rightarrow> first_valid_step V code secret steps)"

definition totp_Verify :: "('l, 'o) auth_env \<Rightarrow> totp_credential \<Rightarrow> string \<Rightarrow> time \<Rightarrow> auth_error + int" where
  "totp_Verify V credential code t =
     (case envelope_Decrypt (ae_envelope V) (tc_SecretCiphertext credential) (tc_SecretNonce credential)
             (totpAAD (tc_UserID credential) (tc_CredentialRevision credential) (tc_KeyVersion credential))
             (tc_KeyVersion credential) of
        Inl _ \<Rightarrow> Inl ErrSecretTampered
      | Inr secret \<Rightarrow>
          (let currentStep = unix_seconds t div totpPeriod
           in first_valid_step V code secret [currentStep, currentStep - 1, currentStep + 1]))"

section \<open>Challenges\<close>

definition createChallenge ::
  "('l, 'o) auth_env \<Rightarrow> ChallengeKind \<Rightarrow> uuid option \<Rightarrow> uuid option \<Rightarrow> uuid option \<Rightarrow> string option \<Rightarrow> string option \<Rightarrow>
     AuthMethod \<Rightarrow> duration \<Rightarrow> ('l, 'o, challenge \<times> string) auth_op" where
  "createChallenge V kind userID sessionID parentID session payload method ttl =
     seq (newUUID V) (\<lambda>i.
     seq (opaque_token V) (\<lambda>(rawToken, tokenHash).
     seq (time_now V) (\<lambda>t.
     give (\<lparr>ch_ID = i, ch_TokenHash = tokenHash, ch_Kind = kind, ch_UserID = userID, ch_SessionID = sessionID,
            ch_ParentID = parentID, ch_WebAuthnSession = or_else session [], ch_Payload = or_else payload ''{}'',
            ch_AuthMethod = method, ch_Attempts = 0, ch_CreatedAt = t, ch_ExpiresAt = t + ttl\<rparr>, rawToken))))"

text \<open>\<open>unmarshalWebAuthnSession\<close> and \<open>newCredentialRequest\<close>: the session data and the response are whole.\<close>

definition unmarshalWebAuthnSession :: "('l, 'o) auth_env \<Rightarrow> string \<Rightarrow> ('w, string) acall" where
  "unmarshalWebAuthnSession V encoded =
     (if ae_session_valid V encoded then give encoded else reject (AuthFailure ''decode WebAuthn session''))"

definition newCredentialRequest :: "string \<Rightarrow> ('w, string) acall" where
  "newCredentialRequest credential = (if credential = [] then reject ErrInvalidInput else give credential)"

section \<open>New sessions\<close>

record issued_session =
  is_Session :: session
  is_User :: user
  is_Token :: string
  is_CSRFToken :: string

definition newSession :: "('l, 'o) auth_env \<Rightarrow> user \<Rightarrow> AuthMethod \<Rightarrow> request_metadata \<Rightarrow> ('l, 'o, issued_session) auth_op" where
  "newSession V u method md =
     seq (time_now V) (\<lambda>t.
     seq (outside_or ''generate session identifier'' (ae_uuid V)) (\<lambda>i.
     seq (opaque_token V) (\<lambda>(token, tokenHash).
     seq (opaque_token V) (\<lambda>(csrfToken, csrfHash).
     give \<lparr>is_Session =
             \<lparr>ss_ID = i, ss_UserID = us_ID u, ss_TokenHash = tokenHash, ss_CSRFTokenHash = csrfHash, ss_IP = rm_IP md,
              ss_UserAgent = rm_UserAgent md, ss_AuthMethod = method, ss_CreatedAt = t, ss_LastSeenAt = t,
              ss_IdleExpiresAt = t + cf_SessionIdleTTL (ae_config V),
              ss_AbsoluteExpiresAt = t + cf_SessionAbsoluteTTL (ae_config V), ss_RevokedAt = None\<rparr>,
           is_User = u, is_Token = token, is_CSRFToken = csrfToken\<rparr>))))"

end
