(* ===== verification/Auth_Sessions.thy ===== *)
theory Auth_Sessions
  imports Auth_Service
begin

text \<open>
  \<open>internal/auth/sessions.go\<close>: a request is authenticated by the hash of its token, and sessions are
  listed, revoked and rotated.
\<close>

record session_view =
  sv_ID :: uuid
  sv_IP :: string
  sv_UserAgent :: string
  sv_AuthMethod :: AuthMethod
  sv_CreatedAt :: time
  sv_LastSeenAt :: time
  sv_IdleExpiresAt :: time
  sv_AbsoluteExpiresAt :: time
  sv_Current :: bool

text \<open>Whether the session has ended, for any of the reasons for which it is revoked.\<close>

definition session_over :: "authenticated_session \<Rightarrow> time \<Rightarrow> bool" where
  "session_over a t \<longleftrightarrow>
     ss_RevokedAt (as_Session a) \<noteq> None \<or> Disabled (as_User a)
     \<or> \<not> t < ss_IdleExpiresAt (as_Session a) \<or> \<not> t < ss_AbsoluteExpiresAt (as_Session a)"

definition touched :: "('l, 'o) auth_env \<Rightarrow> time \<Rightarrow> authenticated_session \<Rightarrow> authenticated_session" where
  "touched V t a =
     (let idleExpiry = min (t + cf_SessionIdleTTL (ae_config V)) (ss_AbsoluteExpiresAt (as_Session a))
      in a\<lparr>as_Session := (as_Session a)\<lparr>ss_LastSeenAt := t, ss_IdleExpiresAt := idleExpiry\<rparr>\<rparr>)"

definition AuthenticateSession :: "('l, 'o) auth_env \<Rightarrow> string \<Rightarrow> ('l, 'o, authenticated_session) auth_op" where
  "AuthenticateSession V rawToken =
     (if \<not> ValidOpaqueToken rawToken then reject ErrUnauthenticated
      else attempt (GetSessionByTokenHash (HashToken rawToken)) (\<lambda>_. reject ErrUnauthenticated) (\<lambda>a.
        seq (time_now V) (\<lambda>t.
        if session_over a t
        then attempt (Auth_Store.RevokeSession (us_ID (as_User a)) (ss_ID (as_Session a)) t)
               (\<lambda>_. reject ErrUnauthenticated) (\<lambda>_. reject ErrUnauthenticated)
        else if time_sub t (ss_LastSeenAt (as_Session a)) \<ge> cf_SessionRefreshInterval (ae_config V)
        then (let a' = touched V t a in
              attempt (TouchSession (ss_ID (as_Session a)) t (ss_IdleExpiresAt (as_Session a')))
                (\<lambda>_. reject ErrUnauthenticated) (\<lambda>_. give a'))
        else give a)))"

definition ListSessions :: "authenticated_session \<Rightarrow> ('l, 'o, session_view list) auth_op" where
  "ListSessions current =
     seq (Auth_Store.ListSessions (us_ID (as_User current))) (\<lambda>sessions.
     give (map (\<lambda>x. \<lparr>sv_ID = ss_ID x, sv_IP = ss_IP x, sv_UserAgent = ss_UserAgent x, sv_AuthMethod = ss_AuthMethod x,
                     sv_CreatedAt = ss_CreatedAt x, sv_LastSeenAt = ss_LastSeenAt x, sv_IdleExpiresAt = ss_IdleExpiresAt x,
                     sv_AbsoluteExpiresAt = ss_AbsoluteExpiresAt x,
                     sv_Current = (ss_ID x = ss_ID (as_Session current))\<rparr>) sessions))"

definition Logout :: "('l, 'o) auth_env \<Rightarrow> authenticated_session \<Rightarrow> request_metadata \<Rightarrow> bool \<Rightarrow> ('l, 'o, unit) auth_op" where
  "Logout V current md everywhere =
     auth_WithinTx
       (seq (time_now V) (\<lambda>t.
        seq (if everywhere then seq (RevokeAllSessions (us_ID (as_User current)) None t) (\<lambda>_. give ())
             else seq (Auth_Store.RevokeSession (us_ID (as_User current)) (ss_ID (as_Session current)) t) (\<lambda>_. give ())) (\<lambda>_.
        seq (DeleteChallengesForUser (us_ID (as_User current)) ChallengePendingTOTP) (\<lambda>_.
        audit_success V md (as_User current) (if everywhere then ''auth.logout_all'' else ''auth.logout'') ''session''
          (ss_ID (as_Session current)) id))))"

text \<open>On an error the code returns the flag as well, which its caller does not look at.\<close>

definition RevokeSession :: "('l, 'o) auth_env \<Rightarrow> authenticated_session \<Rightarrow> uuid \<Rightarrow> request_metadata \<Rightarrow> ('l, 'o, bool) auth_op" where
  "RevokeSession V current sessionID md =
     (if sessionID = ss_ID (as_Session current) then seq (Logout V current md False) (\<lambda>_. give True)
      else
        auth_WithinTx
          (seq (time_now V) (\<lambda>t.
           seq (Auth_Store.RevokeSession (us_ID (as_User current)) sessionID t) (\<lambda>revoked.
           if \<not> revoked then reject ErrNotFound
           else seq (DeleteChallengesForUser (us_ID (as_User current)) ChallengePendingTOTP) (\<lambda>_.
             seq (audit_success V md (as_User current) ''auth.session.revoked'' ''session'' sessionID id) (\<lambda>_.
             give revoked))))))"

definition RevokeOtherSessions :: "('l, 'o) auth_env \<Rightarrow> authenticated_session \<Rightarrow> request_metadata \<Rightarrow> ('l, 'o, unit) auth_op" where
  "RevokeOtherSessions V current md =
     auth_WithinTx
       (seq (time_now V) (\<lambda>t.
        seq (RevokeAllSessions (us_ID (as_User current)) (Some (ss_ID (as_Session current))) t) (\<lambda>_.
        seq (DeleteChallengesForUser (us_ID (as_User current)) ChallengePendingTOTP) (\<lambda>_.
        audit_success V md (as_User current) ''auth.sessions.others_revoked'' ''user'' (us_ID (as_User current)) id))))"

definition rotateSession :: "('l, 'o) auth_env \<Rightarrow> authenticated_session \<Rightarrow> request_metadata \<Rightarrow> ('l, 'o, issued_session) auth_op" where
  "rotateSession V current md =
     seq (newSession V (as_User current) (ss_AuthMethod (as_Session current)) md) (\<lambda>issued.
     seq (time_now V) (\<lambda>t.
     seq (Auth_Store.RevokeSession (us_ID (as_User current)) (ss_ID (as_Session current)) t) (\<lambda>revoked.
     if \<not> revoked then reject ErrUnauthenticated
     else seq (InsertSession (ae_db V) (is_Session issued)) (\<lambda>_. give issued))))"

text \<open>
  How a change of a user's security ends, in every operation that makes one: all sessions and half
  finished logins of the user go.
\<close>

definition end_sessions :: "('l, 'o) auth_env \<Rightarrow> uuid \<Rightarrow> ('l, 'o, unit) auth_op" where
  "end_sessions V userID =
     seq (time_now V) (\<lambda>t.
     seq (RevokeAllSessions userID None t) (\<lambda>_.
     DeleteChallengesForUser userID ChallengePendingTOTP))"

end
