(* ===== verification/Auth_Users.thy ===== *)
theory Auth_Users
  imports Auth_Sessions
begin

text \<open>\<open>internal/auth/users.go\<close>: the administration of users.\<close>

record create_user_input =
  cu_Username :: string
  cu_DisplayName :: string
  cu_Email :: string
  cu_Role :: Role
  cu_InitialPassword :: string

record create_user_result =
  cr_User :: user
  cr_EnrollmentToken :: string
  cr_EnrollmentExpiry :: time

record update_user_input =
  uu_DisplayName :: "string option"
  uu_Email :: "string option"
  uu_Role :: "Role option"
  uu_Password :: "string option"
  uu_PasswordEnabled :: "bool option"

definition safeUserAuditData :: "user \<Rightarrow> any_map" where
  "safeUserAuditData u =
     [(''username'', AText (us_Username u)), (''display_name'', AText (us_DisplayName u)), (''email'', AText (us_Email u)),
      (''role'', AText (us_Role u)), (''password_enabled'', ABool (us_PasswordEnabled u)),
      (''totp_required'', ABool (us_TOTPRequired u)), (''disabled'', ABool (Disabled u))]"

definition ListUsers :: "('l, 'o) auth_env \<Rightarrow> ('l, 'o, user list) auth_op" where
  "ListUsers V = Auth_Store.ListUsers (ae_db V)"

definition new_user :: "uuid \<Rightarrow> string \<Rightarrow> string \<Rightarrow> string \<Rightarrow> Role \<Rightarrow> user" where
  "new_user i handle username displayName role =
     \<lparr>us_ID = i, us_WebAuthnUserHandle = handle, us_Username = username, us_Email = [], us_DisplayName = displayName,
      us_Role = role, us_PasswordHash = [], us_PasswordEnabled = False, us_TOTPRequired = False, us_DisabledAt = None,
      us_CreatedAt = 0, us_UpdatedAt = 0, us_Passkeys = []\<rparr>"

definition user_handle :: "('l, 'o) auth_env \<Rightarrow> ('l, 'o, string) auth_op" where
  "user_handle V = seq (outside (ae_random V)) (\<lambda>random. crypto_result (NewUserHandle random))"

definition initial_password :: "('l, 'o) auth_env \<Rightarrow> string \<Rightarrow> ('l, 'o, string \<times> bool) auth_op" where
  "initial_password V password =
     (if password = [] then give ([], False)
      else if \<not> cf_PasswordLoginEnabled (ae_config V) then reject ErrPasswordLoginDisabled
      else seq (hash_password V password) (\<lambda>hash. give (hash, True)))"

definition CreateUser ::
  "('l, 'o) auth_env \<Rightarrow> authenticated_session \<Rightarrow> create_user_input \<Rightarrow> request_metadata \<Rightarrow> ('l, 'o, create_user_result) auth_op" where
  "CreateUser V current input md =
     seq (input_or ErrInvalidInput (if role_valid (cu_Role input) then validateUsername (cu_Username input) else None)) (\<lambda>username.
     seq (input_or ErrInvalidInput (validateDisplayName (cu_DisplayName input))) (\<lambda>displayName.
     seq (input_or ErrInvalidInput (validateEmail (ae_address V) (cu_Email input))) (\<lambda>email.
     seq (initial_password V (cu_InitialPassword input)) (\<lambda>(passwordHash, passwordEnabled).
     seq (newUUID V) (\<lambda>userID.
     seq (user_handle V) (\<lambda>handle.
     seq (time_now V) (\<lambda>t.
     let u = (new_user userID handle username displayName (cu_Role input))
           \<lparr>us_Email := email, us_PasswordHash := passwordHash, us_PasswordEnabled := passwordEnabled,
            us_CreatedAt := t, us_UpdatedAt := t\<rparr> in
     seq (createChallenge V ChallengeEnrollmentGrant (Some userID) None None None None AuthMethodNone
            (cf_EnrollmentTTL (ae_config V))) (\<lambda>(grant, rawToken).
     seq (auth_WithinTx
           (seq (InsertUser (ae_db V) u) (\<lambda>_.
            seq (InsertChallenge (ae_db V) grant) (\<lambda>_.
            audit_success V md (as_User current) ''auth.user.created'' ''user'' userID
              (\<lambda>e. e\<lparr>ev_AfterData :=
                [(''username'', AText username), (''display_name'', AText displayName), (''email'', AText email),
                 (''role'', AText (cu_Role input)), (''password_enabled'', ABool passwordEnabled),
                 (''enrollment_expires_at'', ATime (ch_ExpiresAt grant))]\<rparr>))))) (\<lambda>_.
     give \<lparr>cr_User = u, cr_EnrollmentToken = rawToken, cr_EnrollmentExpiry = ch_ExpiresAt grant\<rparr>)))))))))"

text \<open>
  The changes an update asks for and whether they touch the security of the user: first the role and the
  password, then - when the password is to be disabled - the count of the passkeys that are left.
\<close>

definition optional :: "('a \<Rightarrow> ('w, 'b) acall) \<Rightarrow> 'a option \<Rightarrow> ('w, 'b option) acall" where
  "optional f v = (case v of None \<Rightarrow> give None | Some x \<Rightarrow> seq (f x) (\<lambda>y. give (Some y)))"

definition new_password :: "('l, 'o) auth_env \<Rightarrow> string \<Rightarrow> ('l, 'o, string) auth_op" where
  "new_password V password =
     (if \<not> cf_PasswordLoginEnabled (ae_config V) then reject ErrPasswordLoginDisabled else hash_password V password)"

definition check_role :: "Role \<Rightarrow> ('w, Role) acall" where
  "check_role r = (if \<not> role_valid r then reject ErrInvalidInput else give r)"

definition user_changes_of ::
  "('l, 'o) auth_env \<Rightarrow> user \<Rightarrow> update_user_input \<Rightarrow> ('l, 'o, user_changes \<times> bool) auth_op" where
  "user_changes_of V before input =
     seq (optional (\<lambda>d. input_or ErrInvalidInput (validateDisplayName d)) (uu_DisplayName input)) (\<lambda>displayName.
     seq (optional (\<lambda>e. input_or ErrInvalidInput (validateEmail (ae_address V) e)) (uu_Email input)) (\<lambda>email.
     seq (optional check_role (uu_Role input)) (\<lambda>role.
     seq (optional (new_password V) (uu_Password input)) (\<lambda>hash.
     let roleChanged = (case role of None \<Rightarrow> False | Some r \<Rightarrow> r \<noteq> us_Role before);
         changes = no_changes\<lparr>uc_DisplayName := displayName, uc_Email := email, uc_Role := role\<rparr>;
         changes1 = (case hash of None \<Rightarrow> changes
           | Some h \<Rightarrow> changes\<lparr>uc_SetPasswordHash := True, uc_PasswordHash := h, uc_PasswordEnabled := Some True\<rparr>) in
     if uu_PasswordEnabled input = Some False
     then seq (CountPasskeys (us_ID before)) (\<lambda>count.
          if count = 0 then reject ErrLastAuthentication
          else give (changes1\<lparr>uc_SetPasswordHash := True, uc_PasswordHash := [], uc_PasswordEnabled := Some False\<rparr>, True))
     else give (changes1, roleChanged \<or> hash \<noteq> None)))))"

definition keep_an_admin :: "bool \<Rightarrow> ('l, 'o, unit) auth_op" where
  "keep_an_admin removes =
     (if removes then seq CountActiveAdmins (\<lambda>count. if count \<le> 1 then reject ErrLastAdmin else give ()) else give ())"

definition UpdateUser ::
  "('l, 'o) auth_env \<Rightarrow> authenticated_session \<Rightarrow> uuid \<Rightarrow> update_user_input \<Rightarrow> request_metadata \<Rightarrow> ('l, 'o, user) auth_op" where
  "UpdateUser V current userID input md =
     seq (GetUserByID (ae_db V) userID) (\<lambda>before.
     if userID = us_ID (as_User current) \<and> uu_Role input \<noteq> None \<and> uu_Role input \<noteq> Some (us_Role before)
     then reject ErrConflict
     else
     seq (user_changes_of V before input) (\<lambda>(changes, securityChanged).
     auth_WithinTx
       (seq (keep_an_admin (us_Role before = RoleAdmin \<and> us_DisabledAt before = None
               \<and> uc_Role changes \<noteq> None \<and> uc_Role changes \<noteq> Some RoleAdmin)) (\<lambda>_.
        seq (Auth_Store.UpdateUser (ae_db V) userID (us_UpdatedAt before) changes) (\<lambda>updated.
        seq (if securityChanged then end_sessions V userID else give ()) (\<lambda>_.
        seq (audit_success V md (as_User current) ''auth.user.updated'' ''user'' userID
               (\<lambda>e. e\<lparr>ev_BeforeData := safeUserAuditData before, ev_AfterData := safeUserAuditData updated\<rparr>)) (\<lambda>_.
        give updated)))))))"

definition UpdateProfile ::
  "('l, 'o) auth_env \<Rightarrow> authenticated_session \<Rightarrow> string option \<Rightarrow> string option \<Rightarrow> request_metadata \<Rightarrow> ('l, 'o, user) auth_op" where
  "UpdateProfile V current displayName email md =
     (if displayName = None \<and> email = None then reject ErrInvalidInput
      else UpdateUser V current (us_ID (as_User current))
        \<lparr>uu_DisplayName = displayName, uu_Email = email, uu_Role = None, uu_Password = None, uu_PasswordEnabled = None\<rparr> md)"

definition SetUserDisabled ::
  "('l, 'o) auth_env \<Rightarrow> authenticated_session \<Rightarrow> uuid \<Rightarrow> bool \<Rightarrow> request_metadata \<Rightarrow> ('l, 'o, user) auth_op" where
  "SetUserDisabled V current userID disabled md =
     (if userID = us_ID (as_User current) \<and> disabled then reject ErrConflict
      else
     seq (GetUserByID (ae_db V) userID) (\<lambda>before.
     seq (if disabled then seq (time_now V) (\<lambda>t. give (Some t)) else give None) (\<lambda>disabledAt.
     auth_WithinTx
       (seq (keep_an_admin (disabled \<and> us_Role before = RoleAdmin \<and> us_DisabledAt before = None)) (\<lambda>_.
        seq (Auth_Store.SetUserDisabled (ae_db V) userID (us_UpdatedAt before) disabledAt) (\<lambda>updated.
        seq (if disabled
             then seq (end_sessions V userID) (\<lambda>_.
                  seq (DeleteChallengesForUser userID ChallengeEnrollmentGrant) (\<lambda>_.
                  DeleteChallengesForUser userID ChallengeEnrollmentRegistration))
             else give ()) (\<lambda>_.
        seq (audit_success V md (as_User current) (if disabled then ''auth.user.disabled'' else ''auth.user.enabled'')
               ''user'' userID
               (\<lambda>e. e\<lparr>ev_BeforeData := safeUserAuditData before, ev_AfterData := safeUserAuditData updated\<rparr>)) (\<lambda>_.
        give updated))))))))"

definition IssueEnrollmentToken ::
  "('l, 'o) auth_env \<Rightarrow> authenticated_session \<Rightarrow> uuid \<Rightarrow> request_metadata \<Rightarrow> ('l, 'o, string \<times> time) auth_op" where
  "IssueEnrollmentToken V current userID md =
     attempt (GetUserByID (ae_db V) userID) (\<lambda>_. reject ErrNotFound) (\<lambda>u.
     if Disabled u then reject ErrNotFound
     else
     seq (createChallenge V ChallengeEnrollmentGrant (Some (us_ID u)) None None None None AuthMethodNone
            (cf_EnrollmentTTL (ae_config V))) (\<lambda>(grant, rawToken).
     seq (auth_WithinTx
           (seq (DeleteChallengesForUser (us_ID u) ChallengeEnrollmentGrant) (\<lambda>_.
            seq (InsertChallenge (ae_db V) grant) (\<lambda>_.
            audit_success V md (as_User current) ''auth.enrollment.issued'' ''user'' (us_ID u)
              (\<lambda>e. e\<lparr>ev_Metadata := [(''expires_at'', ATime (ch_ExpiresAt grant))]\<rparr>))))) (\<lambda>_.
     give (rawToken, ch_ExpiresAt grant))))"

end
