(* ===== verification/Auth_Login.thy ===== *)
theory Auth_Login
  imports Auth_Sessions
begin

text \<open>
  \<open>login.go\<close> and \<open>passkey_login.go\<close> of \<open>internal/auth\<close>: the first factor, a password or a passkey, and the
  second, a TOTP code, when the user requires it.
\<close>

datatype login_result = LoggedIn issued_session | TOTPRequired string

record passkey_update =
  pu_Passkey :: passkey
  pu_ExpectedSignCount :: "32 word"

definition recordLoginFailure ::
  "('l, 'o) auth_env \<Rightarrow> user option \<Rightarrow> request_metadata \<Rightarrow> string \<Rightarrow> ('l, 'o, unit) auth_op" where
  "recordLoginFailure V u md code =
     seq (newAuditEvent V md u ''auth.login.failed'' ''user'' [] ResultFailed code) (\<lambda>e.
     auth_InsertAuditEvent (ae_db V) (case u of None \<Rightarrow> e | Some u \<Rightarrow> e\<lparr>ev_ResourceID := us_ID u\<rparr>))"

text \<open>The failure is recorded before it is returned; an error of the record is returned instead.\<close>

definition login_failure ::
  "('l, 'o) auth_env \<Rightarrow> user option \<Rightarrow> request_metadata \<Rightarrow> string \<Rightarrow> auth_error \<Rightarrow> ('l, 'o, 'a) auth_op" where
  "login_failure V u md code e = seq (recordLoginFailure V u md code) (\<lambda>_. reject e)"

definition update_used_passkey :: "('l, 'o) auth_env \<Rightarrow> passkey_update option \<Rightarrow> ('l, 'o, unit) auth_op" where
  "update_used_passkey V p =
     (case p of None \<Rightarrow> give ()
      | Some p \<Rightarrow> UpdatePasskey (ae_db V) (pu_Passkey p) (pu_ExpectedSignCount p))"

definition completePrimaryLogin ::
  "('l, 'o) auth_env \<Rightarrow> user \<Rightarrow> AuthMethod \<Rightarrow> request_metadata \<Rightarrow> passkey_update option \<Rightarrow> ('l, 'o, login_result) auth_op" where
  "completePrimaryLogin V u method md updatePasskey =
     (if us_TOTPRequired u
      then
        seq (createChallenge V ChallengePendingTOTP (Some (us_ID u)) None None None None method
               (cf_ChallengeTTL (ae_config V))) (\<lambda>(challenge, rawToken).
        seq (auth_WithinTx
              (seq (update_used_passkey V updatePasskey) (\<lambda>_.
               seq (InsertChallenge (ae_db V) challenge) (\<lambda>_.
               audit_success V md u ''auth.login.totp_required'' ''user'' (us_ID u)
                 (\<lambda>e. e\<lparr>ev_Metadata := [(''auth_method'', AText (auth_method_string method))]\<rparr>))))) (\<lambda>_.
        give (TOTPRequired rawToken)))
      else
        seq (newSession V u method md) (\<lambda>issued.
        seq (auth_WithinTx
              (seq (update_used_passkey V updatePasskey) (\<lambda>_.
               seq (InsertSession (ae_db V) (is_Session issued)) (\<lambda>_.
               audit_success V md u ''auth.login.succeeded'' ''session'' (ss_ID (is_Session issued))
                 (\<lambda>e. e\<lparr>ev_Metadata := [(''auth_method'', AText (auth_method_string method)), (''totp'', ABool False)]\<rparr>))))) (\<lambda>_.
        give (LoggedIn issued))))"

section \<open>Passwords\<close>

text \<open>The second limiter is asked only if the first one allows the attempt.\<close>

definition password_attempt_allowed :: "('l, 'o) auth_env \<Rightarrow> request_metadata \<Rightarrow> string \<Rightarrow> time \<Rightarrow> ('l, 'o, bool) auth_op" where
  "password_attempt_allowed V md username t =
     seq (allow_limiter V (''password-ip|'' @ rm_IP md) t) (\<lambda>ok.
     if \<not> ok then give False else allow_limiter V (''password-user|'' @ username) t)"

definition PasswordLogin ::
  "('l, 'o) auth_env \<Rightarrow> string \<Rightarrow> string \<Rightarrow> request_metadata \<Rightarrow> ('l, 'o, login_result) auth_op" where
  "PasswordLogin V username password md =
     (if \<not> cf_PasswordLoginEnabled (ae_config V) then reject ErrPasswordLoginDisabled
      else
        (let valid = validateUsername (normalizeUsername (ae_lower V) username);
             validUsername = or_else valid ''invalid'' in
         seq (time_now V) (\<lambda>t.
         seq (password_attempt_allowed V md validUsername t) (\<lambda>allowed.
         if \<not> allowed then login_failure V None md ''rate_limited'' ErrRateLimited
         else if valid = None then login_failure V None md ''invalid_credentials'' ErrInvalidCredentials
         else
           attempt (GetUserByUsername (ae_db V) validUsername)
             (\<lambda>e. if auth_root e = ErrNotFound then login_failure V None md ''invalid_credentials'' ErrInvalidCredentials
                 else reject e)
             (\<lambda>u.
              if Disabled u \<or> \<not> us_PasswordEnabled u \<or> us_PasswordHash u = []
              then login_failure V (Some u) md ''invalid_credentials'' ErrInvalidCredentials
              else seq (checked (verify_password V password (us_PasswordHash u))) (\<lambda>matched.
                if \<not> matched then login_failure V (Some u) md ''invalid_credentials'' ErrInvalidCredentials
                else completePrimaryLogin V u AuthMethodPassword md None))))))"

section \<open>TOTP\<close>

definition hex_text :: "string \<Rightarrow> string" where
  "hex_text s = concat (map (\<lambda>c. [hex_char (byte c div 16), hex_char (byte c mod 16)]) s)"

text \<open>What happens when the code is wrong: an attempt is counted, the failure is recorded.\<close>

definition totp_failure :: "('l, 'o) auth_env \<Rightarrow> challenge \<Rightarrow> user \<Rightarrow> request_metadata \<Rightarrow> auth_error \<Rightarrow> ('l, 'o, 'a) auth_op" where
  "totp_failure V challenge u md verifyErr =
     attempt (IncrementChallengeAttempts (ch_ID challenge) 5)
       (\<lambda>e. if auth_root e \<noteq> ErrRateLimited then reject e
           else login_failure V (Some u) md
             (if verifyErr = ErrSecretTampered then ''totp_secret_tampered'' else ''invalid_totp'')
             (if verifyErr = ErrSecretTampered then verifyErr else ErrInvalidCredentials))
       (\<lambda>_. login_failure V (Some u) md
             (if verifyErr = ErrSecretTampered then ''totp_secret_tampered'' else ''invalid_totp'')
             (if verifyErr = ErrSecretTampered then verifyErr else ErrInvalidCredentials))"

text \<open>The transaction of a correct code: the step is accepted once, the challenge goes, the session comes.\<close>

definition totp_success :: "('l, 'o) auth_env \<Rightarrow> challenge \<Rightarrow> user \<Rightarrow> int \<Rightarrow> issued_session \<Rightarrow> request_metadata \<Rightarrow> ('l, 'o, unit) auth_op" where
  "totp_success V challenge u step issued md =
     seq (time_now V) (\<lambda>t.
     seq (AcceptTOTPTimestep (us_ID u) step t) (\<lambda>accepted.
     if \<not> accepted then reject ErrInvalidCredentials
     else
     attempt (DeleteChallenge (ch_ID challenge)) (\<lambda>_. reject ErrInvalidCredentials) (\<lambda>_.
     seq (InsertSession (ae_db V) (is_Session issued)) (\<lambda>_.
     audit_success V md u ''auth.login.succeeded'' ''session'' (ss_ID (is_Session issued))
       (\<lambda>e. e\<lparr>ev_Metadata :=
         [(''auth_method'', AText (auth_method_string (ch_AuthMethod challenge))), (''totp'', ABool True)]\<rparr>)))))"

definition CompleteTOTPLogin ::
  "('l, 'o) auth_env \<Rightarrow> string \<Rightarrow> string \<Rightarrow> request_metadata \<Rightarrow> ('l, 'o, issued_session) auth_op" where
  "CompleteTOTPLogin V rawToken code md =
     seq (time_now V) (\<lambda>t.
     seq (allow_limiter V (''totp-ip|'' @ rm_IP md) t) (\<lambda>ok.
     if \<not> ok then reject ErrRateLimited
     else if \<not> ValidOpaqueToken rawToken \<or> length (trim_space code) \<noteq> 6 then reject ErrInvalidCredentials
     else
     let tokenHash = HashToken rawToken in
     seq (allow_limiter V (''totp-token|'' @ rm_IP md @ ''|'' @ hex_text (take 8 tokenHash)) t) (\<lambda>ok.
     if \<not> ok then reject ErrRateLimited
     else
     seq (time_now V) (\<lambda>t1.
     attempt (GetChallenge tokenHash ChallengePendingTOTP t1) (\<lambda>_. reject ErrInvalidCredentials) (\<lambda>challenge.
     case ch_UserID challenge of
       None \<Rightarrow> reject ErrRateLimited
     | Some userID \<Rightarrow>
     if ch_Attempts challenge \<ge> 5 then reject ErrRateLimited
     else
     attempt (GetUserByID (ae_db V) userID) (\<lambda>_. reject ErrInvalidCredentials) (\<lambda>u.
     if Disabled u then reject ErrInvalidCredentials
     else
     attempt (GetTOTPCredential (us_ID u)) (\<lambda>_. reject ErrInvalidCredentials) (\<lambda>credential.
     if tc_ConfirmedAt credential = None then reject ErrInvalidCredentials
     else
     seq (time_now V) (\<lambda>t2.
     case totp_Verify V credential (trim_space code) t2 of
       Inl verifyErr \<Rightarrow> totp_failure V challenge u md verifyErr
     | Inr step \<Rightarrow>
         seq (newSession V u (ch_AuthMethod challenge) md) (\<lambda>issued.
         seq (auth_WithinTx (totp_success V challenge u step issued md)) (\<lambda>_.
         give issued))))))))))"

section \<open>Passkeys\<close>

definition BeginPasskeyLogin :: "('l, 'o) auth_env \<Rightarrow> request_metadata \<Rightarrow> ('l, 'o, string \<times> string) auth_op" where
  "BeginPasskeyLogin V md =
     seq (allowPublicAuth V ''passkey_begin'' md) (\<lambda>ok.
     if \<not> ok then reject ErrRateLimited
     else
     seq (outside_or ''begin passkey login'' (ae_BeginLogin V)) (\<lambda>(options, session).
     seq (createChallenge V ChallengePasskeyLogin None None None (Some session) None AuthMethodPasskey
            (cf_ChallengeTTL (ae_config V))) (\<lambda>(challenge, rawToken).
     seq (InsertChallenge (ae_db V) challenge) (\<lambda>_.
     give (rawToken, options)))))"

text \<open>The handler that the library asks for the user of a credential.\<close>

definition passkey_user :: "('l, 'o) auth_env \<Rightarrow> string \<Rightarrow> string \<Rightarrow> ('l, 'o, user) auth_op" where
  "passkey_user V rawID userHandle =
     attempt (GetUserByCredential (ae_db V) rawID userHandle) (\<lambda>_. reject ErrInvalidCredentials) (\<lambda>u.
     if Disabled u then reject ErrInvalidCredentials else give u)"

definition verify_passkey ::
  "('l, 'o) auth_env \<Rightarrow> string \<Rightarrow> string \<Rightarrow> ('l, 'o, user \<times> webauthn_credential) auth_op" where
  "verify_passkey V session request =
     (case ae_LoginHandles V session request of
        None \<Rightarrow> reject ErrInvalidCredentials
      | Some (rawID, userHandle) \<Rightarrow>
          seq (passkey_user V rawID userHandle) (\<lambda>u.
          seq (outside (ae_VerifyLogin V u session request)) (\<lambda>r.
          case r of None \<Rightarrow> reject ErrInvalidCredentials | Some credential \<Rightarrow> give (u, credential))))"

text \<open>The passkey of the user that the credential belongs to, with its new state and its old counter.\<close>

definition passkey_update_of :: "user \<Rightarrow> webauthn_credential \<Rightarrow> time \<Rightarrow> passkey_update option" where
  "passkey_update_of u credential t =
     map_option (\<lambda>p. \<lparr>pu_Passkey = p\<lparr>pk_Credential := credential, pk_LastUsedAt := Some t\<rparr>,
                     pu_ExpectedSignCount = wc_SignCount (pk_Credential p)\<rparr>)
       (find (\<lambda>p. wc_ID (pk_Credential p) = wc_ID credential) (us_Passkeys u))"

fun mark_used :: "webauthn_credential \<Rightarrow> time \<Rightarrow> passkey list \<Rightarrow> passkey list" where
  "mark_used credential t [] = []"
| "mark_used credential t (p # ps) =
     (if wc_ID (pk_Credential p) = wc_ID credential then p\<lparr>pk_Credential := credential, pk_LastUsedAt := Some t\<rparr> # ps
      else p # mark_used credential t ps)"

definition FinishPasskeyLogin ::
  "('l, 'o) auth_env \<Rightarrow> string \<Rightarrow> string \<Rightarrow> request_metadata \<Rightarrow> ('l, 'o, login_result) auth_op" where
  "FinishPasskeyLogin V ceremonyToken credentialJSON md =
     seq (allowPublicAuth V ''passkey_finish'' md) (\<lambda>ok.
     if \<not> ok then reject ErrRateLimited
     else if \<not> ValidOpaqueToken ceremonyToken then reject ErrInvalidCredentials
     else
     seq (time_now V) (\<lambda>t.
     attempt (ConsumeChallenge (HashToken ceremonyToken) ChallengePasskeyLogin t) (\<lambda>_. reject ErrChallengeReplayed) (\<lambda>challenge.
     seq (unmarshalWebAuthnSession V (ch_WebAuthnSession challenge)) (\<lambda>session.
     seq (newCredentialRequest credentialJSON) (\<lambda>request.
     attempt (verify_passkey V session request)
       (\<lambda>_. login_failure V None md ''passkey_verification_failed'' ErrInvalidCredentials) (\<lambda>(u, credential).
     if wc_CloneWarning credential then login_failure V (Some u) md ''passkey_clone_warning'' ErrInvalidCredentials
     else
     case find (\<lambda>p. wc_ID (pk_Credential p) = wc_ID credential) (us_Passkeys u) of
       None \<Rightarrow> reject ErrInvalidCredentials
     | Some _ \<Rightarrow>
         seq (time_now V) (\<lambda>t1.
         completePrimaryLogin V (u\<lparr>us_Passkeys := mark_used credential t1 (us_Passkeys u)\<rparr>) AuthMethodPasskey md
           (passkey_update_of u credential t1))))))))"

end
