(* ===== verification/Auth_Settings.thy ===== *)
theory Auth_Settings
  imports Auth_Sessions Record_Json
begin

text \<open>
  \<open>totp_settings.go\<close>, \<open>password_settings.go\<close> and \<open>passkeys.go\<close> of \<open>internal/auth\<close>: what users change about
  their own authentication. Each change ends all sessions of the user and starts a new one.
\<close>

text \<open>The end of such a change, after the user is updated: \<open>actor\<close> is the user as it was read.\<close>

definition renew_session ::
  "('l, 'o) auth_env \<Rightarrow> user \<Rightarrow> user \<Rightarrow> issued_session \<Rightarrow> request_metadata \<Rightarrow> string \<Rightarrow> any_map \<Rightarrow> ('l, 'o, issued_session) auth_op" where
  "renew_session V actor updated issued md action after =
     seq (end_sessions V (us_ID actor)) (\<lambda>_.
     seq (InsertSession (ae_db V) (is_Session issued)) (\<lambda>_.
     seq (audit_success V md actor action ''user'' (us_ID actor) (\<lambda>e. e\<lparr>ev_AfterData := after\<rparr>)) (\<lambda>_.
     give (issued\<lparr>is_User := updated\<rparr>))))"

section \<open>TOTP\<close>

definition next_totp_revision :: "uuid \<Rightarrow> ('l, 'o, int) auth_op" where
  "next_totp_revision userID =
     attempt (GetTOTPCredential userID)
       (\<lambda>e. if auth_root e \<noteq> ErrNotFound then reject e else give 1)
       (\<lambda>existing. if tc_ConfirmedAt existing \<noteq> None then reject ErrConflict
                   else give (tc_CredentialRevision existing + 1))"

definition SetupTOTP :: "('l, 'o) auth_env \<Rightarrow> authenticated_session \<Rightarrow> request_metadata \<Rightarrow> ('l, 'o, string) auth_op" where
  "SetupTOTP V current md =
     seq (GetUserByID (ae_db V) (us_ID (as_User current))) (\<lambda>u.
     seq (next_totp_revision (us_ID u)) (\<lambda>revision.
     seq (time_now V) (\<lambda>t.
     seq (totp_Setup V u revision t) (\<lambda>(credential, provisioningURI).
     seq (auth_WithinTx
           (seq (UpsertTOTPCredential credential) (\<lambda>_.
            audit_success V md u ''auth.totp.setup_started'' ''user'' (us_ID u) id))) (\<lambda>_.
     give provisioningURI)))))"

definition ConfirmTOTP ::
  "('l, 'o) auth_env \<Rightarrow> authenticated_session \<Rightarrow> string \<Rightarrow> request_metadata \<Rightarrow> ('l, 'o, issued_session) auth_op" where
  "ConfirmTOTP V current code md =
     seq (GetUserByID (ae_db V) (us_ID (as_User current))) (\<lambda>u.
     attempt (GetTOTPCredential (us_ID u)) (\<lambda>_. reject ErrConflict) (\<lambda>credential.
     if tc_ConfirmedAt credential \<noteq> None then reject ErrConflict
     else
     seq (time_now V) (\<lambda>t.
     seq (checked (totp_Verify V credential code t)) (\<lambda>step.
     let user1 = u\<lparr>us_TOTPRequired := True\<rparr> in
     seq (newSession V user1 (ss_AuthMethod (as_Session current)) md) (\<lambda>issued.
     auth_WithinTx
       (seq (time_now V) (\<lambda>t1.
        seq (ConfirmTOTPCredential (us_ID u) step t1) (\<lambda>_.
        seq (Auth_Store.UpdateUser (ae_db V) (us_ID u) (us_UpdatedAt u) (no_changes\<lparr>uc_TOTPRequired := Some True\<rparr>)) (\<lambda>updated.
        renew_session V user1 updated issued md ''auth.totp.enabled'' [(''totp_required'', ABool True)])))))))))"

definition DeleteTOTP :: "('l, 'o) auth_env \<Rightarrow> authenticated_session \<Rightarrow> request_metadata \<Rightarrow> ('l, 'o, issued_session) auth_op" where
  "DeleteTOTP V current md =
     seq (GetUserByID (ae_db V) (us_ID (as_User current))) (\<lambda>u.
     let user1 = u\<lparr>us_TOTPRequired := False\<rparr> in
     seq (newSession V user1 (ss_AuthMethod (as_Session current)) md) (\<lambda>issued.
     auth_WithinTx
       (seq (DeleteTOTPCredential (us_ID u)) (\<lambda>deleted.
        if \<not> deleted then reject ErrNotFound
        else
        seq (Auth_Store.UpdateUser (ae_db V) (us_ID u) (us_UpdatedAt u) (no_changes\<lparr>uc_TOTPRequired := Some False\<rparr>)) (\<lambda>updated.
        renew_session V user1 updated issued md ''auth.totp.disabled'' [(''totp_required'', ABool False)])))))"

section \<open>Passwords\<close>

definition SetPassword ::
  "('l, 'o) auth_env \<Rightarrow> authenticated_session \<Rightarrow> string \<Rightarrow> request_metadata \<Rightarrow> ('l, 'o, issued_session) auth_op" where
  "SetPassword V current password md =
     (if \<not> cf_PasswordLoginEnabled (ae_config V) then reject ErrPasswordLoginDisabled
      else
     seq (hash_password V password) (\<lambda>hash.
     seq (GetUserByID (ae_db V) (us_ID (as_User current))) (\<lambda>u.
     seq (newSession V u (ss_AuthMethod (as_Session current)) md) (\<lambda>issued.
     auth_WithinTx
       (seq (Auth_Store.UpdateUser (ae_db V) (us_ID u) (us_UpdatedAt u)
               (no_changes\<lparr>uc_SetPasswordHash := True, uc_PasswordHash := hash, uc_PasswordEnabled := Some True\<rparr>)) (\<lambda>updated.
        renew_session V u updated issued md ''auth.password.updated'' [(''password_enabled'', ABool True)]))))))"

definition DeletePassword :: "('l, 'o) auth_env \<Rightarrow> authenticated_session \<Rightarrow> request_metadata \<Rightarrow> ('l, 'o, issued_session) auth_op" where
  "DeletePassword V current md =
     seq (GetUserByID (ae_db V) (us_ID (as_User current))) (\<lambda>u.
     seq (CountPasskeys (us_ID u)) (\<lambda>count.
     if count = 0 then reject ErrLastAuthentication
     else
     seq (newSession V u (ss_AuthMethod (as_Session current)) md) (\<lambda>issued.
     auth_WithinTx
       (seq (Auth_Store.UpdateUser (ae_db V) (us_ID u) (us_UpdatedAt u)
               (no_changes\<lparr>uc_SetPasswordHash := True, uc_PasswordHash := [], uc_PasswordEnabled := Some False\<rparr>)) (\<lambda>updated.
        renew_session V u updated issued md ''auth.password.disabled'' [(''password_enabled'', ABool False)])))))"

section \<open>Passkeys\<close>

text \<open>\<open>passkeyRegistrationPayload\<close> as JSON, and what a registration hands out.\<close>

definition passkey_payload :: "string \<Rightarrow> string" where
  "passkey_payload name = json_render (JObj [(''name'', JStr name)])"

definition BeginPasskeyRegistration ::
  "('l, 'o) auth_env \<Rightarrow> authenticated_session \<Rightarrow> string \<Rightarrow> ('l, 'o, string \<times> string) auth_op" where
  "BeginPasskeyRegistration V current name =
     seq (input_or ErrInvalidInput (validatePasskeyName name)) (\<lambda>name.
     seq (GetUserByID (ae_db V) (us_ID (as_User current))) (\<lambda>u.
     seq (outside_or ''begin passkey registration'' (ae_BeginRegistration V u (WebAuthnCredentials u))) (\<lambda>(options, session).
     seq (createChallenge V ChallengePasskeyRegistration (Some (us_ID u)) (Some (ss_ID (as_Session current))) None
            (Some session) (Some (passkey_payload name)) AuthMethodPasskey (cf_ChallengeTTL (ae_config V))) (\<lambda>(challenge, rawToken).
     seq (InsertChallenge (ae_db V) challenge) (\<lambda>_.
     give (rawToken, options))))))"

definition new_passkey :: "uuid \<Rightarrow> uuid \<Rightarrow> string \<Rightarrow> webauthn_credential \<Rightarrow> time \<Rightarrow> passkey" where
  "new_passkey i userID name credential t =
     \<lparr>pk_ID = i, pk_UserID = userID, pk_Name = name, pk_Credential = credential, pk_CreatedAt = t, pk_LastUsedAt = None\<rparr>"

definition FinishPasskeyRegistration ::
  "('l, 'o) auth_env \<Rightarrow> authenticated_session \<Rightarrow> string \<Rightarrow> string \<Rightarrow> request_metadata \<Rightarrow> ('l, 'o, issued_session) auth_op" where
  "FinishPasskeyRegistration V current ceremonyToken credentialJSON md =
     (if \<not> ValidOpaqueToken ceremonyToken then reject ErrInvalidInput
      else
     seq (time_now V) (\<lambda>t.
     attempt (ConsumeChallenge (HashToken ceremonyToken) ChallengePasskeyRegistration t) (\<lambda>_. reject ErrChallengeReplayed) (\<lambda>challenge.
     if ch_UserID challenge \<noteq> Some (us_ID (as_User current)) \<or> ch_SessionID challenge \<noteq> Some (ss_ID (as_Session current))
     then reject ErrForbidden
     else
     seq (input_or (AuthFailure ''decode passkey registration challenge'') (ae_passkey_payload V (ch_Payload challenge))) (\<lambda>name.
     seq (GetUserByID (ae_db V) (us_ID (as_User current))) (\<lambda>u.
     seq (unmarshalWebAuthnSession V (ch_WebAuthnSession challenge)) (\<lambda>session.
     seq (newCredentialRequest credentialJSON) (\<lambda>request.
     seq (outside (ae_FinishRegistration V u session request)) (\<lambda>r.
     case r of None \<Rightarrow> reject ErrInvalidCredentials
     | Some credential \<Rightarrow>
     seq (newUUID V) (\<lambda>passkeyID.
     seq (time_now V) (\<lambda>t1.
     auth_WithinTx
       (seq (InsertPasskey (ae_db V) (new_passkey passkeyID (us_ID u) name credential t1)) (\<lambda>_.
        seq (rotateSession V (current\<lparr>as_User := u\<rparr>) md) (\<lambda>issued.
        seq (audit_success V md u ''auth.passkey.registered'' ''passkey'' passkeyID
               (\<lambda>e. e\<lparr>ev_AfterData := [(''name'', AText name)]\<rparr>)) (\<lambda>_.
        give issued))))))))))))))"

definition ListPasskeys :: "('l, 'o) auth_env \<Rightarrow> authenticated_session \<Rightarrow> ('l, 'o, passkey list) auth_op" where
  "ListPasskeys V current = Auth_Store.ListPasskeys (ae_db V) (us_ID (as_User current))"

text \<open>Whether the user can log in without the passkey that is to go.\<close>

definition other_authentication :: "('l, 'o) auth_env \<Rightarrow> user \<Rightarrow> int \<Rightarrow> bool" where
  "other_authentication V u passkeys \<longleftrightarrow>
     \<not> (passkeys \<le> 1 \<and> \<not> (cf_PasswordLoginEnabled (ae_config V) \<and> us_PasswordEnabled u \<and> us_PasswordHash u \<noteq> []))"

definition DeletePasskey ::
  "('l, 'o) auth_env \<Rightarrow> authenticated_session \<Rightarrow> uuid \<Rightarrow> request_metadata \<Rightarrow> ('l, 'o, issued_session) auth_op" where
  "DeletePasskey V current passkeyID md =
     auth_WithinTx
       (seq (GetUserByID (ae_db V) (us_ID (as_User current))) (\<lambda>u.
        seq (CountPasskeys (us_ID u)) (\<lambda>count.
        if \<not> other_authentication V u count then reject ErrLastAuthentication
        else
        seq (Auth_Store.DeletePasskey (ae_db V) (us_ID u) passkeyID) (\<lambda>deleted.
        seq (Auth_Store.UpdateUser (ae_db V) (us_ID u) (us_UpdatedAt u) no_changes) (\<lambda>updatedUser.
        seq (end_sessions V (us_ID u)) (\<lambda>_.
        seq (newSession V updatedUser (ss_AuthMethod (as_Session current)) md) (\<lambda>issued.
        seq (InsertSession (ae_db V) (is_Session issued)) (\<lambda>_.
        seq (audit_success V md u ''auth.passkey.deleted'' ''passkey'' (pk_ID deleted)
               (\<lambda>e. e\<lparr>ev_BeforeData := [(''name'', AText (pk_Name deleted))]\<rparr>)) (\<lambda>_.
        give issued)))))))))"

end
