(* ===== verification/Auth_Bootstrap.thy ===== *)
theory Auth_Bootstrap
  imports Auth_Users Auth_Settings
begin

text \<open>
  \<open>bootstrap.go\<close> and \<open>enrollment.go\<close> of \<open>internal/auth\<close>: the first administrator, and the first passkey of a
  user who was given an enrollment token.
\<close>

record bootstrap_status =
  bs_Required :: bool
  bs_Configured :: bool
  bs_PasswordLoginEnabled :: bool

section \<open>Bootstrap\<close>

definition BootstrapStatus :: "('l, 'o) auth_env \<Rightarrow> ('l, 'o, bootstrap_status) auth_op" where
  "BootstrapStatus V =
     seq CountUsers (\<lambda>count.
     give \<lparr>bs_Required = (count = 0), bs_Configured = (length (cf_BootstrapTokenHash (ae_config V)) = 32),
           bs_PasswordLoginEnabled = cf_PasswordLoginEnabled (ae_config V)\<rparr>)"

definition EnsureBootstrapReady :: "('l, 'o) auth_env \<Rightarrow> ('l, 'o, unit) auth_op" where
  "EnsureBootstrapReady V =
     seq (BootstrapStatus V) (\<lambda>status.
     if bs_Required status \<and> \<not> bs_Configured status then reject ErrBootstrapUnavailable else give ())"

definition validBootstrapToken :: "('l, 'o) auth_env \<Rightarrow> string \<Rightarrow> bool" where
  "validBootstrapToken V raw \<longleftrightarrow>
     (if length (cf_BootstrapTokenHash (ae_config V)) \<noteq> 32 \<or> \<not> ValidOpaqueToken raw then False
      else HashToken raw = cf_BootstrapTokenHash (ae_config V))"

definition bootstrapFailure :: "('l, 'o) auth_env \<Rightarrow> request_metadata \<Rightarrow> string \<Rightarrow> ('l, 'o, 'a) auth_op" where
  "bootstrapFailure V md code =
     seq (newAuditEvent V md None ''auth.bootstrap.failed'' ''system'' ''bootstrap'' ResultFailed code) (\<lambda>e.
     seq (auth_InsertAuditEvent (ae_db V) e) (\<lambda>_.
     reject ErrInvalidCredentials))"

definition no_users_yet :: "('l, 'o, unit) auth_op" where
  "no_users_yet = seq CountUsers (\<lambda>count. if count \<noteq> 0 then reject ErrBootstrapUnavailable else give ())"

text \<open>\<open>encoding/json\<close> writes bytes in \<open>base64.StdEncoding\<close>, with padding.\<close>

definition b64_std :: "string \<Rightarrow> string" where
  "b64_std s =
     (let e = map (\<lambda>c. if c = CHR ''-'' then CHR ''+'' else if c = CHR ''_'' then CHR ''/'' else c) (b64_encode s)
      in e @ replicate ((4 - length e mod 4) mod 4) (CHR ''=''))"

definition bootstrap_payload_json :: "bootstrap_payload \<Rightarrow> string" where
  "bootstrap_payload_json p =
     json_render (JObj [(''user_id'', JStr (bp_UserID p)), (''webauthn_user_handle'', JStr (bp_WebAuthnUserHandle p)),
       (''username'', JStr (bp_Username p)), (''display_name'', JStr (bp_DisplayName p)),
       (''passkey_name'', JStr (bp_PasskeyName p))])"

record bootstrap_begin_input =
  bb_BootstrapToken :: string
  bb_Username :: string
  bb_DisplayName :: string
  bb_PasskeyName :: string

definition BeginBootstrap ::
  "('l, 'o) auth_env \<Rightarrow> bootstrap_begin_input \<Rightarrow> request_metadata \<Rightarrow> ('l, 'o, string \<times> string) auth_op" where
  "BeginBootstrap V input md =
     seq (allowPublicAuth V ''bootstrap_begin'' md) (\<lambda>ok.
     if \<not> ok then reject ErrRateLimited
     else if \<not> validBootstrapToken V (bb_BootstrapToken input) then bootstrapFailure V md ''invalid_bootstrap_token''
     else
     seq no_users_yet (\<lambda>_.
     seq (input_or ErrInvalidInput (validateUsername (bb_Username input))) (\<lambda>username.
     seq (input_or ErrInvalidInput (validateDisplayName (bb_DisplayName input))) (\<lambda>displayName.
     seq (input_or ErrInvalidInput (validatePasskeyName (bb_PasskeyName input))) (\<lambda>passkeyName.
     seq (newUUID V) (\<lambda>userID.
     seq (user_handle V) (\<lambda>handle.
     seq (outside_or ''begin bootstrap WebAuthn registration''
            (ae_BeginRegistration V (new_user userID handle username displayName RoleAdmin) [])) (\<lambda>(options, session).
     seq (createChallenge V ChallengeBootstrapRegistration None None None (Some session)
            (Some (bootstrap_payload_json \<lparr>bp_UserID = userID, bp_WebAuthnUserHandle = b64_std handle, bp_Username = username,
                     bp_DisplayName = displayName, bp_PasskeyName = passkeyName\<rparr>))
            AuthMethodPasskey (cf_ChallengeTTL (ae_config V))) (\<lambda>(challenge, rawToken).
     seq (InsertChallenge (ae_db V) challenge) (\<lambda>_.
     give (rawToken, options)))))))))))"

text \<open>The first user comes in with a passkey or a password, and a session, or not at all.\<close>

definition first_user ::
  "('l, 'o) auth_env \<Rightarrow> user \<Rightarrow> ('l, 'o, unit) auth_op \<Rightarrow> issued_session \<Rightarrow> request_metadata \<Rightarrow> any_map \<Rightarrow> ('l, 'o, unit) auth_op" where
  "first_user V u insert_passkey issued md after =
     auth_WithinTx
       (seq no_users_yet (\<lambda>_.
        seq (InsertUser (ae_db V) u) (\<lambda>_.
        seq insert_passkey (\<lambda>_.
        seq (InsertSession (ae_db V) (is_Session issued)) (\<lambda>_.
        audit_success V md u ''auth.bootstrap.completed'' ''user'' (us_ID u) (\<lambda>e. e\<lparr>ev_AfterData := after\<rparr>))))))"

definition FinishBootstrap ::
  "('l, 'o) auth_env \<Rightarrow> string \<Rightarrow> string \<Rightarrow> string \<Rightarrow> request_metadata \<Rightarrow> ('l, 'o, issued_session) auth_op" where
  "FinishBootstrap V bootstrapToken ceremonyToken credentialJSON md =
     seq (allowPublicAuth V ''bootstrap_finish'' md) (\<lambda>ok.
     if \<not> ok then reject ErrRateLimited
     else if \<not> validBootstrapToken V bootstrapToken \<or> \<not> ValidOpaqueToken ceremonyToken
     then bootstrapFailure V md ''invalid_bootstrap_token''
     else
     seq (time_now V) (\<lambda>t.
     attempt (ConsumeChallenge (HashToken ceremonyToken) ChallengeBootstrapRegistration t) (\<lambda>_. reject ErrChallengeReplayed) (\<lambda>challenge.
     seq (input_or (AuthFailure ''decode bootstrap challenge'') (ae_bootstrap_payload V (ch_Payload challenge))) (\<lambda>payload.
     seq (unmarshalWebAuthnSession V (ch_WebAuthnSession challenge)) (\<lambda>session.
     let u = new_user (bp_UserID payload) (bp_WebAuthnUserHandle payload) (bp_Username payload) (bp_DisplayName payload) RoleAdmin in
     seq (newCredentialRequest credentialJSON) (\<lambda>request.
     seq (outside (ae_FinishRegistration V u session request)) (\<lambda>r.
     case r of None \<Rightarrow> bootstrapFailure V md ''webauthn_verification_failed''
     | Some credential \<Rightarrow>
     seq (time_now V) (\<lambda>t1.
     let u1 = u\<lparr>us_CreatedAt := t1, us_UpdatedAt := t1\<rparr> in
     seq (newUUID V) (\<lambda>passkeyID.
     seq (newSession V u1 AuthMethodPasskey md) (\<lambda>issued.
     seq (first_user V u1 (InsertPasskey (ae_db V) (new_passkey passkeyID (us_ID u1) (bp_PasskeyName payload) credential t1))
            issued md [(''username'', AText (us_Username u1)), (''role'', AText (us_Role u1))]) (\<lambda>_.
     give issued)))))))))))"

definition BootstrapWithPassword ::
  "('l, 'o) auth_env \<Rightarrow> string \<Rightarrow> string \<Rightarrow> string \<Rightarrow> string \<Rightarrow> request_metadata \<Rightarrow> ('l, 'o, issued_session) auth_op" where
  "BootstrapWithPassword V bootstrapToken inputUsername inputDisplayName password md =
     seq (allowPublicAuth V ''bootstrap_password'' md) (\<lambda>ok.
     if \<not> ok then reject ErrRateLimited
     else if \<not> cf_PasswordLoginEnabled (ae_config V) then reject ErrPasswordLoginDisabled
     else if \<not> validBootstrapToken V bootstrapToken then bootstrapFailure V md ''invalid_bootstrap_token''
     else
     seq no_users_yet (\<lambda>_.
     seq (input_or ErrInvalidInput (validateUsername (normalizeUsername (ae_lower V) inputUsername))) (\<lambda>username.
     seq (input_or ErrInvalidInput (validateDisplayName inputDisplayName)) (\<lambda>displayName.
     seq (hash_password V password) (\<lambda>passwordHash.
     seq (newUUID V) (\<lambda>userID.
     seq (user_handle V) (\<lambda>handle.
     seq (time_now V) (\<lambda>t.
     let u = (new_user userID handle username displayName RoleAdmin)
           \<lparr>us_PasswordHash := passwordHash, us_PasswordEnabled := True, us_CreatedAt := t, us_UpdatedAt := t\<rparr> in
     seq (newSession V u AuthMethodPassword md) (\<lambda>issued.
     seq (first_user V u (give ()) issued md
            [(''username'', AText username), (''role'', AText RoleAdmin), (''auth_method'', AText ''password''),
             (''password_enabled'', ABool True)]) (\<lambda>_.
     give issued))))))))))"

section \<open>Enrollment\<close>

definition BeginEnrollment ::
  "('l, 'o) auth_env \<Rightarrow> string \<Rightarrow> string \<Rightarrow> request_metadata \<Rightarrow> ('l, 'o, string \<times> string) auth_op" where
  "BeginEnrollment V enrollmentToken passkeyName md =
     seq (allowPublicAuth V ''enrollment_begin'' md) (\<lambda>ok.
     if \<not> ok then reject ErrRateLimited
     else if \<not> ValidOpaqueToken enrollmentToken then reject ErrInvalidCredentials
     else
     seq (input_or ErrInvalidInput (validatePasskeyName passkeyName)) (\<lambda>name.
     seq (time_now V) (\<lambda>t.
     attempt (GetChallenge (HashToken enrollmentToken) ChallengeEnrollmentGrant t) (\<lambda>_. reject ErrInvalidCredentials) (\<lambda>grant.
     case ch_UserID grant of None \<Rightarrow> reject ErrInvalidCredentials
     | Some userID \<Rightarrow>
     attempt (GetUserByID (ae_db V) userID) (\<lambda>_. reject ErrInvalidCredentials) (\<lambda>u.
     if Disabled u then reject ErrInvalidCredentials
     else
     seq (outside_or ''begin enrollment registration'' (ae_BeginRegistration V u (WebAuthnCredentials u))) (\<lambda>(options, session).
     seq (createChallenge V ChallengeEnrollmentRegistration (Some (us_ID u)) None (Some (ch_ID grant)) (Some session)
            (Some (passkey_payload name)) AuthMethodPasskey (cf_ChallengeTTL (ae_config V))) (\<lambda>(challenge, rawToken).
     seq (InsertChallenge (ae_db V) challenge) (\<lambda>_.
     give (rawToken, options)))))))))"

text \<open>The registration and the grant it was begun with belong together.\<close>

definition granted :: "challenge \<Rightarrow> challenge \<Rightarrow> bool" where
  "granted challenge grant \<longleftrightarrow>
     ch_ParentID challenge = Some (ch_ID grant) \<and> ch_UserID grant \<noteq> None \<and> ch_UserID grant = ch_UserID challenge"

definition FinishEnrollment ::
  "('l, 'o) auth_env \<Rightarrow> string \<Rightarrow> string \<Rightarrow> string \<Rightarrow> request_metadata \<Rightarrow> ('l, 'o, issued_session) auth_op" where
  "FinishEnrollment V enrollmentToken ceremonyToken credentialJSON md =
     seq (allowPublicAuth V ''enrollment_finish'' md) (\<lambda>ok.
     if \<not> ok then reject ErrRateLimited
     else if \<not> ValidOpaqueToken enrollmentToken \<or> \<not> ValidOpaqueToken ceremonyToken then reject ErrInvalidCredentials
     else
     seq (time_now V) (\<lambda>t.
     attempt (ConsumeChallenge (HashToken ceremonyToken) ChallengeEnrollmentRegistration t) (\<lambda>_. reject ErrChallengeReplayed) (\<lambda>challenge.
     if ch_UserID challenge = None \<or> ch_ParentID challenge = None then reject ErrChallengeReplayed
     else
     seq (time_now V) (\<lambda>t1.
     attempt (GetChallenge (HashToken enrollmentToken) ChallengeEnrollmentGrant t1) (\<lambda>_. reject ErrInvalidCredentials) (\<lambda>grant.
     if \<not> granted challenge grant then reject ErrInvalidCredentials
     else
     attempt (GetUserByID (ae_db V) (or_else (ch_UserID challenge) nil_uuid)) (\<lambda>_. reject ErrInvalidCredentials) (\<lambda>u.
     if Disabled u then reject ErrInvalidCredentials
     else
     seq (input_or (AuthFailure ''decode enrollment challenge'') (ae_passkey_payload V (ch_Payload challenge))) (\<lambda>name.
     seq (unmarshalWebAuthnSession V (ch_WebAuthnSession challenge)) (\<lambda>session.
     seq (newCredentialRequest credentialJSON) (\<lambda>request.
     seq (outside (ae_FinishRegistration V u session request)) (\<lambda>r.
     case r of None \<Rightarrow> reject ErrInvalidCredentials
     | Some credential \<Rightarrow>
     seq (newUUID V) (\<lambda>passkeyID.
     seq (time_now V) (\<lambda>t2.
     seq (newSession V u AuthMethodPasskey md) (\<lambda>issued.
     seq (auth_WithinTx
           (attempt (DeleteChallenge (ch_ID grant)) (\<lambda>_. reject ErrInvalidCredentials) (\<lambda>_.
            seq (InsertPasskey (ae_db V) (new_passkey passkeyID (us_ID u) name credential t2)) (\<lambda>_.
            seq (InsertSession (ae_db V) (is_Session issued)) (\<lambda>_.
            audit_success V md u ''auth.enrollment.completed'' ''passkey'' passkeyID
              (\<lambda>e. e\<lparr>ev_AfterData := [(''name'', AText name)]\<rparr>)))))) (\<lambda>_.
     give issued))))))))))))))"

end
