(* ===== verification/Auth_Changes.thy ===== *)
theory Auth_Changes
  imports Auth_Users Auth_Settings Auth_Login Auth_Bootstrap Store_Changes
begin

text \<open>
  What the authentication service may do to its tables. \<open>auth_change\<close> is the abstract machine: rows come,
  advance and go, under the constraints of the schema; an active administrator is demoted or disabled only
  while another one is left, and a revoked session stays revoked. Every operation of the service is a
  sequence of such changes.
\<close>

section \<open>The abstract machine\<close>

definition same_rows :: "'a auth_store_scheme \<Rightarrow> 'a auth_store_scheme \<Rightarrow> bool" where
  "same_rows s s' \<longleftrightarrow>
     same_tables s s' \<and> au_users s' = au_users s \<and> au_sessions s' = au_sessions s \<and> au_passkeys s' = au_passkeys s
     \<and> au_totp s' = au_totp s \<and> au_challenges s' = au_challenges s"

definition session_advances :: "session_row \<Rightarrow> session_row \<Rightarrow> bool" where
  "session_advances r r' \<longleftrightarrow>
     sr_id r' = sr_id r \<and> sr_user_id r' = sr_user_id r \<and> sr_token_hash r' = sr_token_hash r
     \<and> sr_absolute_expires_at r' = sr_absolute_expires_at r
     \<and> (sr_idle_expires_at r \<le> sr_absolute_expires_at r \<longrightarrow> sr_idle_expires_at r' \<le> sr_absolute_expires_at r')
     \<and> (sr_revoked_at r \<noteq> None \<longrightarrow> sr_revoked_at r' = sr_revoked_at r)"

definition same_passkey :: "passkey_row \<Rightarrow> passkey_row \<Rightarrow> bool" where
  "same_passkey r r' \<longleftrightarrow> pr_id r' = pr_id r \<and> pr_user_id r' = pr_user_id r \<and> pr_credential_id r' = pr_credential_id r"

definition same_challenge :: "challenge_row \<Rightarrow> challenge_row \<Rightarrow> bool" where
  "same_challenge c c' \<longleftrightarrow> cr_id c' = cr_id c \<and> cr_token_hash c' = cr_token_hash c \<and> cr_user_id c' = cr_user_id c"

inductive auth_change :: "auth_db \<Rightarrow> 'a auth_store_scheme \<Rightarrow> 'a auth_store_scheme \<Rightarrow> bool" for Q where
  ac_same: "same_rows s s' \<Longrightarrow> auth_change Q s s'"
| ac_new_user: "user_row_ok Q r \<Longrightarrow> \<not> list_ex (user_clash Q r) (au_users s) \<Longrightarrow>
    auth_change Q s (s\<lparr>au_users := au_users s @ [r]\<rparr>)"
| ac_user: "find (\<lambda>x. ur_id x = i) (au_users s) = Some r \<Longrightarrow> ur_id r' = i \<Longrightarrow> user_row_ok Q r' \<Longrightarrow>
    \<not> list_ex (\<lambda>x. ur_id x \<noteq> i \<and> user_clash Q r' x) (au_users s) \<Longrightarrow>
    (active_admin r \<Longrightarrow> \<not> active_admin r' \<Longrightarrow> list_ex (\<lambda>x. ur_id x \<noteq> i \<and> active_admin x) (au_users s)) \<Longrightarrow>
    auth_change Q s (s\<lparr>au_users := map (\<lambda>x. if ur_id x = i then r' else x) (au_users s)\<rparr>)"
| ac_new_session: "\<not> list_ex (\<lambda>y. sr_id y = sr_id r \<or> sr_token_hash y = sr_token_hash r) (au_sessions s) \<Longrightarrow>
    sr_user_id r \<in> ur_id ` set (au_users s) \<Longrightarrow> sr_idle_expires_at r \<le> sr_absolute_expires_at r \<Longrightarrow>
    auth_change Q s (s\<lparr>au_sessions := au_sessions s @ [r]\<rparr>)"
| ac_sessions: "(\<And>r. session_advances r (f r)) \<Longrightarrow> auth_change Q s (s\<lparr>au_sessions := map f (au_sessions s)\<rparr>)"
| ac_new_passkey: "\<not> list_ex (\<lambda>x. pr_id x = pr_id r \<or> pr_credential_id x = pr_credential_id r) (au_passkeys s) \<Longrightarrow>
    pr_user_id r \<in> ur_id ` set (au_users s) \<Longrightarrow> auth_change Q s (s\<lparr>au_passkeys := au_passkeys s @ [r]\<rparr>)"
| ac_passkeys: "(\<And>r. same_passkey r (f r)) \<Longrightarrow> auth_change Q s (s\<lparr>au_passkeys := map f (au_passkeys s)\<rparr>)"
| ac_drop_passkey: "auth_change Q s (s\<lparr>au_passkeys := filter P (au_passkeys s)\<rparr>)"
| ac_new_totp: "tc_UserID c \<notin> tc_UserID ` set (au_totp s) \<Longrightarrow> tc_UserID c \<in> ur_id ` set (au_users s) \<Longrightarrow>
    auth_change Q s (s\<lparr>au_totp := au_totp s @ [c]\<rparr>)"
| ac_totp: "(\<And>c. tc_UserID (f c) = tc_UserID c) \<Longrightarrow> auth_change Q s (s\<lparr>au_totp := map f (au_totp s)\<rparr>)"
| ac_drop_totp: "auth_change Q s (s\<lparr>au_totp := filter P (au_totp s)\<rparr>)"
| ac_new_challenge: "\<not> list_ex (\<lambda>x. cr_id x = cr_id c \<or> cr_token_hash x = cr_token_hash c) (au_challenges s) \<Longrightarrow>
    refers (cr_user_id c) ur_id (au_users s) \<Longrightarrow> auth_change Q s (s\<lparr>au_challenges := au_challenges s @ [c]\<rparr>)"
| ac_challenges: "(\<And>c. same_challenge c (f c)) \<Longrightarrow> auth_change Q s (s\<lparr>au_challenges := map f (au_challenges s)\<rparr>)"
| ac_drop_challenges: "subseq cs (au_challenges s) \<Longrightarrow> auth_change Q s (s\<lparr>au_challenges := cs\<rparr>)"
| ac_new_event: "ev_ID e \<notin> ev_ID ` set (st_events s) \<Longrightarrow> auth_change Q s (s\<lparr>st_events := st_events s @ [e]\<rparr>)"

section \<open>Statements and transactions\<close>

lemma same_rows_refl [simp]: "same_rows s s"
  by (simp add: same_rows_def)

lemma same_rows_trans: "same_rows a b \<Longrightarrow> same_rows b c \<Longrightarrow> same_rows a c"
  by (simp add: same_rows_def same_tables_def)

lemma same_rows_sym: "same_rows a b \<Longrightarrow> same_rows b a"
  by (simp add: same_rows_def same_tables_def)

text \<open>A statement fails and leaves the rows, or does what its function says of a store with these rows.\<close>

lemma query_outcome:
  assumes "query op f s = (s', r)"
  shows "\<exists>s1. same_rows s s1 \<and> st_now s1 = st_now s
    \<and> ((\<exists>e. s' = s1 \<and> r = Inl (mapAuthStoreError op e)) \<or> (\<exists>x. f s1 = Inr (s', x) \<and> r = Inr x))"
proof (cases "st_faults s")
  case Nil
  with assms show ?thesis
    by (intro exI [of _ s]) (auto simp: query_def sql_quiet split: sum.splits prod.splits)
next
  case (Cons a fs)
  with assms show ?thesis
    by (intro exI [of _ "s\<lparr>st_faults := fs\<rparr>"])
      (auto simp: query_def sql_def statement_def run_statement_def same_rows_def same_tables_def
        split: sum.splits prod.splits option.splits)
qed

lemma query_Inr: "query op f s = (s', Inr x) \<Longrightarrow> \<exists>s1. same_rows s s1 \<and> st_now s1 = st_now s \<and> f s1 = Inr (s', x)"
  using query_outcome by fastforce

lemma query_Inl: "query op f s = (s', Inl e) \<Longrightarrow> same_rows s s'"
  using query_outcome by fastforce

lemma auth_tx_outcome:
  assumes "auth_WithinTx operation s = (s', r)"
  shows "case r of Inl e \<Rightarrow> same_rows s s'
    | Inr x \<Rightarrow> \<not> st_in_tx s \<and> (\<exists>s0 s1. same_rows s s0 \<and> st_now s0 = st_now s \<and> operation s0 = (s1, Inr x) \<and> same_rows s1 s')"
  using assms unfolding auth_WithinTx_def
  by (rule run_tx_outcome [where same = same_rows]) (simp_all add: same_rows_def same_tables_def auth_rollback_def)

lemma auth_tx_Inr:
  "auth_WithinTx operation s = (s', Inr x) \<Longrightarrow>
     \<exists>s0 s1. same_rows s s0 \<and> st_now s0 = st_now s \<and> operation s0 = (s1, Inr x) \<and> same_rows s1 s'"
  using auth_tx_outcome by fastforce

lemma auth_tx_Inl: "auth_WithinTx operation s = (s', Inl e) \<Longrightarrow> same_rows s s'"
  using auth_tx_outcome by fastforce

section \<open>Operations that keep the rows\<close>

text \<open>Besides the rows, such an operation keeps the time of the transaction.\<close>

definition keeps_rows :: "'a auth_store_scheme \<Rightarrow> 'a auth_store_scheme \<Rightarrow> bool" where
  "keeps_rows s s' \<longleftrightarrow> same_rows s s' \<and> st_now s' = st_now s"

abbreviation quiet :: "('a auth_store_scheme, 'e, 'x) outcome \<Rightarrow> bool" where
  "quiet m \<equiv> takes keeps_rows m"

lemma keeps_rows_rtranclp [simp]: "keeps_rows\<^sup>*\<^sup>* s s' \<longleftrightarrow> keeps_rows s s'"
proof
  assume "keeps_rows\<^sup>*\<^sup>* s s'"
  then show "keeps_rows s s'"
    by (induction rule: rtranclp_induct) (auto simp: keeps_rows_def intro: same_rows_trans)
qed auto

lemma quietI: "(\<And>s. keeps_rows s (fst (m s))) \<Longrightarrow> quiet m"
  by (simp add: takes_def)

lemma quietD: "quiet m \<Longrightarrow> m s = (s', r) \<Longrightarrow> same_rows s s' \<and> st_now s' = st_now s"
  using takesD [of keeps_rows m s s' r] by (simp add: keeps_rows_def)

named_theorems quiet_rules \<open>operations that keep the rows\<close>

lemmas [quiet_rules] = takes_attempt takes_seq takes_still takes_if takes_prod

lemma takes_option: "(v = None \<Longrightarrow> takes R m) \<Longrightarrow> (\<And>x. v = Some x \<Longrightarrow> takes R (k x)) \<Longrightarrow>
    takes R (case v of None \<Rightarrow> m | Some x \<Rightarrow> k x)"
  by (cases v) simp_all

lemma takes_sum: "(\<And>x. v = Inl x \<Longrightarrow> takes R (h x)) \<Longrightarrow> (\<And>x. v = Inr x \<Longrightarrow> takes R (k x)) \<Longrightarrow>
    takes R (case v of Inl x \<Rightarrow> h x | Inr x \<Rightarrow> k x)"
  by (cases v) simp_all

lemma takes_let: "takes R (f x) \<Longrightarrow> takes R (let y = x in f y)"
  by simp

lemmas [quiet_rules] = takes_option takes_sum takes_let

lemma quiet_query [quiet_rules]:
  assumes "\<And>s s' x. f s = Inr (s', x) \<Longrightarrow> s' = s"
  shows "quiet (query op f)"
proof (rule quietI)
  fix s
  obtain s' r where q: "query op f s = (s', r)" by fastforce
  then show "keeps_rows s (fst (query op f s))"
    using query_outcome [OF q] assms by (auto simp: keeps_rows_def dest: same_rows_trans)
qed

lemma quiet_outside [quiet_rules]: "quiet (outside f)"
  by (rule quietI) (simp add: outside_def keeps_rows_def same_rows_def same_tables_def split: prod.splits)

lemma quiet_limiters [quiet_rules]: "quiet (allow_limiter V key t)" "quiet (allow_public V key t)"
  by (rule quietI; simp add: allow_limiter_def allow_public_def keeps_rows_def same_rows_def same_tables_def split: prod.splits)+

lemma quiet_reads [quiet_rules]:
  "quiet CountUsers" "quiet CountActiveAdmins" "quiet (CountPasskeys i)" "quiet (Auth_Store.ListPasskeys Q i)"
  "quiet (loadUserPasskeys Q u)" "quiet (GetUserByID Q i)" "quiet (GetUserByUsername Q n)" "quiet (GetUserByCredential Q c h)"
  "quiet (Auth_Store.ListUsers Q)" "quiet (GetSessionByTokenHash h)" "quiet (Auth_Store.ListSessions i)"
  "quiet (GetChallenge h k t)" "quiet (GetTOTPCredential i)"
proof -
  show p: "quiet (Auth_Store.ListPasskeys Q i)" for Q i
    unfolding Auth_Store.ListPasskeys_def by (intro quiet_rules) auto
  show l: "quiet (loadUserPasskeys Q u)" for Q u
    unfolding loadUserPasskeys_def by (intro quiet_rules p)
  show "quiet (GetUserByID Q i)" "quiet (GetUserByUsername Q n)" "quiet (GetUserByCredential Q c h)"
    unfolding GetUserByID_def GetUserByUsername_def GetUserByCredential_def
    by (intro quiet_rules l; auto simp: select_user_def split: option.splits)+
  show "quiet CountUsers" "quiet CountActiveAdmins" "quiet (CountPasskeys i)" "quiet (Auth_Store.ListUsers Q)"
    "quiet (GetSessionByTokenHash h)" "quiet (Auth_Store.ListSessions i)" "quiet (GetChallenge h k t)" "quiet (GetTOTPCredential i)"
    unfolding CountUsers_def CountActiveAdmins_def CountPasskeys_def Auth_Store.ListUsers_def GetSessionByTokenHash_def
      Auth_Store.ListSessions_def GetChallenge_def GetTOTPCredential_def
    by (intro quiet_rules; auto split: option.splits)+
qed

lemma quiet_steps [quiet_rules]:
  "quiet (outside_or m f)" "quiet (time_now V)" "quiet (newUUID V)" "quiet (crypto_result r)" "quiet (opaque_token V)"
  "quiet (input_or e v)" "quiet (newAuditEvent V md u a rt ri res code)" "quiet (hash_password V p)"
  unfolding outside_or_def time_now_def newUUID_def crypto_result_def opaque_token_def input_or_def newAuditEvent_def
    hash_password_def
  by (intro quiet_rules)+

lemma quiet_service [quiet_rules]:
  "quiet (allowPublicAuth V op md)" "quiet (totp_Setup V u k t)" "quiet (createChallenge V kind ci cs cp cw cj me ttl)"
  "quiet (newSession V u me md)" "quiet (unmarshalWebAuthnSession V w)" "quiet (newCredentialRequest c)"
  "quiet (user_handle V)" "quiet (initial_password V p)" "quiet (new_password V p)" "quiet (check_role r)"
  "quiet (keep_an_admin b)" "quiet (password_attempt_allowed V md n t)" "quiet (passkey_user V c h)"
  "quiet no_users_yet" "quiet (next_totp_revision i)"
  unfolding allowPublicAuth_def totp_Setup_def createChallenge_def newSession_def unmarshalWebAuthnSession_def
    newCredentialRequest_def user_handle_def initial_password_def new_password_def check_role_def keep_an_admin_def
    password_attempt_allowed_def passkey_user_def no_users_yet_def next_totp_revision_def
  by (intro quiet_rules)+

lemma quiet_verify_passkey [quiet_rules]: "quiet (verify_passkey V w c)"
  unfolding verify_passkey_def by (intro quiet_rules)

lemma quiet_optional [quiet_rules]: "(\<And>x. quiet (f x)) \<Longrightarrow> quiet (optional f v)"
  unfolding optional_def by (intro quiet_rules)

lemma quiet_user_changes_of [quiet_rules]: "quiet (user_changes_of V u input)"
  unfolding user_changes_of_def by (intro quiet_rules)

lemma ac_refl [simp]: "auth_change Q s s"
  by (rule ac_same) simp

section \<open>Operations as sequences of changes\<close>

abbreviation changes_rows :: "auth_db \<Rightarrow> ('a auth_store_scheme, 'e, 'x) outcome \<Rightarrow> bool" where
  "changes_rows Q m \<equiv> takes (auth_change Q) m"

named_theorems change_steps \<open>operations that are sequences of changes\<close>

lemmas [change_steps] = takes_attempt takes_seq takes_still takes_if takes_prod takes_option takes_sum takes_let

lemma same_rows_change: "same_rows s s' \<Longrightarrow> (auth_change Q)\<^sup>*\<^sup>* s s'"
  by (auto intro: ac_same)

lemma quiet_change: "quiet m \<Longrightarrow> changes_rows Q m"
  unfolding takes_def by (simp add: keeps_rows_def same_rows_change)

lemmas quiet_changes [change_steps] = quiet_outside [THEN quiet_change] quiet_limiters [THEN quiet_change]
  quiet_reads [THEN quiet_change] quiet_steps [THEN quiet_change] quiet_service [THEN quiet_change]
  quiet_verify_passkey [THEN quiet_change] quiet_user_changes_of [THEN quiet_change]

lemma query_change [change_steps]:
  assumes "\<And>s s' x. f s = Inr (s', x) \<Longrightarrow> auth_change Q s s'"
  shows "changes_rows Q (query op f)"
  unfolding takes_def
proof
  fix s
  obtain s' r where q: "query op f s = (s', r)" by fastforce
  from query_outcome [OF q] obtain s1 where "same_rows s s1" and "s' = s1 \<or> (\<exists>x. f s1 = Inr (s', x))" by blast
  then have "(auth_change Q)\<^sup>*\<^sup>* s s'"
    using assms same_rows_change by (metis converse_rtranclp_into_rtranclp ac_same r_into_rtranclp)
  with q show "(auth_change Q)\<^sup>*\<^sup>* s (fst (query op f s))" by simp
qed

text \<open>A transaction from a given state: what holds of its operation from states with the same rows.\<close>

lemma tx_from:
  assumes "\<And>s0. same_rows s s0 \<Longrightarrow> (auth_change Q)\<^sup>*\<^sup>* s0 (fst (operation s0))"
  shows "(auth_change Q)\<^sup>*\<^sup>* s (fst (auth_WithinTx operation s))"
proof -
  obtain s' r where t: "auth_WithinTx operation s = (s', r)" by fastforce
  show ?thesis
  proof (cases r)
    case (Inl e)
    have "same_rows s s'" by (rule auth_tx_Inl [OF t [unfolded Inl]])
    then show ?thesis using t same_rows_change by simp
  next
    case (Inr x)
    obtain s0 s1 where "same_rows s s0" "operation s0 = (s1, Inr x)" "same_rows s1 s'"
      using auth_tx_Inr [OF t [unfolded Inr]] by blast
    with assms [of s0] have "(auth_change Q)\<^sup>*\<^sup>* s0 s1" by simp
    with \<open>same_rows s s0\<close> \<open>same_rows s1 s'\<close> have "(auth_change Q)\<^sup>*\<^sup>* s s'"
      by (meson rtranclp_trans same_rows_change)
    then show ?thesis using t by simp
  qed
qed

lemma tx_changes [change_steps]: "changes_rows Q operation \<Longrightarrow> changes_rows Q (auth_WithinTx operation)"
  unfolding takes_def by (auto intro: tx_from)

section \<open>The statements\<close>

lemma update_user_change:
  assumes "update_user Q i t f s = Inr (s', u)" and "\<And>r. ur_id (f r) = ur_id r"
    and guard: "\<And>r. find (\<lambda>x. ur_id x = i) (au_users s) = Some r \<Longrightarrow> ur_updated_at r = timestamptz t \<Longrightarrow> active_admin r \<Longrightarrow>
      \<not> active_admin (f r) \<Longrightarrow> list_ex (\<lambda>x. ur_id x \<noteq> i \<and> active_admin x) (au_users s)"
  shows "auth_change Q s s'"
proof -
  from assms(1) obtain r where r: "find (\<lambda>x. ur_id x = i) (au_users s) = Some r" "ur_updated_at r = timestamptz t"
    "user_row_ok Q ((f r)\<lparr>ur_updated_at := st_now s\<rparr>)"
    "\<not> list_ex (\<lambda>x. ur_id x \<noteq> i \<and> user_clash Q ((f r)\<lparr>ur_updated_at := st_now s\<rparr>) x) (au_users s)"
    "s' = s\<lparr>au_users := map (\<lambda>x. if ur_id x = i then (f r)\<lparr>ur_updated_at := st_now s\<rparr> else x) (au_users s)\<rparr>"
    by (auto simp: update_user_def Let_def split: option.splits if_splits)
  have "ur_id r = i" using r(1) by (auto simp: find_Some_iff)
  then have "ur_id ((f r)\<lparr>ur_updated_at := st_now s\<rparr>) = i" using assms(2) by simp
  then show ?thesis
    unfolding r(5) using r(1,3,4) guard [OF r(1,2)]
    by (intro ac_user) (simp_all add: active_admin_def)
qed

lemma active_admin_kept [simp]:
  "uc_Role ch = None \<Longrightarrow> active_admin (apply_user_changes ch r) = active_admin r"
  by (simp add: active_admin_def apply_user_changes_def or_else_def)

lemma apply_user_changes_id [simp]: "ur_id (apply_user_changes ch r) = ur_id r"
  by (simp add: apply_user_changes_def)

lemma subseq_drop_orphans: "subseq (drop_orphans n cs) cs"
proof (induction n arbitrary: cs)
  case (Suc n)
  show ?case unfolding drop_orphans.simps by (rule subseq_order.order_trans [OF Suc subseq_filter_left])
qed simp

lemma delete_challenges_change: "auth_change Q s (delete_challenges cond s)"
  unfolding delete_challenges_def
  by (intro ac_drop_challenges subseq_order.order_trans [OF subseq_drop_orphans] subseq_filter_left)

lemma session_advances_refl [simp]: "session_advances r r"
  by (simp add: session_advances_def)

lemma change_sessions_change:
  "change_sessions cond f s = Inr (s', n) \<Longrightarrow> (\<And>r. cond r \<Longrightarrow> session_advances r (f r)) \<Longrightarrow> auth_change Q s s'"
  by (auto simp: change_sessions_def intro!: ac_sessions)

lemma change_totp_change:
  "change_totp cond f s = Inr (s', n) \<Longrightarrow> (\<And>c. tc_UserID (f c) = tc_UserID c) \<Longrightarrow> auth_change Q s s'"
  by (auto simp: change_totp_def intro!: ac_totp)

lemma insert_challenge_change: "insert_challenge Q c s = Inr (s', x) \<Longrightarrow> auth_change Q s s'"
  by (auto simp: insert_challenge_def Let_def intro!: ac_new_challenge split: option.splits if_splits)

lemma missing_is_conflict_change [change_steps]: "changes_rows Q m \<Longrightarrow> changes_rows Q (missing_is_conflict m)"
  unfolding missing_is_conflict_def by (intro change_steps)

lemma user_writes_change [change_steps]:
  "changes_rows Q (InsertUser Q u)"
  "uc_Role ch = None \<Longrightarrow> changes_rows Q (Auth_Store.UpdateUser Q i t ch)"
  unfolding InsertUser_def Auth_Store.UpdateUser_def
  by (intro change_steps; auto simp: Let_def intro: ac_new_user update_user_change split: if_splits)+

lemma passkey_writes_change [change_steps]:
  "changes_rows Q (InsertPasskey Q p)" "changes_rows Q (Auth_Store.DeletePasskey Q i j)" "changes_rows Q (UpdatePasskey Q p n)"
proof -
  show "changes_rows Q (InsertPasskey Q p)"
    unfolding InsertPasskey_def
    by (intro change_steps; auto simp: Let_def row_of_passkey_def list_ex_eq intro!: ac_new_passkey split: if_splits)
  show "changes_rows Q (Auth_Store.DeletePasskey Q i j)"
    unfolding Auth_Store.DeletePasskey_def by (intro change_steps; auto intro!: ac_drop_passkey split: option.splits)
  show "changes_rows Q (UpdatePasskey Q p n)"
    unfolding UpdatePasskey_def
    by (intro change_steps; auto simp: Let_def same_passkey_def used_passkey_def intro!: ac_passkeys split: if_splits)
qed

lemma session_writes_change [change_steps]:
  "changes_rows Q (InsertSession Q x)" "changes_rows Q (TouchSession i t e)"
  "changes_rows Q (Auth_Store.RevokeSession i j t)" "changes_rows Q (RevokeAllSessions i ex t)"
  unfolding InsertSession_def TouchSession_def Auth_Store.RevokeSession_def RevokeAllSessions_def
  by (intro change_steps;
      auto simp: Let_def session_advances_def revoked_at_def session_row_ok_def list_ex_eq
        intro!: ac_new_session elim!: change_sessions_change split: if_splits option.splits)+

lemma challenge_writes_change [change_steps]:
  "changes_rows Q (InsertChallenge Q c)" "changes_rows Q (ConsumeChallenge h k t)" "changes_rows Q (DeleteChallenge i)"
  "changes_rows Q (IncrementChallengeAttempts i n)" "changes_rows Q (DeleteChallengesForUser i k)"
  unfolding InsertChallenge_def ConsumeChallenge_def DeleteChallenge_def IncrementChallengeAttempts_def
    DeleteChallengesForUser_def clean_expired_def
  by (intro change_steps;
      auto simp: Let_def same_challenge_def
        intro!: delete_challenges_change ac_challenges intro: insert_challenge_change split: option.splits)+

lemma totp_writes_change [change_steps]:
  "changes_rows Q (UpsertTOTPCredential c)" "changes_rows Q (ConfirmTOTPCredential i n t)"
  "changes_rows Q (AcceptTOTPTimestep i n t)" "changes_rows Q (DeleteTOTPCredential i)"
  unfolding UpsertTOTPCredential_def ConfirmTOTPCredential_def AcceptTOTPTimestep_def DeleteTOTPCredential_def
  by (intro change_steps;
      auto simp: totp_row_def replaced_totp_def list_ex_eq
        intro!: ac_new_totp ac_totp ac_drop_totp elim!: change_totp_change split: if_splits)+

lemma audit_change [change_steps]:
  "changes_rows Q (auth_InsertAuditEvent Q' e)" "changes_rows Q (audit_success V md u a rt ri f)"
  unfolding audit_success_def auth_InsertAuditEvent_def
  by (intro change_steps; force simp: insert_event_row_def list_ex_iff intro: ac_new_event split: if_splits)+

section \<open>The operations of the service\<close>

lemma end_sessions_change [change_steps]: "changes_rows Q (end_sessions V i)"
  unfolding end_sessions_def by (intro change_steps)

lemma session_operations [change_steps]:
  "changes_rows (ae_db V) (AuthenticateSession V raw)" "changes_rows (ae_db V) (Auth_Sessions.ListSessions cur)"
  "changes_rows (ae_db V) (Logout V cur md everywhere)" "changes_rows (ae_db V) (Auth_Sessions.RevokeSession V cur i md)"
  "changes_rows (ae_db V) (RevokeOtherSessions V cur md)" "changes_rows (ae_db V) (rotateSession V cur md)"
  unfolding AuthenticateSession_def Auth_Sessions.ListSessions_def Logout_def Auth_Sessions.RevokeSession_def
    RevokeOtherSessions_def rotateSession_def
  by (intro change_steps)+

lemma renew_session_change [change_steps]: "changes_rows (ae_db V) (renew_session V actor updated issued md action after)"
  unfolding renew_session_def by (intro change_steps)

lemma settings_operations [change_steps]:
  "changes_rows (ae_db V) (SetupTOTP V cur md)" "changes_rows (ae_db V) (ConfirmTOTP V cur code md)"
  "changes_rows (ae_db V) (DeleteTOTP V cur md)" "changes_rows (ae_db V) (SetPassword V cur p md)"
  "changes_rows (ae_db V) (DeletePassword V cur md)" "changes_rows (ae_db V) (BeginPasskeyRegistration V cur n)"
  "changes_rows (ae_db V) (FinishPasskeyRegistration V cur tok c md)" "changes_rows (ae_db V) (Auth_Settings.ListPasskeys V cur)"
  "changes_rows (ae_db V) (Auth_Settings.DeletePasskey V cur i md)"
  unfolding SetupTOTP_def ConfirmTOTP_def DeleteTOTP_def SetPassword_def DeletePassword_def BeginPasskeyRegistration_def
    FinishPasskeyRegistration_def Auth_Settings.ListPasskeys_def Auth_Settings.DeletePasskey_def
  by (intro change_steps; simp add: no_changes_def)+

lemma login_failure_change [change_steps]:
  "changes_rows (ae_db V) (recordLoginFailure V u md code)" "changes_rows (ae_db V) (login_failure V u md code e)"
  "changes_rows (ae_db V) (update_used_passkey V p)" "changes_rows (ae_db V) (totp_failure V ch us md e)"
  unfolding login_failure_def recordLoginFailure_def update_used_passkey_def totp_failure_def
  by (intro change_steps)+

lemma login_operations [change_steps]:
  "changes_rows (ae_db V) (completePrimaryLogin V u me md p)" "changes_rows (ae_db V) (PasswordLogin V n pw md)"
  "changes_rows (ae_db V) (totp_success V ch u k issued md)" "changes_rows (ae_db V) (CompleteTOTPLogin V tok code md)"
  "changes_rows (ae_db V) (BeginPasskeyLogin V md)" "changes_rows (ae_db V) (FinishPasskeyLogin V tok c md)"
  unfolding PasswordLogin_def CompleteTOTPLogin_def BeginPasskeyLogin_def FinishPasskeyLogin_def totp_success_def
    completePrimaryLogin_def
  by (intro change_steps)+

lemma bootstrap_operations [change_steps]:
  "changes_rows (ae_db V) (BootstrapStatus V)" "changes_rows (ae_db V) (EnsureBootstrapReady V)"
  "changes_rows (ae_db V) (bootstrapFailure V md code)" "changes_rows (ae_db V) (BeginBootstrap V bb md)"
  "changes_rows (ae_db V) (FinishBootstrap V tok tok' c md)" "changes_rows (ae_db V) (BootstrapWithPassword V tok n d pw md)"
  "changes_rows (ae_db V) (BeginEnrollment V tok n md)" "changes_rows (ae_db V) (FinishEnrollment V tok tok' c md)"
  unfolding EnsureBootstrapReady_def BootstrapStatus_def bootstrapFailure_def BeginBootstrap_def FinishBootstrap_def
    BootstrapWithPassword_def BeginEnrollment_def FinishEnrollment_def first_user_def
  by (intro change_steps)+

lemma user_operations [change_steps]:
  "changes_rows (ae_db V) (Auth_Users.ListUsers V)" "changes_rows (ae_db V) (CreateUser V cur cu md)"
  "changes_rows (ae_db V) (IssueEnrollmentToken V cur i md)"
  unfolding Auth_Users.ListUsers_def CreateUser_def IssueEnrollmentToken_def
  by (intro change_steps)+

end
