(* ===== verification/Auth_Invariants.thy ===== *)
theory Auth_Invariants
  imports Auth_Changes
begin

text \<open>
  The operations of the authentication service as one transition relation, the refinement of the abstract
  machine by every one of them, and what follows for all runs: the schema's constraints hold, an
  administrator remains, and what is revoked stays revoked.
\<close>

section \<open>The constraints of the schema\<close>

definition auth_wf :: "auth_db \<Rightarrow> 'a auth_store_scheme \<Rightarrow> bool" where
  "auth_wf Q s \<longleftrightarrow>
     distinct (map ur_id (au_users s)) \<and> distinct (map (\<lambda>r. de_lower Q (ur_username r)) (au_users s))
     \<and> (\<forall>r \<in> set (au_users s). user_row_ok Q r)
     \<and> distinct (map sr_id (au_sessions s)) \<and> distinct (map sr_token_hash (au_sessions s))
     \<and> (\<forall>r \<in> set (au_sessions s). sr_idle_expires_at r \<le> sr_absolute_expires_at r)
     \<and> sr_user_id ` set (au_sessions s) \<subseteq> ur_id ` set (au_users s)
     \<and> distinct (map pr_id (au_passkeys s)) \<and> distinct (map pr_credential_id (au_passkeys s))
     \<and> pr_user_id ` set (au_passkeys s) \<subseteq> ur_id ` set (au_users s)
     \<and> distinct (map tc_UserID (au_totp s)) \<and> tc_UserID ` set (au_totp s) \<subseteq> ur_id ` set (au_users s)
     \<and> distinct (map cr_id (au_challenges s)) \<and> distinct (map cr_token_hash (au_challenges s))
     \<and> distinct (map ev_ID (st_events s))"

lemma user_ids_kept:
  "ur_id r' = i \<Longrightarrow> map ur_id (map (\<lambda>x. if ur_id x = i then r' else x) us) = map ur_id us"
  by auto

lemma clash_free_distinct:
  assumes "find (\<lambda>x. ur_id x = i) us = Some r" and "ur_id r' = i" and "distinct (map ur_id us)"
    and "distinct (map k us)" and "\<And>x. x \<in> set us \<Longrightarrow> ur_id x \<noteq> i \<Longrightarrow> k r' \<noteq> k x"
  shows "distinct (map k (map (\<lambda>x. if ur_id x = i then r' else x) us))"
  using distinct_map_one [of ur_id us k r'] assms(2-5) by metis

lemma mapped_keys:
  assumes "\<And>x. k (f x) = k x"
  shows "map k (map f xs) = map k xs" and "k ` set (map f xs) = k ` set xs"
proof -
  show m: "map k (map f xs) = map k xs" using assms by simp
  show "k ` set (map f xs) = k ` set xs" using arg_cong [OF m, of set] by (simp only: set_map)
qed

lemma distinct_subseq: "subseq xs ys \<Longrightarrow> distinct ys \<Longrightarrow> distinct xs"
  by (induction rule: list_emb.induct) (auto dest: list_emb_set)

text \<open>Every change keeps the constraints.\<close>

lemma auth_change_wf: "auth_change Q s s' \<Longrightarrow> auth_wf Q s \<Longrightarrow> auth_wf Q s'"
proof (induction rule: auth_change.induct)
  case (ac_same s s')
  then show ?case by (simp add: auth_wf_def same_rows_def same_tables_def)
next
  case (ac_new_user r s)
  then show ?case by (auto simp: auth_wf_def user_clash_def list_ex_iff)
next
  case (ac_user i s r r')
  define us where "us = map (\<lambda>x. if ur_id x = i then r' else x) (au_users s)"
  have ids: "map ur_id us = map ur_id (au_users s)" unfolding us_def by (rule user_ids_kept [OF ac_user(2)])
  then have "ur_id ` set us = ur_id ` set (au_users s)" by (metis set_map)
  moreover have "distinct (map (\<lambda>r. de_lower Q (ur_username r)) us)"
    unfolding us_def using ac_user by (intro clash_free_distinct) (auto simp: auth_wf_def user_clash_def list_ex_iff)
  moreover have "\<forall>r \<in> set us. user_row_ok Q r" using ac_user by (auto simp: auth_wf_def us_def)
  ultimately have "auth_wf Q (s\<lparr>au_users := us\<rparr>)" using ac_user(6) ids by (simp add: auth_wf_def)
  then show ?case by (simp only: us_def)
next
  case (ac_new_session r s)
  then show ?case by (auto simp: auth_wf_def list_ex_iff)
next
  case (ac_sessions f s)
  define ss where "ss = map f (au_sessions s)"
  have "map sr_id ss = map sr_id (au_sessions s)" "map sr_token_hash ss = map sr_token_hash (au_sessions s)"
    "sr_user_id ` set ss = sr_user_id ` set (au_sessions s)"
    unfolding ss_def using ac_sessions(1) by (intro mapped_keys; simp add: session_advances_def)+
  moreover have "sr_idle_expires_at (f r) \<le> sr_absolute_expires_at (f r)" if "r \<in> set (au_sessions s)" for r
    using ac_sessions(1) [of r] ac_sessions(2) that by (simp add: auth_wf_def session_advances_def)
  then have "\<forall>r \<in> set ss. sr_idle_expires_at r \<le> sr_absolute_expires_at r" by (simp add: ss_def)
  ultimately have "auth_wf Q (s\<lparr>au_sessions := ss\<rparr>)" using ac_sessions(2) by (simp add: auth_wf_def)
  then show ?case by (simp only: ss_def)
next
  case (ac_new_passkey r s)
  then show ?case by (auto simp: auth_wf_def list_ex_iff)
next
  case (ac_passkeys f s)
  define ps where "ps = map f (au_passkeys s)"
  have "map pr_id ps = map pr_id (au_passkeys s)" "map pr_credential_id ps = map pr_credential_id (au_passkeys s)"
    "pr_user_id ` set ps = pr_user_id ` set (au_passkeys s)"
    unfolding ps_def using ac_passkeys(1) by (intro mapped_keys; simp add: same_passkey_def)+
  then have "auth_wf Q (s\<lparr>au_passkeys := ps\<rparr>)" using ac_passkeys(2) by (simp add: auth_wf_def)
  then show ?case by (simp only: ps_def)
next
  case (ac_drop_passkey s P)
  then show ?case by (auto simp: auth_wf_def distinct_map_filter)
next
  case (ac_new_totp c s)
  then show ?case by (auto simp: auth_wf_def)
next
  case (ac_totp f s)
  define cs where "cs = map f (au_totp s)"
  have "map tc_UserID cs = map tc_UserID (au_totp s)" "tc_UserID ` set cs = tc_UserID ` set (au_totp s)"
    unfolding cs_def using ac_totp(1) by (intro mapped_keys; simp)+
  then have "auth_wf Q (s\<lparr>au_totp := cs\<rparr>)" using ac_totp(2) by (simp add: auth_wf_def)
  then show ?case by (simp only: cs_def)
next
  case (ac_drop_totp s P)
  then show ?case by (auto simp: auth_wf_def distinct_map_filter)
next
  case (ac_new_challenge c s)
  then show ?case by (auto simp: auth_wf_def list_ex_iff)
next
  case (ac_challenges f s)
  define cs where "cs = map f (au_challenges s)"
  have "map cr_id cs = map cr_id (au_challenges s)" "map cr_token_hash cs = map cr_token_hash (au_challenges s)"
    unfolding cs_def using ac_challenges(1) by (intro mapped_keys; simp add: same_challenge_def)+
  then have "auth_wf Q (s\<lparr>au_challenges := cs\<rparr>)" using ac_challenges(2) by (simp add: auth_wf_def)
  then show ?case by (simp only: cs_def)
next
  case (ac_drop_challenges cs s)
  then show ?case by (auto simp: auth_wf_def dest: subseq_map [of _ _ cr_id] subseq_map [of _ _ cr_token_hash] distinct_subseq)
next
  case (ac_new_event e s)
  then show ?case by (auto simp: auth_wf_def)
qed

lemma auth_changes_wf: "(auth_change Q)\<^sup>*\<^sup>* s s' \<Longrightarrow> auth_wf Q s \<Longrightarrow> auth_wf Q s'"
  by (induction rule: rtranclp_induct) (auto intro: auth_change_wf)

section \<open>An administrator remains\<close>

definition has_admin :: "'a auth_store_scheme \<Rightarrow> bool" where
  "has_admin s \<longleftrightarrow> list_ex active_admin (au_users s)"

lemma user_by_id:
  assumes "distinct (map ur_id us)" and "x \<in> set us"
  shows "find (\<lambda>y. ur_id y = ur_id x) us = Some x"
  using assms by (induction us) auto

lemma auth_change_admin: "auth_change Q s s' \<Longrightarrow> auth_wf Q s \<Longrightarrow> has_admin s \<Longrightarrow> has_admin s'"
proof (induction rule: auth_change.induct)
  case (ac_user i s r r')
  from ac_user(7) obtain x where x: "x \<in> set (au_users s)" "active_admin x"
    by (auto simp: has_admin_def list_ex_iff)
  show ?case
  proof (cases "ur_id x = i \<and> \<not> active_admin r'")
    case False
    with x show ?thesis by (auto simp: has_admin_def list_ex_iff)
  next
    case True
    with user_by_id [OF _ x(1)] ac_user(1,6) have "x = r" by (auto simp: auth_wf_def)
    with ac_user(5) x True show ?thesis by (fastforce simp: has_admin_def list_ex_iff)
  qed
qed (auto simp: has_admin_def same_rows_def list_ex_iff)

lemma auth_changes_admin: "(auth_change Q)\<^sup>*\<^sup>* s s' \<Longrightarrow> auth_wf Q s \<Longrightarrow> has_admin s \<Longrightarrow> has_admin s'"
  by (induction rule: rtranclp_induct) (auto intro: auth_change_admin auth_changes_wf)

section \<open>Revoked sessions stay revoked\<close>

definition revoked_session :: "string \<Rightarrow> 'a auth_store_scheme \<Rightarrow> bool" where
  "revoked_session h s \<longleftrightarrow> (\<exists>r \<in> set (au_sessions s). sr_token_hash r = h \<and> sr_revoked_at r \<noteq> None)"

lemma auth_change_revoked: "auth_change Q s s' \<Longrightarrow> revoked_session h s \<Longrightarrow> revoked_session h s'"
  by (induction rule: auth_change.induct) (fastforce simp: revoked_session_def same_rows_def session_advances_def)+

lemma auth_changes_revoked: "(auth_change Q)\<^sup>*\<^sup>* s s' \<Longrightarrow> revoked_session h s \<Longrightarrow> revoked_session h s'"
  by (induction rule: rtranclp_induct) (auto intro: auth_change_revoked)

section \<open>The guarded operations\<close>

text \<open>What the administration of users reads before its transaction.\<close>

lemma GetUserByID_Inr:
  assumes "GetUserByID Q i s = (s', Inr u)"
  shows "keeps_rows s s' \<and> (\<exists>r ps. find (\<lambda>r. ur_id r = i) (au_users s) = Some r \<and> u = (user_of_row r)\<lparr>us_Passkeys := ps\<rparr>)"
proof -
  from assms obtain s1 u0 where q: "query ''read user'' (select_user (\<lambda>r. ur_id r = i)) s = (s1, Inr u0)"
    and l: "loadUserPasskeys Q u0 s1 = (s', Inr u)"
    by (auto simp: GetUserByID_def seq_result)
  from query_Inr [OF q] obtain s2 where s2: "same_rows s s2" "select_user (\<lambda>r. ur_id r = i) s2 = Inr (s1, u0)" by blast
  then obtain r where "find (\<lambda>r. ur_id r = i) (au_users s) = Some r" "u0 = user_of_row r"
    by (auto simp: select_user_def same_rows_def split: option.splits)
  moreover from l obtain ps where "u = u0\<lparr>us_Passkeys := ps\<rparr>"
    by (auto simp: loadUserPasskeys_def seq_result)
  moreover have "keeps_rows s s'" using quietD [OF quiet_reads(6) assms] by (simp add: keeps_rows_def)
  ultimately show ?thesis by blast
qed

lemma keep_an_admin_Inr:
  assumes "keep_an_admin b s = (s', Inr x)"
  shows "same_rows s s' \<and> (b \<longrightarrow> 1 < length (filter active_admin (au_users s)))"
proof (cases b)
  case True
  with assms obtain s1 n where q: "CountActiveAdmins s = (s1, Inr n)" and n: "1 < n" and s1: "s1 = s'"
    by (auto simp: keep_an_admin_def seq_result split: if_splits)
  from query_Inr [OF q [unfolded CountActiveAdmins_def]] obtain s2 where "same_rows s s2"
    "n = int (length (filter active_admin (au_users s2)))" "s1 = s2" by auto
  with n s1 show ?thesis by (simp add: same_rows_def)
next
  case False
  with assms show ?thesis by (simp add: keep_an_admin_def)
qed

lemma another_admin:
  assumes "distinct (map ur_id us)" and "1 < length (filter active_admin us)"
  shows "list_ex (\<lambda>x. ur_id x \<noteq> i \<and> active_admin x) us"
proof (rule ccontr)
  assume none: "\<not> list_ex (\<lambda>x. ur_id x \<noteq> i \<and> active_admin x) us"
  have "distinct (map ur_id (filter active_admin us))" using assms(1) by (simp add: distinct_map_filter)
  then have "length (filter active_admin us) = card (ur_id ` set (filter active_admin us))"
    by (metis distinct_card length_map set_map)
  also have "\<dots> \<le> card {i}" using none by (intro card_mono) (auto simp: list_ex_iff)
  finally show False using assms(2) by simp
qed

text \<open>The write of a transaction whose guard was asked on what \<open>before\<close> says of the row.\<close>

lemma guarded_update:
  assumes "distinct (map ur_id (au_users s))" and "same_rows s s0"
    and r: "find (\<lambda>x. ur_id x = i) (au_users s) = Some r"
    and f: "\<And>r. ur_id (f r) = ur_id r"
    and b: "active_admin r \<Longrightarrow> \<not> active_admin (f r) \<Longrightarrow> b"
    and guard: "keep_an_admin b s0 = (s1, Inr x)"
    and upd: "missing_is_conflict (query op (update_user Q i t f)) s1 = (s2, y)"
  shows "(auth_change Q)\<^sup>*\<^sup>* s1 s2"
proof -
  have s1: "same_rows s s1"
    by (rule same_rows_trans [OF assms(2) conjunct1 [OF keep_an_admin_Inr [OF guard]]])
  have n: "b \<longrightarrow> 1 < length (filter active_admin (au_users s))"
    using keep_an_admin_Inr [OF guard] assms(2) by (simp add: same_rows_def)
  obtain z where q: "query op (update_user Q i t f) s1 = (s2, z)"
    using upd by (auto simp: missing_is_conflict_def attempt_result)
  from query_outcome [OF q] obtain s3 where s3: "same_rows s1 s3" and w: "s2 = s3 \<or> (\<exists>u. update_user Q i t f s3 = Inr (s2, u))"
    by blast
  have us: "au_users s3 = au_users s" using s1 s3 by (simp add: same_rows_def)
  have "auth_change Q s3 s2"
  proof (cases "s2 = s3")
    case False
    with w obtain u where "update_user Q i t f s3 = Inr (s2, u)" by blast
    then show ?thesis
      by (rule update_user_change) (use another_admin [OF assms(1), of i] n r b in \<open>auto simp: us f\<close>)
  qed simp
  with s3 show ?thesis by (meson ac_same converse_rtranclp_into_rtranclp r_into_rtranclp)
qed

text \<open>
  The two operations that may take the role or the access of an administrator away. They read the user
  before their transaction; the world outside the rows may have changed when it begins.
\<close>

lemma user_changes_role:
  assumes "user_changes_of V before input s = (s', Inr (ch, b))"
  shows "uc_Role ch = uu_Role input"
proof -
  have o: "optional check_role v s = (s', Inr r) \<Longrightarrow> r = v" for v :: "Role option" and r and s s' :: "('l, 'o) auth_world"
    by (auto simp: optional_def check_role_def seq_result split: option.splits if_splits)
  show ?thesis
    using assms
    by (auto simp: user_changes_of_def seq_result no_changes_def Let_def dest!: o split: if_splits option.splits)
qed

lemma after_guard:
  assumes "\<And>x s1. keep_an_admin b s0 = (s1, Inr x) \<Longrightarrow> (auth_change Q)\<^sup>*\<^sup>* s1 (fst (k x s1))"
  shows "(auth_change Q)\<^sup>*\<^sup>* s0 (fst (seq (keep_an_admin b) k s0))"
proof -
  have "ends (seq (keep_an_admin b) k) s0 (\<lambda>s' r. (auth_change Q)\<^sup>*\<^sup>* s0 s')"
  proof (rule ends_seq)
    fix s1 e
    assume "keep_an_admin b s0 = (s1, Inl e)"
    then show "(auth_change Q)\<^sup>*\<^sup>* s0 s1" using quietD [OF quiet_service(11)] same_rows_change by blast
  next
    fix s1 x
    assume g: "keep_an_admin b s0 = (s1, Inr x)"
    then have "(auth_change Q)\<^sup>*\<^sup>* s0 s1" using quietD [OF quiet_service(11)] same_rows_change by blast
    then show "ends (k x) s1 (\<lambda>s' r. (auth_change Q)\<^sup>*\<^sup>* s0 s')"
      using assms [OF g] by (simp add: ends_def)
  qed
  then show ?thesis by (simp add: ends_def)
qed

lemma after_write:
  assumes "\<And>s1 x. m s0 = (s1, x) \<Longrightarrow> (auth_change Q)\<^sup>*\<^sup>* s0 s1" and "\<And>x. changes_rows Q (k x)"
  shows "(auth_change Q)\<^sup>*\<^sup>* s0 (fst (seq m k s0))"
proof -
  have "ends (seq m k) s0 (\<lambda>s' r. (auth_change Q)\<^sup>*\<^sup>* s0 s')"
  proof (rule ends_seq)
    fix s1 e
    assume "m s0 = (s1, Inl e)"
    then show "(auth_change Q)\<^sup>*\<^sup>* s0 s1" by (rule assms(1))
  next
    fix s1 x
    assume "m s0 = (s1, Inr x)"
    then have "(auth_change Q)\<^sup>*\<^sup>* s0 s1" by (rule assms(1))
    then show "ends (k x) s1 (\<lambda>s' r. (auth_change Q)\<^sup>*\<^sup>* s0 s')"
      using assms(2) [of x] by (auto simp: ends_def takes_def intro: rtranclp_trans)
  qed
  then show ?thesis by (simp add: ends_def)
qed

lemma ends_tx:
  assumes "same_rows s s2" and "\<And>s0. same_rows s s0 \<Longrightarrow> (auth_change Q)\<^sup>*\<^sup>* s0 (fst (operation s0))"
  shows "ends (auth_WithinTx operation) s2 (\<lambda>s' r. (auth_change Q)\<^sup>*\<^sup>* s s')"
  unfolding ends_def
proof (rule rtranclp_trans [OF same_rows_change [OF assms(1)] tx_from])
  show "same_rows s2 s0 \<Longrightarrow> (auth_change Q)\<^sup>*\<^sup>* s0 (fst (operation s0))" for s0
    using assms same_rows_trans by blast
qed

lemma UpdateUser_refines:
  assumes wf: "auth_wf (ae_db V) s"
  shows "(auth_change (ae_db V))\<^sup>*\<^sup>* s (fst (UpdateUser V cur i input md s))"
proof -
  let ?R = "(auth_change (ae_db V))\<^sup>*\<^sup>*"
  have "ends (UpdateUser V cur i input md) s (\<lambda>s' r. ?R s s')"
    unfolding UpdateUser_def
  proof (intro ends_rules, goal_cases)
    case (1 s1 e)
    then show ?case using quietD [OF quiet_reads(6)] same_rows_change by blast
  next
    case (2 s1 before)
    then show ?case using quietD [OF quiet_reads(6)] same_rows_change by blast
  next
    case (3 s1 before s2 e)
    then show ?case
      using quietD [OF quiet_reads(6)] quietD [OF quiet_user_changes_of] same_rows_trans same_rows_change by meson
  next
    case (4 s1 before s2 x ch b)
    have s2: "same_rows s s2"
      using quietD [OF quiet_reads(6) 4(1)] quietD [OF quiet_user_changes_of 4(3)] same_rows_trans by blast
    obtain r ps where r: "find (\<lambda>r. ur_id r = i) (au_users s) = Some r" "before = (user_of_row r)\<lparr>us_Passkeys := ps\<rparr>"
      using GetUserByID_Inr [OF 4(1)] by blast
    show ?case
    proof (rule ends_tx [OF s2], rule after_guard, rule after_write)
      fix s0 u s3 s4 z
      assume "same_rows s s0" and g: "keep_an_admin (us_Role before = RoleAdmin \<and> us_DisabledAt before = None
          \<and> uc_Role ch \<noteq> None \<and> uc_Role ch \<noteq> Some RoleAdmin) s0 = (s3, Inr u)"
        and w: "Auth_Store.UpdateUser (ae_db V) i (us_UpdatedAt before) ch s3 = (s4, z)"
      then show "?R s3 s4"
        using guarded_update [OF _ _ r(1) apply_user_changes_id _ g w [unfolded Auth_Store.UpdateUser_def]] wf r(2)
        by (auto simp: auth_wf_def active_admin_def apply_user_changes_def or_else_def user_of_row_def RoleAdmin_def
            split: option.splits)
    qed (intro change_steps)
  qed
  then show ?thesis by (simp add: ends_def)
qed

lemma SetUserDisabled_refines:
  assumes wf: "auth_wf (ae_db V) s"
  shows "(auth_change (ae_db V))\<^sup>*\<^sup>* s (fst (Auth_Users.SetUserDisabled V cur i disabled md s))"
proof -
  let ?R = "(auth_change (ae_db V))\<^sup>*\<^sup>*"
  have now: "quiet (if disabled then seq (time_now V) (\<lambda>t. give (Some t)) else give None)"
    by (intro quiet_rules)
  have "ends (Auth_Users.SetUserDisabled V cur i disabled md) s (\<lambda>s' r. ?R s s')"
    unfolding Auth_Users.SetUserDisabled_def
  proof (rule ends_if, goal_cases)
    case 1
    show ?case by (simp add: ends_def reject_def)
  next
    case 2
    show ?case
    proof (intro ends_seq, goal_cases)
      case (1 s1 e)
      then show ?case using quietD [OF quiet_reads(6)] same_rows_change by blast
    next
      case (2 s1 before s2 e)
      then show ?case using quietD [OF quiet_reads(6)] quietD [OF now] same_rows_trans same_rows_change by meson
    next
      case (3 s1 before s2 at)
      have s2: "same_rows s s2"
        using quietD [OF quiet_reads(6) 3(1)] quietD [OF now 3(2)] same_rows_trans by blast
      obtain r ps where r: "find (\<lambda>r. ur_id r = i) (au_users s) = Some r" "before = (user_of_row r)\<lparr>us_Passkeys := ps\<rparr>"
        using GetUserByID_Inr [OF 3(1)] by blast
      have at: "at = None \<longleftrightarrow> \<not> disabled" using 3(2) by (auto simp: seq_result split: if_splits)
      show ?case
      proof (rule ends_tx [OF s2], rule after_guard, rule after_write)
        fix s0 u s3 s4 z
        assume "same_rows s s0"
          and g: "keep_an_admin (disabled \<and> us_Role before = RoleAdmin \<and> us_DisabledAt before = None) s0 = (s3, Inr u)"
          and w: "Auth_Store.SetUserDisabled (ae_db V) i (us_UpdatedAt before) at s3 = (s4, z)"
        then show "?R s3 s4"
          using guarded_update [OF _ _ r(1) _ _ g w [unfolded Auth_Store.SetUserDisabled_def]] wf r(2) at
          by (auto simp: auth_wf_def active_admin_def user_of_row_def RoleAdmin_def)
      qed (intro change_steps)
    qed
  qed
  then show ?thesis by (simp add: ends_def)
qed

lemma UpdateProfile_refines:
  "auth_wf (ae_db V) s \<Longrightarrow> (auth_change (ae_db V))\<^sup>*\<^sup>* s (fst (UpdateProfile V cur n e md s))"
  by (simp add: UpdateProfile_def UpdateUser_refines reject_def)

section \<open>The service as a whole\<close>

text \<open>
  A step is one call of any operation, with any input, whatever its outcome; between calls everything but
  the rows may change: the clock, the faults of the database, the limiters.
\<close>

inductive auth_use :: "('l, 'o) auth_env \<Rightarrow> ('l, 'o) auth_world \<Rightarrow> ('l, 'o) auth_world \<Rightarrow> bool" for V where
  use_outside: "same_rows w w' \<Longrightarrow> auth_use V w w'"
| use_authenticate: "auth_use V w (fst (AuthenticateSession V raw w))"
| use_list_sessions: "auth_use V w (fst (Auth_Sessions.ListSessions cur w))"
| use_logout: "auth_use V w (fst (Logout V cur md everywhere w))"
| use_revoke: "auth_use V w (fst (Auth_Sessions.RevokeSession V cur i md w))"
| use_revoke_others: "auth_use V w (fst (RevokeOtherSessions V cur md w))"
| use_list_users: "auth_use V w (fst (Auth_Users.ListUsers V w))"
| use_create_user: "auth_use V w (fst (CreateUser V cur cu md w))"
| use_update_user: "auth_use V w (fst (Auth_Users.UpdateUser V cur i uu md w))"
| use_profile: "auth_use V w (fst (UpdateProfile V cur name email md w))"
| use_disable: "auth_use V w (fst (Auth_Users.SetUserDisabled V cur i disabled md w))"
| use_issue: "auth_use V w (fst (IssueEnrollmentToken V cur i md w))"
| use_password_login: "auth_use V w (fst (PasswordLogin V username password md w))"
| use_totp_login: "auth_use V w (fst (CompleteTOTPLogin V raw code md w))"
| use_begin_passkey_login: "auth_use V w (fst (BeginPasskeyLogin V md w))"
| use_finish_passkey_login: "auth_use V w (fst (FinishPasskeyLogin V raw credential md w))"
| use_setup_totp: "auth_use V w (fst (SetupTOTP V cur md w))"
| use_confirm_totp: "auth_use V w (fst (ConfirmTOTP V cur code md w))"
| use_delete_totp: "auth_use V w (fst (DeleteTOTP V cur md w))"
| use_set_password: "auth_use V w (fst (SetPassword V cur password md w))"
| use_delete_password: "auth_use V w (fst (DeletePassword V cur md w))"
| use_begin_passkey: "auth_use V w (fst (BeginPasskeyRegistration V cur passkeyName w))"
| use_finish_passkey: "auth_use V w (fst (FinishPasskeyRegistration V cur raw credential md w))"
| use_list_passkeys: "auth_use V w (fst (Auth_Settings.ListPasskeys V cur w))"
| use_delete_passkey: "auth_use V w (fst (Auth_Settings.DeletePasskey V cur i md w))"
| use_status: "auth_use V w (fst (BootstrapStatus V w))"
| use_ready: "auth_use V w (fst (EnsureBootstrapReady V w))"
| use_begin_bootstrap: "auth_use V w (fst (BeginBootstrap V bb md w))"
| use_finish_bootstrap: "auth_use V w (fst (FinishBootstrap V tok raw credential md w))"
| use_bootstrap_password: "auth_use V w (fst (BootstrapWithPassword V tok username name password md w))"
| use_begin_enrollment: "auth_use V w (fst (BeginEnrollment V tok passkeyName md w))"
| use_finish_enrollment: "auth_use V w (fst (FinishEnrollment V tok raw credential md w))"

text \<open>The refinement, and what it means for runs of the service.\<close>

lemma auth_use_refines: "auth_use V w w' \<Longrightarrow> auth_wf (ae_db V) w \<Longrightarrow> (auth_change (ae_db V))\<^sup>*\<^sup>* w w'"
proof (induction rule: auth_use.induct)
  case (use_outside w w')
  then show ?case by (simp add: same_rows_change)
qed (simp_all add: UpdateUser_refines SetUserDisabled_refines UpdateProfile_refines
      session_operations [unfolded takes_def] settings_operations [unfolded takes_def]
      login_operations [unfolded takes_def] bootstrap_operations [unfolded takes_def]
      user_operations [unfolded takes_def])

lemma auth_uses_refine:
  "(auth_use V)\<^sup>*\<^sup>* w w' \<Longrightarrow> auth_wf (ae_db V) w \<Longrightarrow> (auth_change (ae_db V))\<^sup>*\<^sup>* w w'"
proof (induction rule: rtranclp_induct)
  case (step x y)
  then show ?case
    using auth_use_refines [OF step(2)] auth_changes_wf [of "ae_db V" w x] by (metis rtranclp_trans)
qed simp

text \<open>C4: Refinement: every call of an operation of the authentication service, whatever its input and its
  outcome, is a sequence of the changes that the specification allows - rows come, advance and go
  under the constraints of the schema, a revoked session is never revived, and an active administrator
  is demoted or disabled only while another one is left.\<close>

theorem auth_service_refines:
  assumes "auth_wf (ae_db V) w" and "auth_use V w w'"
  shows "(auth_change (ae_db V))\<^sup>*\<^sup>* w w'"
  using auth_use_refines [OF assms(2,1)] .

text \<open>C30: All runs of the authentication service keep the constraints of its tables: identifiers, usernames, token
  hashes, credential identifiers and event identifiers are unique; every row of a user has a known role and
  a hash when its password is enabled; a session's idle expiry is never after its absolute expiry; sessions,
  passkeys and TOTP credentials belong to users.\<close>

theorem auth_stays_wf:
  assumes "auth_wf (ae_db V) w" and "(auth_use V)\<^sup>*\<^sup>* w w'"
  shows "auth_wf (ae_db V) w'"
  using auth_changes_wf [OF auth_uses_refine [OF assms(2,1)] assms(1)] .

text \<open>C5: The last administrator cannot be lost: once the deployment has an enabled administrator, no sequence of
  operations by any users - demotions, disabling, logins, enrollments - leaves it without one.\<close>

theorem an_admin_remains:
  assumes "auth_wf (ae_db V) w" and "has_admin w" and "(auth_use V)\<^sup>*\<^sup>* w w'"
  shows "has_admin w'"
  using auth_changes_admin [OF auth_uses_refine [OF assms(3,1)] assms(1,2)] .

section \<open>Live sessions\<close>

lemma GetSessionByTokenHash_Inr:
  assumes "GetSessionByTokenHash h s = (s', Inr a)"
  shows "\<exists>r u. r \<in> set (au_sessions s) \<and> sr_token_hash r = h \<and> u \<in> set (au_users s) \<and> ur_id u = sr_user_id r
    \<and> as_Session a = session_of_row r \<and> as_User a = user_of_row u"
proof -
  from query_Inr [OF assms [unfolded GetSessionByTokenHash_def]] obtain s1 where s1: "same_rows s s1"
    and f: "(case find (\<lambda>r. sr_token_hash r = h) (au_sessions s1) of None \<Rightarrow> Inl PgNoRows
      | Some r \<Rightarrow> (case find (\<lambda>u. ur_id u = sr_user_id r) (au_users s1) of None \<Rightarrow> Inl PgNoRows
          | Some u \<Rightarrow> Inr (s1, \<lparr>as_Session = session_of_row r, as_User = user_of_row u\<rparr>))) = Inr (s', a)" by blast
  then obtain r u where "find (\<lambda>r. sr_token_hash r = h) (au_sessions s1) = Some r"
    "find (\<lambda>u. ur_id u = sr_user_id r) (au_users s1) = Some u"
    "a = \<lparr>as_Session = session_of_row r, as_User = user_of_row u\<rparr>"
    by (auto split: option.splits)
  then show ?thesis using s1 by (intro exI [of _ r] exI [of _ u]) (auto simp: same_rows_def find_Some_iff)
qed

lemma AuthenticateSession_Inr:
  assumes "AuthenticateSession V raw w = (w', Inr a)"
  shows "ValidOpaqueToken raw \<and> (\<exists>w1 w2 a0 t. GetSessionByTokenHash (HashToken raw) w = (w1, Inr a0)
      \<and> time_now V w1 = (w2, Inr t) \<and> \<not> session_over a0 t \<and> (a = a0 \<or> a = touched V t a0))"
  using assms by (auto simp: AuthenticateSession_def attempt_result seq_result Let_def split: if_splits)

text \<open>C8: A request is authenticated only by a live session: its token is well formed and its hash is that of a
  session in the database which is not revoked, has not expired at the time of the clock and belongs to a
  user who is not disabled; the user returned is that user, and the idle expiry returned is never after
  the absolute one.\<close>

theorem authenticated_is_live:
  assumes "auth_wf (ae_db V) w" and "AuthenticateSession V raw w = (w', Inr a)"
  shows "ValidOpaqueToken raw \<and> (\<exists>r \<in> set (au_sessions w). \<exists>u \<in> set (au_users w). \<exists>w1 w2 t.
      time_now V w1 = (w2, Inr t) \<and> sr_token_hash r = HashToken raw \<and> sr_revoked_at r = None
      \<and> t < sr_idle_expires_at r \<and> t < sr_absolute_expires_at r
      \<and> ur_id u = sr_user_id r \<and> ur_disabled_at u = None \<and> as_User a = user_of_row u
      \<and> ss_ID (as_Session a) = sr_id r \<and> ss_IdleExpiresAt (as_Session a) \<le> ss_AbsoluteExpiresAt (as_Session a))"
proof -
  from AuthenticateSession_Inr [OF assms(2)] obtain w1 w2 a0 t where v: "ValidOpaqueToken raw"
    and g: "GetSessionByTokenHash (HashToken raw) w = (w1, Inr a0)" and t: "time_now V w1 = (w2, Inr t)"
    and live: "\<not> session_over a0 t" and a: "a = a0 \<or> a = touched V t a0" by blast
  from GetSessionByTokenHash_Inr [OF g] obtain r u where r: "r \<in> set (au_sessions w)" "sr_token_hash r = HashToken raw"
    "u \<in> set (au_users w)" "ur_id u = sr_user_id r" "as_Session a0 = session_of_row r" "as_User a0 = user_of_row u" by blast
  moreover have "sr_idle_expires_at r \<le> sr_absolute_expires_at r" using assms(1) r(1) by (simp add: auth_wf_def)
  ultimately show ?thesis
    using v t live a
    by (intro conjI bexI [of _ r] bexI [of _ u] exI [of _ w1] exI [of _ w2] exI [of _ t])
      (auto simp: session_over_def touched_def Let_def session_of_row_def user_of_row_def Disabled_def)
qed

text \<open>C12: Revocation is final: when the session of a token is revoked, the token authenticates no request after any
  further sequence of operations of the service.\<close>

theorem revoked_forever:
  assumes "auth_wf (ae_db V) w" and "revoked_session (HashToken raw) w" and "(auth_use V)\<^sup>*\<^sup>* w w'"
  shows "\<nexists>w2 a. AuthenticateSession V raw w' = (w2, Inr a)"
proof
  assume "\<exists>w2 a. AuthenticateSession V raw w' = (w2, Inr a)"
  then obtain w2 a where auth: "AuthenticateSession V raw w' = (w2, Inr a)" by blast
  have wf: "auth_wf (ae_db V) w'" using auth_changes_wf [OF auth_uses_refine [OF assms(3,1)] assms(1)] .
  obtain r where r: "r \<in> set (au_sessions w')" "sr_token_hash r = HashToken raw" "sr_revoked_at r \<noteq> None"
    using auth_changes_revoked [OF auth_uses_refine [OF assms(3,1)] assms(2)] by (auto simp: revoked_session_def)
  from AuthenticateSession_Inr [OF auth] obtain w1 w3 a0 t where "GetSessionByTokenHash (HashToken raw) w' = (w1, Inr a0)"
    "\<not> session_over a0 t" by blast
  with GetSessionByTokenHash_Inr obtain x where x: "x \<in> set (au_sessions w')" "sr_token_hash x = HashToken raw"
    "sr_revoked_at x = None" by (fastforce simp: session_over_def session_of_row_def)
  have "x = r"
    using wf x(1,2) r(1,2) by (auto simp: auth_wf_def distinct_map inj_on_def)
  with x r show False by simp
qed

end
