(* ===== verification/Auth_Security.thy ===== *)
theory Auth_Security
  imports Auth_Invariants
begin

text \<open>
  What the single operations of the authentication service promise when they succeed: a change of a user's
  security ends the user's sessions, a password login compared the password of an enabled user, a TOTP code
  is accepted once, the first user comes in only when there is none.
\<close>

section \<open>Ended sessions\<close>

text \<open>No session of the user is left and no login of the user is half finished.\<close>

definition cut_off :: "uuid \<Rightarrow> 'a auth_store_scheme \<Rightarrow> bool" where
  "cut_off i s \<longleftrightarrow>
     (\<forall>r \<in> set (au_sessions s). sr_user_id r = i \<longrightarrow> sr_revoked_at r \<noteq> None)
     \<and> (\<forall>c \<in> set (au_challenges s). cr_user_id c = Some i \<longrightarrow> cr_kind c \<noteq> ChallengePendingTOTP)"

lemma cut_off_same: "same_rows s s' \<Longrightarrow> cut_off i s' = cut_off i s"
  by (simp add: cut_off_def same_rows_def)

lemma delete_challenges_rows:
  "set (au_challenges (delete_challenges cond s)) \<subseteq> {c \<in> set (au_challenges s). \<not> cond c}"
  unfolding delete_challenges_def by (auto dest!: list_emb_set [OF subseq_drop_orphans])

lemma delete_challenges_tables [simp]:
  "au_sessions (delete_challenges cond s) = au_sessions s" "au_users (delete_challenges cond s) = au_users s"
  "au_totp (delete_challenges cond s) = au_totp s"
  by (simp_all add: delete_challenges_def)

lemma RevokeAllSessions_Inr:
  assumes "RevokeAllSessions i None t s = (s', Inr n)"
  shows "(\<forall>r \<in> set (au_sessions s'). sr_user_id r = i \<longrightarrow> sr_revoked_at r \<noteq> None) \<and> au_users s' = au_users s"
proof -
  let ?P = "\<lambda>r :: session_row. sr_user_id r = i \<and> sr_revoked_at r = None \<and> ((None :: uuid option) = None \<or> None \<noteq> Some (sr_id r))"
  from query_Inr [OF assms [unfolded RevokeAllSessions_def]] obtain s1 where s1: "same_rows s s1"
    and c: "change_sessions ?P (revoked_at t) s1 = Inr (s', n)" by blast
  from c have "au_sessions s' = map (\<lambda>r. if ?P r then revoked_at t r else r) (au_sessions s1)" "au_users s' = au_users s1"
    by (auto simp: change_sessions_def)
  moreover have "sr_revoked_at (if ?P r then revoked_at t r else r) \<noteq> None" if "sr_user_id (if ?P r then revoked_at t r else r) = i" for r
    using that by (simp add: revoked_at_def split: if_splits)
  ultimately show ?thesis using s1 unfolding same_rows_def by (metis (no_types, lifting) image_iff list.set_map)
qed

lemma DeleteChallengesForUser_Inr:
  assumes "DeleteChallengesForUser i kind s = (s', Inr x)"
  shows "au_sessions s' = au_sessions s \<and> au_users s' = au_users s
    \<and> set (au_challenges s') \<subseteq> {c \<in> set (au_challenges s). \<not> (cr_user_id c = Some i \<and> cr_kind c = kind)}"
proof -
  from query_Inr [OF assms [unfolded DeleteChallengesForUser_def]] obtain s1 where s1: "same_rows s s1"
    and s': "s' = delete_challenges (\<lambda>c. cr_user_id c = Some i \<and> cr_kind c = kind) s1" by auto
  show ?thesis
    using delete_challenges_rows [of "\<lambda>c. cr_user_id c = Some i \<and> cr_kind c = kind" s1] s1
    unfolding s' same_rows_def by simp
qed

lemma end_sessions_Inr:
  assumes "end_sessions V i s = (s', Inr x)"
  shows "cut_off i s' \<and> au_users s' = au_users s"
proof -
  from assms obtain s1 s2 t n where t: "time_now V s = (s1, Inr t)" and r: "RevokeAllSessions i None t s1 = (s2, Inr n)"
    and d: "DeleteChallengesForUser i ChallengePendingTOTP s2 = (s', Inr x)"
    by (auto simp: end_sessions_def seq_result)
  have "au_users s1 = au_users s" using quietD [OF quiet_steps(2) t] by (simp add: same_rows_def)
  with RevokeAllSessions_Inr [OF r] DeleteChallengesForUser_Inr [OF d] show ?thesis
    by (auto simp: cut_off_def)
qed

text \<open>What is recorded leaves the tables of users, sessions and challenges alone.\<close>

lemma audit_success_Inr:
  assumes "audit_success V md u action rt ri f s = (s', Inr x)"
  shows "au_sessions s' = au_sessions s \<and> au_users s' = au_users s \<and> au_challenges s' = au_challenges s \<and> au_totp s' = au_totp s"
proof -
  from assms obtain s1 e where n: "newAuditEvent V md (Some u) action rt ri ResultSucceeded [] s = (s1, Inr e)"
    and i: "auth_InsertAuditEvent (ae_db V) (f e) s1 = (s', Inr x)"
    by (auto simp: audit_success_def seq_result)
  have "same_rows s s1" using quietD [OF quiet_steps(7) n] by simp
  with query_Inr [OF i [unfolded auth_InsertAuditEvent_def]] show ?thesis
    by (auto simp: insert_event_row_def same_rows_def split: if_splits option.splits)
qed

lemma cut_off_kept:
  "au_sessions s' = au_sessions s \<Longrightarrow> set (au_challenges s') \<subseteq> set (au_challenges s) \<Longrightarrow> cut_off i s \<Longrightarrow> cut_off i s'"
  by (auto simp: cut_off_def)

lemma missing_is_conflict_Inr [simp]: "missing_is_conflict m s = (s', Inr x) \<longleftrightarrow> m s = (s', Inr x)"
  by (auto simp: missing_is_conflict_def attempt_result)

lemma update_user_Inr:
  assumes "query op (update_user Q i t f) s = (s', Inr u)" and "\<And>r. ur_id (f r) = ur_id r"
  shows "\<exists>r r'. find (\<lambda>r. ur_id r = i) (au_users s) = Some r \<and> r' = (f r)\<lparr>ur_updated_at := st_now s\<rparr>
    \<and> ur_updated_at r = timestamptz t \<and> u = user_of_row r' \<and> au_users s' = map (\<lambda>x. if ur_id x = i then r' else x) (au_users s)
    \<and> au_sessions s' = au_sessions s \<and> au_challenges s' = au_challenges s"
proof -
  from query_Inr [OF assms(1)] obtain s1 where s1: "same_rows s s1" "st_now s1 = st_now s"
    and u: "update_user Q i t f s1 = Inr (s', u)" by blast
  then show ?thesis
    by (auto simp: update_user_def same_rows_def Let_def split: option.splits if_splits)
qed

text \<open>Disabling a user takes effect at once: when it succeeds, the user is stored as disabled, every session of the
  user is revoked, and no pending second factor or enrolment of the user is left.\<close>

theorem disabling_cuts_off:
  assumes "Auth_Users.SetUserDisabled V cur i True md w = (w', Inr u)"
  shows "cut_off i w' \<and> (\<forall>x \<in> set (au_users w'). ur_id x = i \<longrightarrow> ur_disabled_at x \<noteq> None)
    \<and> (\<forall>c \<in> set (au_challenges w'). cr_user_id c = Some i \<longrightarrow>
         cr_kind c \<notin> {ChallengePendingTOTP, ChallengeEnrollmentGrant, ChallengeEnrollmentRegistration})"
proof -
  let ?tx = "\<lambda>before t. seq (keep_an_admin (us_Role before = RoleAdmin \<and> us_DisabledAt before = None)) (\<lambda>_.
        seq (Auth_Store.SetUserDisabled (ae_db V) i (us_UpdatedAt before) (Some t)) (\<lambda>updated.
        seq (seq (end_sessions V i) (\<lambda>_.
                  seq (DeleteChallengesForUser i ChallengeEnrollmentGrant) (\<lambda>_.
                  DeleteChallengesForUser i ChallengeEnrollmentRegistration))) (\<lambda>_.
        seq (audit_success V md (as_User cur) ''auth.user.disabled'' ''user'' i
               (\<lambda>e. e\<lparr>ev_BeforeData := safeUserAuditData before, ev_AfterData := safeUserAuditData updated\<rparr>)) (\<lambda>_.
        give updated))))"
  from assms obtain before t w2 where tx: "auth_WithinTx (?tx before t) w2 = (w', Inr u)"
    by (auto simp: Auth_Users.SetUserDisabled_def seq_result split: if_splits)
  from auth_tx_Inr [OF tx] obtain s0 s9 where op: "?tx before t s0 = (s9, Inr u)" and s9: "same_rows s9 w'" by blast
  from op obtain s1 s2 s3 s4 s5 where
    up: "query ''read user'' (update_user (ae_db V) i (us_UpdatedAt before)
       (\<lambda>r. r\<lparr>ur_disabled_at := map_option timestamptz (Some t)\<rparr>)) s1 = (s2, Inr u)"
    and e: "end_sessions V i s2 = (s3, Inr ())"
    and d1: "DeleteChallengesForUser i ChallengeEnrollmentGrant s3 = (s4, Inr ())"
    and d2: "DeleteChallengesForUser i ChallengeEnrollmentRegistration s4 = (s5, Inr ())"
    and au: "audit_success V md (as_User cur) ''auth.user.disabled'' ''user'' i
       (\<lambda>e. e\<lparr>ev_BeforeData := safeUserAuditData before, ev_AfterData := safeUserAuditData u\<rparr>) s5 = (s9, Inr ())"
    by (auto simp: seq_result Auth_Store.SetUserDisabled_def)
  note facts = end_sessions_Inr [OF e] DeleteChallengesForUser_Inr [OF d1] DeleteChallengesForUser_Inr [OF d2]
    audit_success_Inr [OF au]
  have "cut_off i s9" using facts by (intro cut_off_kept [of s9 s3]) auto
  moreover have "ur_disabled_at x \<noteq> None" if "x \<in> set (au_users s9)" "ur_id x = i" for x
    using update_user_Inr [OF up] facts that by (auto split: if_splits)
  moreover have "cr_kind c \<notin> {ChallengePendingTOTP, ChallengeEnrollmentGrant, ChallengeEnrollmentRegistration}"
    if "c \<in> set (au_challenges s9)" "cr_user_id c = Some i" for c
    using facts that by (auto simp: cut_off_def)
  ultimately show ?thesis using s9 cut_off_same [OF s9] by (simp add: same_rows_def)
qed

section \<open>A change of another user's security\<close>

definition role_changes :: "user_row \<Rightarrow> update_user_input \<Rightarrow> bool" where
  "role_changes r input \<longleftrightarrow> (case uu_Role input of None \<Rightarrow> False | Some x \<Rightarrow> x \<noteq> ur_role r)"

lemma optional_Inr: "optional f v s = (s', Inr r) \<Longrightarrow> (v = None \<longleftrightarrow> r = None)"
  by (auto simp: optional_def seq_result split: option.splits)

lemma user_changes_security:
  assumes "user_changes_of V ((user_of_row r)\<lparr>us_Passkeys := ps\<rparr>) input s = (s', Inr (ch, b))"
    and "role_changes r input \<or> uu_Password input \<noteq> None \<or> uu_PasswordEnabled input = Some False"
  shows b
proof -
  have o: "optional check_role v s = (s', Inr x) \<Longrightarrow> x = v" for v :: "Role option" and x and s s' :: "('l, 'o) auth_world"
    by (auto simp: optional_def check_role_def seq_result split: option.splits if_splits)
  show ?thesis
    using assms
    by (auto simp: user_changes_of_def seq_result Let_def role_changes_def user_of_row_def dest!: o dest: optional_Inr
        split: if_splits option.splits)
qed

text \<open>C19: When an administrator changes the role or the password of a user, or takes the password away, the change
  and the end of all sessions and pending second factors of that user are one: the update does not succeed
  without them.\<close>

theorem security_update_cuts_off:
  assumes "UpdateUser V cur i input md w = (w', Inr u)"
    and "find (\<lambda>r. ur_id r = i) (au_users w) = Some r"
    and "role_changes r input \<or> uu_Password input \<noteq> None \<or> uu_PasswordEnabled input = Some False"
  shows "cut_off i w'"
proof -
  let ?tx = "\<lambda>before b changes. seq (keep_an_admin (us_Role before = RoleAdmin \<and> us_DisabledAt before = None
               \<and> uc_Role changes \<noteq> None \<and> uc_Role changes \<noteq> Some RoleAdmin)) (\<lambda>_.
        seq (Auth_Store.UpdateUser (ae_db V) i (us_UpdatedAt before) changes) (\<lambda>updated.
        seq (if b then end_sessions V i else give ()) (\<lambda>_.
        seq (audit_success V md (as_User cur) ''auth.user.updated'' ''user'' i
               (\<lambda>e. e\<lparr>ev_BeforeData := safeUserAuditData before, ev_AfterData := safeUserAuditData updated\<rparr>)) (\<lambda>_.
        give updated))))"
  from assms(1) obtain before w1 w2 changes b where g: "GetUserByID (ae_db V) i w = (w1, Inr before)"
    and ch: "user_changes_of V before input w1 = (w2, Inr (changes, b))"
    and tx: "auth_WithinTx (?tx before b changes) w2 = (w', Inr u)"
    by (auto simp: UpdateUser_def seq_result split: if_splits)
  have b
    using GetUserByID_Inr [OF g] assms(2) user_changes_security [OF _ assms(3)] ch by force
  from auth_tx_Inr [OF tx] obtain s0 s9 where op: "?tx before b changes s0 = (s9, Inr u)" and s9: "same_rows s9 w'" by blast
  from op \<open>b\<close> obtain s2 s3 where e: "end_sessions V i s2 = (s3, Inr ())"
    and au: "audit_success V md (as_User cur) ''auth.user.updated'' ''user'' i
       (\<lambda>e. e\<lparr>ev_BeforeData := safeUserAuditData before, ev_AfterData := safeUserAuditData u\<rparr>) s3 = (s9, Inr ())"
    by (auto simp: seq_result)
  have "cut_off i s9" using end_sessions_Inr [OF e] audit_success_Inr [OF au] by (intro cut_off_kept [of s9 s3]) auto
  then show ?thesis using cut_off_same [OF s9] by simp
qed

section \<open>A change of one's own security\<close>

definition only_session :: "uuid \<Rightarrow> string \<Rightarrow> 'a auth_store_scheme \<Rightarrow> bool" where
  "only_session i token s \<longleftrightarrow>
     (\<forall>r \<in> set (au_sessions s). sr_user_id r = i \<longrightarrow> sr_revoked_at r = None \<longrightarrow> sr_token_hash r = HashToken token)
     \<and> (\<exists>r \<in> set (au_sessions s). sr_user_id r = i \<and> sr_revoked_at r = None \<and> sr_token_hash r = HashToken token)"

lemma opaque_token_Inr:
  assumes "opaque_token V s = (s', Inr (raw, hash))"
  shows "hash = HashToken raw \<and> ValidOpaqueToken raw"
proof -
  from assms obtain x where "(case NewOpaqueToken x of Inl m \<Rightarrow> Inl (AuthFailure m) | Inr y \<Rightarrow> Inr y) = (Inr (raw, hash) :: auth_error + _)"
    by (auto simp: opaque_token_def crypto_result_def seq_result checked_result)
  then have "NewOpaqueToken x = Inr (raw, hash)" by (cases "NewOpaqueToken x") auto
  then show ?thesis using NewOpaqueToken_valid by simp
qed

lemma newSession_Inr:
  assumes "newSession V u me md s = (s', Inr issued)"
  shows "ss_TokenHash (is_Session issued) = HashToken (is_Token issued) \<and> ss_UserID (is_Session issued) = us_ID u
    \<and> ss_RevokedAt (is_Session issued) = None \<and> ss_AuthMethod (is_Session issued) = me \<and> is_User issued = u
    \<and> ss_CSRFTokenHash (is_Session issued) = HashToken (is_CSRFToken issued)"
  using assms by (auto simp: newSession_def seq_result dest!: opaque_token_Inr)

lemma InsertSession_Inr:
  assumes "InsertSession Q x s = (s', Inr y)"
  shows "\<exists>ip. au_sessions s' = au_sessions s @ [row_of_session x ip] \<and> au_users s' = au_users s \<and> au_totp s' = au_totp s
    \<and> au_challenges s' = au_challenges s"
proof -
  from query_Inr [OF assms [unfolded InsertSession_def]] obtain s1 ip where s1: "same_rows s s1"
    and i: "Inr (s1\<lparr>au_sessions := au_sessions s1 @ [row_of_session x ip]\<rparr>, ()) = (Inr (s', y) :: pg_error + _)"
    by (auto simp: Let_def split: option.splits if_splits)
  from i have "s' = s1\<lparr>au_sessions := au_sessions s1 @ [row_of_session x ip]\<rparr>" by simp
  with s1 show ?thesis by (auto simp: same_rows_def)
qed

lemma only_session_inserted:
  assumes "cut_off i s" and "InsertSession Q x s = (s', Inr y)" and "ss_UserID x = i" and "ss_RevokedAt x = None"
    and "ss_TokenHash x = HashToken token"
  shows "only_session i token s'"
  using InsertSession_Inr [OF assms(2)] assms(1,3-5) by (auto simp: only_session_def cut_off_def row_of_session_def)

lemma only_session_kept: "au_sessions s' = au_sessions s \<Longrightarrow> only_session i token s' = only_session i token s"
  by (simp add: only_session_def)

lemma renew_session_Inr:
  assumes "renew_session V actor updated issued md action after s = (s', Inr x)"
    and "us_ID actor = i" and "ss_UserID (is_Session issued) = i" and "ss_RevokedAt (is_Session issued) = None"
    and "ss_TokenHash (is_Session issued) = HashToken (is_Token issued)"
  shows "only_session i (is_Token x) s'"
proof -
  from assms(1) obtain s1 s2 where e: "end_sessions V (us_ID actor) s = (s1, Inr ())"
    and i: "InsertSession (ae_db V) (is_Session issued) s1 = (s2, Inr ())"
    and a: "audit_success V md actor action ''user'' (us_ID actor) (\<lambda>e. e\<lparr>ev_AfterData := after\<rparr>) s2 = (s', Inr ())"
    and x: "x = issued\<lparr>is_User := updated\<rparr>"
    by (auto simp: renew_session_def seq_result)
  have "only_session i (is_Token issued) s2"
    using end_sessions_Inr [OF e] assms(2-5) by (intro only_session_inserted [OF _ i]) auto
  then show ?thesis using audit_success_Inr [OF a] x by (simp add: only_session_kept [of s' s2])
qed

lemma GetUserByID_id: "GetUserByID Q i s = (s', Inr u) \<Longrightarrow> us_ID u = i"
  using GetUserByID_Inr [of Q i s s' u] by (auto simp: find_Some_iff user_of_row_def)

lemma only_session_tx:
  assumes "auth_WithinTx operation s = (s', Inr x)"
    and "\<And>s0 s1. operation s0 = (s1, Inr x) \<Longrightarrow> only_session i token s1"
  shows "only_session i token s'"
proof -
  from auth_tx_Inr [OF assms(1)] obtain s0 s1 where "operation s0 = (s1, Inr x)" "same_rows s1 s'" by blast
  with assms(2) show ?thesis by (metis only_session_kept same_rows_def)
qed

text \<open>After any change of one's own security - a new or removed password, a confirmed or removed second factor, a
  removed passkey - the session handed out is the only one of the user that is not revoked.\<close>

theorem own_security_change_leaves_one_session:
  assumes "SetPassword V cur p md w = (w', Inr issued) \<or> DeletePassword V cur md w = (w', Inr issued)
    \<or> ConfirmTOTP V cur p md w = (w', Inr issued) \<or> DeleteTOTP V cur md w = (w', Inr issued)
    \<or> Auth_Settings.DeletePasskey V cur p md w = (w', Inr issued)"
  shows "only_session (us_ID (as_User cur)) (is_Token issued) w'"
  using assms
proof (elim disjE)
  assume "SetPassword V cur p md w = (w', Inr issued)"
  then show ?thesis
    by (auto simp: SetPassword_def seq_result split: if_splits dest!: GetUserByID_id newSession_Inr
        elim!: only_session_tx) (erule renew_session_Inr; simp)
next
  assume "DeletePassword V cur md w = (w', Inr issued)"
  then show ?thesis
    by (auto simp: DeletePassword_def seq_result split: if_splits dest!: GetUserByID_id newSession_Inr
        elim!: only_session_tx) (erule renew_session_Inr; simp)
next
  assume "ConfirmTOTP V cur p md w = (w', Inr issued)"
  then show ?thesis
    by (auto simp: ConfirmTOTP_def seq_result attempt_result Let_def split: if_splits dest!: GetUserByID_id newSession_Inr
        elim!: only_session_tx) (erule renew_session_Inr; simp)
next
  assume "DeleteTOTP V cur md w = (w', Inr issued)"
  then show ?thesis
    by (auto simp: DeleteTOTP_def seq_result Let_def split: if_splits dest!: GetUserByID_id newSession_Inr
        elim!: only_session_tx) (erule renew_session_Inr; simp)
next
  assume d: "Auth_Settings.DeletePasskey V cur p md w = (w', Inr issued)"
  show ?thesis
  proof (rule only_session_tx [OF d [unfolded Auth_Settings.DeletePasskey_def]], erule ends_conclude,
      intro ends_rules impI, simp_all, goal_cases)
    case (1 s0 s9 s1 u s2 n s3 deleted s4 u' s5 s6 x s7)
    have "us_ID u' = us_ID u"
      using update_user_Inr [of "''read user''"] 1(5)
      by (fastforce simp: Auth_Store.UpdateUser_def user_of_row_def find_Some_iff)
    with newSession_Inr [OF 1(7)] have new: "ss_UserID (is_Session issued) = us_ID u"
      "ss_RevokedAt (is_Session issued) = None" "ss_TokenHash (is_Session issued) = HashToken (is_Token issued)" by simp_all
    have "cut_off (us_ID u) s6"
      using end_sessions_Inr [OF 1(6)] cut_off_same [OF conjunct1 [OF quietD [OF quiet_service(4) 1(7)]]] by blast
    then have "only_session (us_ID u) (is_Token issued) s7"
      by (rule only_session_inserted [OF _ 1(8) new])
    then show ?case using audit_success_Inr [OF 1(9)] GetUserByID_id [OF 1(1)] by (simp add: only_session_kept [of s9 s7])
  qed
qed

end
