(* ===== verification/Auth_Logins.thy ===== *)
theory Auth_Logins
  imports Auth_Security
begin

text \<open>
  Who may come in: what a login, a second factor and the bootstrap of the deployment have checked when they
  hand out a session.
\<close>

section \<open>Passwords\<close>

lemma loaded_user:
  assumes "seq (query op (select_user P)) (loadUserPasskeys Q) s = (s', Inr u)"
  shows "\<exists>r ps. find P (au_users s) = Some r \<and> u = (user_of_row r)\<lparr>us_Passkeys := ps\<rparr>"
proof -
  from assms obtain s1 u0 where q: "query op (select_user P) s = (s1, Inr u0)" and l: "loadUserPasskeys Q u0 s1 = (s', Inr u)"
    by (auto simp: seq_result)
  from query_Inr [OF q] obtain s2 where s2: "same_rows s s2" "select_user P s2 = Inr (s1, u0)" by blast
  then obtain r where "find P (au_users s) = Some r" "u0 = user_of_row r"
    by (auto simp: select_user_def same_rows_def split: option.splits)
  moreover from l obtain ps where "u = u0\<lparr>us_Passkeys := ps\<rparr>"
    by (auto simp: loadUserPasskeys_def seq_result)
  ultimately show ?thesis by blast
qed

text \<open>A session that a login hands out.\<close>

definition session_issued :: "uuid \<Rightarrow> AuthMethod \<Rightarrow> issued_session \<Rightarrow> 'a auth_store_scheme \<Rightarrow> 'a auth_store_scheme \<Rightarrow> bool" where
  "session_issued i method issued s s' \<longleftrightarrow>
     (\<exists>r. au_sessions s' = au_sessions s @ [r] \<and> sr_user_id r = i \<and> sr_token_hash r = HashToken (is_Token issued)
        \<and> sr_csrf_token_hash r = HashToken (is_CSRFToken issued) \<and> sr_auth_method r = method \<and> sr_revoked_at r = None)"

lemma session_inserted:
  assumes "newSession V u method md s0 = (s1, Inr issued)" and "InsertSession Q (is_Session issued) s2 = (s3, Inr x)"
  shows "session_issued (us_ID u) method issued s2 s3"
proof -
  note n = newSession_Inr [OF assms(1)]
  from InsertSession_Inr [OF assms(2)] obtain ip where "au_sessions s3 = au_sessions s2 @ [row_of_session (is_Session issued) ip]"
    by blast
  with n show ?thesis by (simp add: session_issued_def row_of_session_def)
qed

lemma session_issued_same:
  "au_sessions s = au_sessions s0 \<Longrightarrow> au_sessions s' = au_sessions s1 \<Longrightarrow>
     session_issued i method issued s s' = session_issued i method issued s0 s1"
  by (simp add: session_issued_def)

lemma insert_challenge_Inr:
  "insert_challenge Q c s = Inr (s', u) \<Longrightarrow> au_sessions s' = au_sessions s"
  by (auto simp: insert_challenge_def Let_def split: option.splits if_splits)

lemma insert_challenge_sessions:
  assumes "InsertChallenge Q c s = (s', Inr u)"
  shows "au_sessions s' = au_sessions s"
proof -
  from assms obtain s1 u1 where c: "query ''clean expired authentication challenges'' (\<lambda>s. Inr (clean_expired (timestamptz (ch_CreatedAt c)) s, ())) s = (s1, Inr u1)"
    and n: "query ''insert authentication challenge'' (insert_challenge Q c) s1 = (s', Inr u)"
    by (auto simp: InsertChallenge_def seq_result)
  have "au_sessions s1 = au_sessions s" using query_Inr [OF c] by (auto simp: clean_expired_def same_rows_def)
  moreover have "au_sessions s' = au_sessions s1" using query_Inr [OF n] by (auto dest!: insert_challenge_Inr simp: same_rows_def)
  ultimately show ?thesis by simp
qed

lemma completePrimaryLogin_Inr:
  assumes "completePrimaryLogin V u method md None s = (s', Inr r)"
  shows "case r of
      LoggedIn issued \<Rightarrow> \<not> us_TOTPRequired u \<and> is_User issued = u \<and> session_issued (us_ID u) method issued s s'
    | TOTPRequired token \<Rightarrow> us_TOTPRequired u \<and> au_sessions s' = au_sessions s"
proof (cases "us_TOTPRequired u")
  case True
  then obtain s1 c token where n: "createChallenge V ChallengePendingTOTP (Some (us_ID u)) None None None None method
      (cf_ChallengeTTL (ae_config V)) s = (s1, Inr (c, token))"
    and tx: "auth_WithinTx (seq (update_used_passkey V None) (\<lambda>_. seq (InsertChallenge (ae_db V) c) (\<lambda>_.
               audit_success V md u ''auth.login.totp_required'' ''user'' (us_ID u)
                 (\<lambda>e. e\<lparr>ev_Metadata := [(''auth_method'', AText (auth_method_string method))]\<rparr>)))) s1 = (s', Inr ())"
    and r: "r = TOTPRequired token"
    using assms by (auto simp: completePrimaryLogin_def seq_result)
  from auth_tx_Inr [OF tx] obtain s2 s3 s4 where s: "same_rows s1 s2" "same_rows s4 s'"
    and i: "InsertChallenge (ae_db V) c s2 = (s3, Inr ())"
    and a: "audit_success V md u ''auth.login.totp_required'' ''user'' (us_ID u)
                 (\<lambda>e. e\<lparr>ev_Metadata := [(''auth_method'', AText (auth_method_string method))]\<rparr>) s3 = (s4, Inr ())"
    by (auto simp: seq_result update_used_passkey_def)
  have "au_sessions s3 = au_sessions s2" by (rule insert_challenge_sessions [OF i])
  then show ?thesis
    using True r s audit_success_Inr [OF a] quietD [OF quiet_service(3) n] by (simp add: same_rows_def)
next
  case False
  then obtain s1 issued where n: "newSession V u method md s = (s1, Inr issued)"
    and tx: "auth_WithinTx (seq (update_used_passkey V None) (\<lambda>_. seq (InsertSession (ae_db V) (is_Session issued)) (\<lambda>_.
               audit_success V md u ''auth.login.succeeded'' ''session'' (ss_ID (is_Session issued))
                 (\<lambda>e. e\<lparr>ev_Metadata := [(''auth_method'', AText (auth_method_string method)), (''totp'', ABool False)]\<rparr>)))) s1
               = (s', Inr ())"
    and r: "r = LoggedIn issued"
    using assms by (auto simp: completePrimaryLogin_def seq_result)
  from auth_tx_Inr [OF tx] obtain s2 s3 s4 where s: "same_rows s1 s2" "same_rows s4 s'"
    and i: "InsertSession (ae_db V) (is_Session issued) s2 = (s3, Inr ())"
    and a: "audit_success V md u ''auth.login.succeeded'' ''session'' (ss_ID (is_Session issued))
                 (\<lambda>e. e\<lparr>ev_Metadata := [(''auth_method'', AText (auth_method_string method)), (''totp'', ABool False)]\<rparr>) s3
                 = (s4, Inr ())"
    by (auto simp: seq_result update_used_passkey_def)
  have "session_issued (us_ID u) method issued s s'"
    using session_inserted [OF n i] s audit_success_Inr [OF a] quietD [OF quiet_service(4) n]
    by (simp add: session_issued_def same_rows_def)
  with False r newSession_Inr [OF n] show ?thesis by simp
qed

text \<open>C31: A password login that succeeds has compared the password with the hash of an enabled user of that name who may
  log in with a password. It hands out a session of that user - the one new session - only if the user has no
  second factor; otherwise it hands out a token for the second factor and no session.\<close>

theorem password_login_checks:
  assumes "PasswordLogin V name password md w = (w', Inr r)"
  shows "cf_PasswordLoginEnabled (ae_config V) \<and> (\<exists>n x h. validateUsername (normalizeUsername (ae_lower V) name) = Some n
    \<and> x \<in> set (au_users w) \<and> de_lower (ae_db V) (ur_username x) = de_lower (ae_db V) n \<and> ur_disabled_at x = None
    \<and> ur_password_enabled x \<and> ur_password_hash x = Some h \<and> validPasswordVerificationInput password
    \<and> ae_CompareHash V password h = Some True
    \<and> (case r of LoggedIn issued \<Rightarrow> \<not> ur_totp_required x \<and> session_issued (ur_id x) AuthMethodPassword issued w w'
       | TOTPRequired token \<Rightarrow> ur_totp_required x \<and> au_sessions w' = au_sessions w))"
proof -
  let ?n = "validateUsername (normalizeUsername (ae_lower V) name)"
  have fail: "login_failure V u md c e s \<noteq> (s', Inr y)" for u c e s s' and y :: login_result
    by (simp add: login_failure_def seq_result)
  from assms obtain w1 w2 w3 t u n where t: "time_now V w = (w1, Inr t)"
    and p: "password_attempt_allowed V md (or_else ?n ''invalid'') t w1 = (w2, Inr True)"
    and n: "?n = Some n" and g: "GetUserByUsername (ae_db V) n w2 = (w3, Inr u)"
    and u: "\<not> Disabled u" "us_PasswordEnabled u" "us_PasswordHash u \<noteq> []"
    and v: "verify_password V password (us_PasswordHash u) = Inr True"
    and c: "completePrimaryLogin V u AuthMethodPassword md None w3 = (w', Inr r)"
    and e: "cf_PasswordLoginEnabled (ae_config V)"
    by (auto simp: PasswordLogin_def seq_result attempt_result checked_result Let_def or_else_def fail
        split: if_splits option.splits)
  have s: "au_users w2 = au_users w" "au_sessions w3 = au_sessions w"
    using quietD [OF quiet_steps(2) t] quietD [OF quiet_service(12) p] quietD [OF quiet_reads(7) g] by (simp_all add: same_rows_def)
  from loaded_user [OF g [unfolded GetUserByUsername_def]] obtain x ps where
    x: "find (\<lambda>r. de_lower (ae_db V) (ur_username r) = de_lower (ae_db V) n) (au_users w2) = Some x"
    and ux: "u = (user_of_row x)\<lparr>us_Passkeys := ps\<rparr>" by blast
  have "x \<in> set (au_users w)" "de_lower (ae_db V) (ur_username x) = de_lower (ae_db V) n"
    using x s by (auto simp: find_Some_iff)
  moreover obtain h where "ur_password_hash x = Some h" "us_PasswordHash u = h"
    using u(3) ux by (auto simp: user_of_row_def split: option.splits)
  moreover have "validPasswordVerificationInput password" "ae_CompareHash V password (us_PasswordHash u) = Some True"
    using v by (auto simp: verify_password_def split: if_splits option.splits)
  ultimately show ?thesis
    using e n u ux s completePrimaryLogin_Inr [OF c]
    by (intro conjI exI [of _ n] exI [of _ x] exI [of _ h])
      (auto simp: user_of_row_def Disabled_def session_issued_def split: login_result.splits)
qed

section \<open>Second factors\<close>

definition accepted_step :: "uuid \<Rightarrow> int \<Rightarrow> 'a auth_store_scheme \<Rightarrow> 'a auth_store_scheme \<Rightarrow> bool" where
  "accepted_step i step s s' \<longleftrightarrow>
     (\<exists>c. find (\<lambda>c. tc_UserID c = i) (au_totp s) = Some c \<and> tc_ConfirmedAt c \<noteq> None
        \<and> (\<forall>previous. tc_LastAcceptedTimestep c = Some previous \<longrightarrow> previous < step)
        \<and> (\<exists>c'. find (\<lambda>c. tc_UserID c = i) (au_totp s') = Some c' \<and> tc_LastAcceptedTimestep c' = Some step))"

lemma find_map_same:
  assumes "\<And>x. P (f x) = P x"
  shows "find P (map f xs) = map_option f (find P xs)"
  using assms by (induction xs) auto

lemma AcceptTOTPTimestep_Inr:
  assumes "AcceptTOTPTimestep i step t s = (s', Inr True)" and "distinct (map tc_UserID (au_totp s))"
  shows "accepted_step i step s s' \<and> au_challenges s' = au_challenges s \<and> au_sessions s' = au_sessions s"
proof -
  let ?P = "\<lambda>c :: totp_credential. tc_UserID c = i \<and> tc_ConfirmedAt c \<noteq> None
    \<and> (case tc_LastAcceptedTimestep c of None \<Rightarrow> True | Some previous \<Rightarrow> previous < step)"
  let ?f = "\<lambda>c. c\<lparr>tc_LastAcceptedTimestep := Some step, tc_UpdatedAt := timestamptz t\<rparr>"
  from assms(1) obtain s1 where s1: "same_rows s s1" and c: "change_totp ?P ?f s1 = Inr (s', 1)"
    by (auto simp: AcceptTOTPTimestep_def seq_result dest!: query_Inr)
  from c have s': "au_totp s' = map (\<lambda>c. if ?P c then ?f c else c) (au_totp s1)" "length (filter ?P (au_totp s1)) = 1"
    "au_challenges s' = au_challenges s1" "au_sessions s' = au_sessions s1"
    by (auto simp: change_totp_def)
  from s'(2) have "filter ?P (au_totp s1) \<noteq> []" by (metis (no_types, lifting) list.size(3) zero_neq_one)
  then have "hd (filter ?P (au_totp s1)) \<in> set (filter ?P (au_totp s1))" by (rule hd_in_set)
  then obtain x where x: "x \<in> set (au_totp s1)" "?P x" unfolding set_filter mem_Collect_eq by blast
  have "find (\<lambda>c. tc_UserID c = i) (au_totp s1) = Some x"
  proof (rule ccontr)
    assume n: "find (\<lambda>c. tc_UserID c = i) (au_totp s1) \<noteq> Some x"
    obtain y where "find (\<lambda>c. tc_UserID c = i) (au_totp s1) = Some y"
      using x by (cases "find (\<lambda>c. tc_UserID c = i) (au_totp s1)") (auto simp: find_None_iff)
    then have "y \<in> set (au_totp s1)" "tc_UserID y = i" "y \<noteq> x" using n by (auto simp: find_Some_iff)
    then show False using x assms(2) s1 by (auto simp: same_rows_def distinct_map inj_on_def)
  qed
  moreover have "find (\<lambda>c. tc_UserID c = i) (au_totp s') = Some (?f x)"
    unfolding s' using calculation x by (subst find_map_same) auto
  ultimately show ?thesis using x s1 s' by (auto simp: accepted_step_def same_rows_def split: option.splits)
qed

lemma DeleteChallenge_Inr:
  assumes "DeleteChallenge i s = (s', Inr x)"
  shows "(\<forall>c \<in> set (au_challenges s'). cr_id c \<noteq> i) \<and> au_sessions s' = au_sessions s \<and> au_totp s' = au_totp s"
proof -
  from assms obtain s1 n where "query ''delete authentication challenge'' (\<lambda>s.
            Inr (delete_challenges (\<lambda>c. cr_id c = i) s, length (filter (\<lambda>c. cr_id c = i) (au_challenges s)))) s = (s', Inr n)"
    by (auto simp: DeleteChallenge_def seq_result split: if_splits)
  from query_Inr [OF this] obtain s1 where "same_rows s s1" "s' = delete_challenges (\<lambda>c. cr_id c = i) s1" by auto
  then show ?thesis using delete_challenges_rows [of "\<lambda>c. cr_id c = i" s1] by (auto simp: same_rows_def)
qed

lemma GetChallenge_Inr:
  assumes "GetChallenge h k t s = (s', Inr c)"
  shows "\<exists>r. find (open_challenge h k t) (au_challenges s) = Some r \<and> c = challenge_of_row r"
  using query_Inr [OF assms [unfolded GetChallenge_def]] by (auto simp: same_rows_def split: option.splits)

lemma totp_success_Inr:
  assumes "totp_success V c u step issued md s = (s', Inr x)" and "distinct (map tc_UserID (au_totp s))"
    and "newSession V u method md s0 = (s00, Inr issued)"
  shows "accepted_step (us_ID u) step s s' \<and> session_issued (us_ID u) method issued s s'
    \<and> (\<forall>r \<in> set (au_challenges s'). cr_id r \<noteq> ch_ID c)"
proof -
  from assms(1) obtain s1 s2 s3 s4 t where t: "time_now V s = (s1, Inr t)" and a: "AcceptTOTPTimestep (us_ID u) step t s1 = (s2, Inr True)"
    and d: "DeleteChallenge (ch_ID c) s2 = (s3, Inr ())" and i: "InsertSession (ae_db V) (is_Session issued) s3 = (s4, Inr ())"
    and e: "audit_success V md u ''auth.login.succeeded'' ''session'' (ss_ID (is_Session issued))
       (\<lambda>e. e\<lparr>ev_Metadata :=
         [(''auth_method'', AText (auth_method_string (ch_AuthMethod c))), (''totp'', ABool True)]\<rparr>) s4 = (s', Inr ())"
    by (auto simp: totp_success_def seq_result attempt_result split: if_splits)
  have s1: "same_rows s s1" using quietD [OF quiet_steps(2) t] by simp
  then have "accepted_step (us_ID u) step s1 s2" "au_sessions s2 = au_sessions s1"
    using AcceptTOTPTimestep_Inr [OF a] assms(2) by (simp_all add: same_rows_def)
  then show ?thesis
    using s1 DeleteChallenge_Inr [OF d] session_inserted [OF assms(3) i] InsertSession_Inr [OF i] audit_success_Inr [OF e]
    by (simp add: accepted_step_def session_issued_def same_rows_def)
qed

text \<open>C11: A second factor is used up: a completed login had an open pending token, of less than five failed attempts, of an
  enabled user whose confirmed secret produced the code for one of the three time steps around the clock; that
  step is later than every step accepted before and is the last accepted one afterwards, and the token is
  gone. So neither the code nor the token completes a second login.\<close>

theorem second_factor_used_once:
  assumes "auth_wf (ae_db V) w" and "CompleteTOTPLogin V rawToken code md w = (w', Inr issued)"
  shows "\<exists>r x c t step. r \<in> set (au_challenges w) \<and> cr_token_hash r = HashToken rawToken \<and> cr_kind r = ChallengePendingTOTP
    \<and> cr_attempts r < 5 \<and> cr_user_id r = Some (ur_id x) \<and> x \<in> set (au_users w) \<and> ur_disabled_at x = None
    \<and> find (\<lambda>c. tc_UserID c = ur_id x) (au_totp w) = Some c
    \<and> totp_Verify V c (trim_space code) t = Inr step \<and> accepted_step (ur_id x) step w w'
    \<and> session_issued (ur_id x) (ch_AuthMethod (challenge_of_row r)) issued w w'
    \<and> (\<forall>r' \<in> set (au_challenges w'). cr_id r' \<noteq> cr_id r)"
proof -
  have fail: "totp_failure V c u md e s \<noteq> (s', Inr y)" for c u e s s' and y :: issued_session
    by (auto simp: totp_failure_def login_failure_def seq_result attempt_result split: if_splits)
  have fail: "ends (totp_failure V c u md e) s (\<lambda>s r. s = w' \<longrightarrow> r = Inr issued \<longrightarrow> P)" for c u e s P
    using fail by (intro ends_call) auto
  show ?thesis
    using assms(2) unfolding CompleteTOTPLogin_def Let_def
  proof (rule ends_conclude, intro ends_rules fail impI, simp_all, goal_cases)
    case (1 w1 t w2 ok w3 ok2 w4 t1 w5 ch i w6 u w7 c w8 t2 step w9 nw w10)
    then have q: "time_now V w = (w1, Inr t)" "allow_limiter V (''totp-ip|'' @ rm_IP md) t w1 = (w2, Inr True)"
        "allow_limiter V (''totp-token|'' @ rm_IP md @ ''|'' @ hex_text (take 8 (HashToken rawToken))) t w2 = (w3, Inr True)"
        "time_now V w3 = (w4, Inr t1)"
      and g: "GetChallenge (HashToken rawToken) ChallengePendingTOTP t1 w4 = (w5, Inr ch)" "\<not> 5 \<le> ch_Attempts ch"
      and i: "ch_UserID ch = Some i" and gu: "GetUserByID (ae_db V) i w5 = (w6, Inr u)" "\<not> Disabled u"
      and gt: "GetTOTPCredential (us_ID u) w6 = (w7, Inr c)"
      and q2: "time_now V w7 = (w8, Inr t2)"
      and v: "totp_Verify V c (trim_space code) t2 = Inr step"
      and n: "newSession V u (ch_AuthMethod ch) md w8 = (w9, Inr issued)"
      and tx: "auth_WithinTx (totp_success V ch u step issued md) w9 = (w', Inr ())" by simp_all
    have "same_rows w w4"
      using quietD [OF quiet_steps(2) q(1)] quietD [OF quiet_limiters(1) q(2)] quietD [OF quiet_limiters(1) q(3)]
        quietD [OF quiet_steps(2) q(4)] by (blast intro: same_rows_trans)
    moreover have w5: "same_rows w4 w5" using quietD [OF quiet_reads(12) g(1)] by simp
    moreover have w6: "same_rows w5 w6" using quietD [OF quiet_reads(6) gu(1)] by simp
    moreover have "same_rows w6 w9"
      using quietD [OF quiet_reads(13) gt] quietD [OF quiet_steps(2) q2] quietD [OF quiet_service(4) n]
      by (blast intro: same_rows_trans)
    ultimately have w: "same_rows w w4" "same_rows w w5" "same_rows w w6" "same_rows w w9" by (blast intro: same_rows_trans)+
    from GetChallenge_Inr [OF g(1)] obtain r where r: "find (open_challenge (HashToken rawToken) ChallengePendingTOTP t1) (au_challenges w4) = Some r"
      "ch = challenge_of_row r" by blast
    from GetUserByID_Inr [OF gu(1)] obtain x ps where x: "find (\<lambda>r. ur_id r = i) (au_users w5) = Some x"
      "u = (user_of_row x)\<lparr>us_Passkeys := ps\<rparr>" by blast
    have c: "find (\<lambda>c. tc_UserID c = ur_id x) (au_totp w) = Some c"
      using query_Inr [OF gt [unfolded GetTOTPCredential_def]] w(3) x
      by (auto simp: same_rows_def user_of_row_def split: option.splits)
    from auth_tx_Inr [OF tx] obtain s0 s1 where s: "same_rows w9 s0" "same_rows s1 w'"
      and op: "totp_success V ch u step issued md s0 = (s1, Inr ())" by blast
    have "distinct (map tc_UserID (au_totp s0))" using assms(1) w(4) s by (simp add: auth_wf_def same_rows_def)
    from totp_success_Inr [OF op this n] have "accepted_step (ur_id x) step w w'"
      "session_issued (ur_id x) (ch_AuthMethod (challenge_of_row r)) issued w w'"
      "\<forall>r' \<in> set (au_challenges w'). cr_id r' \<noteq> cr_id r"
      using s w(4) x(2) r(2) by (simp_all add: accepted_step_def session_issued_def same_rows_def user_of_row_def challenge_of_row_def)
    moreover have "r \<in> set (au_challenges w)" "cr_token_hash r = HashToken rawToken" "cr_kind r = ChallengePendingTOTP"
      using r(1) w(1) by (auto simp: find_Some_iff open_challenge_def same_rows_def)
    moreover have "cr_attempts r < 5" "cr_user_id r = Some (ur_id x)" "x \<in> set (au_users w)" "ur_disabled_at x = None"
      using g(2) i r(2) x w(2) gu(2) by (auto simp: challenge_of_row_def find_Some_iff same_rows_def user_of_row_def Disabled_def)
    ultimately show ?case using c v by blast
  qed
qed

section \<open>The first user\<close>

lemma no_users_yet_Inr:
  assumes "no_users_yet s = (s', Inr x)"
  shows "au_users s = [] \<and> same_rows s s'"
proof -
  have "quiet no_users_yet" by (intro quiet_rules)
  moreover from assms obtain s1 where q: "CountUsers s = (s1, Inr 0)"
    by (auto simp: no_users_yet_def seq_result split: if_splits)
  ultimately show ?thesis
    using query_Inr [OF q [unfolded CountUsers_def]] quietD assms by (auto simp: same_rows_def)
qed

lemma InsertUser_Inr:
  assumes "InsertUser Q u s = (s', Inr x)"
  shows "au_users s' = au_users s @ [row_of_user u] \<and> au_sessions s' = au_sessions s"
proof -
  from query_Inr [OF assms [unfolded InsertUser_def]] obtain s1 where s1: "same_rows s s1"
    and i: "(Inr (s1\<lparr>au_users := au_users s1 @ [row_of_user u]\<rparr>, ()) :: pg_error + _) = Inr (s', x)"
    by (auto simp: Let_def split: if_splits)
  from i have "s' = s1\<lparr>au_users := au_users s1 @ [row_of_user u]\<rparr>" by simp
  with s1 show ?thesis by (simp add: same_rows_def)
qed

lemma InsertPasskey_Inr:
  assumes "InsertPasskey Q p s = (s', Inr x)"
  shows "au_users s' = au_users s \<and> au_sessions s' = au_sessions s"
  using assms
  by (auto simp: InsertPasskey_def seq_result checked_result Let_def same_rows_def dest!: query_Inr split: if_splits)

lemma first_user_Inr:
  assumes "first_user V u insert_passkey issued md after s = (s', Inr x)"
    and "\<And>s s' x. insert_passkey s = (s', Inr x) \<Longrightarrow> au_users s' = au_users s \<and> au_sessions s' = au_sessions s"
    and "newSession V u method md s0 = (s1, Inr issued)"
  shows "au_users s = [] \<and> au_users s' = [row_of_user u] \<and> session_issued (us_ID u) method issued s s'"
proof -
  from auth_tx_Inr [OF assms(1) [unfolded first_user_def]] obtain s2 s3 s4 s5 s6 s7 y where s2: "same_rows s s2"
    and n: "no_users_yet s2 = (s3, Inr ())" and u: "InsertUser (ae_db V) u s3 = (s4, Inr ())"
    and p: "insert_passkey s4 = (s5, Inr y)" and i: "InsertSession (ae_db V) (is_Session issued) s5 = (s6, Inr ())"
    and a: "audit_success V md u ''auth.bootstrap.completed'' ''user'' (us_ID u) (\<lambda>e. e\<lparr>ev_AfterData := after\<rparr>) s6 = (s7, Inr ())"
    and s7: "same_rows s7 s'"
    by (auto simp: seq_result)
  show ?thesis
    using s2 no_users_yet_Inr [OF n] InsertUser_Inr [OF u] assms(2) [OF p] session_inserted [OF assms(3) i]
      InsertSession_Inr [OF i] audit_success_Inr [OF a] s7
    by (auto simp: same_rows_def session_issued_def)
qed

lemma first_user_admin:
  assumes "first_user V u insert_passkey issued md after s = (s', Inr x)"
    and "\<And>s s' x. insert_passkey s = (s', Inr x) \<Longrightarrow> au_users s' = au_users s \<and> au_sessions s' = au_sessions s"
    and "newSession V u method md s0 = (s1, Inr issued)"
    and "us_Role u = RoleAdmin" and "us_DisabledAt u = None" and "au_users s = au_users w \<and> au_sessions s = au_sessions w"
  shows "au_users w = [] \<and> (\<exists>x. au_users s' = [x] \<and> active_admin x \<and> (\<exists>me. session_issued (ur_id x) me issued w s'))"
proof -
  note f = first_user_Inr [OF assms(1-3)]
  have "ur_id (row_of_user u) = us_ID u" "active_admin (row_of_user u)"
    using assms(4,5) by (simp_all add: active_admin_def row_of_user_def RoleAdmin_def)
  with f assms(6) show ?thesis by (simp add: session_issued_def) blast
qed

lemma bootstrapFailure_Inl: "bootstrapFailure V md c s \<noteq> (s', Inr x)"
  by (simp add: bootstrapFailure_def seq_result)

lemma ConsumeChallenge_users: "ConsumeChallenge h k t s = (s', Inr c) \<Longrightarrow> au_users s' = au_users s \<and> au_sessions s' = au_sessions s"
  by (auto simp: ConsumeChallenge_def same_rows_def dest!: query_Inr split: option.splits)

text \<open>C18: The deployment is bootstrapped at most once and only by who holds the bootstrap token: when a bootstrap succeeds,
  with a passkey or with a password, the token presented hashes to the configured hash, there was no user, and
  afterwards there is exactly one - an enabled administrator - for whom the one new session was issued.\<close>

theorem bootstrap_once:
  assumes "FinishBootstrap V tok raw credential md w = (w', Inr issued) \<or> BootstrapWithPassword V tok n d p md w = (w', Inr issued)"
  shows "HashToken tok = cf_BootstrapTokenHash (ae_config V) \<and> au_users w = []
    \<and> (\<exists>x me. au_users w' = [x] \<and> active_admin x \<and> session_issued (ur_id x) me issued w w')"
proof -
  have token: "validBootstrapToken V tok \<Longrightarrow> HashToken tok = cf_BootstrapTokenHash (ae_config V)"
    by (simp add: validBootstrapToken_def split: if_splits)
  have fail: "ends (bootstrapFailure V md c) s (\<lambda>s r. s = w' \<longrightarrow> r = Inr issued \<longrightarrow> P)" for c s P
    using bootstrapFailure_Inl [of V md c s w' issued] by (intro ends_call) auto
  show ?thesis
    using assms
  proof
    assume "FinishBootstrap V tok raw credential md w = (w', Inr issued)"
    then show ?thesis
      unfolding FinishBootstrap_def Let_def
    proof (rule ends_conclude, intro ends_rules fail impI, simp_all, goal_cases)
      case (1 w1 ok w2 t w3 ch w4 pl w5 se w6 rq w7 r cr w8 t1 w9 i w10 iss w11)
      have "au_users w10 = au_users w \<and> au_sessions w10 = au_sessions w"
        using quietD [OF quiet_service(1) 1(1)] quietD [OF quiet_steps(2) 1(4)] ConsumeChallenge_users [OF 1(5)]
          quietD [OF quiet_steps(6) 1(6)] quietD [OF quiet_service(5) 1(7)] quietD [OF quiet_service(6) 1(8)]
          quietD [OF quiet_outside 1(9)] quietD [OF quiet_steps(2) 1(11)] quietD [OF quiet_steps(3) 1(12)]
          quietD [OF quiet_service(4) 1(13)]
        by (simp add: same_rows_def)
      from first_user_admin [OF 1(14) _ 1(13) _ _ this] show ?case
        using token 1(3) InsertPasskey_Inr by (simp add: new_user_def) blast
    qed
  next
    assume "BootstrapWithPassword V tok n d p md w = (w', Inr issued)"
    then show ?thesis
      unfolding BootstrapWithPassword_def Let_def
    proof (rule ends_conclude, intro ends_rules fail impI, simp_all, goal_cases)
      case (1 w1 ok w2 w3 name w4 disp w5 h w6 i w7 hd w8 t w9 iss w10)
      have "au_users w9 = au_users w \<and> au_sessions w9 = au_sessions w"
        using quietD [OF quiet_service(1) 1(1)] quietD [OF quiet_service(14) 1(5)] quietD [OF quiet_steps(6) 1(6)]
          quietD [OF quiet_steps(6) 1(7)] quietD [OF quiet_steps(8) 1(8)] quietD [OF quiet_steps(3) 1(9)]
          quietD [OF quiet_service(7) 1(10)] quietD [OF quiet_steps(2) 1(11)] quietD [OF quiet_service(4) 1(12)]
        by (simp add: same_rows_def)
      from first_user_admin [OF 1(13) _ 1(12) _ _ this] show ?case
        using token 1(4) by (simp add: new_user_def)
    qed
  qed
qed

section \<open>What the audit trail shows of a password\<close>

lemma password_enabled_sensitive: "sensitiveKey ''password_enabled''"
  by code_simp

text \<open>C33: The audit trail does not show whether a user may log in with a password: the key under which the service
  records it contains a word that the sanitiser removes, so the documents of two users that differ only in
  the password and in whether it is enabled are the same when they are stored.\<close>

theorem password_state_not_audited:
  "marshalSafeAuditData Q (safeUserAuditData (u\<lparr>us_PasswordEnabled := b, us_PasswordHash := h\<rparr>))
     = marshalSafeAuditData Q (safeUserAuditData u)"
  by (simp add: marshalSafeAuditData_def SanitizeMap_def safeUserAuditData_def password_enabled_sensitive Disabled_def)

end
