(* ===== verification/Auth_Example.thy ===== *)
theory Auth_Example
  imports Auth_Logins
begin

text \<open>
  A small deployment on which the properties of the authentication service are tried out: an administrator
  and an operator with a password, a clock that stands still, random bytes that count, and a database
  without faults.
\<close>

section \<open>The deployment\<close>

definition auth_ex_db :: auth_db where
  "auth_ex_db =
     \<lparr>de_lower = (\<lambda>t. t), de_collation = (\<lambda>t. t), de_ilike = (\<lambda>t p. True), de_jsonb = Some,
      de_account_ok = (\<lambda>_. True), de_zone_ok = (\<lambda>_. True), de_event_ok = (\<lambda>_. True),
      de_unmarshal = (\<lambda>_. None), de_marshal = (\<lambda>_. []), de_summary = (\<lambda>_. []),
      ad_inet = Some, ad_user_ok = (\<lambda>_. True), ad_session_ok = (\<lambda>_. True), ad_passkey_ok = (\<lambda>_. True),
      ad_marshal = (\<lambda>_. None), ad_unmarshal = (\<lambda>_. None), ad_transports = (\<lambda>_. None)\<rparr>"

definition auth_ex_rate :: "unit rate_env" where
  "auth_ex_rate = \<lparr>rl_NewLimiter = (\<lambda>_ _. ()), rl_AllowN = (\<lambda>l t. (l, True))\<rparr>"

definition ex_token :: string where "ex_token = b64_encode (replicate 32 CHR ''t'')"

definition auth_ex_config :: auth_config where
  "auth_ex_config =
     \<lparr>cf_Scheme = ''https'', cf_Host = ''dns.example.com'', cf_BootstrapTokenHash = HashToken ex_token,
      cf_PasswordLoginEnabled = True, cf_SessionIdleTTL = 1000000, cf_SessionAbsoluteTTL = 5000000,
      cf_SessionRefreshInterval = 1000000, cf_ChallengeTTL = 1000000, cf_EnrollmentTTL = 1000000\<rparr>"

definition ex_envelope :: envelope where
  "ex_envelope = \<lparr>env_activeVersion = 1, env_aeads = [(1, replicate 32 CHR ''k'')]\<rparr>"

definition auth_ex :: "(unit, nat) auth_env" where
  "auth_ex =
     \<lparr>ae_db = auth_ex_db, ae_rate = auth_ex_rate, ae_config = auth_ex_config, ae_envelope = ex_envelope,
      ae_now = (\<lambda>n. (n, 7000000)),
      ae_uuid = (\<lambda>n. (Suc n, Some (replicate n CHR ''i''))),
      ae_random = (\<lambda>n. (Suc n, Some (\<lambda>i. char_of n))),
      ae_lower = (\<lambda>t. t), ae_address = (\<lambda>_. None),
      ae_CreateHash = (\<lambda>p n. (n, Some (''hash of '' @ p))),
      ae_CompareHash = (\<lambda>p h. Some (h = ''hash of '' @ p)),
      ae_GenerateTOTP = (\<lambda>_ n. (n, None)), ae_ValidateTOTP = (\<lambda>code secret t. Some (code = ''123456'')),
      ae_BeginRegistration = (\<lambda>_ _ n. (n, None)), ae_FinishRegistration = (\<lambda>_ _ _ n. (n, None)),
      ae_BeginLogin = (\<lambda>n. (n, None)), ae_LoginHandles = (\<lambda>_ _. None), ae_VerifyLogin = (\<lambda>_ _ _ n. (n, None)),
      ae_session_valid = (\<lambda>_. True), ae_passkey_payload = (\<lambda>_. None), ae_bootstrap_payload = (\<lambda>_. None)\<rparr>"

lemma auth_ex_simps [simp]:
  "ae_db auth_ex = auth_ex_db"
  "ae_rate auth_ex = auth_ex_rate"
  "ae_config auth_ex = auth_ex_config"
  "ae_envelope auth_ex = ex_envelope"
  "ae_now auth_ex = (\<lambda>n. (n, 7000000))"
  "ae_uuid auth_ex = (\<lambda>n. (Suc n, Some (replicate n CHR ''i'')))"
  "ae_random auth_ex = (\<lambda>n. (Suc n, Some (\<lambda>i. char_of n)))"
  "ae_lower auth_ex = (\<lambda>t. t)"
  "ae_address auth_ex = (\<lambda>_. None)"
  "ae_CreateHash auth_ex = (\<lambda>p n. (n, Some (''hash of '' @ p)))"
  "ae_CompareHash auth_ex = (\<lambda>p h. Some (h = ''hash of '' @ p))"
  "ae_GenerateTOTP auth_ex = (\<lambda>_ n. (n, None))"
  "ae_ValidateTOTP auth_ex = (\<lambda>code secret t. Some (code = ''123456''))"
  "ae_BeginRegistration auth_ex = (\<lambda>_ _ n. (n, None))"
  "ae_FinishRegistration auth_ex = (\<lambda>_ _ _ n. (n, None))"
  "ae_BeginLogin auth_ex = (\<lambda>n. (n, None))"
  "ae_LoginHandles auth_ex = (\<lambda>_ _. None)"
  "ae_VerifyLogin auth_ex = (\<lambda>_ _ _ n. (n, None))"
  "ae_session_valid auth_ex = (\<lambda>_. True)"
  "ae_passkey_payload auth_ex = (\<lambda>_. None)"
  "ae_bootstrap_payload auth_ex = (\<lambda>_. None)"
  by (simp_all add: auth_ex_def)

definition ada :: user_row where
  "ada = \<lparr>ur_id = ''ada'', ur_handle = None, ur_username = ''ada'', ur_display_name = [], ur_email = [], ur_role = ''admin'',
    ur_password_hash = None, ur_password_enabled = False, ur_totp_required = False, ur_disabled_at = None,
    ur_created_at = 1000, ur_updated_at = 1000\<rparr>"

definition bob :: user_row where
  "bob = \<lparr>ur_id = ''bob'', ur_handle = None, ur_username = ''bob'', ur_display_name = [], ur_email = [], ur_role = ''operator'',
    ur_password_hash = Some ''hash of correct horse'', ur_password_enabled = True, ur_totp_required = False,
    ur_disabled_at = None, ur_created_at = 1000, ur_updated_at = 2000\<rparr>"

definition bob_session :: "time option \<Rightarrow> session_row" where
  "bob_session revoked = \<lparr>sr_id = ''s1'', sr_user_id = ''bob'', sr_token_hash = HashToken ex_token,
    sr_csrf_token_hash = HashToken ex_token, sr_ip = None, sr_user_agent = [], sr_auth_method = AuthMethodPassword,
    sr_created_at = 6000000, sr_last_seen_at = 7000000, sr_idle_expires_at = 8000000, sr_absolute_expires_at = 9000000,
    sr_revoked_at = revoked\<rparr>"

definition auth_ex_world :: "user_row list \<Rightarrow> session_row list \<Rightarrow> totp_credential list \<Rightarrow> challenge_row list \<Rightarrow> (unit, nat) auth_world" where
  "auth_ex_world us ss ts cs =
     \<lparr>st_accounts = [], st_zones = [], st_events = [], st_now = 7000000, st_in_tx = False, st_faults = [],
      au_users = us, au_sessions = ss, au_passkeys = [], au_totp = ts, au_challenges = cs,
      aw_limiter = NewLoginLimiter 5 1000 10, aw_publicLimiter = NewLoginLimiter 5 1000 10, aw_outside = 0\<rparr>"

definition ada_session :: authenticated_session where
  "ada_session = \<lparr>as_Session = session_of_row (bob_session None), as_User = user_of_row ada\<rparr>"

definition ex_md :: request_metadata where
  "ex_md = \<lparr>rm_RequestID = ''req-1'', rm_IP = ''192.0.2.7'', rm_UserAgent = []\<rparr>"

section \<open>Running it\<close>

definition limited :: "string \<Rightarrow> time \<Rightarrow> unit login_limiter \<Rightarrow> unit login_limiter" where
  "limited key t l = fst (Allow auth_ex_rate key t l)"

lemma Allow_passes: "0 < ll_maximum l \<Longrightarrow> 0 < ll_burst l \<Longrightarrow> Allow auth_ex_rate key t l = (limited key t l, True)"
  by (simp add: limited_def Allow_def auth_ex_rate_def Let_def)

lemma limited_simps [simp]: "ll_maximum (limited key t l) = ll_maximum l" "ll_burst (limited key t l) = ll_burst l"
  by (simp_all add: limited_def Allow_def auth_ex_rate_def Let_def)

lemmas running = attempt_def seq_def give_def reject_def checked_def outside_def outside_or_def time_now_def newUUID_def
  crypto_result_def opaque_token_def input_or_def NewOpaqueToken_def Let_def auth_ex_db_def auth_ex_config_def
  auth_ex_world_def query_def sql_def statement_def run_statement_def auth_WithinTx_def run_tx_def
  GetUserByID_def select_user_def loadUserPasskeys_def Auth_Store.ListPasskeys_def user_passkeys_def
  audit_success_def newAuditEvent_def auth_InsertAuditEvent_def insert_event_row_def stored_event_def db_env.defs
  missing_is_conflict_def update_user_def user_row_ok_def user_clash_def timestamptz_def role_valid_def
  RoleAdmin_def RoleOperator_def RoleViewer_def user_of_row_def ada_def bob_def ada_session_def

lemmas ending = end_sessions_def RevokeAllSessions_def change_sessions_def DeleteChallengesForUser_def delete_challenges_def
  revoked_at_def bob_session_def or_else_def

lemma disable_bob: "\<exists>w' u. Auth_Users.SetUserDisabled auth_ex ada_session ''bob'' True ex_md
    (auth_ex_world [ada, bob] [bob_session None] [] []) = (w', Inr u)"
  by (simp add: Auth_Users.SetUserDisabled_def running keep_an_admin_def Auth_Store.SetUserDisabled_def ending)

section \<open>The service as a whole\<close>

abbreviation office :: "session_row list \<Rightarrow> (unit, nat) auth_world" where
  "office ss \<equiv> auth_ex_world [ada, bob] ss [] []"

lemma office_wf: "auth_wf (ae_db auth_ex) (office [bob_session t])"
  by (simp add: auth_wf_def auth_ex_def auth_ex_db_def auth_ex_world_def ada_def bob_def bob_session_def user_row_ok_def
      role_valid_def RoleAdmin_def RoleOperator_def)

lemma auth_service_refines_witness:
  "(auth_change (ae_db auth_ex))\<^sup>*\<^sup>* (office [bob_session None])
     (fst (Auth_Users.SetUserDisabled auth_ex ada_session ''bob'' True ex_md (office [bob_session None])))"
  by (rule auth_service_refines [OF office_wf use_disable])

lemma auth_stays_wf_witness:
  "auth_wf (ae_db auth_ex) (fst (PasswordLogin auth_ex ''bob'' ''correct horse'' ex_md
     (fst (SetPassword auth_ex ada_session ''battery staple'' ex_md (office [bob_session None])))))"
  by (rule auth_stays_wf [OF office_wf])
    (rule rtranclp.rtrancl_into_rtrancl [OF r_into_rtranclp [where r = "auth_use auth_ex", OF use_set_password] use_password_login])

lemma an_admin_remains_witness:
  "has_admin (fst (Auth_Users.SetUserDisabled auth_ex
     \<lparr>as_Session = session_of_row (bob_session None), as_User = user_of_row bob\<rparr> ''ada'' True ex_md (office [bob_session None])))"
  by (rule an_admin_remains [OF office_wf _ r_into_rtranclp [where r = "auth_use auth_ex", OF use_disable]])
    (simp add: has_admin_def active_admin_def auth_ex_world_def ada_def)

section \<open>Sessions\<close>

lemma ex_token_valid [simp]: "ValidOpaqueToken ex_token"
  by (simp add: ValidOpaqueToken_def ex_token_def b64_round_trip tokenBytes_def)

lemma bob_authenticates: "\<exists>w' a. AuthenticateSession auth_ex ex_token (office [bob_session None]) = (w', Inr a)"
  by (simp add: AuthenticateSession_def GetSessionByTokenHash_def session_over_def session_of_row_def Disabled_def
      time_sub_def min_int64_def max_int64_def running bob_session_def)

lemma authenticated_is_live_witness:
  "\<exists>w' a. AuthenticateSession auth_ex ex_token (office [bob_session None]) = (w', Inr a) \<and> as_User a = user_of_row bob"
proof -
  obtain w' a where run: "AuthenticateSession auth_ex ex_token (office [bob_session None]) = (w', Inr a)"
    using bob_authenticates by blast
  show ?thesis
    using run authenticated_is_live [OF office_wf run]
    by (auto simp: auth_ex_world_def bob_session_def ada_def bob_def)
qed

lemma revoked_forever_witness:
  "\<nexists>w2 a. AuthenticateSession auth_ex ex_token
     (fst (PasswordLogin auth_ex ''bob'' ''correct horse'' ex_md (office [bob_session (Some 7000000)]))) = (w2, Inr a)"
  by (rule revoked_forever [OF office_wf _ r_into_rtranclp [where r = "auth_use auth_ex", OF use_password_login]])
    (simp add: revoked_session_def auth_ex_world_def bob_session_def)

lemma disabling_cuts_off_witness:
  "\<exists>w' u. Auth_Users.SetUserDisabled auth_ex ada_session ''bob'' True ex_md (office [bob_session None]) = (w', Inr u)
     \<and> cut_off ''bob'' w'"
  using disable_bob disabling_cuts_off by blast

definition demotion :: update_user_input where
  "demotion = \<lparr>uu_DisplayName = None, uu_Email = None, uu_Role = Some ''viewer'', uu_Password = None, uu_PasswordEnabled = None\<rparr>"

lemma demote_bob: "\<exists>w' u. UpdateUser auth_ex ada_session ''bob'' demotion ex_md (office [bob_session None]) = (w', Inr u)"
  by (simp add: UpdateUser_def demotion_def user_changes_of_def optional_def check_role_def running keep_an_admin_def
      Auth_Store.UpdateUser_def apply_user_changes_def no_changes_def ending)

lemma security_update_cuts_off_witness:
  "\<exists>w' u. UpdateUser auth_ex ada_session ''bob'' demotion ex_md (office [bob_session None]) = (w', Inr u) \<and> cut_off ''bob'' w'"
proof -
  obtain w' u where run: "UpdateUser auth_ex ada_session ''bob'' demotion ex_md (office [bob_session None]) = (w', Inr u)"
    using demote_bob by blast
  have "cut_off ''bob'' w'"
    by (rule security_update_cuts_off [OF run, of bob])
      (simp_all add: auth_ex_world_def ada_def bob_def role_changes_def demotion_def)
  with run show ?thesis by blast
qed

definition bob_current :: authenticated_session where
  "bob_current = \<lparr>as_Session = session_of_row (bob_session None), as_User = user_of_row bob\<rparr>"

lemmas entering = newSession_def InsertSession_def inet_def row_of_session_def session_row_ok_def session_of_row_def HashToken_def
  sha256_length hash_password_def

lemma ex_inputs [simp]:
  "ValidatePassword ''battery staple''" "validateUsername ''bob'' = Some ''bob''" "validPasswordVerificationInput ''correct horse''"
  "normalizeUsername (\<lambda>t. t) ''bob'' = ''bob''" "trim_space ''123456'' = ''123456''"
  "validateUsername ''ada'' = Some ''ada''" "normalizeUsername (\<lambda>t. t) ''ada'' = ''ada''" "validateDisplayName ''Ada'' = Some ''Ada''"
  by code_simp+

lemma bob_sets_password: "\<exists>w' x. SetPassword auth_ex bob_current ''battery staple'' ex_md (office []) = (w', Inr x)"
  by (simp add: SetPassword_def renew_session_def running Auth_Store.UpdateUser_def apply_user_changes_def
      no_changes_def nullableString_def ending entering bob_current_def ex_md_def)

lemma own_security_change_leaves_one_session_witness:
  "\<exists>w' x. SetPassword auth_ex bob_current ''battery staple'' ex_md (office []) = (w', Inr x) \<and> only_session ''bob'' (is_Token x) w'"
proof -
  obtain w' x where run: "SetPassword auth_ex bob_current ''battery staple'' ex_md (office []) = (w', Inr x)"
    using bob_sets_password by blast
  have "only_session ''bob'' (is_Token x) w'"
    using own_security_change_leaves_one_session [OF disjI1, OF run] by (simp add: bob_current_def user_of_row_def bob_def)
  with run show ?thesis by blast
qed

section \<open>Logins\<close>

lemmas limiting = allow_limiter_def allow_public_def Allow_passes NewLoginLimiter_def

lemma bob_logs_in: "\<exists>w' x. PasswordLogin auth_ex ''bob'' ''correct horse'' ex_md (office []) = (w', Inr (LoggedIn x))"
  by (simp add: PasswordLogin_def password_attempt_allowed_def limiting GetUserByUsername_def Disabled_def verify_password_def
      completePrimaryLogin_def update_used_passkey_def running ending entering ex_md_def)

lemma password_login_checks_witness:
  "\<exists>w' x. PasswordLogin auth_ex ''bob'' ''correct horse'' ex_md (office []) = (w', Inr (LoggedIn x))
     \<and> session_issued ''bob'' AuthMethodPassword x (office []) w'"
proof -
  obtain w' x where run: "PasswordLogin auth_ex ''bob'' ''correct horse'' ex_md (office []) = (w', Inr (LoggedIn x))"
    using bob_logs_in by blast
  have "session_issued ''bob'' AuthMethodPassword x (office []) w'"
    using password_login_checks [OF run] by (auto simp: auth_ex_def auth_ex_db_def auth_ex_world_def ada_def bob_def)
  with run show ?thesis by blast
qed

definition ex_nonce :: string where "ex_nonce = random_bytes (\<lambda>_. CHR ''n'') 12"

definition bob_totp :: totp_credential where
  "bob_totp = \<lparr>tc_UserID = ''bob'', tc_SecretCiphertext = gcm_seal (replicate 32 CHR ''k'') ex_nonce ''SECRET'' (totpAAD ''bob'' 1 1),
    tc_SecretNonce = ex_nonce, tc_KeyVersion = 1, tc_CredentialRevision = 1, tc_ConfirmedAt = Some 1000,
    tc_LastAcceptedTimestep = None, tc_CreatedAt = 1000, tc_UpdatedAt = 1000\<rparr>"

definition bob_challenge :: challenge_row where
  "bob_challenge = \<lparr>cr_id = ''c1'', cr_token_hash = HashToken ex_token, cr_kind = ChallengePendingTOTP, cr_user_id = Some ''bob'',
    cr_session_id = None, cr_parent_id = None, cr_webauthn_session = None, cr_payload = ''{}'',
    cr_auth_method = Some AuthMethodPassword, cr_attempts = 0, cr_created_at = 6000000, cr_expires_at = 8000000\<rparr>"

definition totp_office :: "(unit, nat) auth_world" where
  "totp_office = auth_ex_world [ada, bob\<lparr>ur_totp_required := True\<rparr>] [] [bob_totp] [bob_challenge]"

lemma ex_keyring: "keyring_ok ex_envelope"
  by (simp add: keyring_ok_def ex_envelope_def MasterKeySize_def)

lemma bob_totp_simps [simp]:
  "tc_UserID bob_totp = ''bob''" "tc_SecretNonce bob_totp = ex_nonce" "tc_KeyVersion bob_totp = 1"
  "tc_CredentialRevision bob_totp = 1" "tc_ConfirmedAt bob_totp = Some 1000" "tc_LastAcceptedTimestep bob_totp = None"
  by (simp_all add: bob_totp_def)

lemma bob_secret: "envelope_Decrypt ex_envelope (tc_SecretCiphertext bob_totp) ex_nonce (totpAAD ''bob'' 1 1) 1 = Inr ''SECRET''"
proof -
  have "keyring_ok ex_envelope" by (rule ex_keyring)
  moreover have "envelope_Encrypt (Some ex_envelope) (Some (\<lambda>_. CHR ''n'')) ''SECRET'' (totpAAD ''bob'' 1 1)
      = Inr (tc_SecretCiphertext bob_totp, ex_nonce, 1)"
    by (simp add: envelope_Encrypt_def ex_envelope_def maximumPlaintextSize_def bob_totp_def ex_nonce_def gcm_nonce_size_def Let_def)
  ultimately show ?thesis using envelope_round_trip by blast
qed

lemma bob_code: "totp_Verify auth_ex bob_totp ''123456'' t = Inr (unix_seconds t div totpPeriod)"
  using bob_secret by (simp add: totp_Verify_def Let_def)

lemma totp_office_wf: "auth_wf (ae_db auth_ex) totp_office"
  by (simp add: auth_wf_def auth_ex_def auth_ex_db_def totp_office_def auth_ex_world_def ada_def bob_def bob_totp_def
      bob_challenge_def user_row_ok_def role_valid_def RoleAdmin_def RoleOperator_def)

lemma bob_completes: "\<exists>w' x. CompleteTOTPLogin auth_ex ex_token ''123456'' ex_md totp_office = (w', Inr x)"
  by (simp add: CompleteTOTPLogin_def totp_office_def limiting GetChallenge_def bob_challenge_def open_challenge_def
      challenge_of_row_def Disabled_def GetTOTPCredential_def bob_code totp_success_def AcceptTOTPTimestep_def
      change_totp_def DeleteChallenge_def running ending entering ex_md_def)

lemma second_factor_used_once_witness:
  "\<exists>w' x step. CompleteTOTPLogin auth_ex ex_token ''123456'' ex_md totp_office = (w', Inr x)
     \<and> accepted_step ''bob'' step totp_office w'"
proof -
  obtain w' x where run: "CompleteTOTPLogin auth_ex ex_token ''123456'' ex_md totp_office = (w', Inr x)"
    using bob_completes by blast
  from second_factor_used_once [OF totp_office_wf run] obtain r and y :: user_row and step where r: "r \<in> set (au_challenges totp_office)"
    "cr_user_id r = Some (ur_id y)" "accepted_step (ur_id y) step totp_office w'" by blast
  then have "ur_id y = ''bob''" by (simp add: totp_office_def auth_ex_world_def bob_challenge_def)
  with run r show ?thesis by auto
qed

section \<open>Bootstrap\<close>

lemma ada_bootstraps: "\<exists>w' x. BootstrapWithPassword auth_ex ex_token ''ada'' ''Ada'' ''battery staple'' ex_md (auth_ex_world [] [] [] [])
    = (w', Inr x)"
  by (simp add: BootstrapWithPassword_def allowPublicAuth_def limiting validBootstrapToken_def no_users_yet_def CountUsers_def
      first_user_def InsertUser_def row_of_user_def new_user_def user_handle_def NewUserHandle_def nullableString_def
      running ending entering ex_md_def)

lemma bootstrap_once_witness:
  "\<exists>w' x y. BootstrapWithPassword auth_ex ex_token ''ada'' ''Ada'' ''battery staple'' ex_md (auth_ex_world [] [] [] []) = (w', Inr x)
     \<and> au_users w' = [y] \<and> active_admin y"
proof -
  obtain w' x where run: "BootstrapWithPassword auth_ex ex_token ''ada'' ''Ada'' ''battery staple'' ex_md (auth_ex_world [] [] [] [])
      = (w', Inr x)" using ada_bootstraps by blast
  from bootstrap_once [OF disjI2, OF run] run show ?thesis by blast
qed

section \<open>Secrets and the limiter\<close>

definition ex_context :: credential_context where
  "ex_context = \<lparr>cc_ProviderAccountID = ''a1'', cc_ProviderType = ''fake'', cc_CredentialRevision = 1\<rparr>"

lemma ex_context_type [simp]: "credential_provider_type ''fake''"
  by code_simp

lemma vault_round_trip_witness:
  "\<exists>c. vault_Encrypt (\<lambda>_. Some 7) ex_envelope (Some (\<lambda>_. CHR ''n'')) ''token'' ex_context = Inr c
     \<and> vault_Decrypt (\<lambda>_. Some 7) \<lparr>env_activeVersion = 2, env_aeads = [(2, replicate 32 CHR ''m''), (1, replicate 32 CHR ''k'')]\<rparr>
         c ex_context = Inr ''token''"
proof -
  obtain c where enc: "vault_Encrypt (\<lambda>_. Some 7) ex_envelope (Some (\<lambda>_. CHR ''n'')) ''token'' ex_context = Inr c"
    and c: "ec_KeyVersion c = 1"
    by (simp add: vault_Encrypt_def credentialAAD_def ex_context_def ActiveKeyVersion_def ex_envelope_def
        envelope_Encrypt_def maximumPlaintextSize_def Let_def and_then_def)
  show ?thesis
    using vault_round_trip [OF ex_keyring enc, of "\<lparr>env_activeVersion = 2, env_aeads = [(2, replicate 32 CHR ''m''), (1, replicate 32 CHR ''k'')]\<rparr>"]
      enc c by (simp add: ex_envelope_def)
qed

lemma credential_context_bound_witness:
  "\<exists>a b. credentialAAD (\<lambda>_. Some 7) ex_context 1 = Inr a
     \<and> credentialAAD (\<lambda>_. Some 7) (ex_context\<lparr>cc_CredentialRevision := 2\<rparr>) 1 = Inr b \<and> a \<noteq> b"
proof -
  obtain a b where a: "credentialAAD (\<lambda>_. Some 7) ex_context 1 = Inr a"
    and b: "credentialAAD (\<lambda>_. Some 7) (ex_context\<lparr>cc_CredentialRevision := 2\<rparr>) 1 = Inr b"
    by (simp add: credentialAAD_def ex_context_def)
  from credential_context_bound [OF a b] a b show ?thesis by (simp add: ex_context_def)
qed

lemma limiter_bounded_witness:
  "int (length (ll_entries (fold (\<lambda>(key, t) l. fst (Allow auth_ex_rate key t l))
     [(''a'', 1), (''b'', 2), (''c'', 3)] (NewLoginLimiter 5 1000 2)))) \<le> 2"
  using limiter_bounded [of 2 auth_ex_rate "[(''a'', 1), (''b'', 2), (''c'', 3)]" 5 1000] by simp

end
