(* ===== verification/Audit_Visibility.thy ===== *)
theory Audit_Visibility
  imports Roles Example_Deployment
begin

text \<open>
  Who sees which audit events. The rule is written three times in the code: for a role, for an event the
  DNS service has read, and as a condition of the query that lists events.
\<close>

lemma dns_event_rules:
  "isDNSAuditEvent e = dns_event e"
  "r \<in> {RoleOperator, RoleViewer} \<Longrightarrow> CanReadAuditEvent r (ev_Action e) (ev_ResourceType e) = dns_event e"
  by (auto simp: isDNSAuditEvent_def dns_event_def CanReadAuditEvent_def RoleAdmin_def RoleOperator_def RoleViewer_def)

text \<open>C34: The three rules agree: for a role that is not an administrator, the query restricted to DNS events shows exactly
  the events of the unrestricted query that the role may read, and a single event is handed out with DNS
  visibility exactly when it is there and the role may read it.\<close>

theorem non_admins_see_dns_events:
  assumes "r \<in> {RoleOperator, RoleViewer}"
  shows "(event_matches Q (q\<lparr>aq_DNSOnly := True\<rparr>) e \<longleftrightarrow>
      event_matches Q (q\<lparr>aq_DNSOnly := False\<rparr>) e \<and> CanReadAuditEvent r (ev_Action e) (ev_ResourceType e))
    \<and> (GetVisibleAuditEvent D i AuditVisibilityDNS w = (w', Inr x) \<longleftrightarrow>
      Dns_Reads.GetAuditEvent D i w = (w', Inr x) \<and> CanReadAuditEvent r (ev_Action x) (ev_ResourceType x))"
  using dns_event_rules(1) dns_event_rules(2) [OF assms]
  by (auto simp: event_matches_def GetVisibleAuditEvent_def seq_result split: if_splits)

definition login_event :: audit_event where
  "login_event = \<lparr>ev_ID = ''e1'', ev_OccurredAt = 1000, ev_ActorUserID = None, ev_ActorUsernameSnapshot = [],
     ev_Action = ''auth.login.failed'', ev_ResourceType = ''user'', ev_ResourceID = ''u1'', ev_ProviderAccountID = None,
     ev_ZoneID = None, ev_RequestID = ''r1'', ev_IP = [], ev_UserAgent = [], ev_Result = ResultFailed,
     ev_ErrorCode = ''invalid_credentials'', ev_BeforeData = [], ev_AfterData = [], ev_Metadata = []\<rparr>"

definition every_event :: audit_query where
  "every_event = \<lparr>aq_Actor = [], aq_Action = [], aq_DNSOnly = False, aq_ProviderAccountID = None, aq_ZoneID = None,
     aq_Result = None, aq_From = None, aq_To = None, aq_Offset = 0, aq_Limit = 50\<rparr>"

lemma non_admins_see_dns_events_witness:
  "event_matches example_db every_event login_event \<and> \<not> event_matches example_db (every_event\<lparr>aq_DNSOnly := True\<rparr>) login_event"
  using non_admins_see_dns_events [of RoleViewer example_db every_event login_event example_dns "[]" example_world example_world login_event]
  by (simp add: CanReadAuditEvent_def login_event_def RoleAdmin_def RoleViewer_def RoleOperator_def every_event_def event_matches_def)

end
