(* ===== verification/Client_Ip.thy ===== *)
theory Client_Ip
  imports Addresses Pagination Tokens
begin

text \<open>
  Which address a request is taken to come from (\<open>internal/httpx/middleware.go\<close>).
  \<open>net.SplitHostPort\<close>, \<open>net.ParseIP\<close>, \<open>net.IP.String\<close> and \<open>net.IPNet.Contains\<close> are modelled; addresses
  are lists of bytes, as \<open>net.IP\<close> is, and forwarding headers are read only from trusted peers.
\<close>

section \<open>Hosts and ports\<close>

definition cut_last :: "char \<Rightarrow> string \<Rightarrow> (string \<times> string) option" where
  "cut_last d s =
     (if d \<in> set s
      then Some (rev (tl (dropWhile (\<lambda>c. c \<noteq> d) (rev s))), rev (takeWhile (\<lambda>c. c \<noteq> d) (rev s)))
      else None)"

text \<open>\<open>net.SplitHostPort\<close>: with brackets the last colon is right after them, without them it is the only one.\<close>

definition SplitHostPort :: "string \<Rightarrow> (string \<times> string) option" where
  "SplitHostPort hostport =
     (case cut_last (CHR '':'') hostport of
        None \<Rightarrow> None
      | Some (before, port) \<Rightarrow>
          if hd hostport = CHR ''[''
          then
            (let host = takeWhile (\<lambda>c. c \<noteq> CHR '']'') (tl hostport); rest = drop (Suc (length host)) hostport in
             if rest = [] \<or> length before \<noteq> length host + 2 then None
             else if CHR ''['' \<in> set (tl hostport) \<or> CHR '']'' \<in> set (tl rest) then None
             else Some (host, port))
          else if CHR '':'' \<in> set before \<or> CHR ''['' \<in> set hostport \<or> CHR '']'' \<in> set hostport then None
          else Some (before, port))"

definition trim_chars :: "string \<Rightarrow> string \<Rightarrow> string" where
  "trim_chars cutset s =
     rev (dropWhile (\<lambda>c. c \<in> set cutset) (rev (dropWhile (\<lambda>c. c \<in> set cutset) s)))"

text \<open>\<open>strings.Cut\<close> for a one-byte separator.\<close>

definition cut_first :: "char \<Rightarrow> string \<Rightarrow> (string \<times> string) option" where
  "cut_first d s =
     (if d \<in> set s then Some (takeWhile (\<lambda>c. c \<noteq> d) s, tl (dropWhile (\<lambda>c. c \<noteq> d) s)) else None)"

section \<open>Addresses as bytes\<close>

type_synonym ip = "nat list"

definition v4_prefix :: ip where "v4_prefix = replicate 10 0 @ [255, 255]"

text \<open>\<open>net.ParseIP\<close>: the sixteen bytes of an address without a zone.\<close>

definition ParseIP :: "string \<Rightarrow> ip option" where
  "ParseIP s =
     (case ParseAddr s of
        Some (IPv4 os) \<Rightarrow> Some (v4_prefix @ os)
      | Some (IPv6 gs zone) \<Rightarrow> if zone = [] then Some (split_groups gs) else None
      | None \<Rightarrow> None)"

definition To4 :: "ip \<Rightarrow> ip option" where
  "To4 b = (if length b = 4 then Some b
            else if length b = 16 \<and> take 12 b = v4_prefix then Some (drop 12 b) else None)"

fun join_bytes :: "nat list \<Rightarrow> nat list" where
  "join_bytes (a # b # bs) = (256 * a + b) # join_bytes bs"
| "join_bytes bs = []"

definition ip_String :: "ip \<Rightarrow> string" where
  "ip_String b = (case To4 b of Some os \<Rightarrow> string4 os | None \<Rightarrow> string6 (join_bytes b))"

record ip_net =
  net_IP :: ip
  net_Mask :: "nat list"

definition networkNumberAndMask :: "ip_net \<Rightarrow> (ip \<times> nat list) option" where
  "networkNumberAndMask n =
     (let b = (case To4 (net_IP n) of Some os \<Rightarrow> os | None \<Rightarrow> net_IP n); m = net_Mask n in
      if length b \<noteq> 4 \<and> length b \<noteq> 16 then None
      else if length m = 4 then (if length b = 4 then Some (b, m) else None)
      else if length m = 16 then Some (b, if length b = 4 then drop 12 m else m)
      else None)"

unbundle bit_operations_syntax

definition net_Contains :: "ip_net \<Rightarrow> ip \<Rightarrow> bool" where
  "net_Contains n b \<longleftrightarrow>
     (case networkNumberAndMask n of
        None \<Rightarrow> (case To4 b of Some os \<Rightarrow> os | None \<Rightarrow> b) = []
      | Some (nn, m) \<Rightarrow>
          (let x = (case To4 b of Some os \<Rightarrow> os | None \<Rightarrow> b) in
           length x = length nn \<and> list_all (\<lambda>i. (nn ! i) AND (m ! i) = (x ! i) AND (m ! i)) [0..<length x]))"

definition isTrustedProxy :: "ip \<Rightarrow> ip_net option list \<Rightarrow> bool" where
  "isTrustedProxy b trusted \<longleftrightarrow> list_ex (\<lambda>n. case n of None \<Rightarrow> False | Some n \<Rightarrow> net_Contains n b) trusted"

section \<open>The forwarding headers\<close>

definition forwarded_for_parameter :: "string \<Rightarrow> string list" where
  "forwarded_for_parameter parameter =
     (case cut_first (CHR ''='') (trim_space parameter) of
        None \<Rightarrow> []
      | Some (key, v) \<Rightarrow>
          if map lower_char (trim_space key) \<noteq> ''for'' then []
          else
            (let v1 = trim_chars [CHR 0x22] (trim_space v);
                 v2 = (case SplitHostPort v1 of None \<Rightarrow> v1 | Some (host, port) \<Rightarrow> host)
             in [trim_chars ''[]'' v2]))"

definition forwardedForValues :: "string \<Rightarrow> string \<Rightarrow> string list" where
  "forwardedForValues forwarded xForwardedFor =
     (if trim_space xForwardedFor \<noteq> []
      then filter (\<lambda>v. v \<noteq> []) (map trim_space (split_on (CHR '','') xForwardedFor))
      else concat (map (\<lambda>element. concat (map forwarded_for_parameter (split_on (CHR '';'') element)))
                       (split_on (CHR '','') forwarded)))"

text \<open>An entry names a client if it is an address that is not itself a trusted proxy.\<close>

definition client_entry :: "ip_net option list \<Rightarrow> string \<Rightarrow> ip option" where
  "client_entry trusted v =
     (case ParseIP v of None \<Rightarrow> None | Some b \<Rightarrow> if isTrustedProxy b trusted then None else Some b)"

fun last_client :: "ip_net option list \<Rightarrow> string list \<Rightarrow> ip option" where
  "last_client trusted [] = None"
| "last_client trusted (v # earlier) =
     (case client_entry trusted v of Some b \<Rightarrow> Some b | None \<Rightarrow> last_client trusted earlier)"

definition forwardedClientIP :: "string \<Rightarrow> string \<Rightarrow> string \<Rightarrow> string \<Rightarrow> ip_net option list \<Rightarrow> string" where
  "forwardedClientIP remote forwarded xForwardedFor xRealIP trusted =
     (case ParseIP (trim_space remote) of
        None \<Rightarrow> remote
      | Some peer \<Rightarrow>
          if \<not> isTrustedProxy peer trusted then remote
          else
            (let forwardedValues = forwardedForValues forwarded xForwardedFor in
             case last_client trusted (rev forwardedValues) of
               Some b \<Rightarrow> ip_String b
             | None \<Rightarrow>
                 if forwardedValues = []
                 then (case client_entry trusted (trim_space xRealIP) of Some b \<Rightarrow> ip_String b | None \<Rightarrow> remote)
                 else remote))"

definition remoteIP :: "string \<Rightarrow> string" where
  "remoteIP remoteAddr = (case SplitHostPort remoteAddr of None \<Rightarrow> [] | Some (host, port) \<Rightarrow> host)"

lemma last_client_Some:
  "last_client trusted vs = Some b \<Longrightarrow>
     \<exists>us v ws. vs = us @ v # ws \<and> client_entry trusted v = Some b \<and> (\<forall>u \<in> set us. client_entry trusted u = None)"
proof (induction vs)
  case (Cons v vs)
  show ?case
  proof (cases "client_entry trusted v")
    case None
    with Cons obtain us w ws where "vs = us @ w # ws" "client_entry trusted w = Some b"
      "\<forall>u \<in> set us. client_entry trusted u = None" by auto
    with None show ?thesis by (intro exI [of _ "v # us"]) auto
  next
    case (Some c)
    with Cons show ?thesis by (intro exI [of _ "[]"] exI [of _ v] exI [of _ vs]) simp
  qed
qed simp

text \<open>C36: A client cannot choose its address: the forwarding headers count only if the peer of the connection is a
  trusted proxy, and what is then taken is the last entry that is an address and not a trusted proxy - the
  entries a client may have put before it have no influence.\<close>

theorem forwarded_address_is_trusted:
  assumes "forwardedClientIP remote forwarded xForwardedFor xRealIP trusted = a" and "a \<noteq> remote"
  shows "\<exists>peer b. ParseIP (trim_space remote) = Some peer \<and> isTrustedProxy peer trusted
    \<and> a = ip_String b \<and> \<not> isTrustedProxy b trusted
    \<and> (case forwardedForValues forwarded xForwardedFor of
         [] \<Rightarrow> ParseIP (trim_space xRealIP) = Some b
       | values \<Rightarrow> \<exists>us v ws. values = us @ v # ws \<and> ParseIP v = Some b \<and> (\<forall>u \<in> set ws. client_entry trusted u = None))"
proof -
  let ?vs = "forwardedForValues forwarded xForwardedFor"
  from assms obtain peer where p: "ParseIP (trim_space remote) = Some peer" "isTrustedProxy peer trusted"
    by (auto simp: forwardedClientIP_def split: option.splits if_splits)
  have entry: "client_entry trusted v = Some b \<Longrightarrow> ParseIP v = Some b \<and> \<not> isTrustedProxy b trusted" for v b
    by (auto simp: client_entry_def split: option.splits if_splits)
  show ?thesis
  proof (cases "last_client trusted (rev ?vs)")
    case (Some b)
    then obtain us v ws where r: "rev ?vs = us @ v # ws" "client_entry trusted v = Some b"
      "\<forall>u \<in> set us. client_entry trusted u = None"
      using last_client_Some by blast
    from r(1) have vs: "?vs = rev ws @ v # rev us" by (metis append.assoc append_Cons append_Nil rev.simps(2) rev_append rev_rev_ident)
    then obtain x xs where cons: "?vs = x # xs" by (metis list.exhaust append_is_Nil_conv list.distinct(1))
    have "\<exists>us v ws. ?vs = us @ v # ws \<and> ParseIP v = Some b \<and> (\<forall>u \<in> set ws. client_entry trusted u = None)"
      using vs r(3) entry [OF r(2)] by (intro exI [of _ "rev ws"] exI [of _ v] exI [of _ "rev us"]) simp
    moreover have "a = ip_String b" using assms(1) p Some by (simp add: forwardedClientIP_def Let_def)
    ultimately show ?thesis
      using p entry [OF r(2)] cons by (intro exI [of _ peer] exI [of _ b]) simp
  next
    case None
    with assms p obtain b where "?vs = []" "client_entry trusted (trim_space xRealIP) = Some b" "a = ip_String b"
      by (auto simp: forwardedClientIP_def Let_def split: if_splits option.splits)
    with p entry show ?thesis by (intro exI [of _ peer] exI [of _ b]) simp
  qed
qed

end
