(* ===== verification/Http_Middleware.thy ===== *)
theory Http_Middleware
  imports Client_Ip Audit_Events
begin

text \<open>
  Requests, responses and the middleware around every route: \<open>httpx/response.go\<close> and \<open>httpx/middleware.go\<close>.
  A handler takes a request and the state it shares with the others together with the response as written so
  far, and either returns or panics. Headers go by the names the code writes. \<open>AccessLog\<close>, which only logs, has
  no counterpart; logging of panics is left out for the same reason.
\<close>

section \<open>Requests and responses\<close>

text \<open>
  \<open>rq_Header\<close> is \<open>Header.Get\<close> and \<open>rq_Cookie\<close> the value of \<open>Cookie\<close>, both as \<open>net/http\<close> read them; the last two
  fields are what the context of the request carries.
\<close>

record http_request =
  rq_Method :: string
  rq_Host :: string
  rq_Path :: string
  rq_RemoteAddr :: string
  rq_Header :: "string \<Rightarrow> string"
  rq_Cookie :: "string \<Rightarrow> string option"
  rq_RequestID :: "string option"
  rq_ClientIP :: "string option"

record cookie =
  ck_Name :: string
  ck_Value :: string
  ck_Path :: string
  ck_Secure :: bool
  ck_HttpOnly :: bool
  ck_SameSiteStrict :: bool
  ck_Expires :: time
  ck_MaxAge :: int

datatype header_value = Text string | CookieLine cookie

datatype body_part = Raw string | ErrorBody string string string any_map

text \<open>The status is 0 until one is written.\<close>

record http_response =
  hr_Header :: "string \<rightharpoonup> header_value list"
  hr_Status :: int
  hr_Body :: "body_part list"

definition fresh_response :: http_response where
  "fresh_response = \<lparr>hr_Header = Map.empty, hr_Status = 0, hr_Body = []\<rparr>"

datatype ending = Returned | Panicked

type_synonym ('w, 'r) handler = "'r http_request_scheme \<Rightarrow> 'w \<times> http_response \<Rightarrow> ending \<times> 'w \<times> http_response"

definition set_header :: "string \<Rightarrow> string \<Rightarrow> http_response \<Rightarrow> http_response" where
  "set_header key v x = x\<lparr>hr_Header := (hr_Header x)(key \<mapsto> [Text v])\<rparr>"

definition add_header :: "string \<Rightarrow> header_value \<Rightarrow> http_response \<Rightarrow> http_response" where
  "add_header key v x =
     x\<lparr>hr_Header := (hr_Header x)(key \<mapsto> (case hr_Header x key of None \<Rightarrow> [] | Some vs \<Rightarrow> vs) @ [v])\<rparr>"

definition write_header :: "int \<Rightarrow> http_response \<Rightarrow> http_response" where
  "write_header status x = (if hr_Status x = 0 then x\<lparr>hr_Status := status\<rparr> else x)"

definition write_body :: "body_part list \<Rightarrow> http_response \<Rightarrow> http_response" where
  "write_body b x = (write_header 200 x)\<lparr>hr_Body := hr_Body x @ b\<rparr>"

definition WriteJSON :: "int \<Rightarrow> body_part \<Rightarrow> http_response \<Rightarrow> http_response" where
  "WriteJSON status v x =
     write_body [v] (write_header status (set_header ''Content-Type'' ''application/json; charset=utf-8'' x))"

definition RequestIDFromContext :: "'r http_request_scheme \<Rightarrow> string" where
  "RequestIDFromContext r = (case rq_RequestID r of None \<Rightarrow> [] | Some i \<Rightarrow> i)"

definition WriteError ::
  "'r http_request_scheme \<Rightarrow> int \<Rightarrow> string \<Rightarrow> string \<Rightarrow> any_map \<Rightarrow> http_response \<Rightarrow> http_response" where
  "WriteError r status code message details =
     WriteJSON status (ErrorBody code message (RequestIDFromContext r) details)"

text \<open>A handler that only writes.\<close>

definition answer :: "(http_response \<Rightarrow> http_response) \<Rightarrow> 'w \<times> http_response \<Rightarrow> ending \<times> 'w \<times> http_response" where
  "answer f x = (Returned, fst x, f (snd x))"

section \<open>Request identifiers and client addresses\<close>

definition is_alphanumeric :: "char \<Rightarrow> bool" where
  "is_alphanumeric c \<longleftrightarrow> is_upper c \<or> is_lower c \<or> is_digit c"

text \<open>\<open>requestIDPattern\<close>.\<close>

definition requestIDPattern :: "string \<Rightarrow> bool" where
  "requestIDPattern s \<longleftrightarrow>
     s \<noteq> [] \<and> length s \<le> 128 \<and> is_alphanumeric (hd s)
     \<and> list_all (\<lambda>c. is_alphanumeric c \<or> c \<in> set ''._:-'') (tl s)"

text \<open>
  The state of the server: the counter of fallback identifiers, and what the handlers share. Random bytes
  and the clock belong to the environment; the clock is \<open>UnixNano\<close>, a 64-bit number.
\<close>

record 'w server =
  sv_fallbackRequestID :: "64 word"
  sv_inner :: 'w

record 'w server_env =
  se_random :: "'w \<Rightarrow> 'w \<times> entropy option"
  se_UnixNano :: "'w \<Rightarrow> 'w \<times> 64 word"

definition newRequestID :: "'w server_env \<Rightarrow> 'w server \<Rightarrow> 'w server \<times> string" where
  "newRequestID V sv =
     (case se_random V (sv_inner sv) of
        (w, Some f) \<Rightarrow> (sv\<lparr>sv_inner := w\<rparr>, ''req_'' @ b64_encode (random_bytes f 18))
      | (w, None) \<Rightarrow>
          (case se_UnixNano V w of (w', t) \<Rightarrow>
             (let n = sv_fallbackRequestID sv + 1 in
              (sv\<lparr>sv_inner := w', sv_fallbackRequestID := n\<rparr>,
               ''req_fallback_'' @ itoa (sint t) @ ''_'' @ nat_to_dec (unat n)))))"

definition request_id_of :: "'w server_env \<Rightarrow> 'r http_request_scheme \<Rightarrow> 'w server \<Rightarrow> 'w server \<times> string" where
  "request_id_of V r sv =
     (let requestID = rq_Header r ''X-Request-ID'' in
      if \<not> requestIDPattern requestID then newRequestID V sv else (sv, requestID))"

text \<open>\<open>RequestID\<close> is the outermost middleware, so the handlers within it do not see its counter.\<close>

definition RequestID :: "'w server_env \<Rightarrow> ('w, 'r) handler \<Rightarrow> ('w server, 'r) handler" where
  "RequestID V next r x =
     (case request_id_of V r (fst x) of (sv, requestID) \<Rightarrow>
       (case next (r\<lparr>rq_RequestID := Some requestID\<rparr>) (sv_inner sv, set_header ''X-Request-ID'' requestID (snd x)) of
          (e, w, resp) \<Rightarrow> (e, sv\<lparr>sv_inner := w\<rparr>, resp)))"

definition RealIP :: "ip_net option list \<Rightarrow> ('w, 'r) handler \<Rightarrow> ('w, 'r) handler" where
  "RealIP trusted next r x =
     (let ip = forwardedClientIP (remoteIP (rq_RemoteAddr r)) (rq_Header r ''Forwarded'') (rq_Header r ''X-Forwarded-For'')
                 (rq_Header r ''X-Real-IP'') trusted
      in next (r\<lparr>rq_ClientIP := Some ip\<rparr>) x)"

definition ClientIP :: "'r http_request_scheme \<Rightarrow> string" where
  "ClientIP r = (case rq_ClientIP r of Some ip \<Rightarrow> ip | None \<Rightarrow> remoteIP (rq_RemoteAddr r))"

section \<open>Security headers and panics\<close>

definition single_quoted :: "string \<Rightarrow> string" where
  "single_quoted s = [CHR 0x27] @ s @ [CHR 0x27]"

definition content_security_policy :: string where
  "content_security_policy =
     (let own = single_quoted ''self''; none = single_quoted ''none'' in
      ''default-src '' @ own @ ''; base-uri '' @ own @ ''; frame-ancestors '' @ none @ ''; object-src '' @ none
      @ ''; script-src '' @ own @ ''; style-src '' @ own @ '' '' @ single_quoted ''unsafe-inline''
      @ ''; connect-src '' @ own @ ''; img-src '' @ own @ '' data:; font-src '' @ own @ ''; form-action '' @ own)"

definition security_headers :: "bool \<Rightarrow> (string \<times> string) list" where
  "security_headers https =
     [(''Content-Security-Policy'', content_security_policy),
      (''X-Content-Type-Options'', ''nosniff''),
      (''X-Frame-Options'', ''DENY''),
      (''Referrer-Policy'', ''same-origin''),
      (''Permissions-Policy'', ''camera=(), geolocation=(), microphone=(), publickey-credentials-get=(self)''),
      (''Cross-Origin-Opener-Policy'', ''same-origin''),
      (''Cross-Origin-Resource-Policy'', ''same-origin''),
      (''X-DNS-Prefetch-Control'', ''off'')]
     @ (if https then [(''Strict-Transport-Security'', ''max-age=31536000; includeSubDomains'')] else [])"

definition set_headers :: "(string \<times> string) list \<Rightarrow> http_response \<Rightarrow> http_response" where
  "set_headers hs x = fold (\<lambda>(key, v). set_header key v) hs x"

definition SecurityHeaders :: "bool \<Rightarrow> ('w, 'r) handler \<Rightarrow> ('w, 'r) handler" where
  "SecurityHeaders https next r x = next r (fst x, set_headers (security_headers https) (snd x))"

text \<open>A \<open>bufferedResponse\<close> is a response of its own; \<open>commit\<close> copies it.\<close>

definition commit_response :: "http_response \<Rightarrow> http_response \<Rightarrow> http_response" where
  "commit_response buffer destination =
     (let status = (if hr_Status buffer = 0 then 200 else hr_Status buffer) in
      write_body (hr_Body buffer) (write_header status (destination\<lparr>hr_Header := hr_Header destination ++ hr_Header buffer\<rparr>)))"

definition internal_error :: "'r http_request_scheme \<Rightarrow> http_response \<Rightarrow> http_response" where
  "internal_error r = WriteError r 500 ''internal_error'' ''An unexpected server error occurred.'' []"

text \<open>\<open>recoverDirect\<close> runs before anything is written, so the status its wrapper sees is the one of the response.\<close>

definition recoverDirect :: "('w, 'r) handler \<Rightarrow> ('w, 'r) handler" where
  "recoverDirect next r x =
     (case next r x of
        (Returned, y) \<Rightarrow> (Returned, y)
      | (Panicked, w, resp) \<Rightarrow> (Returned, w, if hr_Status resp = 0 then internal_error r resp else resp))"

definition Recoverer :: "('w, 'r) handler \<Rightarrow> ('w, 'r) handler" where
  "Recoverer next r x =
     (if \<not> prefix ''/api/'' (rq_Path r) then recoverDirect next r x
      else (case next r (fst x, fresh_response) of
        (Panicked, w, _) \<Rightarrow> (Returned, w, internal_error r (snd x))
      | (Returned, w, buffer) \<Rightarrow> (Returned, w, commit_response buffer (snd x))))"

text \<open>What \<open>NewRouter\<close> puts around its routes.\<close>

definition router_middleware ::
  "'w server_env \<Rightarrow> ip_net option list \<Rightarrow> bool \<Rightarrow> ('w, 'r) handler \<Rightarrow> ('w server, 'r) handler" where
  "router_middleware V trusted https routes =
     RequestID V (RealIP trusted (SecurityHeaders https (Recoverer routes)))"

section \<open>Properties\<close>

definition id_char :: "char \<Rightarrow> bool" where
  "id_char c \<longleftrightarrow> is_alphanumeric c \<or> c \<in> set ''._:-''"

lemma b64_char_id:
  assumes "v < 64"
  shows "id_char (b64_char v)"
proof -
  consider "v < 26" | "26 \<le> v" "v < 52" | "52 \<le> v" "v < 62" | "v = 62" | "v = 63" using assms by linarith
  then show ?thesis
    by cases (auto simp: id_char_def is_alphanumeric_def b64_char_def is_upper_def is_lower_def is_digit_def)
qed

lemma requestIDPattern_r: "requestIDPattern (CHR ''r'' # s) \<longleftrightarrow> length s < 128 \<and> list_all id_char s"
  by (auto simp: requestIDPattern_def id_char_def [abs_def] is_alphanumeric_def is_lower_def)

lemma id_digits: "list_all is_digit s \<Longrightarrow> list_all id_char s"
  by (auto simp: list_all_iff id_char_def is_alphanumeric_def)

lemma itoa_id: "list_all id_char (itoa i)"
  using id_digits [OF nat_to_dec_digits] by (auto simp: itoa_def id_char_def)

lemma itoa_word_length: "length (itoa (sint (t :: 64 word))) \<le> 21"
proof -
  have "- (2 ^ 63) \<le> sint t" "sint t < 2 ^ 63" using sint_ge [of t] sint_lt [of t] by simp_all
  then have "nat (- sint t) < 10 ^ 20" "nat (sint t) < 10 ^ 20" by auto
  then show ?thesis
    using nat_to_dec_length [of 20 "nat (- sint t)"] nat_to_dec_length [of 20 "nat (sint t)"] by (auto simp: itoa_def)
qed

lemma counter_length: "length (nat_to_dec (unat (n :: 64 word))) \<le> 20"
proof -
  have "unat n < 2 ^ 64" using unsigned_less [of n, where 'a = nat] by simp
  then have "unat n < 10 ^ 20" by simp
  then show ?thesis using nat_to_dec_length [of 20 "unat n"] by simp
qed

lemma newRequestID_ok: "newRequestID V sv = (sv', i) \<Longrightarrow> requestIDPattern i"
proof -
  assume n: "newRequestID V sv = (sv', i)"
  show ?thesis
  proof (cases "se_random V (sv_inner sv)")
    case (Pair w random)
    show ?thesis
    proof (cases random)
      case (Some f)
      have "list_all id_char (b64_encode (random_bytes f 18))"
        using b64_encode_alphabet b64_char_id by (auto simp: list_all_iff)
      moreover have "length (b64_encode (random_bytes f 18)) = 24" by (simp add: b64_encode_length)
      moreover have "i = ''req_'' @ b64_encode (random_bytes f 18)" using n Pair Some by (simp add: newRequestID_def)
      ultimately show ?thesis
        by (simp add: requestIDPattern_r) (simp add: id_char_def is_alphanumeric_def is_lower_def)
    next
      case None
      then obtain t n' where i: "i = ''req_fallback_'' @ itoa (sint (t :: 64 word)) @ ''_'' @ nat_to_dec (unat (n' :: 64 word))"
        using n Pair by (auto simp: newRequestID_def Let_def split: prod.splits)
      have "list_all id_char (nat_to_dec (unat n'))" by (rule id_digits [OF nat_to_dec_digits])
      then show ?thesis
        using itoa_id [of "sint t"] itoa_word_length [of t] counter_length [of n'] unfolding i
        by (simp add: requestIDPattern_r) (simp add: id_char_def is_alphanumeric_def is_lower_def)
    qed
  qed
qed

lemma request_id_of_ok: "request_id_of V r sv = (sv', i) \<Longrightarrow> requestIDPattern i"
  using newRequestID_ok by (auto simp: request_id_of_def Let_def split: if_splits)

text \<open>The headers an answer has before the routes see it.\<close>

lemma set_headers_at:
  "distinct (map fst hs) \<Longrightarrow>
     hr_Header (set_headers hs x) key = (case map_of hs key of Some v \<Rightarrow> Some [Text v] | None \<Rightarrow> hr_Header x key)"
proof (induction hs arbitrary: x)
  case (Cons h hs)
  have "hr_Header (set_headers (h # hs) x) key = hr_Header (set_headers hs (set_header (fst h) (snd h) x)) key"
    by (simp add: set_headers_def case_prod_unfold)
  with Cons show ?case by (auto simp: set_header_def map_of_eq_None_iff [THEN iffD2] split: option.split)
qed (simp add: set_headers_def)

lemma security_headers_distinct: "distinct (map fst (security_headers https))"
  by (simp add: security_headers_def)

lemma security_headers_others:
  "''X-Request-ID'' \<notin> fst ` set (security_headers https)" "''Content-Type'' \<notin> fst ` set (security_headers https)"
  by (cases https; simp add: security_headers_def)+

text \<open>The response that \<open>Recoverer\<close> gets.\<close>

definition prepared :: "string \<Rightarrow> bool \<Rightarrow> http_response" where
  "prepared i https = set_headers (security_headers https) (set_header ''X-Request-ID'' i fresh_response)"

lemma prepared_untouched: "hr_Status (prepared i https) = 0 \<and> hr_Body (prepared i https) = []"
proof -
  have "hr_Status (set_headers hs x) = hr_Status x \<and> hr_Body (set_headers hs x) = hr_Body x" for hs x
    by (induction hs arbitrary: x) (auto simp: set_headers_def set_header_def)
  then show ?thesis by (simp add: prepared_def set_header_def fresh_response_def)
qed

lemma prepared_header:
  assumes "(key, v) \<in> set ((''X-Request-ID'', i) # security_headers https)"
  shows "hr_Header (prepared i https) key = Some [Text v]" and "key \<noteq> ''Content-Type''"
proof -
  have "key \<in> fst ` set (security_headers https) \<or> key = ''X-Request-ID''" using assms by force
  then show "key \<noteq> ''Content-Type''" using security_headers_others [of https] by auto
  show "hr_Header (prepared i https) key = Some [Text v]"
  proof (cases "key = ''X-Request-ID''")
    case True
    then have "map_of (security_headers https) key = None"
      using security_headers_others [of https] by (simp add: map_of_eq_None_iff)
    moreover have "v = i" using assms True security_headers_others [of https] by force
    ultimately show ?thesis
      using True by (simp add: prepared_def set_headers_at [OF security_headers_distinct] set_header_def)
  next
    case False
    then have "map_of (security_headers https) key = Some v"
      using assms security_headers_distinct [of https] by (simp add: map_of_eq_Some_iff)
    then show ?thesis by (simp add: prepared_def set_headers_at [OF security_headers_distinct])
  qed
qed

lemma internal_error_fields:
  assumes "hr_Status x = 0" and "hr_Body x = []"
  shows "hr_Status (internal_error r x) = 500"
    and "hr_Body (internal_error r x)
           = [ErrorBody ''internal_error'' ''An unexpected server error occurred.'' (RequestIDFromContext r) []]"
    and "key \<noteq> ''Content-Type'' \<Longrightarrow> hr_Header (internal_error r x) key = hr_Header x key"
  using assms
  by (simp_all add: internal_error_def WriteError_def WriteJSON_def write_body_def write_header_def set_header_def)

lemma commit_response_fields:
  assumes "hr_Status x = 0" and "hr_Body x = []"
  shows "hr_Status (commit_response b x) = (if hr_Status b = 0 then 200 else hr_Status b)"
    and "hr_Body (commit_response b x) = hr_Body b"
    and "hr_Header (commit_response b x) = hr_Header x ++ hr_Header b"
  using assms by (simp_all add: commit_response_def Let_def write_body_def write_header_def)

text \<open>C35: Whatever the routes do with a request to the API, they see a request identifier of at most 128 safe
  characters and the address of the client, and the client gets one complete answer: the one they wrote, or, if
  they panicked, the internal error with that identifier and nothing that was written before. The identifier
  and the security headers are on every answer, unless a route that returns has set the header itself.\<close>

theorem api_answers_are_whole:
  assumes "prefix ''/api/'' (rq_Path r)"
    and "router_middleware V trusted https routes r (sv, fresh_response) = (e, sv', final)"
  shows "\<exists>i sv1 ended w buffer. requestIDPattern i
    \<and> routes (r\<lparr>rq_RequestID := Some i,
                 rq_ClientIP := Some (forwardedClientIP (remoteIP (rq_RemoteAddr r)) (rq_Header r ''Forwarded'')
                                        (rq_Header r ''X-Forwarded-For'') (rq_Header r ''X-Real-IP'') trusted)\<rparr>)
        (sv_inner sv1, fresh_response) = (ended, w, buffer)
    \<and> e = Returned \<and> sv' = sv1\<lparr>sv_inner := w\<rparr>
    \<and> (ended = Panicked \<longrightarrow> hr_Status final = 500
         \<and> hr_Body final = [ErrorBody ''internal_error'' ''An unexpected server error occurred.'' i []])
    \<and> (ended = Returned \<longrightarrow> hr_Body final = hr_Body buffer
         \<and> hr_Status final = (if hr_Status buffer = 0 then 200 else hr_Status buffer))
    \<and> (\<forall>(key, v) \<in> set ((''X-Request-ID'', i) # security_headers https).
         hr_Header final key = Some [Text v]
         \<or> ended = Returned \<and> hr_Header buffer key \<noteq> None \<and> hr_Header final key = hr_Header buffer key)"
proof -
  obtain sv1 i where i: "request_id_of V r sv = (sv1, i)" by fastforce
  define r' where "r' = r\<lparr>rq_RequestID := Some i,
    rq_ClientIP := Some (forwardedClientIP (remoteIP (rq_RemoteAddr r)) (rq_Header r ''Forwarded'')
      (rq_Header r ''X-Forwarded-For'') (rq_Header r ''X-Real-IP'') trusted)\<rparr>"
  obtain ended w buffer where routed: "routes r' (sv_inner sv1, fresh_response) = (ended, w, buffer)"
    by (metis prod_cases3)
  have f: "e = Returned \<and> sv' = sv1\<lparr>sv_inner := w\<rparr>
    \<and> final = (if ended = Panicked then internal_error r' (prepared i https) else commit_response buffer (prepared i https))"
    using assms(2) i assms(1) routed
    by (cases ended)
      (auto simp: router_middleware_def RequestID_def RealIP_def Recoverer_def SecurityHeaders_def Let_def r'_def prepared_def)
  have i': "RequestIDFromContext r' = i" by (simp add: r'_def RequestIDFromContext_def)
  note fresh = prepared_untouched [of i https]
  have headers: "\<forall>(key, v) \<in> set ((''X-Request-ID'', i) # security_headers https).
      hr_Header final key = Some [Text v]
      \<or> ended = Returned \<and> hr_Header buffer key \<noteq> None \<and> hr_Header final key = hr_Header buffer key"
  proof (intro ballI, clarify)
    fix key v assume k: "(key, v) \<in> set ((''X-Request-ID'', i) # security_headers https)"
      and n: "\<not> (ended = Returned \<and> hr_Header buffer key \<noteq> None \<and> hr_Header final key = hr_Header buffer key)"
    from k n f fresh prepared_header [OF k] show "hr_Header final key = Some [Text v]"
      by (cases ended; cases "hr_Header buffer key") (simp_all add: internal_error_fields commit_response_fields map_add_def)
  qed
  show ?thesis
    by (intro exI [of _ i] exI [of _ sv1] exI [of _ ended] exI [of _ w] exI [of _ buffer] conjI headers
        request_id_of_ok [OF i] routed [unfolded r'_def])
      (use f fresh i' in \<open>auto simp: internal_error_fields commit_response_fields\<close>)
qed

end
