(* ===== verification/Http_Gate.thy ===== *)
theory Http_Gate
  imports Http_Middleware Auth_Sessions
begin

text \<open>
  \<open>internal/auth/http.go\<close>: which requests reach a handler. \<open>Authentication\<close> puts the session into the context,
  \<open>RequirePermission\<close>, \<open>OriginProtection\<close> and \<open>CSRFProtection\<close> refuse what they have to refuse; the cookies carry
  the tokens. Requests are those of \<open>httpx\<close> with the session of the context, and the state is that of the
  authentication service.
\<close>

record gate_request = http_request +
  rq_Session :: "authenticated_session option"

type_synonym ('l, 'o) gate_handler =
  "gate_request \<Rightarrow> ('l, 'o) auth_world \<times> http_response \<Rightarrow> ending \<times> ('l, 'o) auth_world \<times> http_response"

text \<open>
  What the gate needs of the standard library: \<open>url.Parse\<close> (with the \<open>url\<close> of \<open>Providers\<close>), \<open>strings.EqualFold\<close> outside ASCII, and the whole
  seconds of a duration, which the code takes from a floating-point number.
\<close>

record gate_env =
  ge_parse :: "string \<Rightarrow> url option"
  ge_fold :: "string \<Rightarrow> string \<Rightarrow> bool"
  ge_seconds :: "duration \<Rightarrow> int"

definition EqualFold :: "gate_env \<Rightarrow> string \<Rightarrow> string \<Rightarrow> bool" where
  "EqualFold G s t \<longleftrightarrow>
     (if list_all is_ascii s \<and> list_all is_ascii t then map lower_char s = map lower_char t else ge_fold G s t)"

section \<open>The public address of the service\<close>

definition Origin :: "auth_config \<Rightarrow> string" where
  "Origin c = cf_Scheme c @ ''://'' @ cf_Host c"

text \<open>\<open>Hostname\<close> and \<open>Port\<close> of a \<open>url.URL\<close>.\<close>

definition url_split_host_port :: "string \<Rightarrow> string \<times> string" where
  "url_split_host_port hostPort =
     (let (host, port) =
        (case cut_last (CHR '':'') hostPort of
           Some (before, after) \<Rightarrow> if list_all is_digit after then (before, after) else (hostPort, [])
         | None \<Rightarrow> (hostPort, []))
      in if prefix ''['' host \<and> suffix '']'' host then (butlast (tl host), port) else (host, port))"

definition defaultPort :: "auth_config \<Rightarrow> string" where
  "defaultPort c =
     (let port = snd (url_split_host_port (cf_Host c)) in
      if port \<noteq> [] then port else if cf_Scheme c = ''https'' then ''443'' else ''80'')"

definition sameAuthority :: "gate_env \<Rightarrow> string \<Rightarrow> auth_config \<Rightarrow> bool" where
  "sameAuthority G requestHost c \<longleftrightarrow>
     (let h = trim_space requestHost in
      if h = [] then False
      else (case (case SplitHostPort h of Some hp \<Rightarrow> hp | None \<Rightarrow> (trim_chars ''[]'' h, defaultPort c)) of
        (host, port) \<Rightarrow> EqualFold G host (fst (url_split_host_port (cf_Host c))) \<and> port = defaultPort c))"

section \<open>Cookies\<close>

definition sessionCookieName :: "auth_config \<Rightarrow> string" where
  "sessionCookieName c = (if cf_Scheme c = ''https'' then ''__Host-aster_session'' else ''aster_session'')"

definition csrfCookieName :: "auth_config \<Rightarrow> string" where
  "csrfCookieName c = (if cf_Scheme c = ''https'' then ''__Host-aster_csrf'' else ''aster_csrf'')"

definition set_cookie :: "cookie \<Rightarrow> http_response \<Rightarrow> http_response" where
  "set_cookie ck = add_header ''Set-Cookie'' (CookieLine ck)"

text \<open>\<open>t\<close> is the time that \<open>time.Until\<close> reads.\<close>

definition SetSessionCookies :: "gate_env \<Rightarrow> auth_config \<Rightarrow> issued_session \<Rightarrow> time \<Rightarrow> http_response \<Rightarrow> http_response" where
  "SetSessionCookies G c issued t x =
     (let secure = (cf_Scheme c = ''https'');
          expires = ss_AbsoluteExpiresAt (is_Session issued);
          maxAge = max 1 (ge_seconds G (time_sub expires t)) in
      set_cookie \<lparr>ck_Name = csrfCookieName c, ck_Value = is_CSRFToken issued, ck_Path = ''/'', ck_Secure = secure,
                  ck_HttpOnly = False, ck_SameSiteStrict = True, ck_Expires = expires, ck_MaxAge = maxAge\<rparr>
        (set_cookie \<lparr>ck_Name = sessionCookieName c, ck_Value = is_Token issued, ck_Path = ''/'', ck_Secure = secure,
                  ck_HttpOnly = True, ck_SameSiteStrict = True, ck_Expires = expires, ck_MaxAge = maxAge\<rparr> x))"

definition ClearSessionCookies :: "auth_config \<Rightarrow> http_response \<Rightarrow> http_response" where
  "ClearSessionCookies c x =
     fold (\<lambda>name. set_cookie \<lparr>ck_Name = name, ck_Value = [], ck_Path = ''/'', ck_Secure = (cf_Scheme c = ''https''),
                  ck_HttpOnly = (name = sessionCookieName c), ck_SameSiteStrict = True, ck_Expires = 1000000000,
                  ck_MaxAge = - 1\<rparr>)
       [sessionCookieName c, csrfCookieName c] x"

section \<open>The middleware\<close>

definition SessionFromContext :: "gate_request \<Rightarrow> authenticated_session option" where
  "SessionFromContext r = rq_Session r"

definition unauthenticated :: "gate_request \<Rightarrow> http_response \<Rightarrow> http_response" where
  "unauthenticated r = WriteError r 401 ''unauthenticated'' ''Authentication is required.'' []"

definition Authentication :: "('l, 'o) auth_env \<Rightarrow> ('l, 'o) gate_handler \<Rightarrow> ('l, 'o) gate_handler" where
  "Authentication V next r x =
     (case rq_Cookie r (sessionCookieName (ae_config V)) of
        None \<Rightarrow> answer (unauthenticated r) x
      | Some token \<Rightarrow>
          (case AuthenticateSession V token (fst x) of
             (w, Inl _) \<Rightarrow> answer (unauthenticated r \<circ> ClearSessionCookies (ae_config V)) (w, snd x)
           | (w, Inr authenticated) \<Rightarrow> next (r\<lparr>rq_Session := Some authenticated\<rparr>) (w, snd x)))"

definition RequirePermission :: "Permission \<Rightarrow> ('l, 'o) gate_handler \<Rightarrow> ('l, 'o) gate_handler" where
  "RequirePermission permission next r x =
     (case SessionFromContext r of
        None \<Rightarrow> answer (unauthenticated r) x
      | Some authenticated \<Rightarrow>
          if \<not> Allows (us_Role (as_User authenticated)) permission
          then answer (WriteError r 403 ''forbidden'' ''You do not have permission to perform this action.'' []) x
          else next r x)"

definition safeMethod :: "string \<Rightarrow> bool" where
  "safeMethod m \<longleftrightarrow> m = ''GET'' \<or> m = ''HEAD'' \<or> m = ''OPTIONS''"

text \<open>The condition of \<open>OriginProtection\<close> on a request that may change something.\<close>

definition origin_allowed :: "gate_env \<Rightarrow> auth_config \<Rightarrow> 'r http_request_scheme \<Rightarrow> bool" where
  "origin_allowed G c r \<longleftrightarrow>
     (case ge_parse G (rq_Header r ''Origin'') of
        None \<Rightarrow> False
      | Some origin \<Rightarrow>
          url_User origin = None \<and> url_RawQuery origin = [] \<and> url_Fragment origin = []
          \<and> url_Scheme origin @ ''://'' @ url_Host origin = Origin c \<and> sameAuthority G (rq_Host r) c)"

definition OriginProtection :: "gate_env \<Rightarrow> ('l, 'o) auth_env \<Rightarrow> ('l, 'o) gate_handler \<Rightarrow> ('l, 'o) gate_handler" where
  "OriginProtection G V next r x =
     (if safeMethod (rq_Method r) then next r x
      else if \<not> origin_allowed G (ae_config V) r
      then answer (WriteError r 403 ''origin_denied'' ''The request origin or host is not allowed.'' []) x
      else next r x)"

text \<open>The condition of \<open>CSRFProtection\<close>: the token of the cookie is that of the header and that of the session.\<close>

definition csrf_valid :: "auth_config \<Rightarrow> authenticated_session \<Rightarrow> 'r http_request_scheme \<Rightarrow> bool" where
  "csrf_valid c authenticated r \<longleftrightarrow>
     (let headerToken = rq_Header r ''X-CSRF-Token'' in
      case rq_Cookie r (csrfCookieName c) of
        None \<Rightarrow> False
      | Some v \<Rightarrow> ValidOpaqueToken v \<and> ValidOpaqueToken headerToken \<and> v = headerToken
                 \<and> HashToken headerToken = ss_CSRFTokenHash (as_Session authenticated))"

definition CSRFProtection :: "('l, 'o) auth_env \<Rightarrow> ('l, 'o) gate_handler \<Rightarrow> ('l, 'o) gate_handler" where
  "CSRFProtection V next r x =
     (if safeMethod (rq_Method r) then next r x
      else (case SessionFromContext r of
        None \<Rightarrow> answer (unauthenticated r) x
      | Some authenticated \<Rightarrow>
          if \<not> csrf_valid (ae_config V) authenticated r
          then answer (WriteError r 403 ''csrf_failed'' ''The CSRF token is invalid.'' []) x
          else next r x))"

definition NoStore :: "('l, 'o) gate_handler \<Rightarrow> ('l, 'o) gate_handler" where
  "NoStore next r x = next r (fst x, set_header ''Pragma'' ''no-cache'' (set_header ''Cache-Control'' ''no-store'' (snd x)))"

end
