(* ===== verification/Routes.thy ===== *)
theory Routes
  imports Http_Gate
begin

text \<open>
  The routes of the API, as \<open>internal/api\<close> registers them: the method and pattern, the middleware a request
  passes before its handler, outermost first, and the handler, named by an \<open>endpoint\<close>. What the handlers do is
  a parameter here, as is how \<open>chi\<close> finds the route of a request.
\<close>

section \<open>Middleware and endpoints\<close>

datatype layer = UseNoStore | UseAuthentication | UsePermission Permission | UseOriginProtection | UseCSRFProtection

fun apply_layer :: "gate_env \<Rightarrow> ('l, 'o) auth_env \<Rightarrow> layer \<Rightarrow> ('l, 'o) gate_handler \<Rightarrow> ('l, 'o) gate_handler" where
  "apply_layer G V UseNoStore next = NoStore next"
| "apply_layer G V UseAuthentication next = Authentication V next"
| "apply_layer G V (UsePermission p) next = RequirePermission p next"
| "apply_layer G V UseOriginProtection next = OriginProtection G V next"
| "apply_layer G V UseCSRFProtection next = CSRFProtection V next"

definition chain :: "gate_env \<Rightarrow> ('l, 'o) auth_env \<Rightarrow> layer list \<Rightarrow> ('l, 'o) gate_handler \<Rightarrow> ('l, 'o) gate_handler" where
  "chain G V layers h = foldr (apply_layer G V) layers h"

datatype endpoint =
    BootstrapStatusEndpoint | BootstrapOptions | BootstrapVerify | BootstrapPassword | PasskeyLoginOptions
  | PasskeyLoginVerify | EnrollmentOptions | EnrollmentVerify | PasswordLoginEndpoint | TOTPLogin
  | CurrentSession | ListPasskeysEndpoint | ListSessionsEndpoint | LogoutEndpoint | UpdateProfile | LogoutAll
  | RevokeOtherSessionsEndpoint | RevokeSessionEndpoint | PasskeyRegistrationOptions | PasskeyRegistrationVerify
  | DeletePasskeyEndpoint | SetPasswordEndpoint | DeletePasswordEndpoint | SetupTOTPEndpoint | ConfirmTOTPEndpoint
  | DeleteTOTPEndpoint
  | ListUsersEndpoint | CreateUserEndpoint | UpdateUserEndpoint | DisableUser | EnableUser | EnrollmentToken
  | ListProviderTypes | ListAccounts | GetAccountEndpoint | CreateAccountEndpoint | UpdateAccountEndpoint
  | DeleteAccountEndpoint | ReplaceCredentialsEndpoint | ValidateAccountEndpoint | SyncZones
  | ListZonesEndpoint | GetZoneEndpoint | ListRecordSetsEndpoint | GetRecordSetEndpoint | RefreshZone
  | CreateRecordSetEndpoint | UpdateRecordSetEndpoint | DeleteRecordSetEndpoint | BatchRecordSetsEndpoint
  | ListAuditEventsEndpoint | GetAuditEventEndpoint

record route =
  rt_Method :: string
  rt_Pattern :: string
  rt_Layers :: "layer list"
  rt_Endpoint :: endpoint

definition registered :: "string \<Rightarrow> layer list \<Rightarrow> (string \<times> string \<times> endpoint) list \<Rightarrow> route list" where
  "registered base layers rs =
     map (\<lambda>(m, pattern, e). \<lparr>rt_Method = m, rt_Pattern = base @ pattern, rt_Layers = layers, rt_Endpoint = e\<rparr>) rs"

section \<open>The tables\<close>

definition registerAuthRoutes :: "route list" where
  "registerAuthRoutes =
     (let base = ''/api/v1/auth'';
          protected = [UseNoStore, UseAuthentication]
      in registered base [UseNoStore] [(''GET'', ''/bootstrap'', BootstrapStatusEndpoint)]
       @ registered base [UseNoStore, UseOriginProtection]
           [(''POST'', ''/bootstrap/passkey/options'', BootstrapOptions),
            (''POST'', ''/bootstrap/passkey/verify'', BootstrapVerify),
            (''POST'', ''/bootstrap/password'', BootstrapPassword),
            (''POST'', ''/passkeys/login/options'', PasskeyLoginOptions),
            (''POST'', ''/passkeys/login/verify'', PasskeyLoginVerify),
            (''POST'', ''/passkeys/enroll/options'', EnrollmentOptions),
            (''POST'', ''/passkeys/enroll/verify'', EnrollmentVerify),
            (''POST'', ''/login/password'', PasswordLoginEndpoint),
            (''POST'', ''/login/totp'', TOTPLogin)]
       @ registered base protected
           [(''GET'', ''/session'', CurrentSession),
            (''GET'', ''/passkeys'', ListPasskeysEndpoint),
            (''GET'', ''/sessions'', ListSessionsEndpoint)]
       @ registered base (protected @ [UseOriginProtection, UseCSRFProtection])
           [(''POST'', ''/logout'', LogoutEndpoint),
            (''PATCH'', ''/profile'', UpdateProfile),
            (''POST'', ''/logout-all'', LogoutAll),
            (''POST'', ''/sessions/revoke-others'', RevokeOtherSessionsEndpoint),
            (''DELETE'', ''/sessions/{id}'', RevokeSessionEndpoint),
            (''POST'', ''/passkeys/register/options'', PasskeyRegistrationOptions),
            (''POST'', ''/passkeys/register/verify'', PasskeyRegistrationVerify),
            (''DELETE'', ''/passkeys/{id}'', DeletePasskeyEndpoint),
            (''PUT'', ''/password'', SetPasswordEndpoint),
            (''DELETE'', ''/password'', DeletePasswordEndpoint),
            (''POST'', ''/totp/setup'', SetupTOTPEndpoint),
            (''POST'', ''/totp/confirm'', ConfirmTOTPEndpoint),
            (''DELETE'', ''/totp'', DeleteTOTPEndpoint)])"

definition registerUserRoutes :: "route list" where
  "registerUserRoutes =
     (let protected = [UseNoStore, UseAuthentication, UsePermission PermissionManageUsers]
      in registered ''/api/v1'' protected [(''GET'', ''/users'', ListUsersEndpoint)]
       @ registered ''/api/v1'' (protected @ [UseOriginProtection, UseCSRFProtection])
           [(''POST'', ''/users'', CreateUserEndpoint),
            (''PATCH'', ''/users/{id}'', UpdateUserEndpoint),
            (''POST'', ''/users/{id}/disable'', DisableUser),
            (''POST'', ''/users/{id}/enable'', EnableUser),
            (''POST'', ''/users/{id}/enrollment-token'', EnrollmentToken)])"

definition registerProviderRoutes :: "bool \<Rightarrow> route list" where
  "registerProviderRoutes zoneSync =
     (let protected = [UseNoStore, UseAuthentication];
          mutations = protected @ [UsePermission PermissionManageProviders] @ [UseOriginProtection, UseCSRFProtection]
      in registered ''/api/v1'' (protected @ [UsePermission PermissionReadDNS])
           [(''GET'', ''/provider-types'', ListProviderTypes),
            (''GET'', ''/provider-accounts'', ListAccounts),
            (''GET'', ''/provider-accounts/{id}'', GetAccountEndpoint)]
       @ registered ''/api/v1'' mutations
           [(''POST'', ''/provider-accounts'', CreateAccountEndpoint),
            (''PATCH'', ''/provider-accounts/{id}'', UpdateAccountEndpoint),
            (''DELETE'', ''/provider-accounts/{id}'', DeleteAccountEndpoint),
            (''POST'', ''/provider-accounts/{id}/credentials'', ReplaceCredentialsEndpoint),
            (''POST'', ''/provider-accounts/{id}/validate'', ValidateAccountEndpoint)]
       @ (if zoneSync then registered ''/api/v1'' mutations
            [(''POST'', ''/provider-accounts/{id}/sync-zones'', SyncZones)] else []))"

definition registerDNSRoutes :: "route list" where
  "registerDNSRoutes =
     (let protected = [UseNoStore, UseAuthentication];
          readDNS = protected @ [UsePermission PermissionReadDNS];
          mutateDNS = protected @ [UsePermission PermissionMutateDNS, UseOriginProtection, UseCSRFProtection]
      in registered ''/api/v1'' readDNS
           [(''GET'', ''/zones'', ListZonesEndpoint),
            (''GET'', ''/zones/{zone_id}'', GetZoneEndpoint),
            (''GET'', ''/zones/{zone_id}/recordsets'', ListRecordSetsEndpoint),
            (''GET'', ''/zones/{zone_id}/recordsets/{recordset_id}'', GetRecordSetEndpoint)]
       @ registered ''/api/v1'' (readDNS @ [UsePermission PermissionMutateDNS, UseOriginProtection, UseCSRFProtection])
           [(''POST'', ''/zones/{zone_id}/refresh'', RefreshZone)]
       @ registered ''/api/v1'' mutateDNS
           [(''POST'', ''/zones/{zone_id}/recordsets'', CreateRecordSetEndpoint),
            (''PATCH'', ''/zones/{zone_id}/recordsets/{recordset_id}'', UpdateRecordSetEndpoint),
            (''DELETE'', ''/zones/{zone_id}/recordsets/{recordset_id}'', DeleteRecordSetEndpoint),
            (''POST'', ''/zones/{zone_id}/recordsets/batch'', BatchRecordSetsEndpoint)]
       @ registered ''/api/v1'' (protected @ [UsePermission PermissionReadAudit])
           [(''GET'', ''/audit-events'', ListAuditEventsEndpoint),
            (''GET'', ''/audit-events/{id}'', GetAuditEventEndpoint)])"

text \<open>The routes of \<open>NewRouter\<close> with a configured service, and how one serves a request.\<close>

definition api_routes :: "bool \<Rightarrow> route list" where
  "api_routes zoneSync = registerAuthRoutes @ registerUserRoutes @ registerProviderRoutes zoneSync @ registerDNSRoutes"

definition serve ::
  "gate_env \<Rightarrow> ('l, 'o) auth_env \<Rightarrow> (endpoint \<Rightarrow> ('l, 'o) gate_handler) \<Rightarrow> route \<Rightarrow> ('l, 'o) gate_handler" where
  "serve G V H rt = chain G V (rt_Layers rt) (H (rt_Endpoint rt))"

section \<open>Who may do what\<close>

text \<open>
  The rule, stated for each endpoint apart from the tables: open to everyone, to every user who has signed in,
  or to those with a permission.
\<close>

datatype access = Anyone | SignedIn | Permitted Permission

fun access_rule :: "endpoint \<Rightarrow> access" where
  "access_rule e =
     (if e \<in> {BootstrapStatusEndpoint, BootstrapOptions, BootstrapVerify, BootstrapPassword, PasskeyLoginOptions,
              PasskeyLoginVerify, EnrollmentOptions, EnrollmentVerify, PasswordLoginEndpoint, TOTPLogin}
      then Anyone
      else if e \<in> {ListUsersEndpoint, CreateUserEndpoint, UpdateUserEndpoint, DisableUser, EnableUser, EnrollmentToken}
      then Permitted PermissionManageUsers
      else if e \<in> {CreateAccountEndpoint, UpdateAccountEndpoint, DeleteAccountEndpoint, ReplaceCredentialsEndpoint,
                   ValidateAccountEndpoint, SyncZones}
      then Permitted PermissionManageProviders
      else if e \<in> {RefreshZone, CreateRecordSetEndpoint, UpdateRecordSetEndpoint, DeleteRecordSetEndpoint,
                   BatchRecordSetsEndpoint}
      then Permitted PermissionMutateDNS
      else if e \<in> {ListProviderTypes, ListAccounts, GetAccountEndpoint, ListZonesEndpoint, GetZoneEndpoint,
                   ListRecordSetsEndpoint, GetRecordSetEndpoint}
      then Permitted PermissionReadDNS
      else if e \<in> {ListAuditEventsEndpoint, GetAuditEventEndpoint} then Permitted PermissionReadAudit
      else SignedIn)"

definition permits :: "access \<Rightarrow> authenticated_session \<Rightarrow> bool" where
  "permits rule a \<longleftrightarrow> (case rule of Permitted p \<Rightarrow> Allows (us_Role (as_User a)) p | _ \<Rightarrow> True)"

text \<open>The shapes the tables use.\<close>

definition guards :: "access \<Rightarrow> bool \<Rightarrow> layer list \<Rightarrow> bool" where
  "guards rule safe layers \<longleftrightarrow>
     (let protection = (if safe then [] else [UseOriginProtection, UseCSRFProtection]) in
      case rule of
        Anyone \<Rightarrow> layers = [UseNoStore] @ (if safe then [] else [UseOriginProtection])
      | SignedIn \<Rightarrow> layers = [UseNoStore, UseAuthentication] @ protection
      | Permitted p \<Rightarrow>
          layers = [UseNoStore, UseAuthentication, UsePermission p] @ protection
          \<or> p = PermissionMutateDNS
            \<and> layers = [UseNoStore, UseAuthentication, UsePermission PermissionReadDNS, UsePermission p] @ protection)"

lemma tables_guard:
  "list_all (\<lambda>rt. guards (access_rule (rt_Endpoint rt)) (safeMethod (rt_Method rt)) (rt_Layers rt)) (api_routes zoneSync)"
  by (cases zoneSync; simp only:; code_simp)

lemma Allows_read_of_mutate: "Allows r PermissionMutateDNS \<Longrightarrow> Allows r PermissionReadDNS"
  by (auto simp: Allows_rank required_rank_def permission_names)

text \<open>Who a request is let in as, and the state after the check.\<close>

definition admission ::
  "gate_env \<Rightarrow> ('l, 'o) auth_env \<Rightarrow> access \<Rightarrow> gate_request \<Rightarrow> ('l, 'o) auth_world \<Rightarrow>
   ('l, 'o) auth_world \<times> authenticated_session option" where
  "admission G V rule r w =
     (case rq_Cookie r (sessionCookieName (ae_config V)) of
        None \<Rightarrow> (w, None)
      | Some token \<Rightarrow>
          (case AuthenticateSession V token w of
             (w1, Inl _) \<Rightarrow> (w1, None)
           | (w1, Inr a) \<Rightarrow>
               (w1, if permits rule a
                       \<and> (safeMethod (rq_Method r)
                          \<or> origin_allowed G (ae_config V) r \<and> csrf_valid (ae_config V) a r)
                    then Some a else None)))"

definition no_store :: "http_response \<Rightarrow> http_response" where
  "no_store x = set_header ''Pragma'' ''no-cache'' (set_header ''Cache-Control'' ''no-store'' x)"

text \<open>What a refused request gets.\<close>

definition refused :: "gate_request \<Rightarrow> 'w \<Rightarrow> ending \<times> 'w \<times> http_response \<Rightarrow> bool" where
  "refused r w result \<longleftrightarrow>
     (\<exists>y code message. result = (Returned, w, y) \<and> hr_Status y \<in> {401, 403}
        \<and> hr_Body y = [ErrorBody code message (RequestIDFromContext r) []])"

lemma refused_error:
  assumes "hr_Status x = 0" and "hr_Body x = []" and "status \<in> {401, 403}"
  shows "refused r w (Returned, w, WriteError r status code message [] x)"
  using assms
  by (auto simp: refused_def WriteError_def WriteJSON_def write_body_def write_header_def set_header_def)

lemma cookies_untouched:
  "hr_Status (ClearSessionCookies c x) = hr_Status x" "hr_Body (ClearSessionCookies c x) = hr_Body x"
  by (simp_all add: ClearSessionCookies_def set_cookie_def add_header_def)

lemma no_store_untouched: "hr_Status (no_store x) = hr_Status x" "hr_Body (no_store x) = hr_Body x"
  by (simp_all add: no_store_def set_header_def)

lemmas layer_defs = NoStore_def Authentication_def RequirePermission_def OriginProtection_def CSRFProtection_def
  SessionFromContext_def answer_def unauthenticated_def

lemma context_request:
  "origin_allowed G c (r\<lparr>rq_Session := v\<rparr>) = origin_allowed G c r"
  "csrf_valid c a (r\<lparr>rq_Session := v\<rparr>) = csrf_valid c a r"
  "RequestIDFromContext (r\<lparr>rq_Session := v\<rparr>) = RequestIDFromContext r"
  "refused (r\<lparr>rq_Session := v\<rparr>) w z = refused r w z"
  by (simp_all add: origin_allowed_def csrf_valid_def RequestIDFromContext_def refused_def cong: option.case_cong)

text \<open>C2: A request reaches the handler of a route that is not open to everyone exactly if its session cookie
  authenticates, the role of the user has the permission the rule asks for, and, unless the method is safe, the
  origin and host are those of the service and the CSRF token of the header is that of the cookie and of the
  session. The handler then sees that session; every other request is answered with 401 or 403 by the
  middleware, and nothing happens but what authenticating it did.\<close>

theorem guarded_requests:
  assumes "rt \<in> set (api_routes zoneSync)" and "access_rule (rt_Endpoint rt) = rule" and "rule \<noteq> Anyone"
    and "rq_Method r = rt_Method rt" and "hr_Status x = 0" and "hr_Body x = []"
  shows "case admission G V rule r w of
           (w1, Some a) \<Rightarrow> serve G V H rt r (w, x) = H (rt_Endpoint rt) (r\<lparr>rq_Session := Some a\<rparr>) (w1, no_store x)
         | (w1, None) \<Rightarrow> refused r w1 (serve G V H rt r (w, x))"
proof -
  have g: "guards rule (safeMethod (rq_Method r)) (rt_Layers rt)"
    using assms(1,2,4) tables_guard [of zoneSync] by (auto simp: list_all_iff)
  have fresh: "hr_Status (no_store x) = 0" "hr_Body (no_store x) = []"
    using assms(5,6) by (simp_all add: no_store_untouched)
  note no = no_store_def [symmetric]
  show ?thesis
  proof (cases "rq_Cookie r (sessionCookieName (ae_config V))")
    case None
    with g assms(3) fresh show ?thesis
      by (auto simp: admission_def serve_def chain_def guards_def Let_def layer_defs no refused_error split: access.splits)
  next
    case (Some token)
    obtain w1 res where auth: "AuthenticateSession V token w = (w1, res)" by fastforce
    show ?thesis
    proof (cases res)
      case (Inl err)
      with g assms(3) fresh Some auth show ?thesis
        by (auto simp: admission_def serve_def chain_def guards_def Let_def layer_defs no refused_error cookies_untouched
            split: access.splits)
    next
      case (Inr a)
      note r = refused_error [of "no_store x" _ "r\<lparr>rq_Session := Some a\<rparr>", simplified context_request, OF fresh]
      from Inr g assms(3) Some auth show ?thesis
        by (auto simp: admission_def serve_def chain_def guards_def Let_def layer_defs no permits_def context_request r
            Allows_read_of_mutate split: access.splits)
    qed
  qed
qed

end
