(* ===== verification/Http_Example.thy ===== *)
theory Http_Example
  imports Routes Auth_Example
begin

text \<open>
  The properties of the HTTP layer on concrete requests to the deployment of \<open>Auth_Example\<close>: a request that
  came through a trusted proxy, a route that panics after it has written, and an operator who creates a
  record set.
\<close>

definition ex_proxies :: "ip_net option list" where
  "ex_proxies = [Some \<lparr>net_IP = v4_prefix @ [10, 0, 0, 0], net_Mask = [255, 0, 0, 0]\<rparr>]"

lemma ex_forwarded: "forwardedClientIP ''10.0.0.1'' [] ''203.0.113.9, 192.0.2.7, 10.0.0.2'' [] ex_proxies = ''192.0.2.7''"
  by code_simp

lemma forwarded_address_is_trusted_witness:
  "\<exists>peer b. ParseIP ''10.0.0.1'' = Some peer \<and> isTrustedProxy peer ex_proxies \<and> ''192.0.2.7'' = ip_String b
     \<and> \<not> isTrustedProxy b ex_proxies"
proof -
  have "trim_space ''10.0.0.1'' = ''10.0.0.1''" by code_simp
  with forwarded_address_is_trusted [OF ex_forwarded] show ?thesis by auto
qed

definition ex_server_env :: "unit server_env" where
  "ex_server_env = \<lparr>se_random = (\<lambda>w. (w, None)), se_UnixNano = (\<lambda>w. (w, 7))\<rparr>"

definition ex_request :: gate_request where
  "ex_request =
     \<lparr>rq_Method = ''POST'', rq_Host = ''dns.example.com'', rq_Path = ''/api/v1/zones/z1/recordsets'', rq_RemoteAddr = ''10.0.0.1:4711'',
      rq_Header = (\<lambda>h. if h = ''Origin'' then ''https://dns.example.com'' else if h = ''X-CSRF-Token'' then ex_token else []),
      rq_Cookie = (\<lambda>n. if n = ''__Host-aster_session'' \<or> n = ''__Host-aster_csrf'' then Some ex_token else None),
      rq_RequestID = None, rq_ClientIP = None, rq_Session = None\<rparr>"

definition panicking :: "(unit, 'r) handler" where
  "panicking r x = (Panicked, fst x, WriteJSON 200 (Raw ''secret'') (snd x))"

lemma api_answers_are_whole_witness:
  "\<exists>i sv final. router_middleware ex_server_env ex_proxies True panicking ex_request
       (\<lparr>sv_fallbackRequestID = 0, sv_inner = ()\<rparr>, fresh_response) = (Returned, sv, final)
     \<and> requestIDPattern i \<and> hr_Status final = 500
     \<and> hr_Body final = [ErrorBody ''internal_error'' ''An unexpected server error occurred.'' i []]
     \<and> hr_Header final ''X-Frame-Options'' = Some [Text ''DENY'']"
proof -
  obtain e sv final where run: "router_middleware ex_server_env ex_proxies True panicking ex_request
      (\<lparr>sv_fallbackRequestID = 0, sv_inner = ()\<rparr>, fresh_response) = (e, sv, final)"
    by (metis prod_cases3)
  have path: "prefix ''/api/'' (rq_Path ex_request)" by (simp add: ex_request_def)
  from api_answers_are_whole [OF path run] run show ?thesis
    by (auto simp: panicking_def security_headers_def)
qed

section \<open>An operator creates a record set\<close>

definition ex_gate :: gate_env where
  "ex_gate =
     \<lparr>ge_parse = (\<lambda>u. if u = ''https://dns.example.com''
        then Some \<lparr>url_Scheme = ''https'', url_Host = ''dns.example.com'', url_User = None, url_RawQuery = [], url_Fragment = []\<rparr>
        else None),
      ge_fold = (\<lambda>_ _. False), ge_seconds = (\<lambda>d. d div 1000000000)\<rparr>"

definition ex_handler :: "endpoint \<Rightarrow> (unit, nat) gate_handler" where
  "ex_handler e r = answer (WriteJSON 201 (Raw ''{}''))"

definition ex_route :: route where
  "ex_route = \<lparr>rt_Method = ''POST'', rt_Pattern = ''/api/v1/zones/{zone_id}/recordsets'',
     rt_Layers = [UseNoStore, UseAuthentication, UsePermission PermissionMutateDNS, UseOriginProtection, UseCSRFProtection],
     rt_Endpoint = CreateRecordSetEndpoint\<rparr>"

lemma ex_host:
  "trim_space ''dns.example.com'' = ''dns.example.com''" "SplitHostPort ''dns.example.com'' = None"
  "trim_chars ''[]'' ''dns.example.com'' = ''dns.example.com''"
  "url_split_host_port ''dns.example.com'' = (''dns.example.com'', [])" "list_all is_ascii ''dns.example.com''"
  by code_simp+

lemma ex_origin: "origin_allowed ex_gate auth_ex_config ex_request"
  by (simp add: origin_allowed_def ex_gate_def ex_request_def Origin_def auth_ex_config_def sameAuthority_def ex_host
      defaultPort_def EqualFold_def is_ascii_def)

definition bob_let_in :: authenticated_session where
  "bob_let_in = \<lparr>as_Session = session_of_row (bob_session None), as_User = user_of_row bob\<rparr>"

lemma bob_let_in: "\<exists>w1. AuthenticateSession auth_ex ex_token (office [bob_session None]) = (w1, Inr bob_let_in)"
  by (simp add: bob_let_in_def AuthenticateSession_def GetSessionByTokenHash_def session_over_def session_of_row_def Disabled_def
      time_sub_def min_int64_def max_int64_def running bob_session_def)

lemma ex_admitted:
  "\<exists>w1. admission ex_gate auth_ex (Permitted PermissionMutateDNS) ex_request (office [bob_session None]) = (w1, Some bob_let_in)"
proof -
  have "csrf_valid auth_ex_config bob_let_in ex_request"
    by (simp add: csrf_valid_def csrfCookieName_def auth_ex_config_def ex_request_def bob_let_in_def session_of_row_def
        bob_session_def)
  moreover have "permits (Permitted PermissionMutateDNS) bob_let_in"
    by (simp add: permits_def bob_let_in_def user_of_row_def bob_def Allows_rank required_rank_def role_rank_def
        permission_names role_names)
  moreover have "rq_Cookie ex_request (sessionCookieName auth_ex_config) = Some ex_token"
    by (simp add: ex_request_def sessionCookieName_def auth_ex_config_def)
  ultimately show ?thesis using bob_let_in ex_origin by (auto simp: admission_def)
qed

lemma guarded_requests_witness:
  "\<exists>w1. serve ex_gate auth_ex ex_handler ex_route ex_request (office [bob_session None], fresh_response)
     = ex_handler CreateRecordSetEndpoint (ex_request\<lparr>rq_Session := Some bob_let_in\<rparr>) (w1, no_store fresh_response)"
proof -
  have route: "ex_route \<in> set (api_routes True)"
    by (simp add: ex_route_def api_routes_def registerDNSRoutes_def registered_def Let_def)
  have rule: "access_rule (rt_Endpoint ex_route) = Permitted PermissionMutateDNS" by (simp add: ex_route_def)
  obtain w1 where w1: "admission ex_gate auth_ex (Permitted PermissionMutateDNS) ex_request (office [bob_session None])
      = (w1, Some bob_let_in)" using ex_admitted by blast
  have "rt_Endpoint ex_route = CreateRecordSetEndpoint" "rq_Method ex_request = rt_Method ex_route"
    "hr_Status fresh_response = 0" "hr_Body fresh_response = []"
    by (simp_all add: ex_route_def ex_request_def fresh_response_def)
  with guarded_requests [OF route rule, where r = ex_request and x = fresh_response and G = ex_gate and V = auth_ex
      and w = "office [bob_session None]" and H = ex_handler] w1
  show ?thesis by auto
qed

end
