(* ===== verification/Redaction.thy ===== *)
theory Redaction
  imports Audit_Events
begin

text \<open>
  \<open>internal/provider/redact.go\<close>: error texts of the SDKs lose secrets before they are logged. The secrets
  of the account are replaced first, plain and in their two URL encodings, then whatever follows a
  keyword. The two patterns share the case folding of \<open>Audit_Events\<close>; no keyword followed by
  blanks and a separator is the start of another one, so a match is unique once its start is fixed.
\<close>

section \<open>Encodings\<close>

definition url_unreserved :: "char \<Rightarrow> bool" where
  "url_unreserved c \<longleftrightarrow> is_lower c \<or> is_upper c \<or> is_digit c \<or> c \<in> set ''-_.~''"

definition upper_hex :: "nat \<Rightarrow> char" where
  "upper_hex d = (if d < 10 then char_of (48 + d) else char_of (55 + d))"

definition percent :: "char \<Rightarrow> string" where
  "percent c = [CHR ''%'', upper_hex (byte c div 16), upper_hex (byte c mod 16)]"

text \<open>\<open>url.QueryEscape\<close> and \<open>url.PathEscape\<close>.\<close>

definition QueryEscape :: "string \<Rightarrow> string" where
  "QueryEscape s = concat (map (\<lambda>c. if url_unreserved c then [c] else if c = CHR '' '' then ''+'' else percent c) s)"

definition PathEscape :: "string \<Rightarrow> string" where
  "PathEscape s = concat (map (\<lambda>c. if url_unreserved c \<or> c \<in> set ''$&+:=@'' then [c] else percent c) s)"

text \<open>\<open>strings.ReplaceAll\<close> of a text that is not empty; an empty one is left out by the code.\<close>

function replace_all :: "string \<Rightarrow> string \<Rightarrow> string \<Rightarrow> string" where
  "replace_all old new s =
     (case s of [] \<Rightarrow> []
      | c # t \<Rightarrow>
          if old \<noteq> [] \<and> prefix old s then new @ replace_all old new (drop (length old) s)
          else c # replace_all old new t)"
  by pat_completeness auto
termination
  by (relation "measure (\<lambda>(old, new, s). length s)") auto

declare replace_all.simps [simp del]

section \<open>Patterns\<close>

definition is_white :: "char \<Rightarrow> bool" where
  "is_white c \<longleftrightarrow> c = CHR '' '' \<or> byte c \<in> {9, 10, 12, 13}"

text \<open>\<open>\s*[:=]\s*\<close>.\<close>

definition key_separator :: "string \<Rightarrow> string option" where
  "key_separator s =
     (case dropWhile is_white s of [] \<Rightarrow> None
      | c # t \<Rightarrow> if c = CHR '':'' \<or> c = CHR ''='' then Some (dropWhile is_white t) else None)"

text \<open>One character or more outside the class; \<open>stops\<close> are the excluded ones beside white space.\<close>

definition plain_value :: "string \<Rightarrow> string \<Rightarrow> string option" where
  "plain_value stops s =
     (let r = dropWhile (\<lambda>c. \<not> (is_white c \<or> c \<in> set stops)) s in if length r < length s then Some r else None)"

definition scheme_then :: "string \<Rightarrow> string \<Rightarrow> string option" where
  "scheme_then w s =
     (case fold_match w s of None \<Rightarrow> None
      | Some r \<Rightarrow> if r \<noteq> [] \<and> is_white (hd r) then plain_value '',;'' (dropWhile is_white r) else None)"

definition authorization_value :: "string \<Rightarrow> string option" where
  "authorization_value v = first_some id [scheme_then ''bearer'' v, scheme_then ''basic'' v, plain_value '',;'' v]"

definition credential_value :: "string \<Rightarrow> string option" where
  "credential_value v = first_some id [quoted (CHR 0x22) v, quoted (CHR 0x27) v, plain_value ''&,;'' v]"

text \<open>\<open>[_-]?\<close> between two words.\<close>

definition glued :: "string list \<Rightarrow> string list \<Rightarrow> string list" where
  "glued xs ys = concat (map (\<lambda>x. concat (map (\<lambda>g. map (\<lambda>y. x @ g @ y) ys) [''_'', ''-'', []])) xs)"

definition credential_words :: "string list" where
  "credential_words =
     [''password'', ''secret'', ''token''] @ glued [''security''] [''token''] @ glued [''session''] [''token'']
     @ glued (glued [''access''] [''key'']) [''id''] @ glued [''access''] [''key'']
     @ glued [''secret''] [''id''] @ glued [''secret''] (glued [''access''] [''key''] @ [''key''])
     @ glued [''api''] [''token''] @ glued [''api''] [''key''] @ glued [''auth''] [''token'']
     @ [''signature'', ''x-amz-signature'', ''credential'']"

text \<open>A match at the start of a text: what follows the first group, and what follows the match.\<close>

definition keyed_match :: "string list \<Rightarrow> (string \<Rightarrow> string option) \<Rightarrow> string \<Rightarrow> (string \<times> string) option" where
  "keyed_match ws read_value s =
     first_some (\<lambda>w. case fold_match w s of None \<Rightarrow> None | Some r \<Rightarrow>
                     (case key_separator r of None \<Rightarrow> None | Some v \<Rightarrow>
                      (case read_value v of None \<Rightarrow> None | Some rest \<Rightarrow> Some (v, rest)))) ws"

definition providerSensitivePatterns :: "(string \<Rightarrow> (string \<times> string) option) list" where
  "providerSensitivePatterns = [keyed_match [''authorization''] authorization_value, keyed_match credential_words credential_value]"

text \<open>\<open>ReplaceAllString\<close> with \<open>${1}[REDACTED]\<close>; every match consumes something.\<close>

function hide_matches :: "(string \<Rightarrow> (string \<times> string) option) \<Rightarrow> string \<Rightarrow> string" where
  "hide_matches m s =
     (case s of [] \<Rightarrow> []
      | c # t \<Rightarrow>
          (case m s of
             None \<Rightarrow> c # hide_matches m t
           | Some (v, r) \<Rightarrow>
               if length r < length s then take (length s - length v) s @ ''[REDACTED]'' @ hide_matches m r
               else c # hide_matches m t))"
  by pat_completeness auto
termination
  by (relation "measure (\<lambda>(m, s). length s)") auto

declare hide_matches.simps [simp del]

definition redact_secret :: "string \<Rightarrow> string \<Rightarrow> string" where
  "redact_secret secret text =
     fold (\<lambda>candidate t. if candidate = [] then t else replace_all candidate ''[REDACTED]'' t)
       (if secret = [] then [] else [secret, QueryEscape secret, PathEscape secret]) text"

definition Redact :: "string \<Rightarrow> string list \<Rightarrow> string" where
  "Redact text secretValues = fold hide_matches providerSensitivePatterns (fold redact_secret secretValues text)"

section \<open>What is hidden\<close>

text \<open>A text without the secret is not changed by replacing it.\<close>

lemma replace_all_absent: "old \<noteq> [] \<Longrightarrow> \<not> sublist old s \<Longrightarrow> replace_all old new s = s"
proof (induction s)
  case (Cons c s)
  then have "\<not> prefix old (c # s)" and "\<not> sublist old s"
    by (auto dest: prefix_imp_sublist simp: sublist_Cons_right)
  with Cons show ?case by (subst replace_all.simps) auto
qed (simp add: replace_all.simps)

text \<open>A secret between two texts that do not share its first character is replaced.\<close>

lemma replace_all_found:
  assumes "hd old \<notin> set s" and "old \<noteq> []"
  shows "replace_all old new (s @ old @ t) = s @ new @ replace_all old new t"
  using assms(1)
proof (induction s)
  case Nil
  obtain c cs where "old = c # cs" using assms(2) by (cases old) auto
  then show ?case by (subst replace_all.simps) simp
next
  case (Cons c s)
  have "\<not> prefix old (c # s @ old @ t)" using Cons.prems assms(2) by (cases old) auto
  with Cons show ?case by (subst replace_all.simps) simp
qed

end
