(* ===== verification/Cloudflare_Records.thy ===== *)
theory Cloudflare_Records
  imports Complex_Main Providers "HOL-Library.Product_Lexorder"
begin

text \<open>
  \<open>internal/provider/cloudflare/mapping.go\<close>: Cloudflare keeps single records, the core record sets. Records with
  the same name, type, TTL, proxy settings, comment and tags make one logical record set, whose identifier
  holds those of its records. Values of the SDK are records and datatypes here; its floating-point numbers are
  rational numbers, which they are wherever the code reads them.
\<close>

section \<open>Records of the SDK\<close>

datatype cf_data = NoData | CAAData rat string string | SRVData rat rat rat string

text \<open>
  The tags come from the JSON of the response, when there is one, and from the field otherwise: the decoded
  document (\<^const>\<open>None\<close> if it cannot be decoded), a typed list, nothing, or a value of another shape.
\<close>

datatype cf_tags = DocumentTags "string list option" | TypedTags "string list" | NoTags | OtherTags

record cf_record =
  cfr_ID :: string
  cfr_Name :: string
  cfr_Type :: string
  cfr_Content :: string
  cfr_Data :: cf_data
  cfr_Priority :: rat
  cfr_TTL :: rat
  cfr_Proxied :: bool
  cfr_Proxiable :: bool
  cfr_Comment :: string
  cfr_Tags :: cf_tags
  cfr_CreatedOn :: time
  cfr_ModifiedOn :: time

text \<open>
  What the adapter takes from elsewhere: the text functions of the core, \<open>json.Unmarshal\<close> into a slice of
  strings and \<open>Format(time.RFC3339Nano)\<close>.
\<close>

record cf_env =
  cfe_text :: text_env
  cfe_unmarshal :: "string \<Rightarrow> string list option"
  cfe_format :: "time \<Rightarrow> string"

section \<open>Values\<close>

text \<open>\<open>strings.Fields\<close>: the words between runs of white space.\<close>

fun take_word :: "string \<Rightarrow> string \<times> string" where
  "take_word [] = ([], [])"
| "take_word (c # s) =
     (if starts_with_any space_runes (c # s) then ([], c # s)
      else (case take_word s of (w, rest) \<Rightarrow> (c # w, rest)))"

lemma take_word_length: "length (snd (take_word s)) \<le> length s"
  by (induction s) (auto split: prod.splits)

function text_fields :: "string \<Rightarrow> string list" where
  "text_fields s =
     (case trim_runes space_runes s of
        [] \<Rightarrow> []
      | c # t \<Rightarrow> (c # fst (take_word t)) # text_fields (snd (take_word t)))"
  by pat_completeness auto
termination
proof (relation "measure length", goal_cases)
  case (2 s c t)
  then have "suffix (c # t) s" by (metis trim_runes_suffix)
  then have "length (c # t) \<le> length s" by (rule suffix_length_le)
  with take_word_length [of t] show ?case by simp
qed simp

declare text_fields.simps [simp del]

text \<open>\<open>strconv.ParseUint\<close> in base 10.\<close>

definition parse_uint :: "nat \<Rightarrow> string \<Rightarrow> nat option" where
  "parse_uint bits s = (if s \<noteq> [] \<and> list_all is_digit s \<and> dec_to_nat s < 2 ^ bits then Some (dec_to_nat s) else None)"

text \<open>A floating-point number that is an integer from 0 to a maximum.\<close>

definition whole_upto :: "int \<Rightarrow> rat \<Rightarrow> bool" where
  "whole_upto m x \<longleftrightarrow> of_int \<lfloor>x\<rfloor> = x \<and> 0 \<le> x \<and> x \<le> of_int m"

definition rat_word :: "rat \<Rightarrow> 'a::len word" where
  "rat_word x = word_of_int \<lfloor>x\<rfloor>"

definition word_rat :: "'a::len word \<Rightarrow> rat" where
  "word_rat w = of_nat (unat w)"

definition parseDNSCharacterString :: "text_env \<Rightarrow> string \<Rightarrow> string result" where
  "parseDNSCharacterString E v =
     and_then (NormalizeCreateRecordSetInput E ''example.invalid''
       \<lparr>ci_Name = ''example.invalid'', ci_Type = RecordTypeTXT, ci_TTL = 60, ci_Entries = [empty_entry\<lparr>re_Value := v\<rparr>],
        ci_Extensions = no_set_extensions\<rparr>) (\<lambda>n. Inr (re_Value (hd (ci_Entries n))))"

text \<open>A byte of a quoted string.\<close>

definition wire_char :: "char \<Rightarrow> string" where
  "wire_char c =
     (if c = dquote \<or> c = backslash then [backslash, c]
      else if byte c < 32 \<or> byte c = 127
      then [backslash, digit_char (byte c div 100), digit_char (byte c div 10 mod 10), digit_char (byte c mod 10)]
      else [c])"

definition wireTXTContent :: "string \<Rightarrow> string" where
  "wireTXTContent v = dquote # concat (map wire_char v) @ [dquote]"

definition pointer_string :: "string option \<Rightarrow> string" where
  "pointer_string v = (case v of None \<Rightarrow> [] | Some s \<Rightarrow> s)"

definition pointer_word :: "'a::len word option \<Rightarrow> 'a word" where
  "pointer_word v = (case v of None \<Rightarrow> 0 | Some w \<Rightarrow> w)"

definition pointer_bool :: "bool option \<Rightarrow> bool" where
  "pointer_bool v \<longleftrightarrow> v = Some True"

definition word_text :: "'a::len word \<Rightarrow> string" where
  "word_text w = nat_to_dec (unat w)"

definition cloudflareRecordTypeSupported :: "RecordType \<Rightarrow> bool" where
  "cloudflareRecordTypeSupported t \<longleftrightarrow>
     t \<in> {RecordTypeA, RecordTypeAAAA, RecordTypeCNAME, RecordTypeTXT, RecordTypeMX, RecordTypeNS, RecordTypeSRV, RecordTypeCAA}"

definition proxyTypeSupported :: "RecordType \<Rightarrow> bool" where
  "proxyTypeSupported t \<longleftrightarrow> t = RecordTypeA \<or> t = RecordTypeAAAA \<or> t = RecordTypeCNAME"

section \<open>Contents\<close>

definition parse_srv_content :: "string \<Rightarrow> record_entry result" where
  "parse_srv_content content =
     (case text_fields content of
        [p, w, q, target] \<Rightarrow>
          (case parse_uint 16 p of None \<Rightarrow> Inl ''Cloudflare SRV priority is invalid'' | Some priority \<Rightarrow>
          (case parse_uint 16 w of None \<Rightarrow> Inl ''Cloudflare SRV weight is invalid'' | Some weight \<Rightarrow>
          (case parse_uint 16 q of None \<Rightarrow> Inl ''Cloudflare SRV port is invalid'' | Some port \<Rightarrow>
             Inr (empty_entry\<lparr>re_Priority := Some (word_of_nat priority), re_Weight := Some (word_of_nat weight),
                              re_Port := Some (word_of_nat port), re_Target := Some target\<rparr>))))
      | _ \<Rightarrow> Inl ''Cloudflare SRV content must contain priority, weight, port, and target'')"

definition parse_caa_content :: "text_env \<Rightarrow> string \<Rightarrow> record_entry result" where
  "parse_caa_content E content =
     (case text_fields content of
        f # tag # _ # _ \<Rightarrow>
          (case parse_uint 8 f of None \<Rightarrow> Inl ''Cloudflare CAA flags are invalid'' | Some flags \<Rightarrow>
             (let v = trim_space (trim_prefix (trim_space (trim_prefix content f)) tag) in
              and_then (if prefix [dquote] v then wrap_err ''Cloudflare CAA value: '' (parseDNSCharacterString E v) else Inr v)
                (\<lambda>v. Inr (empty_entry\<lparr>re_Flags := Some (word_of_nat flags), re_Tag := Some tag, re_Value := v\<rparr>))))
      | _ \<Rightarrow> Inl ''Cloudflare CAA content must contain flags, tag, and value'')"

definition parseRecordContent :: "text_env \<Rightarrow> RecordType \<Rightarrow> string \<Rightarrow> rat \<Rightarrow> record_entry result" where
  "parseRecordContent E t raw priority =
     (if t = RecordTypeTXT
      then and_then (wrap_err ''Cloudflare TXT value: '' (parseDNSCharacterString E raw)) (\<lambda>v. Inr (empty_entry\<lparr>re_Value := v\<rparr>))
      else
        (let content = trim_space raw in
         case t of
           RecordTypeA \<Rightarrow> Inr (empty_entry\<lparr>re_Value := content\<rparr>)
         | RecordTypeAAAA \<Rightarrow> Inr (empty_entry\<lparr>re_Value := content\<rparr>)
         | RecordTypeCNAME \<Rightarrow> Inr (empty_entry\<lparr>re_Target := Some content\<rparr>)
         | RecordTypeNS \<Rightarrow> Inr (empty_entry\<lparr>re_Target := Some content\<rparr>)
         | RecordTypeMX \<Rightarrow>
             if \<not> whole_upto 65535 priority then Inl ''Cloudflare MX priority is invalid''
             else Inr (empty_entry\<lparr>re_Priority := Some (rat_word priority), re_Target := Some content\<rparr>)
         | RecordTypeSRV \<Rightarrow> parse_srv_content content
         | RecordTypeCAA \<Rightarrow> parse_caa_content E content
         | _ \<Rightarrow> Inl ''unsupported Cloudflare record type''))"

definition parseRecordResponse :: "text_env \<Rightarrow> RecordType \<Rightarrow> cf_record \<Rightarrow> record_entry result" where
  "parseRecordResponse E t r =
     (case (t, cfr_Data r) of
        (RecordTypeCAA, CAAData flags tag v) \<Rightarrow>
          if \<not> whole_upto 255 flags then Inl ''Cloudflare CAA flags are invalid''
          else Inr (empty_entry\<lparr>re_Flags := Some (rat_word flags), re_Tag := Some tag, re_Value := v\<rparr>)
      | (RecordTypeSRV, SRVData priority weight port target) \<Rightarrow>
          if \<not> list_all (whole_upto 65535) [priority, weight, port] then Inl ''Cloudflare SRV data is invalid''
          else Inr (empty_entry\<lparr>re_Priority := Some (rat_word priority), re_Weight := Some (rat_word weight),
                                re_Port := Some (rat_word port), re_Target := Some target\<rparr>)
      | _ \<Rightarrow> parseRecordContent E t (cfr_Content r) (cfr_Priority r))"

definition wireRecordContent :: "RecordType \<Rightarrow> record_entry \<Rightarrow> (string \<times> rat) result" where
  "wireRecordContent t e =
     (case t of
        RecordTypeA \<Rightarrow> Inr (re_Value e, 0)
      | RecordTypeAAAA \<Rightarrow> Inr (re_Value e, 0)
      | RecordTypeTXT \<Rightarrow> Inr (wireTXTContent (re_Value e), 0)
      | RecordTypeCNAME \<Rightarrow> Inr (pointer_string (re_Target e), 0)
      | RecordTypeNS \<Rightarrow> Inr (pointer_string (re_Target e), 0)
      | RecordTypeMX \<Rightarrow> Inr (pointer_string (re_Target e), word_rat (pointer_word (re_Priority e)))
      | RecordTypeSRV \<Rightarrow>
          Inr (word_text (pointer_word (re_Priority e)) @ '' '' @ word_text (pointer_word (re_Weight e)) @ '' ''
               @ word_text (pointer_word (re_Port e)) @ '' '' @ pointer_string (re_Target e), 0)
      | RecordTypeCAA \<Rightarrow>
          Inr (word_text (pointer_word (re_Flags e)) @ '' '' @ pointer_string (re_Tag e) @ '' '' @ wireTXTContent (re_Value e), 0)
      | _ \<Rightarrow> Inl ''unsupported Cloudflare record type'')"

definition structuredRecordData :: "RecordType \<Rightarrow> record_entry \<Rightarrow> cf_data" where
  "structuredRecordData t e =
     (case t of
        RecordTypeCAA \<Rightarrow> CAAData (word_rat (pointer_word (re_Flags e))) (pointer_string (re_Tag e)) (re_Value e)
      | RecordTypeSRV \<Rightarrow> SRVData (word_rat (pointer_word (re_Priority e))) (word_rat (pointer_word (re_Weight e)))
                           (word_rat (pointer_word (re_Port e))) (pointer_string (re_Target e))
      | _ \<Rightarrow> NoData)"

section \<open>Options and groups\<close>

record record_options =
  ro_proxied :: bool
  ro_proxiable :: bool
  ro_automaticTTL :: bool
  ro_comment :: string
  ro_tags :: "string list"

record record_group_key =
  gk_name :: string
  gk_type :: RecordType
  gk_ttl :: "32 word"
  gk_proxied :: bool
  gk_proxiable :: bool
  gk_automaticTTL :: bool
  gk_comment :: string
  gk_tags :: string

record record_group =
  gr_key :: record_group_key
  gr_tags :: "string list"
  gr_entries :: "record_entry list"
  gr_version :: time

definition cloudflareAutomaticTTL :: "32 word" where "cloudflareAutomaticTTL = 300"

definition tagsCanonical :: "string list \<Rightarrow> string" where
  "tagsCanonical tags = join_with (CHR 0x1F) tags"

fun distinct_tags :: "string list \<Rightarrow> string list \<Rightarrow> string list result" where
  "distinct_tags seen [] = Inr (rev seen)"
| "distinct_tags seen (tag # rest) =
     (let t = trim_space tag in
      if t = [] then Inl ''Cloudflare DNS record tags cannot contain an empty value''
      else distinct_tags (if t \<in> set seen then seen else t # seen) rest)"

definition normalizeTags :: "string list \<Rightarrow> string list result" where
  "normalizeTags source = and_then (distinct_tags [] source) (\<lambda>items. Inr (sort items))"

definition recordTags :: "cf_record \<Rightarrow> string list result" where
  "recordTags r =
     (case cfr_Tags r of
        DocumentTags None \<Rightarrow> Inl ''decode Cloudflare DNS record tags''
      | DocumentTags (Some tags) \<Rightarrow> normalizeTags tags
      | TypedTags tags \<Rightarrow> normalizeTags tags
      | NoTags \<Rightarrow> normalizeTags []
      | OtherTags \<Rightarrow> Inl ''Cloudflare DNS record tags have an unexpected shape'')"

definition validCloudflareOpaqueID :: "string \<Rightarrow> bool" where
  "validCloudflareOpaqueID i \<longleftrightarrow> i \<noteq> [] \<and> i = trim_space i"

definition mapRecord ::
  "text_env \<Rightarrow> string \<Rightarrow> cf_record \<Rightarrow> RecordType \<Rightarrow> (record_entry \<times> record_group_key \<times> string list \<times> time) result" where
  "mapRecord E zoneName r t =
     (if \<not> validCloudflareOpaqueID (cfr_ID r) then Inl ''Cloudflare DNS record ID is invalid''
      else and_then (CanonicalizeRecordName E (cfr_Name r) zoneName) (\<lambda>name.
        if of_int \<lfloor>cfr_TTL r\<rfloor> \<noteq> cfr_TTL r \<or> cfr_TTL r < 1 \<or> cfr_TTL r > 4294967295
        then Inl ''Cloudflare DNS record TTL is invalid''
        else
          (let automatic = (rat_word (cfr_TTL r) = (1 :: 32 word));
               ttl = (if automatic then cloudflareAutomaticTTL else rat_word (cfr_TTL r))
           in and_then (parseRecordResponse E t r) (\<lambda>entry.
              and_then (recordTags r) (\<lambda>tags.
              Inr (entry\<lparr>re_ID := cfr_ID r\<rparr>,
                   \<lparr>gk_name = name, gk_type = t, gk_ttl = ttl, gk_proxied = cfr_Proxied r, gk_proxiable = cfr_Proxiable r,
                    gk_automaticTTL = automatic, gk_comment = cfr_Comment r, gk_tags = tagsCanonical tags\<rparr>,
                   tags, if cfr_ModifiedOn r = 0 then cfr_CreatedOn r else cfr_ModifiedOn r))))))"

text \<open>The groups in the order in which the first record of each was read.\<close>

fun add_to_groups :: "record_entry \<Rightarrow> record_group_key \<Rightarrow> string list \<Rightarrow> time \<Rightarrow> record_group list \<Rightarrow> record_group list" where
  "add_to_groups entry key tags version [] =
     [\<lparr>gr_key = key, gr_tags = tags, gr_entries = [entry], gr_version = max 0 version\<rparr>]"
| "add_to_groups entry key tags version (g # gs) =
     (if gr_key g = key
      then g\<lparr>gr_entries := gr_entries g @ [entry], gr_version := max (gr_version g) version\<rparr> # gs
      else g # add_to_groups entry key tags version gs)"

definition record_type_of :: "text_env \<Rightarrow> cf_record \<Rightarrow> RecordType" where
  "record_type_of E r = record_type_of_string (to_upper (unicode_upper E) (trim_space (cfr_Type r)))"

fun collect_groups :: "text_env \<Rightarrow> string \<Rightarrow> cf_record list \<Rightarrow> record_group list \<Rightarrow> record_group list result" where
  "collect_groups E zoneName [] groups = Inr groups"
| "collect_groups E zoneName (r # rs) groups =
     (let t = record_type_of E r in
      if \<not> cloudflareRecordTypeSupported t then collect_groups E zoneName rs groups
      else and_then (mapRecord E zoneName r t) (\<lambda>(entry, key, tags, version).
        collect_groups E zoneName rs (add_to_groups entry key tags version groups)))"

section \<open>Identifiers of record sets\<close>

definition recordSetIDPrefix :: string where "recordSetIDPrefix = ''cloudflare-recordset-v1:''"

text \<open>\<open>json.Marshal\<close> of a slice of strings does not fail.\<close>

definition marshal_strings :: "string list \<Rightarrow> string" where
  "marshal_strings ids = json_render (JArr (map JStr ids))"

definition encodeRecordSetID :: "string list \<Rightarrow> string result" where
  "encodeRecordSetID source =
     (let ids = sort source in
      if ids = [] then Inl ''Cloudflare logical record set contains no provider record IDs''
      else if \<not> list_all validCloudflareOpaqueID ids then Inl ''Cloudflare provider record ID is invalid''
      else Inr (recordSetIDPrefix @ b64_encode (marshal_strings ids)))"

text \<open>The loop over decoded identifiers.\<close>

fun check_ids :: "string list \<Rightarrow> string list \<Rightarrow> unit result" where
  "check_ids seen [] = Inr ()"
| "check_ids seen (i # ids) =
     (if \<not> validCloudflareOpaqueID i then Inl ''Cloudflare logical record set ID is invalid''
      else if i \<in> set seen then Inl ''Cloudflare logical record set ID contains duplicate record IDs''
      else check_ids (i # seen) ids)"

lemma check_ids_Inr:
  "check_ids seen ids = Inr u \<longleftrightarrow> list_all validCloudflareOpaqueID ids \<and> distinct ids \<and> set ids \<inter> set seen = {}"
  by (induction seen ids rule: check_ids.induct) auto

definition decodeRecordSetID :: "cf_env \<Rightarrow> string \<Rightarrow> string list result" where
  "decodeRecordSetID F i =
     (let invalid = Inl ''Cloudflare logical record set ID is invalid'' in
      if i \<noteq> trim_space i \<or> \<not> prefix recordSetIDPrefix i then invalid
      else (case b64_decode (trim_prefix i recordSetIDPrefix) of
        None \<Rightarrow> invalid
      | Some document \<Rightarrow>
          (case cfe_unmarshal F document of
             None \<Rightarrow> invalid
           | Some ids \<Rightarrow>
               if ids = [] then invalid
               else and_then (check_ids [] ids) (\<lambda>_.
                 if encodeRecordSetID (sort ids) \<noteq> Inr i then invalid else Inr (sort ids)))))"

definition entryIDs :: "record_entry list \<Rightarrow> string list" where
  "entryIDs es = map re_ID es"

section \<open>Logical record sets\<close>

definition group_record_set :: "cf_env \<Rightarrow> string \<Rightarrow> record_group \<Rightarrow> record_set result" where
  "group_record_set F zoneName g =
     (let entries = sort_key re_ID (gr_entries g); key = gr_key g in
      and_then (encodeRecordSetID (entryIDs entries)) (\<lambda>i.
        wrap_err (''Cloudflare logical record set '' @ [dquote] @ i @ [dquote] @ '' is invalid: '')
          (NormalizeRecordSet (cfe_text F) zoneName
             \<lparr>rs_ID = i, rs_Name = gk_name key, rs_Type = gk_type key, rs_TTL = gk_ttl key, rs_Entries = entries,
              rs_Extensions = no_set_extensions\<lparr>sx_Cloudflare :=
                Some \<lparr>cfs_Proxied = Some (gk_proxied key), cfs_Proxiable = Some (gk_proxiable key),
                      cfs_AutomaticTTL = Some (gk_automaticTTL key), cfs_Comment = gk_comment key, cfs_Tags = gr_tags g\<rparr>\<rparr>,
              rs_ProviderVersion = (if gr_version g = 0 then [] else cfe_format F (gr_version g)),
              rs_Fingerprint = []\<rparr>)))"

definition record_set_order :: "record_set \<Rightarrow> string \<times> string \<times> 32 word \<times> string" where
  "record_set_order rs = (rs_Name rs, record_type_string (rs_Type rs), rs_TTL rs, rs_ID rs)"

text \<open>
  The code makes the sets in the order in which Go walks the map of groups, and then sorts them; with
  several invalid groups that order decides which error it returns.
\<close>

definition groupRecords :: "cf_env \<Rightarrow> string \<Rightarrow> cf_record list \<Rightarrow> record_set list result" where
  "groupRecords F zoneName source =
     and_then (collect_groups (cfe_text F) zoneName source []) (\<lambda>groups.
     and_then (traverse (group_record_set F zoneName) groups) (\<lambda>items.
     Inr (sort_key record_set_order items)))"

definition recordOptionsFromRecordSet :: "record_set \<Rightarrow> record_options" where
  "recordOptionsFromRecordSet rs =
     (case sx_Cloudflare (rs_Extensions rs) of
        None \<Rightarrow> \<lparr>ro_proxied = False, ro_proxiable = False, ro_automaticTTL = False, ro_comment = [], ro_tags = []\<rparr>
      | Some x \<Rightarrow> \<lparr>ro_proxied = pointer_bool (cfs_Proxied x), ro_proxiable = pointer_bool (cfs_Proxiable x),
                   ro_automaticTTL = pointer_bool (cfs_AutomaticTTL x), ro_comment = cfs_Comment x, ro_tags = cfs_Tags x\<rparr>)"

definition groupKeyFromInput :: "create_input \<Rightarrow> record_options \<Rightarrow> record_group_key" where
  "groupKeyFromInput i opts =
     \<lparr>gk_name = ci_Name i, gk_type = ci_Type i, gk_ttl = ci_TTL i, gk_proxied = ro_proxied opts, gk_proxiable = ro_proxiable opts,
      gk_automaticTTL = ro_automaticTTL opts, gk_comment = ro_comment opts, gk_tags = tagsCanonical (ro_tags opts)\<rparr>"

definition groupKeyFromRecordSet :: "record_set \<Rightarrow> record_group_key" where
  "groupKeyFromRecordSet rs =
     (let opts = recordOptionsFromRecordSet rs in
      \<lparr>gk_name = rs_Name rs, gk_type = rs_Type rs, gk_ttl = rs_TTL rs, gk_proxied = ro_proxied opts, gk_proxiable = ro_proxiable opts,
       gk_automaticTTL = ro_automaticTTL opts, gk_comment = ro_comment opts, gk_tags = tagsCanonical (ro_tags opts)\<rparr>)"

section \<open>Inputs\<close>

definition foreign_set_extensions :: "record_set_extensions \<Rightarrow> bool" where
  "foreign_set_extensions x \<longleftrightarrow> sx_Huawei x \<noteq> None \<or> sx_Aliyun x \<noteq> None \<or> sx_Tencent x \<noteq> None"

definition foreign_entry_extensions :: "record_entry_extensions \<Rightarrow> bool" where
  "foreign_entry_extensions x \<longleftrightarrow> ex_Huawei x \<noteq> None \<or> ex_Aliyun x \<noteq> None \<or> ex_Tencent x \<noteq> None"

definition or_pointer :: "'a option \<Rightarrow> 'a \<Rightarrow> 'a" where
  "or_pointer v d = (case v of None \<Rightarrow> d | Some x \<Rightarrow> x)"

definition apply_cloudflare_extension :: "cloudflare_set_ext \<Rightarrow> record_options \<Rightarrow> bool \<Rightarrow> record_options result" where
  "apply_cloudflare_extension x fallback allowReadOnly =
     (let opts = fallback\<lparr>ro_proxied := or_pointer (cfs_Proxied x) (ro_proxied fallback),
                       ro_automaticTTL := or_pointer (cfs_AutomaticTTL x) (ro_automaticTTL fallback)\<rparr> in
      if cfs_Proxiable x \<noteq> None \<and> \<not> allowReadOnly then Inl ''Cloudflare proxiable is read-only''
      else if cfs_Proxiable x \<noteq> None \<and> cfs_Proxiable x \<noteq> Some (ro_proxiable fallback)
      then Inl ''Cloudflare proxiable does not match the current provider state''
      else and_then (normalizeTags (cfs_Tags x)) (\<lambda>tags. Inr (opts\<lparr>ro_comment := cfs_Comment x, ro_tags := tags\<rparr>)))"

definition require_automatic :: "create_input \<Rightarrow> record_options \<Rightarrow> record_options result" where
  "require_automatic i opts =
     (if ro_proxied opts
      then
        if \<not> proxyTypeSupported (ci_Type i) then Inl ''Cloudflare proxy is not supported for these records''
        else if (case sx_Cloudflare (ci_Extensions i) of None \<Rightarrow> False | Some x \<Rightarrow> cfs_AutomaticTTL x = Some False)
        then Inl ''Cloudflare proxied records require automatic TTL''
        else Inr (opts\<lparr>ro_automaticTTL := True\<rparr>)
      else Inr opts)"

definition validateCloudflareInput :: "create_input \<Rightarrow> record_options \<Rightarrow> bool \<Rightarrow> record_options result" where
  "validateCloudflareInput i fallback allowReadOnly =
     (if \<not> cloudflareRecordTypeSupported (ci_Type i) then Inl ''Cloudflare record type is unsupported''
      else if foreign_set_extensions (ci_Extensions i) then Inl ''record set contains extensions for another provider''
      else if list_ex (\<lambda>e. foreign_entry_extensions (re_Extensions e)) (ci_Entries i)
      then Inl ''record entry contains extensions for another provider''
      else
        and_then (case sx_Cloudflare (ci_Extensions i) of
            None \<Rightarrow> Inr fallback
          | Some x \<Rightarrow> apply_cloudflare_extension x fallback allowReadOnly) (\<lambda>opts.
        and_then (require_automatic i opts) (\<lambda>opts.
        if ro_automaticTTL opts
        then if ci_TTL i \<noteq> cloudflareAutomaticTTL then Inl ''Cloudflare automatic TTL must use the effective TTL value 300''
             else Inr opts
        else if ci_TTL i < 30 \<or> ci_TTL i > 86400 then Inl ''Cloudflare TTL must be between 30 and 86400 seconds''
        else Inr opts)))"

section \<open>Comparing record sets\<close>

definition recordSetIntersectsIDs :: "record_set \<Rightarrow> string list \<Rightarrow> bool" where
  "recordSetIntersectsIDs rs ids \<longleftrightarrow> list_ex (\<lambda>e. re_ID e \<in> set ids) (rs_Entries rs)"

definition equalRecordEntry :: "record_entry \<Rightarrow> record_entry \<Rightarrow> bool" where
  "equalRecordEntry l r \<longleftrightarrow>
     re_Value l = re_Value r \<and> re_Priority l = re_Priority r \<and> re_Weight l = re_Weight r \<and> re_Port l = re_Port r
     \<and> re_Target l = re_Target r \<and> re_Flags l = re_Flags r \<and> re_Tag l = re_Tag r"

text \<open>The map from identifiers to entries keeps the last entry of an identifier.\<close>

definition entry_by_id :: "record_entry list \<Rightarrow> string \<Rightarrow> record_entry option" where
  "entry_by_id es i = find (\<lambda>e. re_ID e = i) (rev es)"

definition recordSetHasExactEntries :: "record_set \<Rightarrow> record_entry list \<Rightarrow> bool" where
  "recordSetHasExactEntries rs expected \<longleftrightarrow>
     length (rs_Entries rs) = length expected
     \<and> list_all (\<lambda>wanted. case entry_by_id (rs_Entries rs) (re_ID wanted) of
           None \<Rightarrow> False | Some actual \<Rightarrow> equalRecordEntry actual wanted) expected"

definition containsEntryID :: "record_entry list \<Rightarrow> string \<Rightarrow> bool" where
  "containsEntryID es i \<longleftrightarrow> list_ex (\<lambda>e. re_ID e = i) es"

definition equivalentGroupKey :: "record_group_key \<Rightarrow> record_group_key \<Rightarrow> bool" where
  "equivalentGroupKey l r \<longleftrightarrow> l\<lparr>gk_proxiable := False\<rparr> = r\<lparr>gk_proxiable := False\<rparr>"

definition equalRecordOptions :: "record_options \<Rightarrow> record_options \<Rightarrow> bool" where
  "equalRecordOptions l r \<longleftrightarrow>
     ro_proxied l = ro_proxied r \<and> ro_automaticTTL l = ro_automaticTTL r \<and> ro_comment l = ro_comment r \<and> ro_tags l = ro_tags r"

end
