(* ===== verification/Cloudflare_Contents.thy ===== *)
theory Cloudflare_Contents
  imports Cloudflare_Records
begin

text \<open>
  What is written to Cloudflare is read back: quoted strings, the contents of the supported record types and
  the structured data of CAA and SRV records. The entries are those the core has normalised. A quoted value of
  more than 255 bytes is written as one segment, which the server splits; unsplit, the reader refuses it.
\<close>

section \<open>Quoted strings\<close>

lemma digit_char_is [simp]: "n < 10 \<Longrightarrow> is_ascii (digit_char n)" "n < 10 \<Longrightarrow> digit_char n \<noteq> dquote"
  "n < 10 \<Longrightarrow> digit_char n \<noteq> backslash" "n < 10 \<Longrightarrow> byte (digit_char n) = 48 + n"
  by (simp_all add: digit_char_def is_ascii_def of_char_eq_iff [symmetric, where ?'a = nat] del: of_char_eq_iff)

lemma three_digits:
  fixes n :: nat
  assumes "n < 256"
  shows "n div 100 < 10" "n div 10 mod 10 < 10" "n mod 10 < 10"
    "n div 100 * 100 + n div 10 mod 10 * 10 + n mod 10 = n"
proof -
  have "n div 100 = n div 10 div 10" by (simp add: div_mult2_eq [symmetric])
  moreover have "n = n div 10 * 10 + n mod 10" "n div 10 = n div 10 div 10 * 10 + n div 10 mod 10" by simp_all
  ultimately show "n div 100 * 100 + n div 10 mod 10 * 10 + n mod 10 = n" by linarith
qed (use assms in \<open>simp_all add: less_mult_imp_div_less\<close>)

lemmas byte_digits = three_digits [OF byte_less]

lemma txt_segment_wire: "txt_segment (concat (map wire_char v) @ dquote # rest) = Inr (v, True, rest)"
proof (induction v)
  case (Cons c v)
  consider "c = dquote \<or> c = backslash" | "c \<noteq> dquote" "c \<noteq> backslash" "byte c < 32 \<or> byte c = 127"
    | "c \<noteq> dquote" "c \<noteq> backslash" "\<not> (byte c < 32 \<or> byte c = 127)" by blast
  then show ?case
  proof cases
    case 1
    then have "decimal_escape (c # concat (map wire_char v) @ dquote # rest) = None"
      by (auto simp: decimal_escape_def is_digit_def split: list.split)
    moreover have "wire_char c = [backslash, c]" using 1 by (simp add: wire_char_def)
    ultimately show ?thesis using Cons by (simp add: push_byte_def)
  next
    case 2
    have "decimal_escape ([digit_char (byte c div 100), digit_char (byte c div 10 mod 10), digit_char (byte c mod 10)]
        @ concat (map wire_char v) @ dquote # rest) = Some (byte c)"
      by (simp add: decimal_escape_def digit_val_char byte_digits)
    moreover have "wire_char c = [backslash, digit_char (byte c div 100), digit_char (byte c div 10 mod 10), digit_char (byte c mod 10)]"
      using 2 by (simp add: wire_char_def)
    moreover have "byte c \<le> 255" using byte_less [of c] by linarith
    ultimately show ?thesis using Cons by (simp add: push_byte_def not_less)
  next
    case 3
    then have "wire_char c = [c]" by (simp add: wire_char_def)
    with 3 Cons show ?thesis by (simp add: push_byte_def)
  qed
qed (simp add: push_byte_def)

lemma wire_char_clean: "d \<in> set (wire_char c) \<Longrightarrow> 32 \<le> byte d \<and> byte d \<noteq> 127"
  by (auto simp: wire_char_def byte_digits split: if_splits)

lemma wire_char_high: "128 \<le> byte c \<Longrightarrow> wire_char c = [c]"
  by (auto simp: wire_char_def)

lemma wire_char_low: "byte c < 128 \<Longrightarrow> list_all is_ascii (wire_char c)"
  by (auto simp: wire_char_def byte_digits is_ascii_def)

text \<open>Escaping keeps UTF-8: it changes ASCII bytes only.\<close>

lemma wire_high_rune:
  assumes "\<forall>c \<in> set r. 128 \<le> byte c"
  shows "concat (map wire_char r) = r"
  using assms by (induction r) (auto simp: wire_char_high)

lemma first_rune:
  assumes "rune_rest (c # s) = Some r" and "\<not> is_ascii c"
  obtains x where "c # s = x @ r" and "\<forall>b \<in> set x. \<not> is_ascii b" and "\<And>y. valid_utf8 (x @ y) = valid_utf8 y"
proof -
  from rune_bytes [OF assms] obtain x where x: "c # s = x @ r" "\<forall>b \<in> set x. \<not> is_ascii b" "\<And>y. rune_rest (x @ y) = Some y"
    by blast
  have "x \<noteq> []" using x(3) [of "[]"] by (auto simp: rune_rest.simps)
  then have "valid_utf8 (x @ y) = valid_utf8 y" for y by (simp add: valid_utf8_rest x(3))
  with x that show thesis by blast
qed

lemma wire_chars_utf8: "valid_utf8 v \<Longrightarrow> valid_utf8 (concat (map wire_char v) @ t) = valid_utf8 t"
proof (induction v rule: valid_utf8.induct)
  case (1 v)
  show ?case
  proof (cases v)
    case (Cons c s)
    with "1.prems" obtain r where r: "rune_rest (c # s) = Some r" "valid_utf8 r"
      by (auto simp: valid_utf8_rest)
    with "1.IH" Cons have IH: "valid_utf8 (concat (map wire_char r) @ t) = valid_utf8 t" by blast
    show ?thesis
    proof (cases "is_ascii c")
      case True
      with r(1) have "r = s" by (simp add: rune_rest.simps)
      moreover have "valid_utf8 (wire_char c @ x) = valid_utf8 x" for x
        using wire_char_low [of c] True by (intro valid_utf8_append valid_utf8_ascii) (simp add: is_ascii_def)
      ultimately show ?thesis using Cons IH by simp
    next
      case False
      obtain x where x: "c # s = x @ r" "\<forall>b \<in> set x. \<not> is_ascii b" "\<And>y. valid_utf8 (x @ y) = valid_utf8 y"
        using first_rune [OF r(1) False] by blast
      then have "concat (map wire_char (c # s)) = x @ concat (map wire_char r)"
        using wire_high_rune [of x] by (simp add: is_ascii_def not_less)
      with x(3) Cons IH show ?thesis by simp
    qed
  qed simp
qed

text \<open>A value is one segment, which a reader takes up to 255 bytes.\<close>

lemma wire_txt:
  assumes "valid_utf8 v"
  shows "canonicalizeTXT (wireTXTContent v) = (if 255 < length v then Inl ''TXT quoted segment is invalid'' else Inr v)"
    and "trim_space (wireTXTContent v) = wireTXTContent v"
proof -
  let ?w = "wireTXTContent v"
  show trim: "trim_space ?w = ?w"
    by (rule trim_space_solid) (simp_all add: wireTXTContent_def solid_def)
  have "valid_utf8 ?w"
    using wire_chars_utf8 [OF assms, of "[dquote]"] by (simp add: wireTXTContent_def is_ascii_def)
  moreover have "32 \<le> byte d" if "d \<in> set ?w" for d
    using that wire_char_clean by (auto simp: wireTXTContent_def)
  then have "CHR 0x00 \<notin> set ?w" "CHR 0x0D \<notin> set ?w" "CHR 0x0A \<notin> set ?w" by force+
  ultimately have "txt_text_ok ?w" by (simp add: txt_text_ok_def)
  moreover have "txt_segments ?w = (if 255 < length v then Inl ''TXT quoted segment is invalid'' else Inr v)"
    using txt_segment_wire [of v "[]"]
    by (subst txt_segments.simps) (simp add: wireTXTContent_def Let_def txt_segments.simps)
  moreover have "prefix [dquote] ?w" by (simp add: wireTXTContent_def)
  ultimately show "canonicalizeTXT ?w = (if 255 < length v then Inl ''TXT quoted segment is invalid'' else Inr v)"
    using trim assms by (simp add: canonicalizeTXT_def Let_def maximumTXTBytes_def and_then_def)
qed

text \<open>
  The name that \<open>parseDNSCharacterString\<close> invents is accepted, as IDNA leaves lower-case ASCII labels alone.
\<close>

definition plain_labels :: "text_env \<Rightarrow> bool" where
  "plain_labels E \<longleftrightarrow> idna_ToASCII E ''example'' = Some ''example'' \<and> idna_ToASCII E ''invalid'' = Some ''invalid''"

lemma invented_name:
  assumes "plain_labels E"
  shows "CanonicalizeRecordName E ''example.invalid'' ''example.invalid'' = Inr ''example.invalid''"
proof -
  have "split_on CHR ''.'' (trim_suffix ''example.invalid'' ''.'') = [''example'', ''invalid'']"
    "trim_space ''example.invalid'' = ''example.invalid''" "\<not> suffix ''..'' ''example.invalid''"
    "list_all is_ascii ''example''" "list_all is_ascii ''invalid''"
    "map lower_char ''example'' = ''example''" "map lower_char ''invalid'' = ''invalid''"
    by code_simp+
  then show ?thesis
    using assms by (simp add: plain_labels_def CanonicalizeRecordName_def CanonicalizeZoneName_def canonicalizeName_def
        canonical_label_def to_lower_def Let_def in_zone_def and_then_def)
qed

lemma parse_wire:
  assumes "plain_labels E" and "valid_utf8 v"
  shows "if 255 < length v then isl (parseDNSCharacterString E (wireTXTContent v))
    else parseDNSCharacterString E (wireTXTContent v) = Inr v"
proof -
  let ?e = "empty_entry\<lparr>re_Value := wireTXTContent v\<rparr>"
  have "requireOnlyValue ?e = Inr ()"
    using wire_txt(2) [OF assms(2)] by (simp add: requireOnlyValue_def empty_entry_def wireTXTContent_def)
  then have "normalizeRecordEntry E RecordTypeTXT ?e
      = (if 255 < length v then Inl ''TXT quoted segment is invalid'' else Inr (?e\<lparr>re_Value := v\<rparr>))"
    using wire_txt(1) [OF assms(2)] by (simp add: normalizeRecordEntry_def)
  with invented_name [OF assms(1)] show ?thesis
    by (simp add: parseDNSCharacterString_def NormalizeCreateRecordSetInput_def normalizeRecordSet_def record_set_of_input_def
        input_of_record_set_def Let_def and_then_def wrap_err_def)
qed

section \<open>Words\<close>

lemma space_starts [simp]: "starts_with_any space_runes (CHR '' '' # s)"
  by (auto simp: starts_with_any_def space_runes_def)

lemma solid_starts [simp]: "solid c \<Longrightarrow> \<not> starts_with_any space_runes (c # s)"
  using solid_not_space_edge [of c] by (fastforce simp: starts_with_any_def prefix_Cons)

lemma trim_leading_space: "trim_runes space_runes (CHR '' '' # s) = trim_runes space_runes s"
proof -
  have "find (\<lambda>r. r \<noteq> [] \<and> prefix r (CHR '' '' # s)) space_runes = Some [CHR 0x20]" by (simp add: space_runes_def)
  then show ?thesis by (subst trim_runes.simps) simp
qed

lemma trim_leading_blank: "trim_space (CHR '' '' # s) = trim_space s"
  by (simp add: trim_space_def trim_leading_space)

lemma text_fields_space: "text_fields (CHR '' '' # s) = text_fields s"
  by (simp add: text_fields.simps [of "CHR '' '' # s"] text_fields.simps [of s] trim_leading_space)

lemma take_word_solid: "\<forall>c \<in> set w. solid c \<Longrightarrow> take_word (w @ CHR '' '' # s) = (w, CHR '' '' # s)"
  by (induction w) simp_all

lemma take_word_all: "\<forall>c \<in> set w. solid c \<Longrightarrow> take_word w = (w, [])"
  by (induction w) simp_all

lemma text_fields_word:
  assumes "w \<noteq> []" and "\<forall>c \<in> set w. solid c"
  shows "text_fields (w @ CHR '' '' # s) = w # text_fields s" and "text_fields w = [w]"
proof -
  obtain c u where w: "w = c # u" using assms(1) by (cases w) auto
  then have "trim_runes space_runes (w @ x) = w @ x" for x using assms(2) by (simp add: trim_runes_fixed)
  note trim = this this [of "[]", simplified]
  have u: "\<forall>c \<in> set u. solid c" using assms(2) w by simp
  show "text_fields (w @ CHR '' '' # s) = w # text_fields s"
    using trim(1) [of "CHR '' '' # s"] w take_word_solid [OF u]
    by (subst text_fields.simps) (simp add: text_fields_space)
  show "text_fields w = [w]"
    using trim(2) w take_word_all [OF u]
    by (subst text_fields.simps) (simp add: text_fields.simps [of "[]"] trim_runes_fixed starts_with_any_def)
qed

lemma text_fields_quote: "\<exists>w ws. text_fields (dquote # s) = w # ws"
proof -
  have "trim_runes space_runes (dquote # s) = dquote # s" by (simp add: trim_runes_fixed solid_def)
  then show ?thesis by (subst text_fields.simps) simp
qed

lemma word_text_props:
  fixes x :: "'a::len word"
  shows "word_text x \<noteq> []" "\<forall>c \<in> set (word_text x). solid c" "list_all is_digit (word_text x)"
proof -
  show d: "list_all is_digit (word_text x)" by (simp add: word_text_def nat_to_dec_digits)
  then show "\<forall>c \<in> set (word_text x). solid c" by (auto simp: list_all_iff is_digit_def solid_def)
qed (simp add: word_text_def)

lemma parse_word_text:
  fixes x :: "'a::len word"
  assumes "LENGTH('a) = n"
  shows "parse_uint n (word_text x) = Some (unat x)"
  using assms word_text_props [of x] unsigned_less [of x, where 'a = nat]
  by (auto simp: parse_uint_def word_text_def)

lemma whole_integer: "0 \<le> k \<Longrightarrow> k \<le> m \<Longrightarrow> whole_upto m (of_int k)" "rat_word (of_int k) = word_of_int k"
  by (simp_all add: whole_upto_def rat_word_def)

lemma whole_word:
  fixes x :: "'a::len word"
  assumes "(2 :: int) ^ LENGTH('a) = m + 1"
  shows "whole_upto m (word_rat x)" and "rat_word (word_rat x) = x"
proof -
  have r: "word_rat x = of_int (uint x)" by (simp add: word_rat_def)
  have "uint x \<le> m" using assms unsigned_less [of x, where 'a = int] by simp
  then show "whole_upto m (word_rat x)" unfolding r by (intro whole_integer(1)) simp_all
  show "rat_word (word_rat x) = x" unfolding r whole_integer(2) by simp
qed

section \<open>Contents\<close>

lemma entryTarget_solid:
  assumes "idna_laws (idna_ToASCII E)" and "no_wide_dot (entry_target_text e)" and "entryTarget E e = Inr t"
  shows "t \<noteq> [] \<and> (\<forall>c \<in> set t. solid c)"
proof -
  have "t = ''.'' \<or> canonical_name E False t" by (rule entryTarget_canonical [OF assms])
  then show ?thesis
  proof
    assume "canonical_name E False t"
    then have n: "name_form E False t" by (simp add: canonical_name_def)
    then have "t \<noteq> []" using name_form_props by blast
    with name_form_chars [OF n] name_char_props show ?thesis by blast
  qed (simp add: solid_def)
qed

lemma srv_content:
  fixes p w q :: "16 word"
  assumes "t \<noteq> []" and "\<forall>c \<in> set t. solid c"
  shows "parse_srv_content (trim_space (word_text p @ '' '' @ word_text w @ '' '' @ word_text q @ '' '' @ t))
    = Inr (empty_entry\<lparr>re_Priority := Some p, re_Weight := Some w, re_Port := Some q, re_Target := Some t\<rparr>)"
proof -
  let ?s = "word_text p @ '' '' @ word_text w @ '' '' @ word_text q @ '' '' @ t"
  note wt = word_text_props
  have "hd ?s \<in> set (word_text p)" using wt(1) [of p] by simp
  moreover have "last ?s \<in> set t" using assms(1) by simp
  ultimately have trim: "trim_space ?s = ?s" using wt [of p] assms by (intro trim_space_solid) auto
  have "text_fields ?s = [word_text p, word_text w, word_text q, t]"
    using text_fields_word(1) [OF wt(1,2) [of p]] text_fields_word(1) [OF wt(1,2) [of w]]
      text_fields_word(1) [OF wt(1,2) [of q]] text_fields_word(2) [OF assms] by simp
  then show ?thesis
    unfolding trim parse_srv_content_def by (simp add: parse_word_text)
qed

lemma caa_content:
  fixes f :: "8 word"
  assumes "plain_labels E" and "g \<noteq> []" and "\<forall>c \<in> set g. solid c" and "valid_utf8 v"
  shows "if 255 < length v then isl (parse_caa_content E (trim_space (word_text f @ '' '' @ g @ '' '' @ wireTXTContent v)))
    else parse_caa_content E (trim_space (word_text f @ '' '' @ g @ '' '' @ wireTXTContent v))
      = Inr (empty_entry\<lparr>re_Flags := Some f, re_Tag := Some g, re_Value := v\<rparr>)"
proof -
  let ?w = "wireTXTContent v"
  let ?s = "word_text f @ '' '' @ g @ '' '' @ ?w"
  note wt = word_text_props [of f]
  have ends: "?w \<noteq> []" "last ?w = dquote" "hd ?w = dquote" by (simp_all add: wireTXTContent_def)
  have "hd ?s \<in> set (word_text f)" using wt(1) by simp
  moreover have "last ?s = dquote" using ends by simp
  ultimately have trim: "trim_space ?s = ?s" using wt ends by (intro trim_space_solid) (auto simp: solid_def)
  have "solid (hd g)" using assms(2,3) by simp
  then have trim2: "trim_space (CHR '' '' # g @ '' '' @ ?w) = g @ '' '' @ ?w"
    and trim3: "trim_space (CHR '' '' # ?w) = ?w"
    using ends assms(2) trim_space_solid [of "g @ '' '' @ ?w"] trim_space_solid [of ?w]
    by (simp_all add: trim_leading_blank solid_def)
  obtain u us where "text_fields ?w = u # us"
    using text_fields_quote [of "concat (map wire_char v) @ [dquote]"] by (auto simp: wireTXTContent_def)
  then have "text_fields ?s = word_text f # g # u # us"
    using text_fields_word(1) [OF wt(1,2)] text_fields_word(1) [OF assms(2,3)] by simp
  moreover have "trim_space (trim_prefix (trim_space (trim_prefix ?s (word_text f))) g) = ?w"
    using trim2 trim3 by (simp del: append_assoc)
  ultimately show ?thesis
    using parse_wire [OF assms(1,4)] ends
    unfolding trim parse_caa_content_def
    by (auto simp: parse_word_text Let_def wireTXTContent_def wrap_err_def and_then_def isl_def split: if_splits sum.splits)
qed

text \<open>C39: What the adapter writes for an entry that normalisation returned, from a target without the wide dots of
  Unicode, is what it reads back, for each record type that Cloudflare supports: from the content for
  every type, and from the structured data of CAA and SRV records - with one exception. A text or a CAA value
  of more than 255 bytes is written as one quoted segment, which Cloudflare splits; the adapter's own reader
  refuses it unsplit. The conversion of labels is assumed to keep the two labels of the name that the reader
  invents.\<close>

theorem cloudflare_content_round_trip:
  assumes "idna_laws (idna_ToASCII E)" and "plain_labels E" and "cloudflareRecordTypeSupported t"
    and "no_wide_dot (entry_target_text raw)" and "normalizeRecordEntry E t raw = Inr e"
  shows "(\<exists>content priority. wireRecordContent t e = Inr (content, priority)
      \<and> (if (t = RecordTypeTXT \<or> t = RecordTypeCAA) \<and> 255 < length (re_Value e)
         then isl (parseRecordContent E t content priority)
         else \<exists>e'. parseRecordContent E t content priority = Inr e' \<and> equalRecordEntry e' e))
    \<and> (t = RecordTypeCAA \<or> t = RecordTypeSRV \<longrightarrow>
        (\<exists>e'. parseRecordResponse E t (r\<lparr>cfr_Data := structuredRecordData t e\<rparr>) = Inr e' \<and> equalRecordEntry e' e))"
proof -
  note defs = wireRecordContent_def parseRecordContent_def equalRecordEntry_def Let_def
  consider (address) fam where "t = RecordTypeA \<or> t = RecordTypeAAAA" "normalize_address t fam raw = Inr e"
    | (quoted) "t = RecordTypeTXT" | (target) "t = RecordTypeCNAME \<or> t = RecordTypeNS" "normalize_target E raw = Inr e"
    | (mx) "t = RecordTypeMX" | (srv) "t = RecordTypeSRV" | (caa) "t = RecordTypeCAA"
    using assms(3,5) by (auto simp: cloudflareRecordTypeSupported_def normalizeRecordEntry_def)
  then show ?thesis
  proof cases
    case address
    then obtain a where a: "ParseAddr (trim_space (re_Value raw)) = Some a" and e: "e = raw\<lparr>re_Value := addr_string a\<rparr>"
      and only: "requireOnlyValue raw = Inr ()"
      by (auto simp: normalize_address_def and_then_Inr Let_def split: option.splits if_splits)
    let ?n = "empty_entry\<lparr>re_Value := addr_string a\<rparr>"
    have "wireRecordContent t e = Inr (addr_string a, 0)" "parseRecordContent E t (addr_string a) 0 = Inr ?n"
      "equalRecordEntry ?n e" "\<not> (t = RecordTypeCAA \<or> t = RecordTypeSRV)"
      using address(1) addr_string_trimmed [OF a] only unfolding e
      by (auto simp: defs requireOnlyValue_Inr empty_entry_def)
    with address(1) show ?thesis by auto
  next
    case quoted
    with assms(5) obtain v where v: "canonicalizeTXT (re_Value raw) = Inr v" and e: "e = raw\<lparr>re_Value := v\<rparr>"
      and only: "requireOnlyValue raw = Inr ()"
      by (auto simp: normalizeRecordEntry_def and_then_Inr)
    have "valid_utf8 v" using canonicalizeTXT_bounds [OF v] by blast
    from parse_wire [OF assms(2) this] quoted only show ?thesis
      unfolding e by (auto simp: defs requireOnlyValue_Inr empty_entry_def wrap_err_def and_then_def isl_def split: if_splits sum.splits)
  next
    case target
    then obtain g where g: "entryTarget E raw = Inr g" and e: "e = (resetSemanticFields raw)\<lparr>re_Target := Some g\<rparr>"
      by (auto simp: normalize_target_def and_then_Inr Let_def split: if_splits)
    let ?n = "empty_entry\<lparr>re_Target := Some g\<rparr>"
    have "wireRecordContent t e = Inr (g, 0)" "parseRecordContent E t g 0 = Inr ?n" "equalRecordEntry ?n e"
      "\<not> (t = RecordTypeCAA \<or> t = RecordTypeSRV)"
      using entryTarget_solid [OF assms(1,4) g] target(1) unfolding e
      by (auto simp: defs pointer_string_def trim_space_all_solid empty_entry_def)
    with target(1) show ?thesis by auto
  next
    case mx
    with assms(5) obtain g p where g: "entryTarget E raw = Inr g"
      and e: "e = (resetSemanticFields raw)\<lparr>re_Priority := Some p, re_Target := Some g\<rparr>"
      by (auto simp: normalizeRecordEntry_def normalize_mx_def and_then_Inr split: if_splits)
    have "whole_upto 65535 (word_rat p)" "rat_word (word_rat p) = p" by (rule whole_word; simp)+
    with entryTarget_solid [OF assms(1,4) g] mx show ?thesis
      unfolding e by (auto simp: defs pointer_string_def pointer_word_def trim_space_all_solid empty_entry_def)
  next
    case srv
    with assms(5) obtain g p w q where g: "entryTarget E raw = Inr g"
      and e: "e = (resetSemanticFields raw)\<lparr>re_Priority := Some p, re_Weight := Some w, re_Port := Some q, re_Target := Some g\<rparr>"
      by (auto simp: normalizeRecordEntry_def normalize_srv_def and_then_Inr split: if_splits)
    have "whole_upto 65535 (word_rat x)" "rat_word (word_rat x) = x" for x :: "16 word" by (rule whole_word; simp)+
    with entryTarget_solid [OF assms(1,4) g] srv srv_content [of g p w q] show ?thesis
      unfolding e
      by (auto simp: defs pointer_string_def pointer_word_def empty_entry_def parseRecordResponse_def structuredRecordData_def)
  next
    case caa
    with assms(5) obtain f g v where e: "e = (resetSemanticFields raw)\<lparr>re_Flags := Some f, re_Tag := Some g, re_Value := v\<rparr>"
      and g: "g \<noteq> []" "asciiLettersDigits g" and v: "valid_utf8 v"
      by (auto simp: normalizeRecordEntry_def normalize_caa_def and_then_Inr Let_def split: if_splits option.splits)
    have "\<forall>c \<in> set g. solid c"
      using g(2) by (auto simp: asciiLettersDigits_def list_all_iff is_lower_def is_digit_def solid_def)
    moreover have "whole_upto 255 (word_rat x)" "rat_word (word_rat x) = x" for x :: "8 word" by (rule whole_word; simp)+
    ultimately show ?thesis
      using caa_content [OF assms(2) g(1) _ v, of f] caa unfolding e
      by (auto simp: defs pointer_string_def pointer_word_def empty_entry_def parseRecordResponse_def structuredRecordData_def
          split: if_splits)
  qed
qed

end
