(* ===== verification/Cloudflare_Groups.thy ===== *)
theory Cloudflare_Groups
  imports Cloudflare_Contents
begin

text \<open>
  Identifiers of logical record sets and the grouping of records. The grouping loses no record and puts two
  records into one set exactly when their keys agree; the identifier of a set names its records.
\<close>

section \<open>Identifiers\<close>

lemma sort_Nil_iff: "sort xs = [] \<longleftrightarrow> xs = []"
  by (metis set_empty set_sort)

lemma encodeRecordSetID_Inr:
  "encodeRecordSetID xs = Inr i \<longleftrightarrow>
     xs \<noteq> [] \<and> list_all validCloudflareOpaqueID xs \<and> i = recordSetIDPrefix @ b64_encode (marshal_strings (sort xs))"
  by (auto simp: encodeRecordSetID_def Let_def list_all_iff sort_Nil_iff)

lemma encodeRecordSetID_sort [simp]: "encodeRecordSetID (sort xs) = encodeRecordSetID xs"
  by (simp add: encodeRecordSetID_def sorted_sort_id)

lemma b64_char_solid: "v < 64 \<Longrightarrow> solid (b64_char v)"
  by (auto simp: b64_char_def solid_def)

lemma record_set_id_trimmed: "trim_space (recordSetIDPrefix @ b64_encode s) = recordSetIDPrefix @ b64_encode s"
proof (rule trim_space_all_solid)
  have "solid c" if "c \<in> set (b64_encode s)" for c
    using b64_encode_alphabet [OF that] b64_char_solid by blast
  moreover have "list_all solid recordSetIDPrefix" by code_simp
  ultimately show "\<forall>c \<in> set (recordSetIDPrefix @ b64_encode s). solid c" by (auto simp: list_all_iff)
qed (simp add: recordSetIDPrefix_def)

lemma decodeRecordSetID_Inr:
  "decodeRecordSetID F i = Inr ids \<Longrightarrow> encodeRecordSetID ids = Inr i \<and> sorted ids \<and> distinct ids"
  by (auto simp: decodeRecordSetID_def and_then_Inr check_ids_Inr Let_def split: if_splits option.splits)

lemma decode_encode:
  assumes "encodeRecordSetID xs = Inr i" and "distinct xs"
    and "cfe_unmarshal F (marshal_strings (sort xs)) = Some (sort xs)"
  shows "decodeRecordSetID F i = Inr (sort xs)"
proof -
  have i: "i = recordSetIDPrefix @ b64_encode (marshal_strings (sort xs))" and ok: "xs \<noteq> []" "list_all validCloudflareOpaqueID xs"
    using assms(1) by (auto simp: encodeRecordSetID_Inr)
  have "check_ids [] (sort xs) = Inr ()" using ok assms(2) by (simp add: check_ids_Inr list_all_iff)
  then show ?thesis
    using assms(1,3) ok unfolding decodeRecordSetID_def i
    by (simp add: record_set_id_trimmed b64_round_trip sort_Nil_iff sorted_sort_id)
qed

section \<open>The groups\<close>

definition mapped_records ::
  "text_env \<Rightarrow> string \<Rightarrow> cf_record list \<Rightarrow> (record_entry \<times> record_group_key \<times> string list \<times> time) list result" where
  "mapped_records E zoneName source =
     traverse (\<lambda>r. mapRecord E zoneName r (record_type_of E r))
       (filter (\<lambda>r. cloudflareRecordTypeSupported (record_type_of E r)) source)"

definition all_groups :: "(record_entry \<times> record_group_key \<times> string list \<times> time) list \<Rightarrow> record_group list \<Rightarrow> record_group list" where
  "all_groups ms gs = fold (\<lambda>(e, k, t, v). add_to_groups e k t v) ms gs"

lemma collect_groups_mapped:
  "collect_groups E zoneName source gs = Inr gs' \<longleftrightarrow>
     (\<exists>ms. mapped_records E zoneName source = Inr ms \<and> gs' = all_groups ms gs)"
proof (induction E zoneName source gs rule: collect_groups.induct)
  case (2 E zoneName r rs groups)
  show ?case
  proof (cases "cloudflareRecordTypeSupported (record_type_of E r)")
    case True
    with 2(2) show ?thesis
      by (cases "mapRecord E zoneName r (record_type_of E r)")
        (auto simp: mapped_records_def all_groups_def and_then_def Let_def split: sum.splits)
  qed (use 2(1) in \<open>simp add: mapped_records_def Let_def\<close>)
qed (auto simp: mapped_records_def all_groups_def)

definition entries_of :: "record_group_key \<Rightarrow> (record_entry \<times> record_group_key \<times> string list \<times> time) list \<Rightarrow> record_entry list" where
  "entries_of k ms = map fst (filter (\<lambda>m. fst (snd m) = k) ms)"

text \<open>What the groups are after some records.\<close>

definition groups_ok :: "(record_entry \<times> record_group_key \<times> string list \<times> time) list \<Rightarrow> record_group list \<Rightarrow> bool" where
  "groups_ok ms gs \<longleftrightarrow>
     distinct (map gr_key gs) \<and> set (map gr_key gs) = (fst \<circ> snd) ` set ms
     \<and> (\<forall>g \<in> set gs. gr_entries g = entries_of (gr_key g) ms)"

lemma add_to_groups_keys:
  "map gr_key (add_to_groups e k t v gs) = (if k \<in> set (map gr_key gs) then map gr_key gs else map gr_key gs @ [k])"
  by (induction e k t v gs rule: add_to_groups.induct) auto

lemma add_to_groups_entries:
  "distinct (map gr_key gs) \<Longrightarrow> g \<in> set (add_to_groups e k t v gs) \<Longrightarrow>
     (if gr_key g = k then gr_entries g = concat (map gr_entries (filter (\<lambda>g. gr_key g = k) gs)) @ [e] else g \<in> set gs)"
proof (induction e k t v gs rule: add_to_groups.induct)
  case (2 e k t v g' gs)
  show ?case
  proof (cases "gr_key g' = k")
    case True
    then have "filter (\<lambda>g. gr_key g = k) gs = []" using 2(2) by (auto simp: filter_empty_conv image_iff)
    with 2 True show ?thesis by (auto simp: image_iff)
  next
    case False
    with 2 show ?thesis by auto
  qed
qed auto

lemma filter_one_key:
  "distinct (map gr_key gs) \<Longrightarrow> h \<in> set gs \<Longrightarrow> filter (\<lambda>g. gr_key g = gr_key h) gs = [h]"
  by (induction gs) (auto simp: filter_empty_conv image_iff)

lemma groups_ok_step:
  assumes "groups_ok ms gs"
  shows "groups_ok (ms @ [(e, k, t, v)]) (add_to_groups e k t v gs)"
proof -
  have keys: "distinct (map gr_key gs)" "set (map gr_key gs) = (fst \<circ> snd) ` set ms"
    and old: "\<And>g. g \<in> set gs \<Longrightarrow> gr_entries g = entries_of (gr_key g) ms"
    using assms by (auto simp: groups_ok_def)
  have entries: "gr_entries g = entries_of (gr_key g) (ms @ [(e, k, t, v)])" if g: "g \<in> set (add_to_groups e k t v gs)" for g
  proof (cases "gr_key g = k")
    case True
    have "concat (map gr_entries (filter (\<lambda>g. gr_key g = k) gs)) = entries_of k ms"
    proof (cases "k \<in> set (map gr_key gs)")
      case True
      then obtain h where "h \<in> set gs" "gr_key h = k" by auto
      then have "filter (\<lambda>g. gr_key g = k) gs = [h]" using keys(1) by (auto simp: filter_one_key)
      with old [OF \<open>h \<in> set gs\<close>] \<open>gr_key h = k\<close> show ?thesis by simp
    next
      case False
      then have "filter (\<lambda>g. gr_key g = k) gs = []" by (auto simp: filter_empty_conv)
      moreover have "entries_of k ms = []" using False unfolding keys(2) by (force simp: entries_of_def filter_empty_conv)
      ultimately show ?thesis by simp
    qed
    with add_to_groups_entries [OF keys(1) g] True show ?thesis by (simp add: entries_of_def)
  next
    case False
    with add_to_groups_entries [OF keys(1) g] old show ?thesis by (simp add: entries_of_def)
  qed
  have "map gr_key (add_to_groups e k t v gs) = (if k \<in> set (map gr_key gs) then map gr_key gs else map gr_key gs @ [k])"
    by (rule add_to_groups_keys)
  then have "distinct (map gr_key (add_to_groups e k t v gs))"
    and "set (map gr_key (add_to_groups e k t v gs)) = (fst \<circ> snd) ` set (ms @ [(e, k, t, v)])"
    using keys by (auto simp del: set_map)
  with entries show ?thesis by (auto simp: groups_ok_def)
qed

lemma groups_ok_all: "groups_ok ms gs \<Longrightarrow> groups_ok (ms @ ns) (all_groups ns gs)"
proof (induction ns arbitrary: ms gs)
  case (Cons n ns)
  obtain e k t v where n: "n = (e, k, t, v)" by (metis prod_cases4)
  have "groups_ok (ms @ [n]) (add_to_groups e k t v gs)" unfolding n by (rule groups_ok_step [OF Cons.prems])
  from Cons.IH [OF this] show ?case by (simp add: all_groups_def n)
qed (simp add: all_groups_def)

lemma add_to_groups_mset:
  "mset (concat (map gr_entries (add_to_groups e k t v gs))) = add_mset e (mset (concat (map gr_entries gs)))"
  by (induction e k t v gs rule: add_to_groups.induct) auto

definition key_tags :: "record_group list \<Rightarrow> (record_group_key \<times> string list) set" where
  "key_tags gs = (\<lambda>g. (gr_key g, gr_tags g)) ` set gs"

lemma add_to_groups_tags: "key_tags (add_to_groups e k t v gs) \<subseteq> insert (k, t) (key_tags gs)"
  by (induction e k t v gs rule: add_to_groups.induct) (auto simp: key_tags_def split: if_splits)

lemma all_groups_mset: "mset (concat (map gr_entries (all_groups ms gs))) = mset (concat (map gr_entries gs)) + mset (map fst ms)"
  by (induction ms arbitrary: gs) (auto simp: all_groups_def add_to_groups_mset simp del: mset_concat)

lemma all_groups_tags: "key_tags (all_groups ms gs) \<subseteq> key_tags gs \<union> (\<lambda>m. (fst (snd m), fst (snd (snd m)))) ` set ms"
proof (induction ms arbitrary: gs)
  case (Cons m ms)
  obtain e k t v where m: "m = (e, k, t, v)" by (metis prod_cases4)
  show ?case using Cons.IH [of "add_to_groups e k t v gs"] add_to_groups_tags [of e k t v gs]
    by (auto simp: all_groups_def m)
qed (auto simp: all_groups_def)

section \<open>The record sets of the groups\<close>

lemma normalizeRecordEntry_ID: "normalizeRecordEntry E t e = Inr n \<Longrightarrow> re_ID n = re_ID e"
  by (cases t)
    (auto simp: normalizeRecordEntry_def normalize_address_def normalize_target_def normalize_mx_def normalize_srv_def
       normalize_caa_def resetSemanticFields_def and_then_Inr Let_def split: if_splits option.splits)

lemma normalized_ids:
  "list_all2 (\<lambda>e n. normalizeRecordEntry E t e = Inr n) es ns \<Longrightarrow> entryIDs ns = entryIDs es"
  by (induction rule: list_all2_induct) (auto simp: entryIDs_def normalizeRecordEntry_ID)

lemma group_record_set_Inr:
  assumes "group_record_set F zoneName g = Inr rs"
  shows "entryIDs (rs_Entries rs) = entryIDs (sort_key re_ID (gr_entries g))"
    and "encodeRecordSetID (entryIDs (rs_Entries rs)) = Inr (rs_ID rs)"
    and "gk_tags (gr_key g) = tagsCanonical (gr_tags g) \<Longrightarrow>
         groupKeyFromRecordSet rs = gr_key g\<lparr>gk_name := rs_Name rs\<rparr>"
proof -
  from assms obtain i where i: "encodeRecordSetID (entryIDs (sort_key re_ID (gr_entries g))) = Inr i"
    and n: "NormalizeRecordSet (cfe_text F) zoneName
             \<lparr>rs_ID = i, rs_Name = gk_name (gr_key g), rs_Type = gk_type (gr_key g), rs_TTL = gk_ttl (gr_key g),
              rs_Entries = sort_key re_ID (gr_entries g),
              rs_Extensions = no_set_extensions\<lparr>sx_Cloudflare :=
                Some \<lparr>cfs_Proxied = Some (gk_proxied (gr_key g)), cfs_Proxiable = Some (gk_proxiable (gr_key g)),
                      cfs_AutomaticTTL = Some (gk_automaticTTL (gr_key g)), cfs_Comment = gk_comment (gr_key g),
                      cfs_Tags = gr_tags g\<rparr>\<rparr>,
              rs_ProviderVersion = (if gr_version g = 0 then [] else cfe_format F (gr_version g)),
              rs_Fingerprint = []\<rparr> = Inr rs"
    by (auto simp: group_record_set_def and_then_Inr Let_def)
  from n show "entryIDs (rs_Entries rs) = entryIDs (sort_key re_ID (gr_entries g))"
    by (auto simp: NormalizeRecordSet_def normalizeRecordSet_Inr Let_def normalized_ids)
  moreover have "rs_ID rs = i" using n by (auto simp: NormalizeRecordSet_def normalizeRecordSet_Inr Let_def)
  ultimately show "encodeRecordSetID (entryIDs (rs_Entries rs)) = Inr (rs_ID rs)" using i by simp
  show "groupKeyFromRecordSet rs = gr_key g\<lparr>gk_name := rs_Name rs\<rparr>" if "gk_tags (gr_key g) = tagsCanonical (gr_tags g)"
    using n that
    by (auto simp: NormalizeRecordSet_def normalizeRecordSet_Inr Let_def groupKeyFromRecordSet_def
        recordOptionsFromRecordSet_def pointer_bool_def)
qed

text \<open>What the adapter reads of a record, and the key of its group.\<close>

definition supported_records :: "text_env \<Rightarrow> cf_record list \<Rightarrow> cf_record list" where
  "supported_records E source = filter (\<lambda>r. cloudflareRecordTypeSupported (record_type_of E r)) source"

definition record_key :: "text_env \<Rightarrow> string \<Rightarrow> cf_record \<Rightarrow> record_group_key option" where
  "record_key E zoneName r = (case mapRecord E zoneName r (record_type_of E r) of Inl _ \<Rightarrow> None | Inr (_, k, _, _) \<Rightarrow> Some k)"

lemma mapRecord_Inr:
  "mapRecord E zoneName r t = Inr (e, k, tags, v) \<Longrightarrow> re_ID e = cfr_ID r \<and> gk_tags k = tagsCanonical tags"
  by (auto simp: mapRecord_def and_then_Inr Let_def split: if_splits)

lemma mapped_records_Inr:
  assumes "mapped_records E zoneName source = Inr ms"
  shows "map (\<lambda>m. re_ID (fst m)) ms = map cfr_ID (supported_records E source)"
    and "map (\<lambda>m. Some (fst (snd m))) ms = map (record_key E zoneName) (supported_records E source)"
    and "m \<in> set ms \<Longrightarrow> gk_tags (fst (snd m)) = tagsCanonical (fst (snd (snd m)))"
proof -
  have all: "list_all2 (\<lambda>r m. mapRecord E zoneName r (record_type_of E r) = Inr m) (supported_records E source) ms"
    using assms by (simp add: mapped_records_def traverse_Inr supported_records_def)
  from all show "map (\<lambda>m. re_ID (fst m)) ms = map cfr_ID (supported_records E source)"
    by (induction rule: list_all2_induct) (auto dest: mapRecord_Inr)
  from all show "map (\<lambda>m. Some (fst (snd m))) ms = map (record_key E zoneName) (supported_records E source)"
    by (induction rule: list_all2_induct) (auto simp: record_key_def)
  from all show "gk_tags (fst (snd m)) = tagsCanonical (fst (snd (snd m)))" if "m \<in> set ms"
    using that by (induction rule: list_all2_induct) (auto dest: mapRecord_Inr)
qed

text \<open>The groups of a listing, and the sets made of them.\<close>

lemma groupRecords_groups:
  assumes "groupRecords F zoneName source = Inr sets"
  obtains ms gs items where "mapped_records (cfe_text F) zoneName source = Inr ms" "gs = all_groups ms []"
    "list_all2 (\<lambda>g rs. group_record_set F zoneName g = Inr rs) gs items" "sets = sort_key record_set_order items"
  using assms by (auto simp: groupRecords_def and_then_Inr traverse_Inr collect_groups_mapped)

lemma groups_of_mapped:
  assumes "mapped_records E zoneName source = Inr ms" and "g \<in> set (all_groups ms [])"
  shows "gr_entries g = entries_of (gr_key g) ms" and "gk_tags (gr_key g) = tagsCanonical (gr_tags g)"
    and "distinct (map gr_key (all_groups ms []))"
proof -
  have "groups_ok [] []" by (simp add: groups_ok_def)
  then have ok: "groups_ok ms (all_groups ms [])" using groups_ok_all [of "[]" "[]" ms] by simp
  with assms(2) show "gr_entries g = entries_of (gr_key g) ms" and "distinct (map gr_key (all_groups ms []))"
    by (auto simp: groups_ok_def)
  have "(gr_key g, gr_tags g) \<in> (\<lambda>m. (fst (snd m), fst (snd (snd m)))) ` set ms"
    using all_groups_tags [of ms "[]"] assms(2) by (auto simp: key_tags_def)
  with mapped_records_Inr(3) [OF assms(1)] show "gk_tags (gr_key g) = tagsCanonical (gr_tags g)" by auto
qed

lemma entries_of_ids: "re_ID ` set (entries_of k ms) = {re_ID (fst m) | m. m \<in> set ms \<and> fst (snd m) = k}"
  unfolding entries_of_def set_map set_filter by blast

lemma mapped_ids_of_key:
  assumes "mapped_records E zoneName source = Inr ms"
  shows "{re_ID (fst m) | m. m \<in> set ms \<and> fst (snd m) = k} =
         cfr_ID ` {r \<in> set (supported_records E source). record_key E zoneName r = Some k}"
proof -
  have "map (\<lambda>m. (re_ID (fst m), Some (fst (snd m)))) ms
        = map (\<lambda>r. (cfr_ID r, record_key E zoneName r)) (supported_records E source)"
    using mapped_records_Inr(1,2) [OF assms] by (simp add: list_eq_iff_nth_eq)
  then have pairs: "set (map (\<lambda>m. (re_ID (fst m), Some (fst (snd m)))) ms)
        = set (map (\<lambda>r. (cfr_ID r, record_key E zoneName r)) (supported_records E source))" by simp
  have "{re_ID (fst m) | m. m \<in> set ms \<and> fst (snd m) = k}
        = {x. (x, Some k) \<in> set (map (\<lambda>m. (re_ID (fst m), Some (fst (snd m)))) ms)}"
    by (auto simp: image_iff simp del: split_paired_Ex)
  also have "\<dots> = cfr_ID ` {r \<in> set (supported_records E source). record_key E zoneName r = Some k}"
    unfolding pairs by (auto simp: image_iff)
  finally show ?thesis .
qed

lemma sort_key_ids: "mset (entryIDs (sort_key re_ID es)) = mset (map re_ID es)"
  by (simp add: entryIDs_def)

lemma concat_map_mset: "mset (concat (map f xs)) = (\<Sum>x\<in>#mset xs. mset (f x))"
  by (simp add: mset_concat image_mset.compositionality comp_def sum_mset_sum_list [symmetric] del: sum_mset_sum_list)

lemma group_sets_ids:
  "list_all2 (\<lambda>g rs. group_record_set F zoneName g = Inr rs) gs items \<Longrightarrow>
     mset (concat (map (\<lambda>rs. entryIDs (rs_Entries rs)) items)) = image_mset re_ID (mset (concat (map gr_entries gs)))"
  by (induction rule: list_all2_induct) (auto simp: group_record_set_Inr(1) sort_key_ids simp del: mset_concat)

lemma group_of_set:
  assumes "list_all2 (\<lambda>g rs. group_record_set F zoneName g = Inr rs) gs items" and "rs \<in> set items"
  obtains g where "g \<in> set gs" "group_record_set F zoneName g = Inr rs"
  using assms by (induction rule: list_all2_induct) auto

lemma set_entry_ids: "group_record_set F zoneName g = Inr rs \<Longrightarrow> set (entryIDs (rs_Entries rs)) = re_ID ` set (gr_entries g)"
  using arg_cong [OF group_record_set_Inr(1) [of F zoneName g rs], of set] by (simp add: entryIDs_def)

lemma group_ids_conserved:
  assumes "mapped_records E zoneName source = Inr ms" and "gs = all_groups ms []"
    and "list_all2 (\<lambda>g rs. group_record_set F zoneName g = Inr rs) gs items" and "sets = sort_key record_set_order items"
  shows "mset (concat (map (\<lambda>rs. entryIDs (rs_Entries rs)) sets)) = mset (map cfr_ID (supported_records E source))"
proof -
  have "mset (concat (map (\<lambda>rs. entryIDs (rs_Entries rs)) sets)) = mset (concat (map (\<lambda>rs. entryIDs (rs_Entries rs)) items))"
    by (simp add: assms(4) concat_map_mset del: mset_concat)
  also have "\<dots> = mset (map (\<lambda>m. re_ID (fst m)) ms)"
    unfolding group_sets_ids [OF assms(3)] assms(2) all_groups_mset by (simp add: image_mset.compositionality comp_def)
  finally show ?thesis by (simp only: mapped_records_Inr(1) [OF assms(1)])
qed

text \<open>What the property says of one set.\<close>

definition set_shows_records :: "text_env \<Rightarrow> string \<Rightarrow> cf_record list \<Rightarrow> record_set \<Rightarrow> bool" where
  "set_shows_records E zoneName source rs \<longleftrightarrow>
     encodeRecordSetID (entryIDs (rs_Entries rs)) = Inr (rs_ID rs)
     \<and> (\<exists>k. groupKeyFromRecordSet rs = k\<lparr>gk_name := rs_Name rs\<rparr>
            \<and> set (entryIDs (rs_Entries rs)) = cfr_ID ` {r \<in> set (supported_records E source). record_key E zoneName r = Some k})"

text \<open>C38: Grouping a listing loses and repeats no record: the identifiers of the entries of all sets are those of
  the records of supported types, each as often as it was listed. The identifier of a set encodes the
  identifiers of its entries; its records are all those whose key (name, type, TTL, proxy settings, comment,
  tags) is one and the same, and the set has that key's attributes.
\<close>

theorem grouping_is_partition:
  assumes "groupRecords F zoneName source = Inr sets"
  shows "mset (concat (map (\<lambda>rs. entryIDs (rs_Entries rs)) sets)) = mset (map cfr_ID (supported_records (cfe_text F) source))
         \<and> list_all (set_shows_records (cfe_text F) zoneName source) sets"
proof -
  from assms obtain ms gs items where ms: "mapped_records (cfe_text F) zoneName source = Inr ms"
    and gs: "gs = all_groups ms []" and items: "list_all2 (\<lambda>g rs. group_record_set F zoneName g = Inr rs) gs items"
    and sets: "sets = sort_key record_set_order items" by (rule groupRecords_groups)
  have "mset (concat (map (\<lambda>rs. entryIDs (rs_Entries rs)) sets)) = mset (map cfr_ID (supported_records (cfe_text F) source))"
    by (rule group_ids_conserved [OF ms gs items sets])
  moreover have "set_shows_records (cfe_text F) zoneName source rs" if "rs \<in> set sets" for rs
  proof -
    from that have "rs \<in> set items" by (simp add: sets)
    with items obtain g where g: "g \<in> set gs" and rs: "group_record_set F zoneName g = Inr rs" by (rule group_of_set)
    have "set (entryIDs (rs_Entries rs))
          = cfr_ID ` {r \<in> set (supported_records (cfe_text F) source). record_key (cfe_text F) zoneName r = Some (gr_key g)}"
      using g unfolding set_entry_ids [OF rs] gs
      by (simp only: groups_of_mapped(1) [OF ms] entries_of_ids mapped_ids_of_key [OF ms])
    with group_record_set_Inr(2,3) [OF rs] groups_of_mapped(2) [OF ms] g gs show ?thesis
      by (auto simp: set_shows_records_def)
  qed
  ultimately show ?thesis by (simp add: list_all_iff)
qed

end
