(* ===== verification/Cloudflare_Calls.thy ===== *)
theory Cloudflare_Calls
  imports Cloudflare_Groups Redaction Calls
begin

text \<open>
  \<open>internal/provider/cloudflare/provider.go\<close> and \<open>errors.go\<close>: the calls of the SDK, their errors, the
  retries of reads, the pages of zones and records, and the operations that read. The SDK, the context and
  the clock are a record of operations on the state of the outside world. An SDK call answers with the response
  it stored (\<open>option.WithResponseInto\<close>) and an error or a result, which may be nil.
\<close>

section \<open>The SDK\<close>

text \<open>The response: its status and the three headers the adapter reads.\<close>

record cf_response =
  resp_StatusCode :: int
  resp_CFRay :: string
  resp_RequestID :: string
  resp_RetryAfter :: string

text \<open>What \<open>errors.Is\<close> and \<open>errors.As\<close> find in an error of a call; the text is \<open>err.Error()\<close>.\<close>

datatype cf_error =
    CtxError string
  | NetworkError bool string
  | ApiError int "cf_response option" "(int \<times> string) list"
  | OtherError string

type_synonym 'a cf_answer = "cf_response option \<times> (cf_error + 'a option)"

text \<open>A page of a listing. Its JSON document is absent, cannot be decoded, or has page, total count and total pages.\<close>

datatype page_info = NoDocument | BadDocument | PageInfo int int int

record 'a cf_page =
  cp_Result :: "'a list"
  cp_Info :: page_info

record cf_zone =
  cz_ID :: string
  cz_Name :: string
  cz_Status :: string
  cz_NameServers :: "string list"
  cz_Paused :: bool

text \<open>The body of a create or an update of one record; the priority is sent for MX only.\<close>

record cf_body =
  cb_Name :: string
  cb_TTL :: rat
  cb_Type :: string
  cb_Proxied :: bool
  cb_Comment :: string
  cb_Tags :: "string list"
  cb_Content :: "cf_data + string"
  cb_Priority :: "rat option"

text \<open>A context is its deadline; whether it is cancelled is part of the outside world.\<close>

type_synonym ctx = "time option"

record 'w cf_sdk =
  sdk_ListZones :: "ctx \<Rightarrow> nat \<Rightarrow> nat \<Rightarrow> 'w \<Rightarrow> 'w \<times> cf_zone cf_page cf_answer"
  sdk_GetZone :: "ctx \<Rightarrow> string \<Rightarrow> 'w \<Rightarrow> 'w \<times> cf_zone cf_answer"
  sdk_ListRecords :: "ctx \<Rightarrow> string \<Rightarrow> nat \<Rightarrow> nat \<Rightarrow> 'w \<Rightarrow> 'w \<times> cf_record cf_page cf_answer"
  sdk_NewRecord :: "ctx \<Rightarrow> string \<Rightarrow> cf_body \<Rightarrow> 'w \<Rightarrow> 'w \<times> cf_record cf_answer"
  sdk_UpdateRecord :: "ctx \<Rightarrow> string \<Rightarrow> string \<Rightarrow> cf_body \<Rightarrow> 'w \<Rightarrow> 'w \<times> cf_record cf_answer"
  sdk_DeleteRecord :: "ctx \<Rightarrow> string \<Rightarrow> string \<Rightarrow> 'w \<Rightarrow> 'w \<times> unit cf_answer"
  sdk_ContextErr :: "ctx \<Rightarrow> 'w \<Rightarrow> 'w \<times> string option"
  sdk_Wait :: "ctx \<Rightarrow> duration \<Rightarrow> 'w \<Rightarrow> 'w \<times> string option"
  sdk_Now :: "'w \<Rightarrow> 'w \<times> time"
  sdk_Random :: "'w \<Rightarrow> 'w \<times> (nat \<Rightarrow> nat)"
  sdk_ParseTime :: "string \<Rightarrow> time option"
  sdk_UnmarshalCursor :: "string \<Rightarrow> (string \<times> int) option"

section \<open>Errors\<close>

definition one_second :: duration where "one_second = 1000000000"

definition redactedError :: "string \<Rightarrow> go_error option" where
  "redactedError text = Some (PlainError (Redact text []))"

definition responseRequestID :: "cf_response option \<Rightarrow> string" where
  "responseRequestID r =
     (case r of None \<Rightarrow> []
      | Some x \<Rightarrow> if trim_space (resp_CFRay x) \<noteq> [] then trim_space (resp_CFRay x) else trim_space (resp_RequestID x))"

definition errorCodeForResponse :: "int \<Rightarrow> int \<Rightarrow> ErrorCode" where
  "errorCodeForResponse status providerCode =
     (if status = 400 \<and> providerCode \<in> {6003, 6103, 6111, 9103, 10000} then ErrAuthentication
      else if status = 400 \<and> providerCode \<in> {81053, 81054, 81056, 81057, 81058} then ErrConflict
      else if status = 401 then ErrAuthentication
      else if status = 403 then ErrForbidden
      else if status = 404 then ErrNotFound
      else if status = 409 \<or> status = 412 then ErrConflict
      else if status = 429 then ErrRateLimited
      else if status = 400 \<or> status = 422 then ErrValidation
      else if status = 408 \<or> status = 504 then ErrTimeout
      else if status = 405 \<or> status = 501 then ErrUnsupported
      else ErrUpstream)"

definition maximumRetryAfter :: duration where "maximumRetryAfter = 24 * 3600 * one_second"

definition parseRetryAfter :: "(string \<Rightarrow> time option) \<Rightarrow> string \<Rightarrow> time \<Rightarrow> duration" where
  "parseRetryAfter parse_time raw current =
     (let v = trim_space raw in
      if v = [] then 0
      else (case parse_int64 v of
          Some seconds \<Rightarrow>
            if seconds \<le> 0 then 0
            else if seconds > maximumRetryAfter div one_second then maximumRetryAfter
            else seconds * one_second
        | None \<Rightarrow>
            (case parse_time v of None \<Rightarrow> 0
             | Some t \<Rightarrow> if t \<le> current then 0 else if t - current > maximumRetryAfter then maximumRetryAfter else t - current)))"

text \<open>The clock is read for the answer to a rate limit only.\<close>

definition mapError :: "'w cf_sdk \<Rightarrow> string \<Rightarrow> cf_error \<Rightarrow> 'w \<Rightarrow> 'w \<times> go_error" where
  "mapError S operation err w =
     (case err of
        CtxError m \<Rightarrow> (w, ProviderErr (NewError ErrTimeout operation [] 0 (redactedError m)))
      | NetworkError timeout m \<Rightarrow>
          (w, ProviderErr (NewError (if timeout then ErrTimeout else ErrUpstream) operation [] 0 (redactedError m)))
      | OtherError m \<Rightarrow> (w, ProviderErr (NewError ErrUpstream operation [] 0 (redactedError m)))
      | ApiError statusCode response errors \<Rightarrow>
          (let status = (if statusCode = 0 then (case response of None \<Rightarrow> 0 | Some r \<Rightarrow> resp_StatusCode r) else statusCode);
               providerCode = (case errors of [] \<Rightarrow> 0 | (c, _) # _ \<Rightarrow> c);
               message = (case errors of [] \<Rightarrow> ''Cloudflare API returned HTTP '' @ itoa status
                          | (c, m) # _ \<Rightarrow> ''Cloudflare API error '' @ itoa c @ '': '' @ m);
               code = errorCodeForResponse status providerCode;
               requestID = responseRequestID response
           in case response of
                Some r \<Rightarrow>
                  if code = ErrRateLimited
                  then (case sdk_Now S w of (w, t) \<Rightarrow>
                    (w, ProviderErr (NewError code operation requestID (parseRetryAfter (sdk_ParseTime S) (resp_RetryAfter r) t) (redactedError message))))
                  else (w, ProviderErr (NewError code operation requestID 0 (redactedError message)))
              | None \<Rightarrow> (w, ProviderErr (NewError code operation requestID 0 (redactedError message)))))"

definition providerPayloadError :: "string \<Rightarrow> cf_response option \<Rightarrow> string \<Rightarrow> go_error" where
  "providerPayloadError operation response m =
     ProviderErr (NewError ErrUpstream operation (responseRequestID response) 0 (redactedError m))"

definition reoperation :: "go_error \<Rightarrow> string \<Rightarrow> go_error" where
  "reoperation err operation =
     (case MapError (Some err) operation of
        Some (ProviderError c m i d _ cause) \<Rightarrow> ProviderErr (ProviderError c m i d operation cause)
      | None \<Rightarrow> err)"

text \<open>An error without a response, and one of a refetched state.\<close>

definition validation_error :: "string \<Rightarrow> string \<Rightarrow> go_error" where
  "validation_error operation m = ProviderErr (NewError ErrValidation operation [] 0 (Some (PlainError m)))"

definition coded_error :: "ErrorCode \<Rightarrow> string \<Rightarrow> cf_response option \<Rightarrow> string \<Rightarrow> go_error" where
  "coded_error code operation response m =
     ProviderErr (NewError code operation (responseRequestID response) 0 (Some (PlainError m)))"

section \<open>Reads\<close>

definition readAttempts :: nat where "readAttempts = 3"

definition maximumReadRetryDelay :: duration where "maximumReadRetryDelay = 15 * one_second"

definition defaultRequestTimeout :: duration where "defaultRequestTimeout = 30 * one_second"

text \<open>A context with a deadline is kept; otherwise the deadline is the timeout from now.\<close>

definition requestContext :: "'w cf_sdk \<Rightarrow> duration \<Rightarrow> ctx \<Rightarrow> 'w \<Rightarrow> 'w \<times> ctx" where
  "requestContext S timeout c w =
     (case c of Some d \<Rightarrow> (w, Some d)
      | None \<Rightarrow> (case sdk_Now S w of (w, t) \<Rightarrow> (w, Some (t + (if timeout \<le> 0 then defaultRequestTimeout else timeout)))))"

definition retryableReadError :: "provider_error \<Rightarrow> bool" where
  "retryableReadError e \<longleftrightarrow> pe_Code e = ErrRateLimited \<or> pe_Code e = ErrTimeout \<or> pe_Code e = ErrUpstream"

definition context_error :: "string \<Rightarrow> string \<Rightarrow> go_error" where
  "context_error operation m = ProviderErr (NewError ErrTimeout operation [] 0 (redactedError m))"

text \<open>Whether a delay still fits before the deadline.\<close>

definition deadline_allows :: "'w cf_sdk \<Rightarrow> ctx \<Rightarrow> duration \<Rightarrow> 'w \<Rightarrow> 'w \<times> bool" where
  "deadline_allows S c delay w =
     (case c of None \<Rightarrow> (w, True)
      | Some d \<Rightarrow> (case sdk_Now S w of (w, t) \<Rightarrow> (w, d - t > delay)))"

text \<open>What is decided after a failed attempt: the error to return, or none after the wait.\<close>

definition after_failure :: "'w cf_sdk \<Rightarrow> ctx \<Rightarrow> string \<Rightarrow> nat \<Rightarrow> go_error \<Rightarrow> 'w \<Rightarrow> 'w \<times> go_error option" where
  "after_failure S c operation n mappedError w =
     (case sdk_ContextErr S c w of (w, e) \<Rightarrow>
      case e of Some m \<Rightarrow> (w, Some (context_error operation m))
      | None \<Rightarrow>
        (case mappedError of
           ProviderErr mapped \<Rightarrow>
             if n = readAttempts - 1 \<or> \<not> retryableReadError mapped then (w, Some mappedError)
             else
               (case sdk_Random S w of (w, rnd) \<Rightarrow>
                case ReadRetryDelay rnd (2 ^ n * 100 * 1000000) (pe_RetryAfter mapped) maximumReadRetryDelay of
                  (delay, retry) \<Rightarrow>
                    if \<not> retry then (w, Some mappedError)
                    else (case deadline_allows S c delay w of (w, fits) \<Rightarrow>
                          if \<not> fits then (w, Some mappedError)
                          else (case sdk_Wait S c delay w of (w, e) \<Rightarrow> (w, map_option (context_error operation) e))))
         | _ \<Rightarrow> (w, Some mappedError)))"

text \<open>
  The loop of \<open>readCall\<close> from attempt \<open>n\<close>. A result that is nil is an answer like any other. The return
  after the loop is reached with no attempt made only.
\<close>

function read_from ::
  "'w cf_sdk \<Rightarrow> ctx \<Rightarrow> string \<Rightarrow> ('w \<Rightarrow> 'w \<times> 'a cf_answer) \<Rightarrow> nat \<Rightarrow> go_error option
   \<Rightarrow> 'w \<Rightarrow> 'w \<times> (go_error + cf_response option \<times> 'a option)" where
  "read_from S c operation call n lastError w =
     (if n \<ge> readAttempts then (w, case lastError of None \<Rightarrow> Inr (None, None) | Some e \<Rightarrow> Inl e)
      else
        (case sdk_ContextErr S c w of (w, e) \<Rightarrow>
         case e of Some m \<Rightarrow> (w, Inl (context_error operation m))
         | None \<Rightarrow>
           (case call w of (w, raw, answer) \<Rightarrow>
            case answer of Inr x \<Rightarrow> (w, Inr (raw, x))
            | Inl err \<Rightarrow>
              (case mapError S operation err w of (w, mappedError) \<Rightarrow>
               case after_failure S c operation n mappedError w of (w, stop) \<Rightarrow>
               case stop of Some e \<Rightarrow> (w, Inl e)
               | None \<Rightarrow> read_from S c operation call (Suc n) (Some mappedError) w))))"
  by pat_completeness auto
termination
  by (relation "measure (\<lambda>(S, c, operation, call, n, lastError, w). readAttempts - n)") auto

declare read_from.simps [simp del]

definition readCall ::
  "'w cf_sdk \<Rightarrow> ctx \<Rightarrow> string \<Rightarrow> ('w \<Rightarrow> 'w \<times> 'a cf_answer) \<Rightarrow> 'w \<Rightarrow> 'w \<times> (go_error + cf_response option \<times> 'a option)" where
  "readCall S c operation call w = read_from S c operation call 0 None w"

section \<open>Pages\<close>

definition maxProviderPageCount :: nat where "maxProviderPageCount = 1000000"

definition zonePageSize :: nat where "zonePageSize = 50"

definition recordPageSize :: nat where "recordPageSize = 5000"

text \<open>The checks of the page's own numbers, and those of its document.\<close>

definition document_has_more :: "int \<Rightarrow> int \<Rightarrow> int \<Rightarrow> int \<Rightarrow> int \<Rightarrow> int \<Rightarrow> int \<Rightarrow> bool result" where
  "document_has_more pg totalCount totalPages pageNumber totalLoaded pageCount requestedPageSize =
     (if pg < 0 \<or> totalCount < 0 \<or> totalPages < 0 then Inl ''Cloudflare pagination metadata is invalid''
      else if pg > 0 \<and> pg \<noteq> pageNumber then Inl ''Cloudflare pagination returned a non-advancing page number''
      else if totalPages = 0 \<and> totalCount > 0 \<and> totalLoaded > totalCount then Inl ''Cloudflare pagination exceeded its total count''
      else if totalPages > 0
      then if totalPages < pageNumber then Inl ''Cloudflare pagination exceeded its total pages''
           else if pageNumber < totalPages \<and> pageCount = 0 then Inl ''Cloudflare pagination returned an empty non-final page''
           else Inr (pageNumber < totalPages)
      else if totalCount > 0
      then if totalLoaded < totalCount \<and> pageCount = 0 then Inl ''Cloudflare pagination returned an empty non-final page''
           else Inr (totalLoaded < totalCount)
      else Inr (pageCount \<ge> requestedPageSize))"

definition cloudflarePageHasMore :: "page_info \<Rightarrow> int \<Rightarrow> int \<Rightarrow> int \<Rightarrow> int \<Rightarrow> bool result" where
  "cloudflarePageHasMore document pageNumber totalLoaded pageCount requestedPageSize =
     (if pageNumber \<le> 0 \<or> totalLoaded < 0 \<or> pageCount < 0 \<or> requestedPageSize \<le> 0 \<or> pageCount > requestedPageSize
      then Inl ''Cloudflare pagination values are invalid''
      else (case document of
          NoDocument \<Rightarrow> Inr (pageCount \<ge> requestedPageSize)
        | BadDocument \<Rightarrow> Inl ''decode Cloudflare pagination metadata''
        | PageInfo pg totalCount totalPages \<Rightarrow>
            document_has_more pg totalCount totalPages pageNumber totalLoaded pageCount requestedPageSize))"

text \<open>
  The two listings are one loop, with the name of the items and their identifiers. The identifiers seen
  are those of the items loaded.
\<close>

record 'a listing =
  ls_ID :: "'a \<Rightarrow> string"
  ls_Empty :: string
  ls_Invalid :: string
  ls_Repeated :: string
  ls_Endless :: string
  ls_PageSize :: nat

definition zone_listing :: "cf_zone listing" where
  "zone_listing =
     \<lparr>ls_ID = cz_ID, ls_Empty = ''Cloudflare returned an empty zone-list response'',
      ls_Invalid = ''Cloudflare returned a zone with an invalid ID'',
      ls_Repeated = ''Cloudflare repeated a zone across pagination pages'',
      ls_Endless = ''Cloudflare zone pagination did not terminate'', ls_PageSize = zonePageSize\<rparr>"

definition record_listing :: "cf_record listing" where
  "record_listing =
     \<lparr>ls_ID = cfr_ID, ls_Empty = ''Cloudflare returned an empty DNS record-list response'',
      ls_Invalid = ''Cloudflare returned a DNS record with an invalid ID'',
      ls_Repeated = ''Cloudflare repeated a DNS record across pagination pages'',
      ls_Endless = ''Cloudflare DNS record pagination did not terminate'', ls_PageSize = recordPageSize\<rparr>"

fun add_page_items :: "'a listing \<Rightarrow> 'a list \<Rightarrow> 'a list \<Rightarrow> 'a list result" where
  "add_page_items L items [] = Inr items"
| "add_page_items L items (x # xs) =
     (if \<not> validCloudflareOpaqueID (ls_ID L x) then Inl (ls_Invalid L)
      else if ls_ID L x \<in> ls_ID L ` set items then Inl (ls_Repeated L)
      else add_page_items L (items @ [x]) xs)"

text \<open>One page: the items with it, and whether there are more.\<close>

definition load_page :: "'a listing \<Rightarrow> nat \<Rightarrow> 'a list \<Rightarrow> 'a cf_page option \<Rightarrow> ('a list \<times> bool) result" where
  "load_page L n items p =
     (case p of None \<Rightarrow> Inl (ls_Empty L)
      | Some pg \<Rightarrow>
          and_then (add_page_items L items (cp_Result pg)) (\<lambda>items'.
          and_then (cloudflarePageHasMore (cp_Info pg) (int n) (int (length items')) (int (length (cp_Result pg))) (int (ls_PageSize L)))
            (\<lambda>hasMore. Inr (items', hasMore))))"

function list_from ::
  "'w cf_sdk \<Rightarrow> ctx \<Rightarrow> string \<Rightarrow> 'a listing \<Rightarrow> (nat \<Rightarrow> 'w \<Rightarrow> 'w \<times> 'a cf_page cf_answer) \<Rightarrow> nat \<Rightarrow> 'a list \<Rightarrow> cf_response option
   \<Rightarrow> 'w \<Rightarrow> 'w \<times> (go_error + 'a list \<times> cf_response option)" where
  "list_from S c operation L fetch n items raw w =
     (if n > maxProviderPageCount then (w, Inl (providerPayloadError operation raw (ls_Endless L)))
      else
        (case readCall S c operation (fetch n) w of (w, r) \<Rightarrow>
         (case r of Inl e \<Rightarrow> (w, Inl e)
         | Inr (raw, p) \<Rightarrow>
             (case load_page L n items p of
                Inl m \<Rightarrow> (w, Inl (providerPayloadError operation raw m))
              | Inr (items', hasMore) \<Rightarrow>
                  if hasMore then list_from S c operation L fetch (Suc n) items' raw w else (w, Inr (items', raw))))))"
  by pat_completeness auto
termination
  by (relation "measure (\<lambda>(S, c, operation, L, fetch, n, items, raw, w). Suc maxProviderPageCount - n)") auto

declare list_from.simps [simp del]

definition listAllZones :: "'w cf_sdk \<Rightarrow> ctx \<Rightarrow> string \<Rightarrow> 'w \<Rightarrow> 'w \<times> (go_error + cf_zone list \<times> cf_response option)" where
  "listAllZones S c operation w =
     list_from S c operation zone_listing (\<lambda>n. sdk_ListZones S c n zonePageSize) 1 [] None w"

definition listAllRecords ::
  "'w cf_sdk \<Rightarrow> ctx \<Rightarrow> string \<Rightarrow> string \<Rightarrow> 'w \<Rightarrow> 'w \<times> (go_error + cf_record list \<times> cf_response option)" where
  "listAllRecords S c zoneID operation w =
     list_from S c operation record_listing (\<lambda>n. sdk_ListRecords S c zoneID n recordPageSize) 1 [] None w"

section \<open>Cursors\<close>

definition offsetCursorPrefix :: string where "offsetCursorPrefix = ''cloudflare-offset-v1:''"

text \<open>Offsets are not negative wherever a cursor is made; \<open>json.Marshal\<close> of the structure does not fail.\<close>

definition encodeOffsetCursor :: "nat \<Rightarrow> string \<Rightarrow> string" where
  "encodeOffsetCursor offset scope =
     offsetCursorPrefix @ b64_encode (json_render (JObj [(''scope'', JStr scope), (''offset'', JNum offset)]))"

definition cf_normalizePagination :: "(string \<Rightarrow> (string \<times> int) option) \<Rightarrow> page_request \<Rightarrow> string \<Rightarrow> (page_request \<times> nat) result" where
  "cf_normalizePagination unmarshal request scope =
     and_then (NormalizePageRequest request) (\<lambda>n.
       let cursor = pr_Cursor n; invalid = Inl ''page cursor is invalid'';
           foreign = Inl ''page cursor is invalid for this collection'' in
       if cursor = [] then Inr (n, 0)
       else if cursor \<noteq> trim_space cursor \<or> \<not> prefix offsetCursorPrefix cursor then invalid
       else (case b64_decode (trim_prefix cursor offsetCursorPrefix) of
           None \<Rightarrow> invalid
         | Some document \<Rightarrow>
             (case unmarshal document of
                None \<Rightarrow> foreign
              | Some (sc, offset) \<Rightarrow>
                  if sc \<noteq> scope \<or> offset < 0 then foreign
                  else if encodeOffsetCursor (nat offset) sc \<noteq> cursor then Inl ''page cursor is non-canonical''
                  else Inr (n, nat offset))))"

definition cf_paginate :: "'a list \<Rightarrow> page_request \<Rightarrow> nat \<Rightarrow> string \<Rightarrow> go_error + 'a page" where
  "cf_paginate items request offset scope =
     (if offset > length items then Inl (PlainError ''page cursor is outside the result set'')
      else
        (let e = min (offset + nat (pr_Limit request)) (length items);
             page = \<lparr>pg_Items = take (e - offset) (drop offset items),
                     pg_NextCursor = (if e < length items then encodeOffsetCursor e scope else [])\<rparr>
         in case ValidatePage request page of
              Inl m \<Rightarrow> Inl (PlainError (''page is invalid: '' @ m))
            | Inr _ \<Rightarrow> Inr page))"

end
