(* ===== verification/Cloudflare_Reads.thy ===== *)
theory Cloudflare_Reads
  imports Cloudflare_Calls
begin

text \<open>
  The operations of \<open>internal/provider/cloudflare/provider.go\<close> that read: credentials, zones and record sets.
  The context that an operation hands to the ones it calls has a deadline already, so only the outermost
  operation sets one. The SDK, its timeout and the context of the caller are the arguments of all of them.
\<close>

section \<open>Sequences of calls\<close>

text \<open>The operations are sequences of calls with early returns; errors and results are those of \<open>Provider\<close>.\<close>

type_synonym ('w, 'a) cf_call = "('w, go_error, 'a) outcome"

definition payload :: "string \<Rightarrow> cf_response option \<Rightarrow> 'a result \<Rightarrow> ('w, 'a) cf_call" where
  "payload operation raw r = checked (relabel (providerPayloadError operation raw) r)"

definition valid_input :: "string \<Rightarrow> 'a result \<Rightarrow> ('w, 'a) cf_call" where
  "valid_input operation r = checked (relabel (validation_error operation) r)"

definition opaque_zone_id :: "string \<Rightarrow> unit result" where
  "opaque_zone_id i = require (validCloudflareOpaqueID i) ''zone ID is required and must be unmodified''"

definition reoperated :: "string \<Rightarrow> ('w, 'a) cf_call \<Rightarrow> ('w, 'a) cf_call" where
  "reoperated operation m = attempt m (\<lambda>e. reject (reoperation e operation)) give"

definition answered :: "string \<Rightarrow> string \<Rightarrow> cf_response option \<times> 'a option \<Rightarrow> ('w, cf_response option \<times> 'a) cf_call" where
  "answered operation m a =
     (case a of (raw, None) \<Rightarrow> reject (providerPayloadError operation raw m) | (raw, Some x) \<Rightarrow> give (raw, x))"

section \<open>Zones\<close>

definition mapZone :: "text_env \<Rightarrow> cf_zone \<Rightarrow> zone result" where
  "mapZone E z =
     (if \<not> validCloudflareOpaqueID (cz_ID z) then Inl ''Cloudflare zone ID is invalid''
      else NormalizeZone E
        \<lparr>zone_ID = cz_ID z, zone_Name = cz_Name z, zone_Status = cz_Status z, zone_Nameservers = cz_NameServers z,
         zone_Extensions = no_zone_extensions\<lparr>zx_Cloudflare := Some \<lparr>cfz_Paused = Some (cz_Paused z)\<rparr>\<rparr>\<rparr>)"

definition get_zone :: "'w cf_sdk \<Rightarrow> text_env \<Rightarrow> string \<Rightarrow> ctx \<Rightarrow> ('w, zone) cf_call" where
  "get_zone S E zoneID c =
     (let operation = ''get_zone'' in
      seq (valid_input operation (opaque_zone_id zoneID)) (\<lambda>_.
      seq (readCall S c operation (sdk_GetZone S c zoneID)) (\<lambda>a.
      seq (answered operation ''Cloudflare returned an empty zone response'' a) (\<lambda>(raw, source).
      seq (payload operation raw (mapZone E source)) (\<lambda>zone.
      if zone_ID zone \<noteq> zoneID
      then reject (providerPayloadError operation raw ''Cloudflare returned a different zone ID'')
      else give zone)))))"

definition in_request :: "'w cf_sdk \<Rightarrow> duration \<Rightarrow> ctx \<Rightarrow> (ctx \<Rightarrow> ('w, 'a) cf_call) \<Rightarrow> ('w, 'a) cf_call" where
  "in_request S timeout c m = seq (plainly (requestContext S timeout c)) m"

definition cf_GetZone :: "'w cf_sdk \<Rightarrow> text_env \<Rightarrow> duration \<Rightarrow> ctx \<Rightarrow> string \<Rightarrow> ('w, zone) cf_call" where
  "cf_GetZone S E timeout c zoneID = in_request S timeout c (get_zone S E zoneID)"

definition zone_order :: "zone \<Rightarrow> string \<times> string" where
  "zone_order z = (zone_Name z, zone_ID z)"

definition cf_ListZones :: "'w cf_sdk \<Rightarrow> text_env \<Rightarrow> duration \<Rightarrow> ctx \<Rightarrow> page_request \<Rightarrow> ('w, zone page) cf_call" where
  "cf_ListZones S E timeout c request =
     (let operation = ''list_zones'' in
      in_request S timeout c (\<lambda>c.
      seq (valid_input operation (cf_normalizePagination (sdk_UnmarshalCursor S) request operation)) (\<lambda>(normalized, offset).
      seq (listAllZones S c operation) (\<lambda>(source, raw).
      seq (payload operation raw (traverse (mapZone E) source)) (\<lambda>items.
      checked (cf_paginate (sort_key zone_order items) normalized offset operation))))))"

definition cf_ValidateCredentials :: "'w cf_sdk \<Rightarrow> duration \<Rightarrow> ctx \<Rightarrow> ('w, unit) cf_call" where
  "cf_ValidateCredentials S timeout c =
     (let operation = ''validate_credentials'' in
      in_request S timeout c (\<lambda>c.
      seq (readCall S c operation (sdk_ListZones S c 1 5)) (\<lambda>a.
      seq (answered operation ''Cloudflare returned an empty zone-list response'' a) (\<lambda>(raw, page).
      case cp_Result page of
        [] \<Rightarrow> give ()
      | z # _ \<Rightarrow>
          if \<not> validCloudflareOpaqueID (cz_ID z)
          then reject (providerPayloadError operation raw ''Cloudflare returned a zone with an invalid ID'')
          else
            seq (readCall S c operation (sdk_ListRecords S c (cz_ID z) 1 1)) (\<lambda>a.
            seq (answered operation ''Cloudflare returned an empty DNS record-list response'' a) (\<lambda>_. give ()))))))"

section \<open>Record sets\<close>

definition cf_listRecordSetsForMutation ::
  "'w cf_sdk \<Rightarrow> cf_env \<Rightarrow> ctx \<Rightarrow> zone \<Rightarrow> string \<Rightarrow> ('w, record_set list \<times> cf_response option) cf_call" where
  "cf_listRecordSetsForMutation S F c zone operation =
     seq (listAllRecords S c (zone_ID zone) operation) (\<lambda>(records, raw).
     seq (payload operation raw (groupRecords F (zone_Name zone) records)) (\<lambda>sets. give (sets, raw)))"

definition cf_ListRecordSets ::
  "'w cf_sdk \<Rightarrow> cf_env \<Rightarrow> duration \<Rightarrow> ctx \<Rightarrow> string \<Rightarrow> page_request \<Rightarrow> ('w, record_set page) cf_call" where
  "cf_ListRecordSets S F timeout c zoneID request =
     (let operation = ''list_record_sets''; scope = operation @ '':'' @ zoneID in
      in_request S timeout c (\<lambda>c.
      seq (valid_input operation (opaque_zone_id zoneID)) (\<lambda>_.
      seq (valid_input operation (cf_normalizePagination (sdk_UnmarshalCursor S) request scope)) (\<lambda>(normalized, offset).
      seq (reoperated operation (get_zone S (cfe_text F) zoneID c)) (\<lambda>zone.
      seq (cf_listRecordSetsForMutation S F c zone operation) (\<lambda>(items, raw).
      checked (cf_paginate items normalized offset scope)))))))"

text \<open>The set with the identifier, or what its absence means.\<close>

definition find_record_set ::
  "string \<Rightarrow> ErrorCode \<Rightarrow> string \<Rightarrow> cf_response option \<Rightarrow> string \<Rightarrow> string list \<Rightarrow> record_set list \<Rightarrow> go_error + record_set" where
  "find_record_set operation gone gone_message raw recordSetID ids sets =
     (case find (\<lambda>rs. rs_ID rs = recordSetID) sets of
        Some rs \<Rightarrow> Inr rs
      | None \<Rightarrow>
          if list_ex (\<lambda>rs. recordSetIntersectsIDs rs ids) sets
          then Inl (coded_error ErrConflict operation raw ''Cloudflare logical record membership changed'')
          else Inl (coded_error gone operation raw gone_message))"

definition cf_GetRecordSet ::
  "'w cf_sdk \<Rightarrow> cf_env \<Rightarrow> duration \<Rightarrow> ctx \<Rightarrow> string \<Rightarrow> string \<Rightarrow> ('w, record_set) cf_call" where
  "cf_GetRecordSet S F timeout c zoneID recordSetID =
     (let operation = ''get_record_set'' in
      in_request S timeout c (\<lambda>c.
      seq (valid_input operation (decodeRecordSetID F recordSetID)) (\<lambda>ids.
      seq (reoperated operation (get_zone S (cfe_text F) zoneID c)) (\<lambda>zone.
      seq (cf_listRecordSetsForMutation S F c zone operation) (\<lambda>(sets, raw).
      checked (find_record_set operation ErrNotFound ''Cloudflare logical record set was not found'' raw recordSetID ids sets))))))"

end
