(* ===== verification/Cloudflare_Changes.thy ===== *)
theory Cloudflare_Changes
  imports Cloudflare_Reads
begin

text \<open>
  \<open>internal/provider/cloudflare/mutations.go\<close>: a logical record set is created, changed and deleted record by
  record. The state is read first, the precondition is checked against it, and it is read again at the end.
\<close>

section \<open>Bodies\<close>

definition wireTTL :: "32 word \<Rightarrow> bool \<Rightarrow> rat" where
  "wireTTL ttl automatic = (if automatic then 1 else word_rat ttl)"

text \<open>The bodies of the two requests have the same members.\<close>

definition record_body :: "create_input \<Rightarrow> record_options \<Rightarrow> record_entry \<Rightarrow> cf_body result" where
  "record_body input options entry =
     and_then (wireRecordContent (ci_Type input) entry) (\<lambda>(content, priority).
       let data = structuredRecordData (ci_Type input) entry in
       Inr \<lparr>cb_Name = ci_Name input, cb_TTL = wireTTL (ci_TTL input) (ro_automaticTTL options),
            cb_Type = record_type_string (ci_Type input), cb_Proxied = ro_proxied options,
            cb_Comment = ro_comment options, cb_Tags = ro_tags options,
            cb_Content = (if data = NoData then Inr content else Inl data),
            cb_Priority = (if ci_Type input = RecordTypeMX then Some priority else None)\<rparr>)"

section \<open>Changes of one record\<close>

text \<open>A call that is made once: its error is mapped.\<close>

definition once :: "'w cf_sdk \<Rightarrow> string \<Rightarrow> ('w \<Rightarrow> 'w \<times> 'a cf_answer) \<Rightarrow> ('w, cf_response option \<times> 'a option) cf_call" where
  "once S operation call w =
     (case call w of (w, raw, answer) \<Rightarrow>
      (case answer of Inr x \<Rightarrow> (w, Inr (raw, x))
       | Inl err \<Rightarrow> (case mapError S operation err w of (w, e) \<Rightarrow> (w, Inl e))))"

definition createRecord ::
  "'w cf_sdk \<Rightarrow> ctx \<Rightarrow> string \<Rightarrow> create_input \<Rightarrow> record_options \<Rightarrow> record_entry \<Rightarrow> string \<Rightarrow> ('w, cf_record) cf_call" where
  "createRecord S c zoneID input options entry operation =
     seq (valid_input operation (record_body input options entry)) (\<lambda>body.
     seq (once S operation (sdk_NewRecord S c zoneID body)) (\<lambda>(raw, response).
       (case response of
          Some r \<Rightarrow>
            if validCloudflareOpaqueID (cfr_ID r) then give r
            else reject (providerPayloadError operation raw ''Cloudflare create-record response has an invalid record ID'')
        | None \<Rightarrow> reject (providerPayloadError operation raw ''Cloudflare create-record response has an invalid record ID''))))"

definition updateRecord ::
  "'w cf_sdk \<Rightarrow> ctx \<Rightarrow> string \<Rightarrow> string \<Rightarrow> create_input \<Rightarrow> record_options \<Rightarrow> record_entry \<Rightarrow> string \<Rightarrow> ('w, cf_record) cf_call" where
  "updateRecord S c zoneID recordID input options entry operation =
     seq (valid_input operation (record_body input options entry)) (\<lambda>body.
     seq (once S operation (sdk_UpdateRecord S c zoneID recordID body)) (\<lambda>(raw, response).
       (case response of
          Some r \<Rightarrow>
            if cfr_ID r = recordID then give r
            else reject (providerPayloadError operation raw ''Cloudflare update-record response has an invalid record ID'')
        | None \<Rightarrow> reject (providerPayloadError operation raw ''Cloudflare update-record response has an invalid record ID''))))"

definition deleteRecord :: "'w cf_sdk \<Rightarrow> ctx \<Rightarrow> string \<Rightarrow> string \<Rightarrow> string \<Rightarrow> ('w, unit) cf_call" where
  "deleteRecord S c zoneID recordID operation =
     seq (once S operation (sdk_DeleteRecord S c zoneID recordID)) (\<lambda>_. give ())"

section \<open>Preconditions and refetched states\<close>

definition cf_checkPrecondition :: "text_env \<Rightarrow> precondition \<Rightarrow> record_set \<Rightarrow> string \<Rightarrow> go_error + unit" where
  "cf_checkPrecondition E p current operation =
     (case precondition_matches E p current of
        Inl m \<Rightarrow> Inl (ProviderErr (NewError ErrValidation operation [] 0 (Some (PlainError (''invalid concurrency precondition: '' @ m)))))
      | Inr False \<Rightarrow>
          Inl (ProviderErr (NewError ErrConflict operation [] 0 (Some (PlainError ''Cloudflare record set changed after it was fetched''))))
      | Inr True \<Rightarrow> Inr ())"

definition currentRecordSetForMutation ::
  "'w cf_sdk \<Rightarrow> cf_env \<Rightarrow> ctx \<Rightarrow> string \<Rightarrow> string \<Rightarrow> string \<Rightarrow> ('w, record_set \<times> zone \<times> record_set list) cf_call" where
  "currentRecordSetForMutation S F c zoneID recordSetID operation =
     seq (valid_input operation (decodeRecordSetID F recordSetID)) (\<lambda>ids.
     seq (reoperated operation (get_zone S (cfe_text F) zoneID c)) (\<lambda>zone.
     seq (cf_listRecordSetsForMutation S F c zone operation) (\<lambda>(sets, raw).
     seq (checked (find_record_set operation ErrConflict ''Cloudflare logical record set changed or was removed'' raw recordSetID ids sets))
       (\<lambda>rs. give (rs, zone, sets)))))"

definition final_record_set ::
  "string \<Rightarrow> record_entry list \<Rightarrow> record_group_key \<Rightarrow> cf_response option \<Rightarrow> record_set list \<Rightarrow> go_error + record_set" where
  "final_record_set operation expected desiredKey raw sets =
     (case find (\<lambda>rs. recordSetHasExactEntries rs expected) sets of
        Some rs \<Rightarrow>
          if equivalentGroupKey (groupKeyFromRecordSet rs) desiredKey then Inr rs
          else Inl (coded_error ErrConflict operation raw ''Cloudflare final record state differs from the requested state'')
      | None \<Rightarrow> Inl (coded_error ErrConflict operation raw ''Cloudflare final record state could not be re-fetched exactly''))"

definition findFinalRecordSet ::
  "'w cf_sdk \<Rightarrow> cf_env \<Rightarrow> ctx \<Rightarrow> zone \<Rightarrow> record_entry list \<Rightarrow> record_group_key \<Rightarrow> string \<Rightarrow> ('w, record_set) cf_call" where
  "findFinalRecordSet S F c zone expected desiredKey operation =
     seq (cf_listRecordSetsForMutation S F c zone operation) (\<lambda>(sets, raw).
     checked (final_record_set operation expected desiredKey raw sets))"

definition still_there :: "record_set \<Rightarrow> record_set list \<Rightarrow> bool" where
  "still_there deleted sets \<longleftrightarrow>
     list_ex (\<lambda>rs. recordSetIntersectsIDs rs (entryIDs (rs_Entries deleted))
                   \<or> equivalentGroupKey (groupKeyFromRecordSet rs) (groupKeyFromRecordSet deleted)) sets"

definition verifyRecordSetDeleted ::
  "'w cf_sdk \<Rightarrow> cf_env \<Rightarrow> ctx \<Rightarrow> zone \<Rightarrow> record_set \<Rightarrow> string \<Rightarrow> ('w, unit) cf_call" where
  "verifyRecordSetDeleted S F c zone deleted operation =
     seq (cf_listRecordSetsForMutation S F c zone operation) (\<lambda>(sets, raw).
     if still_there deleted sets
     then reject (coded_error ErrConflict operation raw ''Cloudflare logical record set still exists after deletion'')
     else give ())"

section \<open>Create\<close>

fun create_all ::
  "'w cf_sdk \<Rightarrow> ctx \<Rightarrow> string \<Rightarrow> create_input \<Rightarrow> record_options \<Rightarrow> string \<Rightarrow> record_entry list \<Rightarrow> ('w, record_entry list) cf_call" where
  "create_all S c zoneID input options operation [] = give []"
| "create_all S c zoneID input options operation (e # es) =
     seq (createRecord S c zoneID input options e operation) (\<lambda>created.
     seq (create_all S c zoneID input options operation es) (\<lambda>rest. give (e\<lparr>re_ID := cfr_ID created\<rparr> # rest)))"

definition cf_CreateRecordSet ::
  "'w cf_sdk \<Rightarrow> cf_env \<Rightarrow> duration \<Rightarrow> ctx \<Rightarrow> string \<Rightarrow> create_input \<Rightarrow> ('w, record_set) cf_call" where
  "cf_CreateRecordSet S F timeout c zoneID input =
     (let operation = ''create_record_set'' in
      in_request S timeout c (\<lambda>c.
      seq (reoperated operation (get_zone S (cfe_text F) zoneID c)) (\<lambda>zone.
      seq (valid_input operation (NormalizeCreateRecordSetInput (cfe_text F) (zone_Name zone) input)) (\<lambda>normalized.
      seq (valid_input operation (validateCloudflareInput normalized
            \<lparr>ro_proxied = False, ro_proxiable = proxyTypeSupported (ci_Type normalized), ro_automaticTTL = False,
             ro_comment = [], ro_tags = []\<rparr> False)) (\<lambda>options.
      seq (cf_listRecordSetsForMutation S F c zone operation) (\<lambda>(sets, raw).
      let desiredKey = groupKeyFromInput normalized options in
      if list_ex (\<lambda>rs. equivalentGroupKey (groupKeyFromRecordSet rs) desiredKey) sets
      then reject (coded_error ErrConflict operation raw ''Cloudflare logical record set already exists'')
      else
        seq (create_all S c (zone_ID zone) normalized options operation (ci_Entries normalized)) (\<lambda>expected.
        findFinalRecordSet S F c zone expected desiredKey operation)))))))"

section \<open>Update\<close>

text \<open>The loop over the desired entries that checks their identifiers.\<close>

fun check_desired_ids :: "record_entry list \<Rightarrow> string \<Rightarrow> string list \<Rightarrow> record_entry list \<Rightarrow> go_error + unit" where
  "check_desired_ids current operation seen [] = Inr ()"
| "check_desired_ids current operation seen (e # es) =
     (if re_ID e = [] then check_desired_ids current operation seen es
      else if re_ID e \<in> set seen
      then Inl (validation_error operation ''Cloudflare desired entries contain a duplicate provider record ID'')
      else if re_ID e \<notin> set (entryIDs current)
      then Inl (coded_error ErrConflict operation None ''Cloudflare desired entry references a record outside the current logical set'')
      else check_desired_ids current operation (re_ID e # seen) es)"

fun write_desired ::
  "'w cf_sdk \<Rightarrow> ctx \<Rightarrow> string \<Rightarrow> create_input \<Rightarrow> record_options \<Rightarrow> string \<Rightarrow> record_entry list \<Rightarrow> bool
   \<Rightarrow> record_entry list \<Rightarrow> ('w, record_entry list) cf_call" where
  "write_desired S c zoneID input options operation current commonChanged [] = give []"
| "write_desired S c zoneID input options operation current commonChanged (e # es) =
     seq (if re_ID e = []
          then seq (createRecord S c zoneID input options e operation) (\<lambda>created. give (e\<lparr>re_ID := cfr_ID created\<rparr>))
          else if commonChanged
                  \<or> (case entry_by_id current (re_ID e) of None \<Rightarrow> True | Some old \<Rightarrow> \<not> equalRecordEntry old e)
          then seq (updateRecord S c zoneID (re_ID e) input options e operation) (\<lambda>_. give e)
          else give e) (\<lambda>e'.
     seq (write_desired S c zoneID input options operation current commonChanged es) (\<lambda>rest. give (e' # rest)))"

fun delete_all :: "'w cf_sdk \<Rightarrow> ctx \<Rightarrow> string \<Rightarrow> string \<Rightarrow> string list \<Rightarrow> ('w, unit) cf_call" where
  "delete_all S c zoneID operation [] = give ()"
| "delete_all S c zoneID operation (i # is) =
     seq (deleteRecord S c zoneID i operation) (\<lambda>_. delete_all S c zoneID operation is)"

definition common_changed :: "record_set \<Rightarrow> create_input \<Rightarrow> record_options \<Rightarrow> record_options \<Rightarrow> bool" where
  "common_changed current n currentOptions desiredOptions \<longleftrightarrow>
     rs_Name current \<noteq> ci_Name n \<or> rs_Type current \<noteq> ci_Type n \<or> rs_TTL current \<noteq> ci_TTL n
     \<or> \<not> equalRecordOptions currentOptions desiredOptions"

text \<open>The records of the current set that no desired entry names and that were not just created.\<close>

definition dropped_ids :: "record_set \<Rightarrow> create_input \<Rightarrow> record_entry list \<Rightarrow> string list" where
  "dropped_ids current n finalEntries =
     filter (\<lambda>i. i \<notin> set (filter (\<lambda>j. j \<noteq> []) (entryIDs (ci_Entries n))) \<and> \<not> containsEntryID finalEntries i)
       (entryIDs (rs_Entries current))"

definition cf_UpdateRecordSet ::
  "'w cf_sdk \<Rightarrow> cf_env \<Rightarrow> duration \<Rightarrow> ctx \<Rightarrow> string \<Rightarrow> string \<Rightarrow> update_input \<Rightarrow> ('w, record_set) cf_call" where
  "cf_UpdateRecordSet S F timeout c zoneID recordSetID input =
     (let operation = ''update_record_set'' in
      in_request S timeout c (\<lambda>c.
      seq (currentRecordSetForMutation S F c zoneID recordSetID operation) (\<lambda>(current, zone, sets).
      seq (checked (cf_checkPrecondition (cfe_text F) (ui_Precondition input) current operation)) (\<lambda>_.
      seq (valid_input operation (NormalizeCreateRecordSetInput (cfe_text F) (zone_Name zone) (ui_Desired input))) (\<lambda>normalized.
      let currentOptions = recordOptionsFromRecordSet current in
      seq (valid_input operation (validateCloudflareInput normalized currentOptions True)) (\<lambda>desiredOptions.
      let desiredKey = groupKeyFromInput normalized desiredOptions in
      if list_ex (\<lambda>rs. rs_ID rs \<noteq> rs_ID current \<and> equivalentGroupKey (groupKeyFromRecordSet rs) desiredKey) sets
      then reject (coded_error ErrConflict operation None ''Cloudflare update would merge with another logical record set'')
      else
        seq (checked (check_desired_ids (rs_Entries current) operation [] (ci_Entries normalized))) (\<lambda>_.
        seq (write_desired S c (zone_ID zone) normalized desiredOptions operation (rs_Entries current)
               (common_changed current normalized currentOptions desiredOptions) (ci_Entries normalized)) (\<lambda>finalEntries.
        seq (delete_all S c (zone_ID zone) operation (dropped_ids current normalized finalEntries)) (\<lambda>_.
        findFinalRecordSet S F c zone finalEntries desiredKey operation)))))))))"

section \<open>Delete\<close>

definition cf_DeleteRecordSet ::
  "'w cf_sdk \<Rightarrow> cf_env \<Rightarrow> duration \<Rightarrow> ctx \<Rightarrow> string \<Rightarrow> string \<Rightarrow> precondition \<Rightarrow> ('w, unit) cf_call" where
  "cf_DeleteRecordSet S F timeout c zoneID recordSetID p =
     (let operation = ''delete_record_set'' in
      in_request S timeout c (\<lambda>c.
      seq (currentRecordSetForMutation S F c zoneID recordSetID operation) (\<lambda>(current, zone, sets).
      seq (checked (cf_checkPrecondition (cfe_text F) p current operation)) (\<lambda>_.
      seq (delete_all S c (zone_ID zone) operation (entryIDs (rs_Entries current))) (\<lambda>_.
      verifyRecordSetDeleted S F c zone current operation)))))"

end
