(* ===== verification/Cloudflare_Pages.thy ===== *)
theory Cloudflare_Pages
  imports Cloudflare_Changes
begin

text \<open>
  What the reads of the Cloudflare adapter guarantee: they end after a bounded number of calls whatever the API
  answers; a listing that succeeds has no identifier twice; from an API that serves its pages as documented, a listing
  returns everything.
\<close>

section \<open>What every step of an operation keeps\<close>

text \<open>A property before an operation and one after it, whatever its result; the rules follow the structure of an operation.\<close>

definition leads :: "('w \<Rightarrow> bool) \<Rightarrow> ('w \<Rightarrow> bool) \<Rightarrow> ('w \<Rightarrow> 'w \<times> 'a) \<Rightarrow> bool" where
  "leads I J m \<longleftrightarrow> (\<forall>w. I w \<longrightarrow> J (fst (m w)))"

abbreviation keeps :: "('w \<Rightarrow> bool) \<Rightarrow> ('w \<Rightarrow> 'w \<times> 'a) \<Rightarrow> bool" where
  "keeps I m \<equiv> leads I I m"

lemma leadsD: "leads I J m \<Longrightarrow> I w \<Longrightarrow> m w = (w', r) \<Longrightarrow> J w'"
  by (metis fst_conv leads_def)

lemma leads_weaken: "leads I J m \<Longrightarrow> (\<And>w. J w \<Longrightarrow> K w) \<Longrightarrow> leads I K m"
  by (simp add: leads_def)

lemma leads_step:
  "leads I J m \<Longrightarrow> (\<And>x. leads J K (k x)) \<Longrightarrow> leads I K (\<lambda>w. case m w of (w', x) \<Rightarrow> k x w')"
  by (auto simp: leads_def split: prod.splits)

lemma leads_here: "(\<And>w. I w \<Longrightarrow> J w) \<Longrightarrow> leads I J (\<lambda>w. (w, r))"
  by (simp add: leads_def)

lemma leads_if: "(b \<Longrightarrow> leads I J m) \<Longrightarrow> (\<not> b \<Longrightarrow> leads I J n) \<Longrightarrow> leads I J (\<lambda>w. if b then m w else n w)"
  by (cases b) simp_all

lemma leads_option:
  "(v = None \<Longrightarrow> leads I J m) \<Longrightarrow> (\<And>x. v = Some x \<Longrightarrow> leads I J (n x)) \<Longrightarrow>
     leads I J (\<lambda>w. case v of None \<Rightarrow> m w | Some x \<Rightarrow> n x w)"
  by (cases v) simp_all

lemma leads_sum:
  "(\<And>e. v = Inl e \<Longrightarrow> leads I J (m e)) \<Longrightarrow> (\<And>x. v = Inr x \<Longrightarrow> leads I J (n x)) \<Longrightarrow>
     leads I J (\<lambda>w. case v of Inl e \<Rightarrow> m e w | Inr x \<Rightarrow> n x w)"
  by (cases v) simp_all

lemma leads_prod: "(\<And>a b. v = (a, b) \<Longrightarrow> leads I J (m a b)) \<Longrightarrow> leads I J (\<lambda>w. case v of (a, b) \<Rightarrow> m a b w)"
  by (cases v) simp

lemma leads_error:
  "(\<And>p. leads I J (m p)) \<Longrightarrow> (\<And>t. leads I J (n t)) \<Longrightarrow> (\<And>b t. leads I J (k b t)) \<Longrightarrow> (\<And>t. leads I J (l t)) \<Longrightarrow>
     leads I J (\<lambda>w. case v of ProviderErr p \<Rightarrow> m p w | ContextDone t \<Rightarrow> n t w | NetError b t \<Rightarrow> k b t w | PlainError t \<Rightarrow> l t w)"
  by (cases v) simp_all

lemmas leads_rules = leads_here leads_if leads_option leads_sum leads_error

text \<open>The same for sequences.\<close>

lemma leads_seq: "leads I J m \<Longrightarrow> (\<And>w. J w \<Longrightarrow> K w) \<Longrightarrow> (\<And>x. leads J K (k x)) \<Longrightarrow> leads I K (seq m k)"
  unfolding leads_def seq_def attempt_def reject_def
  by (auto split: prod.splits sum.splits)

lemma keeps_seq: "keeps I m \<Longrightarrow> (\<And>x. keeps I (k x)) \<Longrightarrow> keeps I (seq m k)"
  by (rule leads_seq)

lemma keeps_attempt: "keeps I m \<Longrightarrow> (\<And>e. keeps I (h e)) \<Longrightarrow> (\<And>x. keeps I (k x)) \<Longrightarrow> keeps I (attempt m h k)"
  unfolding leads_def attempt_def by (auto split: prod.splits sum.splits)

lemma keeps_pure:
  "keeps I (give x)" "keeps I (reject e)" "keeps I (checked r)" "keeps I (valid_input op v)" "keeps I (payload op raw v)"
  "keeps I (answered op t a)"
  by (simp_all add: leads_def give_def reject_def checked_def valid_input_def payload_def answered_def
      split: prod.splits option.splits)

lemma keeps_plainly: "keeps I m \<Longrightarrow> keeps I (plainly m)"
  by (auto simp: leads_def plainly_def split: prod.splits)

section \<open>Calls\<close>

text \<open>The operations on the context and the clock.\<close>

definition context_keeps :: "('w \<Rightarrow> bool) \<Rightarrow> 'w cf_sdk \<Rightarrow> bool" where
  "context_keeps I S \<longleftrightarrow> keeps I (sdk_Now S) \<and> keeps I (sdk_Random S)
     \<and> (\<forall>c. keeps I (sdk_ContextErr S c)) \<and> (\<forall>c d. keeps I (sdk_Wait S c d))"

lemma mapError_keeps: "context_keeps I S \<Longrightarrow> keeps I (mapError S operation err)"
  by (auto simp: leads_def context_keeps_def mapError_def Let_def split: cf_error.splits option.splits prod.splits)

lemma deadline_keeps: "context_keeps I S \<Longrightarrow> keeps I (deadline_allows S c d)"
  by (auto simp: leads_def context_keeps_def deadline_allows_def split: option.splits prod.splits)

lemma requestContext_keeps: "context_keeps I S \<Longrightarrow> keeps I (requestContext S t c)"
  by (auto simp: leads_def context_keeps_def requestContext_def split: option.splits prod.splits)

lemma after_failure_keeps:
  assumes "context_keeps I S"
  shows "keeps I (after_failure S c operation n e)"
proof -
  have steps: "keeps I (sdk_Random S)" "\<And>c. keeps I (sdk_ContextErr S c)" "\<And>c d. keeps I (sdk_Wait S c d)"
    using assms by (auto simp: context_keeps_def)
  show ?thesis
    unfolding after_failure_def [abs_def]
    by (rule leads_step leads_prod leads_rules deadline_keeps [OF assms] steps | assumption)+
qed

lemma read_from_leads:
  assumes "\<And>n. context_keeps (P n) S" and "\<And>n. leads (P n) (P (Suc n)) call"
    and "\<And>n w. P n w \<Longrightarrow> n \<le> readAttempts \<Longrightarrow> P readAttempts w" and "n \<le> readAttempts"
  shows "leads (P n) (P readAttempts) (read_from S c operation call n lastError)"
  using assms(4)
proof (induction "readAttempts - n" arbitrary: n lastError)
  case 0
  then show ?case by (auto simp: leads_def read_from.simps)
next
  case (Suc k)
  have settle: "P n w \<Longrightarrow> P readAttempts w" for w using assms(3) Suc.prems by blast
  have sooner: "P (Suc n) w \<Longrightarrow> P readAttempts w" for w using assms(3) Suc.hyps(2) by (metis Suc_leI zero_less_Suc zero_less_diff)
  have deadline: "keeps (P n) (sdk_ContextErr S c)" using assms(1) by (auto simp: context_keeps_def)
  have again: "leads (P (Suc n)) (P readAttempts) (read_from S c operation call (Suc n) e)" for e
    using Suc.hyps by (intro Suc.hyps(1)) auto
  have unfold: "read_from S c operation call n lastError = (\<lambda>w.
     case sdk_ContextErr S c w of (w, e) \<Rightarrow>
       (case e of Some m \<Rightarrow> (w, Inl (context_error operation m))
        | None \<Rightarrow>
          (case call w of (w, raw, answer) \<Rightarrow>
            (case answer of Inr x \<Rightarrow> (w, Inr (raw, x))
             | Inl err \<Rightarrow>
               (case mapError S operation err w of (w, mappedError) \<Rightarrow>
                case after_failure S c operation n mappedError w of (w, stop) \<Rightarrow>
                (case stop of Some e \<Rightarrow> (w, Inl e)
                 | None \<Rightarrow> read_from S c operation call (Suc n) (Some mappedError) w))))))"
    using Suc.hyps(2) by (subst read_from.simps [abs_def]) (auto simp: fun_eq_iff)
  show ?case
    unfolding unfold
    by (rule leads_step leads_prod leads_rules deadline assms(2) again settle sooner mapError_keeps after_failure_keeps assms(1)
        | assumption)+
qed

lemma readCall_keeps: "context_keeps I S \<Longrightarrow> keeps I call \<Longrightarrow> keeps I (readCall S c operation call)"
  unfolding readCall_def [abs_def] by (rule read_from_leads [where P = "\<lambda>_. I"]) auto

text \<open>A number of calls, or anything else that a call raises by at most one and nothing else changes.\<close>

definition call_cost :: "('w \<Rightarrow> nat) \<Rightarrow> ('w \<Rightarrow> 'w \<times> 'a) \<Rightarrow> bool" where
  "call_cost f m \<longleftrightarrow> (\<forall>n. leads (\<lambda>w. f w \<le> n) (\<lambda>w. f w \<le> Suc n) m)"

definition free_context :: "('w \<Rightarrow> nat) \<Rightarrow> 'w cf_sdk \<Rightarrow> bool" where
  "free_context f S \<longleftrightarrow> (\<forall>n. context_keeps (\<lambda>w. f w \<le> n) S)"

lemma readCall_cost:
  assumes "free_context f S" and "call_cost f call"
  shows "leads (\<lambda>w. f w \<le> n) (\<lambda>w. f w \<le> n + readAttempts) (readCall S c operation call)"
  unfolding readCall_def [abs_def]
  using read_from_leads [where P = "\<lambda>k w. f w \<le> n + k" and n = 0, of S call c operation None] assms
  by (auto simp: free_context_def call_cost_def)

section \<open>Listings end\<close>

lemma list_from_leads:
  assumes "\<And>n c operation. leads (P n) (P (Suc n)) (readCall S c operation (fetch n))"
    and "\<And>n w. P n w \<Longrightarrow> n \<le> Suc maxProviderPageCount \<Longrightarrow> P (Suc maxProviderPageCount) w"
    and "n \<le> Suc maxProviderPageCount"
  shows "leads (P n) (P (Suc maxProviderPageCount)) (list_from S c operation L fetch n items raw)"
  using assms(3)
proof (induction "Suc maxProviderPageCount - n" arbitrary: n items raw)
  case 0
  then show ?case by (auto simp: leads_def list_from.simps)
next
  case (Suc k)
  have settle: "P (Suc n) w \<Longrightarrow> P (Suc maxProviderPageCount) w" for w
    using assms(2) Suc.hyps(2) by (metis Suc_leI zero_less_Suc zero_less_diff)
  have again: "leads (P (Suc n)) (P (Suc maxProviderPageCount)) (list_from S c operation L fetch (Suc n) items' raw')" for items' raw'
    using Suc.hyps by (intro Suc.hyps(1)) auto
  have unfold: "list_from S c operation L fetch n items raw = (\<lambda>w.
     case readCall S c operation (fetch n) w of (w, r) \<Rightarrow>
       (case r of Inl e \<Rightarrow> (w, Inl e)
        | Inr a \<Rightarrow>
          (case load_page L n items (snd a) of
             Inl m \<Rightarrow> (w, Inl (providerPayloadError operation (fst a) m))
           | Inr b \<Rightarrow> (if snd b then list_from S c operation L fetch (Suc n) (fst b) (fst a) w else (w, Inr (fst b, fst a))))))"
    using Suc.hyps(2) by (subst list_from.simps [abs_def]) (auto simp: fun_eq_iff split: prod.splits sum.splits)
  show ?case
    unfolding unfold by (rule leads_step leads_rules assms(1) again settle | assumption)+
qed

lemma list_from_keeps:
  "context_keeps I S \<Longrightarrow> (\<And>n. keeps I (fetch n)) \<Longrightarrow> n \<le> Suc maxProviderPageCount \<Longrightarrow>
     keeps I (list_from S c operation L fetch n items raw)"
  by (rule list_from_leads [where P = "\<lambda>_. I"]) (auto intro: readCall_keeps)

definition most_calls :: nat where "most_calls = readAttempts * maxProviderPageCount"

lemma list_from_bounded:
  assumes "free_context f S" and fetch: "\<And>n. call_cost f (fetch n)"
  shows "f (fst (list_from S c operation L fetch 1 items raw w)) \<le> f w + most_calls"
proof -
  have step: "leads (\<lambda>x. f x + readAttempts \<le> f w + n * readAttempts) (\<lambda>x. f x + readAttempts \<le> f w + Suc n * readAttempts)
          (readCall S c operation (fetch n))" for n c operation
  proof -
    have "leads (\<lambda>x. f x \<le> f w + n * readAttempts - readAttempts) (\<lambda>x. f x \<le> f w + n * readAttempts - readAttempts + readAttempts)
          (readCall S c operation (fetch n))" by (rule readCall_cost [OF assms(1) fetch])
    then show ?thesis unfolding leads_def by (auto simp: algebra_simps)
  qed
  have "leads (\<lambda>x. f x + readAttempts \<le> f w + 1 * readAttempts) (\<lambda>x. f x + readAttempts \<le> f w + Suc maxProviderPageCount * readAttempts)
      (list_from S c operation L fetch 1 items raw)"
  proof (rule list_from_leads [where P = "\<lambda>n x. f x + readAttempts \<le> f w + n * readAttempts"])
    fix n x assume "f x + readAttempts \<le> f w + n * readAttempts" and "n \<le> Suc maxProviderPageCount"
    moreover have "n * readAttempts \<le> Suc maxProviderPageCount * readAttempts" using \<open>n \<le> _\<close> by (rule mult_le_mono1)
    ultimately show "f x + readAttempts \<le> f w + Suc maxProviderPageCount * readAttempts" by linarith
  qed (use step in simp_all)
  then show ?thesis by (auto simp: leads_def most_calls_def algebra_simps)
qed

text \<open>C37: Listing the records of a zone, or the zones, ends whatever the API answers, with at most three calls for
  each of at most 1,000,000 pages: errors, retries, empty pages and pages that never end included.
\<close>

theorem listing_calls_bounded:
  assumes "free_context f S" and "\<forall>c n p. call_cost f (sdk_ListZones S c n p)"
    and "\<forall>c z n p. call_cost f (sdk_ListRecords S c z n p)"
  shows "f (fst (listAllRecords S c zoneID operation w)) \<le> f w + most_calls
         \<and> f (fst (listAllZones S c operation w)) \<le> f w + most_calls"
  using list_from_bounded [OF assms(1), of "\<lambda>n. sdk_ListRecords S c zoneID n recordPageSize"]
    list_from_bounded [OF assms(1), of "\<lambda>n. sdk_ListZones S c n zonePageSize"] assms(2,3)
  by (simp add: listAllRecords_def listAllZones_def)

section \<open>Listings are complete\<close>

lemma add_page_items_Inr:
  "distinct (map (ls_ID L) items) \<Longrightarrow> add_page_items L items xs = Inr items' \<longleftrightarrow>
     items' = items @ xs \<and> list_all (\<lambda>x. validCloudflareOpaqueID (ls_ID L x)) xs \<and> distinct (map (ls_ID L) (items @ xs))"
proof (induction xs arbitrary: items)
  case (Cons x xs)
  show ?case
  proof (cases "ls_ID L x \<in> ls_ID L ` set items")
    case False
    with Cons.prems have "distinct (map (ls_ID L) (items @ [x]))" by auto
    from Cons.IH [OF this] False show ?thesis by auto
  qed auto
qed auto

lemma load_page_Inr:
  "distinct (map (ls_ID L) items) \<Longrightarrow> load_page L n items p = Inr (items', hasMore) \<Longrightarrow>
     distinct (map (ls_ID L) items') \<and> (\<exists>xs. items' = items @ xs)"
  by (auto simp: load_page_def and_then_Inr add_page_items_Inr split: option.splits)

text \<open>A listing that succeeds has no identifier twice.\<close>

lemma list_from_distinct:
  "list_from S c operation L fetch n items raw w = (w', Inr (all, raw')) \<Longrightarrow> distinct (map (ls_ID L) items) \<Longrightarrow>
     distinct (map (ls_ID L) all)"
proof (induction S c operation L fetch n items raw w rule: list_from.induct)
  case (1 S c operation L fetch n items raw w)
  from "1.prems"(1) have less: "\<not> n > maxProviderPageCount" by (subst (asm) list_from.simps) (auto split: if_splits)
  obtain w1 r where call: "readCall S c operation (fetch n) w = (w1, r)" by (cases "readCall S c operation (fetch n) w")
  with less "1.prems"(1) obtain raw1 p where r: "r = Inr (raw1, p)" by (subst (asm) list_from.simps) (auto split: sum.splits)
  with call less "1.prems"(1) obtain items' hasMore where load: "load_page L n items p = Inr (items', hasMore)"
    by (subst (asm) list_from.simps) (auto split: sum.splits)
  have d: "distinct (map (ls_ID L) items')" using load_page_Inr [OF "1.prems"(2) load] by blast
  show ?case
  proof (cases hasMore)
    case True
    with call less r load "1.prems"(1)
    have "list_from S c operation L fetch (Suc n) items' raw1 w1 = (w', Inr (all, raw'))"
      by (subst (asm) list_from.simps) simp
    from "1.IH" [OF less call [symmetric] r refl load refl True this d] show ?thesis .
  next
    case False
    with call less r load "1.prems"(1) d show ?thesis by (subst (asm) list_from.simps) simp
  qed
qed

lemma listAllRecords_distinct:
  "listAllRecords S c zoneID operation w = (w', Inr (all, raw)) \<Longrightarrow> distinct (map cfr_ID all)"
  using list_from_distinct [of S c operation record_listing] by (force simp: listAllRecords_def record_listing_def)

text \<open>Pages as the API documents them; the page, the total count and the total pages may be reported or not.\<close>

definition page_of :: "nat \<Rightarrow> 'a list \<Rightarrow> nat \<Rightarrow> 'a list" where
  "page_of per all n = take per (drop ((n - 1) * per) all)"

definition pages_of :: "nat \<Rightarrow> 'a list \<Rightarrow> nat" where
  "pages_of per all = (length all + per - 1) div per"

definition honest_info :: "nat \<Rightarrow> 'a list \<Rightarrow> (nat \<Rightarrow> page_info) \<Rightarrow> bool" where
  "honest_info per all info \<longleftrightarrow>
     info = (\<lambda>_. NoDocument)
     \<or> (\<exists>count pages. (count = 0 \<or> count = length all) \<and> (pages = 0 \<or> pages = pages_of per all)
          \<and> info = (\<lambda>n. PageInfo (int n) (int count) (int pages)))"

text \<open>A read that is answered at its first attempt.\<close>

definition serves :: "'w cf_sdk \<Rightarrow> (nat \<Rightarrow> 'w \<Rightarrow> 'w \<times> 'a cf_page cf_answer) \<Rightarrow> (nat \<Rightarrow> 'a cf_page) \<Rightarrow> bool" where
  "serves S fetch page \<longleftrightarrow>
     (\<forall>n w. 1 \<le> n \<longrightarrow> n \<le> maxProviderPageCount \<longrightarrow> (\<exists>w' raw. fetch n w = (w', raw, Inr (Some (page n)))))
     \<and> (\<forall>c w. snd (sdk_ContextErr S c w) = None)"

lemma readCall_served:
  assumes "serves S fetch page" and "1 \<le> n" and "n \<le> maxProviderPageCount"
  obtains w' raw where "readCall S c operation (fetch n) w = (w', Inr (raw, Some (page n)))"
proof -
  obtain w1 where "sdk_ContextErr S c w = (w1, None)" using assms(1) by (metis serves_def prod.collapse)
  moreover obtain w2 raw where "fetch n w1 = (w2, raw, Inr (Some (page n)))" using assms unfolding serves_def by blast
  ultimately have "readCall S c operation (fetch n) w = (w2, Inr (raw, Some (page n)))"
    unfolding readCall_def by (subst read_from.simps) (simp add: readAttempts_def)
  then show thesis by (rule that)
qed

text \<open>The pages that a listing reads: all but the first begin with an item, or the page before it was full.\<close>

definition full_mode :: "(nat \<Rightarrow> page_info) \<Rightarrow> bool" where
  "full_mode info \<longleftrightarrow> info = (\<lambda>_. NoDocument) \<or> info = (\<lambda>n. PageInfo (int n) 0 0)"

definition reachable_page :: "nat \<Rightarrow> 'a list \<Rightarrow> (nat \<Rightarrow> page_info) \<Rightarrow> nat \<Rightarrow> bool" where
  "reachable_page per all info n \<longleftrightarrow>
     1 \<le> n \<and> (n - 1) * per \<le> length all \<and> (n = 1 \<or> (n - 1) * per < length all \<or> full_mode info)"

lemma pages_of_bounds:
  assumes "0 < per"
  shows "n < pages_of per all \<longleftrightarrow> n * per < length all"
proof -
  have "n < pages_of per all \<longleftrightarrow> Suc n * per \<le> length all + per - 1"
    unfolding pages_of_def using less_eq_div_iff_mult_less_eq [OF assms, of "Suc n" "length all + per - 1"] by (simp add: Suc_le_eq)
  also have "\<dots> \<longleftrightarrow> n * per < length all" using assms by auto
  finally show ?thesis .
qed

lemma page_lengths:
  assumes "reachable_page per all info n" and "0 < per"
  shows "take ((n - 1) * per) all @ page_of per all n = take (n * per) all"
    and "length (page_of per all n) = min per (length all - (n - 1) * per)"
proof -
  have "n * per = (n - 1) * per + per" using assms(1) by (cases n) (auto simp: reachable_page_def)
  then show "take ((n - 1) * per) all @ page_of per all n = take (n * per) all" by (simp add: page_of_def take_add)
qed (simp add: page_of_def)

text \<open>What the loop decides after an honest page.\<close>

lemma full_page_info:
  assumes "honest_info per all info" and "0 < per" and "reachable_page per all info n" and "n \<le> maxProviderPageCount"
  obtains hasMore where
    "cloudflarePageHasMore (info n) (int n) (int (length (take (n * per) all))) (int (length (page_of per all n))) (int per) = Inr hasMore"
    "hasMore \<Longrightarrow> reachable_page per all info (Suc n)" "\<not> hasMore \<Longrightarrow> length all \<le> n * per"
proof -
  let ?len = "length all"
  have n: "1 \<le> n" "(n - 1) * per \<le> ?len" using assms(3) by (auto simp: reachable_page_def)
  have step: "n * per = (n - 1) * per + per" using n(1) by (cases n) auto
  have got: "length (page_of per all n) = min per (?len - (n - 1) * per)" by (rule page_lengths(2) [OF assms(3,2)])
  have full: "per \<le> length (page_of per all n) \<longleftrightarrow> n * per \<le> ?len" using got step n(2) by auto
  have some: "length (page_of per all n) = 0 \<longleftrightarrow> (n - 1) * per = ?len" using got n(2) assms(2) by auto
  have loaded: "length (take (n * per) all) = min ?len (n * per)" by simp
  have small: "length (page_of per all n) \<le> per" using got by simp
  have plain: "full_mode info \<Longrightarrow>
      cloudflarePageHasMore (info n) (int n) (int (length (take (n * per) all))) (int (length (page_of per all n))) (int per)
      = Inr (n * per \<le> ?len)"
    using n(1) assms(2) small full
    by (auto simp: full_mode_def cloudflarePageHasMore_def document_has_more_def)
  show thesis
  proof (cases "full_mode info")
    case True
    show thesis by (rule that [OF plain [OF True]]) (use True n step in \<open>auto simp: reachable_page_def\<close>)
  next
    case False
    with assms(1) obtain count pages where info: "info = (\<lambda>n. PageInfo (int n) (int count) (int pages))"
      and count: "count = 0 \<or> count = ?len" and pages: "pages = 0 \<or> pages = pages_of per all"
      by (auto simp: honest_info_def full_mode_def)
    have some_left: "n = 1 \<or> (n - 1) * per < ?len" using assms(3) False by (auto simp: reachable_page_def)
    have next_reachable: "n * per < ?len \<Longrightarrow> reachable_page per all info (Suc n)" by (auto simp: reachable_page_def)
    show thesis
    proof (cases "pages = 0")
      case True
      with False info have c: "count = ?len" "0 < count" using count by (auto simp: full_mode_def)
      have nonempty: "(n - 1) * per < ?len" using some_left c by auto
      have "cloudflarePageHasMore (info n) (int n) (int (length (take (n * per) all))) (int (length (page_of per all n))) (int per)
            = Inr (min ?len (n * per) < ?len)"
        using True c n(1) assms(2) small some nonempty
        by (simp add: info cloudflarePageHasMore_def document_has_more_def loaded min_def)
      then show thesis by (rule that) (use next_reachable in auto)
    next
      case pages': False
      with pages have p: "pages = pages_of per all" by simp
      have "n - 1 < pages"
        using some_left pages' p pages_of_bounds [OF assms(2), of "n - 1" all] n(1) by auto
      then have le: "n \<le> pages" by simp
      have less: "n < pages \<longleftrightarrow> n * per < ?len" unfolding p by (rule pages_of_bounds [OF assms(2)])
      have nonempty: "n < pages \<Longrightarrow> length (page_of per all n) \<noteq> 0" using less some step assms(2) by auto
      have "cloudflarePageHasMore (info n) (int n) (int (length (take (n * per) all))) (int (length (page_of per all n))) (int per)
            = Inr (n < pages)"
        using pages' n(1) assms(2) small le nonempty
        by (auto simp: info cloudflarePageHasMore_def document_has_more_def)
      then show thesis by (rule that) (use next_reachable less in auto)
    qed
  qed
qed

definition honest_pages :: "nat \<Rightarrow> 'a list \<Rightarrow> (nat \<Rightarrow> page_info) \<Rightarrow> nat \<Rightarrow> 'a cf_page" where
  "honest_pages per all info n = \<lparr>cp_Result = page_of per all n, cp_Info = info n\<rparr>"

definition good_listing :: "'a listing \<Rightarrow> 'a list \<Rightarrow> bool" where
  "good_listing L all \<longleftrightarrow>
     list_all (\<lambda>x. validCloudflareOpaqueID (ls_ID L x)) all \<and> distinct (map (ls_ID L) all)
     \<and> 0 < ls_PageSize L \<and> length all < ls_PageSize L * maxProviderPageCount"

lemma list_from_complete:
  assumes good: "good_listing L all" and honest: "honest_info (ls_PageSize L) all info"
    and serves: "serves S fetch (honest_pages (ls_PageSize L) all info)"
  shows "reachable_page (ls_PageSize L) all info n \<Longrightarrow>
     \<exists>w' raw'. list_from S c operation L fetch n (take ((n - 1) * ls_PageSize L) all) raw w = (w', Inr (all, raw'))"
proof (induction "Suc maxProviderPageCount - n" arbitrary: n raw w rule: less_induct)
  case less
  let ?per = "ls_PageSize L"
  have per: "0 < ?per" and short: "length all < ?per * maxProviderPageCount" using good by (auto simp: good_listing_def)
  have "(n - 1) * ?per \<le> length all" and n1: "1 \<le> n" using less.prems unfolding reachable_page_def by blast+
  then have "(n - 1) * ?per < maxProviderPageCount * ?per" using short unfolding mult.commute [of maxProviderPageCount] by linarith
  then have "n - 1 < maxProviderPageCount" using mult_less_cancel2 by blast
  then have n: "1 \<le> n" "n \<le> maxProviderPageCount" using n1 by simp_all
  obtain w1 raw1 where call: "readCall S c operation (fetch n) w = (w1, Inr (raw1, Some (honest_pages ?per all info n)))"
    by (rule readCall_served [OF serves n])
  obtain hasMore where hasMore:
    "cloudflarePageHasMore (info n) (int n) (int (length (take (n * ?per) all))) (int (length (page_of ?per all n))) (int ?per) = Inr hasMore"
    "hasMore \<Longrightarrow> reachable_page ?per all info (Suc n)" "\<not> hasMore \<Longrightarrow> length all \<le> n * ?per"
    using full_page_info [OF honest per less.prems n(2)] by metis
  have all: "distinct (map (ls_ID L) (take k all))" "list_all (\<lambda>x. validCloudflareOpaqueID (ls_ID L x)) (page_of ?per all n)" for k
    using good by (auto simp: good_listing_def list_all_iff page_of_def distinct_take simp flip: take_map dest: in_set_takeD in_set_dropD)
  have "add_page_items L (take ((n - 1) * ?per) all) (page_of ?per all n) = Inr (take (n * ?per) all)"
    unfolding add_page_items_Inr [OF all(1)] page_lengths(1) [OF less.prems per] using all by simp
  then have load: "load_page L n (take ((n - 1) * ?per) all) (Some (honest_pages ?per all info n)) = Inr (take (n * ?per) all, hasMore)"
    using hasMore(1) by (simp add: load_page_def honest_pages_def)
  show ?case
  proof (cases hasMore)
    case True
    with call load n have "list_from S c operation L fetch n (take ((n - 1) * ?per) all) raw w
          = list_from S c operation L fetch (Suc n) (take ((Suc n - 1) * ?per) all) raw1 w1"
      by (subst list_from.simps) simp
    then show ?thesis using less.hyps [of "Suc n"] hasMore(2) [OF True] n by simp
  next
    case False
    with call load n hasMore(3) show ?thesis by (subst list_from.simps) simp
  qed
qed

text \<open>C9: From an API that serves its pages as documented, with the page, the total count and the total number of pages
  reported or left out, the listing of a zone's records returns all of them, each once and in their order, whatever
  else happens to the world meanwhile. This holds for empty zones and for a last page that is full.
\<close>

theorem record_listing_complete:
  assumes "list_all validCloudflareOpaqueID (map cfr_ID all)" and "distinct (map cfr_ID all)"
    and "length all < recordPageSize * maxProviderPageCount" and "honest_info recordPageSize all info"
    and "serves S (\<lambda>n. sdk_ListRecords S c zoneID n recordPageSize) (honest_pages recordPageSize all info)"
  shows "\<exists>w' raw. listAllRecords S c zoneID operation w = (w', Inr (all, raw))"
proof -
  have "good_listing record_listing all" and per: "ls_PageSize record_listing = recordPageSize"
    using assms(1-3) by (auto simp: good_listing_def record_listing_def list_all_iff recordPageSize_def)
  from list_from_complete [OF this(1), of info S "\<lambda>n. sdk_ListRecords S c zoneID n recordPageSize" 1 c operation None w]
  show ?thesis using assms(4,5) by (simp add: per listAllRecords_def reachable_page_def)
qed

end
