(* ===== verification/Cloudflare_Safety.thy ===== *)
theory Cloudflare_Safety
  imports Cloudflare_Pages
begin

text \<open>
  What a change of a logical record set at Cloudflare guarantees, for every SDK: nothing is written before the
  precondition has matched the state just read; no record outside the set is touched; a success means that the
  state read at the end has the content asked for.
\<close>

section \<open>Operations that only read\<close>

definition reads_keep :: "('w \<Rightarrow> bool) \<Rightarrow> 'w cf_sdk \<Rightarrow> bool" where
  "reads_keep I S \<longleftrightarrow> context_keeps I S \<and> (\<forall>c n p. keeps I (sdk_ListZones S c n p)) \<and> (\<forall>c z. keeps I (sdk_GetZone S c z))
     \<and> (\<forall>c z n p. keeps I (sdk_ListRecords S c z n p))"

lemma reads_keepD:
  assumes "reads_keep I S"
  shows "context_keeps I S" "keeps I (sdk_ListZones S c n p)" "keeps I (sdk_GetZone S c z)" "keeps I (sdk_ListRecords S c z n p)"
  using assms by (auto simp: reads_keep_def)

lemma in_request_keeps: "context_keeps I S \<Longrightarrow> (\<And>c. keeps I (m c)) \<Longrightarrow> keeps I (in_request S t c m)"
  by (auto simp: in_request_def intro!: keeps_seq keeps_plainly requestContext_keeps)

lemma keeps_if: "keeps I m \<Longrightarrow> keeps I n \<Longrightarrow> keeps I (if b then m else n)"
  by simp

lemma keeps_prod: "(\<And>a b. keeps I (m a b)) \<Longrightarrow> keeps I (case p of (a, b) \<Rightarrow> m a b)"
  by (cases p) simp

lemma keeps_option: "keeps I m \<Longrightarrow> (\<And>x. keeps I (n x)) \<Longrightarrow> keeps I (case v of None \<Rightarrow> m | Some x \<Rightarrow> n x)"
  by (cases v) simp_all

lemmas keeps_rules = keeps_pure keeps_seq keeps_attempt keeps_if keeps_prod keeps_option readCall_keeps

lemma reoperated_keeps: "keeps I m \<Longrightarrow> keeps I (reoperated op m)"
  unfolding reoperated_def by (rule keeps_rules | assumption)+

lemma get_zone_keeps: "reads_keep I S \<Longrightarrow> keeps I (get_zone S E z c)"
  unfolding get_zone_def Let_def by (rule keeps_rules reads_keepD | assumption)+

lemma listing_keeps: "reads_keep I S \<Longrightarrow> keeps I (cf_listRecordSetsForMutation S F c zone operation)"
  unfolding cf_listRecordSetsForMutation_def listAllRecords_def [abs_def]
  by (rule keeps_rules list_from_keeps reads_keepD | assumption | simp)+

lemma current_keeps: "reads_keep I S \<Longrightarrow> keeps I (currentRecordSetForMutation S F c z i operation)"
  unfolding currentRecordSetForMutation_def
  by (rule keeps_rules reoperated_keeps get_zone_keeps listing_keeps | assumption)+

lemma final_keeps: "reads_keep I S \<Longrightarrow> keeps I (findFinalRecordSet S F c zone es k operation)"
  unfolding findFinalRecordSet_def by (rule keeps_rules listing_keeps | assumption)+

lemma deleted_keeps: "reads_keep I S \<Longrightarrow> keeps I (verifyRecordSetDeleted S F c zone rs operation)"
  unfolding verifyRecordSetDeleted_def by (rule keeps_rules listing_keeps | assumption)+

section \<open>What the state that was read is\<close>

lemma seq_Inr: "seq m k w = (w', Inr y) \<longleftrightarrow> (\<exists>w1 x. m w = (w1, Inr x) \<and> k x w1 = (w', Inr y))"
  by (auto simp: seq_result)

lemma valid_input_Inr: "valid_input op v w = (w', Inr y) \<longleftrightarrow> w' = w \<and> v = Inr y"
  by (auto simp: valid_input_def checked_def relabel_def split: sum.splits)

lemma payload_Inr: "payload op raw v w = (w', Inr y) \<longleftrightarrow> w' = w \<and> v = Inr y"
  by (auto simp: payload_def checked_def relabel_def split: sum.splits)

lemma checked_Inr: "checked v w = (w', Inr y) \<longleftrightarrow> w' = w \<and> v = Inr y"
  by (auto simp: checked_def)

lemma reoperated_Inr: "reoperated op m w = (w', Inr y) \<longleftrightarrow> m w = (w', Inr y)"
  by (auto simp: reoperated_def attempt_def give_def reject_def split: prod.splits sum.splits)

lemma reject_Inr: "reject e w = (w', Inr y) \<longleftrightarrow> False"
  by (simp add: reject_def)

lemma seq_InrE:
  "seq m k w = (w', Inr y) \<Longrightarrow> (\<And>w1 x. m w = (w1, Inr x) \<Longrightarrow> k x w1 = (w', Inr y) \<Longrightarrow> P) \<Longrightarrow> P"
  by (auto simp: seq_Inr)

lemmas success = seq_Inr valid_input_Inr payload_Inr checked_Inr reoperated_Inr reject_Inr

lemma get_zone_Inr: "get_zone S E z c w = (w', Inr zone) \<Longrightarrow> zone_ID zone = z"
  by (auto simp: get_zone_def Let_def success split: prod.splits if_splits)

text \<open>The sets of a listing: their identifiers name their entries, and no record is in two of them.\<close>

definition sets_ok :: "record_set list \<Rightarrow> bool" where
  "sets_ok sets \<longleftrightarrow>
     distinct (concat (map (\<lambda>rs. entryIDs (rs_Entries rs)) sets))
     \<and> (\<forall>rs \<in> set sets. encodeRecordSetID (entryIDs (rs_Entries rs)) = Inr (rs_ID rs))"

lemma groupRecords_sets_ok:
  assumes "groupRecords F zoneName source = Inr sets" and "distinct (map cfr_ID source)"
  shows "sets_ok sets"
proof -
  from assms(1) obtain ms gs items where ms: "mapped_records (cfe_text F) zoneName source = Inr ms"
    and gs: "gs = all_groups ms []" and items: "list_all2 (\<lambda>g rs. group_record_set F zoneName g = Inr rs) gs items"
    and sets: "sets = sort_key record_set_order items" by (rule groupRecords_groups)
  have "mset (concat (map (\<lambda>rs. entryIDs (rs_Entries rs)) sets)) = mset (map cfr_ID (supported_records (cfe_text F) source))"
    by (rule group_ids_conserved [OF ms gs items sets])
  moreover have "distinct (map cfr_ID (supported_records (cfe_text F) source))"
    using assms(2) by (simp add: supported_records_def distinct_map_filter)
  ultimately have "distinct (concat (map (\<lambda>rs. entryIDs (rs_Entries rs)) sets))" by (metis mset_eq_imp_distinct_iff)
  moreover have "encodeRecordSetID (entryIDs (rs_Entries rs)) = Inr (rs_ID rs)" if "rs \<in> set sets" for rs
  proof -
    from that have "rs \<in> set items" by (simp add: sets)
    with items obtain g where "group_record_set F zoneName g = Inr rs" by (rule group_of_set)
    then show ?thesis by (rule group_record_set_Inr(2))
  qed
  ultimately show ?thesis by (simp add: sets_ok_def)
qed

lemma listing_sets_ok:
  "cf_listRecordSetsForMutation S F c zone operation w = (w', Inr (sets, raw)) \<Longrightarrow> sets_ok sets"
  by (auto simp: cf_listRecordSetsForMutation_def success split: prod.splits
      dest!: listAllRecords_distinct intro: groupRecords_sets_ok)

lemma find_record_set_Inr: "find_record_set operation code m raw i ids sets = Inr rs \<Longrightarrow> rs \<in> set sets \<and> rs_ID rs = i"
  by (auto simp: find_record_set_def find_Some_iff split: option.splits if_splits)

lemma current_found:
  assumes "currentRecordSetForMutation S F c z i operation w = (w', Inr (current, zone, sets))"
  shows "zone_ID zone = z \<and> rs_ID current = i \<and> current \<in> set sets \<and> sets_ok sets"
  using assms
  by (auto simp: currentRecordSetForMutation_def success split: prod.splits
      dest!: get_zone_Inr listing_sets_ok find_record_set_Inr)

lemma checked_precondition:
  "cf_checkPrecondition E p current operation = Inr u \<longleftrightarrow> precondition_matches E p current = Inr True"
  by (auto simp: cf_checkPrecondition_def split: sum.splits bool.splits)

section \<open>Nothing is written before the check\<close>

text \<open>How far an update or a delete went before it wrote anything.\<close>

definition passed_check ::
  "'w cf_sdk \<Rightarrow> cf_env \<Rightarrow> string \<Rightarrow> string \<Rightarrow> string \<Rightarrow> precondition \<Rightarrow> ('w \<Rightarrow> bool) \<Rightarrow> bool" where
  "passed_check S F operation zoneID i p I \<longleftrightarrow>
     (\<exists>c w0 w1 current zone sets. I w0 \<and> I w1
        \<and> currentRecordSetForMutation S F c zoneID i operation w0 = (w1, Inr (current, zone, sets))
        \<and> rs_ID current = i \<and> precondition_matches (cfe_text F) p current = Inr True)"

lemma ends_request:
  assumes "context_keeps I S" and "I w" and "\<And>c w. I w \<Longrightarrow> ends (m c) w Q" and "\<And>w r. I w \<Longrightarrow> Q w r"
  shows "ends (in_request S t c m) w Q"
proof -
  have "keeps I (plainly (requestContext S t c))" using assms(1) by (intro keeps_plainly requestContext_keeps)
  with assms(2-4) show ?thesis
    unfolding in_request_def by (intro ends_seq) (auto dest: leadsD)
qed

lemma change_checks_first:
  assumes "reads_keep I S" and "I w"
    and "\<And>w r. I w \<Longrightarrow> Q w r" and "passed_check S F operation z i p I \<Longrightarrow> (\<And>w r. Q w r)"
  shows "ends (in_request S t c (\<lambda>c. seq (currentRecordSetForMutation S F c z i operation) (\<lambda>(current, zone, sets).
           seq (checked (cf_checkPrecondition (cfe_text F) p current operation)) (\<lambda>_. k c current zone sets)))) w Q"
proof (rule ends_request [where I = I])
  fix c w assume w: "I w"
  show "ends (seq (currentRecordSetForMutation S F c z i operation) (\<lambda>(current, zone, sets).
           seq (checked (cf_checkPrecondition (cfe_text F) p current operation)) (\<lambda>_. k c current zone sets))) w Q"
  proof (rule ends_seq)
    fix w1 e assume "currentRecordSetForMutation S F c z i operation w = (w1, Inl e)"
    from leadsD [OF current_keeps [OF assms(1)] w this] have "I w1" .
    then show "Q w1 (Inl e)" by (rule assms(3))
  next
    fix w1 x assume found: "currentRecordSetForMutation S F c z i operation w = (w1, Inr x)"
    obtain current zone sets where x: "x = (current, zone, sets)" by (metis prod_cases3)
    have w1: "I w1" by (rule leadsD [OF current_keeps [OF assms(1)] w found])
    show "ends (case x of (current, zone, sets) \<Rightarrow>
           seq (checked (cf_checkPrecondition (cfe_text F) p current operation)) (\<lambda>_. k c current zone sets)) w1 Q"
      unfolding x prod.case
    proof (rule ends_seq)
      fix w2 e assume "checked (cf_checkPrecondition (cfe_text F) p current operation) w1 = (w2, Inl e)"
      with w1 have "I w2" by (simp add: checked_def)
      then show "Q w2 (Inl e)" by (rule assms(3))
    next
      fix w2 u assume "checked (cf_checkPrecondition (cfe_text F) p current operation) w1 = (w2, Inr u)"
      then have "precondition_matches (cfe_text F) p current = Inr True"
        by (simp add: checked_Inr checked_precondition)
      moreover have "rs_ID current = i" using current_found [OF found [unfolded x]] by blast
      ultimately have "passed_check S F operation z i p I"
        unfolding passed_check_def using found [unfolded x] w w1 by blast
      then show "ends (k c current zone sets) w2 Q" by (simp add: ends_def assms(4))
    qed
  qed
qed (use assms in \<open>auto simp: reads_keep_def\<close>)

text \<open>C7: An update or a delete of a record set at Cloudflare changes nothing, in any respect that reading leaves alone,
  unless the set with the given identifier was read first and the caller's precondition matches it. Errors of every
  call are included.
\<close>

theorem changes_check_first:
  assumes "reads_keep I S" and "I w"
  shows "(I (fst (cf_UpdateRecordSet S F t c z i input w))
          \<or> passed_check S F ''update_record_set'' z i (ui_Precondition input) I)
         \<and> (I (fst (cf_DeleteRecordSet S F t c z i p w)) \<or> passed_check S F ''delete_record_set'' z i p I)"
proof
  have "ends (cf_UpdateRecordSet S F t c z i input) w
          (\<lambda>w' r. I w' \<or> passed_check S F ''update_record_set'' z i (ui_Precondition input) I)"
    unfolding cf_UpdateRecordSet_def Let_def by (rule change_checks_first [OF assms]) auto
  then show "I (fst (cf_UpdateRecordSet S F t c z i input w))
          \<or> passed_check S F ''update_record_set'' z i (ui_Precondition input) I" by (simp add: ends_def)
  have "ends (cf_DeleteRecordSet S F t c z i p) w (\<lambda>w' r. I w' \<or> passed_check S F ''delete_record_set'' z i p I)"
    unfolding cf_DeleteRecordSet_def Let_def by (rule change_checks_first [OF assms]) auto
  then show "I (fst (cf_DeleteRecordSet S F t c z i p w)) \<or> passed_check S F ''delete_record_set'' z i p I"
    by (simp add: ends_def)
qed

section \<open>No other record is touched\<close>

text \<open>
  What the API documents: reading changes no record, creating one leaves those that exist, and the other two
  calls touch the record they name.
\<close>

definition names_its_record :: "('w \<Rightarrow> string \<Rightarrow> string \<Rightarrow> cf_record option) \<Rightarrow> 'w cf_sdk \<Rightarrow> bool" where
  "names_its_record rec S \<longleftrightarrow>
     (\<forall>z i x. reads_keep (\<lambda>w. rec w z i = Some x) S
        \<and> (\<forall>c z' b. keeps (\<lambda>w. rec w z i = Some x) (sdk_NewRecord S c z' b))
        \<and> (\<forall>c z' i' b. (z', i') \<noteq> (z, i) \<longrightarrow> keeps (\<lambda>w. rec w z i = Some x) (sdk_UpdateRecord S c z' i' b))
        \<and> (\<forall>c z' i'. (z', i') \<noteq> (z, i) \<longrightarrow> keeps (\<lambda>w. rec w z i = Some x) (sdk_DeleteRecord S c z' i')))"

lemma once_keeps: "context_keeps I S \<Longrightarrow> keeps I call \<Longrightarrow> keeps I (once S operation call)"
  unfolding once_def [abs_def] by (rule leads_step leads_prod leads_rules mapError_keeps | assumption)+

lemma createRecord_keeps:
  "context_keeps I S \<Longrightarrow> (\<And>b. keeps I (sdk_NewRecord S c z b)) \<Longrightarrow> keeps I (createRecord S c z n opts e operation)"
  unfolding createRecord_def by (rule keeps_rules once_keeps | assumption)+

lemma updateRecord_keeps:
  "context_keeps I S \<Longrightarrow> (\<And>b. keeps I (sdk_UpdateRecord S c z i b)) \<Longrightarrow> keeps I (updateRecord S c z i n opts e operation)"
  unfolding updateRecord_def by (rule keeps_rules once_keeps | assumption)+

lemma delete_all_keeps:
  "context_keeps I S \<Longrightarrow> (\<And>i. i \<in> set ids \<Longrightarrow> keeps I (sdk_DeleteRecord S c z i)) \<Longrightarrow> keeps I (delete_all S c z operation ids)"
  by (induction ids) (auto simp: deleteRecord_def intro!: keeps_seq keeps_pure once_keeps)

lemma create_all_keeps:
  "context_keeps I S \<Longrightarrow> (\<And>b. keeps I (sdk_NewRecord S c z b)) \<Longrightarrow> keeps I (create_all S c z n opts operation es)"
  by (induction es) (auto intro!: keeps_seq keeps_pure createRecord_keeps)

lemma write_desired_keeps:
  assumes "context_keeps I S" and "\<And>b. keeps I (sdk_NewRecord S c z b)"
    and "\<And>i b. i \<in> set (entryIDs es) \<Longrightarrow> i \<noteq> [] \<Longrightarrow> keeps I (sdk_UpdateRecord S c z i b)"
  shows "keeps I (write_desired S c z n opts operation current changed es)"
  using assms(3)
proof (induction es)
  case (Cons e es)
  have rest: "keeps I (write_desired S c z n opts operation current changed es)"
    by (rule Cons.IH) (use Cons.prems in \<open>simp add: entryIDs_def\<close>)
  have one: "re_ID e \<noteq> [] \<Longrightarrow> keeps I (updateRecord S c z (re_ID e) n opts e' operation)" for e'
    using assms(1) Cons.prems by (intro updateRecord_keeps) (auto simp: entryIDs_def)
  show ?case
    using rest one assms(1,2) by (auto intro!: keeps_seq keeps_pure createRecord_keeps)
qed (simp add: keeps_pure)

lemma check_desired_ids_Inr:
  "check_desired_ids current operation seen es = Inr u \<Longrightarrow> i \<in> set (entryIDs es) \<Longrightarrow> i \<noteq> [] \<Longrightarrow> i \<in> set (entryIDs current)"
  by (induction current operation seen es rule: check_desired_ids.induct) (auto simp: entryIDs_def split: if_splits)

lemma keeps_checked: "(\<And>x. r = Inr x \<Longrightarrow> keeps I (k x)) \<Longrightarrow> keeps I (seq (checked r) k)"
  by (cases r) (auto simp: leads_def seq_def attempt_def checked_def reject_def)

lemma dropped_subset: "set (dropped_ids current n es) \<subseteq> set (entryIDs (rs_Entries current))"
  by (auto simp: dropped_ids_def)

lemma ends_keeps: "keeps I m \<Longrightarrow> I w \<Longrightarrow> ends m w (\<lambda>w' r. I w')"
  by (simp add: leads_def ends_def)

text \<open>The changes of an update and of a delete, after the set was found.\<close>

lemma frame_change:
  assumes keep: "reads_keep I S" and "I w"
    and change: "\<And>c current zone sets. zone_ID zone = z \<Longrightarrow>
           encodeRecordSetID (entryIDs (rs_Entries current)) = Inr i \<Longrightarrow> keeps I (k c current zone sets)"
  shows "I (fst (in_request S t c (\<lambda>c. seq (currentRecordSetForMutation S F c z i operation) (\<lambda>(current, zone, sets).
           k c current zone sets)) w))"
proof -
  have "ends (in_request S t c (\<lambda>c. seq (currentRecordSetForMutation S F c z i operation) (\<lambda>(current, zone, sets).
           k c current zone sets))) w (\<lambda>w' r. I w')"
  proof (rule ends_request [where I = I])
    fix c w assume w: "I w"
    show "ends (seq (currentRecordSetForMutation S F c z i operation) (\<lambda>(current, zone, sets). k c current zone sets)) w
            (\<lambda>w' r. I w')"
    proof (rule ends_seq)
      fix w1 x assume found: "currentRecordSetForMutation S F c z i operation w = (w1, Inr x)"
      obtain current zone sets where x: "x = (current, zone, sets)" by (metis prod_cases3)
      have "I w1" by (rule leadsD [OF current_keeps [OF keep] w found])
      moreover have "keeps I (k c current zone sets)"
        using current_found [OF found [unfolded x]] by (intro change) (auto simp: sets_ok_def)
      ultimately show "ends (case x of (current, zone, sets) \<Rightarrow> k c current zone sets) w1 (\<lambda>w' r. I w')"
        unfolding x prod.case by (rule ends_keeps [rotated])
    qed (rule leadsD [OF current_keeps [OF keep] w])
  qed (use assms in \<open>auto simp: reads_keep_def\<close>)
  then show ?thesis by (simp add: ends_def)
qed

text \<open>C6: A change at Cloudflare leaves every other record of every zone as it is, even when it fails half way: an
  update and a delete touch only the records named by the identifier of the set, a create touches none that existed.
\<close>

theorem other_records_untouched:
  assumes "names_its_record rec S" and "rec w z' j = Some x"
    and "\<forall>ids. encodeRecordSetID ids = Inr i \<longrightarrow> z' \<noteq> z \<or> j \<notin> set ids"
  shows "rec (fst (cf_UpdateRecordSet S F t c z i input w)) z' j = Some x
         \<and> rec (fst (cf_DeleteRecordSet S F t c z i p w)) z' j = Some x
         \<and> rec (fst (cf_CreateRecordSet S F t c y n w)) z' j = Some x"
proof (intro conjI)
  let ?I = "\<lambda>w. rec w z' j = Some x"
  have keep: "reads_keep ?I S" and new: "\<And>c z b. keeps ?I (sdk_NewRecord S c z b)"
    and upd: "\<And>c z i b. (z, i) \<noteq> (z', j) \<Longrightarrow> keeps ?I (sdk_UpdateRecord S c z i b)"
    and del: "\<And>c z i. (z, i) \<noteq> (z', j) \<Longrightarrow> keeps ?I (sdk_DeleteRecord S c z i)"
    using assms(1) unfolding names_its_record_def by blast+
  note ctx = reads_keepD(1) [OF keep]
  have outside: "zone_ID zone = z \<Longrightarrow> encodeRecordSetID (entryIDs es) = Inr i \<Longrightarrow> k \<in> set (entryIDs es) \<Longrightarrow> (zone_ID zone, k) \<noteq> (z', j)"
    for zone es k using assms(3) by blast
  have writes: "keeps ?I (write_desired S c (zone_ID zone) n opts operation es changed (ci_Entries n))"
    if "zone_ID zone = z" "encodeRecordSetID (entryIDs es) = Inr i" "check_desired_ids es operation [] (ci_Entries n) = Inr u"
    for c zone n opts operation es changed u
    by (rule write_desired_keeps [OF ctx new upd]) (use outside [OF that(1,2)] check_desired_ids_Inr [OF that(3)] in blast)
  have drops: "keeps ?I (delete_all S c (zone_ID zone) operation ids)"
    if "zone_ID zone = z" "encodeRecordSetID (entryIDs es) = Inr i" "set ids \<subseteq> set (entryIDs es)" for c zone operation es ids
    by (rule delete_all_keeps [OF ctx del]) (use outside [OF that(1,2)] that(3) in blast)
  show "?I (fst (cf_UpdateRecordSet S F t c z i input w))"
    unfolding cf_UpdateRecordSet_def Let_def
    by (rule frame_change [where I = ?I, OF keep assms(2)])
      (rule keeps_checked keeps_rules final_keeps [OF keep] drops writes dropped_subset | assumption)+
  show "?I (fst (cf_DeleteRecordSet S F t c z i p w))"
    unfolding cf_DeleteRecordSet_def Let_def
    by (rule frame_change [where I = ?I, OF keep assms(2)])
      (rule keeps_rules deleted_keeps [OF keep] drops subset_refl | assumption)+
  have "keeps ?I (cf_CreateRecordSet S F t c y n)"
    unfolding cf_CreateRecordSet_def Let_def
    by (rule in_request_keeps [OF ctx] keeps_rules reoperated_keeps get_zone_keeps [OF keep] listing_keeps [OF keep]
        create_all_keeps [OF ctx new] final_keeps [OF keep])+
  then show "?I (fst (cf_CreateRecordSet S F t c y n w))" using assms(2) by (simp add: leads_def)
qed

section \<open>A success is what was asked for\<close>

text \<open>The entries that are expected at the end: the desired ones, with an identifier where they had none.\<close>

definition identified :: "record_entry \<Rightarrow> record_entry \<Rightarrow> bool" where
  "identified e f \<longleftrightarrow> f\<lparr>re_ID := re_ID e\<rparr> = e \<and> (re_ID e \<noteq> [] \<longrightarrow> re_ID f = re_ID e)"

lemma write_desired_Inr:
  "write_desired S c z n opts operation current changed es w = (w', Inr fs) \<Longrightarrow> list_all2 identified es fs"
proof (induction es arbitrary: w fs)
  case (Cons e es)
  from Cons.prems obtain w1 e' rest
    where e': "(if re_ID e = [] then seq (createRecord S c z n opts e operation) (\<lambda>created. give (e\<lparr>re_ID := cfr_ID created\<rparr>))
          else if changed \<or> (case entry_by_id current (re_ID e) of None \<Rightarrow> True | Some old \<Rightarrow> \<not> equalRecordEntry old e)
          then seq (updateRecord S c z (re_ID e) n opts e operation) (\<lambda>_. give e) else give e) w = (w1, Inr e')"
      and rest: "write_desired S c z n opts operation current changed es w1 = (w', Inr rest)" and fs: "fs = e' # rest"
    by (auto simp: seq_Inr)
  have "identified e e'" using e' by (auto simp: identified_def seq_Inr split: if_splits)
  with Cons.IH [OF rest] fs show ?case by simp
qed simp

text \<open>What a set with exactly some entries has.\<close>

definition has_content :: "record_entry list \<Rightarrow> record_set \<Rightarrow> bool" where
  "has_content es rs \<longleftrightarrow> length (rs_Entries rs) = length es
     \<and> (\<forall>e \<in> set es. \<exists>x \<in> set (rs_Entries rs). equalRecordEntry x e \<and> (re_ID e \<noteq> [] \<longrightarrow> re_ID x = re_ID e))"

lemma entry_by_id_Some: "entry_by_id es i = Some e \<Longrightarrow> e \<in> set es \<and> re_ID e = i"
  unfolding entry_by_id_def find_Some_iff by (metis nth_mem set_rev)

lemma exact_entries_content:
  assumes "recordSetHasExactEntries rs fs" and "list_all2 identified es fs"
  shows "has_content es rs"
proof -
  have "\<exists>x \<in> set (rs_Entries rs). equalRecordEntry x e \<and> (re_ID e \<noteq> [] \<longrightarrow> re_ID x = re_ID e)" if "e \<in> set es" for e
  proof -
    from assms(2) that have "\<exists>f \<in> set fs. identified e f" by (induction rule: list_all2_induct) auto
    then obtain f where f: "f \<in> set fs" "identified e f" by blast
    with assms(1) obtain x where x: "entry_by_id (rs_Entries rs) (re_ID f) = Some x" "equalRecordEntry x f"
      by (auto simp: recordSetHasExactEntries_def list_all_iff split: option.splits)
    have e: "f\<lparr>re_ID := re_ID e\<rparr> = e" using f(2) by (simp add: identified_def)
    have "equalRecordEntry x (f\<lparr>re_ID := re_ID e\<rparr>)" using x(2) by (simp add: equalRecordEntry_def)
    then have "equalRecordEntry x e" unfolding e .
    then show ?thesis using entry_by_id_Some [OF x(1)] f(2) by (auto simp: identified_def)
  qed
  then show ?thesis using assms list_all2_lengthD [OF assms(2)] by (simp add: has_content_def recordSetHasExactEntries_def)
qed

lemma final_record_set_Inr:
  "final_record_set operation fs k raw sets = Inr rs \<Longrightarrow>
     rs \<in> set sets \<and> recordSetHasExactEntries rs fs \<and> equivalentGroupKey (groupKeyFromRecordSet rs) k"
  by (auto simp: final_record_set_def find_Some_iff split: option.splits if_splits)

lemma findFinalRecordSet_Inr:
  "findFinalRecordSet S F c zone fs k operation w = (w', Inr rs) \<Longrightarrow>
     (\<exists>sets raw. cf_listRecordSetsForMutation S F c zone operation w = (w', Inr (sets, raw)) \<and> rs \<in> set sets)
     \<and> recordSetHasExactEntries rs fs \<and> equivalentGroupKey (groupKeyFromRecordSet rs) k"
  by (auto simp: findFinalRecordSet_def success split: prod.splits dest!: final_record_set_Inr)

lemma in_request_Inr: "in_request S t c m w = (w', Inr y) \<Longrightarrow> \<exists>c w0. m c w0 = (w', Inr y)"
  by (auto simp: in_request_def seq_Inr)

definition updated_to :: "cf_env \<Rightarrow> string \<Rightarrow> string \<Rightarrow> update_input \<Rightarrow> record_set \<Rightarrow> zone \<Rightarrow> record_set \<Rightarrow> bool" where
  "updated_to F z i input current zone rs \<longleftrightarrow>
     zone_ID zone = z \<and> rs_ID current = i \<and> precondition_matches (cfe_text F) (ui_Precondition input) current = Inr True
     \<and> (\<exists>n opts. NormalizeCreateRecordSetInput (cfe_text F) (zone_Name zone) (ui_Desired input) = Inr n
          \<and> validateCloudflareInput n (recordOptionsFromRecordSet current) True = Inr opts
          \<and> equivalentGroupKey (groupKeyFromRecordSet rs) (groupKeyFromInput n opts) \<and> has_content (ci_Entries n) rs)"

text \<open>C10: An update that succeeds found the set it names with a precondition that matches it, and returns a set of the state
  read after its last write: with the name, type, TTL and options asked for, as many entries as asked for, and each of
  them among its entries, under its identifier if it had one.
\<close>

theorem cloudflare_update_success:
  assumes "cf_UpdateRecordSet S F t c z i input w = (w', Inr rs)"
  shows "(\<exists>current zone. updated_to F z i input current zone rs
           \<and> (\<exists>c w1 sets raw. cf_listRecordSetsForMutation S F c zone ''update_record_set'' w1 = (w', Inr (sets, raw)) \<and> rs \<in> set sets))"
proof -
  let ?op = "''update_record_set''"
  let ?P = "\<exists>current zone. updated_to F z i input current zone rs
      \<and> (\<exists>c w1 sets raw. cf_listRecordSetsForMutation S F c zone ?op w1 = (w', Inr (sets, raw)) \<and> rs \<in> set sets)"
  have leaf: "ends (findFinalRecordSet S F c zone fs (groupKeyFromInput n opts) ?op) w5 (\<lambda>w1 r1. w1 = w' \<longrightarrow> r1 = Inr rs \<longrightarrow> ?P)"
    if found: "currentRecordSetForMutation S F c z i ?op w0 = (w1, Inr (current, zone, sets))"
      and pre: "checked (cf_checkPrecondition (cfe_text F) (ui_Precondition input) current ?op) w1 = (w2, Inr u)"
      and n: "valid_input ?op (NormalizeCreateRecordSetInput (cfe_text F) (zone_Name zone) (ui_Desired input)) w2 = (w3, Inr n)"
      and opts: "valid_input ?op (validateCloudflareInput n (recordOptionsFromRecordSet current) True) w3 = (w4, Inr opts)"
      and fs: "write_desired S c (zone_ID zone) n opts ?op es changed (ci_Entries n) w6 = (w7, Inr fs)"
    for c zone fs n opts w0 w1 w2 w3 w4 w5 w6 w7 current sets u es changed
  proof (rule ends_call, intro impI)
    fix w8 r assume "findFinalRecordSet S F c zone fs (groupKeyFromInput n opts) ?op w5 = (w8, r)" and "w8 = w'" and "r = Inr rs"
    then have final: "findFinalRecordSet S F c zone fs (groupKeyFromInput n opts) ?op w5 = (w', Inr rs)" by simp
    note last = findFinalRecordSet_Inr [OF final]
    have "has_content (ci_Entries n) rs" using last write_desired_Inr [OF fs] exact_entries_content by blast
    moreover have "zone_ID zone = z \<and> rs_ID current = i" using current_found [OF found] by blast
    ultimately have "updated_to F z i input current zone rs"
      using last pre n opts unfolding updated_to_def valid_input_Inr checked_Inr checked_precondition by blast
    with last show ?P by blast
  qed
  show ?P
  proof (rule ends_conclude [where m = "cf_UpdateRecordSet S F t c z i input" and w = w and w' = w' and r = "Inr rs", OF assms])
    show "ends (cf_UpdateRecordSet S F t c z i input) w (\<lambda>w1 r1. w1 = w' \<longrightarrow> r1 = Inr rs \<longrightarrow> ?P)"
      unfolding cf_UpdateRecordSet_def in_request_def Let_def
      by (rule ends_seq ends_prod ends_if ends_reject | hypsubst | simp only: sum.distinct simp_thms | (rule leaf; assumption))+
  qed
qed

text \<open>A create that succeeds, in the same way; the desired entries have no identifiers yet.\<close>

lemma create_all_Inr:
  "create_all S c z n opts operation es w = (w', Inr fs) \<Longrightarrow> list_all2 (\<lambda>e f. \<exists>i. f = e\<lparr>re_ID := i\<rparr>) es fs"
proof (induction es arbitrary: w fs)
  case (Cons e es)
  then show ?case by (fastforce simp: seq_Inr)
qed simp

lemma cloudflare_create_success:
  assumes "cf_CreateRecordSet S F t c z input w = (w', Inr rs)"
  shows "\<exists>zone n opts fs c w1 sets raw. zone_ID zone = z
     \<and> NormalizeCreateRecordSetInput (cfe_text F) (zone_Name zone) input = Inr n
     \<and> equivalentGroupKey (groupKeyFromRecordSet rs) (groupKeyFromInput n opts)
     \<and> list_all2 (\<lambda>e f. \<exists>i. f = e\<lparr>re_ID := i\<rparr>) (ci_Entries n) fs \<and> recordSetHasExactEntries rs fs
     \<and> cf_listRecordSetsForMutation S F c zone ''create_record_set'' w1 = (w', Inr (sets, raw)) \<and> rs \<in> set sets"
    (is ?P)
proof -
  let ?op = "''create_record_set''"
  have leaf: "ends (findFinalRecordSet S F c zone fs (groupKeyFromInput n opts) ?op) w5 (\<lambda>w1 r1. w1 = w' \<longrightarrow> r1 = Inr rs \<longrightarrow> ?P)"
    if zone: "reoperated ?op (get_zone S (cfe_text F) z c) w0 = (w1, Inr zone)"
      and n: "valid_input ?op (NormalizeCreateRecordSetInput (cfe_text F) (zone_Name zone) input) w2 = (w3, Inr n)"
      and fs: "create_all S c (zone_ID zone) n opts ?op (ci_Entries n) w6 = (w7, Inr fs)"
    for c zone fs n opts w0 w1 w2 w3 w5 w6 w7
  proof (rule ends_call, intro impI)
    fix w8 r assume "findFinalRecordSet S F c zone fs (groupKeyFromInput n opts) ?op w5 = (w8, r)" and "w8 = w'" and "r = Inr rs"
    then have "findFinalRecordSet S F c zone fs (groupKeyFromInput n opts) ?op w5 = (w', Inr rs)" by simp
    note last = findFinalRecordSet_Inr [OF this]
    have "zone_ID zone = z" by (rule get_zone_Inr [OF zone [unfolded reoperated_Inr]])
    moreover have "NormalizeCreateRecordSetInput (cfe_text F) (zone_Name zone) input = Inr n" using n by (simp add: valid_input_Inr)
    ultimately show ?P using last create_all_Inr [OF fs] by fast
  qed
  show ?P
  proof (rule ends_conclude [where m = "cf_CreateRecordSet S F t c z input" and w = w and w' = w' and r = "Inr rs", OF assms])
    show "ends (cf_CreateRecordSet S F t c z input) w (\<lambda>w1 r1. w1 = w' \<longrightarrow> r1 = Inr rs \<longrightarrow> ?P)"
      unfolding cf_CreateRecordSet_def in_request_def Let_def
      by (rule ends_seq ends_prod ends_if ends_reject | hypsubst | simp only: sum.distinct simp_thms | (rule leaf; assumption))+
  qed
qed

text \<open>A delete that succeeds has read a state without the records of the set and without another set of its key.\<close>

lemma cloudflare_delete_success:
  assumes "cf_DeleteRecordSet S F t c z i p w = (w', Inr u)"
  shows "\<exists>current zone c w1 sets raw. zone_ID zone = z \<and> rs_ID current = i
     \<and> precondition_matches (cfe_text F) p current = Inr True
     \<and> cf_listRecordSetsForMutation S F c zone ''delete_record_set'' w1 = (w', Inr (sets, raw)) \<and> \<not> still_there current sets"
    (is ?P)
proof -
  let ?op = "''delete_record_set''"
  have leaf: "ends (verifyRecordSetDeleted S F c zone current ?op) w5 (\<lambda>w1 r1. w1 = w' \<longrightarrow> r1 = Inr u \<longrightarrow> ?P)"
    if found: "currentRecordSetForMutation S F c z i ?op w0 = (w1, Inr (current, zone, sets))"
      and pre: "checked (cf_checkPrecondition (cfe_text F) p current ?op) w1 = (w2, Inr v)"
    for c zone w0 w1 w2 w5 current sets v
  proof (rule ends_call, intro impI)
    fix w8 r assume "verifyRecordSetDeleted S F c zone current ?op w5 = (w8, r)" and "w8 = w'" and "r = Inr u"
    then have "verifyRecordSetDeleted S F c zone current ?op w5 = (w', Inr u)" by simp
    then have "\<exists>sets raw. cf_listRecordSetsForMutation S F c zone ?op w5 = (w', Inr (sets, raw)) \<and> \<not> still_there current sets"
      by (auto simp: verifyRecordSetDeleted_def success split: prod.splits if_splits)
    then show ?P using current_found [OF found] pre unfolding checked_Inr checked_precondition by blast
  qed
  show ?P
  proof (rule ends_conclude [where m = "cf_DeleteRecordSet S F t c z i p" and w = w and w' = w' and r = "Inr u", OF assms])
    show "ends (cf_DeleteRecordSet S F t c z i p) w (\<lambda>w1 r1. w1 = w' \<longrightarrow> r1 = Inr u \<longrightarrow> ?P)"
      unfolding cf_DeleteRecordSet_def in_request_def Let_def
      by (rule ends_seq ends_prod ends_if ends_reject | hypsubst | simp only: sum.distinct simp_thms | (rule leaf; assumption))+
  qed
qed

end
