(* ===== verification/Cloudflare_Example.thy ===== *)
theory Cloudflare_Example
  imports Cloudflare_Safety
begin

text \<open>
  A small Cloudflare: one zone, a list of records, a counter of calls. The properties of the adapter are applied to it.
\<close>

section \<open>The server\<close>

record cf_server =
  sv_records :: "(string \<times> cf_record) list"
  sv_calls :: nat

definition answer :: "(cf_server \<Rightarrow> cf_server) \<Rightarrow> (cf_server \<Rightarrow> cf_error + 'a option) \<Rightarrow> cf_server \<Rightarrow> cf_server \<times> 'a cf_answer" where
  "answer step r w = (step w\<lparr>sv_calls := sv_calls w + 1\<rparr>, None, r w)"

definition shop_zone :: cf_zone where
  "shop_zone = \<lparr>cz_ID = ''z1'', cz_Name = ''example.com'', cz_Status = ''active'', cz_NameServers = [], cz_Paused = False\<rparr>"

definition records_in :: "cf_server \<Rightarrow> string \<Rightarrow> cf_record list" where
  "records_in w z = map snd (filter (\<lambda>(y, r). y = z) (sv_records w))"

definition record_of_body :: "string \<Rightarrow> cf_body \<Rightarrow> cf_record" where
  "record_of_body i b =
     \<lparr>cfr_ID = i, cfr_Name = cb_Name b, cfr_Type = cb_Type b,
      cfr_Content = (case cb_Content b of Inl _ \<Rightarrow> [] | Inr s \<Rightarrow> s),
      cfr_Data = (case cb_Content b of Inl d \<Rightarrow> d | Inr _ \<Rightarrow> NoData),
      cfr_Priority = (case cb_Priority b of None \<Rightarrow> 0 | Some p \<Rightarrow> p), cfr_TTL = cb_TTL b, cfr_Proxied = cb_Proxied b,
      cfr_Proxiable = True, cfr_Comment = cb_Comment b, cfr_Tags = TypedTags (cb_Tags b), cfr_CreatedOn = 0, cfr_ModifiedOn = 0\<rparr>"

definition page_answer :: "'a list \<Rightarrow> nat \<Rightarrow> nat \<Rightarrow> cf_error + 'a cf_page option" where
  "page_answer all n per = Inr (Some (honest_pages per all (\<lambda>n. PageInfo (int n) (int (length all)) 0) n))"

definition shop_sdk :: "cf_server cf_sdk" where
  "shop_sdk =
     \<lparr>sdk_ListZones = (\<lambda>c n per. answer id (\<lambda>w. page_answer [shop_zone] n per)),
      sdk_GetZone = (\<lambda>c z. answer id (\<lambda>w. if z = ''z1'' then Inr (Some shop_zone) else Inl (ApiError 404 None []))),
      sdk_ListRecords = (\<lambda>c z n per. answer id (\<lambda>w. page_answer (records_in w z) n per)),
      sdk_NewRecord = (\<lambda>c z b w. (let i = ''new-'' @ nat_to_dec (sv_calls w); r = record_of_body i b in
         answer (\<lambda>w. w\<lparr>sv_records := sv_records w @ [(z, r)]\<rparr>) (\<lambda>w. Inr (Some r)) w)),
      sdk_UpdateRecord = (\<lambda>c z i b.
         answer (\<lambda>w. w\<lparr>sv_records := map (\<lambda>(y, r). if y = z \<and> cfr_ID r = i then (y, record_of_body i b) else (y, r)) (sv_records w)\<rparr>)
           (\<lambda>w. Inr (Some (record_of_body i b)))),
      sdk_DeleteRecord = (\<lambda>c z i.
         answer (\<lambda>w. w\<lparr>sv_records := filter (\<lambda>(y, r). \<not> (y = z \<and> cfr_ID r = i)) (sv_records w)\<rparr>) (\<lambda>w. Inr (Some ()))),
      sdk_ContextErr = (\<lambda>c w. (w, None)), sdk_Wait = (\<lambda>c d w. (w, None)), sdk_Now = (\<lambda>w. (w, 0)),
      sdk_Random = (\<lambda>w. (w, \<lambda>n. 0)), sdk_ParseTime = (\<lambda>s. None), sdk_UnmarshalCursor = (\<lambda>s. None)\<rparr>"

definition shop_record :: "string \<Rightarrow> string \<Rightarrow> cf_record" where
  "shop_record i v =
     \<lparr>cfr_ID = i, cfr_Name = ''www.example.com'', cfr_Type = ''A'', cfr_Content = v, cfr_Data = NoData, cfr_Priority = 0,
      cfr_TTL = 300, cfr_Proxied = False, cfr_Proxiable = True, cfr_Comment = [], cfr_Tags = TypedTags [],
      cfr_CreatedOn = 0, cfr_ModifiedOn = 0\<rparr>"

definition shop :: cf_server where
  "shop = \<lparr>sv_records = [(''z1'', shop_record ''r1'' ''192.0.2.1''), (''z2'', shop_record ''r9'' ''192.0.2.9'')], sv_calls = 0\<rparr>"

definition shop_env :: cf_env where
  "shop_env = \<lparr>cfe_text = ascii_env,
     cfe_unmarshal = (\<lambda>s. if s = marshal_strings [''r1''] then Some [''r1''] else None), cfe_format = (\<lambda>t. [])\<rparr>"

section \<open>It is as the properties suppose\<close>

lemma shop_sdk_simps:
  "sdk_ListZones shop_sdk c n per = answer id (\<lambda>w. page_answer [shop_zone] n per)"
  "sdk_GetZone shop_sdk c z = answer id (\<lambda>w. if z = ''z1'' then Inr (Some shop_zone) else Inl (ApiError 404 None []))"
  "sdk_ListRecords shop_sdk c z n per = answer id (\<lambda>w. page_answer (records_in w z) n per)"
  "sdk_ContextErr shop_sdk c = (\<lambda>w. (w, None))" "sdk_Wait shop_sdk c d = (\<lambda>w. (w, None))"
  "sdk_Now shop_sdk = (\<lambda>w. (w, 0))" "sdk_Random shop_sdk = (\<lambda>w. (w, \<lambda>n. 0))"
  by (simp_all add: shop_sdk_def)

lemma shop_write_simps:
  "sdk_UpdateRecord shop_sdk c z i b =
     answer (\<lambda>w. w\<lparr>sv_records := map (\<lambda>(y, r). if y = z \<and> cfr_ID r = i then (y, record_of_body i b) else (y, r)) (sv_records w)\<rparr>)
       (\<lambda>w. Inr (Some (record_of_body i b)))"
  "sdk_DeleteRecord shop_sdk c z i =
     answer (\<lambda>w. w\<lparr>sv_records := filter (\<lambda>(y, r). \<not> (y = z \<and> cfr_ID r = i)) (sv_records w)\<rparr>) (\<lambda>w. Inr (Some ()))"
  "sdk_NewRecord shop_sdk c z b w =
     answer (\<lambda>w. w\<lparr>sv_records := sv_records w @ [(z, record_of_body (''new-'' @ nat_to_dec (sv_calls w)) b)]\<rparr>)
       (\<lambda>v. Inr (Some (record_of_body (''new-'' @ nat_to_dec (sv_calls w)) b))) w"
  by (simp_all add: shop_sdk_def answer_def Let_def)

lemma shop_context: "context_keeps I shop_sdk"
  by (simp add: context_keeps_def shop_sdk_simps leads_def)

lemma shop_reads: "(\<And>w n. I (w\<lparr>sv_calls := n\<rparr>) = I w) \<Longrightarrow> reads_keep I shop_sdk"
  by (simp add: reads_keep_def shop_context shop_sdk_simps answer_def leads_def)

definition shop_lookup :: "cf_server \<Rightarrow> string \<Rightarrow> string \<Rightarrow> cf_record option" where
  "shop_lookup w z i = map_of (map (\<lambda>(y, r). ((y, cfr_ID r), r)) (sv_records w)) (z, i)"

lemma record_of_body_ID [simp]: "cfr_ID (record_of_body i b) = i"
  by (simp add: record_of_body_def)

lemma map_of_replaced:
  "(z', i') \<noteq> (z, i) \<Longrightarrow> k v = i' \<Longrightarrow>
     map_of (map (\<lambda>(y, r). ((y, k r), r)) (map (\<lambda>(y, r). if y = z' \<and> k r = i' then (y, v) else (y, r)) rs)) (z, i)
     = map_of (map (\<lambda>(y, r). ((y, k r), r)) rs) (z, i)"
  by (induction rs) auto

lemma map_of_removed:
  "(z', i') \<noteq> (z, i) \<Longrightarrow>
     map_of (map (\<lambda>(y, r). ((y, k r), r)) (filter (\<lambda>(y, r). \<not> (y = z' \<and> k r = i')) rs)) (z, i)
     = map_of (map (\<lambda>(y, r). ((y, k r), r)) rs) (z, i)"
  by (induction rs) auto

lemma shop_names: "names_its_record shop_lookup shop_sdk"
  unfolding names_its_record_def
proof (intro allI conjI impI)
  fix z i x
  show "reads_keep (\<lambda>w. shop_lookup w z i = Some x) shop_sdk" by (rule shop_reads) (simp add: shop_lookup_def)
  fix c z' b
  show "keeps (\<lambda>w. shop_lookup w z i = Some x) (sdk_NewRecord shop_sdk c z' b)"
    by (simp add: shop_write_simps answer_def leads_def shop_lookup_def map_add_def)
  fix i' assume other: "(z', i') \<noteq> (z, i)"
  show "keeps (\<lambda>w. shop_lookup w z i = Some x) (sdk_UpdateRecord shop_sdk c z' i' b)"
    by (simp add: shop_write_simps answer_def leads_def shop_lookup_def
        map_of_replaced [where k = cfr_ID, OF other record_of_body_ID] del: map_map)
  show "keeps (\<lambda>w. shop_lookup w z i = Some x) (sdk_DeleteRecord shop_sdk c z' i')"
    by (simp add: shop_write_simps answer_def leads_def shop_lookup_def map_of_removed [where k = cfr_ID, OF other]
        del: de_Morgan_conj)
qed

section \<open>Its reads\<close>

lemma shop_readCall: "call w = (w', raw, Inr x) \<Longrightarrow> readCall shop_sdk c operation call w = (w', Inr (raw, x))"
  by (simp add: readCall_def read_from.simps readAttempts_def shop_sdk_simps)

lemma shop_listing:
  assumes "list_all validCloudflareOpaqueID (map cfr_ID (records_in w z))" and "distinct (map cfr_ID (records_in w z))"
    and "length (records_in w z) < recordPageSize" and "records_in w z \<noteq> []"
  shows "listAllRecords shop_sdk c z operation w = (w\<lparr>sv_calls := sv_calls w + 1\<rparr>, Inr (records_in w z, None))"
proof -
  let ?L = "record_listing :: cf_record listing" and ?rs = "records_in w z"
  define page where "page = \<lparr>cp_Result = ?rs, cp_Info = PageInfo 1 (int (length ?rs)) 0\<rparr>"
  have page: "honest_pages recordPageSize ?rs (\<lambda>n. PageInfo (int n) (int (length ?rs)) 0) (Suc 0) = page"
    using assms(3) by (simp add: honest_pages_def page_of_def page_def)
  have "add_page_items ?L [] ?rs = Inr ?rs" using assms(1,2) by (simp add: add_page_items_Inr record_listing_def list_all_iff)
  moreover have "ls_PageSize ?L = 5000" by (simp add: record_listing_def recordPageSize_def)
  ultimately have load: "load_page ?L (Suc 0) [] (Some page) = Inr (?rs, False)"
    using assms(3,4) by (simp add: load_page_def page_def cloudflarePageHasMore_def document_has_more_def recordPageSize_def)
  have "readCall shop_sdk c operation (sdk_ListRecords shop_sdk c z (Suc 0) recordPageSize) w
      = (w\<lparr>sv_calls := sv_calls w + 1\<rparr>, Inr (None, Some page))"
    by (rule shop_readCall) (simp add: shop_sdk_simps answer_def page_answer_def page)
  with load show ?thesis unfolding listAllRecords_def by (subst list_from.simps) (simp add: maxProviderPageCount_def)
qed

section \<open>A record set of it\<close>

definition shop_id :: string where
  "shop_id = recordSetIDPrefix @ b64_encode (marshal_strings [''r1''])"

definition shop_entry :: "string \<Rightarrow> record_entry" where
  "shop_entry v = empty_entry\<lparr>re_ID := ''r1'', re_Value := v\<rparr>"

definition shop_ext :: record_set_extensions where
  "shop_ext = no_set_extensions\<lparr>sx_Cloudflare := Some \<lparr>cfs_Proxied = Some False, cfs_Proxiable = Some True,
     cfs_AutomaticTTL = Some False, cfs_Comment = [], cfs_Tags = []\<rparr>\<rparr>"

definition shop_raw :: "string \<Rightarrow> record_set" where
  "shop_raw v = \<lparr>rs_ID = shop_id, rs_Name = ''www.example.com'', rs_Type = RecordTypeA, rs_TTL = 300,
     rs_Entries = [shop_entry v], rs_Extensions = shop_ext, rs_ProviderVersion = [], rs_Fingerprint = []\<rparr>"

definition shop_set :: "string \<Rightarrow> record_set" where
  "shop_set v = shop_raw v\<lparr>rs_Fingerprint := fingerprintNormalizedRecordSet (shop_raw v)\<rparr>"

definition shop_value :: "string \<Rightarrow> bool" where
  "shop_value v \<longleftrightarrow> v = ''192.0.2.1'' \<or> v = ''192.0.2.2''"

lemma shop_normal: "shop_value v \<Longrightarrow> normalizeRecordEntry ascii_env RecordTypeA (shop_entry v) = Inr (shop_entry v)"
proof -
  have "normalizeRecordEntry ascii_env RecordTypeA (shop_entry ''192.0.2.1'') = Inr (shop_entry ''192.0.2.1'')"
    "normalizeRecordEntry ascii_env RecordTypeA (shop_entry ''192.0.2.2'') = Inr (shop_entry ''192.0.2.2'')" by code_simp+
  then show "shop_value v \<Longrightarrow> ?thesis" by (auto simp: shop_value_def)
qed

lemma shop_name: "record_set_name ascii_env ''example.com'' ''www.example.com'' = Inr ''www.example.com''"
  by code_simp

lemma shop_normalized: "shop_value v \<Longrightarrow> NormalizeRecordSet ascii_env ''example.com'' (shop_raw v) = Inr (shop_set v)"
  unfolding NormalizeRecordSet_def normalizeRecordSet_Inr
  using shop_normal shop_name by (simp add: shop_raw_def shop_set_def Let_def)

definition shop_group :: "string \<Rightarrow> record_group" where
  "shop_group v = \<lparr>gr_key = groupKeyFromRecordSet (shop_raw v), gr_tags = [], gr_entries = [shop_entry v], gr_version = 0\<rparr>"

lemma shop_collected:
  "shop_value v \<Longrightarrow> collect_groups ascii_env ''example.com'' [shop_record ''r1'' v] [] = Inr [shop_group v]"
proof -
  have "collect_groups ascii_env ''example.com'' [shop_record ''r1'' ''192.0.2.1''] [] = Inr [shop_group ''192.0.2.1'']"
    "collect_groups ascii_env ''example.com'' [shop_record ''r1'' ''192.0.2.2''] [] = Inr [shop_group ''192.0.2.2'']"
    by code_simp+
  then show "shop_value v \<Longrightarrow> ?thesis" by (auto simp: shop_value_def)
qed

lemma shop_encoded: "encodeRecordSetID [''r1''] = Inr shop_id"
  by (simp add: encodeRecordSetID_def shop_id_def validCloudflareOpaqueID_def Let_def) code_simp

lemma shop_decoded: "decodeRecordSetID shop_env shop_id = Inr [''r1'']"
  using decode_encode [OF shop_encoded, of shop_env] by (simp add: shop_env_def)

lemma shop_grouped:
  assumes "shop_value v"
  shows "groupRecords shop_env ''example.com'' [shop_record ''r1'' v] = Inr [shop_set v]"
proof -
  note shop_encoded
  then have "group_record_set shop_env ''example.com'' (shop_group v) = Inr (shop_set v)"
    using shop_normalized [OF assms]
    by (simp add: group_record_set_def Let_def shop_group_def entryIDs_def shop_entry_def shop_raw_def shop_env_def shop_ext_def
        groupKeyFromRecordSet_def recordOptionsFromRecordSet_def pointer_bool_def wrap_err_def)
  then show ?thesis using shop_collected [OF assms] by (simp add: groupRecords_def shop_env_def)
qed

definition shop_precondition :: precondition where
  "shop_precondition = \<lparr>pc_ExpectedFingerprint = rs_Fingerprint (shop_set ''192.0.2.1''), pc_ProviderVersion = []\<rparr>"

lemma shop_matches: "precondition_matches ascii_env shop_precondition (shop_set ''192.0.2.1'') = Inr True"
proof -
  have "plain_dots ''example.com'' (shop_raw ''192.0.2.1'')" by code_simp
  moreover have "settled (shop_set ''192.0.2.1'')"
    by (simp add: settled_def settled_entry_def shop_set_def shop_raw_def)
  ultimately have "FingerprintRecordSet ascii_env (shop_set ''192.0.2.1'') = Inr (fingerprintNormalizedRecordSet (shop_set ''192.0.2.1''))"
    by (intro NormalizeRecordSet_refingerprint [OF ascii_env_laws _ shop_normalized]) (simp_all add: shop_value_def)
  moreover have "rs_Fingerprint (shop_set ''192.0.2.1'') = fingerprintNormalizedRecordSet (shop_set ''192.0.2.1'')"
    by (rule normalize_then_fingerprint [OF shop_normalized]) (simp add: shop_value_def)
  ultimately show ?thesis
    using fingerprint_valid by (simp add: precondition_matches_def shop_precondition_def)
qed

definition shop_mapped_zone :: zone where
  "shop_mapped_zone = \<lparr>zone_ID = ''z1'', zone_Name = ''example.com'', zone_Status = ''active'', zone_Nameservers = [],
     zone_Extensions = no_zone_extensions\<lparr>zx_Cloudflare := Some \<lparr>cfz_Paused = Some False\<rparr>\<rparr>\<rparr>"

lemma shop_get_zone:
  "get_zone shop_sdk ascii_env ''z1'' c w = (w\<lparr>sv_calls := sv_calls w + 1\<rparr>, Inr shop_mapped_zone)"
proof -
  have "readCall shop_sdk c ''get_zone'' (sdk_GetZone shop_sdk c ''z1'') w = (w\<lparr>sv_calls := sv_calls w + 1\<rparr>, Inr (None, Some shop_zone))"
    by (rule shop_readCall) (simp add: shop_sdk_simps answer_def)
  moreover have "mapZone ascii_env shop_zone = Inr shop_mapped_zone" "opaque_zone_id ''z1'' = Inr ()" by code_simp+
  ultimately show ?thesis
    by (simp add: get_zone_def Let_def seq_def attempt_def valid_input_def payload_def checked_def relabel_def answered_def
        give_def reject_def shop_mapped_zone_def)
qed

text \<open>The server with one value for the record of the zone.\<close>

definition shop_with :: "string \<Rightarrow> nat \<Rightarrow> cf_server" where
  "shop_with v n = \<lparr>sv_records = [(''z1'', shop_record ''r1'' v), (''z2'', shop_record ''r9'' ''192.0.2.9'')], sv_calls = n\<rparr>"

lemma shop_sets:
  assumes "shop_value v"
  shows "cf_listRecordSetsForMutation shop_sdk shop_env c shop_mapped_zone operation (shop_with v n)
    = (shop_with v (n + 1), Inr ([shop_set v], None))"
proof -
  have records: "records_in (shop_with v n) ''z1'' = [shop_record ''r1'' v]" by (simp add: records_in_def shop_with_def)
  have "validCloudflareOpaqueID ''r1''" by code_simp
  then have "listAllRecords shop_sdk c ''z1'' operation (shop_with v n)
      = ((shop_with v n)\<lparr>sv_calls := n + 1\<rparr>, Inr ([shop_record ''r1'' v], None))"
    using shop_listing [of "shop_with v n" "''z1''"]
    by (simp add: records recordPageSize_def) (simp add: shop_with_def shop_record_def)
  then show ?thesis
    using shop_grouped [OF assms]
    by (simp add: cf_listRecordSetsForMutation_def seq_def attempt_def payload_def checked_def relabel_def give_def
        shop_mapped_zone_def) (simp add: shop_with_def)
qed

lemma shop_current:
  "currentRecordSetForMutation shop_sdk shop_env c ''z1'' shop_id operation (shop_with ''192.0.2.1'' n)
    = (shop_with ''192.0.2.1'' (n + 2), Inr (shop_set ''192.0.2.1'', shop_mapped_zone, [shop_set ''192.0.2.1'']))"
proof -
  have "(shop_with v n)\<lparr>sv_calls := m\<rparr> = shop_with v m" "sv_calls (shop_with v n) = n" for v n m by (simp_all add: shop_with_def)
  moreover have "shop_value ''192.0.2.1''" by (simp add: shop_value_def)
  moreover have "rs_ID (shop_set v) = shop_id" for v by (simp add: shop_set_def shop_raw_def)
  ultimately show ?thesis
    using shop_decoded shop_sets
    by (simp add: currentRecordSetForMutation_def seq_def attempt_def valid_input_def relabel_def checked_def reoperated_def
        shop_env_def shop_get_zone find_record_set_def give_def) 
qed

section \<open>An update\<close>

definition shop_desired :: create_input where
  "shop_desired = \<lparr>ci_Name = ''www.example.com'', ci_Type = RecordTypeA, ci_TTL = 300, ci_Entries = [shop_entry ''192.0.2.2''],
     ci_Extensions = no_set_extensions\<rparr>"

definition shop_options :: record_options where
  "shop_options = \<lparr>ro_proxied = False, ro_proxiable = True, ro_automaticTTL = False, ro_comment = [], ro_tags = []\<rparr>"

definition shop_body :: cf_body where
  "shop_body = \<lparr>cb_Name = ''www.example.com'', cb_TTL = 300, cb_Type = ''A'', cb_Proxied = False, cb_Comment = [], cb_Tags = [],
     cb_Content = Inr ''192.0.2.2'', cb_Priority = None\<rparr>"

lemma shop_set_fields [simp]:
  "rs_ID (shop_set v) = shop_id" "rs_Name (shop_set v) = ''www.example.com''" "rs_Type (shop_set v) = RecordTypeA"
  "rs_TTL (shop_set v) = 300" "rs_Entries (shop_set v) = [shop_entry v]" "recordOptionsFromRecordSet (shop_set v) = shop_options"
  "groupKeyFromRecordSet (shop_set v) = groupKeyFromInput shop_desired shop_options"
  by (simp_all add: shop_set_def shop_raw_def recordOptionsFromRecordSet_def shop_ext_def pointer_bool_def shop_options_def
      groupKeyFromRecordSet_def groupKeyFromInput_def shop_desired_def)

lemma shop_ids [simp]: "re_ID (shop_entry v) = ''r1''" "cfr_ID (shop_record i v) = i"
  by (simp_all add: shop_entry_def shop_record_def)

lemma shop_desired_normal:
  "NormalizeCreateRecordSetInput ascii_env ''example.com'' shop_desired = Inr shop_desired"
  "validateCloudflareInput shop_desired shop_options True = Inr shop_options"
  by code_simp+

lemma shop_written:
  "write_desired shop_sdk c ''z1'' shop_desired shop_options operation [shop_entry ''192.0.2.1''] False [shop_entry ''192.0.2.2''] (shop_with ''192.0.2.1'' n)
   = (shop_with ''192.0.2.2'' (n + 1), Inr [shop_entry ''192.0.2.2''])"
proof -
  have body: "record_body shop_desired shop_options (shop_entry ''192.0.2.2'') = Inr shop_body" by code_simp
  have same: "record_of_body ''r1'' shop_body = shop_record ''r1'' ''192.0.2.2''"
    unfolding record_of_body_def shop_body_def shop_record_def by simp
  have "sdk_UpdateRecord shop_sdk c ''z1'' ''r1'' shop_body (shop_with ''192.0.2.1'' n)
      = (shop_with ''192.0.2.2'' (n + 1), None, Inr (Some (shop_record ''r1'' ''192.0.2.2'')))"
    by (simp add: shop_write_simps answer_def same) (simp add: shop_with_def same)
  moreover have "\<not> equalRecordEntry (shop_entry ''192.0.2.1'') (shop_entry ''192.0.2.2'')"
    by (simp add: equalRecordEntry_def shop_entry_def)
  ultimately show ?thesis
    by (simp add: updateRecord_def seq_def attempt_def valid_input_def checked_def relabel_def body once_def give_def
        entry_by_id_def)
qed

lemma shop_update:
  "cf_UpdateRecordSet shop_sdk shop_env t c ''z1'' shop_id \<lparr>ui_Desired = shop_desired, ui_Precondition = shop_precondition\<rparr> (shop_with ''192.0.2.1'' n)
   = (shop_with ''192.0.2.2'' (Suc (Suc (Suc (Suc n)))), Inr (shop_set ''192.0.2.2''))"
proof -
  obtain c' where request: "requestContext shop_sdk t c = (\<lambda>w. (w, c'))"
    unfolding requestContext_def [abs_def] shop_sdk_simps by (cases c) auto
  have second_value: "shop_value ''192.0.2.2''" by (simp add: shop_value_def)
  have ids: "check_desired_ids [shop_entry ''192.0.2.1''] ''update_record_set'' [] [shop_entry ''192.0.2.2''] = Inr ()" by code_simp
  have common: "common_changed (shop_set ''192.0.2.1'') shop_desired shop_options shop_options = False"
    by (simp add: common_changed_def shop_desired_def equalRecordOptions_def)
  have drops: "dropped_ids (shop_set ''192.0.2.1'') shop_desired [shop_entry ''192.0.2.2''] = []"
    by (simp add: dropped_ids_def shop_desired_def entryIDs_def shop_entry_def containsEntryID_def)
  have exact: "recordSetHasExactEntries (shop_set ''192.0.2.2'') [shop_entry ''192.0.2.2'']"
    by (simp add: recordSetHasExactEntries_def entry_by_id_def equalRecordEntry_def)
  have fields: "ci_Entries shop_desired = [shop_entry ''192.0.2.2'']" "zone_ID shop_mapped_zone = ''z1''"
    "zone_Name shop_mapped_zone = ''example.com''" "cfe_text shop_env = ascii_env"
    by (simp_all add: shop_desired_def shop_mapped_zone_def shop_env_def)
  show ?thesis
    using shop_matches
    by (simp add: cf_UpdateRecordSet_def Let_def in_request_def plainly_def request seq_def attempt_def shop_current checked_def
        cf_checkPrecondition_def valid_input_def relabel_def shop_desired_normal fields ids common drops shop_written give_def
        findFinalRecordSet_def shop_sets [OF second_value] final_record_set_def exact equivalentGroupKey_def
        del: write_desired.simps check_desired_ids.simps)
qed

section \<open>The properties applied\<close>

theorem cloudflare_update_success_witness:
  "\<exists>current zone. updated_to shop_env ''z1'' shop_id \<lparr>ui_Desired = shop_desired, ui_Precondition = shop_precondition\<rparr>
       current zone (shop_set ''192.0.2.2'')
     \<and> has_content [shop_entry ''192.0.2.2''] (shop_set ''192.0.2.2'')"
proof -
  have "has_content [shop_entry ''192.0.2.2''] (shop_set ''192.0.2.2'')" by (simp add: has_content_def equalRecordEntry_def)
  then show ?thesis using cloudflare_update_success [OF shop_update [of 30 None 0]] by blast
qed

theorem changes_check_first_witness:
  "shop_lookup (fst (cf_DeleteRecordSet shop_sdk shop_env 30 None ''z1'' ''r1'' shop_precondition shop)) ''z1'' ''r1'' \<noteq> None
   \<and> passed_check shop_sdk shop_env ''update_record_set'' ''z1'' shop_id shop_precondition
       (\<lambda>w. sv_records w = sv_records shop)"
proof -
  let ?I = "\<lambda>w. sv_records w = sv_records shop"
  have I: "reads_keep ?I shop_sdk" "?I shop" by (rule shop_reads) simp_all
  have shop: "shop = shop_with ''192.0.2.1'' 0" by (simp add: shop_def shop_with_def)
  let ?in = "\<lparr>ui_Desired = shop_desired, ui_Precondition = shop_precondition\<rparr>"
  have "\<not> ?I (fst (cf_UpdateRecordSet shop_sdk shop_env 30 None ''z1'' shop_id ?in shop))"
    unfolding shop by (simp add: shop_update) (simp add: shop_with_def shop_record_def)
  then have first: "passed_check shop_sdk shop_env ''update_record_set'' ''z1'' shop_id shop_precondition ?I"
    using changes_check_first [OF I, of shop_env 30 None "''z1''" shop_id ?in shop_precondition] by auto
  have "\<not> passed_check shop_sdk shop_env ''delete_record_set'' ''z1'' ''r1'' shop_precondition ?I"
  proof -
    have "decodeRecordSetID shop_env ''r1'' = Inl ''Cloudflare logical record set ID is invalid''" by code_simp
    then show ?thesis
      by (auto simp: passed_check_def currentRecordSetForMutation_def seq_def attempt_def valid_input_def checked_def relabel_def reject_def)
  qed
  then have "?I (fst (cf_DeleteRecordSet shop_sdk shop_env 30 None ''z1'' ''r1'' shop_precondition shop))"
    using changes_check_first [OF I, of shop_env 30 None "''z1''" "''r1''" ?in shop_precondition] by auto
  then show ?thesis using first by (simp add: shop_lookup_def) (simp add: shop_def)
qed

theorem other_records_untouched_witness:
  "shop_lookup (fst (cf_UpdateRecordSet shop_sdk shop_env 30 None ''z1'' shop_id
      \<lparr>ui_Desired = shop_desired, ui_Precondition = shop_precondition\<rparr> shop)) ''z2'' ''r9'' = Some (shop_record ''r9'' ''192.0.2.9'')"
proof -
  have "shop_lookup shop ''z2'' ''r9'' = Some (shop_record ''r9'' ''192.0.2.9'')" by (simp add: shop_lookup_def shop_def)
  then show ?thesis
    using other_records_untouched [OF shop_names, where i = shop_id and z = "''z1''" and z' = "''z2''" and w = shop] by blast
qed

theorem grouping_is_partition_witness:
  "mset (concat (map (\<lambda>rs. entryIDs (rs_Entries rs)) [shop_set ''192.0.2.1'']))
     = mset (map cfr_ID (supported_records ascii_env [shop_record ''r1'' ''192.0.2.1'']))
   \<and> list_all (set_shows_records ascii_env ''example.com'' [shop_record ''r1'' ''192.0.2.1'']) [shop_set ''192.0.2.1'']"
proof -
  have "shop_value ''192.0.2.1''" by (simp add: shop_value_def)
  from grouping_is_partition [OF shop_grouped [OF this]] show ?thesis by (simp add: shop_env_def)
qed

definition shop_full :: cf_server where
  "shop_full = \<lparr>sv_records = [(''z1'', shop_record ''r1'' ''192.0.2.1''), (''z1'', shop_record ''r2'' ''192.0.2.2'')], sv_calls = 0\<rparr>"

theorem record_listing_complete_witness:
  "\<exists>w' raw. listAllRecords (shop_sdk\<lparr>sdk_ListRecords := \<lambda>c z n per. answer id (\<lambda>w. page_answer (records_in shop_full z) n per)\<rparr>)
     None ''z1'' ''list_record_sets'' shop_full
   = (w', Inr ([shop_record ''r1'' ''192.0.2.1'', shop_record ''r2'' ''192.0.2.2''], raw))"
proof -
  let ?all = "[shop_record ''r1'' ''192.0.2.1'', shop_record ''r2'' ''192.0.2.2'']"
  let ?S = "shop_sdk\<lparr>sdk_ListRecords := \<lambda>c z n per. answer id (\<lambda>w. page_answer (records_in shop_full z) n per)\<rparr>"
  let ?info = "\<lambda>n. PageInfo (int n) (int (length ?all)) (int 0)"
  have ids: "list_all validCloudflareOpaqueID [''r1'', ''r2'']" by code_simp
  have all: "records_in shop_full ''z1'' = ?all" by (simp add: records_in_def shop_full_def)
  have "honest_info recordPageSize ?all ?info" unfolding honest_info_def by blast
  moreover have "serves ?S (\<lambda>n. sdk_ListRecords ?S None ''z1'' n recordPageSize) (honest_pages recordPageSize ?all ?info)"
    by (simp add: serves_def answer_def page_answer_def all shop_sdk_simps)
  ultimately show ?thesis
    using record_listing_complete [of ?all ?info ?S None "''z1''"] ids
    by (simp add: recordPageSize_def maxProviderPageCount_def)
qed

theorem listing_calls_bounded_witness:
  "sv_calls (fst (listAllRecords shop_sdk None ''z1'' ''list_record_sets'' shop)) \<le> 3000000"
proof -
  have "free_context sv_calls shop_sdk" by (simp add: free_context_def shop_context)
  moreover have "\<forall>c n p. call_cost sv_calls (sdk_ListZones shop_sdk c n p)"
    "\<forall>c z n p. call_cost sv_calls (sdk_ListRecords shop_sdk c z n p)"
    by (simp_all add: call_cost_def leads_def shop_sdk_simps answer_def)
  ultimately show ?thesis
    using listing_calls_bounded [of sv_calls shop_sdk None "''z1''" "''list_record_sets''" shop]
    by (simp add: most_calls_def readAttempts_def maxProviderPageCount_def shop_def)
qed

theorem cloudflare_content_round_trip_witness:
  "\<exists>content priority e'. wireRecordContent RecordTypeA (shop_entry ''192.0.2.1'') = Inr (content, priority)
     \<and> parseRecordContent ascii_env RecordTypeA content priority = Inr e' \<and> equalRecordEntry e' (shop_entry ''192.0.2.1'')"
proof -
  have "shop_value ''192.0.2.1''" by (simp add: shop_value_def)
  then have normal: "normalizeRecordEntry ascii_env RecordTypeA (shop_entry ''192.0.2.1'') = Inr (shop_entry ''192.0.2.1'')"
    by (rule shop_normal)
  have "plain_labels ascii_env" by code_simp
  moreover have "no_wide_dot (entry_target_text (shop_entry ''192.0.2.1''))" by code_simp
  ultimately show ?thesis
    using cloudflare_content_round_trip [OF ascii_env_laws _ _ _ normal]
    by (simp add: cloudflareRecordTypeSupported_def)
qed

end
