(* ===== verification/Factories.thy ===== *)
theory Factories
  imports Cloudflare_Safety
begin

text \<open>
  The factories of the production providers, \<open>factory.go\<close> of \<open>internal/provider/cloudflare\<close>, \<open>aliyun\<close>,
  \<open>tencent\<close> and \<open>huawei\<close>: what they declare and how they build a client, and \<open>Credential.Decode\<close> of
  \<open>contract.go\<close>. JSON decoding into the structures of the adapters is a parameter, and so are the clients of the
  SDKs, except that of Cloudflare, whose operations the preceding theories model. \<open>NewRegistry\<close> accepts
  what the four declare. Texts outside ASCII are their UTF-8 bytes.
\<close>

section \<open>Declarations\<close>

definition of_bytes :: "nat list \<Rightarrow> string" where
  "of_bytes = map char_of"

definition secret_field :: "string \<Rightarrow> string \<Rightarrow> bool \<Rightarrow> string \<Rightarrow> string \<Rightarrow> field_descriptor" where
  "secret_field key label required placeholder description =
     \<lparr>fd_Key = key, fd_Label = label, fd_Labels = [], fd_Type = DescriptorFieldString, fd_Secret = True, fd_Required = required,
      fd_Placeholder = placeholder, fd_Placeholders = [], fd_Description = description, fd_Descriptions = [], fd_Options = [],
      fd_Minimum = None, fd_Maximum = None\<rparr>"

definition extension :: "ProviderType \<Rightarrow> ExtensionScope \<Rightarrow> string \<Rightarrow> string \<Rightarrow> DescriptorFieldType \<Rightarrow> extension_field" where
  "extension namespace scope key label t =
     \<lparr>xf_Namespace = namespace, xf_Scope = scope, xf_Key = key, xf_Label = label, xf_Type = t, xf_ReadOnly = False,
      xf_Required = False, xf_ApplicableWhen = [], xf_RequiredWhen = [], xf_Options = [], xf_Minimum = None, xf_Maximum = None\<rparr>"

definition plain_option :: "string \<Rightarrow> string \<Rightarrow> descriptor_option" where
  "plain_option v label = \<lparr>do_Value = v, do_Label = label, do_Labels = []\<rparr>"

text \<open>The record types that each of the four declares.\<close>

definition common_record_types :: "RecordType list" where
  "common_record_types =
     [RecordTypeA, RecordTypeAAAA, RecordTypeCNAME, RecordTypeTXT, RecordTypeMX, RecordTypeNS, RecordTypeSRV, RecordTypeCAA]"

section \<open>Cloudflare\<close>

definition cloudflare_metadata :: provider_metadata where
  "cloudflare_metadata =
     \<lparr>md_Type = ''cloudflare'', md_DisplayName = ''Cloudflare DNS'',
      md_DisplayNames = [(''zh-CN'', ''Cloudflare DNS''),
       (''en'', ''Cloudflare DNS''),
       (''ja'', ''Cloudflare DNS'')],
      md_DocumentationURL = ''https://developers.cloudflare.com/dns/''\<rparr>"

definition cloudflare_credentials :: "field_descriptor list" where
  "cloudflare_credentials =
     [secret_field ''api_token'' ''API token'' True ''Cloudflare API token'' ''Use a scoped API token with Zone:Read and DNS:Edit for the zones managed by Aster DNS. Global API keys are not supported.'']"

definition cloudflare_capabilities :: capabilities where
  "cloudflare_capabilities =
     \<lparr>cap_SupportedRecordTypes = common_record_types, cap_MinTTL = Some 30, cap_MaxTTL = Some 86400,
      cap_NativeRecordGranularity = NativeRecordGranularityEntry,
      cap_SupportsProxy = True, cap_SupportsRoutingLine = False, cap_SupportsWeight = False,
      cap_SupportsRecordStatus = False, cap_SupportsDNSSEC = False, cap_SupportsNativeBatch = False,
      cap_SupportsComments = True,
      cap_ExtensionFields =
        [(extension ''cloudflare'' ExtensionScopeZone ''paused'' ''Zone paused'' DescriptorFieldBoolean)
           \<lparr>xf_ReadOnly := True\<rparr>,
         (extension ''cloudflare'' ExtensionScopeRecordSet ''proxied'' ''Cloudflare proxy'' DescriptorFieldBoolean)
           \<lparr>xf_ApplicableWhen := [\<lparr>dc_Field = ''type'', dc_Values = [''A'', ''AAAA'', ''CNAME'']\<rparr>]\<rparr>,
         (extension ''cloudflare'' ExtensionScopeRecordSet ''proxiable'' ''Can be proxied'' DescriptorFieldBoolean)
           \<lparr>xf_ReadOnly := True\<rparr>,
         extension ''cloudflare'' ExtensionScopeRecordSet ''automatic_ttl'' ''Automatic TTL'' DescriptorFieldBoolean,
         extension ''cloudflare'' ExtensionScopeRecordSet ''comment'' ''Comment'' DescriptorFieldString,
         extension ''cloudflare'' ExtensionScopeRecordSet ''tags'' ''Tags'' DescriptorFieldStringList]\<rparr>"

section \<open>Alibaba Cloud\<close>

definition aliyun_metadata :: provider_metadata where
  "aliyun_metadata =
     \<lparr>md_Type = ''aliyun'', md_DisplayName = ''Alibaba Cloud DNS'',
      md_DisplayNames = [(''zh-CN'', of_bytes [233, 152, 191, 233, 135, 140, 228, 186, 145] @ '' DNS''),
       (''en'', ''Alibaba Cloud DNS''),
       (''ja'', ''Alibaba Cloud DNS'')],
      md_DocumentationURL = ''https://www.alibabacloud.com/help/en/dns/''\<rparr>"

definition aliyun_credentials :: "field_descriptor list" where
  "aliyun_credentials =
     [secret_field ''access_key_id'' ''AccessKey ID'' True ''Alibaba Cloud AccessKey ID'' [],
      secret_field ''access_key_secret'' ''AccessKey secret'' True ''Alibaba Cloud AccessKey secret'' [],
      secret_field ''security_token'' ''Security token'' False ''Required only for temporary STS credentials'' []]"

definition aliyun_capabilities :: capabilities where
  "aliyun_capabilities =
     \<lparr>cap_SupportedRecordTypes = common_record_types, cap_MinTTL = Some 1, cap_MaxTTL = Some 86400,
      cap_NativeRecordGranularity = NativeRecordGranularityEntry,
      cap_SupportsProxy = False, cap_SupportsRoutingLine = True, cap_SupportsWeight = True,
      cap_SupportsRecordStatus = True, cap_SupportsDNSSEC = False, cap_SupportsNativeBatch = False,
      cap_SupportsComments = True,
      cap_ExtensionFields =
        [(extension ''aliyun'' ExtensionScopeZone ''group_id'' ''Domain group ID'' DescriptorFieldString)
           \<lparr>xf_ReadOnly := True\<rparr>,
         (extension ''aliyun'' ExtensionScopeRecordSet ''status'' ''Status'' DescriptorFieldEnum)
           \<lparr>xf_Options := [plain_option ''Enable'' ''Enabled'', plain_option ''Disable'' ''Paused'']\<rparr>,
         extension ''aliyun'' ExtensionScopeRecordEntry ''line'' ''Routing line'' DescriptorFieldString,
         (extension ''aliyun'' ExtensionScopeRecordEntry ''status'' ''Provider record status'' DescriptorFieldEnum)
           \<lparr>xf_ReadOnly := True, xf_Options := [plain_option ''Enable'' ''Enabled'', plain_option ''Disable'' ''Paused'']\<rparr>,
         extension ''aliyun'' ExtensionScopeRecordEntry ''remark'' ''Remark'' DescriptorFieldString,
         (extension ''aliyun'' ExtensionScopeRecordEntry ''weight'' ''Routing weight'' DescriptorFieldInteger)
           \<lparr>xf_Minimum := Some 1, xf_Maximum := Some 100, xf_ApplicableWhen := [\<lparr>dc_Field = ''type'', dc_Values = [''A'', ''AAAA'']\<rparr>]\<rparr>]\<rparr>"

section \<open>Tencent Cloud\<close>

definition tencent_metadata :: provider_metadata where
  "tencent_metadata =
     \<lparr>md_Type = ''tencent'', md_DisplayName = ''Tencent Cloud DNSPod'',
      md_DisplayNames = [(''zh-CN'', of_bytes [232, 133, 190, 232, 174, 175, 228, 186, 145] @ '' DNSPod''),
       (''en'', ''Tencent Cloud DNSPod''),
       (''ja'', ''Tencent Cloud DNSPod'')],
      md_DocumentationURL = ''https://cloud.tencent.com/document/product/1427''\<rparr>"

definition tencent_credentials :: "field_descriptor list" where
  "tencent_credentials =
     [secret_field ''secret_id'' ''SecretId'' True ''Tencent Cloud API SecretId'' [],
      secret_field ''secret_key'' ''SecretKey'' True ''Tencent Cloud API SecretKey'' [],
      secret_field ''token'' ''Security token'' False ''Required only for temporary credentials'' []]"

definition tencent_capabilities :: capabilities where
  "tencent_capabilities =
     \<lparr>cap_SupportedRecordTypes = common_record_types, cap_MinTTL = Some 1, cap_MaxTTL = Some 604800,
      cap_NativeRecordGranularity = NativeRecordGranularityEntry,
      cap_SupportsProxy = False, cap_SupportsRoutingLine = True, cap_SupportsWeight = True,
      cap_SupportsRecordStatus = True, cap_SupportsDNSSEC = False, cap_SupportsNativeBatch = False,
      cap_SupportsComments = True,
      cap_ExtensionFields =
        [(extension ''tencent'' ExtensionScopeZone ''grade'' ''DNS plan'' DescriptorFieldString)
           \<lparr>xf_ReadOnly := True\<rparr>,
         (extension ''tencent'' ExtensionScopeRecordSet ''status'' ''Status'' DescriptorFieldEnum)
           \<lparr>xf_Options := [plain_option ''ENABLE'' ''Enabled'', plain_option ''DISABLE'' ''Disabled'']\<rparr>,
         (extension ''tencent'' ExtensionScopeRecordSet ''default'' ''System default NS record set'' DescriptorFieldBoolean)
           \<lparr>xf_ReadOnly := True\<rparr>,
         extension ''tencent'' ExtensionScopeRecordEntry ''line'' ''Routing line'' DescriptorFieldString,
         extension ''tencent'' ExtensionScopeRecordEntry ''line_id'' ''Routing line ID'' DescriptorFieldString,
         (extension ''tencent'' ExtensionScopeRecordEntry ''weight'' ''Routing weight'' DescriptorFieldInteger)
           \<lparr>xf_Minimum := Some 0, xf_Maximum := Some 100, xf_ApplicableWhen := [\<lparr>dc_Field = ''type'', dc_Values = [''A'', ''AAAA'', ''CNAME'']\<rparr>]\<rparr>,
         extension ''tencent'' ExtensionScopeRecordEntry ''remark'' ''Remark'' DescriptorFieldString,
         (extension ''tencent'' ExtensionScopeRecordEntry ''status'' ''Provider record status'' DescriptorFieldEnum)
           \<lparr>xf_ReadOnly := True, xf_Options := [plain_option ''ENABLE'' ''Enabled'', plain_option ''DISABLE'' ''Disabled'']\<rparr>]\<rparr>"

section \<open>Huawei Cloud\<close>

definition huawei_metadata :: provider_metadata where
  "huawei_metadata =
     \<lparr>md_Type = ''huawei'', md_DisplayName = ''Huawei Cloud DNS'',
      md_DisplayNames = [(''zh-CN'', of_bytes [229, 141, 142, 228, 184, 186, 228, 186, 145] @ '' DNS''),
       (''en'', ''Huawei Cloud DNS''),
       (''ja'', ''Huawei Cloud DNS'')],
      md_DocumentationURL = ''https://support.huaweicloud.com/intl/en-us/dns/index.html''\<rparr>"

definition huawei_credentials :: "field_descriptor list" where
  "huawei_credentials =
     [secret_field ''access_key'' ''Access key (AK)'' True ''Huawei Cloud access key'' [],
      secret_field ''secret_key'' ''Secret key (SK)'' True ''Huawei Cloud secret access key'' [],
      secret_field ''security_token'' ''Security token'' False ''Required only for temporary AK/SK'' []]"

definition huawei_region_ids :: "string list" where
  "huawei_region_ids =
     [''ae-ad-1'', ''af-north-1'', ''af-south-1'', ''ap-southeast-1'', ''ap-southeast-2'', ''ap-southeast-3'',
      ''ap-southeast-4'', ''ap-southeast-5'', ''cn-east-2'', ''cn-east-3'', ''cn-east-4'', ''cn-east-5'',
      ''cn-north-1'', ''cn-north-2'', ''cn-north-4'', ''cn-north-9'', ''cn-south-1'', ''cn-south-2'',
      ''cn-southwest-2'', ''la-north-2'', ''la-south-2'', ''me-east-1'', ''my-kualalumpur-1'', ''na-mexico-1'',
      ''ru-moscow-1'', ''sa-brazil-1'', ''tr-west-1'']"

definition huawei_region_labels :: "string \<Rightarrow> texts" where
  "huawei_region_labels i =
     (if i = ''ap-southeast-3'' then
      [(''zh-CN'', ''ap-southeast-3 '' @ of_bytes [226, 128, 148] @ '' '' @ of_bytes [229, 155, 189, 233, 153, 133, 231, 171, 153]),
       (''en'', ''ap-southeast-3 '' @ of_bytes [226, 128, 148] @ '' International site''),
       (''ja'', ''ap-southeast-3 '' @ of_bytes [226, 128, 148] @ '' '' @ of_bytes [229, 155, 189, 233, 154, 155, 227, 130, 181, 227, 130, 164, 227, 131, 136])]
      else if i = ''cn-north-4'' then
      [(''zh-CN'', ''cn-north-4 '' @ of_bytes [226, 128, 148] @ '' '' @ of_bytes [228, 184, 173, 229, 155, 189, 231, 171, 153]),
       (''en'', ''cn-north-4 '' @ of_bytes [226, 128, 148] @ '' China site''),
       (''ja'', ''cn-north-4 '' @ of_bytes [226, 128, 148] @ '' '' @ of_bytes [228, 184, 173, 229, 155, 189, 227, 130, 181, 227, 130, 164, 227, 131, 136])]
      else [])"

definition huaweiDNSRegionOptions :: "descriptor_option list" where
  "huaweiDNSRegionOptions = map (\<lambda>i. \<lparr>do_Value = i, do_Label = i, do_Labels = huawei_region_labels i\<rparr>) huawei_region_ids"

definition huawei_options :: "field_descriptor list" where
  "huawei_options =
     [\<lparr>fd_Key = ''region'', fd_Label = ''DNS region'',
       fd_Labels = [(''zh-CN'', ''DNS '' @ of_bytes [229, 140, 186, 229, 159, 159]),
       (''en'', ''DNS region''),
       (''ja'', ''DNS '' @ of_bytes [227, 131, 170, 227, 131, 188, 227, 130, 184, 227, 131, 167, 227, 131, 179])],
       fd_Type = DescriptorFieldEnum, fd_Secret = False, fd_Required = True, fd_Placeholder = [], fd_Placeholders = [],
       fd_Description = ''Select the Huawei Cloud region used for the DNS API endpoint. Public zones are global, but the required region depends on the Huawei Cloud site.'',
       fd_Descriptions = [(''zh-CN'', of_bytes [233, 128, 137, 230, 139, 169, 231, 148, 168, 228, 186, 142] @ '' DNS API '' @ of_bytes [231, 171, 175, 231, 130, 185, 231, 154, 132, 229, 141, 142, 228, 184, 186, 228, 186, 145, 229, 140, 
         186, 229, 159, 159, 227, 128, 130, 229, 133, 172, 231, 189, 145] @ '' Zone '' @ of_bytes [230, 152, 175, 229, 133, 168, 229, 177, 128, 232, 181, 132, 230, 186, 144, 239, 188, 140, 228, 189, 
         134, 229, 191, 133, 233, 161, 187, 233, 128, 137, 230, 139, 169, 232, 180, 166, 229, 143, 183, 230, 
         137, 128, 229, 156, 168, 229, 141, 142, 228, 184, 186, 228, 186, 145, 231, 171, 153, 231, 130, 185, 
         230, 148, 175, 230, 140, 129, 231, 154, 132, 229, 140, 186, 229, 159, 159, 227, 128, 130]),
       (''en'', ''Select the Huawei Cloud region used for the DNS API endpoint. Public zones are global, but the required region depends on the Huawei Cloud site.''),
       (''ja'', ''DNS API '' @ of_bytes [227, 130, 168, 227, 131, 179, 227, 131, 137, 227, 131, 157, 227, 130, 164, 227, 131, 179, 227, 131, 
         136, 227, 129, 171, 228, 189, 191, 231, 148, 168, 227, 129, 153, 227, 130, 139] @ '' Huawei Cloud '' @ of_bytes [227, 131, 170, 227, 131, 188, 227, 130, 184, 227, 131, 167, 227, 131, 179, 227, 130, 146, 233, 129, 
         184, 230, 138, 158, 227, 129, 151, 227, 129, 190, 227, 129, 153, 227, 128, 130] @ ''Public Zone '' @ of_bytes [227, 129, 175, 227, 130, 176, 227, 131, 173, 227, 131, 188, 227, 131, 144, 227, 131, 171, 227, 131, 
         170, 227, 130, 189, 227, 131, 188, 227, 130, 185, 227, 129, 167, 227, 129, 153, 227, 129, 140, 227, 
         128, 129, 227, 130, 162, 227, 130, 171, 227, 130, 166, 227, 131, 179, 227, 131, 136, 227, 129, 174] @ '' Huawei Cloud '' @ of_bytes [227, 130, 181, 227, 130, 164, 227, 131, 136, 227, 129, 140, 229, 175, 190, 229, 191, 156, 227, 129, 
         153, 227, 130, 139, 227, 131, 170, 227, 131, 188, 227, 130, 184, 227, 131, 167, 227, 131, 179, 227, 
         130, 146, 233, 129, 184, 227, 129, 182, 229, 191, 133, 232, 166, 129, 227, 129, 140, 227, 129, 130, 
         227, 130, 138, 227, 129, 190, 227, 129, 153, 227, 128, 130])],
       fd_Options = huaweiDNSRegionOptions, fd_Minimum = None, fd_Maximum = None\<rparr>]"

definition huawei_capabilities :: capabilities where
  "huawei_capabilities =
     \<lparr>cap_SupportedRecordTypes = common_record_types, cap_MinTTL = Some 1, cap_MaxTTL = Some 2147483647,
      cap_NativeRecordGranularity = NativeRecordGranularityRRSet,
      cap_SupportsProxy = False, cap_SupportsRoutingLine = True, cap_SupportsWeight = True,
      cap_SupportsRecordStatus = True, cap_SupportsDNSSEC = False, cap_SupportsNativeBatch = False,
      cap_SupportsComments = False,
      cap_ExtensionFields =
        [(extension ''huawei'' ExtensionScopeZone ''zone_type'' ''Zone type'' DescriptorFieldEnum)
           \<lparr>xf_ReadOnly := True, xf_Options := [plain_option ''public'' ''Public'']\<rparr>,
         (extension ''huawei'' ExtensionScopeRecordSet ''status'' ''Status'' DescriptorFieldEnum)
           \<lparr>xf_Options := [plain_option ''ENABLE'' ''Enabled'', plain_option ''DISABLE'' ''Paused'']\<rparr>,
         (extension ''huawei'' ExtensionScopeRecordSet ''provider_status'' ''Provider lifecycle status'' DescriptorFieldString)
           \<lparr>xf_ReadOnly := True\<rparr>,
         (extension ''huawei'' ExtensionScopeRecordSet ''default'' ''System default record set'' DescriptorFieldBoolean)
           \<lparr>xf_ReadOnly := True\<rparr>,
         extension ''huawei'' ExtensionScopeRecordEntry ''line'' ''Routing line ID'' DescriptorFieldString,
         (extension ''huawei'' ExtensionScopeRecordEntry ''weight'' ''Routing weight'' DescriptorFieldInteger)
           \<lparr>xf_Minimum := Some 0, xf_Maximum := Some 1000\<rparr>]\<rparr>"

section \<open>Credentials and options\<close>

text \<open>
  \<open>Credential.Decode\<close>: a strict decoder gives the first value and what follows it; \<open>at_end\<close> holds when only
  white space follows.
\<close>

definition Credential_Decode :: "(string \<Rightarrow> ('a \<times> string) option) \<Rightarrow> (string \<Rightarrow> bool) \<Rightarrow> string \<Rightarrow> 'a result" where
  "Credential_Decode decode at_end plaintext =
     (if plaintext = [] then Inl ''provider credential is empty''
      else (case decode plaintext of
          None \<Rightarrow> Inl ''decode provider credential''
        | Some (x, rest) \<Rightarrow> if \<not> at_end rest then Inl ''provider credential must contain one JSON value'' else Inr x))"

text \<open>Two required secrets and a token for temporary credentials; the names differ per provider.\<close>

record key_pair =
  kp_ID :: string
  kp_Secret :: string
  kp_Token :: string

definition trimmed_keys :: "key_pair \<Rightarrow> key_pair" where
  "trimmed_keys k = \<lparr>kp_ID = trim_space (kp_ID k), kp_Secret = trim_space (kp_Secret k), kp_Token = trim_space (kp_Token k)\<rparr>"

definition build_error :: "ErrorCode \<Rightarrow> string \<Rightarrow> go_error + 'a" where
  "build_error code m = Inl (ProviderErr (NewError code ''build_client'' [] 0 (Some (PlainError m))))"

definition built :: "ErrorCode \<Rightarrow> 'a result \<Rightarrow> ('a \<Rightarrow> go_error + 'b) \<Rightarrow> go_error + 'b" where
  "built code r k = (case r of Inl m \<Rightarrow> build_error code m | Inr x \<Rightarrow> k x)"

text \<open>
  What every \<open>Build\<close> begins with: a context that is done, a credential that cannot be decoded, keys that are missing.
\<close>

definition build_keys :: "go_error option \<Rightarrow> key_pair result \<Rightarrow> string \<Rightarrow> (key_pair \<Rightarrow> go_error + 'b) \<Rightarrow> go_error + 'b" where
  "build_keys ctx_err decoded missing k =
     (case ctx_err of
        Some e \<Rightarrow> Inl (ProviderErr (NewError ErrTimeout ''build_client'' [] 0 (Some e)))
      | None \<Rightarrow>
          built ErrAuthentication decoded (\<lambda>keys.
            let keys = trimmed_keys keys in
            if kp_ID keys = [] \<or> kp_Secret keys = [] then build_error ErrAuthentication missing else k keys))"

definition request_timeout :: "duration \<Rightarrow> duration" where
  "request_timeout t = (if t \<le> 0 then defaultRequestTimeout else t)"

text \<open>The error of an SDK that refuses the keys is stripped of them.\<close>

definition sdk_client :: "key_pair \<Rightarrow> 'b result \<Rightarrow> go_error + 'b" where
  "sdk_client keys r =
     (case r of Inl m \<Rightarrow> build_error ErrAuthentication (Redact m [kp_ID keys, kp_Secret keys, kp_Token keys]) | Inr c \<Rightarrow> Inr c)"

text \<open>
  The options of Alibaba Cloud and Tencent Cloud must be empty; \<open>decodes\<close> says whether the document is a JSON object
  or null, \<open>keys\<close> how many members it has.
\<close>

definition aliyun_decodeOptions :: "(string \<Rightarrow> bool) \<Rightarrow> (string \<Rightarrow> nat option) \<Rightarrow> string \<Rightarrow> unit result" where
  "aliyun_decodeOptions decodes members raw =
     (let trimmed = trim_space raw in
      if trimmed = [] \<or> trimmed = ''null'' \<or> trimmed = ''{}'' then Inr ()
      else if \<not> decodes raw then Inl ''decode Alibaba Cloud account options''
      else if members raw \<noteq> Some 0 then Inl ''Alibaba Cloud account options must be empty''
      else Inr ())"

definition tencent_decodeOptions :: "(string \<Rightarrow> bool) \<Rightarrow> (string \<Rightarrow> nat option) \<Rightarrow> string \<Rightarrow> unit result" where
  "tencent_decodeOptions decodes members raw =
     (let trimmed = trim_space raw in
      if trimmed = [] \<or> trimmed = ''null'' then Inr ()
      else if \<not> decodes raw then Inl ''decode Tencent Cloud account options''
      else (case members raw of
          None \<Rightarrow> Inl ''decode Tencent Cloud account options''
        | Some n \<Rightarrow> if n \<noteq> 0 then Inl ''Tencent Cloud account options contain unknown fields'' else Inr ()))"

definition huawei_decodeOptions :: "(string \<Rightarrow> (string \<times> string) option) \<Rightarrow> (string \<Rightarrow> bool) \<Rightarrow> string \<Rightarrow> string result" where
  "huawei_decodeOptions decode at_end raw =
     (if raw = [] then Inl ''Huawei Cloud account options are required''
      else (case decode raw of
          None \<Rightarrow> Inl ''decode Huawei Cloud account options''
        | Some (region, rest) \<Rightarrow>
            if \<not> at_end rest then Inl ''Huawei Cloud account options must contain one JSON value'' else Inr region))"

section \<open>Building\<close>

text \<open>The client of an SDK for keys, endpoint or region, and timeout.\<close>

definition aliyun_Build ::
  "(key_pair \<Rightarrow> string \<Rightarrow> duration \<Rightarrow> 'p result) \<Rightarrow> unit result \<Rightarrow> string \<Rightarrow> duration \<Rightarrow> go_error option \<Rightarrow> key_pair result
   \<Rightarrow> go_error + 'p" where
  "aliyun_Build new options endpoint timeout ctx_err decoded =
     build_keys ctx_err decoded ''Alibaba Cloud AccessKey ID and secret are required'' (\<lambda>keys.
       built ErrValidation options (\<lambda>_.
         let e = trim_space endpoint in
         sdk_client keys (new keys (if e = [] then ''alidns.aliyuncs.com'' else e) (request_timeout timeout))))"

definition tencent_Build ::
  "text_env \<Rightarrow> (key_pair \<Rightarrow> string \<Rightarrow> string \<Rightarrow> duration \<Rightarrow> 'p result) \<Rightarrow> unit result \<Rightarrow> string \<Rightarrow> string \<Rightarrow> duration
   \<Rightarrow> go_error option \<Rightarrow> key_pair result \<Rightarrow> go_error + 'p" where
  "tencent_Build E new options endpoint scheme timeout ctx_err decoded =
     build_keys ctx_err decoded ''Tencent Cloud SecretId and SecretKey are required'' (\<lambda>keys.
       built ErrValidation options (\<lambda>_.
         let e = trim_space endpoint; s = to_upper (unicode_upper E) (trim_space scheme) in
         sdk_client keys (new keys (if e = [] then ''dnspod.tencentcloudapi.com'' else e) (if s = [] then ''HTTPS'' else s)
           (request_timeout timeout))))"

definition huawei_Build ::
  "(string \<Rightarrow> 'r result) \<Rightarrow> (key_pair \<Rightarrow> 'k result) \<Rightarrow> ('k \<Rightarrow> 'r \<Rightarrow> duration \<Rightarrow> 'p) \<Rightarrow> string result \<Rightarrow> duration
   \<Rightarrow> go_error option \<Rightarrow> key_pair result \<Rightarrow> go_error + 'p" where
  "huawei_Build region_of credential_of new options timeout ctx_err decoded =
     build_keys ctx_err decoded ''Huawei Cloud AK and SK are required'' (\<lambda>keys.
       built ErrValidation options (\<lambda>raw.
         let region = trim_space raw in
         if region = [] then build_error ErrValidation ''Huawei Cloud DNS region is required''
         else built ErrValidation (region_of region) (\<lambda>r.
           case sdk_client keys (credential_of keys) of Inl e \<Rightarrow> Inl e | Inr c \<Rightarrow> Inr (new c r (request_timeout timeout)))))"

text \<open>The provider of Cloudflare.\<close>

definition cloudflare_provider :: "'w cf_sdk \<Rightarrow> cf_env \<Rightarrow> duration \<Rightarrow> ctx \<Rightarrow> 'w provider" where
  "cloudflare_provider S F timeout c =
     \<lparr>pv_Capabilities = cloudflare_capabilities,
      pv_ValidateCredentials = cf_ValidateCredentials S timeout c,
      pv_ListZones = cf_ListZones S (cfe_text F) timeout c, pv_GetZone = cf_GetZone S (cfe_text F) timeout c,
      pv_ListRecordSets = cf_ListRecordSets S F timeout c, pv_GetRecordSet = cf_GetRecordSet S F timeout c,
      pv_CreateRecordSet = cf_CreateRecordSet S F timeout c,
      pv_UpdateRecordSet = cf_UpdateRecordSet S F timeout c,
      pv_DeleteRecordSet = cf_DeleteRecordSet S F timeout c\<rparr>"

definition cloudflare_Build ::
  "(string \<Rightarrow> duration \<Rightarrow> 'w cf_sdk) \<Rightarrow> cf_env \<Rightarrow> ctx \<Rightarrow> duration \<Rightarrow> go_error option \<Rightarrow> string result \<Rightarrow> go_error + 'w provider" where
  "cloudflare_Build new F c timeout ctx_err decoded =
     (case ctx_err of
        Some e \<Rightarrow> Inl (ProviderErr (NewError ErrTimeout ''build_client'' [] 0 (Some e)))
      | None \<Rightarrow>
          built ErrAuthentication decoded (\<lambda>raw.
            let token = trim_space raw in
            if token = [] then build_error ErrAuthentication ''Cloudflare API token is required''
            else Inr (cloudflare_provider (new token (request_timeout timeout)) F (request_timeout timeout) c)))"

section \<open>The registry of the server\<close>

text \<open>A factory with what it declares and its way to build a client, which does not change the world.\<close>

definition declared ::
  "ProviderType \<Rightarrow> provider_metadata \<Rightarrow> field_descriptor list \<Rightarrow> field_descriptor list \<Rightarrow> capabilities
   \<Rightarrow> (account_config \<Rightarrow> string \<Rightarrow> go_error + 'w provider) \<Rightarrow> 'w factory" where
  "declared t md credentials options caps build =
     \<lparr>f_Type = t, f_Metadata = md, f_CredentialDescriptor = credentials, f_AccountOptionsDescriptor = options,
      f_Capabilities = caps, f_Build = (\<lambda>config credential w. (w, build config credential))\<rparr>"

type_synonym 'w builder = "account_config \<Rightarrow> string \<Rightarrow> go_error + 'w provider"

definition server_factories :: "'w builder \<Rightarrow> 'w builder \<Rightarrow> 'w builder \<Rightarrow> 'w builder \<Rightarrow> 'w factory list" where
  "server_factories huawei aliyun tencent cloudflare =
     [declared ''huawei'' huawei_metadata huawei_credentials huawei_options huawei_capabilities huawei,
      declared ''aliyun'' aliyun_metadata aliyun_credentials [] aliyun_capabilities aliyun,
      declared ''tencent'' tencent_metadata tencent_credentials [] tencent_capabilities tencent,
      declared ''cloudflare'' cloudflare_metadata cloudflare_credentials [] cloudflare_capabilities cloudflare]"

lemma declared_simps [simp]:
  "f_Type (declared t md cs os caps b) = t" "f_Metadata (declared t md cs os caps b) = md"
  "f_CredentialDescriptor (declared t md cs os caps b) = cs" "f_AccountOptionsDescriptor (declared t md cs os caps b) = os"
  "f_Capabilities (declared t md cs os caps b) = caps"
  by (simp_all add: declared_def)


lemma trim_runes_keeps: "c \<in> set s \<Longrightarrow> \<forall>r \<in> set rs. c \<notin> set r \<Longrightarrow> c \<in> set (trim_runes rs s)"
proof (induction rs s rule: trim_runes.induct)
  case (1 rs s)
  show ?case
  proof (cases "find (\<lambda>r. r \<noteq> [] \<and> prefix r s) rs")
    case (Some r)
    then have r: "r \<in> set rs" "prefix r s" by (auto simp: find_Some_iff)
    with "1.prems" have "c \<in> set (drop (length r) s)" by (auto simp: prefix_def)
    from "1.IH" [OF Some this "1.prems"(2)] Some show ?thesis by (subst trim_runes.simps) simp
  qed (use 1 in \<open>subst trim_runes.simps, simp\<close>)
qed

lemma trim_nonblank: "list_ex solid s \<Longrightarrow> trim_space s \<noteq> []"
proof -
  assume "list_ex solid s"
  then obtain c where c: "c \<in> set s" "solid c" by (auto simp: list_ex_iff)
  have "\<forall>r \<in> set space_runes. c \<notin> set r" using c(2) by (auto simp: space_runes_def solid_def)
  then have "c \<in> set (trim_runes (map rev space_runes) (rev (trim_runes space_runes s)))"
    using c(1) trim_runes_keeps [of c s space_runes] by (intro trim_runes_keeps) auto
  then show "trim_space s \<noteq> []" by (auto simp: trim_space_def)
qed

text \<open>Texts with a visible ASCII character, which is quicker to see than the trimmed text.\<close>

definition visible_texts :: "texts \<Rightarrow> bool" where
  "visible_texts m \<longleftrightarrow> list_all (\<lambda>(lang, v). list_ex solid lang \<and> list_ex solid v) m"

lemma visible_texts_ok: "visible_texts m \<Longrightarrow> localized_text_ok m"
  by (auto simp: visible_texts_def localized_text_ok_def list_all_iff trim_nonblank)

definition visible_option :: "descriptor_option \<Rightarrow> bool" where
  "visible_option x \<longleftrightarrow> do_Value x \<noteq> [] \<and> list_ex solid (do_Label x) \<and> visible_texts (do_Labels x)"

lemma visible_options_ok:
  "list_all visible_option xs \<Longrightarrow> distinct (map do_Value xs) \<Longrightarrow> set (map do_Value xs) \<inter> set seen = {} \<Longrightarrow>
     enum_options key seen xs = Inr ()"
  by (induction xs arbitrary: seen) (auto simp: visible_option_def visible_texts_ok trim_nonblank)

lemma huawei_options_ok: "validate_options_descriptor huawei_options = Inr ()"
proof -
  have "list_all visible_option huaweiDNSRegionOptions"
    by (simp add: huaweiDNSRegionOptions_def huawei_region_ids_def visible_option_def visible_texts_def huawei_region_labels_def solid_def)
  moreover have "distinct (map do_Value huaweiDNSRegionOptions)" by code_simp
  ultimately have "enum_options ''region'' [] huaweiDNSRegionOptions = Inr ()" by (simp add: visible_options_ok)
  moreover have "visible_texts (fd_Labels (hd huawei_options))" "visible_texts (fd_Descriptions (hd huawei_options))"
    by (simp_all add: huawei_options_def visible_texts_def solid_def)
  moreover have "huaweiDNSRegionOptions \<noteq> []" by (simp add: huaweiDNSRegionOptions_def huawei_region_ids_def)
  moreover have "descriptor_key_ok ''region''" "\<not> sensitiveAccountOptionKey ''region''" "trim_space ''DNS region'' \<noteq> []"
    "localized_text_ok []" by code_simp+
  ultimately show ?thesis
    by (simp add: validate_options_descriptor_def huawei_options_def visible_texts_ok validateDescriptorValue_def)
qed

lemma server_declarations:
  "validate_credential_descriptor huawei_credentials = Inr ()" "validate_credential_descriptor aliyun_credentials = Inr ()"
  "validate_credential_descriptor tencent_credentials = Inr ()" "validate_credential_descriptor cloudflare_credentials = Inr ()"
  "validate_options_descriptor [] = Inr ()"
  "validate_capabilities huawei_capabilities = Inr ()" "validate_capabilities aliyun_capabilities = Inr ()"
  "validate_capabilities tencent_capabilities = Inr ()" "validate_capabilities cloudflare_capabilities = Inr ()"
  by code_simp+

lemma server_metadata:
  "localized_text_ok (md_DisplayNames huawei_metadata)" "localized_text_ok (md_DisplayNames aliyun_metadata)"
  "localized_text_ok (md_DisplayNames tencent_metadata)" "localized_text_ok (md_DisplayNames cloudflare_metadata)"
  by (simp_all add: visible_texts_ok visible_texts_def solid_def huawei_metadata_def aliyun_metadata_def tencent_metadata_def
      cloudflare_metadata_def)

lemma server_names:
  "provider_type_ok ''huawei''" "provider_type_ok ''aliyun''" "provider_type_ok ''tencent''" "provider_type_ok ''cloudflare''"
  "trim_space ''Huawei Cloud DNS'' \<noteq> []" "trim_space ''Alibaba Cloud DNS'' \<noteq> []"
  "trim_space ''Tencent Cloud DNSPod'' \<noteq> []" "trim_space ''Cloudflare DNS'' \<noteq> []"
  by (simp_all add: trim_nonblank solid_def) code_simp+

lemma server_namespaces:
  "find (\<lambda>x. xf_Namespace x \<noteq> ''huawei'') (cap_ExtensionFields huawei_capabilities) = None"
  "find (\<lambda>x. xf_Namespace x \<noteq> ''aliyun'') (cap_ExtensionFields aliyun_capabilities) = None"
  "find (\<lambda>x. xf_Namespace x \<noteq> ''tencent'') (cap_ExtensionFields tencent_capabilities) = None"
  "find (\<lambda>x. xf_Namespace x \<noteq> ''cloudflare'') (cap_ExtensionFields cloudflare_capabilities) = None"
  by code_simp+

definition documentation_urls :: "string list" where
  "documentation_urls = map md_DocumentationURL [huawei_metadata, aliyun_metadata, tencent_metadata, cloudflare_metadata]"

text \<open>C40: The registry accepts the four factories of the server, provided that their documentation links parse as the
  HTTPS URLs they are: with every declared field, option, language and capability checked. Every field of their
  credentials is secret and none of their account options is.
\<close>

theorem server_registry_builds:
  assumes "list_all (documentation_ok url_parse) documentation_urls"
  shows "(\<exists>r. NewRegistry url_parse (server_factories h a t c) = Inr r \<and> set (map snd r) = set (server_factories h a t c)
           \<and> set (map fst r) = {''huawei'', ''aliyun'', ''tencent'', ''cloudflare''})
         \<and> list_all (\<lambda>f. list_all fd_Secret (f_CredentialDescriptor f) \<and> list_all (\<lambda>o'. \<not> fd_Secret o') (f_AccountOptionsDescriptor f))
             (server_factories h a t c)"
proof
  have urls: "documentation_ok url_parse (md_DocumentationURL huawei_metadata)" "documentation_ok url_parse (md_DocumentationURL aliyun_metadata)"
    "documentation_ok url_parse (md_DocumentationURL tencent_metadata)" "documentation_ok url_parse (md_DocumentationURL cloudflare_metadata)"
    using assms by (simp_all add: documentation_urls_def)
  have types: "md_Type huawei_metadata = ''huawei''" "md_Type aliyun_metadata = ''aliyun''" "md_Type tencent_metadata = ''tencent''"
    "md_Type cloudflare_metadata = ''cloudflare''" "md_DisplayName huawei_metadata = ''Huawei Cloud DNS''"
    "md_DisplayName aliyun_metadata = ''Alibaba Cloud DNS''" "md_DisplayName tencent_metadata = ''Tencent Cloud DNSPod''"
    "md_DisplayName cloudflare_metadata = ''Cloudflare DNS''"
    by (simp_all add: huawei_metadata_def aliyun_metadata_def tencent_metadata_def cloudflare_metadata_def)
  have check: "list_all (\<lambda>f. check_factory url_parse f = Inr ()) (server_factories h a t c)"
    using urls server_metadata server_names server_namespaces server_declarations huawei_options_ok
    by (simp add: server_factories_def check_factory_def types relabel_def)
  then have "NewRegistry url_parse (server_factories h a t c) = Inr (rev (map (\<lambda>f. (f_Type f, f)) (server_factories h a t c)))"
    by (simp add: server_factories_def NewRegistry_def Register_def)
  then show "\<exists>r. NewRegistry url_parse (server_factories h a t c) = Inr r \<and> set (map snd r) = set (server_factories h a t c)
           \<and> set (map fst r) = {''huawei'', ''aliyun'', ''tencent'', ''cloudflare''}"
    by (auto simp: server_factories_def)
  show "list_all (\<lambda>f. list_all fd_Secret (f_CredentialDescriptor f) \<and> list_all (\<lambda>o'. \<not> fd_Secret o') (f_AccountOptionsDescriptor f))
             (server_factories h a t c)"
    by (simp add: server_factories_def huawei_credentials_def aliyun_credentials_def tencent_credentials_def cloudflare_credentials_def
        huawei_options_def secret_field_def)
qed

theorem server_registry_builds_witness:
  "\<exists>r. NewRegistry (\<lambda>s. if s \<in> set documentation_urls
         then Some \<lparr>url_Scheme = ''https'', url_Host = ''host'', url_User = None, url_RawQuery = [], url_Fragment = []\<rparr> else None)
       (server_factories (\<lambda>_ _. build_error ErrAuthentication []) (\<lambda>_ _. build_error ErrAuthentication [])
          (\<lambda>_ _. build_error ErrAuthentication []) (\<lambda>_ _. build_error ErrAuthentication [])) = Inr r
     \<and> set (map fst r) = {''huawei'', ''aliyun'', ''tencent'', ''cloudflare''}"
proof -
  let ?parse = "\<lambda>s. if s \<in> set documentation_urls
         then Some \<lparr>url_Scheme = ''https'', url_Host = ''host'', url_User = None, url_RawQuery = [], url_Fragment = []\<rparr> else None"
  have "list_all (documentation_ok ?parse) documentation_urls" by (auto simp: list_all_iff documentation_ok_def)
  from server_registry_builds [OF this] show ?thesis by blast
qed

section \<open>Building a client\<close>

text \<open>A client is built only of keys that are there, without the white space around them, before the context is done.\<close>

lemma build_keys_Inr:
  "build_keys ctx_err decoded missing k = Inr p \<longleftrightarrow>
     ctx_err = None \<and> (\<exists>keys. decoded = Inr keys \<and> kp_ID (trimmed_keys keys) \<noteq> [] \<and> kp_Secret (trimmed_keys keys) \<noteq> []
       \<and> k (trimmed_keys keys) = Inr p)"
  by (auto simp: build_keys_def built_def build_error_def Let_def split: option.splits sum.splits)

lemma cloudflare_Build_Inr:
  "cloudflare_Build new F c timeout ctx_err decoded = Inr p \<Longrightarrow>
     ctx_err = None \<and> (\<exists>raw. decoded = Inr raw \<and> trim_space raw \<noteq> []
       \<and> p = cloudflare_provider (new (trim_space raw) (request_timeout timeout)) F (request_timeout timeout) c)
     \<and> 0 < request_timeout timeout"
  by (auto simp: cloudflare_Build_def built_def build_error_def Let_def request_timeout_def defaultRequestTimeout_def one_second_def
      split: option.splits sum.splits if_splits)

end
