(* ===== verification/Spec2Isabelle.thy ===== *)
theory Spec2Isabelle
  imports Prelude Provider_Types Provider_Errors Base64 Sha256 Pagination Addresses Domain_Names
    Txt_Values Record_Json Record_Sets Fingerprints Descriptors Providers Fake_Provider
    Calls Audit_Events Service_Types Record_Cache Dns_Audit Dns_Reads Dns_Changes Dns_Properties
    Client_Runtime Client_Manager Call_Slots Provider_Accounts Zone_Sync Provider_Store Zone_Store
    Store_Changes Versioned_Rows Zone_Index Account_Writes Account_Audit Example_Deployment
    Roles Tokens Aes_Gcm Envelope Auth_Types Auth_Store Login_Limiter Auth_Service Auth_Sessions
    Auth_Users Auth_Login Auth_Settings Auth_Bootstrap Auth_Changes Auth_Invariants Auth_Security
    Auth_Logins Auth_Example Audit_Visibility
    Client_Ip Http_Middleware Http_Gate Routes Http_Example
    Redaction Cloudflare_Records Cloudflare_Contents Cloudflare_Groups Cloudflare_Calls Cloudflare_Reads
    Cloudflare_Changes Cloudflare_Pages Cloudflare_Safety Cloudflare_Example Factories
begin

text \<open>
  Verification of aster-dns, a control plane for DNS zones held at several providers. The Go program serves an
  HTTP API to a browser. Users log in with a password or a passkey and a second factor; operators connect accounts
  at DNS providers, whose credentials are kept encrypted in PostgreSQL, read and change record sets through
  the providers, and everybody who may can read the audit trail. The model is a shallow embedding: each Go function is a
  HOL function of the same name (with a prefix where two packages use one name), a struct is a record, an error
  value a constructor, an early return a branch. Operations with effects take the world and return it with an
  error or a result (\<open>Calls\<close>: \<open>attempt\<close>, \<open>seq\<close>, \<open>give\<close>, \<open>reject\<close>).

  Values and texts. \<open>Prelude\<close> has the Go functions on strings that the code uses (trimming, case, UTF-8), strings
  being lists of bytes; \<open>Base64\<close>, \<open>Sha256\<close> and \<open>Aes_Gcm\<close> define the codings and the cipher of the Go library;
  \<open>Addresses\<close> is \<open>net/netip\<close>. Times and durations are integers of nanoseconds, revisions and generations are words of
  64 bits, TTLs words of 32, priorities and ports words of 16.

  The core of providers, \<open>internal/provider\<close>. \<open>Provider_Types\<close> is the data model of \<open>contract.go\<close>;
  \<open>Provider_Errors\<close> is \<open>errors.go\<close>, \<open>Redaction\<close> is \<open>redact.go\<close>, \<open>Pagination\<close> is \<open>pagination.go\<close>;
  \<open>Domain_Names\<close>, \<open>Txt_Values\<close> and \<open>Record_Sets\<close> are \<open>domain.go\<close>; \<open>Record_Json\<close> and \<open>Fingerprints\<close> are \<open>fingerprint.go\<close> with the
  serialisation of \<open>encoding/json\<close>; \<open>Descriptors\<close> is \<open>descriptor.go\<close>; \<open>Providers\<close> is the interface, the registry of
  \<open>registry.go\<close>, and the contract of a provider that checks preconditions, a locale that \<open>Fake_Provider\<close>
  (\<open>fake/fake.go\<close>) interprets. Their lemmas: what normalisation accepts is canonical, when it is idempotent, a serialisation
  determines the content, a precondition matches the same content, descriptors accept exactly typed payloads.

  The adapter of Cloudflare, \<open>internal/provider/cloudflare\<close>. Cloudflare has single records, the core record sets.
  \<open>Cloudflare_Records\<close> is \<open>mapping.go\<close>; \<open>Cloudflare_Calls\<close> is the transport of \<open>provider.go\<close> with \<open>errors.go\<close>: retries,
  pages, cursors; \<open>Cloudflare_Reads\<close> and \<open>Cloudflare_Changes\<close> are the operations of \<open>provider.go\<close> and
  \<open>mutations.go\<close>. \<open>Cloudflare_Contents\<close> shows the round trip of contents, \<open>Cloudflare_Groups\<close> that grouping is a partition,
  \<open>Cloudflare_Pages\<close> that listings end and are complete, \<open>Cloudflare_Safety\<close> what a change checks, touches and
  returns. \<open>Factories\<close> is \<open>factory.go\<close> of the four adapters and the registry that \<open>app.go\<close> builds.

  The services, \<open>internal/service\<close>. \<open>Service_Types\<close> is \<open>provider_models.go\<close>; \<open>Record_Cache\<close>, \<open>Dns_Audit\<close>,
  \<open>Dns_Reads\<close> and \<open>Dns_Changes\<close> are \<open>dns.go\<close>; \<open>Client_Runtime\<close>, \<open>Client_Manager\<close> and \<open>Call_Slots\<close> are \<open>provider_clients.go\<close>;
  \<open>Provider_Accounts\<close> is \<open>provider_accounts.go\<close> and \<open>Zone_Sync\<close> is \<open>zone_sync.go\<close>; \<open>Audit_Events\<close> is \<open>audit/event.go\<close>. The
  record cache and the runtimes of clients both guard late results by a generation, the locale \<open>generation_guard\<close>; what other
  goroutines do while a call waits is an argument, and \<open>Call_Slots\<close> has the semaphores as a step relation over
  all interleavings. \<open>Dns_Properties\<close> states what a change promises for every repository and every provider.

  The store, \<open>internal/db\<close>. \<open>Provider_Store\<close> and \<open>Zone_Store\<close> (\<open>provider_store.go\<close>, \<open>audit_store.go\<close>) and
  \<open>Auth_Store\<close> (\<open>auth_*.go\<close>) have each SQL statement as a function on tables under the constraints of the
  migrations, and a list of faults that may strike at any statement; a transaction undoes its operation when it
  fails. \<open>Store_Changes\<close> and \<open>Auth_Changes\<close> are the abstract machines that all operations refine: from them come
  the invariants. \<open>Versioned_Rows\<close> is the contract of optimistic locking as two locales, \<open>Account_Writes\<close> interprets them for the
  update time and the credential revision of accounts, \<open>Zone_Index\<close> and \<open>Account_Audit\<close> say what a new zone index and a
  change of an account leave behind.

  Authentication, \<open>internal/auth\<close> and \<open>internal/crypto\<close>. \<open>Roles\<close>, \<open>Tokens\<close>, \<open>Login_Limiter\<close>, \<open>Auth_Types\<close> and
  \<open>Auth_Service\<close> are the parts that the operations share; \<open>Auth_Sessions\<close>, \<open>Auth_Users\<close>, \<open>Auth_Login\<close>,
  \<open>Auth_Settings\<close> and \<open>Auth_Bootstrap\<close> are the operations; \<open>Envelope\<close> is the encryption of secrets with its keyring.
  \<open>Auth_Invariants\<close> has the operations as one transition relation and the properties of all runs, \<open>Auth_Security\<close> and
  \<open>Auth_Logins\<close> what single operations have checked when they succeed, \<open>Audit_Visibility\<close> who sees which events.

  HTTP, \<open>internal/httpx\<close> and \<open>internal/api\<close>. \<open>Client_Ip\<close> and \<open>Http_Middleware\<close> are \<open>middleware.go\<close> and
  \<open>response.go\<close>, \<open>Http_Gate\<close> is \<open>auth/http.go\<close>, \<open>Routes\<close> has the route tables with the guards of each endpoint.

  Witnesses. \<open>Example_Deployment\<close>, \<open>Auth_Example\<close>, \<open>Http_Example\<close> and \<open>Cloudflare_Example\<close> are small
  instances on which the properties with hypotheses are applied.

  Loops and bounds. All loops end by themselves: those over lists and bytes by their structure, the page loops by the code's own
  limits (10,000 pages in the services, 1,000,000 in the adapter), reads of the adapter after three attempts, the
  client manager after three builds; these limits are the numbers of the code and no fuel beside them is used.

  Parameters. What is not in the repository is an argument of the definitions: the SDK of Cloudflare with its context and clock
  (\<open>cf_sdk\<close>) and the clients of the other SDKs; IDNA conversion and the Unicode case tables (\<open>text_env\<close>);
  \<open>json.Decoder\<close> and \<open>url.Parse\<close>; argon2id, TOTP and WebAuthn, random bytes, identifiers and the clock (\<open>auth_env\<close>,
  \<open>service_env\<close>); collation, \<open>ILIKE\<close> and \<open>jsonb\<close> of PostgreSQL (\<open>db_env\<close>, \<open>auth_db\<close>). Where a property relies on such code, what it
  relies on is a hypothesis with a witness: \<open>idna_laws\<close> (labels become letters, digits and hyphens and stay
  what they are), the pages of a documented API, reads that change nothing.

  Not modelled. The bodies of the HTTP handlers (\<open>internal/api\<close>) decode a request, call one service and encode
  its answer. \<open>updates.go\<close> asks for new releases over the network. The file server of the web interface, the
  configuration, the start of the server, the connection pool and the migrations are input and output. The adapters of
  Alibaba Cloud, Tencent Cloud and Huawei Cloud, apart from their factories, follow the same interface as that of
  Cloudflare; the services are verified for every provider. Log lines, the mutexes that make Go maps safe and the copies
  that protect slices have no counterpart in the functional model.
\<close>

end
